(* ===== verification/Nt5_Prelude.thy ===== *)
theory Nt5_Prelude
  imports Complex_Main "HOL-Library.AList"
begin

text \<open>
  Shared vocabulary of the development: the exceptions the Python code raises, the result type
  that carries them, and Python dictionaries.

  A Python \<^verbatim>\<open>dict\<close> keeps insertion order, and the adapter iterates over its dictionaries, so a
  dictionary is an association list: \<open>dict_set\<close> replaces the value of a present key in place and
  appends a new key at the end, \<open>dict_pop\<close> removes a key (\<^verbatim>\<open>d.pop(k, None)\<close>), \<open>dict_get\<close> is
  \<^verbatim>\<open>d.get(k)\<close>. These are the operations of the library theory on association lists.
\<close>

named_theorems dict_simps
named_theorems result_simps

section \<open>Exceptions and results\<close>

text \<open>
  The classes of exception the code raises or lets escape. Only the text of a \<^verbatim>\<open>ValueError\<close> is ever
  read by the code (it becomes the reason of a rejected order), so only that class carries one.
  \<^verbatim>\<open>UnicodeDecodeError\<close> and \<^verbatim>\<open>json.JSONDecodeError\<close> are subclasses of \<^verbatim>\<open>ValueError\<close>.
\<close>

datatype py_exc =
    ValueError string
  | TypeError
  | KeyError
  | IndexError
  | AttributeError
  | OverflowError
  | RuntimeError
  | ConnectionError
  | TimeoutError
  | AssertionError
  | GenericException

type_synonym 'a result = "py_exc + 'a"

fun is_value_error :: "py_exc \<Rightarrow> bool" where
  "is_value_error (ValueError _) = True"
| "is_value_error _ = False"

fun bindR :: "'a result \<Rightarrow> ('a \<Rightarrow> 'b result) \<Rightarrow> 'b result" where
  "bindR (Inl e) f = Inl e"
| "bindR (Inr x) f = f x"

lemma bindR_eq_Inr [result_simps]:
  "bindR r f = Inr y \<longleftrightarrow> (\<exists>x. r = Inr x \<and> f x = Inr y)"
  by (cases r) auto

lemma bindR_eq_Inl [result_simps]:
  "bindR r f = Inl e \<longleftrightarrow> r = Inl e \<or> (\<exists>x. r = Inr x \<and> f x = Inl e)"
  by (cases r) auto

lemma bindR_assoc: "bindR (bindR r f) g = bindR r (\<lambda>x. bindR (f x) g)"
  by (cases r) simp_all

lemma bindR_Inr_right [simp]: "bindR r Inr = r"
  by (cases r) simp_all

lemma bindR_cong [fundef_cong]:
  "r = r' \<Longrightarrow> (\<And>x. r' = Inr x \<Longrightarrow> f x = g x) \<Longrightarrow> bindR r f = bindR r' g"
  by (cases r') auto

text \<open>A comprehension whose body may raise: the first exception, in order, ends it.\<close>

fun traverse :: "('a \<Rightarrow> 'b result) \<Rightarrow> 'a list \<Rightarrow> 'b list result" where
  "traverse f [] = Inr []"
| "traverse f (x # xs) = bindR (f x) (\<lambda>y. bindR (traverse f xs) (\<lambda>ys. Inr (y # ys)))"

lemma traverse_eq_Inr [result_simps]:
  "traverse f xs = Inr ys \<longleftrightarrow> list_all2 (\<lambda>x y. f x = Inr y) xs ys"
  by (induction xs arbitrary: ys) (auto simp: result_simps list_all2_Cons1)

lemma traverse_cong [fundef_cong]:
  "xs = ys \<Longrightarrow> (\<And>x. x \<in> set ys \<Longrightarrow> f x = g x) \<Longrightarrow> traverse f xs = traverse g ys"
  by (induction xs arbitrary: ys) auto

lemma length_traverse: "traverse f xs = Inr ys \<Longrightarrow> length ys = length xs"
  by (simp add: result_simps list_all2_lengthD)

lemma traverse_InrE:
  assumes "traverse f xs = Inr ys" and "y \<in> set ys"
  obtains x where "x \<in> set xs" and "f x = Inr y"
  using assms by (fastforce simp: result_simps list_all2_conv_all_nth in_set_conv_nth)

lemma traverse_eq_Inl:
  "traverse f xs = Inl e \<Longrightarrow> \<exists>x \<in> set xs. f x = Inl e"
  by (induction xs) (auto simp: result_simps)

section \<open>Dictionaries\<close>

type_synonym ('k, 'v) dict = "('k \<times> 'v) list"

abbreviation dict_get :: "('k, 'v) dict \<Rightarrow> 'k \<Rightarrow> 'v option" where
  "dict_get \<equiv> map_of"

abbreviation dict_set :: "'k \<Rightarrow> 'v \<Rightarrow> ('k, 'v) dict \<Rightarrow> ('k, 'v) dict" where
  "dict_set \<equiv> AList.update"

abbreviation dict_pop :: "'k \<Rightarrow> ('k, 'v) dict \<Rightarrow> ('k, 'v) dict" where
  "dict_pop \<equiv> AList.delete"

abbreviation dict_keys :: "('k, 'v) dict \<Rightarrow> 'k list" where
  "dict_keys \<equiv> map fst"

abbreviation dict_values :: "('k, 'v) dict \<Rightarrow> 'v list" where
  "dict_values \<equiv> map snd"

text \<open>\<^verbatim>\<open>d[k]\<close>: a missing key raises.\<close>

definition dict_index :: "('k, 'v) dict \<Rightarrow> 'k \<Rightarrow> 'v result" where
  "dict_index d k = (case map_of d k of None \<Rightarrow> Inl KeyError | Some v \<Rightarrow> Inr v)"

text \<open>\<^verbatim>\<open>d.get(k, default)\<close>.\<close>

definition get_default :: "('k, 'v) dict \<Rightarrow> 'k \<Rightarrow> 'v \<Rightarrow> 'v" where
  "get_default d k dflt = (case dict_get d k of None \<Rightarrow> dflt | Some v \<Rightarrow> v)"

text \<open>An attribute of an object whose attributes are the entries of a dictionary.\<close>

definition attribute :: "('k, 'v) dict \<Rightarrow> 'k \<Rightarrow> 'v result" where
  "attribute d k = (case dict_get d k of None \<Rightarrow> Inl AttributeError | Some v \<Rightarrow> Inr v)"

lemma attribute_eq_Inr [result_simps]: "attribute d k = Inr v \<longleftrightarrow> dict_get d k = Some v"
  by (simp add: attribute_def split: option.splits)

lemma dict_index_eq_Inr [result_simps]: "dict_index d k = Inr v \<longleftrightarrow> map_of d k = Some v"
  by (simp add: dict_index_def split: option.splits)

lemma dict_index_eq_Inl [result_simps]:
  "dict_index d k = Inl e \<longleftrightarrow> map_of d k = None \<and> e = KeyError"
  by (auto simp add: dict_index_def split: option.splits)

lemma dict_get_set [dict_simps]: "map_of (dict_set k v d) = (map_of d)(k \<mapsto> v)"
  by (rule update_conv')

lemma dict_get_pop [dict_simps]: "map_of (dict_pop k d) = (map_of d)(k := None)"
  by (rule delete_conv')

lemma dict_keys_set [dict_simps]:
  "map fst (dict_set k v d) = (if k \<in> set (map fst d) then map fst d else map fst d @ [k])"
  by (rule update_keys)

lemma dict_keys_pop [dict_simps]: "map fst (dict_pop k d) = removeAll k (map fst d)"
  by (rule delete_keys)

lemma dict_pop_notin [dict_simps]: "k \<notin> set (map fst d) \<Longrightarrow> dict_pop k d = d"
  by (induction d) auto

lemma dict_set_notin [dict_simps]: "k \<notin> set (map fst d) \<Longrightarrow> dict_set k v d = d @ [(k, v)]"
  by (induction d) auto

lemma dict_pop_append [dict_simps]: "dict_pop k (d @ d') = dict_pop k d @ dict_pop k d'"
  by (simp add: AList.delete_eq)

lemma set_dict_pop [dict_simps]: "set (dict_pop k d) = {p \<in> set d. fst p \<noteq> k}"
  by (auto simp: AList.delete_eq)

lemma map_of_in_keys: "map_of d k = Some v \<Longrightarrow> k \<in> set (map fst d)"
  by (force dest: map_of_SomeD)

lemma in_keys_map_of: "k \<in> set (map fst d) \<Longrightarrow> \<exists>v. map_of d k = Some v"
  by (metis map_of_eq_None_iff not_None_eq set_map)

section \<open>List facts shared by the components\<close>

lemma find_Some_filter: "find P xs = Some x \<Longrightarrow> P x \<and> x \<in> set xs"
  by (auto simp: find_Some_iff)

lemma filter_singleton_ex1:
  "filter P xs = [x] \<Longrightarrow> P x \<and> x \<in> set xs \<and> (\<forall>y \<in> set xs. P y \<longrightarrow> y = x)"
proof -
  assume eq: "filter P xs = [x]"
  then have "set (filter P xs) = {x}" by simp
  then show ?thesis by auto
qed

lemma last_filter_in: "filter P xs \<noteq> [] \<Longrightarrow> last (filter P xs) \<in> set xs \<and> P (last (filter P xs))"
  using last_in_set by fastforce

end
