(* ===== verification/Registry.thy ===== *)
theory Registry
  imports Nt5_Prelude
begin

text \<open>
  The request and subscription registries (\<^verbatim>\<open>nautilus_mt5/common.py\<close>): \<^verbatim>\<open>Base\<close> maps request ids to
  names, handles and cancel callbacks; \<^verbatim>\<open>Subscriptions\<close> adds the last value of each subscription,
  \<^verbatim>\<open>Requests\<close> a future and a result list. Subclassing is record extension. Handles and cancel
  callbacks are opaque values. A future is opaque too: \<^verbatim>\<open>asyncio.Future()\<close> makes a fresh object, so
  \<open>requests_add\<close> takes the new object as an argument.

  The locale \<open>registry\<close> states what the client relies on (look up, insert, remove, and an insertion
  under a fresh id); it is interpreted on both registries at the end.
\<close>

section \<open>The base class\<close>

text \<open>A name is a string or a pair of strings (\<^verbatim>\<open>(str(instrument_id), tick_type)\<close>).\<close>

datatype rname = NStr string | NPair string string

fun name_truthy :: "rname \<Rightarrow> bool" where
  "name_truthy (NStr s) \<longleftrightarrow> s \<noteq> []"
| "name_truthy (NPair _ _) \<longleftrightarrow> True"

record ('h, 'c) base =
  req_id_to_name :: "(int, rname) dict"
  req_id_to_handle :: "(int, 'h) dict"
  req_id_to_cancel :: "(int, 'c) dict"

definition name_to_req_id :: "('h, 'c, 'z) base_scheme \<Rightarrow> rname option \<Rightarrow> int option" where
  "name_to_req_id b nm =
     (case nm of None \<Rightarrow> None
      | Some n \<Rightarrow> map_option fst (find (\<lambda>(rid, m). m = n) (req_id_to_name b)))"

definition validation_check :: "('h, 'c, 'z) base_scheme \<Rightarrow> int \<Rightarrow> rname \<Rightarrow> unit result" where
  "validation_check b rid nm =
     (if rid \<in> set (dict_keys (req_id_to_name b)) then Inl KeyError
      else if nm \<in> set (dict_values (req_id_to_name b)) then Inl KeyError
      else Inr ())"

definition add_req_id ::
    "int \<Rightarrow> rname \<Rightarrow> 'h \<Rightarrow> 'c \<Rightarrow> ('h, 'c, 'z) base_scheme \<Rightarrow> ('h, 'c, 'z) base_scheme result" where
  "add_req_id rid nm h c b =
     bindR (validation_check b rid nm) (\<lambda>_.
       Inr (b\<lparr>req_id_to_name := dict_set rid nm (req_id_to_name b),
              req_id_to_handle := dict_set rid h (req_id_to_handle b),
              req_id_to_cancel := dict_set rid c (req_id_to_cancel b)\<rparr>))"

definition remove_req_id :: "int \<Rightarrow> ('h, 'c, 'z) base_scheme \<Rightarrow> ('h, 'c, 'z) base_scheme" where
  "remove_req_id rid b =
     b\<lparr>req_id_to_name := dict_pop rid (req_id_to_name b),
       req_id_to_handle := dict_pop rid (req_id_to_handle b),
       req_id_to_cancel := dict_pop rid (req_id_to_cancel b)\<rparr>"

text \<open>\<^verbatim>\<open>Base.remove\<close>, which both subclasses override: here an id of 0 is an id like any other.\<close>

definition base_remove ::
    "int option \<Rightarrow> rname option \<Rightarrow> ('h, 'c, 'z) base_scheme \<Rightarrow> ('h, 'c, 'z) base_scheme" where
  "base_remove rid nm b =
     (case rid of
        Some r \<Rightarrow> remove_req_id r b
      | None \<Rightarrow> (case name_to_req_id b nm of None \<Rightarrow> b | Some r \<Rightarrow> remove_req_id r b))"

text \<open>\<^verbatim>\<open>Base.get_all\<close> calls the subclass's \<^verbatim>\<open>get\<close> on every id, in insertion order.\<close>

definition base_get_all ::
    "(int \<Rightarrow> 'e option result) \<Rightarrow> ('h, 'c, 'z) base_scheme \<Rightarrow> 'e option list result" where
  "base_get_all get b = traverse get (dict_keys (req_id_to_name b))"

text \<open>
  \<^verbatim>\<open>if not req_id: req_id = self._name_to_req_id(name)\<close>, the first lines of \<^verbatim>\<open>get\<close> and \<^verbatim>\<open>remove\<close>
  in both subclasses: an id of 0 is taken as absent.
\<close>

definition resolve_id :: "('h, 'c, 'z) base_scheme \<Rightarrow> int option \<Rightarrow> rname option \<Rightarrow> int option" where
  "resolve_id b rid nm =
     (case rid of
        Some r \<Rightarrow> (if r = 0 then name_to_req_id b nm else Some r)
      | None \<Rightarrow> name_to_req_id b nm)"

text \<open>The entry \<^verbatim>\<open>get\<close> finds: a nonzero id whose stored name is truthy.\<close>

definition present_name :: "('h, 'c, 'z) base_scheme \<Rightarrow> int option \<Rightarrow> rname option \<Rightarrow> (int \<times> rname) option" where
  "present_name b rid nm =
     (case resolve_id b rid nm of
        None \<Rightarrow> None
      | Some r \<Rightarrow>
          if r = 0 then None
          else (case dict_get (req_id_to_name b) r of
                  None \<Rightarrow> None
                | Some n \<Rightarrow> if name_truthy n then Some (r, n) else None))"

text \<open>
  Well-formed registries: the dictionaries have the same keys in the same order, no id or name
  twice, and no id or name that Python takes as false.
\<close>

definition base_wf :: "('h, 'c, 'z) base_scheme \<Rightarrow> bool" where
  "base_wf b \<longleftrightarrow>
     distinct (dict_keys (req_id_to_name b)) \<and> distinct (dict_values (req_id_to_name b)) \<and>
     dict_keys (req_id_to_handle b) = dict_keys (req_id_to_name b) \<and>
     dict_keys (req_id_to_cancel b) = dict_keys (req_id_to_name b) \<and>
     0 \<notin> set (dict_keys (req_id_to_name b)) \<and>
     (\<forall>n \<in> set (dict_values (req_id_to_name b)). name_truthy n)"

section \<open>Subscriptions\<close>

record ('h, 'c, 'l) subscriptions = "('h, 'c) base" +
  req_id_to_last :: "(int, 'l option) dict"

record ('h, 'c, 'l) subscription =
  sub_req_id :: int
  sub_name :: rname
  sub_handle :: 'h
  sub_cancel :: 'c
  sub_last :: "'l option"

definition subscriptions_empty :: "('h, 'c, 'l) subscriptions" where
  "subscriptions_empty =
     \<lparr>req_id_to_name = [], req_id_to_handle = [], req_id_to_cancel = [], req_id_to_last = []\<rparr>"

definition subscriptions_get ::
    "('h, 'c, 'l) subscriptions \<Rightarrow> int option \<Rightarrow> rname option
       \<Rightarrow> ('h, 'c, 'l) subscription option result" where
  "subscriptions_get s rid nm =
     (case present_name s rid nm of
        None \<Rightarrow> Inr None
      | Some (r, n) \<Rightarrow>
          bindR (dict_index (req_id_to_last s) r) (\<lambda>l.
          bindR (dict_index (req_id_to_handle s) r) (\<lambda>h.
          bindR (dict_index (req_id_to_cancel s) r) (\<lambda>c.
            Inr (Some \<lparr>sub_req_id = r, sub_name = n, sub_handle = h, sub_cancel = c, sub_last = l\<rparr>)))))"

definition subscriptions_add ::
    "int \<Rightarrow> rname \<Rightarrow> 'h \<Rightarrow> 'c \<Rightarrow> ('h, 'c, 'l) subscriptions
       \<Rightarrow> (('h, 'c, 'l) subscriptions \<times> ('h, 'c, 'l) subscription option) result" where
  "subscriptions_add rid nm h c s =
     bindR (add_req_id rid nm h c s) (\<lambda>s1.
       let s2 = s1\<lparr>req_id_to_last := dict_set rid None (req_id_to_last s1)\<rparr>
       in bindR (subscriptions_get s2 (Some rid) None) (\<lambda>e. Inr (s2, e)))"

definition subscriptions_remove ::
    "int option \<Rightarrow> rname option \<Rightarrow> ('h, 'c, 'l) subscriptions \<Rightarrow> ('h, 'c, 'l) subscriptions" where
  "subscriptions_remove rid nm s =
     (case resolve_id s rid nm of
        None \<Rightarrow> s
      | Some r \<Rightarrow>
          if r = 0 then s
          else (let s1 = remove_req_id r s
                in s1\<lparr>req_id_to_last := dict_pop r (req_id_to_last s1)\<rparr>))"

definition update_last :: "int \<Rightarrow> 'l \<Rightarrow> ('h, 'c, 'l) subscriptions \<Rightarrow> ('h, 'c, 'l) subscriptions" where
  "update_last rid v s = s\<lparr>req_id_to_last := dict_set rid (Some v) (req_id_to_last s)\<rparr>"

definition subscriptions_wf :: "('h, 'c, 'l) subscriptions \<Rightarrow> bool" where
  "subscriptions_wf s \<longleftrightarrow> base_wf s \<and> dict_keys (req_id_to_last s) = dict_keys (req_id_to_name s)"

section \<open>Requests\<close>

record ('h, 'c, 'f, 'r) requests = "('h, 'c) base" +
  req_id_to_future :: "(int, 'f) dict"
  req_id_to_result :: "(int, 'r list) dict"

record ('h, 'c, 'f, 'r) request =
  rq_req_id :: int
  rq_name :: rname
  rq_handle :: 'h
  rq_cancel :: 'c
  rq_future :: 'f
  rq_result :: "'r list"

definition requests_empty :: "('h, 'c, 'f, 'r) requests" where
  "requests_empty =
     \<lparr>req_id_to_name = [], req_id_to_handle = [], req_id_to_cancel = [],
      req_id_to_future = [], req_id_to_result = []\<rparr>"

definition get_futures :: "('h, 'c, 'f, 'r) requests \<Rightarrow> 'f list" where
  "get_futures s = dict_values (req_id_to_future s)"

definition requests_get ::
    "('h, 'c, 'f, 'r) requests \<Rightarrow> int option \<Rightarrow> rname option
       \<Rightarrow> ('h, 'c, 'f, 'r) request option result" where
  "requests_get s rid nm =
     (case present_name s rid nm of
        None \<Rightarrow> Inr None
      | Some (r, n) \<Rightarrow>
          bindR (dict_index (req_id_to_handle s) r) (\<lambda>h.
          bindR (dict_index (req_id_to_cancel s) r) (\<lambda>c.
          bindR (dict_index (req_id_to_future s) r) (\<lambda>f.
          bindR (dict_index (req_id_to_result s) r) (\<lambda>res.
            Inr (Some \<lparr>rq_req_id = r, rq_name = n, rq_handle = h, rq_cancel = c,
                       rq_future = f, rq_result = res\<rparr>))))))"

definition requests_add ::
    "'f \<Rightarrow> int \<Rightarrow> rname \<Rightarrow> 'h \<Rightarrow> 'c \<Rightarrow> ('h, 'c, 'f, 'r) requests
       \<Rightarrow> (('h, 'c, 'f, 'r) requests \<times> ('h, 'c, 'f, 'r) request option) result" where
  "requests_add fut rid nm h c s =
     bindR (add_req_id rid nm h c s) (\<lambda>s1.
       let s2 = s1\<lparr>req_id_to_future := dict_set rid fut (req_id_to_future s1),
                   req_id_to_result := dict_set rid [] (req_id_to_result s1)\<rparr>
       in bindR (requests_get s2 (Some rid) None) (\<lambda>e. Inr (s2, e)))"

definition requests_remove ::
    "int option \<Rightarrow> rname option \<Rightarrow> ('h, 'c, 'f, 'r) requests \<Rightarrow> ('h, 'c, 'f, 'r) requests" where
  "requests_remove rid nm s =
     (case resolve_id s rid nm of
        None \<Rightarrow> s
      | Some r \<Rightarrow>
          if r = 0 then s
          else (let s1 = remove_req_id r s
                in s1\<lparr>req_id_to_future := dict_pop r (req_id_to_future s1),
                      req_id_to_result := dict_pop r (req_id_to_result s1)\<rparr>))"

text \<open>
  \<^verbatim>\<open>request.result.append(x)\<close>: the list inside a \<^verbatim>\<open>Request\<close> is the registry's own list object, so
  appending to it updates the registry.
\<close>

definition result_append :: "int \<Rightarrow> 'r \<Rightarrow> ('h, 'c, 'f, 'r) requests \<Rightarrow> ('h, 'c, 'f, 'r) requests" where
  "result_append rid x s =
     (case dict_get (req_id_to_result s) rid of
        None \<Rightarrow> s
      | Some xs \<Rightarrow> s\<lparr>req_id_to_result := dict_set rid (xs @ [x]) (req_id_to_result s)\<rparr>)"

definition requests_wf :: "('h, 'c, 'f, 'r) requests \<Rightarrow> bool" where
  "requests_wf s \<longleftrightarrow>
     base_wf s \<and> dict_keys (req_id_to_future s) = dict_keys (req_id_to_name s) \<and>
     dict_keys (req_id_to_result s) = dict_keys (req_id_to_name s)"

section \<open>Lookup\<close>

lemma name_to_req_id_None [simp]: "name_to_req_id b None = None"
  by (simp add: name_to_req_id_def)

lemma name_to_req_id_eq_None:
  "name_to_req_id b (Some n) = None \<longleftrightarrow> n \<notin> set (dict_values (req_id_to_name b))"
  by (force simp: name_to_req_id_def find_None_iff)

lemma name_to_req_id_SomeD:
  "name_to_req_id b (Some n) = Some r \<Longrightarrow> (r, n) \<in> set (req_id_to_name b)"
  by (auto simp: name_to_req_id_def find_Some_iff) (metis nth_mem)

lemma name_to_req_id_wf:
  assumes "base_wf b"
  shows "name_to_req_id b (Some n) = Some r \<longleftrightarrow> dict_get (req_id_to_name b) r = Some n"
proof
  assume "name_to_req_id b (Some n) = Some r"
  then show "dict_get (req_id_to_name b) r = Some n"
    using assms name_to_req_id_SomeD by (fastforce simp: base_wf_def)
next
  assume "dict_get (req_id_to_name b) r = Some n"
  then have in_b: "(r, n) \<in> set (req_id_to_name b)" by (rule map_of_SomeD)
  then have "n \<in> set (dict_values (req_id_to_name b))" by force
  then have "name_to_req_id b (Some n) \<noteq> None" by (metis name_to_req_id_eq_None)
  then obtain r' where r': "name_to_req_id b (Some n) = Some r'" by auto
  then have "(r', n) \<in> set (req_id_to_name b)" by (rule name_to_req_id_SomeD)
  moreover have "inj_on snd (set (req_id_to_name b))"
    using assms by (simp add: base_wf_def distinct_map)
  ultimately have "(r', n) = (r, n)" using in_b by (metis inj_onD snd_conv)
  then have "r' = r" by simp
  with r' show "name_to_req_id b (Some n) = Some r" by simp
qed

lemma base_wf_truthy:
  "base_wf b \<Longrightarrow> dict_get (req_id_to_name b) r = Some n \<Longrightarrow> r \<noteq> 0 \<and> name_truthy n"
  by (auto simp: base_wf_def dest!: map_of_SomeD) force

lemma present_name_id:
  "base_wf b \<Longrightarrow> r \<noteq> 0 \<Longrightarrow>
   present_name b (Some r) nm = map_option (Pair r) (dict_get (req_id_to_name b) r)"
  by (auto simp: present_name_def resolve_id_def dest: base_wf_truthy split: option.splits)

lemma present_name_name:
  assumes "base_wf b"
  shows "present_name b None (Some n) = Some (r, m)
           \<longleftrightarrow> m = n \<and> dict_get (req_id_to_name b) r = Some n"
proof -
  have "present_name b None (Some n) = Some (r, m)
      \<longleftrightarrow> name_to_req_id b (Some n) = Some r \<and> r \<noteq> 0 \<and>
          dict_get (req_id_to_name b) r = Some m \<and> name_truthy m"
    by (auto simp: present_name_def resolve_id_def split: option.splits if_splits)
  with assms show ?thesis by (auto simp: name_to_req_id_wf dest: base_wf_truthy)
qed

lemma present_name_name_None:
  "base_wf b \<Longrightarrow>
   present_name b None (Some n) = None \<longleftrightarrow> n \<notin> set (dict_values (req_id_to_name b))"
proof -
  assume wf: "base_wf b"
  have "present_name b None (Some n) \<noteq> None \<longleftrightarrow> (\<exists>r. dict_get (req_id_to_name b) r = Some n)"
    using present_name_name [OF wf] by force
  also have "\<dots> \<longleftrightarrow> n \<in> set (dict_values (req_id_to_name b))"
    using wf by (force simp: base_wf_def dest: map_of_SomeD)
  finally show ?thesis by blast
qed

lemma present_name_dom:
  "base_wf b \<Longrightarrow> present_name b rid nm = Some (r, n) \<Longrightarrow> r \<in> set (dict_keys (req_id_to_name b))"
  by (auto simp: present_name_def split: option.splits if_splits dest: map_of_in_keys)

section \<open>Adding and removing keep the dictionaries together\<close>

definition may_add :: "int \<Rightarrow> rname \<Rightarrow> ('h, 'c, 'z) base_scheme \<Rightarrow> bool" where
  "may_add rid nm b \<longleftrightarrow>
     rid \<notin> set (dict_keys (req_id_to_name b)) \<and> nm \<notin> set (dict_values (req_id_to_name b))"

lemma add_req_id_dup: "\<not> may_add rid nm b \<Longrightarrow> add_req_id rid nm h c b = Inl KeyError"
  by (auto simp: add_req_id_def validation_check_def may_add_def)

lemma add_req_id_new:
  "may_add rid nm b \<Longrightarrow>
   add_req_id rid nm h c b =
     Inr (b\<lparr>req_id_to_name := dict_set rid nm (req_id_to_name b),
            req_id_to_handle := dict_set rid h (req_id_to_handle b),
            req_id_to_cancel := dict_set rid c (req_id_to_cancel b)\<rparr>)"
  by (auto simp: add_req_id_def validation_check_def may_add_def)

lemma base_wf_add:
  assumes "base_wf b" and "may_add rid nm b" and "rid \<noteq> 0" and "name_truthy nm"
    and "req_id_to_name b' = dict_set rid nm (req_id_to_name b)"
    and "req_id_to_handle b' = dict_set rid h (req_id_to_handle b)"
    and "req_id_to_cancel b' = dict_set rid c (req_id_to_cancel b)"
  shows "base_wf b'"
  using assms by (auto simp: base_wf_def may_add_def dict_simps simp del: set_map)

lemma base_wf_remove:
  assumes "base_wf b"
    and "req_id_to_name b' = dict_pop r (req_id_to_name b)"
    and "req_id_to_handle b' = dict_pop r (req_id_to_handle b)"
    and "req_id_to_cancel b' = dict_pop r (req_id_to_cancel b)"
  shows "base_wf b'"
proof -
  have "distinct (dict_values (dict_pop r (req_id_to_name b)))"
    using assms(1) by (auto simp: base_wf_def AList.delete_eq distinct_map_filter)
  then show ?thesis
    using assms by (auto simp: base_wf_def dict_simps distinct_removeAll)
qed

lemma resolve_id_nonzero: "r \<noteq> 0 \<Longrightarrow> resolve_id b (Some r) nm = Some r"
  by (simp add: resolve_id_def)

subsection \<open>Subscriptions\<close>

lemma subscriptions_empty_wf: "subscriptions_wf subscriptions_empty"
  by (simp add: subscriptions_wf_def base_wf_def subscriptions_empty_def)

lemma subscriptions_get_total:
  assumes "subscriptions_wf s"
  shows "\<exists>e. subscriptions_get s rid nm = Inr e \<and>
             map_option (\<lambda>x. (sub_req_id x, sub_name x)) e = present_name s rid nm"
proof (cases "present_name s rid nm")
  case None
  then show ?thesis by (simp add: subscriptions_get_def)
next
  case (Some p)
  obtain r n where p: "p = (r, n)" by (cases p)
  have "r \<in> set (dict_keys (req_id_to_name s))"
    using assms Some p present_name_dom by (auto simp: subscriptions_wf_def)
  then have "r \<in> set (dict_keys (req_id_to_last s))" "r \<in> set (dict_keys (req_id_to_handle s))"
    "r \<in> set (dict_keys (req_id_to_cancel s))"
    using assms by (simp_all only: subscriptions_wf_def base_wf_def)
  then obtain l h c where "dict_get (req_id_to_last s) r = Some l"
    "dict_get (req_id_to_handle s) r = Some h" "dict_get (req_id_to_cancel s) r = Some c"
    using in_keys_map_of by metis
  with Some p show ?thesis by (simp add: subscriptions_get_def dict_index_def)
qed

lemma subscriptions_add_new:
  assumes wf: "subscriptions_wf s" and new: "may_add rid nm s"
    and rid: "rid \<noteq> 0" and nm: "name_truthy nm"
  shows "\<exists>s' e. subscriptions_add rid nm h c s = Inr (s', Some e) \<and> subscriptions_wf s' \<and>
      req_id_to_name s' = req_id_to_name s @ [(rid, nm)] \<and>
      e = \<lparr>sub_req_id = rid, sub_name = nm, sub_handle = h, sub_cancel = c, sub_last = None\<rparr>"
proof -
  define s' where "s' = s\<lparr>req_id_to_name := dict_set rid nm (req_id_to_name s),
      req_id_to_handle := dict_set rid h (req_id_to_handle s),
      req_id_to_cancel := dict_set rid c (req_id_to_cancel s),
      req_id_to_last := dict_set rid None (req_id_to_last s)\<rparr>"
  have bwf: "base_wf s'"
    by (rule base_wf_add [of s rid nm]) (use wf new rid nm in \<open>auto simp: subscriptions_wf_def s'_def\<close>)
  have names: "req_id_to_name s' = req_id_to_name s @ [(rid, nm)]"
    using new by (simp add: s'_def may_add_def dict_simps)
  have wf': "subscriptions_wf s'"
    using bwf wf by (simp add: subscriptions_wf_def s'_def dict_simps)
  have "present_name s' (Some rid) None = Some (rid, nm)"
    using rid bwf by (simp add: present_name_id) (simp add: s'_def dict_simps)
  then have "subscriptions_get s' (Some rid) None =
      Inr (Some \<lparr>sub_req_id = rid, sub_name = nm, sub_handle = h, sub_cancel = c, sub_last = None\<rparr>)"
    by (simp add: subscriptions_get_def dict_index_def) (simp add: s'_def dict_simps)
  then show ?thesis
    using new wf' names by (simp add: subscriptions_add_def add_req_id_new Let_def s'_def)
qed

lemma subscriptions_add_dup: "\<not> may_add rid nm s \<Longrightarrow> subscriptions_add rid nm h c s = Inl KeyError"
  by (simp add: subscriptions_add_def add_req_id_dup)

lemma subscriptions_remove_wf:
  assumes "subscriptions_wf s"
  shows "subscriptions_wf (subscriptions_remove rid nm s)"
proof (cases "resolve_id s rid nm")
  case (Some r)
  have "base_wf (subscriptions_remove rid nm s)" if "r \<noteq> 0"
    by (rule base_wf_remove [of s _ r])
      (use assms Some that in \<open>auto simp: subscriptions_wf_def subscriptions_remove_def remove_req_id_def Let_def\<close>)
  with assms Some show ?thesis
    by (auto simp: subscriptions_wf_def subscriptions_remove_def remove_req_id_def Let_def dict_simps)
qed (use assms in \<open>simp add: subscriptions_remove_def\<close>)

lemma subscriptions_remove_names:
  "r \<noteq> 0 \<Longrightarrow> req_id_to_name (subscriptions_remove (Some r) nm s) = dict_pop r (req_id_to_name s)"
  by (simp add: subscriptions_remove_def resolve_id_nonzero remove_req_id_def Let_def)

lemma update_last_wf:
  "subscriptions_wf s \<Longrightarrow> r \<in> set (dict_keys (req_id_to_name s)) \<Longrightarrow> subscriptions_wf (update_last r v s)"
  by (simp add: subscriptions_wf_def base_wf_def update_last_def dict_simps)

subsection \<open>Requests\<close>

lemma requests_empty_wf: "requests_wf requests_empty"
  by (simp add: requests_wf_def base_wf_def requests_empty_def)

lemma requests_get_total:
  assumes "requests_wf s"
  shows "\<exists>e. requests_get s rid nm = Inr e \<and>
             map_option (\<lambda>x. (rq_req_id x, rq_name x)) e = present_name s rid nm"
proof (cases "present_name s rid nm")
  case None
  then show ?thesis by (simp add: requests_get_def)
next
  case (Some p)
  obtain r n where p: "p = (r, n)" by (cases p)
  have "r \<in> set (dict_keys (req_id_to_name s))"
    using assms Some p present_name_dom by (auto simp: requests_wf_def)
  then have "r \<in> set (dict_keys (req_id_to_handle s))" "r \<in> set (dict_keys (req_id_to_cancel s))"
    "r \<in> set (dict_keys (req_id_to_future s))" "r \<in> set (dict_keys (req_id_to_result s))"
    using assms by (simp_all only: requests_wf_def base_wf_def)
  then obtain h c f l where "dict_get (req_id_to_handle s) r = Some h"
    "dict_get (req_id_to_cancel s) r = Some c" "dict_get (req_id_to_future s) r = Some f"
    "dict_get (req_id_to_result s) r = Some l"
    using in_keys_map_of by metis
  with Some p show ?thesis by (simp add: requests_get_def dict_index_def)
qed

lemma requests_add_new:
  assumes wf: "requests_wf s" and new: "may_add rid nm s"
    and rid: "rid \<noteq> 0" and nm: "name_truthy nm"
  shows "\<exists>s' e. requests_add f rid nm h c s = Inr (s', Some e) \<and> requests_wf s' \<and>
      req_id_to_name s' = req_id_to_name s @ [(rid, nm)] \<and>
      req_id_to_future s' = req_id_to_future s @ [(rid, f)] \<and>
      e = \<lparr>rq_req_id = rid, rq_name = nm, rq_handle = h, rq_cancel = c, rq_future = f, rq_result = []\<rparr>"
proof -
  define s' where "s' = s\<lparr>req_id_to_name := dict_set rid nm (req_id_to_name s),
      req_id_to_handle := dict_set rid h (req_id_to_handle s),
      req_id_to_cancel := dict_set rid c (req_id_to_cancel s),
      req_id_to_future := dict_set rid f (req_id_to_future s),
      req_id_to_result := dict_set rid [] (req_id_to_result s)\<rparr>"
  have bwf: "base_wf s'"
    by (rule base_wf_add [of s rid nm]) (use wf new rid nm in \<open>auto simp: requests_wf_def s'_def\<close>)
  have names: "req_id_to_name s' = req_id_to_name s @ [(rid, nm)]"
    using new by (simp add: s'_def may_add_def dict_simps)
  have "rid \<notin> set (dict_keys (req_id_to_future s))"
    using new wf by (simp only: requests_wf_def may_add_def) blast
  then have futures: "req_id_to_future s' = req_id_to_future s @ [(rid, f)]"
    by (simp add: s'_def dict_simps)
  have wf': "requests_wf s'"
    using bwf wf by (simp add: requests_wf_def s'_def dict_simps)
  have "present_name s' (Some rid) None = Some (rid, nm)"
    using rid bwf by (simp add: present_name_id) (simp add: s'_def dict_simps)
  then have "requests_get s' (Some rid) None =
      Inr (Some \<lparr>rq_req_id = rid, rq_name = nm, rq_handle = h, rq_cancel = c,
                 rq_future = f, rq_result = []\<rparr>)"
    by (simp add: requests_get_def dict_index_def) (simp add: s'_def dict_simps)
  then show ?thesis
    using new wf' names futures by (simp add: requests_add_def add_req_id_new Let_def s'_def)
qed

lemma requests_add_dup: "\<not> may_add rid nm s \<Longrightarrow> requests_add f rid nm h c s = Inl KeyError"
  by (simp add: requests_add_def add_req_id_dup)

lemma requests_remove_wf:
  assumes "requests_wf s"
  shows "requests_wf (requests_remove rid nm s)"
proof (cases "resolve_id s rid nm")
  case (Some r)
  have "base_wf (requests_remove rid nm s)" if "r \<noteq> 0"
    by (rule base_wf_remove [of s _ r])
      (use assms Some that in \<open>auto simp: requests_wf_def requests_remove_def remove_req_id_def Let_def\<close>)
  with assms Some show ?thesis
    by (auto simp: requests_wf_def requests_remove_def remove_req_id_def Let_def dict_simps)
qed (use assms in \<open>simp add: requests_remove_def\<close>)

lemma requests_remove_names:
  "r \<noteq> 0 \<Longrightarrow> req_id_to_name (requests_remove (Some r) nm s) = dict_pop r (req_id_to_name s)"
  by (simp add: requests_remove_def resolve_id_nonzero remove_req_id_def Let_def)

lemma result_append_wf: "requests_wf s \<Longrightarrow> requests_wf (result_append r x s)"
proof (cases "dict_get (req_id_to_result s) r")
  case (Some xs)
  assume wf: "requests_wf s"
  have "r \<in> set (dict_keys (req_id_to_result s))" using Some by (rule map_of_in_keys)
  then have "r \<in> set (dict_keys (req_id_to_name s))" using wf by (simp only: requests_wf_def)
  with wf Some show ?thesis
    by (simp add: requests_wf_def base_wf_def result_append_def dict_simps)
qed (simp add: result_append_def)

lemma result_append_names [simp]: "req_id_to_name (result_append r x s) = req_id_to_name s"
  by (simp add: result_append_def split: option.splits)

section \<open>The interface\<close>

text \<open>
  What the client uses of either registry: \<open>get\<close>, \<open>ins\<close> and \<open>rem\<close>, seen through the dictionary
  of names. \<open>ident\<close> reads the id and the name of an entry.
\<close>

locale registry =
  fixes names :: "'s \<Rightarrow> (int, rname) dict"
    and inv :: "'s \<Rightarrow> bool"
    and get :: "'s \<Rightarrow> int option \<Rightarrow> rname option \<Rightarrow> 'e option result"
    and ins :: "int \<Rightarrow> rname \<Rightarrow> 'h \<Rightarrow> 'c \<Rightarrow> 's \<Rightarrow> ('s \<times> 'e option) result"
    and rem :: "int option \<Rightarrow> rname option \<Rightarrow> 's \<Rightarrow> 's"
    and ident :: "'e \<Rightarrow> int \<times> rname"
  assumes names_inj: "inv s \<Longrightarrow> distinct (dict_keys (names s)) \<and> distinct (dict_values (names s))"
    and get_by_id: "inv s \<Longrightarrow> r \<noteq> 0 \<Longrightarrow>
      \<exists>e. get s (Some r) nm = Inr e \<and> map_option ident e = map_option (Pair r) (map_of (names s) r)"
    and get_by_name: "inv s \<Longrightarrow>
      \<exists>e. get s None (Some n) = Inr e \<and>
          (\<forall>r m. map_option ident e = Some (r, m) \<longleftrightarrow> m = n \<and> map_of (names s) r = Some n)"
    and ins_new: "inv s \<Longrightarrow> r \<noteq> 0 \<Longrightarrow> name_truthy n \<Longrightarrow>
      r \<notin> set (dict_keys (names s)) \<Longrightarrow> n \<notin> set (dict_values (names s)) \<Longrightarrow>
      \<exists>s' e. ins r n h c s = Inr (s', Some e) \<and> inv s' \<and> names s' = names s @ [(r, n)] \<and>
             ident e = (r, n)"
    and ins_dup: "r \<in> set (dict_keys (names s)) \<or> n \<in> set (dict_values (names s)) \<Longrightarrow>
      ins r n h c s = Inl KeyError"
    and rem_inv: "inv s \<Longrightarrow> inv (rem rid nm s)"
    and rem_names: "r \<noteq> 0 \<Longrightarrow> names (rem (Some r) nm s) = dict_pop r (names s)"
begin

lemma ins_present:
  assumes "inv s" and "r \<noteq> 0" and "name_truthy n" and "ins r n h c s = Inr (s', e)"
  shows "r \<notin> set (dict_keys (names s)) \<and> n \<notin> set (dict_values (names s)) \<and>
         inv s' \<and> names s' = names s @ [(r, n)] \<and> map_option ident e = Some (r, n)"
proof -
  have new: "r \<notin> set (dict_keys (names s))" "n \<notin> set (dict_values (names s))"
    using assms(4) ins_dup [of r s n h c] by (force simp del: set_map)+
  show ?thesis using ins_new [OF assms(1-3) new, of h c] assms(4) new by auto
qed

lemma get_after_ins:
  assumes "inv s" and "r \<noteq> 0" and "name_truthy n" and "ins r n h c s = Inr (s', e)"
  shows "\<exists>x. get s' (Some r) nm = Inr (Some x) \<and> ident x = (r, n)"
    and "\<exists>x. get s' None (Some n) = Inr (Some x) \<and> ident x = (r, n)"
proof -
  note ins = ins_present [OF assms]
  have "map_of (names s) r = None" using ins by (simp add: map_of_eq_None_iff)
  then have get: "map_of (names s') r = Some n" using ins by (simp add: map_add_def)
  show "\<exists>x. get s' (Some r) nm = Inr (Some x) \<and> ident x = (r, n)"
    using get_by_id [of s' r nm] ins assms(2) get by auto
  show "\<exists>x. get s' None (Some n) = Inr (Some x) \<and> ident x = (r, n)"
  proof -
    obtain x where x: "get s' None (Some n) = Inr x"
      and iff: "\<forall>r m. map_option ident x = Some (r, m) \<longleftrightarrow> m = n \<and> map_of (names s') r = Some n"
      using get_by_name [of s' n] ins by metis
    from iff get have "map_option ident x = Some (r, n)" by blast
    with x show ?thesis by auto
  qed
qed

lemma get_other_after_ins:
  assumes "inv s" and "r \<noteq> 0" and "name_truthy n" and "ins r n h c s = Inr (s', e)"
    and "q \<noteq> 0" and "q \<noteq> r"
  shows "\<exists>x y. get s' (Some q) nm = Inr x \<and> get s (Some q) nm = Inr y \<and>
               map_option ident x = map_option ident y"
proof -
  have "map_of (names s') q = map_of (names s) q"
    using ins_present [OF assms(1-4)] assms(6) by (simp add: map_add_def split: option.splits)
  then show ?thesis
    using get_by_id [of s' q nm] get_by_id [of s q nm] ins_present [OF assms(1-4)] assms by force
qed

lemma get_after_rem:
  assumes "inv s" and "r \<noteq> 0"
  shows "get (rem (Some r) nm s) (Some r) nm' = Inr None"
  using get_by_id [of "rem (Some r) nm s" r nm'] rem_inv [OF assms(1)] rem_names assms
  by (auto simp: dict_simps)

lemma get_name_after_rem:
  assumes "inv s" and "r \<noteq> 0" and "get s (Some r) nm = Inr (Some e)"
  shows "get (rem (Some r) nm s) None (Some (snd (ident e))) = Inr None"
proof -
  have rn: "map_of (names s) r = Some (snd (ident e))"
    using get_by_id [OF assms(1,2), of nm] assms(3) by (cases "map_of (names s) r") auto
  have inj: "inj_on snd (set (names s))"
    using names_inj [OF assms(1)] by (auto simp: distinct_map)
  obtain x where x: "get (rem (Some r) nm s) None (Some (snd (ident e))) = Inr x"
    and iff: "\<forall>q m. map_option ident x = Some (q, m) \<longleftrightarrow>
       m = snd (ident e) \<and> map_of (names (rem (Some r) nm s)) q = Some (snd (ident e))"
    using get_by_name [OF rem_inv [OF assms(1)]] by metis
  have "map_of (names (rem (Some r) nm s)) q \<noteq> Some (snd (ident e))" for q
  proof
    assume "map_of (names (rem (Some r) nm s)) q = Some (snd (ident e))"
    then have "q \<noteq> r" "map_of (names s) q = Some (snd (ident e))"
      by (auto simp: rem_names [OF assms(2)] dict_simps split: if_splits)
    then show False using inj_onD [OF inj, of "(q, snd (ident e))" "(r, snd (ident e))"] rn
      by (auto dest: map_of_SomeD)
  qed
  then have "map_option ident x \<noteq> Some (q, m)" for q m using iff by metis
  then show ?thesis using x by (cases x) (simp, metis map_option_eq_Some surj_pair)
qed

lemma ins_after_rem:
  assumes "inv s" and "r \<noteq> 0" and "name_truthy n" and "map_of (names s) r = Some n"
  shows "\<exists>s' e. ins r n h c (rem (Some r) nm s) = Inr (s', Some e) \<and> ident e = (r, n)"
proof -
  let ?t = "rem (Some r) nm s"
  have names: "names ?t = dict_pop r (names s)" by (rule rem_names [OF assms(2)])
  have inj: "inj_on snd (set (names s))" and rn: "(r, n) \<in> set (names s)"
    using names_inj [OF assms(1)] assms(4) by (auto simp: distinct_map dest: map_of_SomeD)
  have "a = r" if "(a, n) \<in> set (names s)" for a
    using inj_onD [OF inj _ that rn] by simp
  then have "n \<notin> set (dict_values (names ?t))"
    by (auto simp: names dict_simps)
  moreover have "r \<notin> set (dict_keys (names ?t))" by (simp add: names dict_simps)
  ultimately show ?thesis
    using ins_new [OF rem_inv [OF assms(1)] assms(2,3)] by blast
qed

text \<open>
  The client hands out request ids from a counter that only grows. Such an id is never taken, so an
  insertion under it can fail on the name only.
\<close>

lemma ins_fresh:
  assumes "inv s" and "0 \<le> k" and "\<forall>r \<in> set (dict_keys (names s)). r \<le> k" and "name_truthy n"
    and "n \<notin> set (dict_values (names s))"
  shows "\<exists>s' e. ins (k + 1) n h c s = Inr (s', Some e) \<and> inv s' \<and>
                ident e = (k + 1, n) \<and> (\<forall>r \<in> set (dict_keys (names s')). r \<le> k + 1)"
proof -
  have "k + 1 \<notin> set (dict_keys (names s))" using assms(3) by force
  then obtain s' e where "ins (k + 1) n h c s = Inr (s', Some e)" "inv s'"
      "names s' = names s @ [(k + 1, n)]" "ident e = (k + 1, n)"
    using ins_new [OF assms(1), of "k + 1" n h c] assms(2,4,5) by auto
  then show ?thesis using assms(3) by force
qed

end

lemmas subscriptions_base = subscriptions_wf_def [THEN iffD1, THEN conjunct1]
lemmas requests_base = requests_wf_def [THEN iffD1, THEN conjunct1]

lemma subscriptions_get_by_id:
  "subscriptions_wf s \<Longrightarrow> r \<noteq> 0 \<Longrightarrow>
   \<exists>e. subscriptions_get s (Some r) nm = Inr e \<and>
       map_option (\<lambda>x. (sub_req_id x, sub_name x)) e = map_option (Pair r) (map_of (req_id_to_name s) r)"
  using subscriptions_get_total [of s "Some r" nm] present_name_id [OF subscriptions_base, of s r nm] by simp

lemma subscriptions_get_by_name:
  "subscriptions_wf s \<Longrightarrow>
   \<exists>e. subscriptions_get s None (Some n) = Inr e \<and>
       (\<forall>r m. map_option (\<lambda>x. (sub_req_id x, sub_name x)) e = Some (r, m)
              \<longleftrightarrow> m = n \<and> map_of (req_id_to_name s) r = Some n)"
proof -
  assume wf: "subscriptions_wf s"
  obtain e where get: "subscriptions_get s None (Some n) = Inr e"
    and ident: "map_option (\<lambda>x. (sub_req_id x, sub_name x)) e = present_name s None (Some n)"
    using subscriptions_get_total [OF wf] by blast
  show ?thesis
    by (rule exI [of _ e]) (simp only: get ident present_name_name [OF subscriptions_base [OF wf]] simp_thms)
qed

lemma subscriptions_ins:
  assumes "subscriptions_wf s" and "r \<noteq> 0" and "name_truthy n"
    and "r \<notin> set (dict_keys (req_id_to_name s))" and "n \<notin> set (dict_values (req_id_to_name s))"
  shows "\<exists>s' e. subscriptions_add r n h c s = Inr (s', Some e) \<and> subscriptions_wf s' \<and>
      req_id_to_name s' = req_id_to_name s @ [(r, n)] \<and> (sub_req_id e, sub_name e) = (r, n)"
  using subscriptions_add_new [of s r n h c] assms unfolding may_add_def by auto

lemma base_wf_names_inj:
  "base_wf b \<Longrightarrow> distinct (dict_keys (req_id_to_name b)) \<and> distinct (dict_values (req_id_to_name b))"
  by (simp add: base_wf_def)

interpretation subs: registry req_id_to_name subscriptions_wf subscriptions_get subscriptions_add
  subscriptions_remove "\<lambda>x. (sub_req_id x, sub_name x)"
  apply unfold_locales
        apply (erule base_wf_names_inj [OF subscriptions_base])
       apply (erule (1) subscriptions_get_by_id)
      apply (erule subscriptions_get_by_name)
     apply (erule (4) subscriptions_ins)
    apply (rule subscriptions_add_dup, unfold may_add_def, blast)
   apply (erule subscriptions_remove_wf)
  apply (erule subscriptions_remove_names)
  done

lemma requests_get_by_id:
  "requests_wf s \<Longrightarrow> r \<noteq> 0 \<Longrightarrow>
   \<exists>e. requests_get s (Some r) nm = Inr e \<and>
       map_option (\<lambda>x. (rq_req_id x, rq_name x)) e = map_option (Pair r) (map_of (req_id_to_name s) r)"
  using requests_get_total [of s "Some r" nm] present_name_id [OF requests_base, of s r nm] by simp

lemma requests_get_by_name:
  "requests_wf s \<Longrightarrow>
   \<exists>e. requests_get s None (Some n) = Inr e \<and>
       (\<forall>r m. map_option (\<lambda>x. (rq_req_id x, rq_name x)) e = Some (r, m)
              \<longleftrightarrow> m = n \<and> map_of (req_id_to_name s) r = Some n)"
proof -
  assume wf: "requests_wf s"
  obtain e where get: "requests_get s None (Some n) = Inr e"
    and ident: "map_option (\<lambda>x. (rq_req_id x, rq_name x)) e = present_name s None (Some n)"
    using requests_get_total [OF wf] by blast
  show ?thesis
    by (rule exI [of _ e]) (simp only: get ident present_name_name [OF requests_base [OF wf]] simp_thms)
qed

lemma requests_ins:
  assumes "requests_wf s" and "r \<noteq> 0" and "name_truthy n"
    and "r \<notin> set (dict_keys (req_id_to_name s))" and "n \<notin> set (dict_values (req_id_to_name s))"
  shows "\<exists>s' e. requests_add f r n h c s = Inr (s', Some e) \<and> requests_wf s' \<and>
      req_id_to_name s' = req_id_to_name s @ [(r, n)] \<and> (rq_req_id e, rq_name e) = (r, n)"
  using requests_add_new [of s r n f h c] assms unfolding may_add_def by auto

interpretation reqs: registry req_id_to_name requests_wf requests_get "requests_add f"
  requests_remove "\<lambda>x. (rq_req_id x, rq_name x)" for f
  apply unfold_locales
        apply (erule base_wf_names_inj [OF requests_base])
       apply (erule (1) requests_get_by_id)
      apply (erule requests_get_by_name)
     apply (erule (4) requests_ins)
    apply (rule requests_add_dup, unfold may_add_def, blast)
   apply (erule requests_remove_wf)
  apply (erule requests_remove_names)
  done

section \<open>Properties\<close>

lemma requests_get_name_as_id:
  assumes "requests_wf s" and "requests_get s None (Some n) = Inr (Some x)"
  shows "requests_get s (Some (rq_req_id x)) nm = Inr (Some x)"
proof -
  obtain p where p: "present_name s None (Some n) = Some p"
    using requests_get_total [OF assms(1), of None "Some n"] assms(2)
    by (cases "present_name s None (Some n)") auto
  then obtain r where r: "present_name s None (Some n) = Some (r, n)" "dict_get (req_id_to_name s) r = Some n"
    using present_name_name [OF requests_base [OF assms(1)], of n] by (metis surj_pair)
  then have "r \<noteq> 0" using base_wf_truthy [OF requests_base [OF assms(1)]] by blast
  then have "present_name s (Some r) nm = present_name s None (Some n)"
    using r present_name_id [OF requests_base [OF assms(1)], of r nm] by simp
  moreover have "rq_req_id x = r"
    using requests_get_total [OF assms(1), of None "Some n"] assms(2) r by auto
  ultimately show ?thesis using assms(2) by (simp add: requests_get_def)
qed

lemma requests_add_state:
  assumes "requests_add f r n h c s = Inr (s', e)"
  shows "may_add r n s" and
    "s' = s\<lparr>req_id_to_name := dict_set r n (req_id_to_name s),
      req_id_to_handle := dict_set r h (req_id_to_handle s),
      req_id_to_cancel := dict_set r c (req_id_to_cancel s),
      req_id_to_future := dict_set r f (req_id_to_future s),
      req_id_to_result := dict_set r [] (req_id_to_result s)\<rparr>"
proof -
  show new: "may_add r n s" using assms requests_add_dup by fastforce
  show "s' = s\<lparr>req_id_to_name := dict_set r n (req_id_to_name s),
      req_id_to_handle := dict_set r h (req_id_to_handle s),
      req_id_to_cancel := dict_set r c (req_id_to_cancel s),
      req_id_to_future := dict_set r f (req_id_to_future s),
      req_id_to_result := dict_set r [] (req_id_to_result s)\<rparr>"
    using assms by (simp add: requests_add_def add_req_id_new [OF new] Let_def bindR_eq_Inr)
qed

lemma requests_get_other:
  assumes "q \<noteq> 0" and "q \<noteq> r" and "requests_add f r n h c s = Inr (s', e)"
  shows "requests_get s' (Some q) nm = requests_get s (Some q) nm"
proof -
  note s' = requests_add_state(2) [OF assms(3)]
  have "present_name s' (Some q) nm = present_name s (Some q) nm"
    using assms(1,2) by (simp add: s' present_name_def resolve_id_def dict_simps)
  moreover have "present_name s (Some q) nm = Some p \<Longrightarrow> fst p = q" for p
    using assms(1) by (auto simp: present_name_def resolve_id_def split: option.splits if_splits)
  ultimately show ?thesis
    using assms(2)
    by (cases "present_name s (Some q) nm") (auto simp: requests_get_def dict_index_def s' dict_simps)
qed

text \<open>A request found by its name, in terms of the dictionaries; adding and removing others keeps it.\<close>

lemma requests_get_name_iff:
  assumes "requests_wf s"
  shows "requests_get s None (Some n) = Inr (Some q) \<longleftrightarrow>
    rq_name q = n \<and> dict_get (req_id_to_name s) (rq_req_id q) = Some n \<and>
    dict_get (req_id_to_handle s) (rq_req_id q) = Some (rq_handle q) \<and>
    dict_get (req_id_to_cancel s) (rq_req_id q) = Some (rq_cancel q) \<and>
    dict_get (req_id_to_future s) (rq_req_id q) = Some (rq_future q) \<and>
    dict_get (req_id_to_result s) (rq_req_id q) = Some (rq_result q)"
proof
  assume get: "requests_get s None (Some n) = Inr (Some q)"
  then obtain r m where p: "present_name s None (Some n) = Some (r, m)"
    by (cases "present_name s None (Some n)") (auto simp: requests_get_def)
  then have "m = n" "dict_get (req_id_to_name s) r = Some n"
    using present_name_name [OF requests_base [OF assms]] by blast+
  then show "rq_name q = n \<and> dict_get (req_id_to_name s) (rq_req_id q) = Some n \<and>
    dict_get (req_id_to_handle s) (rq_req_id q) = Some (rq_handle q) \<and>
    dict_get (req_id_to_cancel s) (rq_req_id q) = Some (rq_cancel q) \<and>
    dict_get (req_id_to_future s) (rq_req_id q) = Some (rq_future q) \<and>
    dict_get (req_id_to_result s) (rq_req_id q) = Some (rq_result q)"
    using get p by (auto simp: requests_get_def bindR_eq_Inr dict_index_eq_Inr)
next
  assume a: "rq_name q = n \<and> dict_get (req_id_to_name s) (rq_req_id q) = Some n \<and>
    dict_get (req_id_to_handle s) (rq_req_id q) = Some (rq_handle q) \<and>
    dict_get (req_id_to_cancel s) (rq_req_id q) = Some (rq_cancel q) \<and>
    dict_get (req_id_to_future s) (rq_req_id q) = Some (rq_future q) \<and>
    dict_get (req_id_to_result s) (rq_req_id q) = Some (rq_result q)"
  then have "present_name s None (Some n) = Some (rq_req_id q, n)"
    using present_name_name [OF requests_base [OF assms]] by blast
  then show "requests_get s None (Some n) = Inr (Some q)"
    using a by (simp add: requests_get_def dict_index_def)
qed

lemma request_kept_by_add:
  assumes "requests_wf s" and "requests_get s None (Some n) = Inr (Some q)"
    and "requests_add f r n' h c s = Inr (s', e)" and "r \<noteq> 0" and "name_truthy n'"
  shows "requests_get s' None (Some n) = Inr (Some q)"
proof -
  note s' = requests_add_state(2) [OF assms(3)]
  have wf': "requests_wf s'" using reqs.ins_present [OF assms(1,4,5,3)] by blast
  have "dict_get (req_id_to_name s) (rq_req_id q) = Some n"
    using assms(2) requests_get_name_iff [OF assms(1)] by blast
  then have "rq_req_id q \<in> set (dict_keys (req_id_to_name s))" by (rule map_of_in_keys)
  then have "rq_req_id q \<noteq> r"
    using requests_add_state(1) [OF assms(3)] unfolding may_add_def by blast
  then show ?thesis
    using assms(2) unfolding requests_get_name_iff [OF wf'] requests_get_name_iff [OF assms(1)]
    by (simp add: s' dict_simps)
qed

lemma request_kept_by_remove:
  assumes "requests_wf s" and "requests_get s None (Some n) = Inr (Some q)"
    and "r \<noteq> 0" and "r \<noteq> rq_req_id q"
  shows "requests_get (requests_remove (Some r) nm s) None (Some n) = Inr (Some q)"
  using assms(2-4)
  unfolding requests_get_name_iff [OF requests_remove_wf [OF assms(1)]] requests_get_name_iff [OF assms(1)]
  by (simp add: requests_remove_def resolve_id_nonzero remove_req_id_def Let_def dict_simps)

lemma requests_remove_add:
  assumes "requests_wf s" and "r \<noteq> 0" and "requests_add f r n h c s = Inr (s', e)"
  shows "requests_remove (Some r) nm s' = s"
proof -
  note new = requests_add_state(1) [OF assms(3)] and s' = requests_add_state(2) [OF assms(3)]
  have "r \<notin> set (dict_keys (req_id_to_name s))" using new by (simp only: may_add_def) blast
  then have "r \<notin> set (dict_keys (req_id_to_name s))" "r \<notin> set (dict_keys (req_id_to_handle s))"
    "r \<notin> set (dict_keys (req_id_to_cancel s))" "r \<notin> set (dict_keys (req_id_to_future s))"
    "r \<notin> set (dict_keys (req_id_to_result s))"
    using assms(1) by (simp_all only: requests_wf_def base_wf_def not_False_eq_True)
  then show ?thesis
    using assms(2)
    by (simp add: s' requests_remove_def resolve_id_nonzero remove_req_id_def Let_def dict_simps)
qed

text \<open>
  Adding a request under a nonzero id and a nonempty name either fails with \<^verbatim>\<open>KeyError\<close>, exactly
  when the id or the name is taken, or gives a well-formed registry in which the new request, with
  its future and an empty result, is found by id and by name, every other request is unchanged,
  and removing it again restores the registry there was.
\<close>

theorem requests_add_correct:
  assumes "requests_wf s" and "r \<noteq> 0" and "name_truthy n"
  shows "case requests_add f r n h c s of
      Inl e \<Rightarrow> e = KeyError \<and> (r \<in> set (dict_keys (req_id_to_name s)) \<or> n \<in> set (dict_values (req_id_to_name s)))
    | Inr (s', e) \<Rightarrow>
        requests_wf s' \<and>
        e = Some \<lparr>rq_req_id = r, rq_name = n, rq_handle = h, rq_cancel = c, rq_future = f, rq_result = []\<rparr> \<and>
        requests_get s' (Some r) None = Inr e \<and> requests_get s' None (Some n) = Inr e \<and>
        (\<forall>q. q = 0 \<or> q = r \<or> requests_get s' (Some q) None = requests_get s (Some q) None) \<and>
        requests_remove (Some r) None s' = s"
proof (cases "requests_add f r n h c s")
  case (Inl e)
  have "\<not> may_add r n s" using Inl requests_add_new [OF assms(1) _ assms(2,3), of f h c] by force
  then show ?thesis using Inl requests_add_dup [of r n s f h c] unfolding may_add_def by auto
next
  case (Inr p)
  obtain s' e where p: "requests_add f r n h c s = Inr (s', e)" using Inr by (cases p) simp
  have new: "may_add r n s" using p requests_add_dup by fastforce
  let ?e = "\<lparr>rq_req_id = r, rq_name = n, rq_handle = h, rq_cancel = c, rq_future = f, rq_result = []\<rparr>"
  have wf: "requests_wf s'" and e: "e = Some ?e"
    using requests_add_new [OF assms(1) new assms(2,3), of f h c] p by auto
  have id: "requests_get s' (Some r) None = Inr e"
    using p by (auto simp: requests_add_def Let_def bindR_eq_Inr)
  obtain x where x: "requests_get s' None (Some n) = Inr (Some x)" "rq_req_id x = r"
    using reqs.get_after_ins(2) [OF assms p] by auto
  then have "e = Some x" using requests_get_name_as_id [OF wf x(1), of None] id by simp
  then show ?thesis
    using p wf e id x requests_get_other [OF _ _ p] requests_remove_add [OF assms(1,2) p]
    by auto
qed

lemma requests_add_correct_witness:
  "case requests_add (7 :: nat) 1 (NStr ''accounts'') True () (requests_empty :: (bool, unit, nat, int) requests) of
      Inl e \<Rightarrow> False
    | Inr (s', e) \<Rightarrow>
        requests_get s' None (Some (NStr ''accounts'')) = Inr e \<and>
        requests_remove (Some 1) None s' = requests_empty"
  using requests_add_correct [where s = "requests_empty :: (bool, unit, nat, int) requests"
      and r = 1 and n = "NStr ''accounts''" and f = 7 and h = True and c = "()"]
  by (auto simp: requests_empty_wf split: sum.splits) (auto simp: requests_empty_def)

lemma subscriptions_get_last:
  assumes wf: "subscriptions_wf s" and r: "r \<noteq> 0" and e: "subscriptions_get s (Some r) nm = Inr (Some e)"
  shows "subscriptions_wf (update_last r v s)"
    and "subscriptions_get (update_last r v s) (Some r) nm = Inr (Some (e\<lparr>sub_last := Some v\<rparr>))"
proof -
  have "r \<in> set (dict_keys (req_id_to_name s))"
    using subscriptions_get_by_id [OF wf r, of nm] e
    by (cases "map_of (req_id_to_name s) r") (auto dest: map_of_in_keys)
  then show "subscriptions_wf (update_last r v s)" using update_last_wf [OF wf] by blast
  show "subscriptions_get (update_last r v s) (Some r) nm = Inr (Some (e\<lparr>sub_last := Some v\<rparr>))"
    using e r
    by (auto simp: subscriptions_get_def present_name_def resolve_id_def update_last_def
        dict_index_def dict_simps bindR_eq_Inr split: option.splits if_splits)
qed

text \<open>
  Storing a last value for a subscription that is there keeps the registry well formed, and the
  subscription then carries that value and is otherwise unchanged, while after its removal it is
  found neither by id nor by its name.
\<close>

theorem subscription_update_remove:
  assumes "subscriptions_wf s" and "r \<noteq> 0" and "subscriptions_get s (Some r) None = Inr (Some e)"
  shows "subscriptions_wf (update_last r v s) \<and>
    subscriptions_get (update_last r v s) (Some r) None = Inr (Some (e\<lparr>sub_last := Some v\<rparr>)) \<and>
    subscriptions_get (subscriptions_remove (Some r) None s) (Some r) None = Inr None \<and>
    subscriptions_get (subscriptions_remove (Some r) None s) None (Some (sub_name e)) = Inr None"
  using subscriptions_get_last [OF assms] subs.get_after_rem [OF assms(1,2)]
    subs.get_name_after_rem [OF assms] by simp

lemma subscription_update_remove_witness:
  "\<exists>s e. subscriptions_add 3 (NPair ''EURUSD'' ''BidAsk'') True () subscriptions_empty = Inr (s, Some e) \<and>
     subscriptions_get (update_last 3 (5 :: int) s) (Some 3) None = Inr (Some (e\<lparr>sub_last := Some 5\<rparr>)) \<and>
     subscriptions_get (subscriptions_remove (Some 3) None s) None (Some (NPair ''EURUSD'' ''BidAsk''))
       = Inr None"
proof -
  let ?n = "NPair ''EURUSD'' ''BidAsk''" and ?s = "subscriptions_empty :: (bool, unit, int) subscriptions"
  have "may_add 3 ?n ?s" by (simp add: may_add_def subscriptions_empty_def)
  then obtain s e where s: "subscriptions_add 3 ?n True () ?s = Inr (s, Some e)" "subscriptions_wf s"
      and e: "e = \<lparr>sub_req_id = 3, sub_name = ?n, sub_handle = True, sub_cancel = (), sub_last = None\<rparr>"
    using subscriptions_add_new [OF subscriptions_empty_wf, of 3 ?n True "()"] by auto
  have get: "subscriptions_get s (Some 3) None = Inr (Some e)"
    using s(1) by (auto simp: subscriptions_add_def Let_def bindR_eq_Inr)
  show ?thesis
    using subscription_update_remove [OF s(2) _ get, of 5] s(1) e by fastforce
qed

lemma subscriptions_add_state:
  assumes "subscriptions_add r n h c s = Inr (s', e)"
  shows "may_add r n s" and
    "s' = s\<lparr>req_id_to_name := dict_set r n (req_id_to_name s),
      req_id_to_handle := dict_set r h (req_id_to_handle s),
      req_id_to_cancel := dict_set r c (req_id_to_cancel s),
      req_id_to_last := dict_set r None (req_id_to_last s)\<rparr>"
proof -
  show new: "may_add r n s" using assms subscriptions_add_dup by fastforce
  show "s' = s\<lparr>req_id_to_name := dict_set r n (req_id_to_name s),
      req_id_to_handle := dict_set r h (req_id_to_handle s),
      req_id_to_cancel := dict_set r c (req_id_to_cancel s),
      req_id_to_last := dict_set r None (req_id_to_last s)\<rparr>"
    using assms by (simp add: subscriptions_add_def add_req_id_new [OF new] Let_def bindR_eq_Inr)
qed

lemma subscriptions_get_other:
  assumes "q \<noteq> 0" and "q \<noteq> r" and "subscriptions_add r n h c s = Inr (s', e)"
  shows "subscriptions_get s' (Some q) nm = subscriptions_get s (Some q) nm"
proof -
  note s' = subscriptions_add_state(2) [OF assms(3)]
  have "present_name s' (Some q) nm = present_name s (Some q) nm"
    using assms(1,2) by (simp add: s' present_name_def resolve_id_def dict_simps)
  moreover have "present_name s (Some q) nm = Some p \<Longrightarrow> fst p = q" for p
    using assms(1) by (auto simp: present_name_def resolve_id_def split: option.splits if_splits)
  ultimately show ?thesis
    using assms(2)
    by (cases "present_name s (Some q) nm") (auto simp: subscriptions_get_def dict_index_def s' dict_simps)
qed

lemma subscriptions_remove_add:
  assumes "subscriptions_wf s" and "r \<noteq> 0" and "subscriptions_add r n h c s = Inr (s', e)"
  shows "subscriptions_remove (Some r) nm s' = s"
proof -
  note new = subscriptions_add_state(1) [OF assms(3)] and s' = subscriptions_add_state(2) [OF assms(3)]
  have "r \<notin> set (dict_keys (req_id_to_name s))" using new by (simp only: may_add_def) blast
  then have "r \<notin> set (dict_keys (req_id_to_name s))" "r \<notin> set (dict_keys (req_id_to_handle s))"
    "r \<notin> set (dict_keys (req_id_to_cancel s))" "r \<notin> set (dict_keys (req_id_to_last s))"
    using assms(1) by (simp_all only: subscriptions_wf_def base_wf_def not_False_eq_True)
  then show ?thesis
    using assms(2)
    by (simp add: s' subscriptions_remove_def resolve_id_nonzero remove_req_id_def Let_def dict_simps)
qed

lemma subscriptions_add_get:
  "subscriptions_add r n h c s = Inr (s', e) \<Longrightarrow> subscriptions_get s' (Some r) None = Inr e"
  by (auto simp: subscriptions_add_def Let_def bindR_eq_Inr)

lemma subscriptions_get_name_as_id:
  assumes "subscriptions_wf s" and "subscriptions_get s None (Some n) = Inr (Some x)"
  shows "subscriptions_get s (Some (sub_req_id x)) nm = Inr (Some x)"
proof -
  obtain p where p: "present_name s None (Some n) = Some p"
    using subscriptions_get_total [OF assms(1), of None "Some n"] assms(2)
    by (cases "present_name s None (Some n)") auto
  then obtain r where r: "present_name s None (Some n) = Some (r, n)" "dict_get (req_id_to_name s) r = Some n"
    using present_name_name [OF subscriptions_base [OF assms(1)], of n] by (metis surj_pair)
  then have "r \<noteq> 0" using base_wf_truthy [OF subscriptions_base [OF assms(1)]] by blast
  then have "present_name s (Some r) nm = present_name s None (Some n)"
    using r present_name_id [OF subscriptions_base [OF assms(1)], of r nm] by simp
  moreover have "sub_req_id x = r"
    using subscriptions_get_total [OF assms(1), of None "Some n"] assms(2) r by auto
  ultimately show ?thesis using assms(2) by (simp add: subscriptions_get_def)
qed

end
