(* ===== verification/Py_Num.thy ===== *)
theory Py_Num
  imports Py_Text "HOL-Library.Log_Nat"
begin

text \<open>
  Python numbers. A Python \<^verbatim>\<open>int\<close> is unbounded: \<open>int\<close>. A Python \<^verbatim>\<open>float\<close> is an IEEE 754 binary64
  value: a finite one is kept as the rational it denotes (the two zeros are one value, which no
  operation of the adapter tells apart), with the two infinities and NaN beside it.

  \<open>\<le>\<close> and \<open><\<close> on \<open>pyfloat\<close> are Python's comparisons, false whenever a NaN is compared;
  \<open>feq\<close> is Python's \<^verbatim>\<open>==\<close>. \<open>rnd64\<close> rounds a rational to the nearest binary64 value, ties to even,
  overflowing to an infinity, as every arithmetic operation and every conversion does.
\<close>

section \<open>Values and comparisons\<close>

datatype pyfloat = Fin rat | PosInf | NegInf | NaN

instantiation pyfloat :: "{zero, one, ord}"
begin

definition zero_pyfloat :: pyfloat where
  "zero_pyfloat = Fin 0"

definition one_pyfloat :: pyfloat where
  "one_pyfloat = Fin 1"

fun less_eq_pyfloat :: "pyfloat \<Rightarrow> pyfloat \<Rightarrow> bool" where
  "less_eq_pyfloat NaN y = False"
| "less_eq_pyfloat x NaN = False"
| "less_eq_pyfloat NegInf y = True"
| "less_eq_pyfloat x PosInf = True"
| "less_eq_pyfloat (Fin a) (Fin b) = (a \<le> b)"
| "less_eq_pyfloat PosInf y = False"
| "less_eq_pyfloat x NegInf = False"

fun less_pyfloat :: "pyfloat \<Rightarrow> pyfloat \<Rightarrow> bool" where
  "less_pyfloat NaN y = False"
| "less_pyfloat x NaN = False"
| "less_pyfloat (Fin a) (Fin b) = (a < b)"
| "less_pyfloat NegInf y = (y \<noteq> NegInf)"
| "less_pyfloat x PosInf = (x \<noteq> PosInf)"
| "less_pyfloat x y = False"

instance ..

end

fun feq :: "pyfloat \<Rightarrow> pyfloat \<Rightarrow> bool" where
  "feq NaN y = False"
| "feq x y = (x = y)"

text \<open>\<^verbatim>\<open>bool(x)\<close>: zero is the only false float (a NaN is true).\<close>

definition ftruthy :: "pyfloat \<Rightarrow> bool" where
  "ftruthy x \<longleftrightarrow> x \<noteq> 0"

lemma feq_iff [simp]: "feq x y \<longleftrightarrow> x = y \<and> x \<noteq> NaN"
  by (cases x) auto

lemma feq_zero [simp]: "feq x 0 \<longleftrightarrow> x = 0"
  by (auto simp: zero_pyfloat_def)

lemma Fin_le_zero [simp]: "Fin q \<le> 0 \<longleftrightarrow> q \<le> 0"
  and zero_le_Fin [simp]: "0 \<le> Fin q \<longleftrightarrow> 0 \<le> q"
  and zero_less_Fin [simp]: "0 < Fin q \<longleftrightarrow> 0 < q"
  and Fin_less_zero [simp]: "Fin q < 0 \<longleftrightarrow> q < 0"
  by (simp_all add: zero_pyfloat_def)

lemma not_le_zero_iff: "\<not> x \<le> (0 :: pyfloat) \<longleftrightarrow> 0 < x \<or> x = NaN"
  by (cases x) (auto simp: zero_pyfloat_def)

lemma less_imp_not_le_zero: "0 < (x :: pyfloat) \<Longrightarrow> \<not> x \<le> 0"
  by (simp add: not_le_zero_iff)

lemma pyfloat_le_cases:
  "x \<noteq> NaN \<Longrightarrow> y \<noteq> NaN \<Longrightarrow> \<not> y < x \<Longrightarrow> (x :: pyfloat) \<le> y"
  by (cases x; cases y) auto

section \<open>Rounding to binary64\<close>

definition pow2 :: "int \<Rightarrow> rat" where
  "pow2 k = (if 0 \<le> k then 2 ^ nat k else 1 / 2 ^ nat (- k))"

definition floor_log2 :: "rat \<Rightarrow> int" where
  "floor_log2 q =
     (case quotient_of q of (a, b) \<Rightarrow>
       (let k = bitlen a - bitlen b in if pow2 k \<le> q then k else k - 1))"

definition round_half_even :: "rat \<Rightarrow> int" where
  "round_half_even q =
     (let f = \<lfloor>q\<rfloor>; d = q - of_int f
      in if d < 1 / 2 then f else if 1 / 2 < d then f + 1 else if even f then f else f + 1)"

definition rnd64 :: "rat \<Rightarrow> pyfloat" where
  "rnd64 q =
     (if q = 0 then Fin 0
      else
        (let e = max (floor_log2 \<bar>q\<bar> - 52) (- 1074);
             r = of_int (round_half_even (\<bar>q\<bar> / pow2 e)) * pow2 e
         in if 2 ^ 1024 \<le> r then (if 0 < q then PosInf else NegInf)
            else Fin (if 0 < q then r else - r)))"

lemma pow2_pos [simp]: "0 < pow2 k"
  by (simp add: pow2_def)

lemma round_half_even_nonneg: "0 \<le> q \<Longrightarrow> 0 \<le> round_half_even q"
  by (auto simp: round_half_even_def Let_def)

lemma round_half_even_of_int [simp]: "round_half_even (of_int n) = n"
  by (simp add: round_half_even_def)

lemma round_half_even_mono: "p \<le> q \<Longrightarrow> round_half_even p \<le> round_half_even q"
proof -
  assume le: "p \<le> q"
  then have fl: "\<lfloor>p\<rfloor> \<le> \<lfloor>q\<rfloor>" by (rule floor_mono)
  show ?thesis
  proof (cases "\<lfloor>p\<rfloor> = \<lfloor>q\<rfloor>")
    case True
    with le show ?thesis by (auto simp: round_half_even_def Let_def)
  next
    case False
    with fl have "\<lfloor>p\<rfloor> + 1 \<le> \<lfloor>q\<rfloor>" by simp
    then show ?thesis by (auto simp: round_half_even_def Let_def)
  qed
qed

text \<open>Rounding never changes a sign, and never produces a NaN.\<close>

lemma rnd64_nonneg: "0 \<le> q \<Longrightarrow> 0 \<le> rnd64 q"
  by (auto simp: rnd64_def Let_def zero_pyfloat_def less_imp_le
      intro!: mult_nonneg_nonneg round_half_even_nonneg divide_nonneg_nonneg)

lemma rnd64_not_NaN [simp]: "rnd64 q \<noteq> NaN"
  by (auto simp: rnd64_def Let_def)

lemma rnd64_zero [simp]: "rnd64 0 = 0"
  by (simp add: rnd64_def zero_pyfloat_def)

text \<open>Subtraction, negation and absolute value of floats.\<close>

fun fneg :: "pyfloat \<Rightarrow> pyfloat" where
  "fneg (Fin a) = Fin (- a)"
| "fneg PosInf = NegInf"
| "fneg NegInf = PosInf"
| "fneg NaN = NaN"

fun fabs :: "pyfloat \<Rightarrow> pyfloat" where
  "fabs (Fin a) = Fin \<bar>a\<bar>"
| "fabs PosInf = PosInf"
| "fabs NegInf = PosInf"
| "fabs NaN = NaN"

fun fsub :: "pyfloat \<Rightarrow> pyfloat \<Rightarrow> pyfloat" where
  "fsub NaN y = NaN"
| "fsub x NaN = NaN"
| "fsub (Fin a) (Fin b) = rnd64 (a - b)"
| "fsub (Fin a) PosInf = NegInf"
| "fsub (Fin a) NegInf = PosInf"
| "fsub PosInf PosInf = NaN"
| "fsub PosInf y = PosInf"
| "fsub NegInf NegInf = NaN"
| "fsub NegInf y = NegInf"

lemma fsub_nonneg: "y \<le> x \<Longrightarrow> \<not> (x = PosInf \<and> y = PosInf) \<Longrightarrow> x \<noteq> NegInf \<Longrightarrow> 0 \<le> fsub x y"
  by (cases x; cases y) (auto simp: rnd64_nonneg zero_pyfloat_def simp del: Fin_le_zero zero_le_Fin
      intro: rnd64_nonneg [unfolded zero_pyfloat_def])

lemma fabs_nonneg: "x \<noteq> NaN \<Longrightarrow> 0 \<le> fabs x"
  by (cases x) (auto simp: zero_pyfloat_def)

section \<open>Conversions\<close>

text \<open>\<^verbatim>\<open>int(x)\<close> of a float truncates; \<^verbatim>\<open>float(i)\<close> of an int rounds.\<close>

fun int_of_float :: "pyfloat \<Rightarrow> int result" where
  "int_of_float (Fin q) = Inr (if 0 \<le> q then \<lfloor>q\<rfloor> else \<lceil>q\<rceil>)"
| "int_of_float PosInf = Inl OverflowError"
| "int_of_float NegInf = Inl OverflowError"
| "int_of_float NaN = Inl (ValueError ''cannot convert float NaN to integer'')"

definition float_of_int :: "int \<Rightarrow> pyfloat result" where
  "float_of_int i =
     (case rnd64 (of_int i) of Fin q \<Rightarrow> Inr (Fin q) | _ \<Rightarrow> Inl OverflowError)"

text \<open>
  A run of digits as the numeric constructors accept it: at least one digit, with single
  underscores allowed between digits; the underscores are dropped.
\<close>

fun digit_run :: "string \<Rightarrow> string option" where
  "digit_run [] = None"
| "digit_run [c] = (if is_digit c then Some [c] else None)"
| "digit_run (c # d # s) =
     (if \<not> is_digit c then None
      else if d = CHR ''_'' then map_option ((#) c) (digit_run s)
      else map_option ((#) c) (digit_run (d # s)))"

fun signed_body :: "string \<Rightarrow> bool \<times> string" where
  "signed_body [] = (False, [])"
| "signed_body (c # s) =
     (if c = CHR ''-'' then (True, s) else if c = CHR ''+'' then (False, s) else (False, c # s))"

text \<open>\<^verbatim>\<open>int(s)\<close> for a string, with the interpreter's limit of 4300 digits.\<close>

definition int_of_str :: "string \<Rightarrow> int result" where
  "int_of_str s =
     (case signed_body (strip s) of (neg, body) \<Rightarrow>
       (case digit_run body of
          None \<Rightarrow> Inl (ValueError ''invalid literal for int() with base 10'')
        | Some ds \<Rightarrow>
            if 4300 < length ds
            then Inl (ValueError ''Exceeds the limit for integer string conversion'')
            else Inr (if neg then - int (digits_nat ds) else int (digits_nat ds))))"

text \<open>\<^verbatim>\<open>float(s)\<close> for a string: a decimal literal with optional exponent, or an infinity or NaN.\<close>

definition opt_run :: "string \<Rightarrow> string option" where
  "opt_run s = (if s = [] then Some [] else digit_run s)"

definition exponent_of :: "string \<Rightarrow> int option" where
  "exponent_of s =
     (case signed_body s of (neg, body) \<Rightarrow>
        map_option (\<lambda>ds. if neg then - int (digits_nat ds) else int (digits_nat ds))
          (digit_run body))"

definition pow10 :: "int \<Rightarrow> rat" where
  "pow10 k = (if 0 \<le> k then 10 ^ nat k else 1 / 10 ^ nat (- k))"

definition decimal_value :: "string \<Rightarrow> string \<Rightarrow> int \<Rightarrow> rat" where
  "decimal_value ip fp k = of_nat (digits_nat (ip @ fp)) * pow10 (k - int (length fp))"

definition unsigned_decimal :: "string \<Rightarrow> rat option" where
  "unsigned_decimal s =
     (let (m, ex) = (case split_first (CHR ''e'') s of (a, b) \<Rightarrow>
            if CHR ''e'' \<in> set s then (a, exponent_of b) else (s, Some 0));
          (ip, fp) = (if CHR ''.'' \<in> set m then split_first (CHR ''.'') m else (m, []))
      in case (ex, opt_run ip, opt_run fp) of
           (Some k, Some is, Some fs) \<Rightarrow>
             if is = [] \<and> fs = [] then None else Some (decimal_value is fs k)
         | _ \<Rightarrow> None)"

definition float_of_str :: "string \<Rightarrow> pyfloat result" where
  "float_of_str s =
     (case signed_body (lower (strip s)) of (neg, body) \<Rightarrow>
        if body = ''inf'' \<or> body = ''infinity'' then Inr (if neg then NegInf else PosInf)
        else if body = ''nan'' then Inr NaN
        else (case unsigned_decimal body of
                None \<Rightarrow> Inl (ValueError ''could not convert string to float'')
              | Some q \<Rightarrow> Inr (rnd64 (if neg then - q else q))))"

lemma is_digit_not_minus: "is_digit c \<Longrightarrow> c \<noteq> CHR ''-'' \<and> c \<noteq> CHR ''+'' \<and> c \<noteq> CHR ''_'' \<and> \<not> is_space c"
  by (auto simp: is_digit_def digit_val_def is_space_def Let_def split: if_splits)

lemma digit_run_digits: "s \<noteq> [] \<Longrightarrow> \<forall>c \<in> set s. is_digit c \<Longrightarrow> digit_run s = Some s"
  by (induction s rule: digit_run.induct) (auto dest: is_digit_not_minus)

lemma strip_digits: "\<forall>c \<in> set s. \<not> is_space c \<Longrightarrow> strip s = s"
  by (rule strip_id) (cases s; simp; metis last_in_set list.set_intros(1) list.discI set_ConsD)

text \<open>Printing an integer and reading it back.\<close>

lemma int_of_int_str:
  assumes "length (int_str i) \<le> 4300"
  shows "int_of_str (int_str i) = Inr i"
proof -
  have "\<forall>c \<in> set (int_str i). \<not> is_space c"
    using int_str_chars is_digit_not_minus by (fastforce simp: is_space_def)
  then have st: "strip (int_str i) = int_str i" by (rule strip_digits)
  show ?thesis
  proof (cases "i < 0")
    case True
    have "digit_run (nat_str (nat (- i))) = Some (nat_str (nat (- i)))"
      by (rule digit_run_digits) (auto intro: nat_str_digits)
    with True assms st show ?thesis by (simp add: int_of_str_def int_str_def)
  next
    case False
    obtain c s where cs: "nat_str (nat i) = c # s"
      by (meson nat_str_not_Nil neq_Nil_conv)
    have "is_digit c" using nat_str_digits [of c "nat i"] cs by simp
    then have "signed_body (nat_str (nat i)) = (False, nat_str (nat i))"
      using cs is_digit_not_minus by auto
    moreover have "digit_run (nat_str (nat i)) = Some (nat_str (nat i))"
      by (rule digit_run_digits) (auto intro: nat_str_digits)
    ultimately show ?thesis using False assms st by (simp add: int_of_str_def int_str_def)
  qed
qed

section \<open>Printing\<close>

text \<open>
  \<^verbatim>\<open>repr(x)\<close> of a float: the shortest decimal that rounds to \<open>x\<close>, the one nearest to \<open>x\<close> among those,
  written plainly when its exponent lies between -4 and 15 and with an exponent otherwise.
  \<open>shortest_digits\<close> tries one to seventeen digits, which always suffice for a binary64 value, and
  returns the digits and the exponent of the first one.
\<close>

fun floor_log10_up :: "nat \<Rightarrow> int \<Rightarrow> rat \<Rightarrow> int" where
  "floor_log10_up 0 k q = k"
| "floor_log10_up (Suc f) k q = (if pow10 (k + 1) \<le> q then floor_log10_up f (k + 1) q else k)"

fun floor_log10_down :: "nat \<Rightarrow> int \<Rightarrow> rat \<Rightarrow> int" where
  "floor_log10_down 0 k q = k"
| "floor_log10_down (Suc f) k q = (if q < pow10 k then floor_log10_down f (k - 1) q else k)"

definition floor_log10 :: "rat \<Rightarrow> int" where
  "floor_log10 q = (if 1 \<le> q then floor_log10_up 310 0 q else floor_log10_down 330 0 q)"

fun shortest_digits :: "nat \<Rightarrow> nat \<Rightarrow> int \<Rightarrow> rat \<Rightarrow> nat \<times> int" where
  "shortest_digits 0 n e q = (nat (round_half_even (q / pow10 (e - 16))), e - 16)"
| "shortest_digits (Suc f) n e q =
     (let u = pow10 (e - int n + 1); lo = \<lfloor>q / u\<rfloor>; near = round_half_even (q / u);
          far = (if near = lo then lo + 1 else lo);
          ok = (\<lambda>d. rnd64 (of_int d * u) = Fin q)
      in if ok near then (nat near, e - int n + 1)
         else if ok far then (nat far, e - int n + 1)
         else shortest_digits f (n + 1) e q)"

fun drop_zeros :: "nat \<Rightarrow> nat \<Rightarrow> int \<Rightarrow> nat \<times> int" where
  "drop_zeros 0 d e = (d, e)"
| "drop_zeros (Suc f) d e = (if d \<noteq> 0 \<and> d mod 10 = 0 then drop_zeros f (d div 10) (e + 1) else (d, e))"

definition place_point :: "string \<Rightarrow> int \<Rightarrow> string" where
  "place_point ds e =
     (let p = int (length ds) + e
      in if 16 < p \<or> p \<le> - 4 then
           (let ex = p - 1; a = nat_str (nat \<bar>ex\<bar>)
            in take 1 ds @ (if length ds = 1 then [] else ''.'' @ drop 1 ds) @ ''e'' @
               (if ex < 0 then ''-'' else ''+'') @ (if length a < 2 then ''0'' @ a else a))
         else if p \<le> 0 then ''0.'' @ replicate (nat (- p)) (CHR ''0'') @ ds
         else if int (length ds) \<le> p then ds @ replicate (nat e) (CHR ''0'') @ ''.0''
         else take (nat p) ds @ ''.'' @ drop (nat p) ds)"

fun float_repr :: "pyfloat \<Rightarrow> string" where
  "float_repr (Fin q) =
     (if q = 0 then ''0.0''
      else (case shortest_digits 17 1 (floor_log10 \<bar>q\<bar>) \<bar>q\<bar> of (d, e) \<Rightarrow>
              (case drop_zeros 20 d e of (d', e') \<Rightarrow>
                 (if q < 0 then ''-'' else []) @ place_point (nat_str d') e')))"
| "float_repr PosInf = ''inf''"
| "float_repr NegInf = ''-inf''"
| "float_repr NaN = ''nan''"

text \<open>\<^verbatim>\<open>f"{x:.nf}"\<close> for a finite value: the exact value rounded to \<open>n\<close> decimals, ties to even.\<close>

definition pad_left :: "nat \<Rightarrow> string \<Rightarrow> string" where
  "pad_left n s = replicate (n - length s) (CHR ''0'') @ s"

definition format_fixed :: "nat \<Rightarrow> rat \<Rightarrow> string" where
  "format_fixed n q =
     (let m = nat (round_half_even (\<bar>q\<bar> * 10 ^ n)); s = pad_left (n + 1) (nat_str m)
      in (if q < 0 then ''-'' else []) @ take (length s - n) s @
         (if n = 0 then [] else ''.'' @ drop (length s - n) s))"

end
