(* ===== verification/Py_Json.thy ===== *)
theory Py_Json
  imports Py_Num
begin

text \<open>
  JSON as Python's \<^verbatim>\<open>json\<close> module reads and writes it. A \<open>json\<close> value is what \<^verbatim>\<open>json.loads\<close> returns.
  Python strings are kept as their UTF-8 encoding, one \<open>char\<close> per byte, so decoding a frame of bytes
  is a check and reading an escape \<^verbatim>\<open>\uXXXX\<close> appends the bytes of the code point.

  \<open>json_loads\<close> follows the decoder's scanner; its recursion is bounded by a fuel of one more than the
  length of the text: opening a container takes two units and its two brackets are two characters, a
  further element or member takes one and at least two characters, so the bound is not met on a text
  the scanner accepts (\<open>json_loads_dumps\<close> shows it for what the writer writes). Python's own
  recursion limit on nested containers is the parameter of \<open>json_loads_within\<close>.
\<close>

section \<open>Values and their conversions\<close>

datatype json =
    JNull
  | JBool bool
  | JInt int
  | JFloat pyfloat
  | JStr string
  | JArr "json list"
  | JObj "(string \<times> json) list"

fun jtruthy :: "json \<Rightarrow> bool" where
  "jtruthy JNull = False"
| "jtruthy (JBool b) = b"
| "jtruthy (JInt i) = (i \<noteq> 0)"
| "jtruthy (JFloat x) = ftruthy x"
| "jtruthy (JStr s) = (s \<noteq> [])"
| "jtruthy (JArr xs) = (xs \<noteq> [])"
| "jtruthy (JObj d) = (d \<noteq> [])"

text \<open>\<^verbatim>\<open>int(v)\<close> and \<^verbatim>\<open>float(v)\<close>.\<close>

fun py_int :: "json \<Rightarrow> int result" where
  "py_int (JBool b) = Inr (if b then 1 else 0)"
| "py_int (JInt i) = Inr i"
| "py_int (JFloat x) = int_of_float x"
| "py_int (JStr s) = int_of_str s"
| "py_int _ = Inl TypeError"

fun py_float :: "json \<Rightarrow> pyfloat result" where
  "py_float (JBool b) = Inr (if b then 1 else 0)"
| "py_float (JInt i) = float_of_int i"
| "py_float (JFloat x) = Inr x"
| "py_float (JStr s) = float_of_str s"
| "py_float _ = Inl TypeError"

text \<open>
  \<^verbatim>\<open>repr\<close> and \<^verbatim>\<open>str\<close>. A string is quoted with a single quote unless it holds one and no double quote;
  the backslash, the quote and the control characters are escaped.
\<close>

definition hex_digit :: "nat \<Rightarrow> char" where
  "hex_digit d = (if d < 10 then char_of (48 + d) else char_of (87 + d))"

definition hex2 :: "nat \<Rightarrow> string" where
  "hex2 n = [hex_digit (n div 16), hex_digit (n mod 16)]"

definition hex4 :: "nat \<Rightarrow> string" where
  "hex4 n = hex2 (n div 256) @ hex2 (n mod 256)"

definition repr_char :: "char \<Rightarrow> char \<Rightarrow> string" where
  "repr_char q c =
     (let n = (of_char c :: nat) in
      if c = q \<or> n = 92 then [CHR 0x5C, c]
      else if n = 10 then [CHR 0x5C, CHR ''n'']
      else if n = 13 then [CHR 0x5C, CHR ''r'']
      else if n = 9 then [CHR 0x5C, CHR ''t'']
      else if n < 32 \<or> n = 127 then [CHR 0x5C, CHR ''x''] @ hex2 n
      else [c])"

definition repr_str :: "string \<Rightarrow> string" where
  "repr_str s =
     (let sq = CHR 0x27; dq = CHR 0x22;
          q = (if sq \<in> set s \<and> dq \<notin> set s then dq else sq)
      in [q] @ concat (map (repr_char q) s) @ [q])"

fun py_repr :: "json \<Rightarrow> string" where
  "py_repr JNull = ''None''"
| "py_repr (JBool b) = (if b then ''True'' else ''False'')"
| "py_repr (JInt i) = int_str i"
| "py_repr (JFloat x) = float_repr x"
| "py_repr (JStr s) = repr_str s"
| "py_repr (JArr xs) = ''['' @ join '', '' (map py_repr xs) @ '']''"
| "py_repr (JObj d) = ''{'' @ join '', '' (map (\<lambda>(k, v). repr_str k @ '': '' @ py_repr v) d) @ ''}''"

fun py_str :: "json \<Rightarrow> string" where
  "py_str (JStr s) = s"
| "py_str v = py_repr v"

section \<open>UTF-8\<close>

definition chr8 :: "nat \<Rightarrow> char" where
  "chr8 n = char_of n"

text \<open>The encoding of a code point (surrogates, which only an escape can produce, in three bytes).\<close>

definition utf8 :: "nat \<Rightarrow> string" where
  "utf8 n =
     (if n < 128 then [chr8 n]
      else if n < 2048 then [chr8 (192 + n div 64), chr8 (128 + n mod 64)]
      else if n < 65536 then [chr8 (224 + n div 4096), chr8 (128 + n div 64 mod 64), chr8 (128 + n mod 64)]
      else [chr8 (240 + n div 262144), chr8 (128 + n div 4096 mod 64), chr8 (128 + n div 64 mod 64),
            chr8 (128 + n mod 64)])"

text \<open>One code point and the rest; \<open>None\<close> for a byte sequence no encoder writes.\<close>

definition cont :: "char \<Rightarrow> nat option" where
  "cont c = (let n = (of_char c :: nat) in if 128 \<le> n \<and> n < 192 then Some (n - 128) else None)"

fun conts :: "nat \<Rightarrow> nat \<Rightarrow> string \<Rightarrow> (nat \<times> string) option" where
  "conts 0 a s = Some (a, s)"
| "conts (Suc k) a [] = None"
| "conts (Suc k) a (c # s) = (case cont c of None \<Rightarrow> None | Some d \<Rightarrow> conts k (64 * a + d) s)"

definition utf8_next :: "string \<Rightarrow> (nat \<times> string) option" where
  "utf8_next s =
     (case s of [] \<Rightarrow> None
      | c # r \<Rightarrow>
          (let n = (of_char c :: nat);
               ok = (\<lambda>lo hi p. case p of Some (m, t) \<Rightarrow> if lo \<le> m \<and> m < (hi :: nat) then Some (m, t) else None
                                  | None \<Rightarrow> None)
           in if n < 128 then Some (n, r)
              else if n < 192 then None
              else if n < 224 then ok 128 2048 (conts 1 (n - 192) r)
              else if n < 240 then ok 2048 65536 (conts 2 (n - 224) r)
              else if n < 248 then ok 65536 1114112 (conts 3 (n - 240) r)
              else None))"

lemma conts_length: "conts k a s = Some (m, r) \<Longrightarrow> length r \<le> length s"
  by (induction k a s rule: conts.induct) (auto split: option.splits)

lemma utf8_next_length: "utf8_next s = Some (m, r) \<Longrightarrow> length r < length s"
  by (auto simp: utf8_next_def Let_def split: list.splits if_splits option.splits
      dest!: conts_length)

function utf8_points :: "string \<Rightarrow> nat list option" where
  "utf8_points s =
     (if s = [] then Some []
      else (case utf8_next s of None \<Rightarrow> None
            | Some (m, r) \<Rightarrow> map_option ((#) m) (utf8_points r)))"
  by pat_completeness auto
termination
  by (relation "measure length") (auto dest: utf8_next_length)

declare utf8_points.simps [simp del]

text \<open>\<^verbatim>\<open>b.decode("utf-8")\<close>: surrogates are refused, and what is accepted is its own encoding.\<close>

definition is_surrogate :: "nat \<Rightarrow> bool" where
  "is_surrogate n \<longleftrightarrow> 55296 \<le> n \<and> n < 57344"

definition utf8_decode :: "string \<Rightarrow> string result" where
  "utf8_decode b =
     (case utf8_points b of
        None \<Rightarrow> Inl (ValueError ''invalid utf-8'')
      | Some ps \<Rightarrow> if \<exists>p \<in> set ps. is_surrogate p then Inl (ValueError ''invalid utf-8'') else Inr b)"

section \<open>Writing\<close>

text \<open>\<^verbatim>\<open>json.dumps(v, separators=(",", ":"))\<close>, with its default \<^verbatim>\<open>ensure_ascii\<close>.\<close>

definition esc_point :: "nat \<Rightarrow> string" where
  "esc_point n =
     (let bs = CHR 0x5C in
      if n = 34 then [bs, CHR 0x22]
      else if n = 92 then [bs, bs]
      else if n = 10 then [bs, CHR ''n'']
      else if n = 13 then [bs, CHR ''r'']
      else if n = 9 then [bs, CHR ''t'']
      else if n = 12 then [bs, CHR ''f'']
      else if n = 8 then [bs, CHR ''b'']
      else if 32 \<le> n \<and> n < 127 then [char_of n]
      else if n < 65536 then [bs, CHR ''u''] @ hex4 n
      else [bs, CHR ''u''] @ hex4 (55296 + (n - 65536) div 1024) @
           [bs, CHR ''u''] @ hex4 (56320 + (n - 65536) mod 1024))"

definition dump_str :: "string \<Rightarrow> string" where
  "dump_str s =
     [CHR 0x22] @
     (case utf8_points s of None \<Rightarrow> s | Some ps \<Rightarrow> concat (map esc_point ps)) @
     [CHR 0x22]"

definition dump_float :: "pyfloat \<Rightarrow> string" where
  "dump_float x =
     (case x of PosInf \<Rightarrow> ''Infinity'' | NegInf \<Rightarrow> ''-Infinity'' | NaN \<Rightarrow> ''NaN'' | Fin q \<Rightarrow> float_repr x)"

fun json_dumps :: "json \<Rightarrow> string" where
  "json_dumps JNull = ''null''"
| "json_dumps (JBool b) = (if b then ''true'' else ''false'')"
| "json_dumps (JInt i) = int_str i"
| "json_dumps (JFloat x) = dump_float x"
| "json_dumps (JStr s) = dump_str s"
| "json_dumps (JArr xs) = ''['' @ join '','' (map json_dumps xs) @ '']''"
| "json_dumps (JObj d) = ''{'' @ join '','' (map (\<lambda>(k, v). dump_str k @ '':'' @ json_dumps v) d) @ ''}''"

section \<open>Reading\<close>

text \<open>White space between tokens.\<close>

definition json_space :: "char \<Rightarrow> bool" where
  "json_space c = ((of_char c :: nat) \<in> {32, 9, 10, 13})"

definition skip_ws :: "string \<Rightarrow> string" where
  "skip_ws = dropWhile json_space"

fun hex_val :: "char \<Rightarrow> nat option" where
  "hex_val c =
     (let n = (of_char c :: nat) in
      if 48 \<le> n \<and> n \<le> 57 then Some (n - 48)
      else if 97 \<le> n \<and> n \<le> 102 then Some (n - 87)
      else if 65 \<le> n \<and> n \<le> 70 then Some (n - 55)
      else None)"

fun read_hex4 :: "string \<Rightarrow> (nat \<times> string) option" where
  "read_hex4 (a # b # c # d # r) =
     (case (hex_val a, hex_val b, hex_val c, hex_val d) of
        (Some w, Some x, Some y, Some z) \<Rightarrow> Some (((w * 16 + x) * 16 + y) * 16 + z, r)
      | _ \<Rightarrow> None)"
| "read_hex4 _ = None"

text \<open>The character of a two-character escape.\<close>

definition simple_escape :: "char \<Rightarrow> char option" where
  "simple_escape c =
     (let n = (of_char c :: nat) in
      if n = 34 \<or> n = 92 \<or> n = 47 then Some c
      else if c = CHR ''b'' then Some (CHR 0x08)
      else if c = CHR ''f'' then Some (CHR 0x0C)
      else if c = CHR ''n'' then Some (CHR 0x0A)
      else if c = CHR ''r'' then Some (CHR 0x0D)
      else if c = CHR ''t'' then Some (CHR 0x09)
      else None)"

text \<open>
  \<^verbatim>\<open>\uXXXX\<close>: a high surrogate followed by the escape of a low one is a single code point; every other
  one stands for itself. \<open>low_surrogate\<close> looks for the second half.
\<close>

definition low_surrogate :: "nat \<Rightarrow> string \<Rightarrow> (nat \<times> string) option" where
  "low_surrogate hi s =
     (case s of
        x # u # r \<Rightarrow>
          if x = CHR 0x5C \<and> u = CHR ''u'' then
            (case read_hex4 r of
               Some (lo, t) \<Rightarrow>
                 if 56320 \<le> lo \<and> lo < 57344
                 then Some (65536 + (hi - 55296) * 1024 + (lo - 56320), t) else None
             | None \<Rightarrow> None)
          else None
      | _ \<Rightarrow> None)"

definition read_unicode :: "string \<Rightarrow> (string \<times> string) option" where
  "read_unicode s =
     (case read_hex4 s of
        None \<Rightarrow> None
      | Some (n, r) \<Rightarrow>
          (case (if 55296 \<le> n \<and> n < 56320 then low_surrogate n r else None) of
             Some (m, t) \<Rightarrow> Some (utf8 m, t)
           | None \<Rightarrow> Some (utf8 n, r)))"

text \<open>The body of a string after its opening quote, up to and including the closing one.\<close>

fun parse_str :: "nat \<Rightarrow> string \<Rightarrow> (string \<times> string) option" where
  "parse_str 0 s = None"
| "parse_str (Suc k) s =
     (case s of
        [] \<Rightarrow> None
      | c # r \<Rightarrow>
          if c = CHR 0x22 then Some ([], r)
          else if (of_char c :: nat) < 32 then None
          else if c = CHR 0x5C then
            (case r of
               [] \<Rightarrow> None
             | e # r' \<Rightarrow>
                 if e = CHR ''u'' then
                   (case read_unicode r' of
                      None \<Rightarrow> None
                    | Some (u, t) \<Rightarrow> map_option (apfst ((@) u)) (parse_str k t))
                 else
                   (case simple_escape e of
                      None \<Rightarrow> None
                    | Some d \<Rightarrow> map_option (apfst ((#) d)) (parse_str k r')))
          else map_option (apfst ((#) c)) (parse_str k r))"

text \<open>
  Numbers: the longest match of \<^verbatim>\<open>-?(0|[1-9]\d*)(\.\d+)?([eE][-+]?\d+)?\<close>, an integer when neither
  optional part is there.
\<close>

definition span_digits :: "string \<Rightarrow> string \<times> string" where
  "span_digits s = (takeWhile is_digit s, dropWhile is_digit s)"

definition match_int :: "string \<Rightarrow> (string \<times> string) option" where
  "match_int s =
     (let (sg, t) = (case s of c # r \<Rightarrow> if c = CHR ''-'' then ([c], r) else ([], s) | [] \<Rightarrow> ([], s))
      in case t of
           [] \<Rightarrow> None
         | c # r \<Rightarrow>
             if c = CHR ''0'' then Some (sg @ [c], r)
             else if is_digit c then (case span_digits t of (ds, r') \<Rightarrow> Some (sg @ ds, r'))
             else None)"

definition match_frac :: "string \<Rightarrow> string \<times> string" where
  "match_frac s =
     (case s of
        c # r \<Rightarrow> (case span_digits r of
                   (ds, t) \<Rightarrow> if c = CHR ''.'' \<and> ds \<noteq> [] then (c # ds, t) else ([], s))
      | [] \<Rightarrow> ([], s))"

definition match_exp :: "string \<Rightarrow> string \<times> string" where
  "match_exp s =
     (case s of
        c # r \<Rightarrow>
          (let (sg, t) = (case r of
               d # r' \<Rightarrow> if d = CHR ''-'' \<or> d = CHR ''+'' then ([d], r') else ([], r)
             | [] \<Rightarrow> ([], r))
           in case span_digits t of
                (ds, t') \<Rightarrow> if (c = CHR ''e'' \<or> c = CHR ''E'') \<and> ds \<noteq> []
                           then (c # sg @ ds, t') else ([], s))
      | [] \<Rightarrow> ([], s))"

definition parse_number :: "string \<Rightarrow> (json \<times> string) option" where
  "parse_number s =
     (case match_int s of
        None \<Rightarrow> None
      | Some (is, r) \<Rightarrow>
          (case match_frac r of (fs, r1) \<Rightarrow>
          (case match_exp r1 of (es, r2) \<Rightarrow>
             if fs = [] \<and> es = [] then
               (case int_of_str is of Inr i \<Rightarrow> Some (JInt i, r2) | Inl _ \<Rightarrow> None)
             else
               (case float_of_str (is @ fs @ es) of Inr x \<Rightarrow> Some (JFloat x, r2) | Inl _ \<Rightarrow> None))))"

definition literals :: "(string \<times> json) list" where
  "literals =
     [(''null'', JNull), (''true'', JBool True), (''false'', JBool False), (''NaN'', JFloat NaN),
      (''Infinity'', JFloat PosInf), (''-Infinity'', JFloat NegInf)]"

definition parse_literal :: "string \<Rightarrow> (json \<times> string) option" where
  "parse_literal s =
     (case find (\<lambda>(w, v). startswith s w) literals of
        Some (w, v) \<Rightarrow> Some (v, drop (length w) s)
      | None \<Rightarrow> parse_number s)"

text \<open>Values, the elements of an array after \<^verbatim>\<open>[\<close>, the members of an object after \<^verbatim>\<open>{\<close>.\<close>

fun parse_value :: "nat \<Rightarrow> string \<Rightarrow> (json \<times> string) option"
  and parse_elems :: "nat \<Rightarrow> string \<Rightarrow> (json list \<times> string) option"
  and parse_members :: "nat \<Rightarrow> (string, json) dict \<Rightarrow> string \<Rightarrow> ((string, json) dict \<times> string) option"
where
  "parse_value 0 s = None"
| "parse_value (Suc k) s =
     (case s of
        [] \<Rightarrow> None
      | c # r \<Rightarrow>
          if c = CHR 0x22 then map_option (apfst JStr) (parse_str (Suc (length r)) r)
          else if c = CHR ''{'' then
            (case skip_ws r of
               [] \<Rightarrow> None
             | d # r' \<Rightarrow> if d = CHR ''}'' then Some (JObj [], r')
                        else map_option (apfst JObj) (parse_members k [] (d # r')))
          else if c = CHR ''['' then
            (case skip_ws r of
               [] \<Rightarrow> None
             | d # r' \<Rightarrow> if d = CHR '']'' then Some (JArr [], r')
                        else map_option (apfst JArr) (parse_elems k (d # r')))
          else parse_literal s)"
| "parse_elems 0 s = None"
| "parse_elems (Suc k) s =
     (case parse_value k s of
        None \<Rightarrow> None
      | Some (v, r) \<Rightarrow>
          (case skip_ws r of
             [] \<Rightarrow> None
           | d # r' \<Rightarrow>
               if d = CHR '']'' then Some ([v], r')
               else if d = CHR '','' then map_option (apfst ((#) v)) (parse_elems k (skip_ws r'))
               else None))"
| "parse_members 0 acc s = None"
| "parse_members (Suc k) acc s =
     (case s of
        [] \<Rightarrow> None
      | c # r \<Rightarrow>
          if c \<noteq> CHR 0x22 then None
          else
            (case parse_str (Suc (length r)) r of
               None \<Rightarrow> None
             | Some (key, r1) \<Rightarrow>
                 (case skip_ws r1 of
                    [] \<Rightarrow> None
                  | d # r2 \<Rightarrow>
                      if d \<noteq> CHR '':'' then None
                      else
                        (case parse_value k (skip_ws r2) of
                           None \<Rightarrow> None
                         | Some (v, r3) \<Rightarrow>
                             (case skip_ws r3 of
                                [] \<Rightarrow> None
                              | e # r4 \<Rightarrow>
                                  if e = CHR ''}'' then Some (dict_set key v acc, r4)
                                  else if e = CHR '',''
                                  then parse_members k (dict_set key v acc) (skip_ws r4)
                                  else None)))))"

definition json_error :: py_exc where
  "json_error = ValueError ''JSONDecodeError''"

text \<open>\<^verbatim>\<open>json.loads(s)\<close>: a byte order mark and text after the value are errors.\<close>

definition json_loads :: "string \<Rightarrow> json result" where
  "json_loads s =
     (if startswith s [chr8 239, chr8 187, chr8 191] then Inl json_error
      else (case parse_value (Suc (length s)) (skip_ws s) of
              None \<Rightarrow> Inl json_error
            | Some (v, r) \<Rightarrow> if skip_ws r = [] then Inr v else Inl json_error))"

section \<open>Reading what was written\<close>

definition ascii :: "string \<Rightarrow> bool" where
  "ascii s \<longleftrightarrow> (\<forall>c \<in> set s. (of_char c :: nat) < 128)"

lemma utf8_points_ascii: "ascii s \<Longrightarrow> utf8_points s = Some (map of_char s)"
  by (induction s) (auto simp: ascii_def utf8_points.simps utf8_next_def)

lemma hex_val_digit [simp]: "d < 16 \<Longrightarrow> hex_val (hex_digit d) = Some d"
  by (auto simp: hex_digit_def Let_def)

lemma read_hex4_ascii: "n < 128 \<Longrightarrow> read_hex4 (hex4 n @ r) = Some (n, r)"
  by (simp add: hex4_def hex2_def del: hex_val.simps)

lemma read_unicode_ascii: "n < 128 \<Longrightarrow> read_unicode (hex4 n @ r) = Some ([char_of n], r)"
  by (simp add: read_unicode_def read_hex4_ascii utf8_def chr8_def)

lemma char_of_eq: "n < 256 \<Longrightarrow> char_of n = c \<longleftrightarrow> n = (of_char c :: nat)"
  by (simp add: char_of_eq_iff take_bit_eq_mod [of 8, simplified])

lemma escape_chars [simp]:
  "char_of (92 :: nat) = CHR 0x5C" "char_of (34 :: nat) = CHR 0x22" "char_of (8 :: nat) = CHR 0x08"
  "char_of (12 :: nat) = CHR 0x0C" "char_of (9 :: nat) = CHR 0x09" "char_of (13 :: nat) = CHR 0x0D"
  "char_of (10 :: nat) = CHR 0x0A"
  by (simp_all add: char_of_eq)

lemma parse_str_esc:
  assumes "n < 128"
  shows "parse_str (Suc k) (esc_point n @ r) = map_option (apfst ((#) (char_of n))) (parse_str k r)"
  using assms
  by (auto simp: esc_point_def Let_def read_unicode_ascii simple_escape_def char_of_eq
      apfst_def map_prod_def)


lemma parse_str_dump:
  assumes "\<forall>n \<in> set ps. n < 128" and "length ps < k"
  shows "parse_str k (concat (map esc_point ps) @ CHR 0x22 # r) = Some (map char_of ps, r)"
  using assms
proof (induction ps arbitrary: k)
  case Nil
  then show ?case by (cases k) auto
next
  case (Cons n ps)
  then obtain k' where k: "k = Suc k'" by (cases k) auto
  have "parse_str k' (concat (map esc_point ps) @ CHR 0x22 # r) = Some (map char_of ps, r)"
    using Cons k by simp
  then show ?case
    using Cons.prems parse_str_esc [of n k' "concat (map esc_point ps) @ CHR 0x22 # r"]
    by (simp add: k del: parse_str.simps)
qed

lemma length_esc: "1 \<le> length (esc_point n)"
  by (simp add: esc_point_def Let_def)

lemma length_escs: "length ps \<le> length (concat (map esc_point ps))"
  using length_esc by (induction ps) (auto simp: add_le_mono [of 1, simplified])

lemma dump_str_ascii:
  "ascii s \<Longrightarrow> dump_str s = CHR 0x22 # concat (map esc_point (map of_char s)) @ [CHR 0x22]"
  by (simp add: dump_str_def utf8_points_ascii)

lemma parse_str_dump_str:
  assumes "ascii s" and "dump_str s = CHR 0x22 # t" and "length t < k"
  shows "parse_str k (t @ r) = Some (s, r)"
proof -
  let ?ps = "map of_char s :: nat list"
  have t: "t = concat (map esc_point ?ps) @ [CHR 0x22]"
    using assms(1,2) by (simp add: dump_str_ascii)
  have "length ?ps < k" using length_escs [of ?ps] assms(3) by (simp add: t)
  then have "parse_str k (t @ r) = Some (map char_of ?ps, r)"
    unfolding t using assms(1) parse_str_dump [of ?ps k r] by (auto simp: ascii_def)
  then show ?thesis by (simp add: comp_def)
qed

text \<open>The values whose text reads back as themselves: no floats, ASCII strings, distinct keys.\<close>

fun plain :: "json \<Rightarrow> bool" where
  "plain (JInt i) = (length (int_str i) \<le> 4300)"
| "plain (JFloat x) = False"
| "plain (JStr s) = ascii s"
| "plain (JArr xs) = (\<forall>x \<in> set xs. plain x)"
| "plain (JObj d) = (distinct (map fst d) \<and> (\<forall>p \<in> set d. ascii (fst p) \<and> plain (snd p)))"
| "plain _ = True"

definition delim :: "string \<Rightarrow> bool" where
  "delim r \<longleftrightarrow> r = [] \<or> hd r \<in> {CHR '','', CHR '']'', CHR ''}''}"

lemma nat_str_head: "0 < n \<Longrightarrow> \<exists>c r. nat_str n = c # r \<and> is_digit c \<and> c \<noteq> CHR ''0''"
proof (induction n rule: nat_str.induct)
  case (1 n)
  show ?case
  proof (cases "n < 10")
    case True
    moreover have "digit_char n \<noteq> CHR ''0''"
      using True 1 by (simp add: digit_char_def char_of_eq)
    ultimately show ?thesis by (simp add: nat_str.simps [of n] is_digit_def)
  next
    case False
    then have "0 < n div 10" by (simp add: div_greater_zero_iff)
    with False 1 obtain c r where "nat_str (n div 10) = c # r" "is_digit c" "c \<noteq> CHR ''0''" by auto
    with False show ?thesis by (simp add: nat_str.simps [of n])
  qed
qed

lemma span_digits_nat_str:
  "delim r \<Longrightarrow> span_digits (nat_str n @ r) = (nat_str n, r)"
proof -
  assume r: "delim r"
  have "\<forall>c \<in> set (nat_str n). is_digit c" using nat_str_digits by blast
  moreover have "takeWhile is_digit r = [] \<and> dropWhile is_digit r = r"
    using r by (cases r) (auto simp: delim_def is_digit_def digit_val_def)
  ultimately show ?thesis
    by (simp add: span_digits_def takeWhile_append2 dropWhile_append2)
qed

lemma match_int_str: "delim r \<Longrightarrow> match_int (int_str i @ r) = Some (int_str i, r)"
proof -
  assume r: "delim r"
  have sp: "span_digits (c # s @ r) = (c # s, r)" if "nat_str n = c # s" for n c s
    using span_digits_nat_str [OF r, of n] that by simp
  consider "i = 0" | "0 < i" | "i < 0" by linarith
  then show ?thesis
  proof cases
    case 1
    then show ?thesis by (simp add: int_str_def nat_str.simps match_int_def digit_char_def char_of_eq)
  next
    case 2
    then obtain c s where "nat_str (nat i) = c # s" "is_digit c" "c \<noteq> CHR ''0''"
      using nat_str_head [of "nat i"] by auto
    with 2 show ?thesis by (auto simp: int_str_def match_int_def sp dest: is_digit_not_minus)
  next
    case 3
    then obtain c s where "nat_str (nat (- i)) = c # s" "is_digit c" "c \<noteq> CHR ''0''"
      using nat_str_head [of "nat (- i)"] by auto
    with 3 show ?thesis by (auto simp: int_str_def match_int_def sp)
  qed
qed

lemma int_str_head: "\<exists>c s. int_str i = c # s \<and> (is_digit c \<or> c = CHR ''-'' \<and> (\<exists>d t. s = d # t \<and> is_digit d))"
proof -
  have "\<exists>d t. nat_str n = d # t \<and> is_digit d" for n
    using nat_str_digits [of _ n] by (cases "nat_str n") auto
  then show ?thesis by (metis int_str_def)
qed

lemma startswith_simps: "startswith s [] = True" "startswith [] (d # p) = False"
  "startswith (c # s) (d # p) \<longleftrightarrow> c = d \<and> startswith s p"
  by (auto simp: startswith_def)

lemma not_digit [simp]:
  "is_digit CHR ''n'' = False" "is_digit CHR ''t'' = False" "is_digit CHR ''f'' = False"
  "is_digit CHR ''N'' = False" "is_digit CHR ''I'' = False" "is_digit CHR ''-'' = False"
  "is_digit CHR '','' = False" "is_digit CHR '']'' = False" "is_digit CHR ''}'' = False"
  by (simp_all add: is_digit_def digit_val_def)

lemma parse_literal_int:
  assumes "delim r" and "length (int_str i) \<le> 4300"
  shows "parse_literal (int_str i @ r) = Some (JInt i, r)"
proof -
  obtain c s where cs: "int_str i = c # s"
    and c: "is_digit c \<or> c = CHR ''-'' \<and> (\<exists>d t. s = d # t \<and> is_digit d)"
    using int_str_head [of i] by (elim exE conjE) rule
  from c have no: "find (\<lambda>(w, v). startswith (int_str i @ r) w) literals = None"
  proof (elim disjE conjE exE)
    assume "is_digit c"
    then have "c \<noteq> CHR ''n'' \<and> c \<noteq> CHR ''t'' \<and> c \<noteq> CHR ''f'' \<and> c \<noteq> CHR ''N'' \<and> c \<noteq> CHR ''I'' \<and> c \<noteq> CHR ''-''"
      by (intro conjI notI) simp_all
    then show ?thesis by (simp only: cs literals_def find.simps startswith_simps append_Cons prod.case simp_thms if_False)
  next
    fix d t assume c: "c = CHR ''-''" "s = d # t" and "is_digit d"
    then have "d \<noteq> CHR ''I''" by (intro notI) simp
    then show ?thesis by (simp add: cs c literals_def startswith_simps)
  qed
  have "match_frac r = ([], r)" "match_exp r = ([], r)"
    using assms(1) by (cases r; force simp: delim_def match_frac_def match_exp_def)+
  then have "parse_number (int_str i @ r) = Some (JInt i, r)"
    using assms by (simp add: parse_number_def match_int_str int_of_int_str)
  with no show ?thesis by (simp add: parse_literal_def)
qed

text \<open>The text of a value starts with a character that opens a value.\<close>

lemma json_space_chars [simp]:
  "json_space CHR '','' = False" "json_space CHR '']'' = False" "json_space CHR ''}'' = False"
  "json_space CHR '':'' = False" "json_space CHR ''['' = False" "json_space CHR ''{'' = False"
  "json_space CHR 0x22 = False"
  by (simp_all add: json_space_def)

lemma skip_ws_Cons [simp]: "\<not> json_space c \<Longrightarrow> skip_ws (c # s) = c # s"
  by (simp add: skip_ws_def)

lemma digit_no_space: "is_digit c \<Longrightarrow> \<not> json_space c \<and> (of_char c :: nat) < 128"
  by (auto simp: is_digit_def digit_val_def json_space_def Let_def split: if_splits)

lemma dump_str_Cons: "\<exists>t. dump_str s = CHR 0x22 # t"
  by (simp add: dump_str_def)

definition opener :: "char \<Rightarrow> bool" where
  "opener c \<longleftrightarrow> \<not> json_space c \<and> c \<noteq> CHR '']'' \<and> c \<noteq> CHR ''}'' \<and> (of_char c :: nat) < 128"

lemma number_opener: "is_digit c \<or> c = CHR ''-'' \<Longrightarrow> opener c \<and> c \<noteq> CHR 0x22 \<and> c \<noteq> CHR ''{'' \<and> c \<noteq> CHR ''[''"
  by (auto simp: opener_def digit_no_space) (auto simp: json_space_def is_digit_def digit_val_def)

section \<open>Writers of JSON\<close>

text \<open>
  The same writer with floats written by \<open>fl\<close>: \<open>json_dumps\<close> is one such writer, the service of the feed another.
  \<open>rd\<close> is the float that is read back, and \<open>ok\<close> says of which floats the text can be read.
\<close>

fun json_text :: "(pyfloat \<Rightarrow> string) \<Rightarrow> json \<Rightarrow> string" where
  "json_text fl JNull = ''null''"
| "json_text fl (JBool b) = (if b then ''true'' else ''false'')"
| "json_text fl (JInt i) = int_str i"
| "json_text fl (JFloat x) = fl x"
| "json_text fl (JStr s) = dump_str s"
| "json_text fl (JArr xs) = ''['' @ join '','' (map (json_text fl) xs) @ '']''"
| "json_text fl (JObj d) = ''{'' @ join '','' (map (\<lambda>(k, v). dump_str k @ '':'' @ json_text fl v) d) @ ''}''"

fun map_floats :: "(pyfloat \<Rightarrow> pyfloat) \<Rightarrow> json \<Rightarrow> json" where
  "map_floats rd (JFloat x) = JFloat (rd x)"
| "map_floats rd (JArr xs) = JArr (map (map_floats rd) xs)"
| "map_floats rd (JObj d) = JObj (map (\<lambda>(k, v). (k, map_floats rd v)) d)"
| "map_floats rd v = v"

fun writable :: "(pyfloat \<Rightarrow> bool) \<Rightarrow> json \<Rightarrow> bool" where
  "writable ok (JInt i) = (length (int_str i) \<le> 4300)"
| "writable ok (JFloat x) = ok x"
| "writable ok (JStr s) = ascii s"
| "writable ok (JArr xs) = (\<forall>x \<in> set xs. writable ok x)"
| "writable ok (JObj d) = (distinct (map fst d) \<and> (\<forall>p \<in> set d. ascii (fst p) \<and> writable ok (snd p)))"
| "writable ok _ = True"

lemma json_dumps_text: "json_dumps v = json_text dump_float v"
proof (induction v)
  case (JArr xs)
  then have "map json_dumps xs = map (json_text dump_float) xs" by simp
  then show ?case by (simp only: json_dumps.simps json_text.simps)
next
  case (JObj d)
  then have "map (\<lambda>(k, v). dump_str k @ '':'' @ json_dumps v) d = map (\<lambda>(k, v). dump_str k @ '':'' @ json_text dump_float v) d"
    by (auto simp: snds.simps)
  then show ?case by (simp only: json_dumps.simps json_text.simps)
qed simp_all

lemma plain_writable: "plain v \<Longrightarrow> writable ok v"
  by (induction v) (force simp: snds.simps)+

lemma plain_map_floats: "plain v \<Longrightarrow> map_floats rd v = v"
proof (induction v)
  case (JArr xs)
  then show ?case by (simp add: map_idI)
next
  case (JObj d)
  then have "(\<lambda>(k, v). (k, map_floats rd v)) p = p" if "p \<in> set d" for p
    using that by (cases p) (force simp: snds.simps)
  then show ?case by (simp add: map_idI)
qed simp_all

definition text_member :: "(pyfloat \<Rightarrow> string) \<Rightarrow> string \<times> json \<Rightarrow> string" where
  "text_member fl p = dump_str (fst p) @ '':'' @ json_text fl (snd p)"

lemma json_text_obj: "json_text fl (JObj d) = ''{'' @ join '','' (map (text_member fl) d) @ ''}''"
  by (simp add: case_prod_unfold text_member_def [abs_def])

lemma join_members_Cons:
  assumes "d \<noteq> []"
  shows "\<exists>t. join '','' (map (text_member fl) d) = CHR 0x22 # t"
proof -
  obtain p ys where d: "d = p # ys" using assms by (cases d) auto
  obtain t where "dump_str (fst p) = CHR 0x22 # t" using dump_str_Cons by blast
  then show ?thesis by (cases ys) (auto simp: d text_member_def)
qed

text \<open>The interface of a writer of floats, and what it gives: whole texts are read back.\<close>

locale float_writer =
  fixes fl :: "pyfloat \<Rightarrow> string" and rd :: "pyfloat \<Rightarrow> pyfloat" and ok :: "pyfloat \<Rightarrow> bool"
  assumes reads: "ok x \<Longrightarrow> delim r \<Longrightarrow> parse_literal (fl x @ r) = Some (JFloat (rd x), r)"
    and number: "ok x \<Longrightarrow> \<exists>c t. fl x = c # t \<and> (is_digit c \<or> c = CHR ''-'')"
begin

lemma text_opener: "writable ok v \<Longrightarrow> \<exists>c t. json_text fl v = c # t \<and> opener c"
proof (cases v)
  case (JInt i)
  obtain c t where "int_str i = c # t" "is_digit c \<or> c = CHR ''-''"
    using int_str_head [of i] by (elim exE conjE) auto
  with JInt show ?thesis using number_opener by auto
next
  case (JFloat x)
  moreover assume "writable ok v"
  ultimately show ?thesis using number [of x] number_opener by auto
next
  case (JStr s)
  then show ?thesis using dump_str_Cons [of s] by (auto simp: opener_def)
qed (auto simp: opener_def json_space_def)

lemma skip_ws_text: "writable ok v \<Longrightarrow> skip_ws (json_text fl v @ r) = json_text fl v @ r"
  using text_opener [of v] by (auto simp: opener_def)

lemma join_texts_Cons:
  assumes "xs \<noteq> []" and "\<forall>x \<in> set xs. writable ok x"
  shows "\<exists>c t. join '','' (map (json_text fl) xs) = c # t \<and> opener c"
proof -
  obtain x ys where xs: "xs = x # ys" using assms(1) by (cases xs) auto
  then have "\<exists>c t. json_text fl x = c # t \<and> opener c" using assms(2) text_opener by simp
  then show ?thesis by (cases ys) (auto simp: xs)
qed

text \<open>The texts of a nonempty list of elements or members, without the brackets.\<close>

lemma parse_elems_text:
  assumes "\<forall>x \<in> set xs. writable ok x \<and>
      (\<forall>k r. length (json_text fl x) < k \<longrightarrow> delim r \<longrightarrow> parse_value k (json_text fl x @ r) = Some (map_floats rd x, r))"
    and "xs \<noteq> []" and "length (join '','' (map (json_text fl) xs)) + 1 < k"
  shows "parse_elems k (join '','' (map (json_text fl) xs) @ CHR '']'' # r) = Some (map (map_floats rd) xs, r)"
  using assms
proof (induction xs arbitrary: k)
  case (Cons x xs)
  obtain k' where k: "k = Suc k'" using Cons.prems(3) by (cases k) auto
  have x: "length (json_text fl x) < k' \<Longrightarrow> delim r' \<Longrightarrow> parse_value k' (json_text fl x @ r') = Some (map_floats rd x, r')" for r'
    using Cons.prems(1) by simp
  show ?case
  proof (cases xs)
    case Nil
    then show ?thesis using Cons.prems(3) x by (simp add: k delim_def)
  next
    case (Cons y ys)
    have "parse_elems k' (join '','' (map (json_text fl) xs) @ CHR '']'' # r) = Some (map (map_floats rd) xs, r)"
      using Cons Cons.prems k by (intro Cons.IH) auto
    moreover have "skip_ws (join '','' (map (json_text fl) xs) @ CHR '']'' # r) =
        join '','' (map (json_text fl) xs) @ CHR '']'' # r"
      using Cons Cons.prems(1) skip_ws_text [of y] by (cases ys) auto
    ultimately show ?thesis
      using Cons Cons.prems(3) x by (simp add: k delim_def)
  qed
qed simp

lemma parse_members_text:
  assumes "\<forall>p \<in> set d. ascii (fst p) \<and> writable ok (snd p) \<and>
      (\<forall>k r. length (json_text fl (snd p)) < k \<longrightarrow> delim r \<longrightarrow>
             parse_value k (json_text fl (snd p) @ r) = Some (map_floats rd (snd p), r))"
    and "d \<noteq> []" and "distinct (map fst (acc @ d))"
    and "length (join '','' (map (text_member fl) d)) < k"
  shows "parse_members k acc (join '','' (map (text_member fl) d) @ CHR ''}'' # r) =
    Some (acc @ map (\<lambda>(k, v). (k, map_floats rd v)) d, r)"
  using assms
proof (induction d arbitrary: k acc)
  case (Cons p d)
  obtain key v where p: "p = (key, v)" by (cases p)
  obtain k' where k: "k = Suc k'" using Cons.prems(4) by (cases k) auto
  have v: "length (json_text fl v) < k' \<Longrightarrow> delim r' \<Longrightarrow> parse_value k' (json_text fl v @ r') = Some (map_floats rd v, r')" for r'
    using Cons.prems(1) p by simp
  have ws: "skip_ws (json_text fl v @ r') = json_text fl v @ r'" for r'
    using Cons.prems(1) p by (simp add: skip_ws_text)
  have asc: "ascii key" using Cons.prems(1) p by simp
  obtain t where t: "dump_str key = CHR 0x22 # t" using dump_str_Cons by blast
  have key: "length t < n \<Longrightarrow> parse_str n (t @ q) = Some (key, q)" for n q
    by (rule parse_str_dump_str [OF asc t])
  have set: "dict_set key w acc = acc @ [(key, w)]" for w
    using Cons.prems(3) p by (simp add: dict_simps)
  show ?case
  proof (cases d)
    case Nil
    then show ?thesis
      using Cons.prems(4) v ws key set p t
      by (simp add: k delim_def text_member_def del: parse_str.simps)
  next
    case (Cons y ys)
    let ?rest = "join '','' (map (text_member fl) d) @ CHR ''}'' # r"
    have "distinct (map fst ((acc @ [(key, map_floats rd v)]) @ d))" using Cons.prems(3) p by simp
    then have "parse_members k' (acc @ [(key, map_floats rd v)]) ?rest =
        Some ((acc @ [(key, map_floats rd v)]) @ map (\<lambda>(k, v). (k, map_floats rd v)) d, r)"
      using Cons Cons.prems k p by (intro Cons.IH) (auto simp: text_member_def)
    moreover have "skip_ws ?rest = ?rest"
      using Cons dump_str_Cons [of "fst y"] by (cases ys) (auto simp: text_member_def)
    moreover have "join '','' (map (text_member fl) (p # d)) =
        CHR 0x22 # t @ CHR '':'' # json_text fl v @ CHR '','' # join '','' (map (text_member fl) d)"
      using Cons p t by (simp add: text_member_def)
    ultimately show ?thesis
      using Cons.prems(4) v ws key set p
      by (simp add: k delim_def del: parse_str.simps list.map(2) [of "text_member fl"])
  qed
qed simp

theorem parse_value_text:
  "writable ok v \<Longrightarrow> delim r \<Longrightarrow> length (json_text fl v) < k \<Longrightarrow>
     parse_value k (json_text fl v @ r) = Some (map_floats rd v, r)"
proof (induction v arbitrary: k r)
  case (JInt i)
  then obtain k' where k: "k = Suc k'" by (cases k) auto
  obtain c s where c: "int_str i = c # s" "is_digit c \<or> c = CHR ''-''"
    using int_str_head [of i] by (elim exE conjE) auto
  then show ?case using JInt parse_literal_int [of r i] number_opener [OF c(2)] by (simp add: k)
next
  case (JFloat x)
  then obtain k' where k: "k = Suc k'" by (cases k) auto
  obtain c s where c: "fl x = c # s" "is_digit c \<or> c = CHR ''-''"
    using number [of x] JFloat.prems(1) by auto
  then show ?case using JFloat.prems reads [of x r] number_opener [OF c(2)] by (simp add: k)
next
  case (JStr s)
  then obtain k' where k: "k = Suc k'" by (cases k) auto
  obtain t where t: "dump_str s = CHR 0x22 # t" using dump_str_Cons by blast
  then show ?case
    using JStr parse_str_dump_str [of s t] by (simp add: k del: parse_str.simps)
next
  case (JArr xs)
  then obtain k' where k: "k = Suc k'" by (cases k) auto
  show ?case
  proof (cases "xs = []")
    case False
    then obtain c t where ct: "join '','' (map (json_text fl) xs) = c # t" "opener c"
      using JArr.prems(1) join_texts_Cons by (metis writable.simps(4))
    have "parse_elems k' (join '','' (map (json_text fl) xs) @ CHR '']'' # r) = Some (map (map_floats rd) xs, r)"
      using False JArr k by (intro parse_elems_text) auto
    with ct show ?thesis by (auto simp: k opener_def)
  qed (simp add: k)
next
  case (JObj d)
  then obtain k' where k: "k = Suc k'" by (cases k) auto
  show ?case
  proof (cases "d = []")
    case False
    then obtain t where t: "join '','' (map (text_member fl) d) = CHR 0x22 # t"
      using join_members_Cons by blast
    have "\<forall>p \<in> set d. ascii (fst p) \<and> writable ok (snd p) \<and>
      (\<forall>k r. length (json_text fl (snd p)) < k \<longrightarrow> delim r \<longrightarrow>
             parse_value k (json_text fl (snd p) @ r) = Some (map_floats rd (snd p), r))"
      using JObj.prems(1) JObj.IH by (force simp: snds.simps)
    then have "parse_members k' [] (join '','' (map (text_member fl) d) @ CHR ''}'' # r) =
        Some ([] @ map (\<lambda>(k, v). (k, map_floats rd v)) d, r)"
      using False JObj.prems k by (intro parse_members_text) (auto simp: json_text_obj simp del: json_text.simps)
    with t show ?thesis by (simp add: k json_text_obj del: json_text.simps)
  qed (simp add: k)
qed (auto simp: parse_literal_def literals_def startswith_simps dest!: less_imp_Suc_add)

theorem loads_text:
  assumes v: "writable ok v"
  shows "json_loads (json_text fl v) = Inr (map_floats rd v)"
proof -
  obtain c t where ct: "json_text fl v = c # t" "opener c" using text_opener [OF v] by blast
  then have "c \<noteq> chr8 239" by (auto simp: opener_def chr8_def)
  then have "\<not> startswith (json_text fl v) [chr8 239, chr8 187, chr8 191]"
    by (simp add: ct startswith_simps)
  moreover have "parse_value (Suc (length (json_text fl v))) (json_text fl v) = Some (map_floats rd v, [])"
    using parse_value_text [OF v, of "[]"] by (simp add: delim_def del: parse_value.simps)
  ultimately show ?thesis
    using skip_ws_text [OF v, of "[]"] by (simp add: json_loads_def skip_ws_def)
qed

end

text \<open>Python's own writer, of which no float is needed here.\<close>

interpretation python_writer: float_writer dump_float id "\<lambda>_. False"
  by unfold_locales simp_all

theorem json_loads_dumps: "plain v \<Longrightarrow> json_loads (json_dumps v) = Inr v"
  using python_writer.loads_text [OF plain_writable] by (simp add: json_dumps_text plain_map_floats)

text \<open>
  \<open>%.8f\<close>, the writer of the service: a finite float is written with eight decimals, and the decimal that is
  written is read as the float nearest to it.
\<close>

definition fixed8 :: "pyfloat \<Rightarrow> string" where
  "fixed8 x = (case x of Fin q \<Rightarrow> format_fixed 8 q | PosInf \<Rightarrow> ''inf'' | NegInf \<Rightarrow> ''-inf'' | NaN \<Rightarrow> ''nan'')"

definition eight_decimals :: "pyfloat \<Rightarrow> pyfloat" where
  "eight_decimals x =
     (case x of
        Fin q \<Rightarrow> (let m = rat_of_int (round_half_even (\<bar>q\<bar> * 10 ^ 8)) / 10 ^ 8 in rnd64 (if q < 0 then - m else m))
      | _ \<Rightarrow> x)"

lemma digits_nat_pad: "digits_nat (pad_left n s) = digits_nat s"
proof -
  have "digits_nat (replicate k (CHR ''0'') @ s) = digits_nat s" for k
    by (induction k) (simp_all add: digits_nat_def digit_val_def)
  then show ?thesis by (simp add: pad_left_def)
qed

lemma zero_digit: "is_digit CHR ''0'' = True" "is_digit CHR ''.'' = False" "is_digit CHR ''e'' = False"
  by (simp_all add: is_digit_def digit_val_def)

text \<open>The two parts of a number with eight decimals.\<close>

lemma eight_parts:
  fixes m :: nat
  defines "s \<equiv> pad_left 9 (nat_str m)"
  shows "\<exists>c ip fp. s = (c # ip) @ fp \<and> take (length s - 8) s = c # ip \<and> drop (length s - 8) s = fp \<and> fp \<noteq> [] \<and>
    (\<forall>x \<in> set s. is_digit x) \<and> (c = CHR ''0'' \<longrightarrow> ip = [])"
proof -
  have len: "9 \<le> length s" by (simp add: s_def pad_left_def)
  have digits: "\<forall>x \<in> set s. is_digit x" using nat_str_digits by (auto simp: s_def pad_left_def zero_digit)
  obtain c ip where ci: "take (length s - 8) s = c # ip"
    using len by (cases "take (length s - 8) s") auto
  have fp: "drop (length s - 8) s \<noteq> []" using len by simp
  have zero: "ip = []" if "c = CHR ''0''"
  proof (cases "length (nat_str m) \<le> 9")
    case True
    then have "length s = 9" by (simp add: s_def pad_left_def)
    then show ?thesis using ci by (cases s) auto
  next
    case False
    then have s: "s = nat_str m" by (simp add: s_def pad_left_def)
    have "0 < m" using False by (cases "m = 0") (simp_all add: nat_str.simps)
    then obtain d t where "nat_str m = d # t" "d \<noteq> CHR ''0''" using nat_str_head by blast
    then show ?thesis using ci s that False by (cases "length s - 8") auto
  qed
  have "s = (c # ip) @ drop (length s - 8) s" using append_take_drop_id [of "length s - 8" s] ci by simp
  then show ?thesis using ci fp digits zero by blast
qed

lemma span_all_digits: "\<forall>x \<in> set s. is_digit x \<Longrightarrow> r = [] \<or> \<not> is_digit (hd r) \<Longrightarrow> span_digits (s @ r) = (s, r)"
  by (cases r) (auto simp: span_digits_def takeWhile_append2 dropWhile_append2)

lemma no_literal:
  assumes "is_digit c \<or> c = CHR ''-'' \<and> (\<exists>d t. s = d # t \<and> is_digit d)"
  shows "find (\<lambda>(w, v). startswith (c # s) w) literals = None"
  using assms
proof (elim disjE conjE exE)
  assume "is_digit c"
  then have "c \<noteq> CHR ''n'' \<and> c \<noteq> CHR ''t'' \<and> c \<noteq> CHR ''f'' \<and> c \<noteq> CHR ''N'' \<and> c \<noteq> CHR ''I'' \<and> c \<noteq> CHR ''-''"
    by (intro conjI notI) simp_all
  then show ?thesis by (simp only: literals_def find.simps startswith_simps prod.case simp_thms if_False)
next
  fix d t assume c: "c = CHR ''-''" "s = d # t" and "is_digit d"
  then have "d \<noteq> CHR ''I''" by (intro notI) simp
  then show ?thesis by (simp add: c literals_def startswith_simps)
qed

lemma lower_number: "\<forall>x \<in> set s. is_digit x \<or> x = CHR ''-'' \<or> x = CHR ''.'' \<Longrightarrow> lower s = s"
  by (induction s) (auto simp: lower_def lower_char_def Let_def is_digit_def digit_val_def split: if_splits)

text \<open>A decimal with a point is read as the float nearest to it.\<close>

lemma float_of_decimal:
  assumes digits: "\<forall>x \<in> set (ip @ fp). is_digit x" and ne: "ip \<noteq> []" "fp \<noteq> []"
  shows "float_of_str ((if neg then ''-'' else []) @ ip @ CHR ''.'' # fp) =
    Inr (rnd64 (if neg then - decimal_value ip fp 0 else decimal_value ip fp 0))"
proof -
  let ?body = "ip @ CHR ''.'' # fp"
  have chars: "\<forall>x \<in> set ((if neg then ''-'' else []) @ ?body). is_digit x \<or> x = CHR ''-'' \<or> x = CHR ''.''"
    using digits by auto
  then have "\<forall>x \<in> set ((if neg then ''-'' else []) @ ?body). \<not> is_space x"
    using is_digit_not_minus by (fastforce simp: is_space_def)
  then have lowered: "lower (strip ((if neg then ''-'' else []) @ ?body)) = (if neg then ''-'' else []) @ ?body"
    using lower_number [OF chars] strip_digits by metis
  obtain c t where ct: "ip = c # t" using ne(1) by (cases ip) auto
  have c: "is_digit c" using digits ct by simp
  have signed: "signed_body ((if neg then ''-'' else []) @ ?body) = (neg, ?body)"
    using c ct is_digit_not_minus by auto
  have notword: "?body \<noteq> ''inf'' \<and> ?body \<noteq> ''infinity'' \<and> ?body \<noteq> ''nan''"
    by (intro conjI notI; drule arg_cong [where f = "\<lambda>l. CHR ''.'' \<in> set l"]; simp)
  have other: "x \<noteq> CHR ''e'' \<and> x \<noteq> CHR ''.''" if "is_digit x" for x using that by (auto simp: zero_digit)
  have no_e: "CHR ''e'' \<notin> set ?body" using digits other by fastforce
  have no_dot: "CHR ''.'' \<notin> set ip" using digits other by fastforce
  have "digit_run ip = Some ip" "digit_run fp = Some fp"
    using digits ne by (auto intro!: digit_run_digits)
  then have "unsigned_decimal ?body = Some (decimal_value ip fp 0)"
    using no_e no_dot ne by (simp add: unsigned_decimal_def split_first_sep opt_run_def split: prod.splits)
  then show ?thesis using notword by (simp add: float_of_str_def lowered signed)
qed

lemma fixed8_reads:
  assumes "x = Fin q" and r: "delim r"
  shows "parse_literal (fixed8 x @ r) = Some (JFloat (eight_decimals x), r)"
    and "\<exists>c t. fixed8 x = c # t \<and> (is_digit c \<or> c = CHR ''-'')"
proof -
  let ?m = "nat (round_half_even (\<bar>q\<bar> * 10 ^ 8))"
  let ?s = "pad_left 9 (nat_str ?m)"
  obtain c ip fp where p: "?s = (c # ip) @ fp" "take (length ?s - 8) ?s = c # ip" "drop (length ?s - 8) ?s = fp"
      "fp \<noteq> []" "\<forall>x \<in> set ?s. is_digit x" "c = CHR ''0'' \<longrightarrow> ip = []"
    using eight_parts [of ?m] by blast
  let ?sg = "if q < 0 then ''-'' else []"
  have written: "fixed8 x = ?sg @ (c # ip) @ CHR ''.'' # fp"
    using assms(1) p(2,3) by (simp add: fixed8_def format_fixed_def Let_def)
  have dig: "\<forall>x \<in> set (c # ip). is_digit x" "\<forall>x \<in> set fp. is_digit x" using p(1,5) by auto
  then have c: "is_digit c" "c \<noteq> CHR ''-''" using is_digit_not_minus by auto
  show "\<exists>c t. fixed8 x = c # t \<and> (is_digit c \<or> c = CHR ''-'')" using written c(1) by auto
  have notr: "r = [] \<or> \<not> is_digit (hd r)" using r by (cases r) (auto simp: delim_def)
  have "span_digits ((c # ip) @ CHR ''.'' # fp @ r) = (c # ip, CHR ''.'' # fp @ r)"
    by (rule span_all_digits) (use dig zero_digit in auto)
  then have int_part: "match_int (?sg @ (c # ip) @ CHR ''.'' # fp @ r) = Some (?sg @ c # ip, CHR ''.'' # fp @ r)"
    using c p(6) by (auto simp: match_int_def)
  have "span_digits (fp @ r) = (fp, r)" by (rule span_all_digits [OF dig(2) notr])
  then have frac: "match_frac (CHR ''.'' # fp @ r) = (CHR ''.'' # fp, r)" using p(4) by (simp add: match_frac_def)
  have ex: "match_exp r = ([], r)" using r by (cases r; force simp: delim_def match_exp_def)
  have val8: "float_of_str (?sg @ (c # ip) @ CHR ''.'' # fp) = Inr (eight_decimals x)"
  proof -
    have "9 \<le> length ?s" by (simp add: pad_left_def)
    moreover have "length fp = length ?s - (length ?s - 8)" using p(3) length_drop by metis
    ultimately have len: "length fp = 8" by linarith
    have dv: "decimal_value (c # ip) fp 0 = rat_of_int (round_half_even (\<bar>q\<bar> * 10 ^ 8)) / 10 ^ 8"
    proof -
      have "digits_nat ((c # ip) @ fp) = ?m" using digits_nat_pad [of 9 "nat_str ?m"] p(1) by (metis digits_nat_str)
      then show ?thesis
        using round_half_even_nonneg [of "\<bar>q\<bar> * 10 ^ 8"] by (simp add: decimal_value_def len pow10_def)
    qed
    have "\<forall>x \<in> set ((c # ip) @ fp). is_digit x" using dig by auto
    from float_of_decimal [OF this _ p(4), of "q < 0"]
    have "float_of_str (?sg @ (c # ip) @ CHR ''.'' # fp) =
        Inr (rnd64 (if q < 0 then - decimal_value (c # ip) fp 0 else decimal_value (c # ip) fp 0))"
      by simp
    then show ?thesis unfolding dv assms(1) eight_decimals_def Let_def pyfloat.case .
  qed
  have "parse_number (fixed8 x @ r) = Some (JFloat (eight_decimals x), r)"
    using int_part frac ex val8 written by (simp add: parse_number_def)
  moreover have "find (\<lambda>(w, v). startswith (fixed8 x @ r) w) literals = None"
    using written c(1) no_literal by (cases "q < 0") auto
  ultimately show "parse_literal (fixed8 x @ r) = Some (JFloat (eight_decimals x), r)" by (simp add: parse_literal_def)
qed

interpretation service_writer: float_writer fixed8 eight_decimals "\<lambda>x. \<exists>q. x = Fin q"
  by unfold_locales (auto intro: fixed8_reads, metis fixed8_reads(2) delim_def)

section \<open>The depth of containers\<close>

text \<open>
  The scanner calls itself for every container, and past the recursion limit of the interpreter raises
  \<^verbatim>\<open>RecursionError\<close>, a \<^verbatim>\<open>RuntimeError\<close>. The limit depends on the interpreter and its stack, so it is a parameter:
  \<open>value_deep k n s\<close> says that the scanner, with fuel \<open>k\<close>, comes to a container when \<open>n\<close> are open already and no
  more than \<open>n\<close> are allowed, before it ends in another way.
\<close>

fun value_deep :: "nat \<Rightarrow> nat \<Rightarrow> string \<Rightarrow> bool"
  and elems_deep :: "nat \<Rightarrow> nat \<Rightarrow> string \<Rightarrow> bool"
  and members_deep :: "nat \<Rightarrow> nat \<Rightarrow> string \<Rightarrow> bool"
where
  "value_deep 0 n s = False"
| "value_deep (Suc k) n s =
     (case s of
        [] \<Rightarrow> False
      | c # r \<Rightarrow>
          if c = CHR ''{'' then
            n = 0 \<or> (case skip_ws r of [] \<Rightarrow> False | d # r' \<Rightarrow> d \<noteq> CHR ''}'' \<and> members_deep k (n - 1) (d # r'))
          else if c = CHR ''['' then
            n = 0 \<or> (case skip_ws r of [] \<Rightarrow> False | d # r' \<Rightarrow> d \<noteq> CHR '']'' \<and> elems_deep k (n - 1) (d # r'))
          else False)"
| "elems_deep 0 n s = False"
| "elems_deep (Suc k) n s =
     (value_deep k n s \<or>
      (case parse_value k s of
         None \<Rightarrow> False
       | Some (v, r) \<Rightarrow>
           (case skip_ws r of [] \<Rightarrow> False | d # r' \<Rightarrow> d = CHR '','' \<and> elems_deep k n (skip_ws r'))))"
| "members_deep 0 n s = False"
| "members_deep (Suc k) n s =
     (case s of
        [] \<Rightarrow> False
      | c # r \<Rightarrow>
          c = CHR 0x22 \<and>
          (case parse_str (Suc (length r)) r of
             None \<Rightarrow> False
           | Some (key, r1) \<Rightarrow>
               (case skip_ws r1 of
                  [] \<Rightarrow> False
                | d # r2 \<Rightarrow>
                    d = CHR '':'' \<and>
                    (value_deep k n (skip_ws r2) \<or>
                     (case parse_value k (skip_ws r2) of
                        None \<Rightarrow> False
                      | Some (v, r3) \<Rightarrow>
                          (case skip_ws r3 of
                             [] \<Rightarrow> False
                           | e # r4 \<Rightarrow> e = CHR '','' \<and> members_deep k n (skip_ws r4)))))))"

text \<open>Twice the length of the text and one more are enough fuel: an open container takes a character and two units.\<close>

definition json_loads_within :: "nat \<Rightarrow> string \<Rightarrow> json result" where
  "json_loads_within limit s =
     (if startswith s [chr8 239, chr8 187, chr8 191] then Inl json_error
      else if value_deep (Suc (2 * length s)) limit (skip_ws s) then Inl RuntimeError
      else json_loads s)"

lemma members_deepE:
  assumes "members_deep (Suc k) n s"
  obtains r key r1 r2 where "s = CHR 0x22 # r" and "parse_str (Suc (length r)) r = Some (key, r1)"
    and "skip_ws r1 = CHR '':'' # r2"
    and "value_deep k n (skip_ws r2) \<or>
      (\<exists>v r3 r4. parse_value k (skip_ws r2) = Some (v, r3) \<and> skip_ws r3 = CHR '','' # r4 \<and> members_deep k n (skip_ws r4))"
proof -
  obtain r where s: "s = CHR 0x22 # r" using assms by (cases s) simp_all
  obtain key r1 where key: "parse_str (Suc (length r)) r = Some (key, r1)"
    using assms s by (cases "parse_str (Suc (length r)) r") auto
  obtain r2 where r2: "skip_ws r1 = CHR '':'' # r2" using assms s key by (cases "skip_ws r1") simp_all
  have rest: "value_deep k n (skip_ws r2) \<or>
      (case parse_value k (skip_ws r2) of None \<Rightarrow> False
       | Some (v, r3) \<Rightarrow> (case skip_ws r3 of [] \<Rightarrow> False | e # r4 \<Rightarrow> e = CHR '','' \<and> members_deep k n (skip_ws r4)))"
    using assms s key r2 by simp
  show ?thesis
  proof (rule that [OF s key r2])
    show "value_deep k n (skip_ws r2) \<or>
      (\<exists>v r3 r4. parse_value k (skip_ws r2) = Some (v, r3) \<and> skip_ws r3 = CHR '','' # r4 \<and> members_deep k n (skip_ws r4))"
    proof (cases "value_deep k n (skip_ws r2)")
      case False
      then obtain w where "parse_value k (skip_ws r2) = Some w" using rest by (cases "parse_value k (skip_ws r2)") simp_all
      then obtain v r3 where v: "parse_value k (skip_ws r2) = Some (v, r3)" by (cases w) simp
      then show ?thesis using rest False by (cases "skip_ws r3") simp_all
    qed simp
  qed
qed

lemma deep_mono:
  "value_deep k n s \<Longrightarrow> m \<le> n \<Longrightarrow> value_deep k m s"
  "elems_deep k n s \<Longrightarrow> m \<le> n \<Longrightarrow> elems_deep k m s"
  "members_deep k n s \<Longrightarrow> m \<le> n \<Longrightarrow> members_deep k m s"
proof (induction k arbitrary: n m s)
  case (Suc k)
  note IH = Suc.IH
  {
    case 1
    show ?case
    proof (cases "m = 0 \<or> n = 0")
      case True
      then show ?thesis using 1 by (cases s) (auto split: if_splits)
    next
      case False
      then have "m - 1 \<le> n - 1" using 1(2) by simp
      from IH(2) [OF _ this] IH(3) [OF _ this] show ?thesis
        using 1(1) False by (cases s) (auto split: if_splits list.splits)
    qed
  next
    case 2
    show ?case
    proof (cases "value_deep k n s")
      case True
      then show ?thesis using IH(1) 2(2) by simp
    next
      case False
      then obtain w where "parse_value k s = Some w" using 2(1) by (cases "parse_value k s") simp_all
      then obtain v r where v: "parse_value k s = Some (v, r)" by (cases w) simp
      obtain r' where "skip_ws r = CHR '','' # r'" "elems_deep k n (skip_ws r')"
        using 2(1) False v by (cases "skip_ws r") simp_all
      then show ?thesis using IH(2) [OF _ 2(2)] v by simp
    qed
  next
    case 3
    obtain r key r1 r2 where s: "s = CHR 0x22 # r" "parse_str (Suc (length r)) r = Some (key, r1)" "skip_ws r1 = CHR '':'' # r2"
      and rest: "value_deep k n (skip_ws r2) \<or>
        (\<exists>v r3 r4. parse_value k (skip_ws r2) = Some (v, r3) \<and> skip_ws r3 = CHR '','' # r4 \<and> members_deep k n (skip_ws r4))"
      using members_deepE [OF 3(1)] by blast
    from rest show ?case
    proof
      assume "value_deep k n (skip_ws r2)"
      then show ?thesis using IH(1) [OF _ 3(2)] s by simp
    next
      assume "\<exists>v r3 r4. parse_value k (skip_ws r2) = Some (v, r3) \<and> skip_ws r3 = CHR '','' # r4 \<and> members_deep k n (skip_ws r4)"
      then obtain v r3 r4 where "parse_value k (skip_ws r2) = Some (v, r3)" "skip_ws r3 = CHR '','' # r4" "members_deep k n (skip_ws r4)"
        by blast
      then show ?thesis using IH(3) [OF _ 3(2)] s by simp
    qed
  }
qed simp_all

lemma within_shallow:
  assumes "\<not> value_deep (Suc (2 * length s)) m (skip_ws s)" and "m \<le> n"
  shows "json_loads_within n s = json_loads s"
proof -
  have "\<not> value_deep (Suc (2 * length s)) n (skip_ws s)" using assms deep_mono(1) by blast
  then show ?thesis by (simp only: json_loads_within_def json_loads_def if_False if_cancel split: if_split) blast
qed

lemma nested_deep: "value_deep (Suc (2 * n) + j) n (replicate (Suc n) (CHR ''['') @ t)"
proof (induction n)
  case (Suc n)
  have fuel: "Suc (2 * Suc n) + j = Suc (Suc (Suc (2 * n) + j))" by simp
  have brackets: "replicate (Suc (Suc n)) (CHR ''['') @ t = CHR ''['' # CHR ''['' # replicate n (CHR ''['') @ t" by simp
  have "elems_deep (Suc (Suc (2 * n) + j)) n (CHR ''['' # replicate n (CHR ''['') @ t)"
    unfolding elems_deep.simps(2) using Suc by simp
  then show ?case
    unfolding fuel brackets value_deep.simps(2) [of _ "Suc n"] by (simp del: elems_deep.simps value_deep.simps)
qed simp

lemma nested_too_deep: "json_loads_within n (replicate (Suc n) (CHR ''['')) = Inl RuntimeError"
proof -
  have "value_deep (Suc (2 * length (replicate (Suc n) (CHR ''['')))) n (skip_ws (replicate (Suc n) (CHR ''['')))"
    using nested_deep [of n 2 "[]"] by simp
  moreover have "CHR ''['' \<noteq> chr8 239" using char_of_eq [of 239 "CHR ''[''"] by (simp add: chr8_def eq_commute [of _ "char_of 239"])
  ultimately show ?thesis by (simp del: value_deep.simps add: json_loads_within_def startswith_simps)
qed

end
