(* ===== verification/Wire_Messages.thy ===== *)
theory Wire_Messages
  imports Py_Json
begin

text \<open>
  The wire protocol between the feed service inside the terminal and the adapter
  (\<^verbatim>\<open>nautilus_mt5/feed/messages.py\<close>): the records of ticks and bars, the inbound messages and the parser
  of frames, the outbound commands and their builders. A \<^verbatim>\<open>dict\<close> access that the source makes with
  \<^verbatim>\<open>raw[k]\<close> raises \<open>KeyError\<close>, one made with \<^verbatim>\<open>get\<close> falls back to the default.
\<close>

section \<open>Messages\<close>

record wire_tick =
  time_msc :: int
  bid :: pyfloat
  ask :: pyfloat
  tlast :: pyfloat
  volume :: int
  flags :: int

record wire_bar =
  wb_symbol :: string
  wb_timeframe :: string
  wb_time :: int
  wb_open :: pyfloat
  wb_high :: pyfloat
  wb_low :: pyfloat
  wb_close :: pyfloat
  wb_tick_volume :: int
  wb_real_volume :: int
  wb_spread :: int

record hello_message =
  h_session :: string
  h_symbols :: "string list"
  h_bars :: "string list"
  h_terminal :: "json option"
  h_account :: "string option"

record tick_batch =
  tb_symbol :: string
  tb_cursor :: int
  tb_ticks :: "wire_tick list"

datatype wire_inbound =
    HelloMessage hello_message
  | TickBatchMessage tick_batch
  | BarMessage wire_bar
  | HeartbeatMessage int
  | PongMessage
  | ErrorMessage string string

datatype raw_frame = RStr string | RBytes string

section \<open>Parsing\<close>

definition symbols_tuple :: "json option \<Rightarrow> string list" where
  "symbols_tuple raw =
     (case raw of Some (JArr xs) \<Rightarrow> map py_str (filter jtruthy xs) | _ \<Rightarrow> [])"

fun bars_loop :: "json list \<Rightarrow> string list \<Rightarrow> string list" where
  "bars_loop [] out = out"
| "bars_loop (item # rest) out =
     (if \<not> jtruthy item then bars_loop rest out else bars_loop rest (out @ [py_str item]))"

definition bars_tuple :: "json option \<Rightarrow> string list" where
  "bars_tuple raw = (case raw of Some (JArr xs) \<Rightarrow> bars_loop xs [] | _ \<Rightarrow> [])"

text \<open>\<^verbatim>\<open>float(d.get(k, 0.0))\<close> and \<^verbatim>\<open>int(d.get(k, 0))\<close>.\<close>

definition get_float :: "(string, json) dict \<Rightarrow> string \<Rightarrow> pyfloat result" where
  "get_float d k = py_float (case dict_get d k of None \<Rightarrow> JFloat 0 | Some v \<Rightarrow> v)"

definition get_int :: "(string, json) dict \<Rightarrow> string \<Rightarrow> int result" where
  "get_int d k = py_int (case dict_get d k of None \<Rightarrow> JInt 0 | Some v \<Rightarrow> v)"

definition parse_tick :: "(string, json) dict \<Rightarrow> wire_tick result" where
  "parse_tick raw =
     bindR (bindR (dict_index raw ''time_msc'') py_int) (\<lambda>t.
     bindR (get_float raw ''bid'') (\<lambda>b.
     bindR (get_float raw ''ask'') (\<lambda>a.
     bindR (get_float raw ''last'') (\<lambda>l.
     bindR (get_int raw ''volume'') (\<lambda>v.
     bindR (get_int raw ''flags'') (\<lambda>f.
       Inr \<lparr>time_msc = t, bid = b, ask = a, tlast = l, volume = v, flags = f\<rparr>))))))"

text \<open>\<^verbatim>\<open>isinstance(x, str) and x\<close>: a nonempty string.\<close>

definition nonempty_str :: "json option \<Rightarrow> string option" where
  "nonempty_str v = (case v of Some (JStr s) \<Rightarrow> if s = [] then None else Some s | _ \<Rightarrow> None)"

text \<open>\<^verbatim>\<open>d.get(k)\<close> when the code only asks whether it is \<^verbatim>\<open>None\<close>: a JSON null counts as absent.\<close>

definition get_present :: "(string, json) dict \<Rightarrow> string \<Rightarrow> json option" where
  "get_present d k =
     (case dict_get d k of None \<Rightarrow> None | Some v \<Rightarrow> if v = JNull then None else Some v)"

definition parse_bar :: "(string, json) dict \<Rightarrow> wire_bar result" where
  "parse_bar payload =
     (case nonempty_str (dict_get payload ''symbol'') of
        None \<Rightarrow> Inl (ValueError ''bar missing symbol'')
      | Some symbol \<Rightarrow>
     (case nonempty_str (dict_get payload ''timeframe'') of
        None \<Rightarrow> Inl (ValueError ''bar missing timeframe'')
      | Some timeframe \<Rightarrow>
     (case get_present payload ''time'' of
        None \<Rightarrow> Inl (ValueError ''bar missing time'')
      | Some bar_time \<Rightarrow>
          bindR (py_int bar_time) (\<lambda>t.
          bindR (get_float payload ''open'') (\<lambda>opn.
          bindR (get_float payload ''high'') (\<lambda>hi.
          bindR (get_float payload ''low'') (\<lambda>lo.
          bindR (get_float payload ''close'') (\<lambda>cl.
          bindR (get_int payload ''tick_volume'') (\<lambda>tv.
          bindR (get_int payload ''real_volume'') (\<lambda>rv.
          bindR (get_int payload ''spread'') (\<lambda>sp.
            Inr \<lparr>wb_symbol = symbol, wb_timeframe = timeframe, wb_time = t, wb_open = opn,
                 wb_high = hi, wb_low = lo, wb_close = cl, wb_tick_volume = tv,
                 wb_real_volume = rv, wb_spread = sp\<rparr>)))))))))))"

definition parse_hello :: "(string, json) dict \<Rightarrow> wire_inbound result" where
  "parse_hello payload =
     (case nonempty_str (dict_get payload ''session'') of
        None \<Rightarrow> Inl (ValueError ''hello missing session'')
      | Some session \<Rightarrow>
          Inr (HelloMessage
            \<lparr>h_session = session,
             h_symbols = symbols_tuple (dict_get payload ''symbols''),
             h_bars = bars_tuple (dict_get payload ''bars''),
             h_terminal = get_present payload ''terminal'',
             h_account = map_option py_str (get_present payload ''account'')\<rparr>))"

definition dict_items :: "json list \<Rightarrow> (string, json) dict list" where
  "dict_items xs = concat (map (\<lambda>x. case x of JObj d \<Rightarrow> [d] | _ \<Rightarrow> []) xs)"

definition parse_ticks :: "(string, json) dict \<Rightarrow> wire_inbound result" where
  "parse_ticks payload =
     (case nonempty_str (dict_get payload ''symbol'') of
        None \<Rightarrow> Inl (ValueError ''ticks missing symbol'')
      | Some symbol \<Rightarrow>
     (case get_present payload ''cursor'' of
        None \<Rightarrow> Inl (ValueError ''ticks missing cursor'')
      | Some cursor \<Rightarrow>
     (case dict_get payload ''data'' of
        Some (JArr data) \<Rightarrow>
          bindR (traverse parse_tick (dict_items data)) (\<lambda>ticks.
          bindR (py_int cursor) (\<lambda>c.
            Inr (TickBatchMessage \<lparr>tb_symbol = symbol, tb_cursor = c, tb_ticks = ticks\<rparr>)))
      | _ \<Rightarrow> Inl (ValueError ''ticks missing data[]''))))"

definition parse_heartbeat :: "(string, json) dict \<Rightarrow> wire_inbound result" where
  "parse_heartbeat payload =
     (case get_present payload ''ts_msc'' of
        None \<Rightarrow> Inl (ValueError ''heartbeat missing ts_msc'')
      | Some ts \<Rightarrow> bindR (py_int ts) (\<lambda>t. Inr (HeartbeatMessage t)))"

definition parse_error :: "(string, json) dict \<Rightarrow> wire_inbound result" where
  "parse_error payload =
     (case (dict_get payload ''code'', dict_get payload ''message'') of
        (Some (JStr code), Some (JStr message)) \<Rightarrow> Inr (ErrorMessage code message)
      | _ \<Rightarrow> Inl (ValueError ''error missing code/message''))"

definition parse_payload :: "json \<Rightarrow> wire_inbound result" where
  "parse_payload p =
     (case p of
        JObj payload \<Rightarrow>
          (case dict_get payload ''op'' of
             Some (JStr op) \<Rightarrow>
               if op = ''hello'' then parse_hello payload
               else if op = ''ticks'' then parse_ticks payload
               else if op = ''bar'' then bindR (parse_bar payload) (\<lambda>b. Inr (BarMessage b))
               else if op = ''heartbeat'' then parse_heartbeat payload
               else if op = ''pong'' then Inr PongMessage
               else if op = ''error'' then parse_error payload
               else Inl (ValueError (''unsupported wire op: '' @ repr_str op))
           | _ \<Rightarrow> Inl (ValueError ''wire message missing string 'op' field''))
      | _ \<Rightarrow> Inl AttributeError)"

definition frame_text :: "raw_frame \<Rightarrow> string result" where
  "frame_text raw = (case raw of RStr s \<Rightarrow> Inr s | RBytes b \<Rightarrow> utf8_decode b)"

definition parse_wire_message :: "raw_frame \<Rightarrow> wire_inbound result" where
  "parse_wire_message raw = bindR (bindR (frame_text raw) json_loads) parse_payload"

text \<open>
  The parser in an interpreter that nests \<open>limit\<close> containers. \<open>parse_wire_message\<close> is the parser on the frames this
  limit is enough for, which are all the frames the service sends when the limit is three or more.
\<close>

definition parse_wire_message_within :: "nat \<Rightarrow> raw_frame \<Rightarrow> wire_inbound result" where
  "parse_wire_message_within limit raw = bindR (bindR (frame_text raw) (json_loads_within limit)) parse_payload"

section \<open>Commands\<close>

definition build_subscribe_command :: "string list \<Rightarrow> string" where
  "build_subscribe_command symbols =
     json_dumps (JObj [(''op'', JStr ''subscribe''), (''symbols'', JArr (map JStr symbols))])"

definition build_unsubscribe_command :: "string list \<Rightarrow> string" where
  "build_unsubscribe_command symbols =
     json_dumps (JObj [(''op'', JStr ''unsubscribe''), (''symbols'', JArr (map JStr symbols))])"

definition build_subscribe_bars_command :: "string list \<Rightarrow> string \<Rightarrow> string" where
  "build_subscribe_bars_command symbols timeframe =
     json_dumps (JObj [(''op'', JStr ''subscribe_bars''), (''symbols'', JArr (map JStr symbols)),
                       (''timeframe'', JStr timeframe)])"

definition build_unsubscribe_bars_command :: "string list \<Rightarrow> string \<Rightarrow> string" where
  "build_unsubscribe_bars_command symbols timeframe =
     json_dumps (JObj [(''op'', JStr ''unsubscribe_bars''), (''symbols'', JArr (map JStr symbols)),
                       (''timeframe'', JStr timeframe)])"

definition build_ping_command :: string where
  "build_ping_command = json_dumps (JObj [(''op'', JStr ''ping'')])"

text \<open>\<^verbatim>\<open>SYMBOL:M1\<close>, a bar specification of a hello message.\<close>

definition parse_bar_spec :: "string \<Rightarrow> (string \<times> string) option" where
  "parse_bar_spec spec =
     (if CHR '':'' \<notin> set spec then None
      else (case split_first (CHR '':'') spec of (s, t) \<Rightarrow>
              let symbol = strip s; timeframe = strip t
              in if symbol = [] \<or> timeframe = [] then None else Some (symbol, timeframe)))"

section \<open>What the parser accepts\<close>

text \<open>
  The messages the parser can return, and the payload that a service reports each of them with.
\<close>

fun wire_wf :: "wire_inbound \<Rightarrow> bool" where
  "wire_wf (HelloMessage h) \<longleftrightarrow>
     h_session h \<noteq> [] \<and> [] \<notin> set (h_symbols h) \<and> [] \<notin> set (h_bars h) \<and> h_terminal h \<noteq> Some JNull"
| "wire_wf (TickBatchMessage b) \<longleftrightarrow> tb_symbol b \<noteq> []"
| "wire_wf (BarMessage b) \<longleftrightarrow> wb_symbol b \<noteq> [] \<and> wb_timeframe b \<noteq> []"
| "wire_wf _ \<longleftrightarrow> True"

definition tick_payload :: "wire_tick \<Rightarrow> json" where
  "tick_payload t =
     JObj [(''time_msc'', JInt (time_msc t)), (''bid'', JFloat (bid t)), (''ask'', JFloat (ask t)),
           (''last'', JFloat (tlast t)), (''volume'', JInt (volume t)), (''flags'', JInt (flags t))]"

fun payload_of :: "wire_inbound \<Rightarrow> json" where
  "payload_of (HelloMessage h) =
     JObj ([(''op'', JStr ''hello''), (''session'', JStr (h_session h)),
            (''symbols'', JArr (map JStr (h_symbols h))), (''bars'', JArr (map JStr (h_bars h)))] @
           (case h_terminal h of None \<Rightarrow> [] | Some t \<Rightarrow> [(''terminal'', t)]) @
           (case h_account h of None \<Rightarrow> [] | Some a \<Rightarrow> [(''account'', JStr a)]))"
| "payload_of (TickBatchMessage b) =
     JObj [(''op'', JStr ''ticks''), (''symbol'', JStr (tb_symbol b)), (''cursor'', JInt (tb_cursor b)),
           (''data'', JArr (map tick_payload (tb_ticks b)))]"
| "payload_of (BarMessage b) =
     JObj [(''op'', JStr ''bar''), (''symbol'', JStr (wb_symbol b)), (''timeframe'', JStr (wb_timeframe b)),
           (''time'', JInt (wb_time b)), (''open'', JFloat (wb_open b)), (''high'', JFloat (wb_high b)),
           (''low'', JFloat (wb_low b)), (''close'', JFloat (wb_close b)),
           (''tick_volume'', JInt (wb_tick_volume b)), (''real_volume'', JInt (wb_real_volume b)),
           (''spread'', JInt (wb_spread b))]"
| "payload_of (HeartbeatMessage t) = JObj [(''op'', JStr ''heartbeat''), (''ts_msc'', JInt t)]"
| "payload_of PongMessage = JObj [(''op'', JStr ''pong'')]"
| "payload_of (ErrorMessage c m) =
     JObj [(''op'', JStr ''error''), (''code'', JStr c), (''message'', JStr m)]"

lemma nonempty_str_Some [simp]:
  "nonempty_str v = Some s \<longleftrightarrow> v = Some (JStr s) \<and> s \<noteq> []"
  by (auto simp: nonempty_str_def split: option.splits json.splits if_splits)

lemma place_point_not_Nil [simp]: "place_point ds e \<noteq> []"
  by (simp add: place_point_def Let_def)

lemma float_repr_not_Nil [simp]: "float_repr x \<noteq> []"
  by (cases x) (auto split: prod.splits)

lemma repr_str_not_Nil [simp]: "repr_str s \<noteq> []"
  by (simp add: repr_str_def Let_def)

lemma py_str_truthy: "jtruthy v \<Longrightarrow> py_str v \<noteq> []"
  by (cases v) auto

lemma bars_loop_eq: "bars_loop xs out = out @ map py_str (filter jtruthy xs)"
  by (induction xs arbitrary: out) auto

lemma bars_tuple_eq: "bars_tuple raw = symbols_tuple raw"
  by (simp add: bars_tuple_def symbols_tuple_def bars_loop_eq split: option.splits json.splits)

lemma symbols_tuple_nonempty: "[] \<notin> set (symbols_tuple raw)"
  using py_str_truthy by (auto simp: symbols_tuple_def split: option.splits json.splits) force

lemma symbols_tuple_strings: "[] \<notin> set ws \<Longrightarrow> symbols_tuple (Some (JArr (map JStr ws))) = ws"
  by (induction ws) (auto simp: symbols_tuple_def)

lemma get_present_JNull [simp]: "get_present d k \<noteq> Some JNull"
  by (simp add: get_present_def split: option.splits)

lemmas payload_defs = parse_payload_def parse_hello_def parse_ticks_def parse_bar_def
  parse_heartbeat_def parse_error_def

lemma parse_payload_wf: "parse_payload p = Inr m \<Longrightarrow> wire_wf m"
  by (auto simp: payload_defs bars_tuple_eq symbols_tuple_nonempty bindR_eq_Inr
      split: json.splits option.splits if_splits)

text \<open>The exceptions a frame can end in.\<close>

definition wire_failure :: "py_exc \<Rightarrow> bool" where
  "wire_failure e \<longleftrightarrow>
     is_value_error e \<or> e = KeyError \<or> e = TypeError \<or> e = AttributeError \<or> e = OverflowError"

definition fails_well :: "'a result \<Rightarrow> bool" where
  "fails_well r \<longleftrightarrow> (\<forall>e. r = Inl e \<longrightarrow> wire_failure e)"

lemma fails_well_simps [simp]:
  "fails_well (Inr x)" "fails_well (Inl (ValueError t))" "fails_well (Inl KeyError)"
  "fails_well (Inl TypeError)" "fails_well (Inl AttributeError)" "fails_well (Inl OverflowError)"
  by (auto simp: fails_well_def wire_failure_def)

lemma fails_well_bind [intro]:
  "fails_well r \<Longrightarrow> (\<And>x. fails_well (f x)) \<Longrightarrow> fails_well (bindR r f)"
  by (cases r) (auto simp: fails_well_def)

lemma fails_well_int [simp]: "fails_well (py_int v)"
proof -
  have "fails_well (int_of_float x)" for x by (cases x) auto
  then show ?thesis
    by (cases v) (auto simp: int_of_str_def split: prod.splits option.splits)
qed

lemma fails_well_float [simp]: "fails_well (py_float v)"
  by (cases v)
     (auto simp: float_of_int_def float_of_str_def split: prod.splits option.splits pyfloat.splits)

lemma fails_well_get [simp]: "fails_well (get_float d k)" "fails_well (get_int d k)" "fails_well (dict_index d k)"
  by (auto simp: get_float_def get_int_def dict_index_def split: option.splits)

lemma fails_well_traverse: "(\<And>x. fails_well (f x)) \<Longrightarrow> fails_well (traverse f xs)"
  by (induction xs) (auto intro!: fails_well_bind)

lemma fails_well_tick: "fails_well (parse_tick d)"
  unfolding parse_tick_def by (intro fails_well_bind) simp_all

lemma fails_well_ops:
  "fails_well (parse_hello d)" "fails_well (parse_heartbeat d)" "fails_well (parse_error d)"
  "fails_well (parse_bar d)"
  unfolding parse_hello_def parse_heartbeat_def parse_error_def parse_bar_def
  by (auto intro!: fails_well_bind split: option.splits json.splits)

lemma fails_well_parse_ticks: "fails_well (parse_ticks d)"
proof -
  have "fails_well (bindR (traverse parse_tick (dict_items data)) (\<lambda>ticks. bindR (py_int c) (\<lambda>i.
      Inr (TickBatchMessage \<lparr>tb_symbol = s, tb_cursor = i, tb_ticks = ticks\<rparr>))))" for data c s
    by (intro fails_well_bind fails_well_traverse fails_well_tick) simp_all
  then show ?thesis
    unfolding parse_ticks_def by (simp split: option.split json.split)
qed

lemma fails_well_payload: "fails_well (parse_payload p)"
  unfolding parse_payload_def
  by (simp add: fails_well_ops fails_well_parse_ticks fails_well_bind split: option.split json.split)

lemma fails_well_text: "fails_well (bindR (frame_text raw) json_loads)"
  by (auto simp: frame_text_def utf8_decode_def json_loads_def json_error_def
      intro!: fails_well_bind split: raw_frame.splits option.splits)

lemma dict_items_ticks: "dict_items (map tick_payload ts) = map (\<lambda>t. (case tick_payload t of JObj d \<Rightarrow> d)) ts"
  by (induction ts) (auto simp: dict_items_def tick_payload_def)

lemma parse_tick_of: "parse_tick (case tick_payload t of JObj d \<Rightarrow> d) = Inr t"
  by (simp add: tick_payload_def parse_tick_def get_float_def get_int_def dict_index_def)

lemma traverse_ticks: "traverse parse_tick (map (\<lambda>t. (case tick_payload t of JObj d \<Rightarrow> d)) ts) = Inr ts"
  by (induction ts) (simp_all add: parse_tick_of)

lemma parse_payload_of: "wire_wf m \<Longrightarrow> parse_payload (payload_of m) = Inr m"
proof (cases m)
  case (HelloMessage h)
  moreover assume "wire_wf m"
  ultimately show ?thesis
    by (cases h; cases "h_terminal h"; cases "h_account h")
       (auto simp: payload_defs bars_tuple_eq symbols_tuple_strings get_present_def nonempty_str_def)
next
  case (TickBatchMessage b)
  moreover assume "wire_wf m"
  ultimately show ?thesis
    by (simp add: payload_defs nonempty_str_def get_present_def dict_items_ticks traverse_ticks)
next
  case (BarMessage b)
  moreover assume "wire_wf m"
  ultimately show ?thesis
    by (simp add: payload_defs nonempty_str_def get_present_def get_float_def get_int_def)
qed (simp_all add: payload_defs get_present_def)

section \<open>Properties\<close>

text \<open>A frame in the characters the service sends, with \<^verbatim>\<open>~\<close> for the quotation mark.\<close>

definition dq :: "string \<Rightarrow> string" where
  "dq = map (\<lambda>c. if c = CHR ''~'' then CHR 0x22 else c)"

text \<open>
  Frames that are JSON but not what the parser expects: a tick without a time, a null volume, a payload that is an
  array, and an infinite cursor.
\<close>

definition odd_frames :: "(string \<times> py_exc) list" where
  "odd_frames =
     [(dq ''{~op~:~heartbeat~}'', ValueError ''heartbeat missing ts_msc''),
      (dq ''{~op~:~ticks~,~symbol~:~EURUSD~,~cursor~:5,~data~:[{}]}'', KeyError),
      (dq ''{~op~:~ticks~,~symbol~:~EURUSD~,~cursor~:5,~data~:[{~time_msc~:1,~volume~:null}]}'', TypeError),
      (''[]'', AttributeError),
      (dq ''{~op~:~ticks~,~symbol~:~EURUSD~,~cursor~:Infinity,~data~:[]}'', OverflowError)]"

lemma odd_frames_raise:
  "list_all (\<lambda>(s, e). \<not> value_deep (Suc (2 * length s)) 3 (skip_ws s) \<and> parse_wire_message (RStr s) = Inl e) odd_frames"
  by code_simp

lemma odd_frames_errors:
  "snd ` set odd_frames = {ValueError ''heartbeat missing ts_msc'', KeyError, TypeError, AttributeError, OverflowError}"
  by (simp add: odd_frames_def)

lemma odd_frames_raise_within:
  "3 \<le> n \<Longrightarrow> (s, e) \<in> set odd_frames \<Longrightarrow> parse_wire_message_within n (RStr s) = Inl e"
  using odd_frames_raise within_shallow [of s 3 n]
  by (auto simp: list_all_iff parse_wire_message_within_def parse_wire_message_def frame_text_def)

lemma json_loads_within_cases: "json_loads_within n s = json_loads s \<or> json_loads_within n s = Inl RuntimeError"
  by (simp add: json_loads_within_def json_loads_def)

lemma parse_within_cases:
  "parse_wire_message_within n raw = parse_wire_message raw \<or> parse_wire_message_within n raw = Inl RuntimeError"
  using json_loads_within_cases
  by (cases "frame_text raw") (auto simp: parse_wire_message_within_def parse_wire_message_def, metis bindR.simps(1))

text \<open>The class of an exception, without the text of a \<^verbatim>\<open>ValueError\<close>.\<close>

definition exc_class :: "py_exc \<Rightarrow> py_exc" where
  "exc_class e = (if is_value_error e then ValueError [] else e)"

text \<open>
  C12: the parser raises exceptions of six classes and of no other: the \<^verbatim>\<open>ValueError\<close> that it documents, and the
  \<^verbatim>\<open>KeyError\<close>, \<^verbatim>\<open>TypeError\<close>, \<^verbatim>\<open>AttributeError\<close>, \<^verbatim>\<open>OverflowError\<close> and \<^verbatim>\<open>RecursionError\<close> that it does not; each of them is
  raised by some frame, whatever the limit of the interpreter is. Every frame that raises none gives a message with
  a session, symbols and timeframes that are not empty.
\<close>

theorem parse_wire_message_exceptions:
  assumes "3 \<le> limit"
  shows "exc_class ` {e. \<exists>raw. parse_wire_message_within limit raw = Inl e} =
      {ValueError [], KeyError, TypeError, AttributeError, OverflowError, RuntimeError} \<and>
    (case parse_wire_message_within limit raw of Inl _ \<Rightarrow> True | Inr m \<Rightarrow> wire_wf m)"
proof
  let ?E = "{e. \<exists>raw. parse_wire_message_within limit raw = Inl e}"
  have "wire_failure e" if "parse_wire_message raw = Inl e" for raw e
  proof -
    have "fails_well (parse_wire_message raw)"
      unfolding parse_wire_message_def by (intro fails_well_bind fails_well_text fails_well_payload)
    then show ?thesis using that by (simp add: fails_well_def)
  qed
  then have "wire_failure e \<or> e = RuntimeError" if "parse_wire_message_within limit raw = Inl e" for raw e
    using parse_within_cases [of limit raw] that by (elim disjE) (simp_all del: not_None_eq)
  then have "?E \<subseteq> {e. wire_failure e \<or> e = RuntimeError}" by blast
  then have "exc_class ` ?E \<subseteq> exc_class ` {e. wire_failure e \<or> e = RuntimeError}" by (rule image_mono)
  also have "\<dots> \<subseteq> {ValueError [], KeyError, TypeError, AttributeError, OverflowError, RuntimeError}"
    by (auto simp: wire_failure_def exc_class_def split: if_splits)
  finally have upper: "exc_class ` ?E \<subseteq> {ValueError [], KeyError, TypeError, AttributeError, OverflowError, RuntimeError}" .
  have "e \<in> ?E" if "(s, e) \<in> set odd_frames" for s e using odd_frames_raise_within [OF assms that] by blast
  then have "snd ` set odd_frames \<subseteq> ?E" by fastforce
  then have "{ValueError ''heartbeat missing ts_msc'', KeyError, TypeError, AttributeError, OverflowError} \<subseteq> ?E"
    unfolding odd_frames_errors .
  moreover have "parse_wire_message_within limit (RStr (replicate (Suc limit) (CHR ''[''))) = Inl RuntimeError"
    using nested_too_deep [of limit] by (simp add: parse_wire_message_within_def frame_text_def)
  then have "RuntimeError \<in> ?E" by blast
  ultimately have "exc_class ` {ValueError ''heartbeat missing ts_msc'', KeyError, TypeError, AttributeError, OverflowError,
      RuntimeError} \<subseteq> exc_class ` ?E" by (intro image_mono) simp
  moreover have "exc_class ` {ValueError ''heartbeat missing ts_msc'', KeyError, TypeError, AttributeError, OverflowError,
      RuntimeError} = {ValueError [], KeyError, TypeError, AttributeError, OverflowError, RuntimeError}"
    by (auto simp: exc_class_def)
  ultimately show "exc_class ` ?E = {ValueError [], KeyError, TypeError, AttributeError, OverflowError, RuntimeError}"
    using upper by (simp only: subset_antisym)
  show "case parse_wire_message_within limit raw of Inl _ \<Rightarrow> True | Inr m \<Rightarrow> wire_wf m"
    using parse_within_cases [of limit raw]
    by (auto simp: parse_wire_message_def bindR_eq_Inr parse_payload_wf split: sum.splits)
qed

lemma parse_wire_message_exceptions_witness:
  "\<exists>raw e. parse_wire_message_within 1000 raw = Inl e \<and> exc_class e = RuntimeError"
proof -
  have "RuntimeError \<in> exc_class ` {e. \<exists>raw. parse_wire_message_within 1000 raw = Inl e}"
    using parse_wire_message_exceptions [of 1000] by simp
  then obtain e where "RuntimeError = exc_class e" "e \<in> {e. \<exists>raw. parse_wire_message_within 1000 raw = Inl e}"
    by (rule imageE)
  then show ?thesis by force
qed

text \<open>
  The text of every command is read back by a JSON reader as the object the command stands for.
\<close>

theorem commands_readable:
  assumes "\<forall>s \<in> set symbols. ascii s" and "ascii timeframe"
  shows "json_loads (build_subscribe_command symbols) =
      Inr (JObj [(''op'', JStr ''subscribe''), (''symbols'', JArr (map JStr symbols))]) \<and>
    json_loads (build_unsubscribe_command symbols) =
      Inr (JObj [(''op'', JStr ''unsubscribe''), (''symbols'', JArr (map JStr symbols))]) \<and>
    json_loads (build_subscribe_bars_command symbols timeframe) =
      Inr (JObj [(''op'', JStr ''subscribe_bars''), (''symbols'', JArr (map JStr symbols)),
                 (''timeframe'', JStr timeframe)]) \<and>
    json_loads (build_unsubscribe_bars_command symbols timeframe) =
      Inr (JObj [(''op'', JStr ''unsubscribe_bars''), (''symbols'', JArr (map JStr symbols)),
                 (''timeframe'', JStr timeframe)]) \<and>
    json_loads build_ping_command = Inr (JObj [(''op'', JStr ''ping'')])"
  unfolding build_subscribe_command_def build_unsubscribe_command_def build_subscribe_bars_command_def
    build_unsubscribe_bars_command_def build_ping_command_def
  using assms by (intro conjI json_loads_dumps) (auto simp: ascii_def)

lemma commands_readable_witness:
  "json_loads (build_subscribe_bars_command [''EURUSD'', ''WIN$N''] ''M1'') =
     Inr (JObj [(''op'', JStr ''subscribe_bars''), (''symbols'', JArr [JStr ''EURUSD'', JStr ''WIN$N'']),
                (''timeframe'', JStr ''M1'')])"
  using commands_readable [of "[''EURUSD'', ''WIN$N'']" "''M1''"] by (simp add: ascii_def)

end
