(* ===== verification/Feed_Converter.thy ===== *)
theory Feed_Converter
  imports Wire_Messages
begin

text \<open>
  From wire ticks and bars to the platform's quotes and bars (\<^verbatim>\<open>nautilus_mt5/feed/converter.py\<close>).
  Instruments, prices and quantities belong to the platform: \<open>instrument\<close> carries the instrument's own
  functions that make them, which may refuse a value, and \<open>secs_to_nanos\<close> is the platform's. The constructors
  \<^verbatim>\<open>QuoteTick\<close> and \<^verbatim>\<open>Bar\<close> are records here: they are taken to accept prices and sizes the instrument has made.
\<close>

record ('i, 'p, 'q) instrument =
  instrument_id :: 'i
  make_price :: "pyfloat \<Rightarrow> 'p result"
  make_qty :: "int \<Rightarrow> 'q result"

record ('i, 'p, 'q) quote_tick =
  qt_instrument_id :: 'i
  qt_bid_price :: 'p
  qt_ask_price :: 'p
  qt_bid_size :: 'q
  qt_ask_size :: 'q
  qt_ts_event :: int
  qt_ts_init :: int

record ('b, 'p, 'q) nbar =
  nb_bar_type :: 'b
  nb_open :: 'p
  nb_high :: 'p
  nb_low :: 'p
  nb_close :: 'p
  nb_volume :: 'q
  nb_ts_event :: int
  nb_ts_init :: int
  nb_is_revision :: bool

definition wire_tick_to_quote_tick ::
    "('i, 'p, 'q) instrument \<Rightarrow> wire_tick \<Rightarrow> int \<Rightarrow> ('i, 'p, 'q) quote_tick option result" where
  "wire_tick_to_quote_tick ins tick ts_init =
     (if bid tick \<le> 0 \<or> ask tick \<le> 0 then Inr None
      else (let ts_event = time_msc tick * 1000000 in
        bindR (make_price ins (bid tick)) (\<lambda>b.
        bindR (make_price ins (ask tick)) (\<lambda>a.
        bindR (make_qty ins 0) (\<lambda>bs.
        bindR (make_qty ins 0) (\<lambda>as.
          Inr (Some \<lparr>qt_instrument_id = instrument_id ins, qt_bid_price = b, qt_ask_price = a,
                     qt_bid_size = bs, qt_ask_size = as, qt_ts_event = ts_event,
                     qt_ts_init = max ts_init ts_event\<rparr>))))))) "

definition wire_bar_to_nautilus_bar ::
    "(int \<Rightarrow> int) \<Rightarrow> ('i, 'p, 'q) instrument \<Rightarrow> 'b \<Rightarrow> wire_bar \<Rightarrow> int \<Rightarrow> ('b, 'p, 'q) nbar option result" where
  "wire_bar_to_nautilus_bar secs_to_nanos ins bar_type bar ts_init =
     (if wb_close bar \<le> 0 \<or> wb_time bar \<le> 0 then Inr None
      else (let ts_event = secs_to_nanos (wb_time bar);
                vol = (if 0 < wb_tick_volume bar then wb_tick_volume bar else wb_real_volume bar) in
        bindR (make_price ins (wb_open bar)) (\<lambda>opn.
        bindR (make_price ins (wb_high bar)) (\<lambda>hi.
        bindR (make_price ins (wb_low bar)) (\<lambda>lo.
        bindR (make_price ins (wb_close bar)) (\<lambda>cl.
        bindR (make_qty ins vol) (\<lambda>v.
          Inr (Some \<lparr>nb_bar_type = bar_type, nb_open = opn, nb_high = hi, nb_low = lo,
                     nb_close = cl, nb_volume = v, nb_ts_event = ts_event,
                     nb_ts_init = max ts_init ts_event, nb_is_revision = False\<rparr>))))))))"

lemma wire_tick_to_quote_tick_None:
  "wire_tick_to_quote_tick ins tick t = Inr None \<longleftrightarrow> bid tick \<le> 0 \<or> ask tick \<le> 0"
  by (auto simp: wire_tick_to_quote_tick_def Let_def bindR_eq_Inr)

lemma wire_tick_to_quote_tick_Some:
  "wire_tick_to_quote_tick ins tick t = Inr (Some q) \<Longrightarrow>
   qt_ts_event q = time_msc tick * 1000000 \<and> qt_ts_event q \<le> qt_ts_init q \<and> t \<le> qt_ts_init q \<and>
   make_price ins (bid tick) = Inr (qt_bid_price q) \<and> make_price ins (ask tick) = Inr (qt_ask_price q) \<and>
   qt_instrument_id q = instrument_id ins \<and>
   make_qty ins 0 = Inr (qt_bid_size q) \<and> qt_ask_size q = qt_bid_size q"
  by (auto simp: wire_tick_to_quote_tick_def Let_def bindR_eq_Inr split: if_splits)

lemma wire_bar_None:
  "wire_bar_to_nautilus_bar sn ins bt bar t = Inr None \<longleftrightarrow> wb_close bar \<le> 0 \<or> wb_time bar \<le> 0"
  by (auto simp: wire_bar_to_nautilus_bar_def Let_def bindR_eq_Inr)

end
