(* ===== verification/Feed_Handler.thy ===== *)
theory Feed_Handler
  imports Wire_Messages
begin

text \<open>
  The inbound feed handler (\<^verbatim>\<open>nautilus_mt5/feed/handler.py\<close>): which subscriptions are pending and
  which the service reports, and the filters that drop ticks and bars seen before. The handler's
  dictionaries of per-symbol state are dictionaries here; a method that mutates the handler returns
  the new one.

  \<open>pending_marks\<close> is the contract of a pair of pending sets. It is interpreted for symbols and for
  pairs of a symbol and a timeframe.
\<close>

section \<open>Subscriptions\<close>

record subscription_state =
  pending_subscribe :: "string set"
  pending_unsubscribe :: "string set"
  service_symbols :: "string set"
  pending_bar_subscribe :: "(string \<times> string) set"
  pending_bar_unsubscribe :: "(string \<times> string) set"
  service_bars :: "(string \<times> string) set"
  session :: "string option"

definition subscription_state_init :: subscription_state where
  "subscription_state_init =
     \<lparr>pending_subscribe = {}, pending_unsubscribe = {}, service_symbols = {},
      pending_bar_subscribe = {}, pending_bar_unsubscribe = {}, service_bars = {}, session = None\<rparr>"

fun mark_subscribe :: "string list \<Rightarrow> subscription_state \<Rightarrow> subscription_state" where
  "mark_subscribe [] st = st"
| "mark_subscribe (symbol # rest) st =
     mark_subscribe rest
       (st\<lparr>pending_subscribe := insert symbol (pending_subscribe st),
           pending_unsubscribe := pending_unsubscribe st - {symbol}\<rparr>)"

fun mark_unsubscribe :: "string list \<Rightarrow> subscription_state \<Rightarrow> subscription_state" where
  "mark_unsubscribe [] st = st"
| "mark_unsubscribe (symbol # rest) st =
     mark_unsubscribe rest
       (st\<lparr>pending_unsubscribe := insert symbol (pending_unsubscribe st),
           pending_subscribe := pending_subscribe st - {symbol}\<rparr>)"

fun mark_bars_loop :: "string \<Rightarrow> string list \<Rightarrow> subscription_state \<Rightarrow> subscription_state" where
  "mark_bars_loop tf [] st = st"
| "mark_bars_loop tf (symbol # rest) st =
     mark_bars_loop tf rest
       (st\<lparr>pending_bar_subscribe := insert (symbol, tf) (pending_bar_subscribe st),
           pending_bar_unsubscribe := pending_bar_unsubscribe st - {(symbol, tf)}\<rparr>)"

definition mark_subscribe_bars :: "string list \<Rightarrow> string \<Rightarrow> subscription_state \<Rightarrow> subscription_state" where
  "mark_subscribe_bars symbols timeframe st = mark_bars_loop (upper timeframe) symbols st"

fun unmark_bars_loop :: "string \<Rightarrow> string list \<Rightarrow> subscription_state \<Rightarrow> subscription_state" where
  "unmark_bars_loop tf [] st = st"
| "unmark_bars_loop tf (symbol # rest) st =
     unmark_bars_loop tf rest
       (st\<lparr>pending_bar_unsubscribe := insert (symbol, tf) (pending_bar_unsubscribe st),
           pending_bar_subscribe := pending_bar_subscribe st - {(symbol, tf)}\<rparr>)"

definition mark_unsubscribe_bars :: "string list \<Rightarrow> string \<Rightarrow> subscription_state \<Rightarrow> subscription_state" where
  "mark_unsubscribe_bars symbols timeframe st = unmark_bars_loop (upper timeframe) symbols st"

text \<open>The bars a hello message reports: specifications that do not parse are skipped.\<close>

fun hello_bars :: "string list \<Rightarrow> (string \<times> string) set" where
  "hello_bars [] = {}"
| "hello_bars (spec # rest) =
     (case parse_bar_spec spec of
        None \<Rightarrow> hello_bars rest
      | Some (s, tf) \<Rightarrow> insert (s, upper tf) (hello_bars rest))"

definition apply_hello :: "hello_message \<Rightarrow> subscription_state \<Rightarrow> subscription_state" where
  "apply_hello hello st =
     st\<lparr>session := Some (h_session hello),
        service_symbols := set (h_symbols hello),
        pending_subscribe := pending_subscribe st - set (h_symbols hello),
        service_bars := hello_bars (h_bars hello),
        pending_bar_subscribe := pending_bar_subscribe st - hello_bars (h_bars hello)\<rparr>"

section \<open>The handler\<close>

record symbol_feed_state =
  last_cursor :: int
  last_tick :: "wire_tick option"

record bar_feed_state =
  last_closed_time :: int

record feed_handler =
  subscription_state :: subscription_state
  symbol_state :: "(string, symbol_feed_state) dict"
  bar_state :: "(string \<times> string, bar_feed_state) dict"

definition symbol_feed_init :: symbol_feed_state where
  "symbol_feed_init = \<lparr>last_cursor = 0, last_tick = None\<rparr>"

definition bar_feed_init :: bar_feed_state where
  "bar_feed_init = \<lparr>last_closed_time = 0\<rparr>"

definition feed_handler_init :: feed_handler where
  "feed_handler_init =
     \<lparr>subscription_state = subscription_state_init, symbol_state = [], bar_state = []\<rparr>"

definition handler_reset :: "feed_handler \<Rightarrow> feed_handler" where
  "handler_reset h =
     h\<lparr>subscription_state := subscription_state_init, symbol_state := [], bar_state := []\<rparr>"

text \<open>
  Tuples of numbers compare by value. (A NaN price equals itself here: the JSON reader has one NaN
  object, and tuples take identical objects as equal.)
\<close>

definition tick_key :: "wire_tick \<Rightarrow> int \<times> pyfloat \<times> pyfloat \<times> int \<times> int" where
  "tick_key t = (time_msc t, bid t, ask t, volume t, flags t)"

definition bar_key :: "wire_bar \<Rightarrow> string \<times> string \<times> int" where
  "bar_key b = (wb_symbol b, upper (wb_timeframe b), wb_time b)"

definition state_for :: "string \<Rightarrow> feed_handler \<Rightarrow> feed_handler \<times> symbol_feed_state" where
  "state_for symbol h =
     (case dict_get (symbol_state h) symbol of
        Some st \<Rightarrow> (h, st)
      | None \<Rightarrow> (h\<lparr>symbol_state := dict_set symbol symbol_feed_init (symbol_state h)\<rparr>, symbol_feed_init))"

definition bar_state_for :: "string \<Rightarrow> string \<Rightarrow> feed_handler \<Rightarrow> feed_handler \<times> bar_feed_state" where
  "bar_state_for symbol timeframe h =
     (let key = (symbol, upper timeframe) in
      case dict_get (bar_state h) key of
        Some st \<Rightarrow> (h, st)
      | None \<Rightarrow> (h\<lparr>bar_state := dict_set key bar_feed_init (bar_state h)\<rparr>, bar_feed_init))"

text \<open>One pass over the ticks of a batch; the state is read, not written, during the pass.\<close>

fun tick_loop :: "symbol_feed_state \<Rightarrow> wire_tick list \<Rightarrow> wire_tick list \<Rightarrow> wire_tick list" where
  "tick_loop st [] out = out"
| "tick_loop st (tick # rest) out =
     (if time_msc tick < last_cursor st then tick_loop st rest out
      else if (case last_tick st of None \<Rightarrow> False | Some l \<Rightarrow> tick_key tick = tick_key l)
           then tick_loop st rest out
      else if bid tick \<le> 0 \<or> ask tick \<le> 0 then tick_loop st rest out
      else tick_loop st rest (out @ [tick]))"

definition dedup_ticks :: "tick_batch \<Rightarrow> feed_handler \<Rightarrow> feed_handler \<times> wire_tick list" where
  "dedup_ticks batch h =
     (case state_for (tb_symbol batch) h of
        (h1, st) \<Rightarrow>
          if tb_cursor batch < last_cursor st then (h1, [])
          else (let out = tick_loop st (tb_ticks batch) []
                in if out = [] then (h1, [])
                   else (h1\<lparr>symbol_state := dict_set (tb_symbol batch)
                              \<lparr>last_cursor = tb_cursor batch, last_tick = Some (last out)\<rparr>
                              (symbol_state h1)\<rparr>,
                         out)))"

definition dedup_bar :: "wire_bar \<Rightarrow> feed_handler \<Rightarrow> feed_handler \<times> wire_bar option" where
  "dedup_bar bar h =
     (if wb_time bar \<le> 0 \<or> wb_close bar \<le> 0 then (h, None)
      else (case bar_state_for (wb_symbol bar) (wb_timeframe bar) h of
              (h1, st) \<Rightarrow>
                if wb_time bar \<le> last_closed_time st then (h1, None)
                else (h1\<lparr>bar_state := dict_set (wb_symbol bar, upper (wb_timeframe bar))
                           \<lparr>last_closed_time = wb_time bar\<rparr> (bar_state h1)\<rparr>,
                      Some bar)))"

fun handle_message :: "wire_inbound \<Rightarrow> feed_handler \<Rightarrow> feed_handler \<times> wire_inbound option" where
  "handle_message (HelloMessage hello) h =
     (h\<lparr>subscription_state := apply_hello hello (subscription_state h)\<rparr>, Some (HelloMessage hello))"
| "handle_message (TickBatchMessage batch) h =
     (case dedup_ticks batch h of
        (h1, []) \<Rightarrow> (h1, None)
      | (h1, t # ts) \<Rightarrow>
          (h1, Some (TickBatchMessage
                 \<lparr>tb_symbol = tb_symbol batch, tb_cursor = tb_cursor batch, tb_ticks = t # ts\<rparr>)))"
| "handle_message (BarMessage bar) h =
     (case dedup_bar bar h of (h1, b) \<Rightarrow> (h1, map_option BarMessage b))"
| "handle_message m h = (h, Some m)"

definition handle_raw :: "raw_frame \<Rightarrow> feed_handler \<Rightarrow> (feed_handler \<times> wire_inbound option) result" where
  "handle_raw raw h = bindR (parse_wire_message raw) (\<lambda>m. Inr (handle_message m h))"

text \<open>A sequence of messages, and the messages that come out of it.\<close>

fun handle_all :: "wire_inbound list \<Rightarrow> feed_handler \<Rightarrow> feed_handler \<times> wire_inbound list" where
  "handle_all [] h = (h, [])"
| "handle_all (m # ms) h =
     (case handle_message m h of
        (h1, e) \<Rightarrow> (case handle_all ms h1 of
                     (h2, out) \<Rightarrow> (h2, (case e of None \<Rightarrow> out | Some x \<Rightarrow> x # out))))"

section \<open>Pending sets\<close>

locale pending_marks =
  fixes wanted :: "'s \<Rightarrow> 'k set" and unwanted :: "'s \<Rightarrow> 'k set"
    and mark :: "'k list \<Rightarrow> 's \<Rightarrow> 's" and unmark :: "'k list \<Rightarrow> 's \<Rightarrow> 's"
  assumes wanted_mark: "wanted (mark ks s) = wanted s \<union> set ks"
    and unwanted_mark: "unwanted (mark ks s) = unwanted s - set ks"
    and wanted_unmark: "wanted (unmark ks s) = wanted s - set ks"
    and unwanted_unmark: "unwanted (unmark ks s) = unwanted s \<union> set ks"
begin

lemmas marks = wanted_mark unwanted_mark wanted_unmark unwanted_unmark

lemma mark_disjoint:
  "wanted s \<inter> unwanted s = {} \<Longrightarrow> wanted (mark ks s) \<inter> unwanted (mark ks s) = {}"
  by (auto simp: marks)

lemma unmark_disjoint:
  "wanted s \<inter> unwanted s = {} \<Longrightarrow> wanted (unmark ks s) \<inter> unwanted (unmark ks s) = {}"
  by (auto simp: marks)

lemma last_mark_wins:
  "wanted (mark ks (unmark ks s)) \<inter> set ks = set ks"
  "unwanted (mark ks (unmark ks s)) \<inter> set ks = {}"
  "wanted (unmark ks (mark ks s)) \<inter> set ks = {}"
  by (auto simp: marks)

end

lemma mark_subscribe_fields:
  "pending_subscribe (mark_subscribe ks st) = pending_subscribe st \<union> set ks"
  "pending_unsubscribe (mark_subscribe ks st) = pending_unsubscribe st - set ks"
  "pending_bar_subscribe (mark_subscribe ks st) = pending_bar_subscribe st"
  "pending_bar_unsubscribe (mark_subscribe ks st) = pending_bar_unsubscribe st"
  by (induction ks st rule: mark_subscribe.induct) auto

lemma mark_unsubscribe_fields:
  "pending_subscribe (mark_unsubscribe ks st) = pending_subscribe st - set ks"
  "pending_unsubscribe (mark_unsubscribe ks st) = pending_unsubscribe st \<union> set ks"
  "pending_bar_subscribe (mark_unsubscribe ks st) = pending_bar_subscribe st"
  "pending_bar_unsubscribe (mark_unsubscribe ks st) = pending_bar_unsubscribe st"
  by (induction ks st rule: mark_unsubscribe.induct) auto

lemma mark_bars_fields:
  "pending_bar_subscribe (mark_bars_loop tf ks st) = pending_bar_subscribe st \<union> (\<lambda>s. (s, tf)) ` set ks"
  "pending_bar_unsubscribe (mark_bars_loop tf ks st) = pending_bar_unsubscribe st - (\<lambda>s. (s, tf)) ` set ks"
  "pending_subscribe (mark_bars_loop tf ks st) = pending_subscribe st"
  "pending_unsubscribe (mark_bars_loop tf ks st) = pending_unsubscribe st"
  by (induction tf ks st rule: mark_bars_loop.induct) auto

lemma unmark_bars_fields:
  "pending_bar_subscribe (unmark_bars_loop tf ks st) = pending_bar_subscribe st - (\<lambda>s. (s, tf)) ` set ks"
  "pending_bar_unsubscribe (unmark_bars_loop tf ks st) = pending_bar_unsubscribe st \<union> (\<lambda>s. (s, tf)) ` set ks"
  "pending_subscribe (unmark_bars_loop tf ks st) = pending_subscribe st"
  "pending_unsubscribe (unmark_bars_loop tf ks st) = pending_unsubscribe st"
  by (induction tf ks st rule: unmark_bars_loop.induct) auto

interpretation symbol_marks: pending_marks pending_subscribe pending_unsubscribe
  mark_subscribe mark_unsubscribe
  by unfold_locales (simp_all add: mark_subscribe_fields mark_unsubscribe_fields)

text \<open>Bars of one timeframe: the pending symbols of that timeframe.\<close>

definition of_timeframe :: "string \<Rightarrow> (string \<times> string) set \<Rightarrow> string set" where
  "of_timeframe tf ps = {s. (s, upper tf) \<in> ps}"

interpretation bar_marks: pending_marks "\<lambda>st. of_timeframe tf (pending_bar_subscribe st)"
  "\<lambda>st. of_timeframe tf (pending_bar_unsubscribe st)"
  "\<lambda>ks. mark_subscribe_bars ks tf" "\<lambda>ks. mark_unsubscribe_bars ks tf" for tf
  by unfold_locales
     (auto simp: of_timeframe_def mark_subscribe_bars_def mark_unsubscribe_bars_def
       mark_bars_fields unmark_bars_fields)

definition marks_ok :: "subscription_state \<Rightarrow> bool" where
  "marks_ok st \<longleftrightarrow>
     pending_subscribe st \<inter> pending_unsubscribe st = {} \<and>
     pending_bar_subscribe st \<inter> pending_bar_unsubscribe st = {}"

section \<open>The filters\<close>

definition tick_passes :: "symbol_feed_state \<Rightarrow> wire_tick \<Rightarrow> bool" where
  "tick_passes st t \<longleftrightarrow>
     last_cursor st \<le> time_msc t \<and> map_option tick_key (last_tick st) \<noteq> Some (tick_key t) \<and>
     \<not> bid t \<le> 0 \<and> \<not> ask t \<le> 0"

lemma tick_loop_filter: "tick_loop st ts out = out @ filter (tick_passes st) ts"
  by (induction st ts out rule: tick_loop.induct) (auto simp: tick_passes_def split: option.splits)

text \<open>The state a symbol or a bar stream has, whether or not the handler has stored one.\<close>

definition feed_state :: "feed_handler \<Rightarrow> string \<Rightarrow> symbol_feed_state" where
  "feed_state h s = (case dict_get (symbol_state h) s of None \<Rightarrow> symbol_feed_init | Some st \<Rightarrow> st)"

definition cursor_of :: "feed_handler \<Rightarrow> string \<Rightarrow> int" where
  "cursor_of h s = last_cursor (feed_state h s)"

definition closed_of :: "feed_handler \<Rightarrow> string \<times> string \<Rightarrow> int" where
  "closed_of h k = (case dict_get (bar_state h) k of None \<Rightarrow> 0 | Some st \<Rightarrow> last_closed_time st)"

lemma state_for_fields:
  assumes "state_for s h = (h1, st)"
  shows "st = feed_state h s" "feed_state h1 = feed_state h" "closed_of h1 = closed_of h"
    "subscription_state h1 = subscription_state h"
  using assms
  by (auto simp: state_for_def feed_state_def closed_of_def dict_simps fun_eq_iff split: option.splits if_splits)

lemma bar_state_for_fields:
  assumes "bar_state_for s tf h = (h1, st)"
  shows "last_closed_time st = closed_of h (s, upper tf)" "feed_state h1 = feed_state h"
    "closed_of h1 = closed_of h" "subscription_state h1 = subscription_state h"
  using assms
  by (auto simp: bar_state_for_def feed_state_def closed_of_def bar_feed_init_def dict_simps
      fun_eq_iff Let_def split: option.splits if_splits)

lemma dedup_ticks_spec:
  assumes "dedup_ticks b h = (h', out)"
  shows "out = (if tb_cursor b < cursor_of h (tb_symbol b) then []
                else filter (tick_passes (feed_state h (tb_symbol b))) (tb_ticks b))"
    and "feed_state h' = (if out = [] then feed_state h
                else (feed_state h)(tb_symbol b := \<lparr>last_cursor = tb_cursor b, last_tick = Some (last out)\<rparr>))"
    and "closed_of h' = closed_of h" and "subscription_state h' = subscription_state h"
proof -
  obtain h1 st where st: "state_for (tb_symbol b) h = (h1, st)" by fastforce
  note sf = state_for_fields [OF st]
  show "out = (if tb_cursor b < cursor_of h (tb_symbol b) then []
                else filter (tick_passes (feed_state h (tb_symbol b))) (tb_ticks b))"
    using assms sf by (auto simp: dedup_ticks_def st cursor_of_def tick_loop_filter Let_def split: if_splits)
  show "feed_state h' = (if out = [] then feed_state h
                else (feed_state h)(tb_symbol b := \<lparr>last_cursor = tb_cursor b, last_tick = Some (last out)\<rparr>))"
    using assms sf(2)
    by (auto simp: dedup_ticks_def st feed_state_def fun_eq_iff dict_simps Let_def split: if_splits)
  show "closed_of h' = closed_of h" "subscription_state h' = subscription_state h"
    using assms sf
    by (auto simp: dedup_ticks_def st closed_of_def fun_eq_iff Let_def split: if_splits)
qed

lemma dedup_bar_spec:
  assumes "dedup_bar b h = (h', out)"
  defines "k \<equiv> (wb_symbol b, upper (wb_timeframe b))"
  shows "out = (if 0 < wb_time b \<and> \<not> wb_close b \<le> 0 \<and> closed_of h k < wb_time b then Some b else None)"
    and "closed_of h' = (if out = None then closed_of h else (closed_of h)(k := wb_time b))"
    and "feed_state h' = feed_state h" and "subscription_state h' = subscription_state h"
proof -
  obtain h1 st where st: "bar_state_for (wb_symbol b) (wb_timeframe b) h = (h1, st)" by fastforce
  note sf = bar_state_for_fields [OF st]
  show "out = (if 0 < wb_time b \<and> \<not> wb_close b \<le> 0 \<and> closed_of h k < wb_time b then Some b else None)"
    using assms sf(1) by (auto simp: dedup_bar_def st k_def split: if_splits)
  show "closed_of h' = (if out = None then closed_of h else (closed_of h)(k := wb_time b))"
    using assms sf(3)
    by (auto simp: dedup_bar_def st k_def closed_of_def fun_eq_iff dict_simps split: if_splits)
  show "feed_state h' = feed_state h" "subscription_state h' = subscription_state h"
    using assms sf
    by (auto simp: dedup_bar_def st feed_state_def fun_eq_iff split: if_splits)
qed

section \<open>Properties\<close>

text \<open>
  Reading the output: the ticks of one symbol follow a cursor, the bar times of one stream. \<open>records\<close>
  keeps the elements of a list that exceed every earlier one and the bound.
\<close>

fun ticks_follow :: "string \<Rightarrow> int \<Rightarrow> wire_inbound list \<Rightarrow> bool" where
  "ticks_follow s c [] \<longleftrightarrow> True"
| "ticks_follow s c (TickBatchMessage b # out) \<longleftrightarrow>
     (if tb_symbol b = s
      then c \<le> tb_cursor b \<and> tb_ticks b \<noteq> [] \<and>
           list_all (\<lambda>t. c \<le> time_msc t \<and> \<not> bid t \<le> 0 \<and> \<not> ask t \<le> 0) (tb_ticks b) \<and>
           ticks_follow s (tb_cursor b) out
      else ticks_follow s c out)"
| "ticks_follow s c (m # out) \<longleftrightarrow> ticks_follow s c out"

fun bar_times :: "string \<times> string \<Rightarrow> wire_inbound list \<Rightarrow> int list" where
  "bar_times k [] = []"
| "bar_times k (BarMessage b # out) =
     (if (wb_symbol b, upper (wb_timeframe b)) = k \<and> 0 < wb_time b \<and> \<not> wb_close b \<le> 0
      then wb_time b # bar_times k out else bar_times k out)"
| "bar_times k (m # out) = bar_times k out"

fun records :: "int \<Rightarrow> int list \<Rightarrow> int list" where
  "records m [] = []"
| "records m (x # xs) = (if m < x then x # records x xs else records m xs)"

lemma records_above: "x \<in> set (records m xs) \<Longrightarrow> m < x"
  by (induction m xs rule: records.induct) (auto split: if_splits dest: order.strict_trans)

lemma records_increasing: "sorted_wrt (<) (records m xs)"
  by (induction m xs rule: records.induct) (auto dest: records_above)

lemma handle_message_ticks:
  assumes "handle_message (TickBatchMessage b) h = (h', e)"
  shows "e = None \<and> feed_state h' = feed_state h \<or>
     (\<exists>out. out \<noteq> [] \<and> e = Some (TickBatchMessage (b\<lparr>tb_ticks := out\<rparr>)) \<and>
            cursor_of h (tb_symbol b) \<le> tb_cursor b \<and>
            out = filter (tick_passes (feed_state h (tb_symbol b))) (tb_ticks b) \<and>
            cursor_of h' = (cursor_of h)(tb_symbol b := tb_cursor b))"
proof -
  obtain h1 out where d: "dedup_ticks b h = (h1, out)" by fastforce
  show ?thesis
  proof (cases out)
    case Nil
    then show ?thesis using assms d dedup_ticks_spec(2) [OF d] by simp
  next
    case (Cons t ts)
    then have "cursor_of h (tb_symbol b) \<le> tb_cursor b"
      "out = filter (tick_passes (feed_state h (tb_symbol b))) (tb_ticks b)"
      using dedup_ticks_spec(1) [OF d] by (auto split: if_splits)
    moreover have "cursor_of h1 = (cursor_of h)(tb_symbol b := tb_cursor b)"
      using dedup_ticks_spec(2) [OF d] Cons by (simp add: cursor_of_def fun_eq_iff)
    moreover have "h' = h1 \<and> e = Some (TickBatchMessage (b\<lparr>tb_ticks := out\<rparr>))"
      using assms d Cons by (cases b) simp
    moreover have "out \<noteq> []" using Cons by simp
    ultimately show ?thesis by metis
  qed
qed

lemma handle_all_ticks: "ticks_follow s (cursor_of h s) (snd (handle_all ms h))"
proof (induction ms arbitrary: h)
  case (Cons m ms)
  obtain h1 e where m: "handle_message m h = (h1, e)" by fastforce
  have IH: "ticks_follow s (cursor_of h1 s) (snd (handle_all ms h1))" by (rule Cons.IH)
  show ?case
  proof (cases m)
    case (TickBatchMessage b)
    consider "e = None" "feed_state h1 = feed_state h"
      | out where "out \<noteq> []" "e = Some (TickBatchMessage (b\<lparr>tb_ticks := out\<rparr>))"
        "cursor_of h (tb_symbol b) \<le> tb_cursor b"
        "out = filter (tick_passes (feed_state h (tb_symbol b))) (tb_ticks b)"
        "cursor_of h1 = (cursor_of h)(tb_symbol b := tb_cursor b)"
      using handle_message_ticks m TickBatchMessage by blast
    then show ?thesis
    proof cases
      case 1
      then show ?thesis using m IH by (simp add: cursor_of_def split: prod.splits)
    next
      case 2
      then have "list_all (\<lambda>t. cursor_of h (tb_symbol b) \<le> time_msc t \<and> \<not> bid t \<le> 0 \<and> \<not> ask t \<le> 0) out"
        by (auto simp: list_all_iff tick_passes_def cursor_of_def)
      then show ?thesis using m IH 2(1,2,3,5) by (auto split: prod.splits)
    qed
  next
    case (BarMessage b)
    then have "cursor_of h1 s = cursor_of h s"
      using m by (auto simp: cursor_of_def split: prod.splits dest: dedup_bar_spec(3))
    then show ?thesis using m IH BarMessage by (auto split: prod.splits option.splits)
  qed (use m IH in \<open>auto simp: cursor_of_def feed_state_def split: prod.splits\<close>)
qed simp

text \<open>
  C3: whatever arrives, the ticks that come out for a symbol follow its cursor: each batch is
  nonempty, its cursor is not below the one before it, and each of its ticks is not older than that
  cursor and has no price at or below zero.
\<close>

theorem ticks_follow_cursor:
  "ticks_follow s (cursor_of h s) (snd (handle_all ms h))"
  by (rule handle_all_ticks)

lemma handle_all_bars:
  "bar_times k (snd (handle_all ms h)) = records (closed_of h k) (bar_times k ms)"
proof (induction ms arbitrary: h)
  case (Cons m ms)
  obtain h1 e where m: "handle_message m h = (h1, e)" by fastforce
  note IH = Cons.IH [of h1]
  show ?case
  proof (cases m)
    case (TickBatchMessage b)
    obtain h2 out where d: "dedup_ticks b h = (h2, out)" by fastforce
    then show ?thesis
      using m IH TickBatchMessage dedup_ticks_spec(3) [OF d] by (cases out) (auto split: prod.splits)
  next
    case (BarMessage b)
    obtain h2 out where d: "dedup_bar b h = (h2, out)" by fastforce
    show ?thesis
      using m IH BarMessage d dedup_bar_spec(1,2) [OF d]
      by (auto split: prod.splits if_splits)
  qed (use m IH in \<open>auto simp: closed_of_def split: prod.splits\<close>)
qed simp

text \<open>
  C4: the closed bars that come out for a symbol and a timeframe, written in either case, are those
  of the input with a positive time and a close not at or below zero whose time exceeds every earlier
  one; so their times strictly increase.
\<close>

theorem bars_are_records:
  "bar_times k (snd (handle_all ms h)) = records (closed_of h k) (bar_times k ms) \<and>
   sorted_wrt (<) (bar_times k (snd (handle_all ms h)))"
  by (simp add: handle_all_bars records_increasing)

text \<open>
  A batch that is sent again after it was handled lets through exactly its ticks with good prices
  at or after its cursor that differ from the last one let through: the filter remembers one tick, not
  the set of those at the cursor's time.
\<close>

theorem dedup_replay:
  assumes "dedup_ticks b h = (h', out)" and "out \<noteq> []"
  shows "snd (dedup_ticks b h') =
    filter (\<lambda>t. tb_cursor b \<le> time_msc t \<and> tick_key t \<noteq> tick_key (last out) \<and>
                \<not> bid t \<le> 0 \<and> \<not> ask t \<le> 0) (tb_ticks b)"
proof -
  obtain h2 out2 where d: "dedup_ticks b h' = (h2, out2)" by fastforce
  have st: "feed_state h' (tb_symbol b) = \<lparr>last_cursor = tb_cursor b, last_tick = Some (last out)\<rparr>"
    using dedup_ticks_spec(2) [OF assms(1)] assms(2) by simp
  have "out2 = filter (tick_passes (feed_state h' (tb_symbol b))) (tb_ticks b)"
    using dedup_ticks_spec(1) [OF d] st by (simp add: cursor_of_def)
  then show ?thesis using d by (auto simp: st tick_passes_def intro!: filter_cong)
qed

text \<open>Two ticks in the cursor's millisecond: the first of them comes out a second time.\<close>

definition tick_at :: "int \<Rightarrow> rat \<Rightarrow> wire_tick" where
  "tick_at t p = \<lparr>time_msc = t, bid = Fin p, ask = Fin p, tlast = 0, volume = 0, flags = 0\<rparr>"

lemma dedup_replay_witness:
  "let b = \<lparr>tb_symbol = ''EURUSD'', tb_cursor = 5, tb_ticks = [tick_at 5 1, tick_at 5 2]\<rparr>;
       h = fst (dedup_ticks b feed_handler_init)
   in snd (dedup_ticks b h) = [tick_at 5 1]"
proof -
  define b where "b = \<lparr>tb_symbol = ''EURUSD'', tb_cursor = 5, tb_ticks = [tick_at 5 1, tick_at 5 2]\<rparr>"
  obtain h' out where d: "dedup_ticks b feed_handler_init = (h', out)" by fastforce
  have out: "out = [tick_at 5 1, tick_at 5 2]"
    using dedup_ticks_spec(1) [OF d]
    by (simp add: b_def cursor_of_def feed_state_def feed_handler_init_def symbol_feed_init_def
        tick_passes_def tick_at_def)
  have "snd (dedup_ticks b h') = [tick_at 5 1]"
    using dedup_replay [OF d] by (simp add: out b_def tick_at_def tick_key_def)
  then show ?thesis using d by (simp add: b_def Let_def)
qed

text \<open>
  No symbol and no bar stream is ever pending in both directions: the four marking operations and
  a hello message keep that, a mark makes exactly its own symbols pending, and a hello message ends
  the pending subscriptions that it reports and no others.
\<close>

theorem marks_stay_disjoint:
  assumes "marks_ok st"
  shows "marks_ok (mark_subscribe ks st) \<and> marks_ok (mark_unsubscribe ks st) \<and>
    marks_ok (mark_subscribe_bars ks tf st) \<and> marks_ok (mark_unsubscribe_bars ks tf st) \<and>
    marks_ok (apply_hello hello st) \<and>
    pending_subscribe (mark_subscribe ks st) = pending_subscribe st \<union> set ks \<and>
    of_timeframe tf (pending_bar_subscribe (mark_subscribe_bars ks tf st)) =
      of_timeframe tf (pending_bar_subscribe st) \<union> set ks \<and>
    pending_subscribe (apply_hello hello st) = pending_subscribe st - set (h_symbols hello)"
proof -
  have "marks_ok (mark_subscribe ks st)" "marks_ok (mark_unsubscribe ks st)"
    using assms symbol_marks.mark_disjoint symbol_marks.unmark_disjoint
    by (simp_all add: marks_ok_def mark_subscribe_fields mark_unsubscribe_fields)
  moreover have "marks_ok (mark_subscribe_bars ks tf st)" "marks_ok (mark_unsubscribe_bars ks tf st)"
    using assms
    by (auto simp: marks_ok_def mark_subscribe_bars_def mark_unsubscribe_bars_def
        mark_bars_fields unmark_bars_fields)
  moreover have "marks_ok (apply_hello hello st)"
    using assms by (auto simp: marks_ok_def apply_hello_def)
  ultimately show ?thesis
    by (simp add: symbol_marks.wanted_mark bar_marks.wanted_mark apply_hello_def)
qed

lemma marks_stay_disjoint_witness:
  "marks_ok (mark_unsubscribe [''A''] subscription_state_init) \<and>
   pending_subscribe (mark_subscribe [''A'', ''B''] subscription_state_init) = {''A'', ''B''}"
  using marks_stay_disjoint [of subscription_state_init "[''A'', ''B'']" "''M1''"]
    marks_stay_disjoint [of subscription_state_init "[''A'']" "''M1''"]
  by (simp add: marks_ok_def subscription_state_init_def)

end
