(* ===== verification/Feed_Gateway.thy ===== *)
theory Feed_Gateway
  imports Feed_Handler
begin

text \<open>
  The WebSocket server the feed service connects to (\<^verbatim>\<open>nautilus_mt5/feed/gateway.py\<close> and
  \<^verbatim>\<open>config.py\<close>). The server library is not part of the program: a connection is a number, and the
  set of connections it reports as \<^verbatim>\<open>OPEN\<close> is part of the state that the environment may shrink.
  Closing a connection leaves \<^verbatim>\<open>OPEN\<close>, and a connection whose handler returns or raises is closed by
  the library. The coroutines hold the connection lock or do not suspend between reading and writing
  the fields, so each of them is one step, and a frame is handled in one step.
\<close>

section \<open>Paths\<close>

definition with_slash :: "string \<Rightarrow> string" where
  "with_slash p = (if startswith p ''/'' then p else ''/'' @ p)"

definition normalize_feed_request_path :: "string option \<Rightarrow> string \<Rightarrow> string" where
  "normalize_feed_request_path request_path configured_path =
     (case request_path of
        None \<Rightarrow> with_slash configured_path
      | Some rp \<Rightarrow>
          if rp = [] then with_slash configured_path
          else
            (let raw = strip rp;
                 raw' = (if startswith raw ''ws://'' \<or> startswith raw ''wss://'' then
                           (case cut ''://'' raw of
                              Some (_, without) \<Rightarrow>
                                if CHR ''/'' \<in> set without then dropWhile (\<lambda>c. c \<noteq> CHR ''/'') without
                                else ''/''
                            | None \<Rightarrow> raw)
                         else raw);
                 path = with_slash (fst (split_first (CHR ''?'') raw'))
             in if rstrip_char (CHR ''/'') path = [] then ''/'' else rstrip_char (CHR ''/'') path))"

definition feed_path_matches :: "string option \<Rightarrow> string \<Rightarrow> bool" where
  "feed_path_matches request_path configured_path =
     (let expected = with_slash configured_path;
          actual = normalize_feed_request_path request_path configured_path
      in actual = rstrip_char (CHR ''/'') expected \<or> actual = expected)"

section \<open>State\<close>

record feed_config =
  fc_enabled :: bool
  fc_host :: string
  fc_port :: int
  fc_path :: string
  fc_hello_timeout_secs :: pyfloat
  fc_reconnect_notify :: bool

definition feed_config_default :: feed_config where
  "feed_config_default =
     \<lparr>fc_enabled = False, fc_host = ''0.0.0.0'', fc_port = 8765, fc_path = ''/mt5-feed'',
      fc_hello_timeout_secs = Fin 30, fc_reconnect_notify = True\<rparr>"

text \<open>
  \<open>serving\<close> are the connections whose handler is reading frames, \<open>sent\<close> the commands written, and
  \<open>events\<close> the messages passed to the \<^verbatim>\<open>on_event\<close> callback, both oldest first.
\<close>

record gateway =
  gw_path :: string
  gw_handler :: feed_handler
  server :: bool
  service_ws :: "nat option"
  hello_event :: bool
  last_hello :: "hello_message option"
  ws_open :: "nat set"
  serving :: "nat set"
  sent :: "(nat \<times> string) list"
  events :: "wire_inbound list"

definition gateway_init :: "string \<Rightarrow> gateway" where
  "gateway_init path =
     \<lparr>gw_path = path, gw_handler = feed_handler_init, server = False, service_ws = None,
      hello_event = False, last_hello = None, ws_open = {}, serving = {}, sent = [], events = []\<rparr>"

definition is_service_connected :: "gateway \<Rightarrow> bool" where
  "is_service_connected g = (case service_ws g of None \<Rightarrow> False | Some w \<Rightarrow> w \<in> ws_open g)"

section \<open>Operations\<close>

definition gw_start :: "gateway \<Rightarrow> gateway" where
  "gw_start g = (if server g then g else g\<lparr>hello_event := False, last_hello := None, server := True\<rparr>)"

text \<open>Closing the server closes its connections; their handlers end later.\<close>

definition gw_stop :: "gateway \<Rightarrow> gateway" where
  "gw_stop g =
     (let g1 = (case service_ws g of
                  Some w \<Rightarrow> g\<lparr>ws_open := ws_open g - {w}, service_ws := None\<rparr>
                | None \<Rightarrow> g);
          g2 = (if server g1 then g1\<lparr>ws_open := {}, serving := {}, server := False\<rparr> else g1)
      in g2\<lparr>hello_event := False, last_hello := None\<rparr>)"

definition wait_for_hello :: "gateway \<Rightarrow> hello_message result" where
  "wait_for_hello g =
     (if \<not> hello_event g then Inl TimeoutError
      else (case last_hello g of None \<Rightarrow> Inl RuntimeError | Some h \<Rightarrow> Inr h))"

definition gw_send :: "string \<Rightarrow> gateway \<Rightarrow> gateway result" where
  "gw_send payload g =
     (case service_ws g of
        None \<Rightarrow> Inl RuntimeError
      | Some w \<Rightarrow> if w \<notin> ws_open g then Inl RuntimeError else Inr (g\<lparr>sent := sent g @ [(w, payload)]\<rparr>))"

definition on_subscriptions :: "(subscription_state \<Rightarrow> subscription_state) \<Rightarrow> gateway \<Rightarrow> gateway" where
  "on_subscriptions f g =
     g\<lparr>gw_handler := (gw_handler g)\<lparr>subscription_state := f (subscription_state (gw_handler g))\<rparr>\<rparr>"

definition gw_subscribe :: "string list \<Rightarrow> gateway \<Rightarrow> gateway result" where
  "gw_subscribe symbols g =
     (if symbols = [] then Inr g
      else (let g1 = on_subscriptions (mark_subscribe symbols) g
            in if is_service_connected g1 then gw_send (build_subscribe_command symbols) g1 else Inr g1))"

definition gw_unsubscribe :: "string list \<Rightarrow> gateway \<Rightarrow> gateway result" where
  "gw_unsubscribe symbols g =
     (if symbols = [] then Inr g
      else (let g1 = on_subscriptions (mark_unsubscribe symbols) g
            in if is_service_connected g1 then gw_send (build_unsubscribe_command symbols) g1 else Inr g1))"

definition gw_subscribe_bars :: "string list \<Rightarrow> string \<Rightarrow> gateway \<Rightarrow> gateway result" where
  "gw_subscribe_bars symbols timeframe g =
     (if symbols = [] \<or> timeframe = [] then Inr g
      else (let g1 = on_subscriptions (mark_subscribe_bars symbols timeframe) g
            in if is_service_connected g1
               then gw_send (build_subscribe_bars_command symbols timeframe) g1 else Inr g1))"

definition gw_unsubscribe_bars :: "string list \<Rightarrow> string \<Rightarrow> gateway \<Rightarrow> gateway result" where
  "gw_unsubscribe_bars symbols timeframe g =
     (if symbols = [] \<or> timeframe = [] then Inr g
      else (let g1 = on_subscriptions (mark_unsubscribe_bars symbols timeframe) g
            in if is_service_connected g1
               then gw_send (build_unsubscribe_bars_command symbols timeframe) g1 else Inr g1))"

definition gw_ping :: "gateway \<Rightarrow> gateway result" where
  "gw_ping g = gw_send build_ping_command g"

text \<open>
  \<^verbatim>\<open>_connection_handler\<close> up to its loop: \<open>request\<close> is \<open>None\<close> when the connection has no request
  object, and its path otherwise.
\<close>

definition gw_connect :: "nat \<Rightarrow> string option \<Rightarrow> gateway \<Rightarrow> gateway" where
  "gw_connect w request g =
     (let raw_path = (case request of None \<Rightarrow> Some (gw_path g) | Some p \<Rightarrow> Some p)
      in if \<not> feed_path_matches raw_path (gw_path g) then g\<lparr>ws_open := ws_open g - {w}\<rparr>
         else (let g1 = (case service_ws g of
                           Some v \<Rightarrow> if v \<in> ws_open g then g\<lparr>ws_open := ws_open g - {v}\<rparr> else g
                         | None \<Rightarrow> g)
               in g1\<lparr>service_ws := Some w, serving := insert w (serving g1)\<rparr>))"

text \<open>The end of the loop, its \<^verbatim>\<open>finally\<close> clause included.\<close>

definition gw_disconnect :: "nat \<Rightarrow> gateway \<Rightarrow> gateway" where
  "gw_disconnect w g =
     g\<lparr>serving := serving g - {w}, ws_open := ws_open g - {w},
       service_ws := (if service_ws g = Some w then None else service_ws g)\<rparr>"

text \<open>
  \<^verbatim>\<open>_handle_raw\<close>: a frame the parser refuses with a \<^verbatim>\<open>ValueError\<close> is dropped; any other exception
  leaves the coroutine.
\<close>

definition gw_handle_raw :: "raw_frame \<Rightarrow> gateway \<Rightarrow> gateway result" where
  "gw_handle_raw raw g =
     (case parse_wire_message raw of
        Inl e \<Rightarrow> if is_value_error e then Inr g else Inl e
      | Inr parsed \<Rightarrow>
          (case handle_message parsed (gw_handler g) of
             (h, None) \<Rightarrow> Inr (g\<lparr>gw_handler := h\<rparr>)
           | (h, Some event) \<Rightarrow>
               (let g1 = g\<lparr>gw_handler := h\<rparr>;
                    g2 = (case event of
                            HelloMessage hello \<Rightarrow> g1\<lparr>last_hello := Some hello, hello_event := True\<rparr>
                          | _ \<Rightarrow> g1)
                in Inr (g2\<lparr>events := events g2 @ [event]\<rparr>))))"

text \<open>One frame in the loop of connection \<open>w\<close>: an exception ends the loop, as the end of the stream does.\<close>

definition gw_frame :: "nat \<Rightarrow> raw_frame \<Rightarrow> gateway \<Rightarrow> gateway" where
  "gw_frame w raw g = (case gw_handle_raw raw g of Inr g1 \<Rightarrow> g1 | Inl _ \<Rightarrow> gw_disconnect w g)"

section \<open>Steps\<close>

datatype gw_event =
    Start | Stop
  | Connect nat "string option"
  | Frame nat raw_frame
  | Disconnect nat
  | LeaveOpen nat
  | Subscribe "string list" | Unsubscribe "string list"
  | SubscribeBars "string list" string | UnsubscribeBars "string list" string
  | Ping

text \<open>
  \<open>Connect\<close> brings a new connection, which the library reports as open and whose handler starts only
  while the server runs; frames arrive on connections whose handler is reading.
\<close>

inductive gw_step :: "gateway \<Rightarrow> gw_event \<Rightarrow> gateway \<Rightarrow> bool" where
  start: "gw_step g Start (gw_start g)"
| stop: "gw_step g Stop (gw_stop g)"
| connect: "server g \<Longrightarrow> w \<notin> serving g \<Longrightarrow> w \<notin> ws_open g \<Longrightarrow> service_ws g \<noteq> Some w \<Longrightarrow>
    gw_step g (Connect w rp) (gw_connect w rp (g\<lparr>ws_open := insert w (ws_open g)\<rparr>))"
| frame: "w \<in> serving g \<Longrightarrow> gw_step g (Frame w raw) (gw_frame w raw g)"
| disconnect: "w \<in> serving g \<Longrightarrow> gw_step g (Disconnect w) (gw_disconnect w g)"
| leave_open: "gw_step g (LeaveOpen w) (g\<lparr>ws_open := ws_open g - {w}\<rparr>)"
| subscribe: "gw_subscribe ks g = Inr g' \<Longrightarrow> gw_step g (Subscribe ks) g'"
| unsubscribe: "gw_unsubscribe ks g = Inr g' \<Longrightarrow> gw_step g (Unsubscribe ks) g'"
| subscribe_bars: "gw_subscribe_bars ks tf g = Inr g' \<Longrightarrow> gw_step g (SubscribeBars ks tf) g'"
| unsubscribe_bars: "gw_unsubscribe_bars ks tf g = Inr g' \<Longrightarrow> gw_step g (UnsubscribeBars ks tf) g'"
| ping: "gw_ping g = Inr g' \<Longrightarrow> gw_step g Ping g'"

inductive_cases gw_stepE: "gw_step g e g'"

inductive gw_reachable :: "string \<Rightarrow> gateway \<Rightarrow> bool" for path where
  init: "gw_reachable path (gateway_init path)"
| step: "gw_reachable path g \<Longrightarrow> gw_step g e g' \<Longrightarrow> gw_reachable path g'"

section \<open>The invariant\<close>

definition gw_inv :: "string \<Rightarrow> gateway \<Rightarrow> bool" where
  "gw_inv path g \<longleftrightarrow>
     gw_path g = path \<and>
     (hello_event g \<longleftrightarrow> last_hello g \<noteq> None) \<and>
     set_option (service_ws g) \<subseteq> serving g \<and>
     serving g \<inter> ws_open g \<subseteq> set_option (service_ws g) \<and>
     (server g \<or> serving g = {}) \<and>
     marks_ok (subscription_state (gw_handler g))"

lemma marks_ok_ops:
  assumes "marks_ok st"
  shows "marks_ok (mark_subscribe ks st)" "marks_ok (mark_unsubscribe ks st)"
    "marks_ok (mark_subscribe_bars ks tf st)" "marks_ok (mark_unsubscribe_bars ks tf st)"
    "marks_ok (apply_hello hello st)"
  using assms
  by (auto simp: marks_ok_def apply_hello_def mark_subscribe_fields mark_unsubscribe_fields
      mark_subscribe_bars_def mark_unsubscribe_bars_def mark_bars_fields unmark_bars_fields)

lemma handle_message_marks:
  assumes "handle_message m h = (h', e)" and "marks_ok (subscription_state h)"
  shows "marks_ok (subscription_state h')"
proof (cases m)
  case (TickBatchMessage b)
  obtain h1 out where d: "dedup_ticks b h = (h1, out)" by fastforce
  then show ?thesis
    using assms TickBatchMessage dedup_ticks_spec(4) [OF d] by (cases out) auto
next
  case (BarMessage b)
  then show ?thesis using assms by (auto split: prod.splits dest: dedup_bar_spec(4))
qed (use assms marks_ok_ops(5) in auto)

lemma gw_inv_init: "gw_inv path (gateway_init path)"
  by (simp add: gw_inv_def gateway_init_def feed_handler_init_def subscription_state_init_def marks_ok_def)

lemma gw_inv_start_stop:
  assumes "gw_inv path g"
  shows "gw_inv path (gw_start g)" "gw_inv path (gw_stop g)"
proof -
  show "gw_inv path (gw_start g)" using assms by (auto simp: gw_inv_def gw_start_def)
  show "gw_inv path (gw_stop g)"
    using assms by (cases "service_ws g") (auto simp: gw_inv_def gw_stop_def Let_def)
qed

lemma gw_inv_connect:
  assumes "gw_inv path g" and "server g" and "w \<notin> serving g" and "service_ws g \<noteq> Some w"
  shows "gw_inv path (gw_connect w rp (g\<lparr>ws_open := insert w (ws_open g)\<rparr>))"
  using assms
  by (cases "service_ws g") (auto simp: gw_inv_def gw_connect_def Let_def)

lemma gw_inv_disconnect: "gw_inv path g \<Longrightarrow> gw_inv path (gw_disconnect w g)"
  by (cases "service_ws g") (auto simp: gw_inv_def gw_disconnect_def)

lemma gw_inv_frame: "gw_inv path g \<Longrightarrow> gw_inv path (gw_frame w raw g)"
proof (cases "gw_handle_raw raw g")
  case (Inl e)
  then show "gw_inv path g \<Longrightarrow> ?thesis" by (simp add: gw_frame_def gw_inv_disconnect)
next
  case (Inr g')
  assume inv: "gw_inv path g"
  show ?thesis
  proof (cases "parse_wire_message raw")
    case (Inl e)
    then show ?thesis using Inr inv by (auto simp: gw_frame_def gw_handle_raw_def split: if_splits)
  next
    case ok: (Inr m)
    obtain h e where m: "handle_message m (gw_handler g) = (h, e)" by fastforce
    have "marks_ok (subscription_state h)"
      using handle_message_marks [OF m] inv by (simp add: gw_inv_def)
    then show ?thesis
      using inv Inr ok m
      by (auto simp: gw_frame_def gw_handle_raw_def gw_inv_def Let_def
          split: option.splits wire_inbound.splits)
  qed
qed

lemma gw_inv_on_subscriptions:
  "gw_inv path g \<Longrightarrow> (\<And>st. marks_ok st \<Longrightarrow> marks_ok (f st)) \<Longrightarrow> gw_inv path (on_subscriptions f g)"
  by (auto simp: gw_inv_def on_subscriptions_def)

lemma gw_inv_send: "gw_send p g = Inr g' \<Longrightarrow> gw_inv path g \<Longrightarrow> gw_inv path g'"
  by (auto simp: gw_inv_def gw_send_def split: option.splits if_splits)

lemma gw_inv_on_send:
  assumes "gw_send p (on_subscriptions f g) = Inr g'" and "gw_inv path g"
    and "\<And>st. marks_ok st \<Longrightarrow> marks_ok (f st)"
  shows "gw_inv path g'"
  using assms gw_inv_send gw_inv_on_subscriptions by blast

lemmas gw_subscribe_defs = gw_subscribe_def gw_unsubscribe_def gw_subscribe_bars_def
  gw_unsubscribe_bars_def gw_ping_def

lemma gw_inv_step: "gw_step g e g' \<Longrightarrow> gw_inv path g \<Longrightarrow> gw_inv path g'"
proof (induction rule: gw_step.induct)
  case (leave_open g w)
  then show ?case by (auto simp: gw_inv_def)
qed (auto simp: gw_inv_start_stop gw_inv_connect gw_inv_disconnect gw_inv_frame gw_subscribe_defs
      Let_def marks_ok_ops intro: gw_inv_send gw_inv_on_subscriptions
      dest: gw_inv_on_send [OF _ _ marks_ok_ops(1)] gw_inv_on_send [OF _ _ marks_ok_ops(2)]
        gw_inv_on_send [OF _ _ marks_ok_ops(3)] gw_inv_on_send [OF _ _ marks_ok_ops(4)]
      split: if_splits)

lemma gw_inv_reachable: "gw_reachable path g \<Longrightarrow> gw_inv path g"
  by (induction rule: gw_reachable.induct) (auto simp: gw_inv_init gw_inv_step)

section \<open>Properties\<close>

text \<open>
  C2: in every reachable state of the gateway at most one connection that is being served is open,
  and it is the one commands go to; the hello event is set exactly when a hello message is stored, so
  waiting for it ends in the message or a timeout and never in the \<^verbatim>\<open>RuntimeError\<close> of the code; no
  connection is served while the server is stopped; and no symbol is pending in both directions.
\<close>

theorem gateway_invariant:
  assumes "gw_reachable path g"
  shows "card (serving g \<inter> ws_open g) \<le> 1 \<and> serving g \<inter> ws_open g \<subseteq> set_option (service_ws g) \<and>
    (is_service_connected g \<longleftrightarrow> serving g \<inter> ws_open g \<noteq> {}) \<and>
    wait_for_hello g = (case last_hello g of None \<Rightarrow> Inl TimeoutError | Some h \<Rightarrow> Inr h) \<and>
    (server g \<or> serving g = {}) \<and> marks_ok (subscription_state (gw_handler g))"
proof -
  have inv: "gw_inv path g" using assms by (rule gw_inv_reachable)
  have "card (serving g \<inter> ws_open g) \<le> card (set_option (service_ws g))"
    using inv by (intro card_mono) (auto simp: gw_inv_def)
  also have "\<dots> \<le> 1" by (cases "service_ws g") auto
  finally show ?thesis
    using inv
    by (cases "service_ws g") (auto simp: gw_inv_def is_service_connected_def wait_for_hello_def
        split: option.splits)
qed

text \<open>A run: the server starts, a connection comes, a hello arrives, and a second connection replaces it.\<close>

definition hello_frame :: raw_frame where
  "hello_frame = RStr (dq ''{~op~:~hello~,~session~:~s1~,~symbols~:[~EURUSD~],~bars~:[~EURUSD:m1~]}'')"

lemma hello_frame_parse:
  "parse_wire_message hello_frame =
     Inr (HelloMessage \<lparr>h_session = ''s1'', h_symbols = [''EURUSD''], h_bars = [''EURUSD:m1''],
                        h_terminal = None, h_account = None\<rparr>)"
  by code_simp

definition run_example :: gateway where
  "run_example =
     (let g1 = gw_start (gateway_init ''/mt5-feed'');
          g2 = gw_connect 1 (Some ''/mt5-feed/'') (g1\<lparr>ws_open := insert 1 (ws_open g1)\<rparr>);
          g3 = gw_frame 1 hello_frame g2
      in gw_connect 2 (Some ''ws://host:8765/mt5-feed'') (g3\<lparr>ws_open := insert 2 (ws_open g3)\<rparr>))"

lemma path_examples:
  "feed_path_matches (Some ''/mt5-feed/'') ''/mt5-feed''"
  "feed_path_matches (Some ''ws://host:8765/mt5-feed'') ''/mt5-feed''"
  by code_simp+

lemma run_example_reachable: "gw_reachable ''/mt5-feed'' run_example"
  unfolding run_example_def Let_def
  by (intro gw_reachable.step [OF _ gw_step.connect] gw_reachable.step [OF _ gw_step.frame]
      gw_reachable.step [OF _ gw_step.start] gw_reachable.init)
     (simp_all add: gw_start_def gateway_init_def gw_connect_def path_examples gw_frame_def
       gw_handle_raw_def hello_frame_parse)

lemma gateway_invariant_witness:
  "serving run_example \<inter> ws_open run_example \<subseteq> set_option (service_ws run_example) \<and>
   wait_for_hello run_example =
     Inr \<lparr>h_session = ''s1'', h_symbols = [''EURUSD''], h_bars = [''EURUSD:m1''],
          h_terminal = None, h_account = None\<rparr>"
proof -
  have "last_hello run_example = Some \<lparr>h_session = ''s1'', h_symbols = [''EURUSD''],
      h_bars = [''EURUSD:m1''], h_terminal = None, h_account = None\<rparr>"
    by (simp add: run_example_def Let_def gw_start_def gateway_init_def gw_connect_def path_examples
        gw_frame_def gw_handle_raw_def hello_frame_parse)
  then show ?thesis using gateway_invariant [OF run_example_reachable] by simp
qed

text \<open>
  A frame that makes the parser raise anything but a \<^verbatim>\<open>ValueError\<close> ends the connection it came
  on: the service is then disconnected, no matter how good its other frames are, while a frame
  refused with a \<^verbatim>\<open>ValueError\<close> changes nothing.
\<close>

theorem bad_frame_ends_connection:
  assumes "parse_wire_message raw = Inl e"
  shows "if is_value_error e then gw_frame w raw g = g
    else w \<notin> serving (gw_frame w raw g) \<and> w \<notin> ws_open (gw_frame w raw g) \<and>
         (service_ws (gw_frame w raw g) = (if service_ws g = Some w then None else service_ws g)) \<and>
         events (gw_frame w raw g) = events g"
  using assms by (simp add: gw_frame_def gw_handle_raw_def gw_disconnect_def)

lemma bad_frame_ends_connection_witness:
  "service_ws (gw_frame 2 (RStr ''[]'') (run_example\<lparr>service_ws := Some 2\<rparr>)) = None"
proof -
  have "parse_wire_message (RStr ''[]'') = Inl AttributeError" by code_simp
  from bad_frame_ends_connection [OF this, of 2 "run_example\<lparr>service_ws := Some 2\<rparr>"]
  show ?thesis by simp
qed

text \<open>
  Subscribing and unsubscribing never fail; they record the symbols whatever the connection, and
  write exactly one command, to the service's connection, when there is one and the list is not empty.
\<close>

theorem subscribe_records_and_sends:
  "(\<exists>g'. gw_subscribe ks g = Inr g' \<and>
      pending_subscribe (subscription_state (gw_handler g')) =
        pending_subscribe (subscription_state (gw_handler g)) \<union> set ks \<and>
      sent g' = sent g @ (if ks \<noteq> [] \<and> is_service_connected g
        then [(the (service_ws g), build_subscribe_command ks)] else [])) \<and>
   (\<exists>g'. gw_unsubscribe_bars ks tf g = Inr g' \<and>
      sent g' = sent g @ (if ks \<noteq> [] \<and> tf \<noteq> [] \<and> is_service_connected g
        then [(the (service_ws g), build_unsubscribe_bars_command ks tf)] else []))"
  by (auto simp: gw_subscribe_defs on_subscriptions_def is_service_connected_def gw_send_def Let_def
      mark_subscribe_fields split: option.splits)

lemma startswith_append [simp]: "startswith (p @ s) p"
  by (simp add: startswith_def)

lemma split_first_none: "c \<notin> set p \<Longrightarrow> fst (split_first c p) = p"
  by (auto simp: split_first_def takeWhile_eq_all_conv)

definition path_tail :: "string \<Rightarrow> bool" where
  "path_tail q \<longleftrightarrow> q = [] \<or> q = ''/'' \<or> hd q = CHR ''?'' \<and> \<not> is_space (last q)"

definition plain_path :: "string \<Rightarrow> bool" where
  "plain_path p \<longleftrightarrow>
     p \<noteq> [] \<and> hd p = CHR ''/'' \<and> last p \<noteq> CHR ''/'' \<and> \<not> is_space (last p) \<and> CHR ''?'' \<notin> set p"

lemma normalize_plain:
  assumes "plain_path p" and "path_tail q"
  shows "rstrip_char (CHR ''/'') (with_slash (fst (split_first (CHR ''?'') (p @ q)))) = p"
proof -
  have sl: "with_slash (p @ r) = p @ r" for r
    using assms(1) by (cases p) (auto simp: with_slash_def startswith_def plain_path_def)
  have no: "CHR ''?'' \<notin> set p" "last p \<noteq> CHR ''/''" using assms(1) by (auto simp: plain_path_def)
  consider "q = []" | "q = ''/''" | q' where "q = CHR ''?'' # q'"
    using assms(2) by (cases q) (auto simp: path_tail_def)
  then show ?thesis
  proof cases
    case 1
    then show ?thesis using sl [of "[]"] no by (simp add: split_first_none rstrip_char_id)
  next
    case 2
    have "CHR ''?'' \<notin> set (p @ ''/'')" using no by simp
    then have "fst (split_first (CHR ''?'') (p @ ''/'')) = p @ ''/''" by (rule split_first_none)
    then show ?thesis using 2 sl no by (simp add: rstrip_char_snoc rstrip_char_id)
  next
    case 3
    then show ?thesis using sl [of "[]"] no by (simp add: split_first_sep rstrip_char_id)
  qed
qed

lemma tail_last:
  "plain_path p \<Longrightarrow> path_tail q \<Longrightarrow> \<not> is_space (last (p @ q))"
  by (cases "q = []") (auto simp: path_tail_def plain_path_def is_space_def)

text \<open>
  The path check accepts a configured path as it is, with a trailing slash or a query, and as
  the path of a full URL, whatever its host, for a configured path that starts with a slash, does not
  end in one and has no question mark or outer white space.
\<close>

theorem configured_path_accepted:
  assumes "plain_path p" and "path_tail q" and "CHR ''/'' \<notin> set host"
  shows "feed_path_matches (Some (p @ q)) p \<and> feed_path_matches (Some (''ws://'' @ host @ p @ q)) p \<and>
         feed_path_matches (Some (''wss://'' @ host @ p @ q)) p \<and> feed_path_matches None p"
proof -
  obtain r where p: "p = CHR ''/'' # r" using assms(1) by (cases p) (auto simp: plain_path_def)
  have strip: "strip (x # xs @ p @ q) = x # xs @ p @ q" if "\<not> is_space x" for x xs
    using that tail_last [OF assms(1,2)] p by (intro strip_id) auto
  have strip': "strip (p @ q) = p @ q"
    using tail_last [OF assms(1,2)] p by (intro strip_id) (auto simp: is_space_def)
  have url: "dropWhile (\<lambda>c. c \<noteq> CHR ''/'') (host @ p @ q) = p @ q"
    using assms(3) p by (induction host) auto
  have norm: "rstrip_char (CHR ''/'') (with_slash (fst (split_first (CHR ''?'') (p @ q)))) = p"
    by (rule normalize_plain [OF assms(1,2)])
  have nonempty: "p \<noteq> []" and last: "rstrip_char (CHR ''/'') (with_slash p) = p" and sl: "with_slash p = p"
    using p normalize_plain [OF assms(1), of "[]"] assms(1)
    by (auto simp: path_tail_def plain_path_def split_first_none with_slash_def startswith_def)
  have ws: "cut ''://'' (''ws://'' @ t) = Some (''ws'', t)" "cut ''://'' (''wss://'' @ t) = Some (''wss'', t)" for t
    by (simp_all add: startswith_def)
  have "normalize_feed_request_path (Some (p @ q)) p = p"
    using norm nonempty strip' p
    by (simp add: normalize_feed_request_path_def Let_def startswith_def)
  moreover have "normalize_feed_request_path (Some (''ws://'' @ host @ p @ q)) p = p"
    using norm nonempty strip [of "CHR ''w''" "''s://'' @ host"] p url ws(1) [of "host @ p @ q"]
    by (simp add: normalize_feed_request_path_def Let_def startswith_def is_space_def del: cut.simps)
  moreover have "normalize_feed_request_path (Some (''wss://'' @ host @ p @ q)) p = p"
    using norm nonempty strip [of "CHR ''w''" "''ss://'' @ host"] p url ws(2) [of "host @ p @ q"]
    by (simp add: normalize_feed_request_path_def Let_def startswith_def is_space_def del: cut.simps)
  ultimately show ?thesis
    by (simp add: feed_path_matches_def last sl Let_def) (simp add: normalize_feed_request_path_def sl)
qed

lemma configured_path_accepted_witness:
  "feed_path_matches (Some ''wss://10.0.0.1:8765/mt5-feed?token=a'') ''/mt5-feed''"
  using configured_path_accepted [of "''/mt5-feed''" "''?token=a''" "''10.0.0.1:8765''"]
  by (simp add: plain_path_def path_tail_def is_space_def)

end
