(* ===== verification/Venue_Profile.thy ===== *)
theory Venue_Profile
  imports Py_Text
begin

text \<open>
  Broker capability profiles (\<^verbatim>\<open>nautilus_mt5/venue_profile.py\<close>): which instrument type a
  \<^verbatim>\<open>trade_calc_mode\<close> becomes and how far each data operation is trusted. Instrument types are
  the platform's classes, named here by the constructors the profiles use.
\<close>

datatype capability_status = ASSUMED | OBSERVED | TESTED | CERTIFIED | UNSUPPORTED

fun status_value :: "capability_status \<Rightarrow> string" where
  "status_value ASSUMED = ''assumed''"
| "status_value OBSERVED = ''observed''"
| "status_value TESTED = ''tested''"
| "status_value CERTIFIED = ''certified''"
| "status_value UNSUPPORTED = ''unsupported''"

datatype instrument_type = CurrencyPairT | CfdT | EquityT | FuturesContractT

text \<open>The operations a capability is asked for; \<^verbatim>\<open>getattr\<close> takes their names.\<close>

datatype data_operation = QuoteTicks | TradeTicks | Bars

fun operation_name :: "data_operation \<Rightarrow> string" where
  "operation_name QuoteTicks = ''quote_ticks''"
| "operation_name TradeTicks = ''trade_ticks''"
| "operation_name Bars = ''bars''"

record calc_mode_capability =
  nautilus_instrument_type :: instrument_type
  quote_ticks :: capability_status
  trade_ticks :: capability_status
  bars :: capability_status
  cap_notes :: "string option"

fun capability_status_of :: "calc_mode_capability \<Rightarrow> data_operation \<Rightarrow> capability_status" where
  "capability_status_of cap QuoteTicks = quote_ticks cap"
| "capability_status_of cap TradeTicks = trade_ticks cap"
| "capability_status_of cap Bars = bars cap"

record venue_profile =
  vp_name :: string
  vp_capabilities :: "(int, calc_mode_capability) dict"
  vp_strict :: bool

definition int_list_str :: "int list \<Rightarrow> string" where
  "int_list_str xs = ''['' @ join '', '' (map int_str xs) @ '']''"

definition unknown_mode :: "venue_profile \<Rightarrow> int \<Rightarrow> py_exc" where
  "unknown_mode vp calc_mode =
     ValueError (''MT5 trade_calc_mode='' @ int_str calc_mode @ '' is not declared in VenueProfile '' @
       [CHR 0x27] @ vp_name vp @ [CHR 0x27] @ ''. Known modes: '' @
       int_list_str (sort (dict_keys (vp_capabilities vp))) @
       ''. Add this calc_mode to the profile or use a compatible profile.'')"

definition get_capability :: "venue_profile \<Rightarrow> int \<Rightarrow> calc_mode_capability result" where
  "get_capability vp calc_mode =
     (case dict_get (vp_capabilities vp) calc_mode of
        None \<Rightarrow> Inl (unknown_mode vp calc_mode)
      | Some cap \<Rightarrow> Inr cap)"

definition not_verified :: "venue_profile \<Rightarrow> int \<Rightarrow> data_operation \<Rightarrow> capability_status \<Rightarrow> py_exc" where
  "not_verified vp calc_mode op st =
     (let q = [CHR 0x27] in
      ValueError (''VenueProfile '' @ q @ vp_name vp @ q @ '': '' @ q @ operation_name op @ q @
        '' for trade_calc_mode='' @ int_str calc_mode @ '' has status='' @ q @ status_value st @ q @
        '' '' @ [CHR 0xE2, CHR 0x80, CHR 0x94] @
        '' strict mode requires TESTED or CERTIFIED. Update the profile status after verification.''))"

definition check_capability :: "venue_profile \<Rightarrow> int \<Rightarrow> data_operation \<Rightarrow> capability_status result" where
  "check_capability vp calc_mode op =
     bindR (get_capability vp calc_mode) (\<lambda>cap.
       let st = capability_status_of cap op
       in if vp_strict vp \<and> (st = ASSUMED \<or> st = OBSERVED)
          then Inl (not_verified vp calc_mode op st) else Inr st)"

definition SYMBOL_CALC_MODE_FOREX :: int where "SYMBOL_CALC_MODE_FOREX = 0"
definition SYMBOL_CALC_MODE_FUTURES :: int where "SYMBOL_CALC_MODE_FUTURES = 1"
definition SYMBOL_CALC_MODE_CFD :: int where "SYMBOL_CALC_MODE_CFD = 2"
definition SYMBOL_CALC_MODE_CFDINDEX :: int where "SYMBOL_CALC_MODE_CFDINDEX = 3"
definition SYMBOL_CALC_MODE_CFDLEVERAGE :: int where "SYMBOL_CALC_MODE_CFDLEVERAGE = 4"
definition SYMBOL_CALC_MODE_FOREX_NO_LEVERAGE :: int where "SYMBOL_CALC_MODE_FOREX_NO_LEVERAGE = 5"

definition SYMBOL_CALC_MODE_EXCH_STOCKS :: int where "SYMBOL_CALC_MODE_EXCH_STOCKS = 6"
definition SYMBOL_CALC_MODE_EXCH_FUTURES :: int where "SYMBOL_CALC_MODE_EXCH_FUTURES = 7"
definition SYMBOL_CALC_MODE_EXCH_FUTURES_FORTS :: int where "SYMBOL_CALC_MODE_EXCH_FUTURES_FORTS = 8"
definition SYMBOL_CALC_MODE_EXCH_BONDS :: int where "SYMBOL_CALC_MODE_EXCH_BONDS = 9"
definition SYMBOL_CALC_MODE_EXCH_STOCKS_MOEX :: int where "SYMBOL_CALC_MODE_EXCH_STOCKS_MOEX = 10"
definition SYMBOL_CALC_MODE_EXCH_BONDS_MOEX :: int where "SYMBOL_CALC_MODE_EXCH_BONDS_MOEX = 11"

lemmas exchange_mode_defs = SYMBOL_CALC_MODE_EXCH_STOCKS_def SYMBOL_CALC_MODE_EXCH_FUTURES_def
  SYMBOL_CALC_MODE_EXCH_FUTURES_FORTS_def SYMBOL_CALC_MODE_EXCH_BONDS_def
  SYMBOL_CALC_MODE_EXCH_STOCKS_MOEX_def SYMBOL_CALC_MODE_EXCH_BONDS_MOEX_def

lemmas calc_mode_defs = SYMBOL_CALC_MODE_FOREX_def SYMBOL_CALC_MODE_FUTURES_def
  SYMBOL_CALC_MODE_CFD_def SYMBOL_CALC_MODE_CFDINDEX_def SYMBOL_CALC_MODE_CFDLEVERAGE_def
  SYMBOL_CALC_MODE_FOREX_NO_LEVERAGE_def

definition tickmill_demo_profile :: venue_profile where
  "tickmill_demo_profile =
     \<lparr>vp_name = ''tickmill-demo'',
      vp_capabilities =
        [(SYMBOL_CALC_MODE_FOREX,
          \<lparr>nautilus_instrument_type = CurrencyPairT, quote_ticks = TESTED, trade_ticks = UNSUPPORTED,
           bars = TESTED,
           cap_notes = Some (''FX OTC broker '' @ [CHR 0xE2, CHR 0x80, CHR 0x94] @
             '' last price field is unreliable or zero. Use bid/ask (QuoteTick) as the primary data source.'')\<rparr>),
         (SYMBOL_CALC_MODE_CFD,
          \<lparr>nautilus_instrument_type = CfdT, quote_ticks = TESTED, trade_ticks = UNSUPPORTED,
           bars = TESTED, cap_notes = None\<rparr>),
         (SYMBOL_CALC_MODE_CFDINDEX,
          \<lparr>nautilus_instrument_type = CfdT, quote_ticks = TESTED, trade_ticks = UNSUPPORTED,
           bars = TESTED,
           cap_notes = Some ''Index CFDs confirmed on USTEC (Tickmill-Demo, 2026-05-02).''\<rparr>),
         (SYMBOL_CALC_MODE_CFDLEVERAGE,
          \<lparr>nautilus_instrument_type = CfdT, quote_ticks = ASSUMED, trade_ticks = UNSUPPORTED,
           bars = ASSUMED, cap_notes = None\<rparr>),
         (SYMBOL_CALC_MODE_FOREX_NO_LEVERAGE,
          \<lparr>nautilus_instrument_type = CurrencyPairT, quote_ticks = ASSUMED, trade_ticks = UNSUPPORTED,
           bars = ASSUMED, cap_notes = None\<rparr>)],
      vp_strict = False\<rparr>"

section \<open>Properties\<close>

text \<open>
  A capability check answers a status only for a declared mode, and under a strict profile only a
  verified or an unsupported one; every refusal is a \<^verbatim>\<open>ValueError\<close>; and a profile that is not
  strict answers for exactly its declared modes.
\<close>

theorem check_capability_verified:
  "case check_capability vp m op of
     Inl e \<Rightarrow> is_value_error e \<and>
       (dict_get (vp_capabilities vp) m = None \<or>
        vp_strict vp \<and> (\<exists>cap. dict_get (vp_capabilities vp) m = Some cap \<and>
                              capability_status_of cap op \<in> {ASSUMED, OBSERVED}))
   | Inr st \<Rightarrow>
       (\<exists>cap. dict_get (vp_capabilities vp) m = Some cap \<and> st = capability_status_of cap op) \<and>
       (vp_strict vp = False \<or> st \<in> {TESTED, CERTIFIED, UNSUPPORTED})"
proof (cases "dict_get (vp_capabilities vp) m")
  case None
  then show ?thesis
    by (simp add: check_capability_def get_capability_def unknown_mode_def)
next
  case (Some cap)
  then show ?thesis
    by (cases "capability_status_of cap op")
       (auto simp: check_capability_def get_capability_def not_verified_def Let_def)
qed

lemma tickmill_trade_ticks:
  "check_capability tickmill_demo_profile m TradeTicks = Inr st \<Longrightarrow> st = UNSUPPORTED"
  by (auto simp: check_capability_def get_capability_def tickmill_demo_profile_def Let_def
      bindR_eq_Inr split: option.splits if_splits)

end
