(* ===== verification/Parse_Data.thy ===== *)
theory Parse_Data
  imports Py_Json
begin

text \<open>
  Bar specifications, durations and rate rows (\<^verbatim>\<open>nautilus_mt5/parsing/data.py\<close> and
  \<^verbatim>\<open>parsing/rates.py\<close>). A bar specification is the platform's; the code reads its aggregation, its
  step and, for messages, its printed form.
\<close>

section \<open>Bar specifications\<close>

datatype bar_aggregation = SECOND | MINUTE | HOUR | DAY_AGG | WEEK | MONTH | OTHER_AGG

record bar_spec =
  aggregation :: bar_aggregation
  step :: int
  spec_repr :: string

definition bar_spec_to_wire_timeframe :: "bar_spec \<Rightarrow> string result" where
  "bar_spec_to_wire_timeframe bs =
     (let wire =
        (if aggregation bs = MINUTE then
           dict_get [(1, ''M1''), (5, ''M5''), (15, ''M15''), (30, ''M30'')] (step bs)
         else if aggregation bs = HOUR then dict_get [(1, ''H1''), (4, ''H4'')] (step bs)
         else if aggregation bs = DAY_AGG \<and> step bs = 1 then Some ''D1''
         else None)
      in case wire of
           Some w \<Rightarrow> Inr w
         | None \<Rightarrow> Inl (ValueError (''MQL5 feed service does not support wire timeframe for '' @ spec_repr bs)))"

definition bar_spec_to_bar_size :: "bar_spec \<Rightarrow> string result" where
  "bar_spec_to_bar_size bs =
     (let st = step bs; plural = (if st = 1 then [] else ''s'') in
      if aggregation bs = SECOND \<and> st = 60 \<or> aggregation bs = SECOND \<and> st \<in> {10, 15, 30, 60} then
        Inr (int_str st @ '' secs'')
      else if aggregation bs = MINUTE \<and> st \<in> {1, 2, 3, 5, 10, 15, 20, 30} then
        Inr (int_str st @ '' min'' @ plural)
      else if aggregation bs = HOUR \<and> st \<in> {1, 2, 3, 4, 8} then Inr (int_str st @ '' hour'' @ plural)
      else if aggregation bs = DAY_AGG \<and> st = 1 then Inr (int_str st @ '' day'')
      else if aggregation bs = WEEK \<and> st = 1 then Inr (int_str st @ '' week'')
      else Inl (ValueError ([CHR ''M''] @ ''etaTrader5 doesn'' @ [CHR 0x27] @ ''t support subscription for '' @
                            spec_repr bs)))"

definition mt5_minutes :: "(int, int) dict" where
  "mt5_minutes = [(1, 1), (2, 2), (3, 3), (4, 4), (5, 5), (6, 6), (10, 10), (12, 12), (15, 15), (20, 20), (30, 30)]"

definition mt5_hours :: "(int, int) dict" where
  "mt5_hours = [(1, 16385), (2, 16386), (3, 16387), (4, 16388), (6, 16390), (8, 16392), (12, 16396)]"

definition bar_spec_to_mt5_timeframe :: "bar_spec \<Rightarrow> int result" where
  "bar_spec_to_mt5_timeframe bs =
     (let unsupported = Inl (ValueError (''MT5 copy_rates does not support bar spec '' @ spec_repr bs));
          found = (\<lambda>v. case v of Some tf \<Rightarrow> Inr tf | None \<Rightarrow> unsupported)
      in if aggregation bs = SECOND then
           (if step bs = 60 then Inr 1
            else Inl (ValueError (''MT5 copy_rates does not support second bar spec '' @ spec_repr bs)))
         else if aggregation bs = MINUTE then found (dict_get mt5_minutes (step bs))
         else if aggregation bs = HOUR then found (dict_get mt5_hours (step bs))
         else if aggregation bs = DAY_AGG \<and> step bs = 1 then Inr 16408
         else if aggregation bs = WEEK \<and> step bs = 1 then Inr 32769
         else if aggregation bs = MONTH \<and> step bs = 1 then Inr 49153
         else unsupported)"

datatype price_type = ASK_PRICE | BID_PRICE | LAST_TRADE | MID_PRICE | OTHER_PRICE

definition what_to_show :: "price_type \<Rightarrow> string result" where
  "what_to_show pt =
     dict_index [(ASK_PRICE, ''ASK''), (BID_PRICE, ''BID''), (LAST_TRADE, ''TRADES''), (MID_PRICE, ''MIDPOINT'')] pt"

section \<open>Trade ids and durations\<close>

text \<open>
  \<^verbatim>\<open>nanos_to_secs\<close> is the platform's and \<open>sz\<close> the printed form of a decimal. The message of the
  assertion reads \<^verbatim>\<open>id.value\<close>, where \<^verbatim>\<open>id\<close> is the builtin function, so what is raised for a long id is
  an \<^verbatim>\<open>AttributeError\<close>.
\<close>

definition generate_trade_id :: "(int \<Rightarrow> pyfloat) \<Rightarrow> int \<Rightarrow> pyfloat \<Rightarrow> string \<Rightarrow> string result" where
  "generate_trade_id nanos_to_secs ts_event price sz =
     bindR (int_of_float (nanos_to_secs ts_event)) (\<lambda>secs.
       let trade_id = int_str secs @ ''-'' @ float_repr price @ ''-'' @ sz
       in if length trade_id < 36 then Inr trade_id else Inl AttributeError)"

text \<open>A \<^verbatim>\<open>timedelta\<close>, normalised: microseconds in a day and seconds in a day, days of either sign.\<close>

record timedelta =
  td_days :: int
  td_seconds :: int
  td_microseconds :: int

definition total_micros :: "timedelta \<Rightarrow> int" where
  "total_micros d = (td_days d * 86400 + td_seconds d) * 1000000 + td_microseconds d"

fun format0 :: "pyfloat \<Rightarrow> string" where
  "format0 (Fin q) = format_fixed 0 q"
| "format0 x = float_repr x"

definition div_str :: "int \<Rightarrow> int \<Rightarrow> string" where
  "div_str a b = format0 (rnd64 (of_int a / of_int b))"

definition timedelta_to_duration_str :: "timedelta \<Rightarrow> string" where
  "timedelta_to_duration_str d =
     (if 365 \<le> td_days d then div_str (td_days d) 365 @ '' Y''
      else if 30 \<le> td_days d then div_str (td_days d) 30 @ '' M''
      else if 7 \<le> td_days d then div_str (td_days d) 7 @ '' W''
      else if 1 \<le> td_days d then int_str (td_days d) @ '' D''
      else (let secs = rnd64 (of_int (total_micros d) / 1000000)
            in format0 (if Fin 30 < secs then secs else Fin 30) @ '' S''))"

text \<open>\<^verbatim>\<open>timedelta(days=d, seconds=s)\<close>: more than 999999999 days overflow.\<close>

definition mk_timedelta :: "int \<Rightarrow> int \<Rightarrow> timedelta result" where
  "mk_timedelta days secs =
     (let d = days + secs div 86400
      in if 999999999 < \<bar>d\<bar> then Inl OverflowError
         else Inr \<lparr>td_days = d, td_seconds = secs mod 86400, td_microseconds = 0\<rparr>)"

text \<open>\<^verbatim>\<open>s.split()\<close>: the maximal runs without white space.\<close>

fun split_ws :: "string \<Rightarrow> string \<Rightarrow> string list" where
  "split_ws w [] = (if w = [] then [] else [w])"
| "split_ws w (c # s) =
     (if is_space c then (if w = [] then split_ws [] s else w # split_ws [] s)
      else split_ws (w @ [c]) s)"

definition ib_duration_to_timedelta :: "string \<Rightarrow> timedelta result" where
  "ib_duration_to_timedelta duration =
     (case split_ws [] (strip duration) of
        [c, u] \<Rightarrow>
          (case int_of_str c of
             Inl _ \<Rightarrow> mk_timedelta 7 0
           | Inr count \<Rightarrow>
               (let unit = upper u in
                if unit = ''S'' then mk_timedelta 0 count
                else if unit = ''W'' then mk_timedelta (7 * count) 0
                else if unit = ''M'' then mk_timedelta (30 * count) 0
                else if unit = ''Y'' then mk_timedelta (365 * count) 0
                else mk_timedelta count 0))
      | _ \<Rightarrow> mk_timedelta 7 0)"

section \<open>Rate rows\<close>

text \<open>
  A rate row is a dictionary or an object of the terminal's bridge: one that answers \<^verbatim>\<open>row[name]\<close> or
  raises, and may have an attribute of that name.
\<close>

datatype rate_row =
    RowDict "(string, json) dict"
  | RowObj "string \<Rightarrow> json result" "string \<Rightarrow> json option"

fun row_error :: "py_exc \<Rightarrow> bool" where
  "row_error TypeError = True"
| "row_error KeyError = True"
| "row_error IndexError = True"
| "row_error (ValueError _) = True"
| "row_error _ = False"

definition rate_row_field :: "rate_row \<Rightarrow> string \<Rightarrow> json \<Rightarrow> json result" where
  "rate_row_field row name dflt =
     (case row of
        RowDict d \<Rightarrow> Inr (case dict_get d name of None \<Rightarrow> dflt | Some v \<Rightarrow> v)
      | RowObj index attr \<Rightarrow>
          (case index name of
             Inr v \<Rightarrow> Inr v
           | Inl e \<Rightarrow> if row_error e
                      then Inr (case attr name of None \<Rightarrow> dflt | Some v \<Rightarrow> v)
                      else Inl e))"

record bar_data =
  bd_symbol :: string
  bd_time :: int
  bd_open :: pyfloat
  bd_high :: pyfloat
  bd_low :: pyfloat
  bd_close :: pyfloat
  bd_volume :: int
  bd_complete :: bool

definition or_zero :: "json \<Rightarrow> json" where
  "or_zero v = (if jtruthy v then v else JInt 0)"

definition mql_rate_row_to_bar_data :: "string \<Rightarrow> rate_row \<Rightarrow> bar_data result" where
  "mql_rate_row_to_bar_data symbol row =
     bindR (rate_row_field row ''tick_volume'' (JInt 0)) (\<lambda>tv.
     bindR (rate_row_field row ''real_volume'' (JInt 0)) (\<lambda>rv.
     bindR (py_int (if jtruthy (or_zero tv) then or_zero tv else or_zero rv)) (\<lambda>vol.
     bindR (bindR (rate_row_field row ''time'' (JInt 0)) py_int) (\<lambda>t.
     bindR (bindR (rate_row_field row ''open'' (JFloat 0)) py_float) (\<lambda>opn.
     bindR (bindR (rate_row_field row ''high'' (JFloat 0)) py_float) (\<lambda>hi.
     bindR (bindR (rate_row_field row ''low'' (JFloat 0)) py_float) (\<lambda>lo.
     bindR (bindR (rate_row_field row ''close'' (JFloat 0)) py_float) (\<lambda>cl.
       Inr \<lparr>bd_symbol = symbol, bd_time = t, bd_open = opn, bd_high = hi, bd_low = lo,
            bd_close = cl, bd_volume = vol, bd_complete = True\<rparr>))))))))"

section \<open>Properties\<close>

lemmas bar_spec_defs = bar_spec_to_wire_timeframe_def bar_spec_to_mt5_timeframe_def
  bar_spec_to_bar_size_def mt5_minutes_def mt5_hours_def

lemma mt5_timeframe_inj:
  assumes "bar_spec_to_mt5_timeframe a = Inr tf" and "bar_spec_to_mt5_timeframe b = Inr tf"
    and "aggregation a \<noteq> SECOND" and "aggregation b \<noteq> SECOND"
  shows "aggregation a = aggregation b \<and> step a = step b"
  using assms
  by (cases "aggregation a"; cases "aggregation b")
     (auto simp: bar_spec_to_mt5_timeframe_def mt5_minutes_def mt5_hours_def Let_def
       split: option.splits if_splits)

text \<open>
  Live and historical bars agree on their timeframes: a bar that the feed service can stream has
  a terminal timeframe, no two bar specifications in minutes or more share one, and a specification of
  60 seconds is the one-minute bar.
\<close>

theorem timeframes_agree:
  "(case bar_spec_to_wire_timeframe a of
      Inr w \<Rightarrow> \<exists>tf. bar_spec_to_mt5_timeframe a = Inr tf | Inl e \<Rightarrow> is_value_error e) \<and>
   (case (bar_spec_to_mt5_timeframe a, bar_spec_to_mt5_timeframe b) of
      (Inr x, Inr y) \<Rightarrow> (x = y \<longleftrightarrow>
         (let norm = (\<lambda>s. if aggregation s = SECOND then (MINUTE, 1) else (aggregation s, step s))
          in norm a = norm b))
    | (Inl e, _) \<Rightarrow> is_value_error e | (_, Inl e) \<Rightarrow> is_value_error e)"
proof
  show "case bar_spec_to_wire_timeframe a of
      Inr w \<Rightarrow> \<exists>tf. bar_spec_to_mt5_timeframe a = Inr tf | Inl e \<Rightarrow> is_value_error e"
    by (auto simp: bar_spec_defs Let_def split: option.splits if_splits sum.splits)
  show "case (bar_spec_to_mt5_timeframe a, bar_spec_to_mt5_timeframe b) of
      (Inr x, Inr y) \<Rightarrow> (x = y \<longleftrightarrow>
         (let norm = (\<lambda>s. if aggregation s = SECOND then (MINUTE, 1) else (aggregation s, step s))
          in norm a = norm b))
    | (Inl e, _) \<Rightarrow> is_value_error e | (_, Inl e) \<Rightarrow> is_value_error e"
    by (cases "aggregation a"; cases "aggregation b")
       (auto simp: bar_spec_to_mt5_timeframe_def mt5_minutes_def mt5_hours_def Let_def
         split: option.splits if_splits sum.splits)
qed

end
