(* ===== verification/Instruments.thy ===== *)
theory Instruments
  imports Venue_Profile Py_Json
begin

text \<open>
  Symbols and instruments (\<^verbatim>\<open>nautilus_mt5/parsing/instruments.py\<close>, the symbol types of
  \<^verbatim>\<open>data_types.py\<close> and \<^verbatim>\<open>metatrader5/models.py\<close>): the identifiers of the platform, the details the
  terminal gives of a symbol, and the contract built from them.

  An object of details is the dictionary of its attributes, with its symbol beside it. The platform's
  constructor of an instrument is a parameter, \<open>build\<close>, applied to the arguments the code computes;
  so is its reading of an asset class's name, \<open>acs\<close>.
\<close>

section \<open>Symbols and identifiers\<close>

record mt5_symbol =
  sec_type :: string
  sym_id :: int
  sym_symbol :: string
  sym_broker :: string

definition mt5_symbol_of :: "string \<Rightarrow> mt5_symbol" where
  "mt5_symbol_of s = \<lparr>sec_type = [], sym_id = 0, sym_symbol = s, sym_broker = []\<rparr>"

record instrument_id =
  iid_symbol :: string
  iid_venue :: string

text \<open>The text of an identifier.\<close>

definition instrument_id_value :: "instrument_id \<Rightarrow> string" where
  "instrument_id_value i = iid_symbol i @ ''.'' @ iid_venue i"

definition mt5_symbol_to_instrument_id_simplified_symbology :: "mt5_symbol \<Rightarrow> instrument_id result" where
  "mt5_symbol_to_instrument_id_simplified_symbology s =
     (if sym_symbol s \<noteq> [] then Inr \<lparr>iid_symbol = sym_symbol s, iid_venue = ''METATRADER_5''\<rparr>
      else Inl (ValueError ''Unknown symbol=None''))"

text \<open>The argument is \<open>None\<close> when it is not an \<^verbatim>\<open>MT5Symbol\<close>.\<close>

definition mt5_symbol_to_instrument_id :: "mt5_symbol option \<Rightarrow> instrument_id result" where
  "mt5_symbol_to_instrument_id s =
     (case s of None \<Rightarrow> Inl TypeError | Some x \<Rightarrow> mt5_symbol_to_instrument_id_simplified_symbology x)"

definition instrument_id_to_mt5_symbol :: "instrument_id \<Rightarrow> mt5_symbol" where
  "instrument_id_to_mt5_symbol i =
     (mt5_symbol_of (removeAll (CHR ''/'') (iid_symbol i)))\<lparr>sym_broker := ''METATRADER_5''\<rparr>"

section \<open>Details of a symbol\<close>

record symbol_info =
  si_symbol :: "mt5_symbol option"
  si_attrs :: "(string, json) dict"

text \<open>The attributes that both conversions copy by name, in their order.\<close>

definition detail_fields :: "string list" where
  "detail_fields = [
    ''custom'', ''chart_mode'', ''select'', ''visible'', ''session_deals'',
    ''session_buy_orders'', ''session_sell_orders'', ''volume'', ''volumehigh'', ''volumelow'',
    ''time'', ''digits'', ''spread'', ''spread_float'', ''ticks_bookdepth'', ''trade_calc_mode'',
    ''trade_mode'', ''start_time'', ''expiration_time'', ''trade_stops_level'',
    ''trade_freeze_level'', ''trade_exemode'', ''swap_mode'', ''swap_rollover3days'',
    ''margin_hedged_use_leg'', ''expiration_mode'', ''filling_mode'', ''order_mode'',
    ''order_gtc_mode'', ''option_mode'', ''option_right'', ''bid'', ''bidhigh'', ''bidlow'',
    ''ask'', ''askhigh'', ''asklow'', ''last'', ''lasthigh'', ''lastlow'', ''volume_real'',
    ''volumehigh_real'', ''volumelow_real'', ''option_strike'', ''point'', ''trade_tick_value'',
    ''trade_tick_value_profit'', ''trade_tick_value_loss'', ''trade_tick_size'',
    ''trade_contract_size'', ''trade_accrued_interest'', ''trade_face_value'',
    ''trade_liquidity_rate'', ''volume_min'', ''volume_max'', ''volume_step'', ''volume_limit'',
    ''swap_long'', ''swap_short'', ''margin_initial'', ''margin_maintenance'', ''session_volume'',
    ''session_turnover'', ''session_interest'', ''session_buy_orders_volume'',
    ''session_sell_orders_volume'', ''session_open'', ''session_close'', ''session_aw'',
    ''session_price_settlement'', ''session_price_limit_min'', ''session_price_limit_max'',
    ''margin_hedged'', ''price_change'', ''price_volatility'', ''price_theoretical'',
    ''price_greeks_delta'', ''price_greeks_theta'', ''price_greeks_gamma'', ''price_greeks_vega'',
    ''price_greeks_rho'', ''price_greeks_omega'', ''price_sensitivity'', ''basis'',
    ''currency_base'', ''currency_profit'', ''currency_margin'', ''bank'', ''description'',
    ''exchange'', ''formula'', ''isin'', ''name'', ''page'', ''path'']"

definition copy_fields :: "(string, json) dict \<Rightarrow> (string, json) dict result" where
  "copy_fields attrs = traverse (\<lambda>f. bindR (attribute attrs f) (\<lambda>v. Inr (f, v))) detail_fields"

text \<open>The part of a path before its first backslash, in capitals.\<close>

definition path_head :: "string \<Rightarrow> string" where
  "path_head p = upper (hd (split_on (CHR 0x5C) p))"

text \<open>\<^verbatim>\<open>process_symbol_details\<close>: what the terminal says, with the broker's server.\<close>

definition process_symbol_details :: "(string, json) dict \<Rightarrow> string \<Rightarrow> symbol_info result" where
  "process_symbol_details attrs server =
     bindR (attribute attrs ''path'') (\<lambda>path.
     bindR (case path of JStr p \<Rightarrow> Inr (path_head p) | _ \<Rightarrow> Inl AttributeError) (\<lambda>under.
     bindR (attribute attrs ''name'') (\<lambda>name.
     bindR (copy_fields attrs) (\<lambda>fs.
       Inr \<lparr>si_symbol = Some ((mt5_symbol_of (py_str name))\<lparr>sym_broker := server\<rparr>),
            si_attrs = (''under_sec_type'', JStr under) # fs\<rparr>))))"

definition convert_symbol_info_to_mt5_symbol_details :: "symbol_info \<Rightarrow> symbol_info result" where
  "convert_symbol_info_to_mt5_symbol_details si =
     bindR (attribute (si_attrs si) ''under_sec_type'') (\<lambda>under.
     (case si_symbol si of
        None \<Rightarrow> Inl AttributeError
      | Some s \<Rightarrow>
          bindR (copy_fields (si_attrs si)) (\<lambda>fs.
            Inr \<lparr>si_symbol = Some ((mt5_symbol_of (sym_symbol s))\<lparr>sym_broker := sym_broker s, sec_type := sec_type s\<rparr>),
                 si_attrs = (''under_sec_type'', under) # fs\<rparr>)))"

section \<open>Asset classes\<close>

definition sec_type_to_asset_class :: "(string \<Rightarrow> 'c result) \<Rightarrow> json \<Rightarrow> 'c result" where
  "sec_type_to_asset_class acs sec =
     (if \<not> jtruthy sec then acs ''INDEX''
      else
        (case sec of
           JStr s \<Rightarrow>
             (let u = upper s in
              if contains u ''INDICES'' \<or> contains u ''INDEXES'' \<or> contains u ''INDEX'' then acs ''INDEX''
              else if contains u ''FOREX'' \<or> contains u ''FX'' then acs ''FX''
              else if contains u ''METAL'' then acs ''COMMODITY''
              else if contains u ''COMMODITY'' \<or> contains u ''COMMODIT'' then acs ''COMMODITY''
              else if contains u ''CRYPTO'' then acs ''CRYPTOCURRENCY''
              else if contains u ''EQUIT'' \<or> contains u ''STOCK'' \<or> contains u ''SHARE'' then acs ''EQUITY''
              else if contains u ''BOND'' \<or> contains u ''DEBT'' then acs ''BOND''
              else if contains u ''ENERGY'' then acs ''COMMODITY''
              else if startswith u ''CFD'' then acs ''INDEX''
              else
                (case acs (get_default [(''INDEXES'', ''INDEX''), (''FOREX'', ''FX''), (''METALS'', ''COMMODITY'')] u u) of
                   Inl _ \<Rightarrow> acs ''INDEX''
                 | Inr c \<Rightarrow> Inr c))
         | _ \<Rightarrow> Inl AttributeError))"

section \<open>Precision\<close>

text \<open>\<^verbatim>\<open>f"{x:.10f}"\<close>.\<close>

fun fixed10 :: "json \<Rightarrow> string result" where
  "fixed10 (JFloat (Fin q)) = Inr (format_fixed 10 q)"
| "fixed10 (JFloat x) = Inr (float_repr x)"
| "fixed10 (JInt i) = bindR (float_of_int i) (\<lambda>x. case x of Fin q \<Rightarrow> Inr (format_fixed 10 q) | _ \<Rightarrow> Inr (float_repr x))"
| "fixed10 (JBool b) = Inr (format_fixed 10 (if b then 1 else 0))"
| "fixed10 (JStr s) = Inl (ValueError ''Unknown format code'')"
| "fixed10 _ = Inl TypeError"

definition tick_size_to_precision :: "json \<Rightarrow> nat result" where
  "tick_size_to_precision v =
     bindR (fixed10 v) (\<lambda>s. Inr (length (rstrip_char (CHR ''0'') (snd (split_first (CHR ''.'') s)))))"

section \<open>Contracts\<close>

record 'c instrument_args =
  ia_type :: instrument_type
  ia_id :: instrument_id
  ia_raw_symbol :: string
  ia_asset_class :: "'c option"
  ia_base_currency :: "json option"
  ia_quote_currency :: json
  ia_price_precision :: json
  ia_size_precision :: nat
  ia_price_increment :: json
  ia_size_increment :: json
  ia_max_quantity :: json
  ia_min_quantity :: json
  ia_timestamp :: json
  ia_info :: "(string, json) dict"

definition symbol_dict :: "mt5_symbol \<Rightarrow> json" where
  "symbol_dict s = JObj [(''sec_type'', JStr (sec_type s)), (''sym_id'', JInt (sym_id s)),
                         (''symbol'', JStr (sym_symbol s)), (''broker'', JStr (sym_broker s))]"

definition symbol_details_to_dict :: "mt5_symbol \<Rightarrow> (string, json) dict \<Rightarrow> (string, json) dict" where
  "symbol_details_to_dict s attrs = dict_set ''symbol'' (symbol_dict s) attrs"

text \<open>\<^verbatim>\<open>^Forex\\[A-Z]{6}$\<close>; the end of the text may also be a final newline.\<close>

definition is_capital :: "char \<Rightarrow> bool" where
  "is_capital c \<longleftrightarrow> 65 \<le> (of_char c :: nat) \<and> (of_char c :: nat) \<le> 90"

definition re_cfd_cash :: "string \<Rightarrow> bool" where
  "re_cfd_cash p \<longleftrightarrow>
     (let head = ''Forex'' @ [CHR 0x5C]; tail = drop (length head) p
      in startswith p head \<and> (length tail = 6 \<or> length tail = 7 \<and> last tail = CHR 0x0A) \<and>
         list_all is_capital (take 6 tail))"

text \<open>The arguments both contracts share, with the reads of the attributes in the code's order.\<close>

definition contract_args ::
    "instrument_type \<Rightarrow> instrument_id \<Rightarrow> mt5_symbol \<Rightarrow> (string, json) dict \<Rightarrow>
     ('c option \<times> json option) result \<Rightarrow> 'c instrument_args result" where
  "contract_args ty iid s attrs kind =
     bindR (attribute attrs ''digits'') (\<lambda>digits.
     bindR (attribute attrs ''volume_step'') (\<lambda>step.
     bindR (tick_size_to_precision step) (\<lambda>size_precision.
     bindR (attribute attrs ''time'') (\<lambda>time.
     bindR kind (\<lambda>(asset, base).
     bindR (attribute attrs ''currency_profit'') (\<lambda>quote.
     bindR (attribute attrs ''trade_tick_size'') (\<lambda>tick.
     bindR (attribute attrs ''volume_max'') (\<lambda>vmax.
     bindR (attribute attrs ''volume_min'') (\<lambda>vmin.
       Inr \<lparr>ia_type = ty, ia_id = iid, ia_raw_symbol = sym_symbol s, ia_asset_class = asset,
            ia_base_currency = base, ia_quote_currency = quote, ia_price_precision = digits,
            ia_size_precision = size_precision, ia_price_increment = tick, ia_size_increment = step,
            ia_max_quantity = vmax, ia_min_quantity = vmin, ia_timestamp = time,
            ia_info = symbol_details_to_dict s attrs\<rparr>)))))))))"

definition parse_currency_pair_contract ::
    "instrument_id \<Rightarrow> mt5_symbol \<Rightarrow> (string, json) dict \<Rightarrow> 'c instrument_args result" where
  "parse_currency_pair_contract iid s attrs =
     contract_args CurrencyPairT iid s attrs
       (bindR (attribute attrs ''currency_base'') (\<lambda>base. Inr (None, Some base)))"

definition parse_cfd_contract ::
    "(string \<Rightarrow> 'c result) \<Rightarrow> instrument_id \<Rightarrow> mt5_symbol \<Rightarrow> (string, json) dict \<Rightarrow> 'c instrument_args result" where
  "parse_cfd_contract acs iid s attrs =
     contract_args CfdT iid s attrs
       (bindR (attribute attrs ''path'') (\<lambda>path.
            (case path of
               JStr p \<Rightarrow>
                 bindR (attribute attrs ''under_sec_type'') (\<lambda>sec.
                 bindR (sec_type_to_asset_class acs sec) (\<lambda>asset.
                   if re_cfd_cash p
                   then bindR (attribute attrs ''currency_base'') (\<lambda>base. Inr (Some asset, Some base))
                   else Inr (Some asset, None)))
             | _ \<Rightarrow> Inl TypeError)))"

fun type_name :: "instrument_type \<Rightarrow> string" where
  "type_name CurrencyPairT = ''CurrencyPair''"
| "type_name CfdT = ''Cfd''"
| "type_name EquityT = ''Equity''"
| "type_name FuturesContractT = ''FuturesContract''"

definition not_implemented :: "instrument_type \<Rightarrow> int \<Rightarrow> py_exc" where
  "not_implemented ty calc_mode =
     ValueError (''Instrument type '' @ [CHR 0x27] @ type_name ty @ [CHR 0x27] @ '' for trade_calc_mode='' @
       int_str calc_mode @ '' is declared in the profile but not yet implemented in the parser. '' @
       ''Only CurrencyPair and Cfd are currently supported.'')"

text \<open>
  \<^verbatim>\<open>getattr(details, "trade_calc_mode", 0)\<close> is looked up among integer modes: a float or a boolean that
  equals one finds it, anything else is no mode.
\<close>

definition capability_of_mode :: "venue_profile \<Rightarrow> json \<Rightarrow> (int \<times> calc_mode_capability) result" where
  "capability_of_mode vp mode =
     (case mode of
        JInt m \<Rightarrow> bindR (get_capability vp m) (\<lambda>cap. Inr (m, cap))
      | JBool b \<Rightarrow> bindR (get_capability vp (if b then 1 else 0)) (\<lambda>cap. Inr (if b then 1 else 0, cap))
      | JFloat (Fin q) \<Rightarrow>
          if q = of_int \<lfloor>q\<rfloor> then bindR (get_capability vp \<lfloor>q\<rfloor>) (\<lambda>cap. Inr (\<lfloor>q\<rfloor>, cap))
          else Inl (ValueError ''not declared in VenueProfile'')
      | JObj _ \<Rightarrow> Inl TypeError
      | JArr _ \<Rightarrow> Inl TypeError
      | _ \<Rightarrow> Inl (ValueError ''not declared in VenueProfile''))"

definition parse_instrument ::
    "('c instrument_args \<Rightarrow> 'i result) \<Rightarrow> (string \<Rightarrow> 'c result) \<Rightarrow> venue_profile option \<Rightarrow>
     mt5_symbol option \<Rightarrow> (string, json) dict \<Rightarrow> 'i result" where
  "parse_instrument build acs profile s attrs =
     bindR (mt5_symbol_to_instrument_id s) (\<lambda>iid.
       (case profile of
          Some vp \<Rightarrow>
            bindR (capability_of_mode vp (get_default attrs ''trade_calc_mode'' (JInt 0))) (\<lambda>(mode, cap).
              if nautilus_instrument_type cap = CurrencyPairT
              then bindR (parse_currency_pair_contract iid (the s) attrs) build
              else if nautilus_instrument_type cap = CfdT
              then bindR (parse_cfd_contract acs iid (the s) attrs) build
              else Inl (not_implemented (nautilus_instrument_type cap) mode))
        | None \<Rightarrow> bindR (parse_cfd_contract acs iid (the s) attrs) build))"

section \<open>Properties\<close>

lemma digits_nat_zeros: "digits_nat (s @ replicate j (CHR ''0'')) = digits_nat s * 10 ^ j"
proof (induction j)
  case (Suc j)
  have "s @ replicate (Suc j) (CHR ''0'') = (s @ replicate j (CHR ''0'')) @ [CHR ''0'']"
    by (simp add: replicate_append_same)
  then show ?case using Suc by (simp only: digits_nat_snoc) (simp add: digit_val_def)
qed simp

lemma rstrip_char_split:
  "\<exists>j. s = rstrip_char c s @ replicate j c \<and> (rstrip_char c s = [] \<or> last (rstrip_char c s) \<noteq> c)"
proof (induction s rule: rev_induct)
  case (snoc x xs)
  show ?case
  proof (cases "x = c")
    case True
    then obtain j where "xs = rstrip_char c xs @ replicate j c" "rstrip_char c xs = [] \<or> last (rstrip_char c xs) \<noteq> c"
      using snoc by blast
    then have "xs @ [c] = rstrip_char c xs @ (replicate j c @ [c])" by (metis append_assoc)
    then have "xs @ [x] = rstrip_char c (xs @ [x]) @ replicate (Suc j) c"
      unfolding True rstrip_char_snoc by (simp only: replicate_Suc replicate_append_same)
    then show ?thesis
      using True \<open>rstrip_char c xs = [] \<or> _\<close> by (metis rstrip_char_snoc)
  next
    case False
    then show ?thesis by (intro exI [of _ 0]) (simp add: rstrip_char_id)
  qed
qed (simp add: rstrip_char_def)

lemma nonzero_last_digit:
  assumes "is_digit c" and "c \<noteq> CHR ''0''"
  shows "\<not> 10 dvd digits_nat (s @ [c])"
proof -
  obtain d where d: "digit_val c = Some d" using assms(1) by (auto simp: is_digit_def)
  have "d < 10" using d by (auto simp: digit_val_def Let_def split: if_splits)
  moreover have "d \<noteq> 0"
  proof
    assume "d = 0"
    then have "(of_char c :: nat) = 48" using d by (auto simp: digit_val_def Let_def split: if_splits)
    then have "char_of (of_char c :: nat) = (char_of (48 :: nat) :: char)" by simp
    moreover have "(char_of (48 :: nat) :: char) = CHR ''0''" by code_simp
    ultimately show False using assms(2) by simp
  qed
  ultimately show ?thesis using d by (simp add: digits_nat_snoc dvd_add_right_iff) presburger
qed

lemma place_after_point:
  assumes "m = nat (round_half_even (\<bar>q\<bar> * 10 ^ 10))"
  defines "s \<equiv> pad_left 11 (nat_str m)"
  shows "snd (split_first (CHR ''.'') (format_fixed 10 q)) = drop (length s - 10) s"
    and "10 \<le> length s" and "digits_nat s = m" and "\<forall>c \<in> set s. is_digit c"
proof -
  show dig: "\<forall>c \<in> set s. is_digit c"
  proof -
    have "is_digit (CHR ''0'')" by (simp add: is_digit_def digit_val_def)
    then show ?thesis by (auto simp: s_def pad_left_def nat_str_digits)
  qed
  show "10 \<le> length s" by (simp add: s_def pad_left_def)
  show "digits_nat s = m" by (simp add: s_def digits_nat_pad)
  have nd: "\<not> is_digit (CHR ''.'')" by (simp add: is_digit_def digit_val_def)
  have "CHR ''.'' \<notin> set ((if q < 0 then ''-'' else []) @ take (length s - 10) s)"
    using dig nd by (auto dest: in_set_takeD)
  then have "split_first (CHR ''.'') (((if q < 0 then ''-'' else []) @ take (length s - 10) s) @ CHR ''.'' # drop (length s - 10) s)
    = ((if q < 0 then ''-'' else []) @ take (length s - 10) s, drop (length s - 10) s)"
    by (rule split_first_sep)
  then show "snd (split_first (CHR ''.'') (format_fixed 10 q)) = drop (length s - 10) s"
    by (simp add: format_fixed_def Let_def assms(1) s_def)
qed

lemma stripped_digits_dvd:
  assumes "\<forall>c \<in> set s. is_digit c" and "10 \<le> length s"
    and "p = length (rstrip_char (CHR ''0'') (drop (length s - 10) s))"
  shows "p \<le> 10" and "10 ^ (10 - p) dvd digits_nat s" and "k < p \<Longrightarrow> \<not> 10 ^ (10 - k) dvd digits_nat s"
proof -
  let ?f = "drop (length s - 10) s" and ?t = "rstrip_char (CHR ''0'') (drop (length s - 10) s)"
  obtain j where j: "?f = ?t @ replicate j (CHR ''0'')" "?t = [] \<or> last ?t \<noteq> CHR ''0''"
    using rstrip_char_split by blast
  have "length ?f = 10" using assms(2) by simp
  then have len: "p + j = 10" using j(1) assms(3) by (metis length_append length_replicate)
  then show "p \<le> 10" by simp
  have j_eq: "j = 10 - p" using len by simp
  have s_eq: "s = (take (length s - 10) s @ ?t) @ replicate j (CHR ''0'')"
    using j(1) by (metis append_assoc append_take_drop_id)
  then have val: "digits_nat s = digits_nat (take (length s - 10) s @ ?t) * 10 ^ j"
    using digits_nat_zeros by metis
  then show "10 ^ (10 - p) dvd digits_nat s" using j_eq by simp
  assume "k < p"
  then have ne: "?t \<noteq> []" using assms(3) by auto
  then have last_t: "last ?t \<in> set s"
    using s_eq by (metis Un_iff last_in_set set_append)
  have "\<not> 10 dvd digits_nat (take (length s - 10) s @ butlast ?t @ [last ?t])"
    using nonzero_last_digit [of "last ?t" "take (length s - 10) s @ butlast ?t"] assms(1) last_t j(2) ne by simp
  then have n10: "\<not> 10 dvd digits_nat (take (length s - 10) s @ ?t)" using ne by simp
  show "\<not> 10 ^ (10 - k) dvd digits_nat s"
  proof
    assume "10 ^ (10 - k) dvd digits_nat s"
    moreover have "(10 :: nat) ^ Suc j dvd 10 ^ (10 - k)"
      using \<open>k < p\<close> len by (intro le_imp_power_dvd) simp
    ultimately have "10 ^ Suc j dvd digits_nat (take (length s - 10) s @ ?t) * 10 ^ j"
      using val dvd_trans by metis
    then show False using n10 by simp
  qed
qed

text \<open>
  C38: the size precision of an instrument is the least number of decimals, ten at most, that writes
  its volume step, rounded to ten decimals, exactly.
\<close>

theorem precision_is_least:
  "tick_size_to_precision (JFloat (Fin q)) =
     Inr (LEAST k. 10 ^ (10 - k) dvd nat (round_half_even (\<bar>q\<bar> * 10 ^ 10)))"
proof -
  define m where "m = nat (round_half_even (\<bar>q\<bar> * 10 ^ 10))"
  let ?s = "pad_left 11 (nat_str m)"
  note f = place_after_point [OF m_def]
  define p where "p = length (rstrip_char (CHR ''0'') (drop (length ?s - 10) ?s))"
  note d = stripped_digits_dvd [OF f(4,2) p_def]
  have "(LEAST k. 10 ^ (10 - k) dvd m) = p"
    using d f(3) by (intro Least_equality) (simp, metis not_le)
  moreover have "tick_size_to_precision (JFloat (Fin q)) = Inr p"
    using f(1) by (simp add: tick_size_to_precision_def p_def)
  ultimately show ?thesis by (simp add: m_def)
qed

text \<open>
  An identifier comes back from the terminal's symbol it is turned into exactly when it is of the
  adapter's venue, not empty, and without a slash: slashes are lost.
\<close>

theorem instrument_id_round_trip:
  "mt5_symbol_to_instrument_id (Some (instrument_id_to_mt5_symbol i)) = Inr i \<longleftrightarrow>
     iid_venue i = ''METATRADER_5'' \<and> iid_symbol i \<noteq> [] \<and> CHR ''/'' \<notin> set (iid_symbol i)"
proof -
  have "removeAll (CHR ''/'') t = t \<longleftrightarrow> CHR ''/'' \<notin> set t" for t
    by (metis removeAll_id set_removeAll DiffE singletonI)
  then show ?thesis
    by (cases i) (auto simp: mt5_symbol_to_instrument_id_def mt5_symbol_to_instrument_id_simplified_symbology_def
        instrument_id_to_mt5_symbol_def mt5_symbol_of_def)
qed

lemma copy_fields_get:
  "copy_fields attrs = Inr fs \<Longrightarrow> f \<in> set detail_fields \<Longrightarrow> dict_get fs f = dict_get attrs f \<and> dict_get attrs f \<noteq> None"
proof -
  have "list_all2 (\<lambda>f y. bindR (attribute attrs f) (\<lambda>v. Inr (f, v)) = Inr y) ns fs \<Longrightarrow> f \<in> set ns \<Longrightarrow>
      dict_get fs f = dict_get attrs f \<and> dict_get attrs f \<noteq> None" for ns
  proof (induction ns fs rule: list_all2_induct)
    case (Cons n ns y fs)
    then show ?case by (cases "f \<in> set ns") (auto simp: result_simps)
  qed simp
  then show "copy_fields attrs = Inr fs \<Longrightarrow> f \<in> set detail_fields \<Longrightarrow> ?thesis"
    by (simp add: copy_fields_def traverse_eq_Inr)
qed

lemma copy_fields_total:
  "list_all (\<lambda>f. dict_get attrs f \<noteq> None) detail_fields \<Longrightarrow> \<exists>fs. copy_fields attrs = Inr fs"
proof -
  have "list_all (\<lambda>f. dict_get attrs f \<noteq> None) ns \<Longrightarrow>
      \<exists>fs. traverse (\<lambda>f. bindR (attribute attrs f) (\<lambda>v. Inr (f, v))) ns = Inr fs" for ns
    by (induction ns) (auto simp: attribute_def)
  then show "list_all (\<lambda>f. dict_get attrs f \<noteq> None) detail_fields \<Longrightarrow> ?thesis"
    by (simp add: copy_fields_def)
qed

lemma under_not_detail: "''under_sec_type'' \<notin> set detail_fields"
  by code_simp

lemma copy_fields_under [simp]: "copy_fields ((''under_sec_type'', v) # fs) = copy_fields fs"
proof -
  have "''under_sec_type'' \<notin> set ns \<Longrightarrow>
      traverse (\<lambda>f. bindR (attribute ((''under_sec_type'', v) # fs) f) (\<lambda>v. Inr (f, v))) ns =
      traverse (\<lambda>f. bindR (attribute fs f) (\<lambda>v. Inr (f, v))) ns" for ns
    by (induction ns) (auto simp: attribute_def)
  then show ?thesis using under_not_detail by (simp add: copy_fields_def)
qed

text \<open>
  What the terminal says of a symbol arrives unchanged in the details of the instrument
  provider: after both conversions every attribute they copy has the terminal's value, the symbol is
  the terminal's name with the server as its broker, and the security type is the head of the path.
\<close>

theorem details_survive:
  assumes "process_symbol_details attrs server = Inr si"
  shows "\<exists>d path. convert_symbol_info_to_mt5_symbol_details si = Inr d \<and>
    si_symbol d = si_symbol si \<and> dict_get attrs ''path'' = Some (JStr path) \<and>
    dict_get (si_attrs d) ''under_sec_type'' = Some (JStr (path_head path)) \<and>
    (\<forall>f \<in> set detail_fields. dict_get (si_attrs d) f = dict_get attrs f)"
proof -
  obtain path under name fs where
    p: "attribute attrs ''path'' = Inr path" "(case path of JStr p \<Rightarrow> Inr (path_head p) | _ \<Rightarrow> Inl AttributeError) = Inr under"
    and fs: "copy_fields attrs = Inr fs"
    and si: "si = \<lparr>si_symbol = Some ((mt5_symbol_of (py_str name))\<lparr>sym_broker := server\<rparr>),
                   si_attrs = (''under_sec_type'', JStr under) # fs\<rparr>"
    using assms unfolding process_symbol_details_def bindR_eq_Inr by blast
  obtain pt where pt: "path = JStr pt" "under = path_head pt" using p(2) by (cases path) auto
  have "list_all (\<lambda>f. dict_get fs f \<noteq> None) detail_fields"
    using copy_fields_get [OF fs] by (auto simp: list_all_iff)
  then obtain gs where gs: "copy_fields fs = Inr gs" using copy_fields_total by blast
  have all: "\<forall>f \<in> set detail_fields. dict_get gs f = dict_get attrs f"
    using copy_fields_get [OF gs] copy_fields_get [OF fs] by auto
  have conv: "convert_symbol_info_to_mt5_symbol_details si =
      Inr \<lparr>si_symbol = si_symbol si, si_attrs = (''under_sec_type'', JStr under) # gs\<rparr>"
    using gs by (simp add: convert_symbol_info_to_mt5_symbol_details_def si attribute_def mt5_symbol_of_def)
  show ?thesis
    using conv all pt p(1) under_not_detail
    by (intro exI [of _ "\<lparr>si_symbol = si_symbol si, si_attrs = (''under_sec_type'', JStr under) # gs\<rparr>"] exI [of _ pt])
       (auto simp: attribute_eq_Inr)
qed

definition details_example :: "(string, json) dict" where
  "details_example = (''path'', JStr (''Forex'' @ [CHR 0x5C] @ ''EURUSD'')) # (''name'', JStr ''EURUSD'') #
     (''digits'', JInt 5) # (''volume_step'', JFloat (Fin (1 / 100))) #
     map (\<lambda>f. (f, JInt 0)) detail_fields"

lemma details_survive_witness:
  "\<exists>si d. process_symbol_details details_example ''Demo'' = Inr si \<and>
          convert_symbol_info_to_mt5_symbol_details si = Inr d \<and>
          dict_get (si_attrs d) ''under_sec_type'' = Some (JStr ''FOREX'') \<and>
          dict_get (si_attrs d) ''digits'' = Some (JInt 5)"
proof -
  have "map_of (map (\<lambda>f. (f, v)) ns) f = (if f \<in> set ns then Some v else None)" for ns and f :: string and v :: json
    by (induction ns) auto
  then have "list_all (\<lambda>f. dict_get details_example f \<noteq> None) detail_fields"
    by (simp add: list_all_iff details_example_def)
  then obtain fs where "copy_fields details_example = Inr fs" using copy_fields_total by blast
  then obtain si where si: "process_symbol_details details_example ''Demo'' = Inr si"
    by (simp add: process_symbol_details_def attribute_def details_example_def)
  have "''digits'' \<in> set detail_fields" by code_simp
  then have dg: "dict_get (si_attrs d) ''digits'' = Some (JInt 5)"
    if "\<forall>f \<in> set detail_fields. dict_get (si_attrs d) f = dict_get details_example f" for d
    using that by (simp add: details_example_def)
  have ph: "path_head (''Forex'' @ [CHR 0x5C] @ ''EURUSD'') = ''FOREX''" by code_simp
  have pt: "dict_get details_example ''path'' = Some (JStr (''Forex'' @ [CHR 0x5C] @ ''EURUSD''))"
    by (simp add: details_example_def)
  obtain d path where d: "convert_symbol_info_to_mt5_symbol_details si = Inr d"
      "dict_get details_example ''path'' = Some (JStr path)"
      "dict_get (si_attrs d) ''under_sec_type'' = Some (JStr (path_head path))"
      "\<forall>f \<in> set detail_fields. dict_get (si_attrs d) f = dict_get details_example f"
    using details_survive [OF si] by blast
  then have "path_head path = ''FOREX''" using pt ph by simp
  then show ?thesis using si d dg by (intro exI [of _ si] exI [of _ d]) simp
qed

lemma contract_args_facts:
  assumes "contract_args ty iid s attrs kind = Inr ins"
  shows "ia_type ins = ty \<and> ia_id ins = iid \<and> ia_raw_symbol ins = sym_symbol s \<and>
    kind = Inr (ia_asset_class ins, ia_base_currency ins) \<and>
    dict_get (ia_info ins) ''symbol'' = Some (symbol_dict s) \<and>
    dict_get attrs ''digits'' = Some (ia_price_precision ins) \<and>
    dict_get attrs ''volume_step'' = Some (ia_size_increment ins) \<and>
    tick_size_to_precision (ia_size_increment ins) = Inr (ia_size_precision ins) \<and>
    dict_get attrs ''trade_tick_size'' = Some (ia_price_increment ins)"
  using assms
  by (auto simp: contract_args_def bindR_eq_Inr attribute_eq_Inr symbol_details_to_dict_def dict_simps)

lemma cfd_base_currency:
  assumes "parse_cfd_contract acs iid s attrs = Inr ins"
  shows "ia_base_currency ins = None \<longleftrightarrow> \<not> (\<exists>p. dict_get attrs ''path'' = Some (JStr p) \<and> re_cfd_cash p)"
proof -
  obtain path where path: "dict_get attrs ''path'' = Some path"
    and k: "(case path of
               JStr p \<Rightarrow>
                 bindR (attribute attrs ''under_sec_type'') (\<lambda>sec.
                 bindR (sec_type_to_asset_class acs sec) (\<lambda>asset.
                   if re_cfd_cash p
                   then bindR (attribute attrs ''currency_base'') (\<lambda>base. Inr (Some asset, Some base))
                   else Inr (Some asset, None)))
             | _ \<Rightarrow> Inl TypeError) = Inr (ia_asset_class ins, ia_base_currency ins)"
    using contract_args_facts [OF assms [unfolded parse_cfd_contract_def]]
    by (auto simp: bindR_eq_Inr attribute_eq_Inr)
  then obtain p where p: "path = JStr p" by (cases path) auto
  then show ?thesis
    using k path by (cases "re_cfd_cash p")
      (auto simp: bindR_eq_Inr eq_commute [of "Some _" "ia_base_currency ins"])
qed

text \<open>
  An instrument is parsed under a profile only for a declared mode with a supported type, and
  then has that type; its identifier is the symbol at the adapter's venue, the execution client reads
  the same symbol back from its details, and precisions, increments and limits are the terminal's.
\<close>

theorem instrument_follows_profile:
  assumes "parse_instrument Inr acs (Some vp) (Some s) attrs = Inr ins"
    and "dict_get attrs ''trade_calc_mode'' = Some (JInt mode)"
  shows "(\<exists>cap. dict_get (vp_capabilities vp) mode = Some cap \<and> ia_type ins = nautilus_instrument_type cap) \<and>
    ia_type ins \<in> {CurrencyPairT, CfdT} \<and> (ia_base_currency ins = None \<longleftrightarrow> ia_type ins = CfdT \<and>
       \<not> (\<exists>p. dict_get attrs ''path'' = Some (JStr p) \<and> re_cfd_cash p)) \<and>
    ia_id ins = \<lparr>iid_symbol = sym_symbol s, iid_venue = ''METATRADER_5''\<rparr> \<and> ia_raw_symbol ins = sym_symbol s \<and>
    (\<exists>d. dict_get (ia_info ins) ''symbol'' = Some (JObj d) \<and> dict_get d ''symbol'' = Some (JStr (ia_raw_symbol ins))) \<and>
    dict_get attrs ''digits'' = Some (ia_price_precision ins) \<and>
    dict_get attrs ''volume_step'' = Some (ia_size_increment ins) \<and>
    tick_size_to_precision (ia_size_increment ins) = Inr (ia_size_precision ins) \<and>
    dict_get attrs ''trade_tick_size'' = Some (ia_price_increment ins)"
proof -
  obtain iid where iid: "mt5_symbol_to_instrument_id (Some s) = Inr iid"
    using assms(1) by (cases "mt5_symbol_to_instrument_id (Some s)") (auto simp: parse_instrument_def)
  then have iid_eq: "iid = \<lparr>iid_symbol = sym_symbol s, iid_venue = ''METATRADER_5''\<rparr>"
    by (auto simp: mt5_symbol_to_instrument_id_def mt5_symbol_to_instrument_id_simplified_symbology_def split: if_splits)
  obtain cap where cap: "dict_get (vp_capabilities vp) mode = Some cap"
    using assms iid by (cases "dict_get (vp_capabilities vp) mode")
      (auto simp: parse_instrument_def capability_of_mode_def get_capability_def get_default_def)
  have run: "(if nautilus_instrument_type cap = CurrencyPairT
      then bindR (parse_currency_pair_contract iid s attrs) Inr
      else if nautilus_instrument_type cap = CfdT
      then bindR (parse_cfd_contract acs iid s attrs) Inr
      else Inl (not_implemented (nautilus_instrument_type cap) mode)) = Inr ins"
    using assms iid cap
    by (auto simp: parse_instrument_def capability_of_mode_def get_capability_def get_default_def split: if_splits)
  consider (pair) "nautilus_instrument_type cap = CurrencyPairT" "parse_currency_pair_contract iid s attrs = Inr ins"
    | (cfd) "nautilus_instrument_type cap = CfdT" "parse_cfd_contract acs iid s attrs = Inr ins"
    using run by (auto split: if_splits)
  then show ?thesis
  proof cases
    case pair
    then have c: "contract_args CurrencyPairT iid s attrs
       (bindR (attribute attrs ''currency_base'') (\<lambda>base. Inr (None, Some base))) = Inr ins"
      by (simp add: parse_currency_pair_contract_def)
    then have "ia_base_currency ins \<noteq> None"
      using contract_args_facts [OF c] by (auto simp: bindR_eq_Inr eq_commute [of "Some _" "ia_base_currency ins"])
    then show ?thesis
      using contract_args_facts [OF c] cap iid_eq pair(1) by (simp add: symbol_dict_def)
  next
    case cfd
    then show ?thesis
      using contract_args_facts [OF cfd(2) [unfolded parse_cfd_contract_def]] cfd_base_currency [OF cfd(2)] cap iid_eq
      by (simp add: symbol_dict_def)
  qed
qed

definition forex_details :: "(string, json) dict" where
  "forex_details =
     [(''trade_calc_mode'', JInt 0), (''digits'', JInt 5), (''volume_step'', JFloat (Fin 1)), (''time'', JInt 0),
      (''currency_base'', JStr ''EUR''), (''currency_profit'', JStr ''USD''),
      (''trade_tick_size'', JInt 1), (''volume_max'', JInt 100), (''volume_min'', JInt 1)]"

lemma instrument_follows_profile_witness:
  "\<exists>ins :: unit instrument_args.
     parse_instrument Inr (\<lambda>_. Inr ()) (Some tickmill_demo_profile) (Some (mt5_symbol_of ''EURUSD'')) forex_details = Inr ins \<and>
     ia_type ins = CurrencyPairT \<and> ia_id ins = \<lparr>iid_symbol = ''EURUSD'', iid_venue = ''METATRADER_5''\<rparr>"
proof -
  obtain n where n: "tick_size_to_precision (JFloat (Fin 1)) = Inr n"
    by (simp add: tick_size_to_precision_def)
  have cap: "dict_get (vp_capabilities tickmill_demo_profile) 0 \<noteq> None \<and>
      (\<forall>cap. dict_get (vp_capabilities tickmill_demo_profile) 0 = Some cap \<longrightarrow> nautilus_instrument_type cap = CurrencyPairT)"
    by (simp add: tickmill_demo_profile_def calc_mode_defs)
  obtain ins :: "unit instrument_args" where ins:
    "parse_instrument Inr (\<lambda>_. Inr ()) (Some tickmill_demo_profile) (Some (mt5_symbol_of ''EURUSD'')) forex_details = Inr ins"
    using n cap
    by (auto simp: parse_instrument_def mt5_symbol_to_instrument_id_def mt5_symbol_of_def
        mt5_symbol_to_instrument_id_simplified_symbology_def capability_of_mode_def get_capability_def
        get_default_def forex_details_def parse_currency_pair_contract_def contract_args_def attribute_def)
  moreover have "dict_get forex_details ''trade_calc_mode'' = Some (JInt 0)" by (simp add: forex_details_def)
  ultimately show ?thesis
    using instrument_follows_profile [OF ins, of 0] cap by (auto simp: mt5_symbol_of_def)
qed

end
