(* ===== verification/Client_Core.thy ===== *)
theory Client_Core
  imports Registry Py_Json
begin

text \<open>
  The client's shared state and the life of a request (\<^verbatim>\<open>nautilus_mt5/client/client.py\<close> and parts of
  \<^verbatim>\<open>client/connection.py\<close>): request ids and futures, event subscriptions, waiting for a request and
  ending it, and the start loop with its limit on connection attempts.

  A future is an object of the event loop: a number, with its state in \<open>futures\<close>. Coroutines are
  modelled from one suspension to the next; what the loop does while one waits is an argument: the
  answer of the terminal (\<open>fetch\<close>) and whether it came before the timeout.
\<close>

section \<open>Records of the terminal\<close>

text \<open>
  \<^verbatim>\<open>metatrader5/models.py\<close>: the order the adapter builds and reads. \<open>position_ticket\<close> is an attribute
  that the execution client adds to some orders.
\<close>

record mt5_order =
  order_id :: int
  o_symbol :: string
  orderRef :: string
  o_action :: int
  o_type :: int
  o_volume :: pyfloat
  o_price :: pyfloat
  o_trigger_price :: pyfloat
  o_sl :: pyfloat
  o_tp :: pyfloat
  o_type_time :: int
  o_expire_time :: int
  o_type_filling :: int
  o_magic :: int
  o_comment :: string
  o_position :: int
  o_state :: int
  o_volume_filled :: pyfloat
  o_account :: string
  o_parentId :: int
  o_transmit :: bool
  o_position_ticket :: "int option"

definition mt5_order_default :: mt5_order where
  "mt5_order_default =
     \<lparr>order_id = 0, o_symbol = [], orderRef = [], o_action = 0, o_type = 0, o_volume = 0, o_price = 0,
      o_trigger_price = 0, o_sl = 0, o_tp = 0, o_type_time = 0, o_expire_time = 0, o_type_filling = 0,
      o_magic = 0, o_comment = [], o_position = 0, o_state = 0, o_volume_filled = 0, o_account = [],
      o_parentId = 0, o_transmit = True, o_position_ticket = None\<rparr>"

text \<open>\<^verbatim>\<open>data_types.py\<close>. Quantities are decimals, kept as the number they denote.\<close>

record account_order_ref =
  ref_account_id :: string
  ref_order_id :: string

record mt5_position =
  pos_account_id :: string
  pos_symbol :: string
  pos_quantity :: pyfloat
  pos_avg_cost :: pyfloat
  pos_commission :: pyfloat

text \<open>
  What the terminal's queries return row by row: dictionaries, or objects of the adapter's own types.
  A query for orders returns dictionaries and orders, one for positions dictionaries and positions.
\<close>

datatype row = RowDict "(string, json) dict" | RowOrder mt5_order | RowPosition mt5_position

section \<open>State\<close>

datatype future = FPending | FDone "row list" | FFailed py_exc | FCancelled

record execution =
  execId :: string
  exec_order_id :: string
  acctNumber :: string
  exec_side :: int
  exec_quantity :: pyfloat
  exec_price :: pyfloat

record commission_report =
  cr_execId :: string
  cr_commission :: pyfloat
  cr_currency :: string

record exec_cache =
  ec_execution :: "execution option"
  ec_order_ref :: string
  ec_commission :: "commission_report option"

text \<open>Calls of the handlers that other components registered by name.\<close>

datatype client_event =
    OpenOrderEvent string string mt5_order
  | OrderStatusEvent string string string
  | ExecDetailsEvent string string execution commission_report
  | AccountSummaryEvent string string string string

type_synonym client_requests = "(unit, unit, nat, row) requests"

record client =
  c_requests :: client_requests
  futures :: "nat \<Rightarrow> future"
  next_future :: nat
  request_id_seq :: int
  event_subscriptions :: "string list"
  delivered :: "client_event list"
  account_ids :: "string set"
  mt5_connected :: bool
  client_ready :: bool
  next_valid_order_id :: int
  order_id_to_order_ref :: "(int, account_order_ref) dict"
  exec_id_details :: "(string, exec_cache) dict"

definition client_init :: client where
  "client_init =
     \<lparr>c_requests = requests_empty, futures = (\<lambda>_. FPending), next_future = 0, request_id_seq = 10000,
      event_subscriptions = [], delivered = [], account_ids = {}, mt5_connected = False,
      client_ready = False, next_valid_order_id = -1, order_id_to_order_ref = [], exec_id_details = []\<rparr>"

definition next_req_id :: "client \<Rightarrow> int \<times> client" where
  "next_req_id c = (request_id_seq c, c\<lparr>request_id_seq := request_id_seq c + 1\<rparr>)"

section \<open>Events\<close>

definition subscribe_event :: "string \<Rightarrow> client \<Rightarrow> client" where
  "subscribe_event name c =
     (if name \<in> set (event_subscriptions c) then c
      else c\<lparr>event_subscriptions := event_subscriptions c @ [name]\<rparr>)"

definition unsubscribe_event :: "string \<Rightarrow> client \<Rightarrow> client result" where
  "unsubscribe_event name c =
     (if name \<in> set (event_subscriptions c)
      then Inr (c\<lparr>event_subscriptions := removeAll name (event_subscriptions c)\<rparr>)
      else Inl KeyError)"

text \<open>A call of the handler registered under a name, when there is one.\<close>

definition deliver :: "string \<Rightarrow> client_event \<Rightarrow> client \<Rightarrow> client" where
  "deliver name e c =
     (if name \<in> set (event_subscriptions c) then c\<lparr>delivered := delivered c @ [e]\<rparr> else c)"

section \<open>Requests\<close>

definition fut_done :: "future \<Rightarrow> bool" where
  "fut_done f \<longleftrightarrow> f \<noteq> FPending"

definition set_future :: "nat \<Rightarrow> future \<Rightarrow> client \<Rightarrow> client" where
  "set_future i f c = (if fut_done (futures c i) then c else c\<lparr>futures := (futures c)(i := f)\<rparr>)"

definition request_named :: "string \<Rightarrow> client \<Rightarrow> (unit, unit, nat, row) request option result" where
  "request_named name c = requests_get (c_requests c) None (Some (NStr name))"

text \<open>The \<^verbatim>\<open>cancel\<close> callback of a request does nothing here: the code never passes one.\<close>

definition end_request :: "int \<Rightarrow> bool \<Rightarrow> py_exc option \<Rightarrow> client \<Rightarrow> client result" where
  "end_request rid success exc c =
     bindR (requests_get (c_requests c) (Some rid) None) (\<lambda>r.
       case r of
         None \<Rightarrow> Inr c
       | Some q \<Rightarrow>
           (let c1 = (if fut_done (futures c (rq_future q)) then c
                      else if success then set_future (rq_future q) (FDone (rq_result q)) c
                      else (case exc of None \<Rightarrow> c | Some e \<Rightarrow> set_future (rq_future q) (FFailed e) c))
            in Inr (c1\<lparr>c_requests := requests_remove (Some rid) None (c_requests c1)\<rparr>)))"

text \<open>
  \<^verbatim>\<open>_await_request\<close> at the moment the wait is over. A future that is still pending then has timed out,
  and \<^verbatim>\<open>asyncio.wait_for\<close> has cancelled it. The value is \<open>None\<close> for the default.
\<close>

definition await_request :: "(unit, unit, nat, row) request \<Rightarrow> client \<Rightarrow> (client \<times> row list option) result" where
  "await_request q c =
     (case futures c (rq_future q) of
        FDone v \<Rightarrow> Inr (c, Some v)
      | FPending \<Rightarrow>
          bindR (end_request (rq_req_id q) False (Some TimeoutError) (set_future (rq_future q) FCancelled c))
            (\<lambda>c1. Inr (c1, None))
      | FFailed e \<Rightarrow>
          if e = ConnectionError then
            bindR (end_request (rq_req_id q) False (Some ConnectionError) c) (\<lambda>c1. Inr (c1, None))
          else Inl e
      | FCancelled \<Rightarrow> Inl GenericException)"

text \<open>
  The shape \<^verbatim>\<open>get_open_orders\<close> and \<^verbatim>\<open>get_positions\<close> share: one request per name, whose future the
  done callback of the fetching task sets; \<open>fetch\<close> is what that task returns (errors of the bridge are
  caught in it and give an empty list), \<open>late\<close> that it does not return within the timeout.
\<close>

definition fetch_rows :: "(row list option) result \<Rightarrow> row list" where
  "fetch_rows answer = (case answer of Inl _ \<Rightarrow> [] | Inr None \<Rightarrow> [] | Inr (Some rows) \<Rightarrow> rows)"

definition request_rows :: "string \<Rightarrow> row list option result \<Rightarrow> bool \<Rightarrow> client \<Rightarrow> (client \<times> row list option) result" where
  "request_rows name answer late c =
     bindR (request_named name c) (\<lambda>r.
       case r of
         Some q \<Rightarrow> await_request q c
       | None \<Rightarrow>
           (case next_req_id c of (rid, c1) \<Rightarrow>
             (let fut = next_future c1;
                  c2 = c1\<lparr>next_future := fut + 1, futures := (futures c1)(fut := FPending)\<rparr>
              in bindR (requests_add fut rid (NStr name) () () (c_requests c2)) (\<lambda>p.
                   case p of
                     (reqs, None) \<Rightarrow> Inr (c2\<lparr>c_requests := reqs\<rparr>, None)
                   | (reqs, Some q) \<Rightarrow>
                       (let c3 = c2\<lparr>c_requests := reqs\<rparr>;
                            c4 = (if late then c3 else set_future (rq_future q) (FDone (fetch_rows answer)) c3)
                        in await_request q c4)))))"

text \<open>\<^verbatim>\<open>process_connection_closed\<close>: every future that is pending fails.\<close>

definition process_connection_closed :: "client \<Rightarrow> client" where
  "process_connection_closed c =
     (let c1 = fold (\<lambda>f. set_future f (FFailed ConnectionError)) (get_futures (c_requests c)) c
      in c1\<lparr>mt5_connected := False\<rparr>)"

section \<open>Starting\<close>

text \<open>
  How the start of the client (\<^verbatim>\<open>_start_async\<close>, theory \<open>Client_Life\<close>) ends; \<open>StillTrying\<close> when the handshakes that
  are given are used up.
\<close>

datatype start_end = Started | GaveUp | Failed py_exc | StillTrying

definition degrade :: "bool \<Rightarrow> client \<Rightarrow> client" where
  "degrade is_degraded c = (if is_degraded then c else c\<lparr>client_ready := False, account_ids := {}\<rparr>)"

definition handle_disconnection :: "bool \<Rightarrow> bool \<Rightarrow> client \<Rightarrow> client" where
  "handle_disconnection is_running is_degraded c =
     (let c1 = (if is_running then degrade is_degraded c else c) in c1\<lparr>mt5_connected := False\<rparr>)"

section \<open>Invariant\<close>

definition client_wf :: "client \<Rightarrow> bool" where
  "client_wf c \<longleftrightarrow>
     requests_wf (c_requests c) \<and> 0 < request_id_seq c \<and>
     (\<forall>r \<in> set (dict_keys (req_id_to_name (c_requests c))). r \<le> request_id_seq c - 1)"

lemma client_init_wf: "client_wf client_init"
  by (simp add: client_wf_def client_init_def requests_empty_wf) (simp add: requests_empty_def)

lemma set_future_requests [simp]: "c_requests (set_future i f c) = c_requests c"
  "request_id_seq (set_future i f c) = request_id_seq c"
  by (simp_all add: set_future_def)

lemma await_done: "futures c (rq_future q) = FDone v \<Longrightarrow> await_request q c = Inr (c, Some v)"
  by (simp add: await_request_def)

text \<open>What a first request of a name does, when the answer is in time.\<close>

lemma request_rows_first:
  assumes wf: "client_wf c" and none: "request_named name c = Inr None" and name: "name \<noteq> []"
  shows "\<exists>c' q. request_rows name answer False c = Inr (c', Some (fetch_rows answer)) \<and>
     request_named name c' = Inr (Some q) \<and> futures c' (rq_future q) = FDone (fetch_rows answer) \<and>
     rq_future q < next_future c' \<and> client_wf c'"
proof -
  let ?rid = "request_id_seq c" and ?n = "NStr name" and ?s = "c_requests c"
  have rwf: "requests_wf ?s" and rid: "?rid \<noteq> 0" using wf by (auto simp: client_wf_def)
  have "?n \<notin> set (dict_values (req_id_to_name ?s))"
  proof -
    have "present_name ?s None (Some ?n) = None"
      using none requests_get_total [OF rwf, of None "Some ?n"] by (auto simp: request_named_def)
    then show ?thesis using present_name_name_None [OF requests_base [OF rwf], of ?n] by blast
  qed
  moreover have "?rid \<notin> set (dict_keys (req_id_to_name ?s))"
    using wf by (force simp: client_wf_def)
  ultimately have new: "may_add ?rid ?n ?s" by (simp add: may_add_def)
  obtain s' where add: "requests_add (next_future c) ?rid ?n () () ?s = Inr (s', Some
      \<lparr>rq_req_id = ?rid, rq_name = ?n, rq_handle = (), rq_cancel = (), rq_future = next_future c,
       rq_result = []\<rparr>)"
    using requests_add_new [OF rwf new rid, of "next_future c" "()" "()"] name by auto
  let ?q = "\<lparr>rq_req_id = ?rid, rq_name = ?n, rq_handle = (), rq_cancel = (), rq_future = next_future c,
       rq_result = []\<rparr> :: (unit, unit, nat, row) request"
  let ?c' = "set_future (next_future c) (FDone (fetch_rows answer))
       (c\<lparr>request_id_seq := ?rid + 1, next_future := next_future c + 1,
          futures := (futures c)(next_future c := FPending), c_requests := s'\<rparr>)"
  have fut: "futures ?c' (next_future c) = FDone (fetch_rows answer)"
    by (simp add: set_future_def fut_done_def)
  have "request_rows name answer False c = Inr (?c', Some (fetch_rows answer))"
    using none add fut by (simp add: request_rows_def next_req_id_def Let_def await_done)
  moreover have "request_named name ?c' = Inr (Some ?q)"
  proof -
    have wf': "requests_wf s'" using requests_add_new [OF rwf new rid, of "next_future c" "()" "()"] name add by auto
    obtain x where x: "requests_get s' None (Some ?n) = Inr (Some x)" "rq_req_id x = ?rid"
      using reqs.get_after_ins(2) [OF rwf rid _ add] name by auto
    have "requests_get s' (Some ?rid) None = Inr (Some ?q)"
      using add by (auto simp: requests_add_def Let_def bindR_eq_Inr)
    then have "x = ?q" using requests_get_name_as_id [OF wf' x(1), of None] x(2) by simp
    then show ?thesis using x by (simp add: request_named_def)
  qed
  moreover have "client_wf ?c'"
    using reqs.ins_present [OF rwf rid _ add] wf name by (fastforce simp: client_wf_def)
  moreover have "rq_future ?q < next_future ?c'" by (simp add: set_future_def)
  ultimately show ?thesis using fut by (intro exI [of _ ?c'] exI [of _ ?q]) simp
qed

lemma request_rows_again:
  assumes "request_named name c = Inr (Some q)" and "futures c (rq_future q) = FDone rows"
  shows "request_rows name answer late c = Inr (c, Some rows)"
  using assms by (simp add: request_rows_def await_done)

text \<open>
  A query leaves the request of another name alone, and the value of its future. The new future's
  number must not be the other's, which a client hands out once only.
\<close>

lemma set_future_keeps: "fut_done (futures c i) \<Longrightarrow> futures (set_future j f c) i = futures c i"
  by (auto simp: set_future_def)

lemma end_request_requests:
  assumes "end_request rid success e c = Inr c'"
  shows "(c_requests c' = c_requests c \<or> c_requests c' = requests_remove (Some rid) None (c_requests c)) \<and>
   (\<forall>i. fut_done (futures c i) \<longrightarrow> futures c' i = futures c i)"
proof -
  obtain r where r: "requests_get (c_requests c) (Some rid) None = Inr r"
    using assms by (cases "requests_get (c_requests c) (Some rid) None") (simp_all add: end_request_def)
  show ?thesis
  proof (cases r)
    case (Some q)
    define c1 where "c1 = (if fut_done (futures c (rq_future q)) then c
                      else if success then set_future (rq_future q) (FDone (rq_result q)) c
                      else (case e of None \<Rightarrow> c | Some x \<Rightarrow> set_future (rq_future q) (FFailed x) c))"
    have "c' = c1\<lparr>c_requests := requests_remove (Some rid) None (c_requests c1)\<rparr>"
      using assms r Some by (simp add: end_request_def c1_def Let_def)
    moreover have "c_requests c1 = c_requests c" by (simp add: c1_def split: option.split)
    moreover have "fut_done (futures c i) \<Longrightarrow> futures c1 i = futures c i" for i
      by (simp add: c1_def set_future_keeps split: option.split)
    ultimately show ?thesis by simp
  qed (use assms r in \<open>simp add: end_request_def\<close>)
qed

lemma await_request_requests:
  assumes "await_request q c = Inr (c', rows)"
  shows "(c_requests c' = c_requests c \<or> c_requests c' = requests_remove (Some (rq_req_id q)) None (c_requests c)) \<and>
    (\<forall>i. fut_done (futures c i) \<longrightarrow> futures c' i = futures c i)"
proof (cases "futures c (rq_future q)")
  case FPending
  then obtain c1 where c1: "end_request (rq_req_id q) False (Some TimeoutError) (set_future (rq_future q) FCancelled c) = Inr c1"
    "c' = c1"
    using assms by (auto simp: await_request_def bindR_eq_Inr)
  have "fut_done (futures (set_future (rq_future q) FCancelled c) i) \<and>
      futures (set_future (rq_future q) FCancelled c) i = futures c i" if "fut_done (futures c i)" for i
    using that by (auto simp: set_future_def fut_done_def)
  then show ?thesis using end_request_requests [OF c1(1)] c1(2) by auto
next
  case (FFailed e)
  then have "e = ConnectionError"
    using assms by (cases "e = ConnectionError") (simp_all add: await_request_def)
  then have "end_request (rq_req_id q) False (Some ConnectionError) c = Inr c'"
    using assms FFailed by (auto simp: await_request_def bindR_eq_Inr)
  then show ?thesis by (rule end_request_requests)
qed (use assms in \<open>simp_all add: await_request_def\<close>)

lemma request_rows_keeps:
  assumes wf: "client_wf c" and q: "request_named name c = Inr (Some q)" and dn: "fut_done (futures c (rq_future q))"
    and fut: "rq_future q \<noteq> next_future c" and other: "name' \<noteq> name" "name' \<noteq> []"
    and run: "request_rows name' answer late c = Inr (c', rows)"
  shows "request_named name c' = Inr (Some q) \<and> futures c' (rq_future q) = futures c (rq_future q)"
proof -
  let ?s = "c_requests c" and ?rid = "request_id_seq c"
  have rwf: "requests_wf ?s" and rid: "?rid \<noteq> 0" using wf by (auto simp: client_wf_def)
  have get: "requests_get ?s None (Some (NStr name)) = Inr (Some q)" using q by (simp add: request_named_def)
  obtain r where r: "request_named name' c = Inr r"
    using run by (cases "request_named name' c") (auto simp: request_rows_def)
  show ?thesis
  proof (cases r)
    case (Some q2)
    then have aw: "await_request q2 c = Inr (c', rows)" using run r by (simp add: request_rows_def)
    have "requests_get ?s None (Some (NStr name')) = Inr (Some q2)" using r Some by (simp add: request_named_def)
    then have "rq_req_id q2 \<noteq> rq_req_id q" "rq_req_id q2 \<noteq> 0"
      using get other(1) base_wf_truthy [OF requests_base [OF rwf]]
      by (auto simp: requests_get_name_iff [OF rwf])
    then have "requests_get (c_requests c') None (Some (NStr name)) = Inr (Some q)"
      using await_request_requests [OF aw] request_kept_by_remove [OF rwf get] get by auto
    then show ?thesis using await_request_requests [OF aw] dn by (simp add: request_named_def)
  next
    case None
    then obtain s2 e where add: "requests_add (next_future c) ?rid (NStr name') () () ?s = Inr (s2, e)"
      using run r by (auto simp: request_rows_def next_req_id_def Let_def bindR_eq_Inr)
    define c2 where "c2 = c\<lparr>request_id_seq := ?rid + 1, next_future := next_future c + 1,
        futures := (futures c)(next_future c := FPending), c_requests := s2\<rparr>"
    have kept: "requests_get s2 None (Some (NStr name)) = Inr (Some q)"
      using request_kept_by_add [OF rwf get add rid] other(2) by simp
    have wf2: "requests_wf s2" using reqs.ins_present [OF rwf rid _ add] other(2) by simp
    have fut2: "futures c2 (rq_future q) = futures c (rq_future q)" using fut by (simp add: c2_def)
    show ?thesis
    proof (cases e)
      case None
      then show ?thesis using run r \<open>r = None\<close> add kept fut2
        by (auto simp: request_rows_def next_req_id_def Let_def request_named_def c2_def)
    next
      case (Some q2)
      then have id2: "rq_req_id q2 = ?rid"
        using reqs.ins_present [OF rwf rid _ add] other(2) by simp
      have ne: "?rid \<noteq> rq_req_id q"
        using get wf by (force simp: requests_get_name_iff [OF rwf] client_wf_def dest: map_of_in_keys simp del: set_map)
      define c4 where "c4 = (if late then c2 else set_future (rq_future q2) (FDone (fetch_rows answer)) c2)"
      have aw: "await_request q2 c4 = Inr (c', rows)"
        using run r \<open>r = None\<close> add Some 
        by (cases late) (simp_all add: request_rows_def next_req_id_def Let_def c4_def c2_def)
      have s4: "c_requests c4 = s2" by (simp add: c4_def c2_def)
      have fut4: "futures c4 (rq_future q) = futures c (rq_future q)"
        using fut2 dn by (auto simp: c4_def set_future_def fut_done_def)
      have "requests_get (c_requests c') None (Some (NStr name)) = Inr (Some q)"
        using await_request_requests [OF aw] request_kept_by_remove [OF wf2 kept rid ne] kept s4 id2 by auto
      then show ?thesis
        using await_request_requests [OF aw] fut4 dn by (simp add: request_named_def)
    qed
  qed
qed

section \<open>Properties\<close>

text \<open>
  C27: a query by name answers with what the terminal answered the first time it was made and never
  again asks the terminal: nothing removes the request once its future is set, so later answers, late
  or in time, change neither the result nor the state.
\<close>

theorem repeated_query_is_stale:
  assumes "client_wf c" and "request_named name c = Inr None" and "name \<noteq> []"
    and "request_rows name first False c = Inr (c1, rows)"
  shows "rows = Some (fetch_rows first) \<and> request_rows name later late c1 = Inr (c1, Some (fetch_rows first))"
proof -
  obtain c' q where c': "request_rows name first False c = Inr (c', Some (fetch_rows first))"
    "request_named name c' = Inr (Some q)" "futures c' (rq_future q) = FDone (fetch_rows first)"
    using request_rows_first [OF assms(1-3)] by blast
  then have "c1 = c'" "rows = Some (fetch_rows first)" using assms(4) by simp_all
  then show ?thesis using request_rows_again [OF c'(2,3)] by simp
qed

lemma repeated_query_is_stale_witness:
  "\<exists>c1. request_rows ''OpenPositions'' (Inr (Some [])) False client_init = Inr (c1, Some []) \<and>
        request_rows ''OpenPositions'' (Inr (Some [RowDict [(''ticket'', JInt 1)]])) False c1 = Inr (c1, Some [])"
proof -
  have none: "request_named ''OpenPositions'' client_init = Inr None"
    by (simp add: request_named_def client_init_def requests_get_def present_name_def resolve_id_def
        name_to_req_id_def requests_empty_def)
  obtain c1 where c1: "request_rows ''OpenPositions'' (Inr (Some [])) False client_init = Inr (c1, Some [])"
    using request_rows_first [OF client_init_wf none, of "Inr (Some [])"] by (auto simp: fetch_rows_def)
  then show ?thesis
    using repeated_query_is_stale [OF client_init_wf none _ c1, of "Inr (Some [RowDict [(''ticket'', JInt 1)]])" False]
    by (auto simp: fetch_rows_def)
qed

end
