(* ===== verification/Provider.thy ===== *)
theory Provider
  imports Instruments Client_Core
begin

text \<open>
  Finding symbols and loading instruments (\<^verbatim>\<open>nautilus_mt5/client/symbol.py\<close>,
  \<^verbatim>\<open>nautilus_mt5/providers.py\<close>). A query for a symbol opens a request, asks the bridge, and waits for
  the request's future; the instrument provider parses what comes back and keeps three tables.

  The answer of the bridge's \<^verbatim>\<open>symbol_info\<close> is an argument: its attributes, nothing, or an exception,
  together with whether the wait ends before the answer is there. The platform's constructor, its
  filter and the identifier of an instrument are parameters, collected in a record.
\<close>

section \<open>Asking for a symbol\<close>

definition normalize_info :: "string \<Rightarrow> (string, json) dict \<Rightarrow> (string, json) dict result" where
  "normalize_info symbol d =
     (let d1 = (case dict_get d ''name'' of None \<Rightarrow> dict_set ''name'' (JStr symbol) d | Some _ \<Rightarrow> d)
      in case dict_get d1 ''under_sec_type'' of
           Some _ \<Rightarrow> Inr d1
         | None \<Rightarrow>
             (case get_default d1 ''path'' JNull of
                JStr p \<Rightarrow> Inr (dict_set ''under_sec_type'' (if p = [] then JNull else JStr (path_head p)) d1)
              | v \<Rightarrow> if jtruthy v then Inl AttributeError else Inr (dict_set ''under_sec_type'' JNull d1)))"

text \<open>\<^verbatim>\<open>_real_resolve\<close>: every way to fail ends the request without setting its future.\<close>

definition resolve_symbol :: "string \<Rightarrow> (string, json) dict option result \<Rightarrow> int \<Rightarrow> client \<Rightarrow> client result" where
  "resolve_symbol symbol answer rid c =
     (case answer of
        Inr (Some d) \<Rightarrow>
          (if d = [] then end_request rid False None c
           else
             (case normalize_info symbol d of
                Inl _ \<Rightarrow> end_request rid False None c
              | Inr info \<Rightarrow>
                  (case requests_get (c_requests c) (Some rid) None of
                     Inr (Some q) \<Rightarrow> end_request rid True None (set_future (rq_future q) (FDone [RowDict info]) c)
                   | _ \<Rightarrow> end_request rid False None c)))
      | _ \<Rightarrow> end_request rid False None c)"

text \<open>A new request with a future of its own.\<close>

definition open_request :: "int \<Rightarrow> string \<Rightarrow> client \<Rightarrow> (client \<times> (unit, unit, nat, row) request option) result" where
  "open_request rid name c =
     (let fut = next_future c;
          c1 = c\<lparr>next_future := fut + 1, futures := (futures c)(fut := FPending)\<rparr>
      in bindR (requests_add fut rid (NStr name) () () (c_requests c1)) (\<lambda>(reqs, q).
           Inr (c1\<lparr>c_requests := reqs\<rparr>, q)))"

definition symbol_request_name :: "string \<Rightarrow> int \<Rightarrow> string" where
  "symbol_request_name text rid = ''MT5Symbol('' @ text @ '')-'' @ int_str rid"

text \<open>\<open>text\<close> is the printed symbol. An id that is taken is removed and the request added again.\<close>

definition get_symbol_details ::
    "string \<Rightarrow> string \<Rightarrow> (string, json) dict option result \<Rightarrow> bool \<Rightarrow> client \<Rightarrow> (client \<times> row list option) result" where
  "get_symbol_details text symbol answer late c =
     (case next_req_id c of (rid, c1) \<Rightarrow>
       bindR (case open_request rid (symbol_request_name text rid) c1 of
                Inr r \<Rightarrow> Inr r
              | Inl _ \<Rightarrow> open_request rid (symbol_request_name text rid)
                         (c1\<lparr>c_requests := requests_remove (Some rid) None (c_requests c1)\<rparr>))
         (\<lambda>(c2, r).
           case r of
             None \<Rightarrow> Inr (c2, None)
           | Some q \<Rightarrow>
               bindR (if late then Inr c2 else resolve_symbol symbol answer rid c2) (\<lambda>c3. await_request q c3)))"

text \<open>The details of many symbols at once, for a request that is still open.\<close>

definition client_process_symbol_details :: "int \<Rightarrow> symbol_info list \<Rightarrow> client \<Rightarrow> client result" where
  "client_process_symbol_details rid infos c =
     bindR (requests_get (c_requests c) (Some rid) None) (\<lambda>r.
       case r of
         None \<Rightarrow> Inr c
       | Some q \<Rightarrow>
           bindR (traverse convert_symbol_info_to_mt5_symbol_details infos) (\<lambda>ds.
             if fut_done (futures c (rq_future q)) then Inl GenericException
             else end_request rid True None
                    (set_future (rq_future q) (FDone (map (\<lambda>d. RowDict (si_attrs d)) ds)) c)))"

section \<open>Loading instruments\<close>

record ('c, 'i) provider_env =
  pe_build :: "'c instrument_args \<Rightarrow> 'i result"
  pe_asset_class :: "string \<Rightarrow> 'c result"
  pe_id :: "'i \<Rightarrow> instrument_id"
  pe_filter :: "'i \<Rightarrow> bool"
  pe_profile :: "venue_profile option"

record 'i provider =
  pv_instruments :: "(instrument_id, 'i) dict"
  pv_cache :: "(instrument_id, 'i) dict"
  pv_symbol_details :: "(string, (string, json) dict) dict"
  pv_symbol_id :: "(int, instrument_id) dict"

definition provider_init :: "'i provider" where
  "provider_init = \<lparr>pv_instruments = [], pv_cache = [], pv_symbol_details = [], pv_symbol_id = []\<rparr>"

text \<open>\<^verbatim>\<open>get_symbol_details\<close> of the provider: exactly one answer, or none.\<close>

definition one_detail :: "row list option result \<Rightarrow> row list result" where
  "one_detail answer =
     (case answer of
        Inl e \<Rightarrow> if is_value_error e then Inr [] else Inl e
      | Inr None \<Rightarrow> Inr []
      | Inr (Some [d]) \<Rightarrow> Inr [d]
      | Inr (Some _) \<Rightarrow> Inr [])"

text \<open>The symbol of the details: theirs when it is a text, or made of their name.\<close>

definition details_symbol :: "(string, json) dict \<Rightarrow> mt5_symbol result" where
  "details_symbol attrs =
     (case dict_get attrs ''symbol'' of
        Some (JStr s) \<Rightarrow> Inr (mt5_symbol_of s)
      | Some _ \<Rightarrow> Inl TypeError
      | None \<Rightarrow>
          (case dict_get attrs ''name'' of
             Some (JStr s) \<Rightarrow> Inr (mt5_symbol_of s)
           | Some _ \<Rightarrow> Inl TypeError
           | None \<Rightarrow> Inl AttributeError))"

definition add_details :: "('c, 'i) provider_env \<Rightarrow> (string, json) dict \<Rightarrow> 'i provider \<Rightarrow> 'i provider result" where
  "add_details env attrs p =
     bindR (details_symbol attrs) (\<lambda>s.
       case parse_instrument (pe_build env) (pe_asset_class env) (pe_profile env) (Some s) attrs of
         Inl e \<Rightarrow> if is_value_error e then Inr p else Inl e
       | Inr i \<Rightarrow>
           if \<not> pe_filter env i then Inr p
           else Inr (p\<lparr>pv_instruments := dict_set (pe_id env i) i (pv_instruments p),
                       pv_cache := dict_set (pe_id env i) i (pv_cache p),
                       pv_symbol_details := dict_set (instrument_id_value (pe_id env i)) attrs (pv_symbol_details p),
                       pv_symbol_id := dict_set (sym_id s) (pe_id env i) (pv_symbol_id p)\<rparr>))"

datatype load_target = LoadId instrument_id | LoadSymbol mt5_symbol | LoadOther

fun target_symbol :: "load_target \<Rightarrow> mt5_symbol option" where
  "target_symbol (LoadId i) = Some (instrument_id_to_mt5_symbol i)"
| "target_symbol (LoadSymbol s) = Some s"
| "target_symbol LoadOther = None"

text \<open>\<open>fetch\<close> is the client's query for a symbol.\<close>

definition load_async ::
    "(mt5_symbol \<Rightarrow> client \<Rightarrow> client \<times> row list option result) \<Rightarrow> ('c, 'i) provider_env \<Rightarrow> load_target \<Rightarrow>
     client \<times> 'i provider \<Rightarrow> (client \<times> 'i provider) result" where
  "load_async fetch env t cp =
     (case target_symbol t of
        None \<Rightarrow> Inr cp
      | Some s \<Rightarrow>
          (case fetch s (fst cp) of
             (c1, answer) \<Rightarrow>
               bindR (one_detail answer) (\<lambda>ds.
                 case ds of
                   [RowDict attrs] \<Rightarrow> bindR (add_details env attrs (snd cp)) (\<lambda>p. Inr (c1, p))
                 | [] \<Rightarrow> Inr (c1, snd cp)
                 | _ \<Rightarrow> Inl AttributeError)))"

fun load_each ::
    "(mt5_symbol \<Rightarrow> client \<Rightarrow> client \<times> row list option result) \<Rightarrow> ('c, 'i) provider_env \<Rightarrow> load_target list \<Rightarrow>
     client \<times> 'i provider \<Rightarrow> (client \<times> 'i provider) result" where
  "load_each fetch env [] cp = Inr cp"
| "load_each fetch env (t # ts) cp = bindR (load_async fetch env t cp) (load_each fetch env ts)"

text \<open>The configured identifiers first, then the configured symbols.\<close>

definition load_ids_async ::
    "(mt5_symbol \<Rightarrow> client \<Rightarrow> client \<times> row list option result) \<Rightarrow> ('c, 'i) provider_env \<Rightarrow> instrument_id list \<Rightarrow>
     mt5_symbol list \<Rightarrow> client \<times> 'i provider \<Rightarrow> (client \<times> 'i provider) result" where
  "load_ids_async fetch env ids symbols cp = load_each fetch env (map LoadId ids @ map LoadSymbol symbols) cp"

text \<open>The identifier that is handed to the platform's \<^verbatim>\<open>find\<close>.\<close>

definition find_with_symbol_id ::
    "(mt5_symbol \<Rightarrow> client \<Rightarrow> client \<times> row list option result) \<Rightarrow> ('c, 'i) provider_env \<Rightarrow> int \<Rightarrow>
     client \<times> 'i provider \<Rightarrow> (client \<times> 'i provider \<times> instrument_id option) result" where
  "find_with_symbol_id fetch env symbol_id cp =
     (case dict_get (pv_symbol_id (snd cp)) symbol_id of
        Some i \<Rightarrow> Inr (fst cp, snd cp, Some i)
      | None \<Rightarrow>
          bindR (load_async fetch env (LoadSymbol \<lparr>sec_type = [], sym_id = symbol_id, sym_symbol = [], sym_broker = []\<rparr>) cp)
            (\<lambda>(c1, p1). Inr (c1, p1, dict_get (pv_symbol_id p1) symbol_id)))"

section \<open>Properties\<close>

text \<open>Opening a request under a fresh id: what it adds, and what removing it restores.\<close>

lemma open_request_fresh:
  fixes c :: client
  assumes wf: "client_wf c" and name: "name \<noteq> []" "NStr name \<notin> set (dict_values (req_id_to_name (c_requests c)))"
  obtains reqs q where "open_request (request_id_seq c) name (c\<lparr>request_id_seq := request_id_seq c + 1\<rparr>) =
      Inr (c\<lparr>request_id_seq := request_id_seq c + 1, next_future := next_future c + 1,
             futures := (futures c)(next_future c := FPending), c_requests := reqs\<rparr>, Some q)"
    and "rq_req_id q = request_id_seq c" and "rq_future q = next_future c"
    and "requests_get reqs (Some (request_id_seq c)) None = Inr (Some q)"
    and "requests_remove (Some (request_id_seq c)) None reqs = c_requests c"
    and "requests_get (c_requests c) (Some (request_id_seq c)) None = Inr None"
proof -
  let ?rid = "request_id_seq c" and ?s = "c_requests c"
  have rwf: "requests_wf ?s" and rid: "?rid \<noteq> 0" using wf by (auto simp: client_wf_def)
  have fresh: "?rid \<notin> set (dict_keys (req_id_to_name ?s))" using wf by (force simp: client_wf_def)
  then have new: "may_add ?rid (NStr name) ?s" using name by (simp add: may_add_def)
  obtain reqs q where add: "requests_add (next_future c) ?rid (NStr name) () () ?s = Inr (reqs, Some q)"
    and q: "q = \<lparr>rq_req_id = ?rid, rq_name = NStr name, rq_handle = (), rq_cancel = (),
                 rq_future = next_future c, rq_result = []\<rparr>"
    using requests_add_new [OF rwf new rid, of "next_future c" "()" "()"] name(1) by auto
  have get: "requests_get reqs (Some ?rid) None = Inr (Some q)"
    using add by (auto simp: requests_add_def Let_def bindR_eq_Inr)
  have none: "requests_get ?s (Some ?rid) None = Inr None"
    using fresh rid by (simp add: requests_get_def present_name_def resolve_id_def map_of_eq_None_iff [THEN iffD2])
  show ?thesis
  proof (rule that)
    show "open_request ?rid name (c\<lparr>request_id_seq := ?rid + 1\<rparr>) =
      Inr (c\<lparr>request_id_seq := ?rid + 1, next_future := next_future c + 1,
             futures := (futures c)(next_future c := FPending), c_requests := reqs\<rparr>, Some q)"
      using add by (simp add: open_request_def Let_def)
  qed (use q get none requests_remove_add [OF rwf rid add] in simp_all)
qed

lemma end_open_request:
  assumes "requests_get (c_requests c) (Some rid) None = Inr (Some q)"
  shows "end_request rid False None c = Inr (c\<lparr>c_requests := requests_remove (Some rid) None (c_requests c)\<rparr>)"
  using assms by (simp add: end_request_def)

lemma end_done_request:
  assumes "requests_get (c_requests c) (Some rid) None = Inr (Some q)" and "fut_done (futures c (rq_future q))"
  shows "end_request rid success e c = Inr (c\<lparr>c_requests := requests_remove (Some rid) None (c_requests c)\<rparr>)"
  using assms by (simp add: end_request_def)

lemma end_missing_request:
  "requests_get (c_requests c) (Some rid) None = Inr None \<Longrightarrow> end_request rid success e c = Inr c"
  by (simp add: end_request_def)

lemma set_pending: "futures c i = FPending \<Longrightarrow> set_future i f c = c\<lparr>futures := (futures c)(i := f)\<rparr>"
  by (simp add: set_future_def fut_done_def)

text \<open>
  C26: a query for a symbol answers with its normalised details exactly when the bridge gave some in
  time, and with nothing otherwise; either way the request is gone from the registry afterwards, which
  is as it was before.
\<close>

theorem symbol_query_leaves_no_request:
  assumes "client_wf c"
    and "NStr (symbol_request_name text (request_id_seq c)) \<notin> set (dict_values (req_id_to_name (c_requests c)))"
  shows "\<exists>c'. get_symbol_details text symbol answer late c =
      Inr (c', if late then None else
                 (case answer of
                    Inr (Some d) \<Rightarrow>
                      (case (d, normalize_info symbol d) of (x # xs, Inr info) \<Rightarrow> Some [RowDict info] | _ \<Rightarrow> None)
                  | _ \<Rightarrow> None)) \<and>
      c_requests c' = c_requests c \<and> request_id_seq c' = request_id_seq c + 1"
proof -
  let ?rid = "request_id_seq c" and ?i = "next_future c"
  obtain reqs q where op: "open_request ?rid (symbol_request_name text ?rid) (c\<lparr>request_id_seq := ?rid + 1\<rparr>) =
      Inr (c\<lparr>request_id_seq := ?rid + 1, next_future := ?i + 1, futures := (futures c)(?i := FPending), c_requests := reqs\<rparr>, Some q)"
    and q: "rq_req_id q = ?rid" "rq_future q = ?i" and get: "requests_get reqs (Some ?rid) None = Inr (Some q)"
    and rem: "requests_remove (Some ?rid) None reqs = c_requests c"
    and none: "requests_get (c_requests c) (Some ?rid) None = Inr None"
    using open_request_fresh [OF assms(1) _ assms(2)] by (auto simp: symbol_request_name_def)
  let ?c2 = "c\<lparr>request_id_seq := ?rid + 1, next_future := ?i + 1, futures := (futures c)(?i := FPending), c_requests := reqs\<rparr>"
  have start: "get_symbol_details text symbol answer late c =
      bindR (if late then Inr ?c2 else resolve_symbol symbol answer ?rid ?c2) (await_request q)"
    using op by (simp add: get_symbol_details_def next_req_id_def)
  have waited: "\<exists>c'. await_request q ?c2 = Inr (c', None) \<and> c_requests c' = c_requests c \<and> request_id_seq c' = ?rid + 1"
    using get q rem by (simp add: await_request_def set_pending end_done_request fut_done_def)
  have failed: "\<exists>c'. bindR (end_request ?rid False None ?c2) (await_request q) = Inr (c', None) \<and>
      c_requests c' = c_requests c \<and> request_id_seq c' = ?rid + 1"
    using get q rem none by (simp add: await_request_def set_pending end_open_request end_missing_request)
  have found: "\<exists>c'. bindR (end_request ?rid True None (set_future (rq_future q) (FDone rows) ?c2)) (await_request q) = Inr (c', Some rows) \<and>
      c_requests c' = c_requests c \<and> request_id_seq c' = ?rid + 1" for rows
    using get q rem by (simp add: await_request_def set_pending end_done_request fut_done_def)
  show ?thesis
  proof (cases late)
    case True
    then show ?thesis using waited start by simp
  next
    case False
    consider d ds info where "answer = Inr (Some (d # ds))" "normalize_info symbol (d # ds) = Inr info"
      | d ds e where "answer = Inr (Some (d # ds))" "normalize_info symbol (d # ds) = Inl e"
      | "answer = Inr (Some [])" | "answer = Inr None" | e where "answer = Inl e"
      by (cases answer; cases "projr answer"; cases "the (projr answer)"; cases "normalize_info symbol (the (projr answer))") auto
    then show ?thesis
      using False start failed found get by cases (simp_all add: resolve_symbol_def)
  qed
qed

lemma symbol_query_leaves_no_request_witness:
  "\<exists>c'. get_symbol_details ''s'' ''EURUSD'' (Inr None) False client_init = Inr (c', None) \<and>
        c_requests c' = requests_empty"
proof -
  have empty: "c_requests client_init = requests_empty" by (simp add: client_init_def)
  then have "NStr (symbol_request_name ''s'' (request_id_seq client_init)) \<notin> set (dict_values (req_id_to_name (c_requests client_init)))"
    by (simp add: requests_empty_def)
  from symbol_query_leaves_no_request [OF client_init_wf this, of "''EURUSD''" "Inr None" False]
  show ?thesis using empty by auto
qed

section \<open>Tables of the provider\<close>

definition provider_wf :: "('c, 'i) provider_env \<Rightarrow> 'i provider \<Rightarrow> bool" where
  "provider_wf env p \<longleftrightarrow>
     (\<forall>(k, i) \<in> set (pv_instruments p). k = pe_id env i \<and> pe_filter env i) \<and>
     pv_cache p = pv_instruments p \<and>
     (\<forall>(n, k) \<in> set (pv_symbol_id p). n = 0 \<and> k \<in> set (dict_keys (pv_instruments p)))"

lemma set_dict_set: "set (dict_set k v d) \<subseteq> insert (k, v) (set d)"
  by (induction d) auto

lemma add_details_wf:
  assumes "provider_wf env p" and "add_details env attrs p = Inr p'"
  shows "provider_wf env p'"
proof -
  obtain s where s: "details_symbol attrs = Inr s" using assms(2) by (cases "details_symbol attrs") (auto simp: add_details_def)
  then have sid: "sym_id s = 0"
    by (auto simp: details_symbol_def mt5_symbol_of_def split: option.splits json.splits)
  show ?thesis
  proof (cases "parse_instrument (pe_build env) (pe_asset_class env) (pe_profile env) (Some s) attrs")
    case (Inl e)
    then show ?thesis using assms s by (auto simp: add_details_def split: if_splits)
  next
    case (Inr i)
    show ?thesis
    proof (cases "pe_filter env i")
      case True
      have p': "p' = p\<lparr>pv_instruments := dict_set (pe_id env i) i (pv_instruments p),
                       pv_cache := dict_set (pe_id env i) i (pv_cache p),
                       pv_symbol_details := dict_set (instrument_id_value (pe_id env i)) attrs (pv_symbol_details p),
                       pv_symbol_id := dict_set (sym_id s) (pe_id env i) (pv_symbol_id p)\<rparr>"
        using assms(2) s Inr True by (simp add: add_details_def)
      have "\<forall>(k, j) \<in> set (dict_set (pe_id env i) i (pv_instruments p)). k = pe_id env j \<and> pe_filter env j"
        using assms(1) True set_dict_set [of "pe_id env i" i "pv_instruments p"] by (fastforce simp: provider_wf_def)
      moreover have "set (dict_keys (pv_instruments p)) \<subseteq> set (dict_keys (dict_set (pe_id env i) i (pv_instruments p)))"
        and "pe_id env i \<in> set (dict_keys (dict_set (pe_id env i) i (pv_instruments p)))"
        by (auto simp: dict_keys_set simp del: set_map)
      then have "\<forall>(n, k) \<in> set (dict_set (sym_id s) (pe_id env i) (pv_symbol_id p)).
          n = 0 \<and> k \<in> set (dict_keys (dict_set (pe_id env i) i (pv_instruments p)))"
        using assms(1) sid set_dict_set [of "sym_id s" "pe_id env i" "pv_symbol_id p"]
        by (fastforce simp: provider_wf_def simp del: set_map)
      ultimately show ?thesis
        using assms(1) by (simp add: provider_wf_def p')
    qed (use assms s Inr in \<open>simp add: add_details_def\<close>)
  qed
qed

lemma load_async_wf:
  assumes "provider_wf env (snd cp)" and "load_async fetch env t cp = Inr cp'"
  shows "provider_wf env (snd cp')"
proof (cases "target_symbol t")
  case (Some s)
  obtain c1 answer where f: "fetch s (fst cp) = (c1, answer)" by fastforce
  obtain ds where "one_detail answer = Inr ds"
    and run: "(case ds of
        [RowDict attrs] \<Rightarrow> bindR (add_details env attrs (snd cp)) (\<lambda>p. Inr (c1, p))
      | [] \<Rightarrow> Inr (c1, snd cp)
      | _ \<Rightarrow> Inl AttributeError) = Inr cp'"
    using assms(2) Some f by (auto simp: load_async_def bindR_eq_Inr)
  then consider "cp' = (c1, snd cp)" | attrs p where "add_details env attrs (snd cp) = Inr p" "cp' = (c1, p)"
    by (auto simp: bindR_eq_Inr split: list.splits row.splits)
  then show ?thesis using assms(1) add_details_wf by cases auto
qed (use assms in \<open>simp add: load_async_def\<close>)

lemma load_each_wf:
  "provider_wf env (snd cp) \<Longrightarrow> load_each fetch env ts cp = Inr cp' \<Longrightarrow> provider_wf env (snd cp')"
  by (induction ts arbitrary: cp) (auto simp: bindR_eq_Inr dest: load_async_wf)

text \<open>
  After any load the provider's instruments and the client's cache are the same, each under its
  own identifier and let through by the filter; but symbols are filed under the id zero only, whatever
  their id, so a lookup by any other symbol id finds nothing.
\<close>

theorem provider_tables:
  assumes "load_ids_async fetch env ids symbols (c, provider_init) = Inr (c', p)"
  shows "pv_cache p = pv_instruments p \<and>
    (\<forall>k i. dict_get (pv_instruments p) k = Some i \<longrightarrow> k = pe_id env i \<and> pe_filter env i) \<and>
    (\<forall>n. n \<noteq> 0 \<longrightarrow> (case find_with_symbol_id fetch env n (c', p) of Inr (c2, p2, found) \<Rightarrow> found = None | Inl e \<Rightarrow> True))"
proof -
  have wf: "provider_wf env p"
  proof -
    have "provider_wf env (snd (c, provider_init))" by (simp add: provider_wf_def provider_init_def)
    then show ?thesis using load_each_wf assms unfolding load_ids_async_def by fastforce
  qed
  have none: "dict_get (pv_symbol_id p2) n = None" if "provider_wf env p2" "n \<noteq> 0" for p2 n
    using that map_of_SomeD [of "pv_symbol_id p2" n] by (cases "dict_get (pv_symbol_id p2) n") (auto simp: provider_wf_def)
  have "case find_with_symbol_id fetch env n (c', p) of Inr (c2, p2, found) \<Rightarrow> found = None | Inl e \<Rightarrow> True"
    if n: "n \<noteq> 0" for n
  proof -
    let ?r = "load_async fetch env (LoadSymbol \<lparr>sec_type = [], sym_id = n, sym_symbol = [], sym_broker = []\<rparr>) (c', p)"
    show ?thesis
    proof (cases ?r)
      case (Inr cp)
      then have "provider_wf env (snd cp)" using load_async_wf [of env "(c', p)"] wf by auto
      then show ?thesis using none [OF wf n] none [OF _ n] Inr
        by (cases cp) (simp add: find_with_symbol_id_def)
    qed (simp add: find_with_symbol_id_def none [OF wf n])
  qed
  moreover have "k = pe_id env i \<and> pe_filter env i" if "dict_get (pv_instruments p) k = Some i" for k i
    using wf map_of_SomeD [OF that] by (auto simp: provider_wf_def)
  ultimately show ?thesis using wf by (simp add: provider_wf_def)
qed

definition provider_env_example :: "(unit, unit instrument_args) provider_env" where
  "provider_env_example = \<lparr>pe_build = Inr, pe_asset_class = (\<lambda>_. Inr ()), pe_id = ia_id, pe_filter = (\<lambda>_. True),
                           pe_profile = Some tickmill_demo_profile\<rparr>"

lemma provider_tables_witness:
  "\<exists>p. load_ids_async (\<lambda>s c. (c, Inr (Some [RowDict ((''name'', JStr (sym_symbol s)) # forex_details)])))
         provider_env_example [] [mt5_symbol_of ''EURUSD''] (client_init, provider_init) = Inr (client_init, p) \<and>
       pv_instruments p \<noteq> [] \<and> pv_cache p = pv_instruments p"
proof -
  let ?fetch = "\<lambda>s c. (c :: client, Inr (Some [RowDict ((''name'', JStr (sym_symbol s)) # forex_details)]) :: row list option result)"
  obtain p where p: "load_ids_async ?fetch provider_env_example [] [mt5_symbol_of ''EURUSD''] (client_init, provider_init) = Inr (client_init, p)"
    "pv_instruments p \<noteq> []"
    by (simp add: load_ids_async_def load_async_def one_detail_def add_details_def details_symbol_def
        forex_details_def provider_env_example_def provider_init_def mt5_symbol_of_def parse_instrument_def
        mt5_symbol_to_instrument_id_def mt5_symbol_to_instrument_id_simplified_symbology_def
        capability_of_mode_def get_capability_def get_default_def tickmill_demo_profile_def calc_mode_defs
        parse_currency_pair_contract_def contract_args_def attribute_def tick_size_to_precision_def)
  then show ?thesis using provider_tables [OF p(1)] by blast
qed

end
