(* ===== verification/Parse_Execution.thy ===== *)
theory Parse_Execution
  imports Py_Text
begin

text \<open>
  Translation between the platform's orders and the terminal's (\<^verbatim>\<open>nautilus_mt5/parsing/execution.py\<close>).
  The enumerations of the platform are datatypes with its members; the terminal's are integers.
\<close>

section \<open>Enumerations of the platform\<close>

datatype order_side = NO_ORDER_SIDE | BUY | SELL

datatype order_type =
    MARKET | LIMIT | STOP_MARKET | STOP_LIMIT | MARKET_TO_LIMIT | MARKET_IF_TOUCHED
  | LIMIT_IF_TOUCHED | TRAILING_STOP_MARKET | TRAILING_STOP_LIMIT

datatype time_in_force = GTC | IOC | FOK | GTD | DAY | AT_THE_OPEN | AT_THE_CLOSE

datatype order_status =
    INITIALIZED | DENIED | EMULATED | RELEASED | SUBMITTED | ACCEPTED | REJECTED | CANCELED
  | EXPIRED | TRIGGERED | PENDING_UPDATE | PENDING_CANCEL | PARTIALLY_FILLED | FILLED

datatype trigger_type = NO_TRIGGER | DEFAULT_TRIGGER | LAST_PRICE | BID_ASK | OTHER_TRIGGER

fun order_type_name :: "order_type \<Rightarrow> string" where
  "order_type_name MARKET = ''MARKET''"
| "order_type_name LIMIT = ''LIMIT''"
| "order_type_name STOP_MARKET = ''STOP_MARKET''"
| "order_type_name STOP_LIMIT = ''STOP_LIMIT''"
| "order_type_name MARKET_TO_LIMIT = ''MARKET_TO_LIMIT''"
| "order_type_name MARKET_IF_TOUCHED = ''MARKET_IF_TOUCHED''"
| "order_type_name LIMIT_IF_TOUCHED = ''LIMIT_IF_TOUCHED''"
| "order_type_name TRAILING_STOP_MARKET = ''TRAILING_STOP_MARKET''"
| "order_type_name TRAILING_STOP_LIMIT = ''TRAILING_STOP_LIMIT''"

fun time_in_force_name :: "time_in_force \<Rightarrow> string" where
  "time_in_force_name GTC = ''GTC''"
| "time_in_force_name IOC = ''IOC''"
| "time_in_force_name FOK = ''FOK''"
| "time_in_force_name GTD = ''GTD''"
| "time_in_force_name DAY = ''DAY''"
| "time_in_force_name AT_THE_OPEN = ''AT_THE_OPEN''"
| "time_in_force_name AT_THE_CLOSE = ''AT_THE_CLOSE''"

section \<open>Constants of the terminal\<close>

definition TRADE_ACTION_DEAL :: int where "TRADE_ACTION_DEAL = 1"
definition TRADE_ACTION_PENDING :: int where "TRADE_ACTION_PENDING = 5"
definition TRADE_ACTION_SLTP :: int where "TRADE_ACTION_SLTP = 6"
definition TRADE_ACTION_MODIFY :: int where "TRADE_ACTION_MODIFY = 7"
definition TRADE_ACTION_REMOVE :: int where "TRADE_ACTION_REMOVE = 8"
definition TRADE_ACTION_CLOSE_BY :: int where "TRADE_ACTION_CLOSE_BY = 10"

definition TRADE_RETCODE_PLACED :: int where "TRADE_RETCODE_PLACED = 10008"
definition TRADE_RETCODE_DONE :: int where "TRADE_RETCODE_DONE = 10009"
definition TRADE_RETCODE_DONE_PARTIAL :: int where "TRADE_RETCODE_DONE_PARTIAL = 10010"

definition DEAL_TYPE_BUY :: int where "DEAL_TYPE_BUY = 0"
definition DEAL_TYPE_SELL :: int where "DEAL_TYPE_SELL = 1"

definition ORDER_TYPE_BUY :: int where "ORDER_TYPE_BUY = 0"
definition ORDER_TYPE_SELL :: int where "ORDER_TYPE_SELL = 1"
definition ORDER_TYPE_BUY_LIMIT :: int where "ORDER_TYPE_BUY_LIMIT = 2"
definition ORDER_TYPE_SELL_LIMIT :: int where "ORDER_TYPE_SELL_LIMIT = 3"
definition ORDER_TYPE_BUY_STOP :: int where "ORDER_TYPE_BUY_STOP = 4"
definition ORDER_TYPE_SELL_STOP :: int where "ORDER_TYPE_SELL_STOP = 5"
definition ORDER_TYPE_BUY_STOP_LIMIT :: int where "ORDER_TYPE_BUY_STOP_LIMIT = 6"
definition ORDER_TYPE_SELL_STOP_LIMIT :: int where "ORDER_TYPE_SELL_STOP_LIMIT = 7"

definition ORDER_TIME_GTC :: int where "ORDER_TIME_GTC = 0"
definition ORDER_TIME_DAY :: int where "ORDER_TIME_DAY = 1"

definition ORDER_FILLING_FOK :: int where "ORDER_FILLING_FOK = 0"
definition ORDER_FILLING_IOC :: int where "ORDER_FILLING_IOC = 1"
definition ORDER_FILLING_RETURN :: int where "ORDER_FILLING_RETURN = 2"

lemmas mt5_order_types = ORDER_TYPE_BUY_def ORDER_TYPE_SELL_def ORDER_TYPE_BUY_LIMIT_def
  ORDER_TYPE_SELL_LIMIT_def ORDER_TYPE_BUY_STOP_def ORDER_TYPE_SELL_STOP_def
  ORDER_TYPE_BUY_STOP_LIMIT_def ORDER_TYPE_SELL_STOP_LIMIT_def

lemmas mt5_constants = mt5_order_types TRADE_ACTION_DEAL_def TRADE_ACTION_PENDING_def
  TRADE_ACTION_SLTP_def TRADE_ACTION_MODIFY_def TRADE_ACTION_REMOVE_def TRADE_ACTION_CLOSE_BY_def
  TRADE_RETCODE_PLACED_def TRADE_RETCODE_DONE_def TRADE_RETCODE_DONE_PARTIAL_def
  DEAL_TYPE_BUY_def DEAL_TYPE_SELL_def ORDER_TIME_GTC_def ORDER_TIME_DAY_def
  ORDER_FILLING_FOK_def ORDER_FILLING_IOC_def ORDER_FILLING_RETURN_def

section \<open>Maps\<close>

definition map_time_in_force :: "(time_in_force, int) dict" where
  "map_time_in_force =
     [(GTC, ORDER_TIME_GTC), (DAY, ORDER_TIME_DAY), (FOK, ORDER_TIME_GTC), (IOC, ORDER_TIME_GTC)]"

definition supported_order_types :: "order_type set" where
  "supported_order_types = {MARKET, LIMIT, STOP_MARKET, STOP_LIMIT}"

definition supported_time_in_force :: "time_in_force set" where
  "supported_time_in_force = {GTC, DAY, FOK, IOC}"

text \<open>The names of the supported values, sorted.\<close>

definition validate_order_pre_venue :: "order_type \<Rightarrow> time_in_force \<Rightarrow> unit result" where
  "validate_order_pre_venue order_type time_in_force =
     (if order_type \<notin> supported_order_types then
        Inl (ValueError (''MT5 adapter does not support OrderType.'' @ order_type_name order_type @
          ''. Supported types: LIMIT, MARKET, STOP_LIMIT, STOP_MARKET.''))
      else if time_in_force \<notin> supported_time_in_force then
        Inl (ValueError (''MT5 adapter does not support TimeInForce.'' @ time_in_force_name time_in_force @
          ''. Supported values: DAY, FOK, GTC, IOC.''))
      else Inr ())"

text \<open>The message of the last branch also prints the type, in the platform's own form.\<close>

definition map_order_type_and_action :: "order_type \<Rightarrow> order_side \<Rightarrow> (int \<times> int) result" where
  "map_order_type_and_action order_type side =
     (if order_type = MARKET then
        Inr (TRADE_ACTION_DEAL, if side = BUY then ORDER_TYPE_BUY else ORDER_TYPE_SELL)
      else if order_type = LIMIT then
        Inr (TRADE_ACTION_PENDING, if side = BUY then ORDER_TYPE_BUY_LIMIT else ORDER_TYPE_SELL_LIMIT)
      else if order_type = STOP_MARKET then
        Inr (TRADE_ACTION_PENDING, if side = BUY then ORDER_TYPE_BUY_STOP else ORDER_TYPE_SELL_STOP)
      else if order_type = STOP_LIMIT then
        Inr (TRADE_ACTION_PENDING,
             if side = BUY then ORDER_TYPE_BUY_STOP_LIMIT else ORDER_TYPE_SELL_STOP_LIMIT)
      else Inl (ValueError ''Unsupported OrderType''))"

definition map_order_status :: "(int, order_status) dict" where
  "map_order_status =
     [(0, SUBMITTED), (1, ACCEPTED), (2, CANCELED), (3, FILLED), (4, FILLED), (5, REJECTED),
      (6, EXPIRED), (7, ACCEPTED), (8, ACCEPTED), (9, ACCEPTED)]"

definition map_filling_type :: "time_in_force \<Rightarrow> int" where
  "map_filling_type time_in_force =
     (if time_in_force = FOK then ORDER_FILLING_FOK
      else if time_in_force = IOC then ORDER_FILLING_IOC
      else ORDER_FILLING_RETURN)"

definition map_trigger_method :: "(trigger_type, int) dict" where
  "map_trigger_method = [(DEFAULT_TRIGGER, 0), (LAST_PRICE, 2), (BID_ASK, 4)]"

definition mt5_order_type_to_order_side :: "(int, order_side) dict" where
  "mt5_order_type_to_order_side =
     [(ORDER_TYPE_BUY, BUY), (ORDER_TYPE_BUY_LIMIT, BUY), (ORDER_TYPE_BUY_STOP, BUY),
      (ORDER_TYPE_BUY_STOP_LIMIT, BUY), (ORDER_TYPE_SELL, SELL), (ORDER_TYPE_SELL_LIMIT, SELL),
      (ORDER_TYPE_SELL_STOP, SELL), (ORDER_TYPE_SELL_STOP_LIMIT, SELL)]"

definition mt5_order_type_to_order_type :: "(int, order_type) dict" where
  "mt5_order_type_to_order_type =
     [(ORDER_TYPE_BUY, MARKET), (ORDER_TYPE_SELL, MARKET), (ORDER_TYPE_BUY_LIMIT, LIMIT),
      (ORDER_TYPE_SELL_LIMIT, LIMIT), (ORDER_TYPE_BUY_STOP, STOP_MARKET),
      (ORDER_TYPE_SELL_STOP, STOP_MARKET), (ORDER_TYPE_BUY_STOP_LIMIT, STOP_LIMIT),
      (ORDER_TYPE_SELL_STOP_LIMIT, STOP_LIMIT)]"

section \<open>Properties\<close>

lemma map_order_type_total:
  "ot \<in> supported_order_types \<Longrightarrow> \<exists>a t. map_order_type_and_action ot side = Inr (a, t)"
  by (auto simp: supported_order_types_def map_order_type_and_action_def)

text \<open>
  An order that passes the check before the venue has a translation: its type becomes an action
  and a terminal type that map back to the same type and side, a market order and only a market order
  is a deal, and its time in force has a time and a filling mode that together determine it.
\<close>

theorem validated_order_translates:
  assumes "validate_order_pre_venue ot tif = Inr ()" and "side = BUY \<or> side = SELL"
  shows "(\<exists>a t. map_order_type_and_action ot side = Inr (a, t) \<and>
            dict_get mt5_order_type_to_order_type t = Some ot \<and>
            dict_get mt5_order_type_to_order_side t = Some side \<and>
            (a = TRADE_ACTION_DEAL \<longleftrightarrow> ot = MARKET)) \<and>
         (\<exists>tm. dict_get map_time_in_force tif = Some tm \<and>
            (\<forall>tif'. tif' \<notin> supported_time_in_force \<or>
               dict_get map_time_in_force tif' \<noteq> Some tm \<or> map_filling_type tif' \<noteq> map_filling_type tif \<or>
               tif' = tif))"
proof -
  have ot: "ot \<in> supported_order_types" and tif: "tif \<in> supported_time_in_force"
    using assms(1) by (auto simp: validate_order_pre_venue_def split: if_splits)
  have "\<exists>a t. map_order_type_and_action ot side = Inr (a, t) \<and>
            dict_get mt5_order_type_to_order_type t = Some ot \<and>
            dict_get mt5_order_type_to_order_side t = Some side \<and>
            (a = TRADE_ACTION_DEAL \<longleftrightarrow> ot = MARKET)"
    using ot assms(2)
    by (auto simp: supported_order_types_def map_order_type_and_action_def
        mt5_order_type_to_order_type_def mt5_order_type_to_order_side_def mt5_constants)
  moreover have "\<exists>tm. dict_get map_time_in_force tif = Some tm \<and>
      (\<forall>tif'. tif' \<notin> supported_time_in_force \<or>
         dict_get map_time_in_force tif' \<noteq> Some tm \<or> map_filling_type tif' \<noteq> map_filling_type tif \<or>
         tif' = tif)"
    using tif
    by (auto simp: supported_time_in_force_def map_time_in_force_def map_filling_type_def mt5_constants)
  ultimately show ?thesis by blast
qed

lemma validated_order_translates_witness:
  "\<exists>a t. map_order_type_and_action STOP_LIMIT SELL = Inr (a, t) \<and>
         dict_get mt5_order_type_to_order_side t = Some SELL"
  using validated_order_translates [of STOP_LIMIT IOC SELL]
  by (auto simp: validate_order_pre_venue_def supported_order_types_def supported_time_in_force_def)

text \<open>
  The check refuses exactly the types and times in force outside the supported sets, with a
  \<^verbatim>\<open>ValueError\<close>, and every type it refuses for its type is one the translation refuses as well.
\<close>

theorem validation_agrees_with_translation:
  "(validate_order_pre_venue ot tif = Inr () \<longleftrightarrow>
      ot \<in> {MARKET, LIMIT, STOP_MARKET, STOP_LIMIT} \<and> tif \<in> {GTC, DAY, FOK, IOC}) \<and>
   (case validate_order_pre_venue ot tif of Inl e \<Rightarrow> is_value_error e | Inr _ \<Rightarrow> True) \<and>
   ((\<exists>e. map_order_type_and_action ot side = Inl e) \<longleftrightarrow> (\<forall>t. \<exists>e. validate_order_pre_venue ot t = Inl e))"
  by (cases ot)
     (auto simp: validate_order_pre_venue_def map_order_type_and_action_def supported_order_types_def
       supported_time_in_force_def)

text \<open>
  A partly filled order of the terminal (state 3) and a filled one (state 4) are reported alike,
  as \<open>FILLED\<close>; the platform's status for a partial fill is never reported.
\<close>

theorem partial_fill_reported_filled:
  "dict_get map_order_status 3 = Some FILLED \<and> dict_get map_order_status 4 = Some FILLED \<and>
   (\<forall>k. dict_get map_order_status k \<noteq> Some PARTIALLY_FILLED)"
  by (auto simp: map_order_status_def)

end
