(* ===== verification/Client_Orders.thy ===== *)
theory Client_Orders
  imports Client_Core Parse_Execution
begin

text \<open>
  Orders and accounts of the client (\<^verbatim>\<open>nautilus_mt5/client/order.py\<close>, \<^verbatim>\<open>client/account.py\<close>): the
  requests written to the terminal's bridge, the table from the adapter's order ids to the platform's
  order references, the routing of the terminal's order events, and the conversion of rows.

  The bridge is a parameter: whether it has \<^verbatim>\<open>order_send\<close> under its own name, what it answers, and
  whether it has \<^verbatim>\<open>req_ids\<close>. A request is the dictionary the code builds.
\<close>

type_synonym mt5_request = "(string, json) dict"

datatype send_method =
    NoSend
  | NativeSend "mt5_request \<Rightarrow> json result"
  | OtherSend "int \<Rightarrow> string \<Rightarrow> mt5_order \<Rightarrow> json result"

record bridge =
  b_order_send :: send_method
  b_req_ids :: "unit result"

section \<open>Placing orders\<close>

definition order_ref_of :: "mt5_order \<Rightarrow> account_order_ref" where
  "order_ref_of order =
     \<lparr>ref_account_id = o_account order,
      ref_order_id = (if orderRef order \<noteq> [] then rsplit_head (CHR '':'') (orderRef order)
                      else int_str (order_id order))\<rparr>"

definition tag_order_ref :: "mt5_order \<Rightarrow> mt5_order" where
  "tag_order_ref order =
     (if orderRef order \<noteq> [] then order\<lparr>orderRef := orderRef order @ '':'' @ int_str (order_id order)\<rparr>
      else order)"

definition place_request :: "mt5_order \<Rightarrow> mt5_request" where
  "place_request order =
     (let req =
        [(''action'', JInt (o_action order)), (''symbol'', JStr (o_symbol order)),
         (''volume'', JFloat (o_volume order)), (''type'', JInt (o_type order)),
         (''price'', JFloat (o_price order)), (''sl'', JFloat (o_sl order)), (''tp'', JFloat (o_tp order)),
         (''deviation'', JInt 20), (''magic'', JInt (o_magic order)), (''comment'', JStr (o_comment order)),
         (''type_time'', JInt (o_type_time order)), (''type_filling'', JInt (o_type_filling order)),
         (''position'', JInt (case o_position_ticket order of None \<Rightarrow> 0 | Some t \<Rightarrow> t))]
      in if (o_type order = 6 \<or> o_type order = 7) \<and> ftruthy (o_trigger_price order)
         then dict_set ''stoplimit'' (JFloat (o_trigger_price order)) req else req)"

text \<open>The client, the order as the call leaves it, the requests written, and the answer.\<close>

definition place_order ::
    "bridge \<Rightarrow> mt5_order \<Rightarrow> client \<Rightarrow> client \<times> mt5_order \<times> mt5_request list \<times> json result" where
  "place_order b order c =
     (let c1 = c\<lparr>order_id_to_order_ref :=
                   dict_set (order_id order) (order_ref_of order) (order_id_to_order_ref c)\<rparr>;
          order1 = tag_order_ref order
      in case b_order_send b of
           NoSend \<Rightarrow> (c1, order1, [], Inr JNull)
         | NativeSend send \<Rightarrow> (c1, order1, [place_request order1], send (place_request order1))
         | OtherSend send \<Rightarrow> (c1, order1, [], send (order_id order1) (o_symbol order1) order1))"

text \<open>Modifying and cancelling: the requests, and the exception of the bridge if it raises.\<close>

definition modify_request :: "mt5_order \<Rightarrow> mt5_request" where
  "modify_request order =
     (let req =
        [(''action'', JInt 7), (''order'', JInt (order_id order)), (''symbol'', JStr (o_symbol order)),
         (''volume'', JFloat (o_volume order)), (''price'', JFloat (o_price order)),
         (''type'', JInt (o_type order)), (''type_time'', JInt (o_type_time order)),
         (''type_filling'', JInt (o_type_filling order))]
      in if ftruthy (o_trigger_price order)
         then dict_set ''stoplimit'' (JFloat (o_trigger_price order)) req else req)"

definition cancel_request :: "int \<Rightarrow> mt5_request" where
  "cancel_request oid = [(''action'', JInt 8), (''order'', JInt oid)]"

text \<open>A method called with one dictionary; another signature raises \<^verbatim>\<open>TypeError\<close>.\<close>

definition send_dict :: "bridge \<Rightarrow> mt5_request \<Rightarrow> mt5_request list \<times> json result" where
  "send_dict b req =
     (case b_order_send b of
        NoSend \<Rightarrow> ([], Inr JNull)
      | NativeSend send \<Rightarrow> ([req], send req)
      | OtherSend _ \<Rightarrow> ([], Inl TypeError))"

definition modify_order :: "bridge \<Rightarrow> mt5_order \<Rightarrow> mt5_request list \<times> json result" where
  "modify_order b order = send_dict b (modify_request order)"

definition cancel_order :: "bridge \<Rightarrow> int \<Rightarrow> mt5_request list \<times> json result" where
  "cancel_order b oid = send_dict b (cancel_request oid)"

definition next_order_id :: "bridge \<Rightarrow> client \<Rightarrow> client \<times> int result" where
  "next_order_id b c =
     (c\<lparr>next_valid_order_id := next_valid_order_id c + 1\<rparr>,
      bindR (b_req_ids b) (\<lambda>_. Inr (next_valid_order_id c)))"

section \<open>Events of the terminal\<close>

definition process_next_valid_id :: "int \<Rightarrow> client \<Rightarrow> client" where
  "process_next_valid_id oid c =
     (let c1 = c\<lparr>next_valid_order_id := max (max (next_valid_order_id c) oid) 101\<rparr>
      in if account_ids c1 \<noteq> {} then c1\<lparr>mt5_connected := True\<rparr> else c1)"

definition process_managed_accounts :: "string list \<Rightarrow> client \<Rightarrow> client" where
  "process_managed_accounts accounts c =
     (let c1 = c\<lparr>account_ids := set accounts\<rparr>
      in if 0 \<le> next_valid_order_id c1 then c1\<lparr>mt5_connected := True\<rparr> else c1)"

text \<open>\<open>symbol\<close> is the symbol's name.\<close>

definition process_open_order :: "string \<Rightarrow> mt5_order \<Rightarrow> client \<Rightarrow> (client \<times> mt5_order) result" where
  "process_open_order symbol order c =
     (let order1 = order\<lparr>o_symbol := symbol,
            orderRef := (if orderRef order \<noteq> [] then rsplit_head (CHR '':'') (orderRef order)
                         else int_str (order_id order))\<rparr>
      in bindR (request_named ''OpenOrders'' c) (\<lambda>r.
        case r of
          Some q \<Rightarrow>
            (let c1 = c\<lparr>c_requests := result_append (rq_req_id q) (RowOrder order1) (c_requests c)\<rparr>
             in case dict_get (order_id_to_order_ref c1) (order_id order1) of
                  Some _ \<Rightarrow> Inr (c1, order1)
                | None \<Rightarrow>
                    Inr (c1\<lparr>order_id_to_order_ref :=
                           dict_set (order_id order1)
                             \<lparr>ref_account_id = o_account order1, ref_order_id = orderRef order1\<rparr>
                             (order_id_to_order_ref c1)\<rparr>, order1))
        | None \<Rightarrow>
            Inr (deliver (''openOrder-'' @ o_account order1)
                   (OpenOrderEvent (o_account order1) (rsplit_head (CHR '':'') (orderRef order1)) order1) c,
                 order1)))"

definition process_open_order_end :: "client \<Rightarrow> client result" where
  "process_open_order_end c =
     bindR (request_named ''OpenOrders'' c) (\<lambda>r.
       case r of Some q \<Rightarrow> end_request (rq_req_id q) True None c | None \<Rightarrow> Inr c)"

definition process_order_status :: "int \<Rightarrow> string \<Rightarrow> client \<Rightarrow> client" where
  "process_order_status oid status c =
     (case dict_get (order_id_to_order_ref c) oid of
        None \<Rightarrow> c
      | Some ref \<Rightarrow>
          deliver (''orderStatus-'' @ ref_account_id ref)
            (OrderStatusEvent (ref_account_id ref) (ref_order_id ref) status) c)"

text \<open>
  Executions and commissions are paired under the execution's id. An empty cache entry counts as
  absent. The \<^verbatim>\<open>pop\<close> after a delivery is applied to the entry itself, under a key it never has, so it
  removes nothing.
\<close>

definition exec_entry :: "string \<Rightarrow> client \<Rightarrow> exec_cache" where
  "exec_entry eid c =
     (case dict_get (exec_id_details c) eid of
        None \<Rightarrow> \<lparr>ec_execution = None, ec_order_ref = [], ec_commission = None\<rparr>
      | Some e \<Rightarrow> e)"

definition process_exec_details :: "execution \<Rightarrow> client \<Rightarrow> client" where
  "process_exec_details ex c =
     (let ref = rsplit_head (CHR '':'') (exec_order_id ex);
          cache = (exec_entry (execId ex) c)\<lparr>ec_execution := Some ex, ec_order_ref := ref\<rparr>;
          c1 = c\<lparr>exec_id_details := dict_set (execId ex) cache (exec_id_details c)\<rparr>
      in case ec_commission cache of
           None \<Rightarrow> c1
         | Some cr \<Rightarrow>
             deliver (''execDetails-'' @ acctNumber ex) (ExecDetailsEvent (acctNumber ex) ref ex cr) c1)"

definition process_commission_report :: "commission_report \<Rightarrow> client \<Rightarrow> client" where
  "process_commission_report cr c =
     (let cache = (exec_entry (cr_execId cr) c)\<lparr>ec_commission := Some cr\<rparr>;
          c1 = c\<lparr>exec_id_details := dict_set (cr_execId cr) cache (exec_id_details c)\<rparr>
      in case ec_execution cache of
           None \<Rightarrow> c1
         | Some ex \<Rightarrow>
             if acctNumber ex = [] then c1
             else deliver (''execDetails-'' @ acctNumber ex)
                    (ExecDetailsEvent (acctNumber ex) (ec_order_ref cache) ex cr) c1)"

definition process_account_summary :: "string \<Rightarrow> string \<Rightarrow> string \<Rightarrow> string \<Rightarrow> client \<Rightarrow> client" where
  "process_account_summary account tag value currency c =
     deliver (''accountSummary-'' @ account) (AccountSummaryEvent account tag value currency) c"

text \<open>
  \<^verbatim>\<open>process_position\<close> builds a position from four of its five required fields: with a request
  outstanding the construction raises.
\<close>

definition process_position :: "client \<Rightarrow> client result" where
  "process_position c =
     bindR (request_named ''OpenPositions'' c) (\<lambda>r.
       case r of Some _ \<Rightarrow> Inl TypeError | None \<Rightarrow> Inr c)"

definition process_position_end :: "client \<Rightarrow> client result" where
  "process_position_end c =
     bindR (request_named ''OpenPositions'' c) (\<lambda>r.
       case r of Some q \<Rightarrow> end_request (rq_req_id q) True None c | None \<Rightarrow> Inr c)"

section \<open>Rows\<close>

text \<open>\<^verbatim>\<open>d.get(k) or d.get(k2) or 0.0\<close> and the like: the first truthy value.\<close>

definition get_or :: "(string, json) dict \<Rightarrow> string list \<Rightarrow> json \<Rightarrow> json" where
  "get_or d ks dflt =
     (case find (\<lambda>k. case dict_get d k of Some v \<Rightarrow> jtruthy v | None \<Rightarrow> False) ks of
        Some k \<Rightarrow> the (dict_get d k)
      | None \<Rightarrow> dflt)"

definition row_to_order :: "string \<Rightarrow> (string, json) dict \<Rightarrow> mt5_order option result" where
  "row_to_order account d =
     bindR (py_int (get_or d [''ticket''] (JInt 0))) (\<lambda>ticket.
       if ticket = 0 then Inr None
       else
         bindR (py_float (get_or d [''volume_current'', ''volume''] (JFloat 0))) (\<lambda>vol.
         bindR (py_float (get_or d [''price_open'', ''price''] (JFloat 0))) (\<lambda>price.
         bindR (py_int (get_or d [''type''] (JInt 0))) (\<lambda>ty.
         bindR (py_int (get_or d [''type_time''] (JInt 0))) (\<lambda>tt.
         bindR (py_int (get_or d [''type_filling''] (JInt 0))) (\<lambda>tf.
         bindR (py_int (get_or d [''state''] (JInt 1))) (\<lambda>state.
           Inr (Some (mt5_order_default
             \<lparr>order_id := ticket, o_symbol := py_str (get_default d ''symbol'' (JStr [])), o_volume := vol,
              o_price := price, o_type := ty, o_type_time := tt, o_type_filling := tf, o_state := state,
              o_account := account\<rparr>)))))))))"

fun convert_order_rows :: "string \<Rightarrow> row list \<Rightarrow> mt5_order list result" where
  "convert_order_rows account [] = Inr []"
| "convert_order_rows account (r # rows) =
     (case r of
        RowDict d \<Rightarrow>
          bindR (row_to_order account d) (\<lambda>x.
          bindR (convert_order_rows account rows) (\<lambda>ys.
            Inr (case x of None \<Rightarrow> ys | Some y \<Rightarrow> y # ys)))
      | RowOrder ord \<Rightarrow>
          bindR (convert_order_rows account rows) (\<lambda>ys.
            Inr (if o_account ord = account \<or> o_account ord = [] then ord # ys else ys))
      | RowPosition _ \<Rightarrow> convert_order_rows account rows)"

definition get_open_orders ::
    "string \<Rightarrow> row list option result \<Rightarrow> bool \<Rightarrow> client \<Rightarrow> (client \<times> mt5_order list) result" where
  "get_open_orders account answer late c =
     bindR (request_rows ''OpenOrders'' answer late c) (\<lambda>(c1, rows).
       case rows of
         None \<Rightarrow> Inr (c1, [])
       | Some rs \<Rightarrow> bindR (convert_order_rows account rs) (\<lambda>orders. Inr (c1, orders)))"

text \<open>
  \<^verbatim>\<open>Decimal(str(v))\<close>. The decimal of a float is the one it prints as, not the one it is rounded from.
\<close>

definition repr_rat :: "rat \<Rightarrow> rat" where
  "repr_rat q =
     (if q = 0 then 0
      else (case shortest_digits 17 1 (floor_log10 \<bar>q\<bar>) \<bar>q\<bar> of (d, e) \<Rightarrow>
              (if q < 0 then - 1 else 1) * of_nat d * pow10 e))"

fun decimal_of :: "json \<Rightarrow> pyfloat result" where
  "decimal_of (JInt i) = Inr (Fin (of_int i))"
| "decimal_of (JFloat (Fin q)) = Inr (Fin (repr_rat q))"
| "decimal_of (JFloat x) = Inr x"
| "decimal_of (JStr s) =
     (case signed_body (lower (strip s)) of (neg, body) \<Rightarrow>
        if body = ''inf'' \<or> body = ''infinity'' then Inr (if neg then NegInf else PosInf)
        else if body = ''nan'' then Inr NaN
        else (case unsigned_decimal body of
                None \<Rightarrow> Inl GenericException
              | Some q \<Rightarrow> Inr (Fin (if neg then - q else q))))"
| "decimal_of _ = Inl GenericException"

definition jzero :: "json \<Rightarrow> bool" where
  "jzero v \<longleftrightarrow> v = JInt 0 \<or> v = JFloat 0 \<or> v = JBool False"

definition row_to_position :: "string \<Rightarrow> (string, json) dict \<Rightarrow> mt5_position option result" where
  "row_to_position account d =
     (if (case dict_get d ''login'' of None \<Rightarrow> False | Some l \<Rightarrow> l \<noteq> JNull \<and> py_str l \<noteq> account) then Inr None
      else
        (let symbol = get_default d ''symbol'' (JStr [])
         in if \<not> jtruthy symbol then Inr None
            else
              bindR (decimal_of (get_default d ''volume'' (JFloat 0))) (\<lambda>volume.
              bindR (py_float (get_default d ''price_open'' (JFloat 0))) (\<lambda>avg_cost.
              bindR (py_float (get_default d ''commission'' (JFloat 0))) (\<lambda>commission.
                Inr (Some \<lparr>pos_account_id = account, pos_symbol = py_str symbol,
                           pos_quantity = (if jzero (get_default d ''type'' (JInt 0)) then volume else fneg volume),
                           pos_avg_cost = avg_cost, pos_commission = commission\<rparr>))))))"

fun convert_position_rows :: "string \<Rightarrow> row list \<Rightarrow> mt5_position list result" where
  "convert_position_rows account [] = Inr []"
| "convert_position_rows account (r # rows) =
     (case r of
        RowDict d \<Rightarrow>
          bindR (row_to_position account d) (\<lambda>x.
          bindR (convert_position_rows account rows) (\<lambda>ys.
            Inr (case x of None \<Rightarrow> ys | Some y \<Rightarrow> y # ys)))
      | RowPosition p \<Rightarrow>
          bindR (convert_position_rows account rows) (\<lambda>ys.
            Inr (if pos_account_id p = account then p # ys else ys))
      | RowOrder _ \<Rightarrow> convert_position_rows account rows)"

text \<open>\<open>None\<close> when there is no position.\<close>

definition get_positions ::
    "string \<Rightarrow> row list option result \<Rightarrow> bool \<Rightarrow> client \<Rightarrow> (client \<times> mt5_position list option) result" where
  "get_positions account answer late c =
     bindR (request_rows ''OpenPositions'' answer late c) (\<lambda>(c1, rows).
       case rows of
         None \<Rightarrow> Inr (c1, None)
       | Some rs \<Rightarrow>
           bindR (convert_position_rows account rs) (\<lambda>ps.
             Inr (c1, if ps = [] then None else Some ps)))"

section \<open>Properties\<close>

lemma deliver_fields [simp]:
  "order_id_to_order_ref (deliver n e c) = order_id_to_order_ref c"
  "event_subscriptions (deliver n e c) = event_subscriptions c"
  "exec_id_details (deliver n e c) = exec_id_details c"
  "c_requests (deliver n e c) = c_requests c"
  by (simp_all add: deliver_def)

lemma delivered_deliver:
  "delivered (deliver n e c) = delivered c @ (if n \<in> set (event_subscriptions c) then [e] else [])"
  by (simp add: deliver_def)

lemma place_order_fields:
  assumes "place_order b order c = (c', order', reqs, res)"
  shows "c' = c\<lparr>order_id_to_order_ref :=
                dict_set (order_id order) (order_ref_of order) (order_id_to_order_ref c)\<rparr>"
    and "order' = tag_order_ref order"
  using assms by (auto simp: place_order_def Let_def split: send_method.splits)

lemma tag_round_trip:
  assumes "orderRef order \<noteq> []"
  shows "rsplit_head (CHR '':'') (orderRef (tag_order_ref order)) = orderRef order"
proof -
  have "\<not> is_digit (CHR '':'')" by (simp add: is_digit_def digit_val_def)
  then have "CHR '':'' \<notin> set (int_str (order_id order))" by (intro sep_notin_int_str) simp_all
  then show ?thesis using assms by (simp add: tag_order_ref_def rsplit_head_append)
qed

text \<open>
  C24: an order that was placed is found again by the terminal's events, whatever the bridge answered,
  for a reference without a colon: a status under its id goes to the handler of its account with the
  platform's own reference, and the open order that comes back with the tagged reference gets that
  reference back. The open order goes to the handler of its account if no query for open orders is
  registered. Once there was such a query (its request is never removed) no handler is called: the
  order is appended to that request's result. The table of references keeps what the order was placed with.
\<close>

theorem placed_order_events_return:
  assumes "place_order b order c = (c', order', reqs, res)"
    and "orderRef order \<noteq> []" and "CHR '':'' \<notin> set (orderRef order)"
    and "client_wf c"
  shows "delivered (process_order_status (order_id order) status c') = delivered c @
      (if ''orderStatus-'' @ o_account order \<in> set (event_subscriptions c)
       then [OrderStatusEvent (o_account order) (orderRef order) status] else []) \<and>
    (\<exists>c2 r. process_open_order (o_symbol order) order' c' = Inr (c2, order) \<and>
      order_id_to_order_ref c2 = order_id_to_order_ref c' \<and>
      dict_get (order_id_to_order_ref c2) (order_id order) =
        Some \<lparr>ref_account_id = o_account order, ref_order_id = orderRef order\<rparr> \<and>
      request_named ''OpenOrders'' c = Inr r \<and>
      (case r of
         None \<Rightarrow>
           c_requests c2 = c_requests c \<and>
           delivered c2 = delivered c @
             (if ''openOrder-'' @ o_account order \<in> set (event_subscriptions c)
              then [OpenOrderEvent (o_account order) (orderRef order) order] else [])
       | Some q \<Rightarrow>
           c_requests c2 = result_append (rq_req_id q) (RowOrder order) (c_requests c) \<and>
           delivered c2 = delivered c))"
proof -
  note f = place_order_fields [OF assms(1)]
  have ref: "order_ref_of order = \<lparr>ref_account_id = o_account order, ref_order_id = orderRef order\<rparr>"
    using assms(2,3) by (simp add: order_ref_of_def rsplit_head_none)
  have st: "delivered (process_order_status (order_id order) status c') = delivered c @
      (if ''orderStatus-'' @ o_account order \<in> set (event_subscriptions c)
       then [OrderStatusEvent (o_account order) (orderRef order) status] else [])"
    by (simp add: f(1) process_order_status_def ref dict_simps delivered_deliver)
  have restored: "order'\<lparr>o_symbol := o_symbol order, orderRef := orderRef order\<rparr> = order"
    by (simp add: f(2) tag_order_ref_def)
  have tag: "orderRef order' \<noteq> []" "rsplit_head (CHR '':'') (orderRef order') = orderRef order"
    using assms(2) tag_round_trip f(2) by (simp_all add: tag_order_ref_def)
  have table: "dict_get (order_id_to_order_ref c') (order_id order) =
      Some \<lparr>ref_account_id = o_account order, ref_order_id = orderRef order\<rparr>"
    by (simp add: f(1) ref dict_simps)
  obtain r where r: "request_named ''OpenOrders'' c = Inr r"
    using requests_get_total [of "c_requests c" None "Some (NStr ''OpenOrders'')"] assms(4)
    by (auto simp: client_wf_def request_named_def)
  then have named: "request_named ''OpenOrders'' c' = Inr r" by (simp add: f(1) request_named_def)
  have old: "delivered c' = delivered c" "c_requests c' = c_requests c" "event_subscriptions c' = event_subscriptions c"
    by (simp_all add: f(1))
  show ?thesis
  proof (cases r)
    case None
    then have "process_open_order (o_symbol order) order' c' =
        Inr (deliver (''openOrder-'' @ o_account order)
               (OpenOrderEvent (o_account order) (orderRef order) order) c', order)"
      using tag named restored assms(3) by (simp add: process_open_order_def Let_def rsplit_head_none)
    then show ?thesis using st table r None old by (simp add: delivered_deliver)
  next
    case (Some q)
    then have "process_open_order (o_symbol order) order' c' =
        Inr (c'\<lparr>c_requests := result_append (rq_req_id q) (RowOrder order) (c_requests c')\<rparr>, order)"
      using tag named restored table by (simp add: process_open_order_def Let_def)
    then show ?thesis using st table r Some old by simp
  qed
qed

lemma placed_order_events_return_witness:
  "let order = mt5_order_default\<lparr>order_id := 7, orderRef := ''O-1'', o_account := ''55''\<rparr>;
       c = subscribe_event ''openOrder-55'' (subscribe_event ''orderStatus-55'' client_init);
       c' = fst (place_order \<lparr>b_order_send = NoSend, b_req_ids = Inr ()\<rparr> order c)
   in delivered (process_order_status 7 ''Filled'' c') = [OrderStatusEvent ''55'' ''O-1'' ''Filled''] \<and>
      (\<exists>c2. process_open_order [] (tag_order_ref order) c' = Inr (c2, order) \<and>
            delivered c2 = [OpenOrderEvent ''55'' ''O-1'' order])"
proof -
  define order where "order = mt5_order_default\<lparr>order_id := 7, orderRef := ''O-1'', o_account := ''55''\<rparr>"
  define c where "c = subscribe_event ''openOrder-55'' (subscribe_event ''orderStatus-55'' client_init)"
  obtain c' o' rq rs where p: "place_order \<lparr>b_order_send = NoSend, b_req_ids = Inr ()\<rparr> order c = (c', o', rq, rs)"
    by (metis surj_pair)
  have wf: "client_wf c" using client_init_wf by (simp add: c_def subscribe_event_def client_wf_def)
  have none: "request_named ''OpenOrders'' c = Inr None"
    by (simp add: c_def subscribe_event_def client_init_def request_named_def requests_get_def
        present_name_def resolve_id_def name_to_req_id_def requests_empty_def)
  have o': "o' = tag_order_ref order" using place_order_fields [OF p] by simp
  have sym: "o_symbol order = []" by (simp add: order_def mt5_order_default_def)
  have "delivered (process_order_status 7 ''Filled'' c') = [OrderStatusEvent ''55'' ''O-1'' ''Filled''] \<and>
      (\<exists>c2. process_open_order [] (tag_order_ref order) c' = Inr (c2, order) \<and>
            delivered c2 = [OpenOrderEvent ''55'' ''O-1'' order])"
    using placed_order_events_return [OF p _ _ wf, of "''Filled''"] none sym
    by (auto simp: o' order_def c_def subscribe_event_def client_init_def)
  then show ?thesis using p by (simp add: order_def c_def Let_def)
qed

text \<open>
  An execution and its commission report, in either order of arrival, call the handler of the
  account once, with both; but nothing is forgotten afterwards, so the same execution reported again
  is delivered again.
\<close>

theorem executions_are_paired:
  assumes "dict_get (exec_id_details c) (execId ex) = None" and "cr_execId cr = execId ex"
    and "acctNumber ex \<noteq> []" and "''execDetails-'' @ acctNumber ex \<in> set (event_subscriptions c)"
  shows "let ev = ExecDetailsEvent (acctNumber ex) (rsplit_head (CHR '':'') (exec_order_id ex)) ex cr;
             c1 = process_commission_report cr (process_exec_details ex c)
         in delivered c1 = delivered c @ [ev] \<and>
            delivered (process_exec_details ex (process_commission_report cr c)) = delivered c @ [ev] \<and>
            delivered (process_exec_details ex c1) = delivered c @ [ev, ev]"
  using assms
  by (simp add: process_commission_report_def process_exec_details_def exec_entry_def Let_def
      dict_simps delivered_deliver)

definition exec_example :: execution where
  "exec_example = \<lparr>execId = ''e1'', exec_order_id = ''O-1:7'', acctNumber = ''55'', exec_side = 0,
                   exec_quantity = 1, exec_price = 1\<rparr>"

lemma executions_are_paired_witness:
  "delivered (process_exec_details exec_example
     (process_commission_report \<lparr>cr_execId = ''e1'', cr_commission = 0, cr_currency = ''USD''\<rparr>
        (subscribe_event ''execDetails-55'' client_init)))
   = [ExecDetailsEvent ''55'' ''O-1'' exec_example \<lparr>cr_execId = ''e1'', cr_commission = 0, cr_currency = ''USD''\<rparr>]"
  using executions_are_paired [of "subscribe_event ''execDetails-55'' client_init" exec_example
      "\<lparr>cr_execId = ''e1'', cr_commission = 0, cr_currency = ''USD''\<rparr>"]
  by (simp add: exec_example_def subscribe_event_def client_init_def Let_def rsplit_head_def)

lemma row_to_order_fields:
  "row_to_order account d = Inr (Some ord) \<Longrightarrow>
   order_id ord \<noteq> 0 \<and> orderRef ord = [] \<and> o_volume_filled ord = 0 \<and> o_trigger_price ord = 0 \<and>
   o_account ord = account"
  by (auto simp: row_to_order_def bindR_eq_Inr mt5_order_default_def split: if_splits)

lemma row_to_position_account: "row_to_position account d = Inr (Some p) \<Longrightarrow> pos_account_id p = account"
  by (auto simp: row_to_position_def Let_def bindR_eq_Inr split: option.splits if_splits)

lemma convert_position_rows_in:
  "convert_position_rows account rows = Inr ps \<Longrightarrow> p \<in> set ps \<Longrightarrow>
   pos_account_id p = account \<and>
   (RowPosition p \<in> set rows \<or> (\<exists>d. RowDict d \<in> set rows \<and> row_to_position account d = Inr (Some p)))"
proof (induction rows arbitrary: ps)
  case (Cons r rows)
  show ?case
  proof (cases r)
    case (RowDict d)
    then obtain x ys where x: "row_to_position account d = Inr x" and ys: "convert_position_rows account rows = Inr ys"
      and ps: "ps = (case x of None \<Rightarrow> ys | Some y \<Rightarrow> y # ys)"
      using Cons.prems(1) by (auto simp: bindR_eq_Inr)
    consider "x = Some p" | "p \<in> set ys" using ps Cons.prems(2) by (cases x) auto
    then show ?thesis
    proof cases
      case 1
      then show ?thesis using x RowDict row_to_position_account by auto
    next
      case 2
      then show ?thesis using Cons.IH [OF ys 2] by auto
    qed
  next
    case (RowPosition q)
    then obtain ys where ys: "convert_position_rows account rows = Inr ys"
      and ps: "ps = (if pos_account_id q = account then q # ys else ys)"
      using Cons.prems(1) by (auto simp: bindR_eq_Inr)
    consider "p = q" "pos_account_id q = account" | "p \<in> set ys"
      using ps Cons.prems(2) by (auto split: if_splits)
    then show ?thesis using Cons.IH [OF ys] RowPosition by cases auto
  next
    case (RowOrder q)
    then show ?thesis using Cons.IH Cons.prems by auto
  qed
qed simp

text \<open>
  Every order of a query that came as a dictionary has a ticket and the asked account, and has
  lost its client reference, its filled volume and its trigger price; every order that came as an
  object is passed on as it is when its account is the one asked for or empty.
\<close>

theorem open_orders_conversion:
  assumes "convert_order_rows account rows = Inr orders" and "ord \<in> set orders"
  shows "RowOrder ord \<in> set rows \<and> (o_account ord = account \<or> o_account ord = []) \<or>
         (\<exists>d. RowDict d \<in> set rows \<and> row_to_order account d = Inr (Some ord)) \<and>
         order_id ord \<noteq> 0 \<and> o_account ord = account \<and>
         orderRef ord = [] \<and> o_volume_filled ord = 0 \<and> o_trigger_price ord = 0"
  using assms
proof (induction rows arbitrary: orders)
  case (Cons r rows)
  show ?case
  proof (cases r)
    case (RowDict d)
    then obtain x ys where x: "row_to_order account d = Inr x" and ys: "convert_order_rows account rows = Inr ys"
      and orders: "orders = (case x of None \<Rightarrow> ys | Some y \<Rightarrow> y # ys)"
      using Cons.prems(1) by (auto simp: bindR_eq_Inr)
    consider "x = Some ord" | "ord \<in> set ys" using orders Cons.prems(2) by (cases x) auto
    then show ?thesis
    proof cases
      case 1
      then show ?thesis using x RowDict row_to_order_fields [of account d ord] by auto
    next
      case 2
      then show ?thesis using Cons.IH [OF ys 2] by auto
    qed
  next
    case (RowOrder q)
    then obtain ys where ys: "convert_order_rows account rows = Inr ys"
      and orders: "orders = (if o_account q = account \<or> o_account q = [] then q # ys else ys)"
      using Cons.prems(1) by (auto simp: bindR_eq_Inr)
    consider "ord = q" "o_account q = account \<or> o_account q = []" | "ord \<in> set ys"
      using orders Cons.prems(2) by (auto split: if_splits)
    then show ?thesis using Cons.IH [OF ys] RowOrder by cases auto
  next
    case (RowPosition q)
    then show ?thesis using Cons.IH Cons.prems by auto
  qed
qed simp

lemma open_orders_conversion_witness:
  "\<exists>ord. convert_order_rows ''55'' [RowDict [(''ticket'', JInt 9), (''type'', JInt 2)]] = Inr [ord] \<and>
         order_id ord \<noteq> 0 \<and> orderRef ord = []"
proof -
  obtain ord where conv: "convert_order_rows ''55'' [RowDict [(''ticket'', JInt 9), (''type'', JInt 2)]] = Inr [ord]"
    by (simp add: row_to_order_def get_or_def get_default_def)
  then show ?thesis using open_orders_conversion [OF conv, of ord] by auto
qed

text \<open>
  Every position of a query belongs to the asked account, and one that came as a dictionary has
  the sign of its type: the volume of a buy, the negated volume of anything else.
\<close>

theorem positions_conversion:
  assumes "convert_position_rows account rows = Inr ps" and "p \<in> set ps"
  shows "pos_account_id p = account \<and>
    (RowPosition p \<in> set rows \<or>
     (\<exists>d v. RowDict d \<in> set rows \<and> decimal_of (get_default d ''volume'' (JFloat 0)) = Inr v \<and>
            pos_quantity p = (if jzero (get_default d ''type'' (JInt 0)) then v else fneg v) \<and>
            (dict_get d ''login'' = None \<or> dict_get d ''login'' = Some JNull \<or>
             map_option py_str (dict_get d ''login'') = Some account)))"
proof -
  have "pos_quantity p = (if jzero (get_default d ''type'' (JInt 0)) then v else fneg v) \<and>
      (dict_get d ''login'' = None \<or> dict_get d ''login'' = Some JNull \<or>
       map_option py_str (dict_get d ''login'') = Some account)"
    if "row_to_position account d = Inr (Some p)" "decimal_of (get_default d ''volume'' (JFloat 0)) = Inr v" for d v
    using that by (auto simp: row_to_position_def Let_def bindR_eq_Inr split: option.splits if_splits)
  moreover have "\<exists>v. decimal_of (get_default d ''volume'' (JFloat 0)) = Inr v"
    if "row_to_position account d = Inr (Some p)" for d
    using that by (auto simp: row_to_position_def Let_def bindR_eq_Inr split: option.splits if_splits)
  ultimately show ?thesis using convert_position_rows_in [OF assms] by blast
qed

lemma positions_conversion_witness:
  "\<exists>p. convert_position_rows ''55'' [RowDict [(''symbol'', JStr ''EURUSD''), (''type'', JInt 1), (''volume'', JInt 2)]] = Inr [p] \<and>
       pos_quantity p = Fin (- 2)"
proof -
  obtain p where p: "convert_position_rows ''55'' [RowDict [(''symbol'', JStr ''EURUSD''), (''type'', JInt 1), (''volume'', JInt 2)]] = Inr [p]"
    by (simp add: row_to_position_def get_default_def)
  then show ?thesis using positions_conversion [OF p, of p]
    by (simp add: get_default_def jzero_def)
qed

text \<open>Positions reported one by one cannot be received while a query is outstanding.\<close>

lemma process_position_raises:
  "request_named ''OpenPositions'' c = Inr (Some q) \<Longrightarrow> process_position c = Inl TypeError"
  by (simp add: process_position_def)

end
