(* ===== verification/Exec_Client.thy ===== *)
theory Exec_Client
  imports Client_Orders
begin

text \<open>
  Orders in the execution client (\<^verbatim>\<open>nautilus_mt5/execution.py\<close>): translating an order into the
  terminal's, submitting, modifying and cancelling it, the events generated for the platform, and what
  the client does when it is stopped.

  Orders, instruments and the cache belong to the platform: an order is a record of the attributes the
  code reads, an instrument the functions it calls, and the cache a function from ids. Events are
  delivered by the platform after the handler returns, so an order's status does not change while one
  runs; they are returned in the order they are generated. Every operation also returns the requests
  it wrote to the terminal and the exception that leaves it, if any.
\<close>

section \<open>What the platform provides\<close>

record n_order =
  no_strategy_id :: string
  no_instrument_id :: string
  no_client_order_id :: string
  no_venue_order_id :: "string option"
  no_side :: order_side
  no_type :: order_type
  no_tif :: time_in_force
  no_quantity :: pyfloat
  no_price :: "pyfloat option"
  no_trigger_price :: "pyfloat option"
  no_status :: order_status

text \<open>\<open>ni_symbol\<close> is \<^verbatim>\<open>info["symbol"]["symbol"]\<close>, which may be missing.\<close>

record n_instrument =
  ni_id :: string
  ni_symbol :: "string result"
  ni_make_qty :: "json \<Rightarrow> pyfloat result"
  ni_make_price :: "json \<Rightarrow> pyfloat result"
  ni_quote_currency :: string

record fill_event =
  fe_client_order_id :: string
  fe_venue_order_id :: string
  fe_trade_id :: string
  fe_side :: order_side
  fe_type :: order_type
  fe_last_qty :: pyfloat
  fe_last_px :: pyfloat
  fe_commission :: pyfloat
  fe_currency :: string

datatype exec_event =
    OrderSubmitted string
  | OrderAccepted string string
  | OrderCanceled string "string option"
  | OrderRejected string json
  | OrderUpdated string string pyfloat "pyfloat option" "pyfloat option" bool
  | OrderFilled fill_event

text \<open>A row of \<^verbatim>\<open>positions_get\<close> as the bridge returns it: a dictionary, or an object with attributes.\<close>

datatype raw_position = PosDict "(string, json) dict" | PosObj "(string, json) dict"

record exec_env =
  ee_account :: string
  ee_instrument :: "string \<Rightarrow> n_instrument option"
  ee_order :: "string \<Rightarrow> n_order option"
  ee_orders_open :: "n_order list"
  ee_bridge :: bridge
  ee_positions :: "string \<Rightarrow> raw_position list result"

type_synonym outcome = "client \<times> exec_event list \<times> mt5_request list \<times> unit result"

section \<open>Events\<close>

definition handle_order_event :: "order_status \<Rightarrow> n_order \<Rightarrow> string \<Rightarrow> json \<Rightarrow> exec_event list" where
  "handle_order_event status order oid reason =
     (let coid = no_client_order_id order in
      if status = SUBMITTED then [OrderSubmitted coid]
      else if status = ACCEPTED then (if no_status order \<noteq> ACCEPTED then [OrderAccepted coid oid] else [])
      else if status = CANCELED then
        (if no_status order \<noteq> CANCELED then [OrderCanceled coid (no_venue_order_id order)] else [])
      else if status = REJECTED then (if no_status order \<noteq> REJECTED then [OrderRejected coid reason] else [])
      else [])"

fun exc_text :: "py_exc \<Rightarrow> string" where
  "exc_text (ValueError s) = s"
| "exc_text _ = []"

section \<open>Translation\<close>

definition float_or_zero :: "pyfloat option \<Rightarrow> pyfloat" where
  "float_or_zero v = (case v of None \<Rightarrow> 0 | Some x \<Rightarrow> x)"

definition transform_order_to_mt5_order :: "string \<Rightarrow> n_order \<Rightarrow> n_instrument \<Rightarrow> mt5_order result" where
  "transform_order_to_mt5_order account order ins =
     bindR (ni_symbol ins) (\<lambda>symbol.
     bindR (map_order_type_and_action (no_type order) (no_side order)) (\<lambda>(action, ty).
       let m = mt5_order_default
             \<lparr>orderRef := no_client_order_id order, o_account := account, o_symbol := symbol,
              o_volume := no_quantity order, o_action := action, o_type := ty\<rparr>;
           m1 = (if no_type order = STOP_MARKET then m\<lparr>o_price := float_or_zero (no_trigger_price order)\<rparr>
                 else if no_type order = STOP_LIMIT then
                   m\<lparr>o_price := float_or_zero (no_trigger_price order),
                     o_trigger_price := float_or_zero (no_price order)\<rparr>
                 else m\<lparr>o_price := float_or_zero (no_price order)\<rparr>)
       in Inr (m1\<lparr>o_type_filling := map_filling_type (no_tif order),
                  o_type_time := (case dict_get map_time_in_force (no_tif order) of
                                    None \<Rightarrow> ORDER_TIME_GTC | Some t \<Rightarrow> t),
                  o_magic := 0, o_comment := ''NautilusOrder''\<rparr>)))"

section \<open>Submitting\<close>

text \<open>
  The tickets of open long positions. A row that cannot be read raises, and the code then submits the
  order without a ticket.
\<close>

definition long_ticket :: "raw_position \<Rightarrow> int option result" where
  "long_ticket pos =
     (case pos of
        PosDict d \<Rightarrow>
          bindR (py_int (get_default d ''ticket'' (JInt 0))) (\<lambda>ticket.
            Inr (if ticket \<noteq> 0 \<and> jzero (get_default d ''type'' (JInt (- 1))) then Some ticket else None))
      | PosObj a \<Rightarrow>
          bindR (py_int (get_default a ''type'' (JInt (- 1)))) (\<lambda>ty.
          bindR (py_int (get_default a ''ticket'' (JInt 0))) (\<lambda>ticket.
            Inr (if ticket \<noteq> 0 \<and> ty = 0 then Some ticket else None))))"

definition buy_tickets :: "raw_position list \<Rightarrow> int list result" where
  "buy_tickets ps = bindR (traverse long_ticket ps) (\<lambda>ts. Inr (map the (filter (\<lambda>t. t \<noteq> None) ts)))"

definition hedge_ticket :: "order_side \<Rightarrow> raw_position list result \<Rightarrow> int option" where
  "hedge_ticket side answer =
     (if side = SELL then
        (case bindR answer buy_tickets of Inr [t] \<Rightarrow> Some t | _ \<Rightarrow> None)
      else None)"

definition jint_eq :: "json \<Rightarrow> int \<Rightarrow> bool" where
  "jint_eq v n \<longleftrightarrow> v = JInt n \<or> v = JFloat (Fin (of_int n))"

definition fill_of_result :: "n_instrument \<Rightarrow> n_order \<Rightarrow> json \<Rightarrow> (string, json) dict \<Rightarrow> fill_event result" where
  "fill_of_result ins order voi d =
     bindR (ni_make_qty ins (get_default d ''volume'' (JFloat 0))) (\<lambda>qty.
     bindR (ni_make_price ins (get_default d ''price'' (JFloat 0))) (\<lambda>px.
       Inr \<lparr>fe_client_order_id = no_client_order_id order, fe_venue_order_id = py_str voi,
            fe_trade_id = py_str (get_default d ''deal'' (JInt 0)), fe_side = no_side order,
            fe_type = no_type order, fe_last_qty = qty, fe_last_px = px, fe_commission = 0,
            fe_currency = ni_quote_currency ins\<rparr>))"

text \<open>The events for the answer of the terminal, and the exception that making the fill may raise.\<close>

definition interpret_result :: "n_instrument \<Rightarrow> n_order \<Rightarrow> json \<Rightarrow> exec_event list \<times> unit result" where
  "interpret_result ins order res =
     (case res of
        JObj d \<Rightarrow>
          (let retcode = get_default d ''retcode'' (JInt 0) in
           if jint_eq retcode TRADE_RETCODE_DONE \<or> jint_eq retcode TRADE_RETCODE_PLACED then
             (let voi = get_default d ''order'' (JInt 0);
                  accepted = handle_order_event ACCEPTED order (py_str voi) (JStr [])
              in if jint_eq retcode TRADE_RETCODE_DONE \<and> jtruthy (get_default d ''deal'' (JInt 0)) \<and>
                    jtruthy (get_default d ''price'' (JFloat 0)) \<and> jtruthy (get_default d ''volume'' (JFloat 0))
                 then (case fill_of_result ins order voi d of
                         Inr f \<Rightarrow> (accepted @ [OrderFilled f], Inr ())
                       | Inl e \<Rightarrow> (accepted, Inl e))
                 else (accepted, Inr ()))
           else if \<not> jzero retcode then
             (handle_order_event REJECTED order []
                (get_default d ''comment'' (JStr (''MT5 retcode: '' @ py_str retcode))), Inr ())
           else ([], Inr ()))
      | _ \<Rightarrow> ([], Inr ()))"

definition submit_body :: "exec_env \<Rightarrow> n_order \<Rightarrow> client \<Rightarrow> outcome" where
  "submit_body env order c =
     (case validate_order_pre_venue (no_type order) (no_tif order) of
        Inl e \<Rightarrow> (c, [], [], Inl e)
      | Inr _ \<Rightarrow>
     (case ee_instrument env (no_instrument_id order) of
        None \<Rightarrow> (c, [], [], Inl AttributeError)
      | Some ins \<Rightarrow>
     (case transform_order_to_mt5_order (ee_account env) order ins of
        Inl e \<Rightarrow> (c, [], [], Inl e)
      | Inr m \<Rightarrow>
     (case next_order_id (ee_bridge env) c of
        (c1, Inl e) \<Rightarrow> (c1, [], [], Inl e)
      | (c1, Inr oid) \<Rightarrow>
          (let m1 = m\<lparr>order_id := oid\<rparr>;
               m2 = (case hedge_ticket (no_side order) (ee_positions env (o_symbol m)) of
                       None \<Rightarrow> m1 | Some t \<Rightarrow> m1\<lparr>o_position_ticket := Some t\<rparr>)
           in case place_order (ee_bridge env) m2 c1 of
                (c2, _, reqs, Inl e) \<Rightarrow> (c2, [], reqs, Inl e)
              | (c2, _, reqs, Inr res) \<Rightarrow>
                  (case interpret_result ins order res of
                     (evs, r) \<Rightarrow> (c2, handle_order_event SUBMITTED order [] (JStr []) @ evs, reqs, r)))))))"

definition submit_order :: "exec_env \<Rightarrow> n_order \<Rightarrow> client \<Rightarrow> outcome" where
  "submit_order env order c =
     (case submit_body env order c of
        (c1, evs, reqs, Inl e) \<Rightarrow>
          if is_value_error e
          then (c1, evs @ handle_order_event REJECTED order [] (JStr (exc_text e)), reqs, Inr ())
          else (c1, evs, reqs, Inl e)
      | done \<Rightarrow> done)"

definition order_list_reason :: string where
  "order_list_reason =
     ''MT5 adapter does not support order lists (bracket/OTO/OCO). Use emulation_trigger on child orders for SL/TP emulation via NT OrderEmulator.''"

definition submit_order_list :: "n_order list \<Rightarrow> exec_event list" where
  "submit_order_list orders =
     concat (map (\<lambda>order. handle_order_event REJECTED order [] (JStr order_list_reason)) orders)"

section \<open>Modifying and cancelling\<close>

record modify_command =
  mc_client_order_id :: string
  mc_venue_order_id :: "string option"
  mc_quantity :: "pyfloat option"
  mc_price :: "pyfloat option"
  mc_trigger_price :: "pyfloat option"

text \<open>\<open>truthy\<close> is the truth of a quantity or price of the platform.\<close>

definition given :: "(pyfloat \<Rightarrow> bool) \<Rightarrow> pyfloat option \<Rightarrow> bool" where
  "given truthy v = (case v of None \<Rightarrow> False | Some x \<Rightarrow> truthy x)"

definition apply_changes :: "(pyfloat \<Rightarrow> bool) \<Rightarrow> modify_command \<Rightarrow> order_type \<Rightarrow> mt5_order \<Rightarrow> mt5_order" where
  "apply_changes truthy cmd ot m =
     (let m1 = (if given truthy (mc_quantity cmd) then m\<lparr>o_volume := the (mc_quantity cmd)\<rparr> else m);
          m2 = (if given truthy (mc_price cmd) then m1\<lparr>o_price := the (mc_price cmd)\<rparr> else m1)
      in if given truthy (mc_trigger_price cmd) then
           (if ot = STOP_MARKET \<or> ot = STOP_LIMIT then m2\<lparr>o_price := the (mc_trigger_price cmd)\<rparr>
            else m2\<lparr>o_trigger_price := the (mc_trigger_price cmd)\<rparr>)
         else m2)"

text \<open>
  A translation that fails is reported on \<^verbatim>\<open>command.order\<close>, which a modify command does not have, so
  that branch ends in \<^verbatim>\<open>AttributeError\<close>. No exception is caught.
\<close>

definition exec_modify_order ::
    "(pyfloat \<Rightarrow> bool) \<Rightarrow> exec_env \<Rightarrow> modify_command \<Rightarrow> mt5_request list \<times> unit result" where
  "exec_modify_order truthy env cmd =
     (if \<not> (given truthy (mc_quantity cmd) \<or> given truthy (mc_price cmd) \<or> given truthy (mc_trigger_price cmd))
      then ([], Inr ())
      else
        (case ee_order env (mc_client_order_id cmd) of
           None \<Rightarrow> ([], Inl AttributeError)
         | Some order \<Rightarrow>
        (case ee_instrument env (no_instrument_id order) of
           None \<Rightarrow> ([], Inl AttributeError)
         | Some ins \<Rightarrow>
        (case transform_order_to_mt5_order (ee_account env) order ins of
           Inl e \<Rightarrow> ([], Inl (if is_value_error e then AttributeError else e))
         | Inr m \<Rightarrow>
        (case mc_venue_order_id cmd of
           None \<Rightarrow> ([], Inl AttributeError)
         | Some v \<Rightarrow>
        (case int_of_str v of
           Inl e \<Rightarrow> ([], Inl e)
         | Inr oid \<Rightarrow>
             (case modify_order (ee_bridge env) (apply_changes truthy cmd (no_type order) (m\<lparr>order_id := oid\<rparr>)) of
                (reqs, Inl e) \<Rightarrow> (reqs, Inl e)
              | (reqs, Inr _) \<Rightarrow> (reqs, Inr ()))))))))"

definition exec_cancel_order :: "exec_env \<Rightarrow> string option \<Rightarrow> mt5_request list \<times> unit result" where
  "exec_cancel_order env venue_order_id =
     (case venue_order_id of
        None \<Rightarrow> ([], Inr ())
      | Some v \<Rightarrow>
          (case int_of_str v of
             Inl e \<Rightarrow> ([], Inl e)
           | Inr oid \<Rightarrow>
               (case cancel_order (ee_bridge env) oid of
                  (reqs, Inl e) \<Rightarrow> (reqs, Inl e)
                | (reqs, Inr _) \<Rightarrow> (reqs, Inr ()))))"

text \<open>Cancelling several: the first exception ends the loop.\<close>

fun cancel_each :: "exec_env \<Rightarrow> string option list \<Rightarrow> mt5_request list \<times> unit result" where
  "cancel_each env [] = ([], Inr ())"
| "cancel_each env (v # vs) =
     (case exec_cancel_order env v of
        (reqs, Inl e) \<Rightarrow> (reqs, Inl e)
      | (reqs, Inr _) \<Rightarrow> (case cancel_each env vs of (reqs2, r) \<Rightarrow> (reqs @ reqs2, r)))"

definition exec_cancel_all_orders :: "exec_env \<Rightarrow> string \<Rightarrow> mt5_request list \<times> unit result" where
  "exec_cancel_all_orders env instrument_id =
     cancel_each env
       (map no_venue_order_id (filter (\<lambda>ord. no_instrument_id ord = instrument_id) (ee_orders_open env)))"

definition exec_batch_cancel_orders :: "exec_env \<Rightarrow> string option list \<Rightarrow> mt5_request list \<times> unit result" where
  "exec_batch_cancel_orders env cancels = cancel_each env cancels"

section \<open>Stopping\<close>

text \<open>On stop every open order is cancelled on its own; an exception is logged and the loop goes on.\<close>

fun cancel_on_stop :: "exec_env \<Rightarrow> n_order list \<Rightarrow> mt5_request list" where
  "cancel_on_stop env [] = []"
| "cancel_on_stop env (order # rest) = fst (exec_cancel_order env (no_venue_order_id order)) @ cancel_on_stop env rest"

definition close_request :: "int \<Rightarrow> int \<Rightarrow> json \<Rightarrow> pyfloat \<Rightarrow> mt5_request" where
  "close_request ticket pos_type symbol vol =
     [(''action'', JInt 1), (''symbol'', symbol), (''volume'', JFloat vol),
      (''type'', JInt (if pos_type = 0 then 1 else 0)), (''position'', JInt ticket),
      (''deviation'', JInt 20), (''magic'', JInt 234000), (''comment'', JStr ''close on stop''),
      (''type_filling'', JInt 1)]"

definition close_one :: "raw_position \<Rightarrow> mt5_request option result" where
  "close_one pos =
     (let d = (case pos of PosDict d \<Rightarrow> d | PosObj a \<Rightarrow> a) in
      bindR (py_int (get_default d ''ticket'' (JInt 0))) (\<lambda>ticket.
      bindR (py_int (get_default d ''type'' (JInt (- 1)))) (\<lambda>ty.
      bindR (py_float (get_default d ''volume'' (JFloat 0))) (\<lambda>vol.
        let symbol = get_default d ''symbol'' (JStr [])
        in if ticket = 0 \<or> \<not> jtruthy symbol \<or> vol \<le> 0 then Inr None
           else Inr (Some (close_request ticket ty symbol vol))))))"

text \<open>
  A row that cannot be read ends the loop (the outer handler logs it); a request the bridge refuses
  does not. \<open>usable\<close> says that there is a bridge and that it has \<^verbatim>\<open>positions_get\<close> and \<^verbatim>\<open>order_send\<close>;
  \<open>answer\<close> is what the former returned.
\<close>

fun close_loop :: "raw_position list \<Rightarrow> mt5_request list" where
  "close_loop [] = []"
| "close_loop (pos # rest) =
     (case close_one pos of
        Inl _ \<Rightarrow> []
      | Inr None \<Rightarrow> close_loop rest
      | Inr (Some req) \<Rightarrow> req # close_loop rest)"

definition close_all_positions_on_stop :: "bool \<Rightarrow> raw_position list result \<Rightarrow> mt5_request list" where
  "close_all_positions_on_stop usable answer =
     (if \<not> usable then [] else case answer of Inl _ \<Rightarrow> [] | Inr ps \<Rightarrow> close_loop ps)"

section \<open>Status callbacks\<close>

definition status_of_text :: "string \<Rightarrow> order_status option" where
  "status_of_text s =
     (if s = ''ApiCancelled'' \<or> s = ''Cancelled'' then Some CANCELED
      else if s = ''PendingCancel'' then Some PENDING_CANCEL
      else if s = ''Rejected'' then Some REJECTED
      else if s = ''Filled'' then Some FILLED
      else None)"

definition on_order_status :: "exec_env \<Rightarrow> string \<Rightarrow> string \<Rightarrow> string \<Rightarrow> exec_event list" where
  "on_order_status env order_ref order_status reason =
     (case status_of_text order_status of
        None \<Rightarrow> []
      | Some st \<Rightarrow>
          (case ee_order env order_ref of
             None \<Rightarrow> []
           | Some order \<Rightarrow> handle_order_event st order ''None'' (JStr reason)))"

section \<open>Properties\<close>

text \<open>The requests of a submission: at most one, and none before the order is known to be supported.\<close>

lemma place_order_requests:
  "place_order b m c = (c', m', reqs, res) \<Longrightarrow>
   reqs = (case b_order_send b of NativeSend _ \<Rightarrow> [place_request (tag_order_ref m)] | _ \<Rightarrow> [])"
  by (auto simp: place_order_def Let_def split: send_method.splits)

text \<open>
  An order whose type or time in force is not supported is rejected, with the reason of the
  check, before the terminal is asked anything: no request is written, the client is untouched and no
  exception leaves the handler.
\<close>

theorem unsupported_order_rejected:
  assumes "no_type order \<notin> supported_order_types \<or> no_tif order \<notin> supported_time_in_force"
    and "no_status order \<noteq> REJECTED"
  shows "\<exists>reason. validate_order_pre_venue (no_type order) (no_tif order) = Inl (ValueError reason) \<and>
    submit_order env order c = (c, [OrderRejected (no_client_order_id order) (JStr reason)], [], Inr ())"
proof -
  obtain reason where v: "validate_order_pre_venue (no_type order) (no_tif order) = Inl (ValueError reason)"
    using assms(1)
    by (cases "no_type order \<in> supported_order_types") (auto simp: validate_order_pre_venue_def)
  then show ?thesis
    using assms(2) by (simp add: submit_order_def submit_body_def handle_order_event_def)
qed

definition order_example :: n_order where
  "order_example =
     \<lparr>no_strategy_id = ''S'', no_instrument_id = ''EURUSD'', no_client_order_id = ''O-1'',
      no_venue_order_id = None, no_side = BUY, no_type = MARKET, no_tif = GTC, no_quantity = 1,
      no_price = None, no_trigger_price = None, no_status = INITIALIZED\<rparr>"

definition instrument_example :: n_instrument where
  "instrument_example =
     \<lparr>ni_id = ''EURUSD'', ni_symbol = Inr ''EURUSD'', ni_make_qty = (\<lambda>_. Inr 1), ni_make_price = (\<lambda>_. Inr 1),
      ni_quote_currency = ''USD''\<rparr>"

definition env_example :: "json \<Rightarrow> raw_position list \<Rightarrow> n_order list \<Rightarrow> exec_env" where
  "env_example answer positions orders =
     \<lparr>ee_account = ''55'', ee_instrument = [''EURUSD'' \<mapsto> instrument_example],
      ee_order = map_of (map (\<lambda>ord. (no_client_order_id ord, ord)) orders), ee_orders_open = orders,
      ee_bridge = \<lparr>b_order_send = NativeSend (\<lambda>_. Inr answer), b_req_ids = Inr ()\<rparr>,
      ee_positions = (\<lambda>_. Inr positions)\<rparr>"

lemma unsupported_order_rejected_witness:
  "\<exists>reason. submit_order (env_example JNull [] []) (order_example\<lparr>no_tif := GTD\<rparr>) client_init =
     (client_init, [OrderRejected ''O-1'' (JStr reason)], [], Inr ())"
  using unsupported_order_rejected [of "order_example\<lparr>no_tif := GTD\<rparr>" "env_example JNull [] []" client_init]
  by (auto simp: order_example_def supported_time_in_force_def)

text \<open>The part of a submission that precedes the answer, for a supported order of a known instrument.\<close>

definition submitted_order :: "exec_env \<Rightarrow> n_order \<Rightarrow> n_instrument \<Rightarrow> mt5_order \<Rightarrow> int \<Rightarrow> mt5_order" where
  "submitted_order env order ins m oid =
     tag_order_ref (case hedge_ticket (no_side order) (ee_positions env (o_symbol m)) of
       None \<Rightarrow> m\<lparr>order_id := oid\<rparr> | Some t \<Rightarrow> m\<lparr>order_id := oid, o_position_ticket := Some t\<rparr>)"

lemma submit_supported:
  assumes "validate_order_pre_venue (no_type order) (no_tif order) = Inr ()"
    and "ee_instrument env (no_instrument_id order) = Some ins"
    and "transform_order_to_mt5_order (ee_account env) order ins = Inr m"
    and "b_req_ids (ee_bridge env) = Inr ()" and "b_order_send (ee_bridge env) = NativeSend send"
    and "send (place_request (submitted_order env order ins m (next_valid_order_id c))) = Inr res"
  shows "\<exists>c2. submit_body env order c =
    (c2, handle_order_event SUBMITTED order [] (JStr []) @ fst (interpret_result ins order res),
     [place_request (submitted_order env order ins m (next_valid_order_id c))],
     snd (interpret_result ins order res))"
  using assms
  by (auto simp: submit_body_def next_order_id_def place_order_def submitted_order_def Let_def
      split: option.splits prod.splits)

lemma transform_supported:
  assumes "no_type order \<in> supported_order_types" and "ni_symbol ins = Inr symbol"
  shows "\<exists>m. transform_order_to_mt5_order account order ins = Inr m"
  using assms map_order_type_total [of "no_type order" "no_side order"]
  by (auto simp: transform_order_to_mt5_order_def Let_def)



text \<open>
  An order that the terminal executes in part (return code 10010) is reported rejected, although
  part of it was traded.
\<close>

theorem partial_execution_reported_rejected:
  assumes "dict_get d ''retcode'' = Some (JInt TRADE_RETCODE_DONE_PARTIAL)" and "no_status order = INITIALIZED"
  shows "\<exists>reason. interpret_result ins order (JObj d) = ([OrderRejected (no_client_order_id order) reason], Inr ())"
  using assms
  by (simp add: interpret_result_def get_default_def jint_eq_def jzero_def mt5_constants handle_order_event_def Let_def)

lemma partial_execution_reported_rejected_witness:
  "\<exists>reason. interpret_result instrument_example order_example
     (JObj [(''retcode'', JInt 10010), (''deal'', JInt 5), (''volume'', JFloat (Fin (1/2)))]) =
     ([OrderRejected ''O-1'' reason], Inr ())"
  using partial_execution_reported_rejected
    [of "[(''retcode'', JInt 10010), (''deal'', JInt 5), (''volume'', JFloat (Fin (1/2)))]" order_example instrument_example]
  by (simp add: order_example_def mt5_constants)

lemma transform_fields:
  assumes "transform_order_to_mt5_order account order ins = Inr m"
  shows "\<exists>action symbol. map_order_type_and_action (no_type order) (no_side order) = Inr (action, o_type m) \<and>
    o_action m = action \<and> ni_symbol ins = Inr symbol \<and> o_symbol m = symbol \<and>
    orderRef m = no_client_order_id order \<and> o_account m = account \<and> o_volume m = no_quantity order \<and>
    o_price m = float_or_zero (if no_type order = STOP_MARKET \<or> no_type order = STOP_LIMIT
                               then no_trigger_price order else no_price order) \<and>
    o_trigger_price m = (if no_type order = STOP_LIMIT then float_or_zero (no_price order) else 0) \<and>
    o_type_filling m = map_filling_type (no_tif order)"
  using assms
  by (auto simp: transform_order_to_mt5_order_def mt5_order_default_def bindR_eq_Inr Let_def split: if_splits)

lemma place_request_gets:
  "dict_get (place_request m) ''type'' = Some (JInt (o_type m))"
  "dict_get (place_request m) ''price'' = Some (JFloat (o_price m))"
  "dict_get (place_request m) ''volume'' = Some (JFloat (o_volume m))"
  "dict_get (place_request m) ''symbol'' = Some (JStr (o_symbol m))"
  "dict_get (place_request m) ''type_filling'' = Some (JInt (o_type_filling m))"
  "dict_get (place_request m) ''position'' = Some (JInt (case o_position_ticket m of None \<Rightarrow> 0 | Some t \<Rightarrow> t))"
  "dict_get (place_request m) ''stoplimit'' =
     (if (o_type m = 6 \<or> o_type m = 7) \<and> ftruthy (o_trigger_price m) then Some (JFloat (o_trigger_price m)) else None)"
  by (simp_all add: place_request_def Let_def)

lemma map_order_type_back:
  assumes "map_order_type_and_action ot side = Inr (action, ty)" and "side \<noteq> NO_ORDER_SIDE"
  shows "dict_get mt5_order_type_to_order_type ty = Some ot \<and> dict_get mt5_order_type_to_order_side ty = Some side \<and>
         ((ty = 6 \<or> ty = 7) \<longleftrightarrow> ot = STOP_LIMIT)"
  using assms
  by (cases side)
     (auto simp: map_order_type_and_action_def mt5_order_types mt5_order_type_to_order_type_def
       mt5_order_type_to_order_side_def split: if_splits)

text \<open>
  C6: the request of an order carries its translation: action and type map back to the order's type
  and side, the price is the limit of a limit order, the trigger of a stop order, and of a stop-limit
  order the trigger, with the limit beside it as the stop limit; the volume is the order's, and the
  position is the ticket chosen for a hedge or zero.
\<close>

theorem request_translates_order:
  fixes oid :: int and ticket :: "int option"
  assumes "transform_order_to_mt5_order account order ins = Inr m" and "no_side order \<noteq> NO_ORDER_SIDE"
  defines "req \<equiv> place_request (m\<lparr>order_id := oid, o_position_ticket := ticket\<rparr>)"
  shows "(\<exists>ty. dict_get req ''type'' = Some (JInt ty) \<and>
            dict_get mt5_order_type_to_order_type ty = Some (no_type order) \<and>
            dict_get mt5_order_type_to_order_side ty = Some (no_side order)) \<and>
    dict_get req ''price'' = Some (JFloat (float_or_zero
      (if no_type order = STOP_MARKET \<or> no_type order = STOP_LIMIT then no_trigger_price order else no_price order))) \<and>
    dict_get req ''stoplimit'' =
      (if no_type order = STOP_LIMIT \<and> float_or_zero (no_price order) \<noteq> 0
       then Some (JFloat (float_or_zero (no_price order))) else None) \<and>
    dict_get req ''volume'' = Some (JFloat (no_quantity order)) \<and>
    Inr (the (dict_get req ''symbol'')) = (case ni_symbol ins of Inr s \<Rightarrow> Inr (JStr s) | Inl e \<Rightarrow> Inl e) \<and>
    dict_get req ''position'' = Some (JInt (case ticket of None \<Rightarrow> 0 | Some t \<Rightarrow> t)) \<and>
    dict_get req ''type_filling'' = Some (JInt (map_filling_type (no_tif order)))"
proof -
  obtain action symbol where f: "map_order_type_and_action (no_type order) (no_side order) = Inr (action, o_type m)"
    "ni_symbol ins = Inr symbol" "o_symbol m = symbol" "o_volume m = no_quantity order"
    "o_price m = float_or_zero (if no_type order = STOP_MARKET \<or> no_type order = STOP_LIMIT
                               then no_trigger_price order else no_price order)"
    "o_trigger_price m = (if no_type order = STOP_LIMIT then float_or_zero (no_price order) else 0)"
    "o_type_filling m = map_filling_type (no_tif order)"
    using transform_fields [OF assms(1)] by blast
  note ty = map_order_type_back [OF f(1) assms(2)]
  show ?thesis
    unfolding req_def place_request_gets using f(2-) ty by (simp add: ftruthy_def)
qed

lemma request_translates_order_witness:
  "\<exists>m. transform_order_to_mt5_order ''55'' (order_example\<lparr>no_type := STOP_LIMIT, no_side := SELL,
          no_price := Some (Fin 2), no_trigger_price := Some (Fin 3)\<rparr>) instrument_example = Inr m \<and>
       dict_get (place_request (m\<lparr>order_id := 1, o_position_ticket := None\<rparr>)) ''price'' = Some (JFloat (Fin 3)) \<and>
       dict_get (place_request (m\<lparr>order_id := 1, o_position_ticket := None\<rparr>)) ''stoplimit'' = Some (JFloat (Fin 2))"
proof -
  let ?o = "order_example\<lparr>no_type := STOP_LIMIT, no_side := SELL, no_price := Some (Fin 2), no_trigger_price := Some (Fin 3)\<rparr>"
  obtain m where m: "transform_order_to_mt5_order ''55'' ?o instrument_example = Inr m"
    by (simp add: transform_order_to_mt5_order_def instrument_example_def map_order_type_and_action_def Let_def)
  show ?thesis
    using request_translates_order [OF m, where oid = 1 and ticket = None] m
    by (simp add: order_example_def float_or_zero_def zero_pyfloat_def)
qed

text \<open>
  A sell order closes a position exactly when the terminal lists one open long position of its
  symbol: then its request names that position; with none, with several, or when the rows cannot be
  read, and for every buy order, the position is zero.
\<close>

theorem hedge_close_single_long:
  assumes "list_all (\<lambda>p. case p of PosDict d \<Rightarrow> (\<exists>t ty. dict_get d ''ticket'' = Some (JInt t) \<and> dict_get d ''type'' = Some (JInt ty))
                               | PosObj _ \<Rightarrow> False) ps"
  defines "longs \<equiv> [t. PosDict d \<leftarrow> ps, JInt t \<leftarrow> [get_default d ''ticket'' (JInt 0)],
                       t \<noteq> 0 \<and> get_default d ''type'' (JInt (- 1)) = JInt 0]"
  shows "hedge_ticket SELL (Inr ps) = (case longs of [t] \<Rightarrow> Some t | _ \<Rightarrow> None) \<and>
         hedge_ticket BUY (Inr ps) = None \<and> hedge_ticket SELL (Inl e) = None"
proof -
  have "buy_tickets ps = Inr longs"
    using assms(1) unfolding longs_def
  proof (induction ps)
    case (Cons p ps)
    then obtain d t ty where p: "p = PosDict d" "dict_get d ''ticket'' = Some (JInt t)" "dict_get d ''type'' = Some (JInt ty)"
      by (auto split: raw_position.splits)
    obtain ts where ts: "traverse long_ticket ps = Inr ts"
      using Cons by (cases "traverse long_ticket ps") (auto simp: buy_tickets_def)
    then show ?case
      using Cons p by (auto simp: buy_tickets_def long_ticket_def get_default_def jzero_def)
  qed (simp add: buy_tickets_def)
  then show ?thesis by (auto simp: hedge_ticket_def split: list.splits)
qed

lemma hedge_close_single_long_witness:
  "hedge_ticket SELL (Inr [PosDict [(''ticket'', JInt 9), (''type'', JInt 0)], PosDict [(''ticket'', JInt 8), (''type'', JInt 1)]]) = Some 9"
  using hedge_close_single_long [of "[PosDict [(''ticket'', JInt 9), (''type'', JInt 0)], PosDict [(''ticket'', JInt 8), (''type'', JInt 1)]]"]
  by (simp add: get_default_def)

text \<open>
  A change of only the limit price of a stop-limit order is written as a change of its trigger:
  the request's price, which is the trigger, becomes the new limit, and its stop limit stays the old one.
\<close>

theorem modify_stop_limit_moves_trigger:
  assumes "transform_order_to_mt5_order account order ins = Inr m" and "no_type order = STOP_LIMIT"
    and "no_price order = Some old" and "old \<noteq> 0" and "truthy new"
    and "mc_quantity cmd = None" and "mc_price cmd = Some new" and "mc_trigger_price cmd = None"
  shows "dict_get (modify_request (apply_changes truthy cmd (no_type order) (m\<lparr>order_id := oid\<rparr>))) ''price'' = Some (JFloat new) \<and>
         dict_get (modify_request (apply_changes truthy cmd (no_type order) (m\<lparr>order_id := oid\<rparr>))) ''stoplimit'' = Some (JFloat old)"
  using assms
  by (auto simp: apply_changes_def given_def modify_request_def transform_order_to_mt5_order_def
      float_or_zero_def ftruthy_def Let_def bindR_eq_Inr)

lemma modify_stop_limit_moves_trigger_witness:
  "\<exists>m. transform_order_to_mt5_order ''55'' (order_example\<lparr>no_type := STOP_LIMIT, no_price := Some (Fin 2),
          no_trigger_price := Some (Fin 3)\<rparr>) instrument_example = Inr m \<and>
       dict_get (modify_request (apply_changes ftruthy
         \<lparr>mc_client_order_id = ''O-1'', mc_venue_order_id = Some ''7'', mc_quantity = None,
          mc_price = Some (Fin 5), mc_trigger_price = None\<rparr> STOP_LIMIT (m\<lparr>order_id := 7\<rparr>))) ''price'' = Some (JFloat (Fin 5))"
proof -
  let ?o = "order_example\<lparr>no_type := STOP_LIMIT, no_price := Some (Fin 2), no_trigger_price := Some (Fin 3)\<rparr>"
  let ?c = "\<lparr>mc_client_order_id = ''O-1'', mc_venue_order_id = Some ''7'', mc_quantity = None,
          mc_price = Some (Fin 5), mc_trigger_price = None\<rparr>"
  obtain m where m: "transform_order_to_mt5_order ''55'' ?o instrument_example = Inr m"
    by (simp add: transform_order_to_mt5_order_def instrument_example_def map_order_type_and_action_def Let_def)
  show ?thesis
    using modify_stop_limit_moves_trigger [OF m, of "Fin 2" ftruthy "Fin 5" ?c 7] m
    by (simp add: ftruthy_def zero_pyfloat_def)
qed

text \<open>What a closing request says of the position it closes.\<close>

definition closes_position :: "raw_position \<Rightarrow> (string \<times> json) list \<Rightarrow> bool" where
  "closes_position pos req =
     (let d = (case pos of PosDict d \<Rightarrow> d | PosObj a \<Rightarrow> a) in
      \<exists>ticket ty vol. py_int (get_default d ''ticket'' (JInt 0)) = Inr ticket \<and> ticket \<noteq> 0 \<and>
        py_int (get_default d ''type'' (JInt (- 1))) = Inr ty \<and>
        py_float (get_default d ''volume'' (JFloat 0)) = Inr vol \<and> \<not> vol \<le> 0 \<and>
        dict_get req ''type'' = Some (JInt (if ty = 0 then 1 else 0)) \<and>
        dict_get req ''position'' = Some (JInt ticket) \<and> dict_get req ''volume'' = Some (JFloat vol) \<and>
        dict_get req ''action'' = Some (JInt TRADE_ACTION_DEAL))"

lemma close_one_request:
  assumes "close_one pos = Inr (Some req)"
  shows "closes_position pos req"
proof -
  define d where "d = (case pos of PosDict d \<Rightarrow> d | PosObj a \<Rightarrow> a)"
  obtain ticket ty vol where parts: "py_int (get_default d ''ticket'' (JInt 0)) = Inr ticket"
    "py_int (get_default d ''type'' (JInt (- 1))) = Inr ty" "py_float (get_default d ''volume'' (JFloat 0)) = Inr vol"
    and r: "(if ticket = 0 \<or> \<not> jtruthy (get_default d ''symbol'' (JStr [])) \<or> vol \<le> 0 then Inr None
             else Inr (Some (close_request ticket ty (get_default d ''symbol'' (JStr [])) vol))) =
            (Inr (Some req) :: mt5_request option result)"
    using assms unfolding close_one_def d_def [symmetric] Let_def bindR_eq_Inr by blast
  have g: "ticket \<noteq> 0" "\<not> vol \<le> 0" "req = close_request ticket ty (get_default d ''symbol'' (JStr [])) vol"
    using r by (auto split: if_splits)
  show ?thesis
    unfolding closes_position_def d_def [symmetric] Let_def
    using parts g by (simp add: close_request_def mt5_constants)
qed

lemma close_loop_takeWhile:
  "close_loop ps = concat (map (\<lambda>p. case close_one p of Inr (Some req) \<Rightarrow> [req] | _ \<Rightarrow> [])
     (takeWhile (\<lambda>p. \<exists>x. close_one p = Inr x) ps))"
  by (induction ps) (auto split: sum.splits option.splits)

text \<open>
  The requests that close positions on stop are one per position that has a ticket, a symbol and
  a positive volume, with the opposite side and the same volume, in order, up to the first row that
  cannot be read.
\<close>

theorem close_on_stop_requests:
  "close_all_positions_on_stop True (Inr ps) =
     concat (map (\<lambda>p. case close_one p of Inr (Some req) \<Rightarrow> [req] | _ \<Rightarrow> [])
       (takeWhile (\<lambda>p. \<exists>x. close_one p = Inr x) ps)) \<and>
   (\<forall>req. close_one p \<noteq> Inr (Some req) \<or> closes_position p req)"
  using close_one_request [of p] by (simp add: close_all_positions_on_stop_def close_loop_takeWhile)

lemma close_on_stop_requests_witness:
  "closes_position (PosDict [(''ticket'', JInt 9), (''type'', JInt 0), (''symbol'', JStr ''EURUSD''), (''volume'', JFloat (Fin 1))])
     (close_request 9 0 (JStr ''EURUSD'') (Fin 1))"
proof -
  let ?p = "PosDict [(''ticket'', JInt 9), (''type'', JInt 0), (''symbol'', JStr ''EURUSD''), (''volume'', JFloat (Fin 1))]"
  have "close_one ?p = Inr (Some (close_request 9 0 (JStr ''EURUSD'') (Fin 1)))"
    by (simp add: close_one_def get_default_def zero_pyfloat_def)
  then show ?thesis using close_on_stop_requests [of "[]" ?p] by blast
qed

text \<open>
  A status callback generates at most one event, for the order it names and only when that order
  is in the cache, and none that repeats the order's status; so a second cancellation or rejection of
  an order that has it is silent, and a fill reported this way generates nothing.
\<close>

theorem status_callback_events:
  "length (on_order_status env ref st reason) \<le> 1 \<and>
   (case ee_order env ref of
      None \<Rightarrow> on_order_status env ref st reason = []
    | Some order \<Rightarrow>
        on_order_status env ref st reason =
          (if (st = ''Cancelled'' \<or> st = ''ApiCancelled'') \<and> no_status order \<noteq> CANCELED
           then [OrderCanceled (no_client_order_id order) (no_venue_order_id order)]
           else if st = ''Rejected'' \<and> no_status order \<noteq> REJECTED
           then [OrderRejected (no_client_order_id order) (JStr reason)] else []))"
  by (auto simp: on_order_status_def status_of_text_def handle_order_event_def Let_def split: option.splits)

text \<open>An order of an instrument the cache does not have leaves the handler with no event at all.\<close>

lemma unknown_instrument_is_silent:
  assumes "validate_order_pre_venue (no_type order) (no_tif order) = Inr ()"
    and "ee_instrument env (no_instrument_id order) = None"
  shows "submit_order env order c = (c, [], [], Inl AttributeError)"
  using assms by (simp add: submit_order_def submit_body_def)

end
