(* ===== verification/Exec_Reports.thy ===== *)
theory Exec_Reports
  imports Exec_Client Instruments
begin

text \<open>
  Reconciliation reports of the execution client (\<^verbatim>\<open>nautilus_mt5/execution.py\<close>): the status of one
  order, of all orders, fills from the history, positions, and the mass status made of them.

  Every report is a record of the values the code hands to the platform's constructor. The platform's
  readings of quantities are parameters. A report whose instrument is not in the cache awaits the
  result of the platform's \<^verbatim>\<open>find\<close>, which is an instrument or nothing and cannot be awaited: that is a
  \<^verbatim>\<open>TypeError\<close>.
\<close>

section \<open>What the platform provides\<close>

record report_env =
  rp_exec :: exec_env
  rp_quantity :: "string \<Rightarrow> pyfloat result"
  rp_decimal_quantity :: "pyfloat \<Rightarrow> pyfloat result"
  rp_average :: "n_instrument \<Rightarrow> pyfloat \<Rightarrow> pyfloat result"

record order_status_report =
  or_instrument_id :: string
  or_venue_order_id :: string
  or_client_order_id :: string
  or_side :: order_side
  or_type :: order_type
  or_tif :: time_in_force
  or_status :: order_status
  or_quantity :: pyfloat
  or_filled_qty :: pyfloat
  or_avg_px :: pyfloat
  or_price :: "pyfloat option"
  or_trigger_price :: "pyfloat option"

record fill_report =
  fr_instrument_id :: string
  fr_venue_order_id :: string
  fr_trade_id :: string
  fr_side :: order_side
  fr_last_qty :: pyfloat
  fr_last_px :: pyfloat
  fr_commission :: pyfloat
  fr_ts_event :: int

record position_report =
  pr_instrument_id :: string
  pr_long :: bool
  pr_quantity :: pyfloat

section \<open>One order\<close>

definition symbol_instrument_id :: "string \<Rightarrow> string result" where
  "symbol_instrument_id name =
     bindR (mt5_symbol_to_instrument_id_simplified_symbology (mt5_symbol_of name)) (\<lambda>i. Inr (instrument_id_value i))"

definition quantity_of_volume :: "report_env \<Rightarrow> pyfloat \<Rightarrow> pyfloat result" where
  "quantity_of_volume env v = (if v = 0 then Inr 0 else rp_quantity env (float_repr v))"

text \<open>
  Expiry times are integers, and reading one as a text raises; it is read only for an order with a
  specified time and a nonzero expiry.
\<close>

definition reads_expiry :: "mt5_order \<Rightarrow> bool" where
  "reads_expiry m \<longleftrightarrow> (o_type_time m = 2 \<or> o_type_time m = 3) \<and> o_expire_time m \<noteq> 0"

definition parse_mt5_order_to_order_status_report :: "report_env \<Rightarrow> mt5_order \<Rightarrow> order_status_report result" where
  "parse_mt5_order_to_order_status_report env m =
     bindR (symbol_instrument_id (o_symbol m)) (\<lambda>iid.
     (case ee_instrument (rp_exec env) iid of
        None \<Rightarrow> Inl TypeError
      | Some ins \<Rightarrow>
          bindR (quantity_of_volume env (o_volume m)) (\<lambda>total.
          bindR (quantity_of_volume env (o_volume_filled m)) (\<lambda>filled.
          let status = (if filled < total \<and> 0 < filled then PARTIALLY_FILLED
                        else get_default map_order_status (o_state m) SUBMITTED)
          in
          bindR (if o_price m = 0 then Inr None
                 else bindR (ni_make_price ins (JFloat (o_price m))) (\<lambda>p. Inr (Some p))) (\<lambda>price.
          if reads_expiry m then Inl AttributeError
          else
          bindR (ni_make_price ins (JFloat (o_trigger_price m))) (\<lambda>trigger.
            Inr \<lparr>or_instrument_id = ni_id ins, or_venue_order_id = int_str (order_id m),
                 or_client_order_id = (if orderRef m \<noteq> [] then orderRef m else int_str (order_id m)),
                 or_side = get_default mt5_order_type_to_order_side (o_type m) BUY,
                 or_type = get_default mt5_order_type_to_order_type (o_type m) MARKET,
                 or_tif = (if o_type_filling m = 0 then FOK else if o_type_filling m = 1 then IOC else GTC),
                 or_status = status, or_quantity = total, or_filled_qty = 0, or_avg_px = 0,
                 or_price = price, or_trigger_price = Some trigger\<rparr>))))))"

text \<open>The orders are searched by either identifier; the first that matches is reported.\<close>

definition order_matches :: "string option \<Rightarrow> string option \<Rightarrow> mt5_order \<Rightarrow> bool" where
  "order_matches coid void m \<longleftrightarrow>
     (\<exists>x. coid = Some x \<and> x = orderRef m) \<or> (\<exists>v. void = Some v \<and> v = int_str (order_id m))"

definition generate_order_status_report ::
    "report_env \<Rightarrow> string option \<Rightarrow> string option \<Rightarrow> row list option result \<Rightarrow> bool \<Rightarrow> client \<Rightarrow>
     (client \<times> exec_event list \<times> order_status_report option) result" where
  "generate_order_status_report env coid void answer late c =
     (if coid = None \<and> void = None then Inr (c, [], None)
      else
        bindR (get_open_orders (ee_account (rp_exec env)) answer late c) (\<lambda>(c1, orders).
          case find (order_matches coid void) orders of
            Some m \<Rightarrow> bindR (parse_mt5_order_to_order_status_report env m) (\<lambda>r. Inr (c1, [], Some r))
          | None \<Rightarrow>
              (case coid of
                 None \<Rightarrow> Inl AttributeError
               | Some x \<Rightarrow> Inr (c1, on_order_status (rp_exec env) x ''Cancelled'' ''Not found in query'', None))))"

section \<open>Positions\<close>

text \<open>The sign of a quantity; comparing a decimal that is not a number raises.\<close>

definition position_side :: "pyfloat \<Rightarrow> bool option result" where
  "position_side q =
     (if q = NaN then Inl GenericException
      else if 0 < q then Inr (Some True) else if q < 0 then Inr (Some False) else Inr None)"

definition filled_report :: "report_env \<Rightarrow> mt5_position \<Rightarrow> order_status_report option result" where
  "filled_report env p =
     bindR (position_side (pos_quantity p)) (\<lambda>side.
       case side of
         None \<Rightarrow> Inr None
       | Some long \<Rightarrow>
           bindR (symbol_instrument_id (pos_symbol p)) (\<lambda>iid.
             case ee_instrument (rp_exec env) iid of
               None \<Rightarrow> Inr None
             | Some ins \<Rightarrow>
                 bindR (rp_average env ins (pos_avg_cost p)) (\<lambda>avg.
                 bindR (rp_decimal_quantity env (fabs (pos_quantity p))) (\<lambda>q.
                   Inr (Some \<lparr>or_instrument_id = ni_id ins, or_venue_order_id = ni_id ins,
                              or_client_order_id = ni_id ins, or_side = (if long then BUY else SELL),
                              or_type = MARKET, or_tif = FOK, or_status = FILLED, or_quantity = q,
                              or_filled_qty = q, or_avg_px = avg, or_price = None, or_trigger_price = None\<rparr>)))))"

definition position_status_report :: "report_env \<Rightarrow> string option \<Rightarrow> mt5_position \<Rightarrow> position_report option result" where
  "position_status_report env only p =
     bindR (position_side (pos_quantity p)) (\<lambda>side.
       case side of
         None \<Rightarrow> Inr None
       | Some long \<Rightarrow>
           bindR (symbol_instrument_id (pos_symbol p)) (\<lambda>iid.
             if only \<noteq> None \<and> only \<noteq> Some iid then Inr None
             else
               (case ee_instrument (rp_exec env) iid of
                  None \<Rightarrow> Inr None
                | Some ins \<Rightarrow>
                    bindR (rp_decimal_quantity env (fabs (pos_quantity p))) (\<lambda>q.
                      Inr (Some \<lparr>pr_instrument_id = ni_id ins, pr_long = long, pr_quantity = q\<rparr>)))))"

text \<open>A loop with \<^verbatim>\<open>continue\<close>: the values of the rounds that yield one, until one raises.\<close>

definition collect :: "('a \<Rightarrow> 'b option result) \<Rightarrow> 'a list \<Rightarrow> 'b list result" where
  "collect f xs = bindR (traverse f xs) (\<lambda>ys. Inr (map the (filter (\<lambda>y. y \<noteq> None) ys)))"

definition generate_position_status_reports ::
    "report_env \<Rightarrow> string option \<Rightarrow> row list option result \<Rightarrow> bool \<Rightarrow> client \<Rightarrow> (client \<times> position_report list) result" where
  "generate_position_status_reports env only answer late c =
     bindR (get_positions (ee_account (rp_exec env)) answer late c) (\<lambda>(c1, ps).
       case ps of
         None \<Rightarrow> Inr (c1, [])
       | Some xs \<Rightarrow> bindR (collect (position_status_report env only) xs) (\<lambda>rs. Inr (c1, rs)))"

section \<open>All orders\<close>

text \<open>
  Without a position the open orders are not asked for. Otherwise a \<^verbatim>\<open>RuntimeError\<close> of the query for
  open orders counts as none; the client is then as the failed query left it, which is unchanged.
\<close>

definition generate_order_status_reports ::
    "report_env \<Rightarrow> row list option result \<times> bool \<Rightarrow> row list option result \<times> bool \<Rightarrow> client \<Rightarrow>
     (client \<times> order_status_report list) result" where
  "generate_order_status_reports env positions orders c =
     bindR (get_positions (ee_account (rp_exec env)) (fst positions) (snd positions) c) (\<lambda>(c1, ps).
       case ps of
         None \<Rightarrow> Inr (c1, [])
       | Some xs \<Rightarrow>
           bindR (collect (filled_report env) xs) (\<lambda>filled.
           bindR (case get_open_orders (ee_account (rp_exec env)) (fst orders) (snd orders) c1 of
                    Inl e \<Rightarrow> if e = RuntimeError then Inr (c1, []) else Inl e
                  | Inr r \<Rightarrow> Inr r) (\<lambda>(c2, ms).
           bindR (traverse (parse_mt5_order_to_order_status_report env) ms) (\<lambda>open_reports.
             Inr (c2, filled @ open_reports)))))"

section \<open>Fills\<close>

text \<open>
  A deal is read alike from a dictionary and from an object's attributes. \<open>history\<close> is the bridge's
  \<^verbatim>\<open>history_deals_get\<close>: what it raises becomes an empty list.
\<close>

type_synonym deal_row = "(string, json) dict"

definition get_history_deals :: "(int \<Rightarrow> int \<Rightarrow> deal_row list option result) \<Rightarrow> int \<Rightarrow> int \<Rightarrow> deal_row list" where
  "get_history_deals history from_ts to_ts =
     (case history from_ts to_ts of Inl _ \<Rightarrow> [] | Inr None \<Rightarrow> [] | Inr (Some ds) \<Rightarrow> ds)"

text \<open>The fields read after the filters, in their order.\<close>

definition make_fill :: "n_instrument \<Rightarrow> string \<Rightarrow> int \<Rightarrow> pyfloat \<Rightarrow> deal_row \<Rightarrow> fill_report option result" where
  "make_fill ins iid order volume d =
     bindR (py_int (get_default d ''type'' (JInt 0))) (\<lambda>ty.
     bindR (py_float (get_default d ''price'' (JFloat 0))) (\<lambda>price.
     bindR (py_int (get_default d ''ticket'' (JInt 0))) (\<lambda>ticket.
     bindR (py_float (get_default d ''commission'' (JFloat 0))) (\<lambda>commission.
     bindR (py_int (get_default d ''time'' (JInt 0))) (\<lambda>time.
     bindR (py_int (get_default d ''time_msc'' (JInt (time * 1000)))) (\<lambda>msc.
     bindR (ni_make_qty ins (JFloat volume)) (\<lambda>qty.
     bindR (ni_make_price ins (JFloat price)) (\<lambda>px.
       Inr (Some \<lparr>fr_instrument_id = iid, fr_venue_order_id = int_str order,
                  fr_trade_id = int_str ticket,
                  fr_side = (if ty = DEAL_TYPE_BUY then BUY else SELL),
                  fr_last_qty = qty, fr_last_px = px, fr_commission = fabs commission,
                  fr_ts_event = msc * 1000000\<rparr>)))))))))"

definition fill_of_deal :: "report_env \<Rightarrow> string option \<Rightarrow> string option \<Rightarrow> deal_row \<Rightarrow> fill_report option result" where
  "fill_of_deal env only void d =
     (let symbol = get_default d ''symbol'' (JStr []) in
      bindR (py_float (get_default d ''volume'' (JFloat 0))) (\<lambda>volume.
        if \<not> jtruthy symbol \<or> volume = 0 then Inr None
        else
          bindR (case symbol of JStr s \<Rightarrow> symbol_instrument_id s | _ \<Rightarrow> Inl TypeError) (\<lambda>iid.
            if only \<noteq> None \<and> only \<noteq> Some iid then Inr None
            else
              bindR (py_int (get_default d ''order'' (JInt 0))) (\<lambda>order.
                if void \<noteq> None \<and> void \<noteq> Some (int_str order) then Inr None
                else
                  (case ee_instrument (rp_exec env) iid of
                     None \<Rightarrow> Inr None
                   | Some ins \<Rightarrow>
                       make_fill ins iid order volume d)))))"

definition generate_fill_reports ::
    "report_env \<Rightarrow> (int \<Rightarrow> int \<Rightarrow> deal_row list option result) \<Rightarrow> int \<Rightarrow> string option \<Rightarrow> string option \<Rightarrow>
     int option \<Rightarrow> int option \<Rightarrow> fill_report list result" where
  "generate_fill_reports env history now only void start stop =
     collect (fill_of_deal env only void)
       (get_history_deals history (case start of None \<Rightarrow> 0 | Some t \<Rightarrow> t) (case stop of None \<Rightarrow> now | Some t \<Rightarrow> t))"

section \<open>Mass status\<close>

text \<open>
  The platform's \<^verbatim>\<open>ExecutionMassStatus\<close>: an empty one, the three methods that add reports to it, and what
  it keeps: its order under a venue order id, and its positions of an instrument.
\<close>

record 'm mass_api =
  ms_new :: 'm
  ms_add_order_reports :: "order_status_report list \<Rightarrow> 'm \<Rightarrow> 'm"
  ms_add_fill_reports :: "fill_report list \<Rightarrow> 'm \<Rightarrow> 'm"
  ms_add_position_reports :: "position_report list \<Rightarrow> 'm \<Rightarrow> 'm"
  ms_order_report :: "'m \<Rightarrow> string \<Rightarrow> order_status_report option"
  ms_position_reports :: "'m \<Rightarrow> string \<Rightarrow> position_report list"

text \<open>
  The three kinds of report, one after the other. \<open>later\<close> is what the terminal answers to the second
  query for positions. The range of the history ends now and starts \<open>lookback\<close> minutes earlier.
\<close>

definition generate_mass_status ::
    "'m mass_api \<Rightarrow> report_env \<Rightarrow> row list option result \<times> bool \<Rightarrow> row list option result \<times> bool \<Rightarrow>
     (int \<Rightarrow> int \<Rightarrow> deal_row list option result) \<Rightarrow> row list option result \<times> bool \<Rightarrow> int \<Rightarrow> int option \<Rightarrow> client \<Rightarrow>
     (client \<times> 'm) result" where
  "generate_mass_status api env positions orders history later now lookback c =
     bindR (generate_order_status_reports env positions orders c) (\<lambda>(c1, ors).
     bindR (generate_fill_reports env history now None None
              (case lookback of None \<Rightarrow> None | Some n \<Rightarrow> Some (now - 60 * n)) (Some now)) (\<lambda>frs.
     bindR (generate_position_status_reports env None (fst later) (snd later) c1) (\<lambda>(c2, prs).
       Inr (c2, ms_add_position_reports api prs (ms_add_fill_reports api frs (ms_add_order_reports api ors (ms_new api)))))))"

section \<open>Properties\<close>

lemma collect_in:
  assumes "collect f xs = Inr ys"
  shows "y \<in> set ys \<longleftrightarrow> (\<exists>x \<in> set xs. f x = Inr (Some y))" and "x \<in> set xs \<Longrightarrow> \<exists>z. f x = Inr z"
proof -
  obtain zs where zs: "traverse f xs = Inr zs" "ys = map the (filter (\<lambda>y. y \<noteq> None) zs)"
    using assms by (auto simp: collect_def bindR_eq_Inr)
  have all2: "list_all2 (\<lambda>x y. f x = Inr y) xs zs" using zs(1) by (simp add: traverse_eq_Inr)
  then show "x \<in> set xs \<Longrightarrow> \<exists>z. f x = Inr z" by (auto simp: list_all2_conv_all_nth in_set_conv_nth)
  have "y \<in> set ys \<longleftrightarrow> Some y \<in> set zs" by (force simp: zs(2))
  also have "\<dots> \<longleftrightarrow> (\<exists>x \<in> set xs. f x = Inr (Some y))"
    using all2 by (fastforce simp: list_all2_conv_all_nth in_set_conv_nth)
  finally show "y \<in> set ys \<longleftrightarrow> (\<exists>x \<in> set xs. f x = Inr (Some y))" .
qed

lemma collect_simps:
  "collect f [] = Inr []"
  "f x = Inl e \<Longrightarrow> collect f (x # xs) = Inl e"
  "f x = Inr None \<Longrightarrow> collect f (x # xs) = collect f xs"
  "f x = Inr (Some y) \<Longrightarrow> collect f (x # xs) = bindR (collect f xs) (\<lambda>ys. Inr (y # ys))"
  by (simp_all add: collect_def bindR_assoc del: traverse_eq_Inr)

lemma dict_orders_anonymous:
  "convert_order_rows account (map RowDict ds) = Inr orders \<Longrightarrow> ord \<in> set orders \<Longrightarrow> orderRef ord = []"
  by (induction ds arbitrary: orders)
     (auto simp: bindR_eq_Inr dest: row_to_order_fields split: option.splits)

text \<open>
  C25: asked for the status of an order by its client identifier, the client finds no order the bridge
  returned as a dictionary: although the order is open at the terminal, the query reports nothing and
  generates a cancellation of it.
\<close>

theorem live_order_reported_cancelled:
  assumes "get_open_orders (ee_account (rp_exec env)) answer late c = Inr (c1, orders)"
    and "request_rows ''OpenOrders'' answer late c = Inr (c1, Some (map RowDict ds))"
    and "ee_order (rp_exec env) coid = Some order" and "coid \<noteq> []" and "no_status order \<noteq> CANCELED"
  shows "generate_order_status_report env (Some coid) None answer late c =
    Inr (c1, [OrderCanceled (no_client_order_id order) (no_venue_order_id order)], None)"
proof -
  have "convert_order_rows (ee_account (rp_exec env)) (map RowDict ds) = Inr orders"
    using assms(1,2) by (simp add: get_open_orders_def bindR_eq_Inr)
  then have "\<forall>ord \<in> set orders. \<not> order_matches (Some coid) None ord"
    using dict_orders_anonymous assms(4) by (fastforce simp: order_matches_def)
  then have "find (order_matches (Some coid) None) orders = None" by (simp add: find_None_iff)
  then show ?thesis
    using assms by (simp add: generate_order_status_report_def on_order_status_def status_of_text_def handle_order_event_def)
qed

definition listed_example :: n_instrument where
  "listed_example = instrument_example\<lparr>ni_id := ''EURUSD.METATRADER_5''\<rparr>"

definition report_env_example :: report_env where
  "report_env_example =
     \<lparr>rp_exec = (env_example JNull [] [order_example\<lparr>no_status := ACCEPTED\<rparr>])
                  \<lparr>ee_instrument := [''EURUSD.METATRADER_5'' \<mapsto> listed_example]\<rparr>,
      rp_quantity = (\<lambda>_. Inr 1), rp_decimal_quantity = Inr, rp_average = (\<lambda>_. Inr)\<rparr>"

lemma first_query_rows:
  assumes "client_wf c" and "request_named name c = Inr None" and "name \<noteq> []"
    and "name' \<noteq> name" and "name' \<noteq> []"
  shows "\<exists>c'. request_rows name answer False c = Inr (c', Some (fetch_rows answer)) \<and>
    (\<forall>later late. request_rows name later late c' = Inr (c', Some (fetch_rows answer))) \<and>
    (\<forall>answer' late' c2 rows later late.
       request_rows name' answer' late' c' = Inr (c2, rows) \<longrightarrow>
       request_rows name later late c2 = Inr (c2, Some (fetch_rows answer)))"
proof -
  obtain c' q where first: "request_rows name answer False c = Inr (c', Some (fetch_rows answer))"
    and q: "request_named name c' = Inr (Some q)" "futures c' (rq_future q) = FDone (fetch_rows answer)"
      "rq_future q < next_future c'" "client_wf c'"
    using request_rows_first [OF assms(1-3)] by blast
  have other: "request_rows name later late c2 = Inr (c2, Some (fetch_rows answer))"
    if "request_rows name' answer' late' c' = Inr (c2, rows)"
    for answer' late' c2 rows later late
  proof -
    have "fut_done (futures c' (rq_future q))" "rq_future q \<noteq> next_future c'" using q by (simp_all add: fut_done_def)
    then show ?thesis using request_rows_keeps [OF q(4,1) _ _ assms(4,5) that] q(2) request_rows_again by simp
  qed
  show ?thesis
  proof (intro exI [of _ c'] conjI allI impI)
    show "request_rows name later late c' = Inr (c', Some (fetch_rows answer))" for later late
      by (rule request_rows_again [OF q(1,2)])
  qed (use first other in blast)+
qed

lemma fresh_client_query: "request_named name client_init = Inr None"
  by (simp add: request_named_def client_init_def requests_get_def present_name_def resolve_id_def
      name_to_req_id_def requests_empty_def)

lemma live_order_reported_cancelled_witness:
  "\<exists>c1. generate_order_status_report report_env_example (Some ''O-1'') None
     (Inr (Some [RowDict [(''ticket'', JInt 7), (''symbol'', JStr ''EURUSD'')]])) False client_init =
     Inr (c1, [OrderCanceled ''O-1'' None], None)"
proof -
  let ?a = "Inr (Some [RowDict [(''ticket'', JInt 7), (''symbol'', JStr ''EURUSD'')]]) :: row list option result"
  obtain c1 where "request_rows ''OpenOrders'' ?a False client_init = Inr (c1, Some (fetch_rows ?a))"
    using request_rows_first [OF client_init_wf fresh_client_query list.distinct(2), of _ _ ?a] by blast
  then have rows: "request_rows ''OpenOrders'' ?a False client_init =
      Inr (c1, Some (map RowDict [[(''ticket'', JInt 7), (''symbol'', JStr ''EURUSD'')]]))"
    by (simp add: fetch_rows_def)
  have acc: "ee_account (rp_exec report_env_example) = ''55''"
    by (simp add: report_env_example_def env_example_def)
  obtain orders where orders: "get_open_orders (ee_account (rp_exec report_env_example)) ?a False client_init = Inr (c1, orders)"
    using rows by (simp add: acc get_open_orders_def row_to_order_def get_or_def get_default_def)
  have order: "ee_order (rp_exec report_env_example) ''O-1'' = Some (order_example\<lparr>no_status := ACCEPTED\<rparr>)"
    by (simp add: report_env_example_def env_example_def order_example_def)
  show ?thesis
    using live_order_reported_cancelled [OF orders rows order]
    by (simp add: order_example_def)
qed

text \<open>
  Once the first query for positions came back empty, or failed, the status reports of all orders
  are empty for good: later positions are not seen, and open orders are not asked for, whatever the
  terminal answers.
\<close>

theorem no_positions_no_reports:
  assumes "client_wf c" and "request_named ''OpenPositions'' c = Inr None" and "fetch_rows first = []"
  shows "\<exists>c1. generate_order_status_reports env (first, False) orders c = Inr (c1, []) \<and>
              generate_order_status_reports env (later, late) orders' c1 = Inr (c1, [])"
proof -
  have n: "''OpenOrders'' \<noteq> ''OpenPositions''" "''OpenOrders'' \<noteq> []" "''OpenPositions'' \<noteq> []" by simp_all
  obtain c1 where "request_rows ''OpenPositions'' first False c = Inr (c1, Some [])"
    and "\<And>later late. request_rows ''OpenPositions'' later late c1 = Inr (c1, Some [])"
    using first_query_rows [OF assms(1,2) n(3,1,2), of first] unfolding assms(3) by (elim exE conjE) simp
  then show ?thesis by (simp add: generate_order_status_reports_def get_positions_def)
qed

lemma no_positions_no_reports_witness:
  "\<exists>c1. generate_order_status_reports report_env_example (Inl ConnectionError, False) (Inr None, False) client_init = Inr (c1, []) \<and>
        generate_order_status_reports report_env_example
          (Inr (Some [RowDict [(''symbol'', JStr ''EURUSD''), (''volume'', JInt 2)]]), False) (Inr None, False) c1 = Inr (c1, [])"
  by (rule no_positions_no_reports [OF client_init_wf fresh_client_query]) (simp add: fetch_rows_def)

text \<open>
  A deal that is reported: it has a symbol and a volume, the symbol's instrument and the deal's order are
  the ones asked for, and the instrument is in the cache. The report of a deal: the instrument, order and
  trade are its own, buys are its type zero, quantity and price are the instrument's for its volume and
  price, the commission is its own without the sign, and the time its milliseconds in nanoseconds, or its
  seconds when it has no milliseconds.
\<close>

definition reported_deal :: "report_env \<Rightarrow> string option \<Rightarrow> string option \<Rightarrow> deal_row \<Rightarrow> bool" where
  "reported_deal env only void d \<longleftrightarrow>
     (\<exists>s v order. get_default d ''symbol'' (JStr []) = JStr s \<and> s \<noteq> [] \<and>
        py_float (get_default d ''volume'' (JFloat 0)) = Inr v \<and> v \<noteq> 0 \<and>
        (only = None \<or> only = Some (s @ ''.METATRADER_5'')) \<and>
        py_int (get_default d ''order'' (JInt 0)) = Inr order \<and> (void = None \<or> void = Some (int_str order)) \<and>
        ee_instrument (rp_exec env) (s @ ''.METATRADER_5'') \<noteq> None)"

definition deal_report :: "report_env \<Rightarrow> deal_row \<Rightarrow> fill_report \<Rightarrow> bool" where
  "deal_report env d r \<longleftrightarrow>
     (\<exists>s v order ins price ty ticket cm msc.
        get_default d ''symbol'' (JStr []) = JStr s \<and> fr_instrument_id r = s @ ''.METATRADER_5'' \<and>
        ee_instrument (rp_exec env) (fr_instrument_id r) = Some ins \<and>
        py_int (get_default d ''order'' (JInt 0)) = Inr order \<and> fr_venue_order_id r = int_str order \<and>
        py_int (get_default d ''ticket'' (JInt 0)) = Inr ticket \<and> fr_trade_id r = int_str ticket \<and>
        py_int (get_default d ''type'' (JInt 0)) = Inr ty \<and> fr_side r = (if ty = 0 then BUY else SELL) \<and>
        py_float (get_default d ''volume'' (JFloat 0)) = Inr v \<and> ni_make_qty ins (JFloat v) = Inr (fr_last_qty r) \<and>
        py_float (get_default d ''price'' (JFloat 0)) = Inr price \<and> ni_make_price ins (JFloat price) = Inr (fr_last_px r) \<and>
        py_float (get_default d ''commission'' (JFloat 0)) = Inr cm \<and> fr_commission r = fabs cm \<and>
        fr_ts_event r = msc * 1000000 \<and>
        (case dict_get d ''time_msc'' of
           Some t \<Rightarrow> py_int t = Inr msc
         | None \<Rightarrow> (\<exists>time. py_int (get_default d ''time'' (JInt 0)) = Inr time \<and> msc = time * 1000)))"

lemma symbol_instrument_id_eq:
  "symbol_instrument_id s = Inr iid \<Longrightarrow> iid = s @ ''.METATRADER_5''"
  by (auto simp: symbol_instrument_id_def mt5_symbol_to_instrument_id_simplified_symbology_def mt5_symbol_of_def
      instrument_id_value_def bindR_eq_Inr split: if_splits)

lemma fill_of_deal_reported:
  assumes fill: "fill_of_deal env only void d = Inr x"
  shows "case x of None \<Rightarrow> \<not> reported_deal env only void d
                 | Some r \<Rightarrow> reported_deal env only void d \<and> deal_report env d r"
proof -
  obtain v where v: "py_float (get_default d ''volume'' (JFloat 0)) = Inr v"
    using fill by (auto simp: fill_of_deal_def Let_def bindR_eq_Inr)
  show ?thesis
  proof (cases "jtruthy (get_default d ''symbol'' (JStr [])) \<and> v \<noteq> 0")
    case False
    then have "x = None" using fill v by (auto simp: fill_of_deal_def)
    then show ?thesis using False v by (auto simp: reported_deal_def)
  next
    case True
    then obtain s iid where s: "get_default d ''symbol'' (JStr []) = JStr s" "s \<noteq> []" "symbol_instrument_id s = Inr iid"
      using fill v by (auto simp: fill_of_deal_def Let_def bindR_eq_Inr split: json.splits)
    have iid: "iid = s @ ''.METATRADER_5''" by (rule symbol_instrument_id_eq [OF s(3)])
    show ?thesis
    proof (cases "only = None \<or> only = Some iid")
      case False
      then have "x = None" using fill v True s by (auto simp: fill_of_deal_def)
      then show ?thesis using False s iid by (auto simp: reported_deal_def)
    next
      case only: True
      then obtain order where order: "py_int (get_default d ''order'' (JInt 0)) = Inr order"
        using fill v True s by (auto simp: fill_of_deal_def bindR_eq_Inr)
      show ?thesis
      proof (cases "(void = None \<or> void = Some (int_str order)) \<and> ee_instrument (rp_exec env) iid \<noteq> None")
        case False
        then have "x = None" using fill v True s only order by (auto simp: fill_of_deal_def split: if_splits option.splits)
        then show ?thesis using False s iid order by (auto simp: reported_deal_def)
      next
        case last: True
        then obtain ins where ins: "ee_instrument (rp_exec env) iid = Some ins" by blast
        have "make_fill ins iid order v d = Inr x"
          using fill v True s only order last ins by (auto simp: fill_of_deal_def)
        then obtain ty cm msc time ticket price qty px where m: "py_int (get_default d ''type'' (JInt 0)) = Inr ty"
            "py_float (get_default d ''price'' (JFloat 0)) = Inr price"
            "py_int (get_default d ''ticket'' (JInt 0)) = Inr ticket"
            "py_float (get_default d ''commission'' (JFloat 0)) = Inr cm"
            "py_int (get_default d ''time'' (JInt 0)) = Inr time"
            "py_int (get_default d ''time_msc'' (JInt (time * 1000))) = Inr msc"
            "ni_make_qty ins (JFloat v) = Inr qty" "ni_make_price ins (JFloat price) = Inr px"
          and x: "x = Some \<lparr>fr_instrument_id = iid, fr_venue_order_id = int_str order, fr_trade_id = int_str ticket,
                 fr_side = (if ty = DEAL_TYPE_BUY then BUY else SELL), fr_last_qty = qty, fr_last_px = px,
                 fr_commission = fabs cm, fr_ts_event = msc * 1000000\<rparr>"
          unfolding make_fill_def bindR_eq_Inr by blast
        have "case dict_get d ''time_msc'' of Some t \<Rightarrow> py_int t = Inr msc
            | None \<Rightarrow> (\<exists>time. py_int (get_default d ''time'' (JInt 0)) = Inr time \<and> msc = time * 1000)"
          using m(5,6) by (cases "dict_get d ''time_msc''") (simp_all add: get_default_def)
        then have "deal_report env d (the x)"
          unfolding deal_report_def
          by (intro exI [of _ s] exI [of _ v] exI [of _ order] exI [of _ ins] exI [of _ price] exI [of _ ty]
              exI [of _ ticket] exI [of _ cm] exI [of _ msc])
             (use m v s iid ins order in \<open>simp add: x DEAL_TYPE_BUY_def\<close>)
        moreover have "reported_deal env only void d"
          using v s iid order only last True by (auto simp: reported_deal_def)
        ultimately show ?thesis by (simp add: x)
      qed
    qed
  qed
qed

lemma collect_filter:
  assumes "\<forall>x \<in> set xs. \<forall>a. f x = Inr a \<longrightarrow> (case a of None \<Rightarrow> \<not> P x | Some r \<Rightarrow> P x \<and> R x r)"
    and "collect f xs = Inr ys"
  shows "list_all2 R (filter P xs) ys"
  using assms
proof (induction xs arbitrary: ys)
  case (Cons x xs)
  obtain a where a: "f x = Inr a" using Cons.prems(2) by (cases "f x") (simp_all add: collect_simps)
  then have "case a of None \<Rightarrow> \<not> P x | Some r \<Rightarrow> P x \<and> R x r" using Cons.prems(1) by simp
  then show ?case using Cons.IH Cons.prems a by (cases a) (auto simp: collect_simps bindR_eq_Inr)
qed (simp add: collect_simps)

text \<open>
  C33: the fill reports are, one for one and in order, those of the deals of the range that have a symbol
  and a volume, whose instrument is in the cache, and that are of the instrument and the order asked
  for. A history that cannot be read counts as empty.
\<close>

theorem fills_come_from_deals:
  assumes "generate_fill_reports env history now only void start stop = Inr rs"
  shows "list_all2 (deal_report env)
           (filter (reported_deal env only void)
              (get_history_deals history (case start of None \<Rightarrow> 0 | Some t \<Rightarrow> t) (case stop of None \<Rightarrow> now | Some t \<Rightarrow> t)))
           rs"
  by (rule collect_filter [OF _ assms [unfolded generate_fill_reports_def]]) (use fill_of_deal_reported in blast)

definition deal_example :: deal_row where
  "deal_example = [(''symbol'', JStr ''EURUSD''), (''volume'', JFloat 1), (''order'', JInt 7), (''type'', JInt 1),
                   (''price'', JFloat 1), (''ticket'', JInt 3), (''commission'', JFloat (Fin (- 2))), (''time_msc'', JInt 5)]"

lemma eurusd_known:
  "symbol_instrument_id ''EURUSD'' = Inr ''EURUSD.METATRADER_5''"
  "ee_instrument (rp_exec report_env_example) ''EURUSD.METATRADER_5'' = Some listed_example"
  by (simp_all add: symbol_instrument_id_def mt5_symbol_to_instrument_id_simplified_symbology_def mt5_symbol_of_def
      instrument_id_value_def report_env_example_def)

lemma fills_come_from_deals_witness:
  "\<exists>r. generate_fill_reports report_env_example (\<lambda>_ _. Inr (Some [[(''volume'', JFloat 1)], deal_example])) 9 None (Some ''7'') None None
         = Inr [r] \<and>
       fr_side r = SELL \<and> fr_instrument_id r = ''EURUSD.METATRADER_5'' \<and> fr_trade_id r = ''3'' \<and> fr_ts_event r = 5000000"
proof -
  let ?ds = "[[(''volume'', JFloat 1)], deal_example]"
  have "\<exists>r. make_fill listed_example ''EURUSD.METATRADER_5'' 7 1 deal_example = Inr (Some r)"
    by (simp add: make_fill_def deal_example_def get_default_def listed_example_def instrument_example_def)
  then obtain r where "make_fill listed_example ''EURUSD.METATRADER_5'' 7 1 deal_example = Inr (Some r)" by blast
  moreover have seven: "int_str 7 = ''7''" "int_str 3 = ''3''" by code_simp+
  ultimately have "fill_of_deal report_env_example None (Some ''7'') deal_example = Inr (Some r)"
    by (simp add: fill_of_deal_def deal_example_def get_default_def eurusd_known zero_pyfloat_def one_pyfloat_def)
  moreover have "fill_of_deal report_env_example None (Some ''7'') [(''volume'', JFloat 1)] = Inr None"
    by (simp add: fill_of_deal_def get_default_def zero_pyfloat_def one_pyfloat_def)
  ultimately have r: "generate_fill_reports report_env_example (\<lambda>_ _. Inr (Some ?ds)) 9 None (Some ''7'') None None = Inr [r]"
    by (simp add: generate_fill_reports_def collect_simps get_history_deals_def)
  have only: "filter (reported_deal report_env_example None (Some ''7'')) ?ds = [deal_example]"
    by (simp add: reported_deal_def deal_example_def get_default_def eurusd_known zero_pyfloat_def one_pyfloat_def seven)
  have "deal_report report_env_example deal_example r"
    using fills_come_from_deals [OF r] only by (simp add: get_history_deals_def)
  then have "fr_side r = SELL \<and> fr_instrument_id r = ''EURUSD.METATRADER_5'' \<and> fr_trade_id r = ''3'' \<and> fr_ts_event r = 5000000"
    by (auto simp: deal_report_def deal_example_def get_default_def seven)
  then show ?thesis using r by blast
qed

text \<open>
  The documented behaviour of the platform's mass status: an order report replaces the one with the
  same venue order id, position reports are kept in order for their instrument, and each method leaves
  the other reports alone.
\<close>

definition mass_status_documented :: "'m mass_api \<Rightarrow> bool" where
  "mass_status_documented api \<longleftrightarrow>
     (\<forall>v. ms_order_report api (ms_new api) v = None) \<and> (\<forall>i. ms_position_reports api (ms_new api) i = []) \<and>
     (\<forall>m rs ps fs v. ms_order_report api (ms_add_order_reports api rs m) v =
        (if \<exists>r \<in> set rs. or_venue_order_id r = v then Some (last (filter (\<lambda>r. or_venue_order_id r = v) rs))
         else ms_order_report api m v) \<and>
        ms_order_report api (ms_add_position_reports api ps m) v = ms_order_report api m v \<and>
        ms_order_report api (ms_add_fill_reports api fs m) v = ms_order_report api m v) \<and>
     (\<forall>m rs ps fs i. ms_position_reports api (ms_add_position_reports api ps m) i =
          ms_position_reports api m i @ filter (\<lambda>p. pr_instrument_id p = i) ps \<and>
        ms_position_reports api (ms_add_order_reports api rs m) i = ms_position_reports api m i \<and>
        ms_position_reports api (ms_add_fill_reports api fs m) i = ms_position_reports api m i)"

text \<open>No query for positions is under way: there was none, or its future has its rows.\<close>

definition positions_settled :: "client \<Rightarrow> bool" where
  "positions_settled c \<longleftrightarrow>
     request_named ''OpenPositions'' c = Inr None \<or>
     (\<exists>q rows. request_named ''OpenPositions'' c = Inr (Some q) \<and> futures c (rq_future q) = FDone rows \<and>
        rq_future q < next_future c)"

lemma settled_query_rows:
  assumes "client_wf c" and "positions_settled c"
  shows "\<exists>c1 rows. request_rows ''OpenPositions'' answer False c = Inr (c1, Some rows) \<and>
    (\<forall>later late. request_rows ''OpenPositions'' later late c1 = Inr (c1, Some rows)) \<and>
    (\<forall>answer' late' c2 rows' later late.
       request_rows ''OpenOrders'' answer' late' c1 = Inr (c2, rows') \<longrightarrow>
       request_rows ''OpenPositions'' later late c2 = Inr (c2, Some rows))"
proof (cases "request_named ''OpenPositions'' c = Inr None")
  case True
  then show ?thesis using first_query_rows [OF assms(1) True, of "''OpenOrders''" answer] by auto
next
  case False
  then obtain q rows where q: "request_named ''OpenPositions'' c = Inr (Some q)" "futures c (rq_future q) = FDone rows"
      "rq_future q < next_future c"
    using assms(2) by (auto simp: positions_settled_def)
  have dn: "fut_done (futures c (rq_future q))" "rq_future q \<noteq> next_future c" using q by (simp_all add: fut_done_def)
  have "request_rows ''OpenPositions'' later late c2 = Inr (c2, Some rows)"
    if "request_rows ''OpenOrders'' answer' late' c = Inr (c2, rows')" for answer' late' c2 rows' later late
    using request_rows_keeps [OF assms(1) q(1) dn _ _ that] q(2) request_rows_again by simp
  then show ?thesis using request_rows_again [OF q(1,2)] by blast
qed

text \<open>Two loops over the same list, round by round.\<close>

lemma collect_all2:
  assumes "\<forall>x \<in> set xs. \<forall>a b. f x = Inr a \<and> g x = Inr b \<longrightarrow> rel_option R a b"
    and "collect f xs = Inr ys" and "collect g xs = Inr zs"
  shows "list_all2 R ys zs"
  using assms
proof (induction xs arbitrary: ys zs)
  case (Cons x xs)
  obtain a b where ab: "f x = Inr a" "g x = Inr b"
    using Cons.prems(2,3) by (cases "f x"; cases "g x") (simp_all add: collect_simps)
  then have "rel_option R a b" using Cons.prems(1) by simp
  then show ?case
    using Cons.IH Cons.prems ab
    by (cases a; cases b) (auto simp: collect_simps bindR_eq_Inr)
qed (simp add: collect_simps)

lemma list_all2_filter:
  "list_all2 R xs ys \<Longrightarrow> (\<And>x y. R x y \<Longrightarrow> P x = Q y) \<Longrightarrow> list_all2 R (filter P xs) (filter Q ys)"
  by (induction rule: list_all2_induct) auto

text \<open>A filled order report and the position report of the same position.\<close>

definition leg_reports :: "order_status_report \<Rightarrow> position_report \<Rightarrow> bool" where
  "leg_reports r p \<longleftrightarrow>
     or_venue_order_id r = pr_instrument_id p \<and> or_instrument_id r = pr_instrument_id p \<and> or_status r = FILLED \<and>
     or_quantity r = pr_quantity p \<and> or_filled_qty r = pr_quantity p \<and> or_side r = (if pr_long p then BUY else SELL)"

lemma leg_reports_match:
  "filled_report env p = Inr a \<Longrightarrow> position_status_report env None p = Inr b \<Longrightarrow> rel_option leg_reports a b"
proof (cases "position_side (pos_quantity p)")
  case (Inr side)
  assume a: "filled_report env p = Inr a" and b: "position_status_report env None p = Inr b"
  show ?thesis
  proof (cases side)
    case None
    then show ?thesis using a b Inr by (simp add: filled_report_def position_status_report_def)
  next
    case (Some long)
    then obtain i where i: "symbol_instrument_id (pos_symbol p) = Inr i"
      using a Inr by (auto simp: filled_report_def bindR_eq_Inr)
    show ?thesis
    proof (cases "ee_instrument (rp_exec env) i")
      case None
      then show ?thesis using a b Inr Some i by (simp add: filled_report_def position_status_report_def)
    next
      case (Some ins)
      then show ?thesis
        using a b Inr \<open>side = Some long\<close> i
        by (auto simp: filled_report_def position_status_report_def bindR_eq_Inr leg_reports_def)
    qed
  qed
qed (simp add: filled_report_def)

lemma open_report_venue_id:
  assumes "traverse (parse_mt5_order_to_order_status_report env) ms = Inr rs" and "r \<in> set rs"
  shows "or_venue_order_id r \<noteq> instrument_id_value iid"
proof -
  obtain m where "parse_mt5_order_to_order_status_report env m = Inr r"
    using assms by (fastforce simp: traverse_eq_Inr list_all2_conv_all_nth in_set_conv_nth)
  then have "or_venue_order_id r = int_str (order_id m)"
    by (auto simp: parse_mt5_order_to_order_status_report_def Let_def bindR_eq_Inr split: option.splits if_splits)
  moreover have "CHR ''.'' \<notin> set (int_str (order_id m))" by (rule sep_notin_int_str) (simp_all add: is_digit_def digit_val_def)
  moreover have "CHR ''.'' \<in> set (instrument_id_value iid)" by (simp add: instrument_id_value_def)
  ultimately show ?thesis by metis
qed

text \<open>
  C9: what the mass status keeps of an instrument is its last position. Under the instrument's id it has
  an order exactly when it has positions of the instrument, and that order is filled, with the side and
  quantity of the last of them, even when the terminal's positions changed between the two queries: the
  second query answers with the first one's rows. So an instrument with several positions, as on a hedging
  account, loses the filled orders of all but the last, since their reports share the instrument's id as
  venue order id. The bridge answers the query for positions in time, or an earlier query has its answer.
\<close>

theorem mass_status_consistent:
  assumes "mass_status_documented api" and "client_wf c" and "positions_settled c"
    and "generate_mass_status api env (first, False) orders history later now lookback c = Inr (c2, m)"
  shows "let ps = ms_position_reports api m (instrument_id_value iid);
             kept = ms_order_report api m (instrument_id_value iid) in
    if ps = [] then kept = None
    else (\<exists>r. kept = Some r \<and> leg_reports r (last ps))"
proof -
  let ?acc = "ee_account (rp_exec env)" and ?i = "instrument_id_value iid"
  obtain c1 rows where q1: "request_rows ''OpenPositions'' first False c = Inr (c1, Some rows)"
    and q2: "\<And>l la. request_rows ''OpenPositions'' l la c1 = Inr (c1, Some rows)"
    and q3: "\<And>a la c2 rs l lb. request_rows ''OpenOrders'' a la c1 = Inr (c2, rs) \<Longrightarrow>
               request_rows ''OpenPositions'' l lb c2 = Inr (c2, Some rows)"
    using settled_query_rows [OF assms(2,3), of first] by (elim exE conjE) simp
  obtain c1' ors frs prs where ors: "generate_order_status_reports env (first, False) orders c = Inr (c1', ors)"
    and prs: "generate_position_status_reports env None (fst later) (snd later) c1' = Inr (c2, prs)"
    and m: "m = ms_add_position_reports api prs (ms_add_fill_reports api frs (ms_add_order_reports api ors (ms_new api)))"
    using assms(4) by (auto simp: generate_mass_status_def bindR_eq_Inr)
  have kept: "ms_order_report api m ?i = (if \<exists>r \<in> set ors. or_venue_order_id r = ?i
      then Some (last (filter (\<lambda>r. or_venue_order_id r = ?i) ors)) else None)"
    and ps: "ms_position_reports api m ?i = filter (\<lambda>p. pr_instrument_id p = ?i) prs"
    using assms(1) unfolding mass_status_documented_def m by simp_all
  obtain xs where xs: "convert_position_rows ?acc rows = Inr xs"
    using ors q1 by (auto simp: generate_order_status_reports_def get_positions_def bindR_eq_Inr)
  have "\<exists>filled opens. ors = filled @ opens \<and> (\<forall>r \<in> set opens. or_venue_order_id r \<noteq> ?i) \<and> list_all2 leg_reports filled prs"
  proof (cases "xs = []")
    case True
    then have "ors = []" "c1' = c1" using ors q1 xs by (simp_all add: generate_order_status_reports_def get_positions_def)
    then have "prs = []" using prs q2 xs True by (simp add: generate_position_status_reports_def get_positions_def)
    then show ?thesis using \<open>ors = []\<close> by simp
  next
    case False
    then obtain filled ms opens where filled: "collect (filled_report env) xs = Inr filled"
      and c3: "(case get_open_orders ?acc (fst orders) (snd orders) c1 of
                Inl e \<Rightarrow> if e = RuntimeError then Inr (c1, []) else Inl e | Inr r \<Rightarrow> Inr r) = Inr (c1', ms)"
      and opens: "traverse (parse_mt5_order_to_order_status_report env) ms = Inr opens" and ors_eq: "ors = filled @ opens"
      using ors q1 xs by (auto simp: generate_order_status_reports_def get_positions_def bindR_eq_Inr)
    have again: "request_rows ''OpenPositions'' l la c1' = Inr (c1', Some rows)" for l la
    proof (cases "get_open_orders ?acc (fst orders) (snd orders) c1")
      case (Inl e)
      then have "c1' = c1" using c3 by (auto split: if_splits)
      then show ?thesis using q2 by simp
    next
      case (Inr x)
      then have "get_open_orders ?acc (fst orders) (snd orders) c1 = Inr (c1', ms)" using c3 by simp
      then obtain rs where "request_rows ''OpenOrders'' (fst orders) (snd orders) c1 = Inr (c1', rs)"
        by (auto simp: get_open_orders_def bindR_eq_Inr split: option.splits)
      then show ?thesis by (rule q3)
    qed
    have "get_positions ?acc (fst later) (snd later) c1' = Inr (c1', Some xs)"
      unfolding get_positions_def again using xs False by simp
    then have "collect (position_status_report env None) xs = Inr prs"
      using prs by (auto simp: generate_position_status_reports_def bindR_eq_Inr)
    then have "list_all2 leg_reports filled prs"
      using collect_all2 [OF _ filled, of "position_status_report env None" leg_reports] leg_reports_match by blast
    then show ?thesis using ors_eq open_report_venue_id [OF opens] by blast
  qed
  then obtain filled opens where split: "ors = filled @ opens" "\<forall>r \<in> set opens. or_venue_order_id r \<noteq> ?i"
      and legs: "list_all2 leg_reports filled prs" by blast
  let ?rs = "filter (\<lambda>r. or_venue_order_id r = ?i) filled" and ?ps = "filter (\<lambda>p. pr_instrument_id p = ?i) prs"
  have legs': "list_all2 leg_reports ?rs ?ps" by (rule list_all2_filter [OF legs]) (simp add: leg_reports_def)
  have ors_i: "filter (\<lambda>r. or_venue_order_id r = ?i) ors = ?rs" using split by simp
  have has: "(\<exists>r \<in> set ors. or_venue_order_id r = ?i) \<longleftrightarrow> ?rs \<noteq> []"
    unfolding ors_i [symmetric] filter_empty_conv by blast
  show ?thesis
  proof (cases "?ps = []")
    case True
    then have "?rs = []" using list_all2_lengthD [OF legs'] by simp
    then have "\<not> (\<exists>r \<in> set ors. or_venue_order_id r = ?i)" using has by blast
    then show ?thesis using True kept ps by simp
  next
    case False
    then have "?rs \<noteq> []" using list_all2_lengthD [OF legs'] by (metis length_0_conv)
    then have "\<exists>r \<in> set ors. or_venue_order_id r = ?i" using has by blast
    then have "ms_order_report api m ?i = Some (last ?rs)" using kept ors_i by simp
    moreover have "leg_reports (last ?rs) (last ?ps)"
      using legs' False \<open>?rs \<noteq> []\<close> list_all2_lengthD [OF legs']
      by (simp add: last_conv_nth list_all2_conv_all_nth)
    ultimately show ?thesis using False ps by (simp add: Let_def)
  qed
qed

lemmas request_run_simps = request_rows_def request_named_def requests_get_def present_name_def resolve_id_def
  name_to_req_id_def requests_empty_def client_init_def next_req_id_def requests_add_def add_req_id_def
  validation_check_def dict_index_def set_future_def fut_done_def await_request_def

text \<open>Dictionaries that keep the reports as the platform does.\<close>

definition mass_dicts :: "((string \<Rightarrow> order_status_report option) \<times> (string \<Rightarrow> position_report list)) mass_api" where
  "mass_dicts =
     \<lparr>ms_new = (\<lambda>_. None, \<lambda>_. []),
      ms_add_order_reports = (\<lambda>rs (os, ps). (foldl (\<lambda>d r. d(or_venue_order_id r \<mapsto> r)) os rs, ps)),
      ms_add_fill_reports = (\<lambda>_ m. m),
      ms_add_position_reports = (\<lambda>rs (os, ps). (os, \<lambda>i. ps i @ filter (\<lambda>p. pr_instrument_id p = i) rs)),
      ms_order_report = fst, ms_position_reports = snd\<rparr>"

lemma foldl_upd:
  "foldl (\<lambda>d r. d(f r \<mapsto> r)) os rs v =
     (if \<exists>r \<in> set rs. f r = v then Some (last (filter (\<lambda>r. f r = v) rs)) else os v)"
  by (induction rs arbitrary: os) (auto simp: filter_empty_conv)

lemma mass_dicts_documented: "mass_status_documented mass_dicts"
  by (auto simp: mass_status_documented_def mass_dicts_def foldl_upd split: prod.split)

text \<open>A hedging account with two legs of one symbol.\<close>

abbreviation two_legs :: "row list option result" where
  "two_legs \<equiv> Inr (Some [RowDict [(''symbol'', JStr ''EURUSD''), (''volume'', JInt 2)],
                          RowDict [(''symbol'', JStr ''EURUSD''), (''volume'', JInt 3)]])"

definition mass_example where
  "mass_example = generate_mass_status mass_dicts report_env_example (two_legs, False) (Inr None, False)
      (\<lambda>_ _. Inr None) (Inr None, False) 9 None client_init"

lemma mass_example_runs:
  "\<exists>c2 m. mass_example = Inr (c2, m) \<and>
     ms_position_reports mass_dicts m ''EURUSD.METATRADER_5'' =
       [\<lparr>pr_instrument_id = ''EURUSD.METATRADER_5'', pr_long = True, pr_quantity = Fin 2\<rparr>,
        \<lparr>pr_instrument_id = ''EURUSD.METATRADER_5'', pr_long = True, pr_quantity = Fin 3\<rparr>]"
proof -
  let ?p = "\<lambda>q. \<lparr>pos_account_id = ''55'', pos_symbol = ''EURUSD'', pos_quantity = Fin q, pos_avg_cost = 0, pos_commission = 0\<rparr>"
  let ?pr = "\<lambda>q. \<lparr>pr_instrument_id = ''EURUSD.METATRADER_5'', pr_long = True, pr_quantity = Fin q\<rparr>"
  have acc: "ee_account (rp_exec report_env_example) = ''55''"
    by (simp add: report_env_example_def env_example_def)
  have conv: "convert_position_rows ''55'' (fetch_rows two_legs) = Inr [?p 2, ?p 3]"
    by (simp add: fetch_rows_def row_to_position_def get_default_def jzero_def)
  obtain c1 where p1: "request_rows ''OpenPositions'' two_legs False client_init = Inr (c1, Some (fetch_rows two_legs))"
    "request_rows ''OpenPositions'' (Inr None) False c1 = Inr (c1, Some (fetch_rows two_legs))"
    and "\<exists>c2. request_rows ''OpenOrders'' (Inr None) False c1 = Inr (c2, Some []) \<and>
         request_rows ''OpenPositions'' (Inr None) False c2 = Inr (c2, Some (fetch_rows two_legs))"
    by (simp add: request_run_simps fetch_rows_def)
  then obtain c2 where p2: "request_rows ''OpenOrders'' (Inr None) False c1 = Inr (c2, Some [])"
    "request_rows ''OpenPositions'' (Inr None) False c2 = Inr (c2, Some (fetch_rows two_legs))" by blast
  have side: "position_side (Fin q) = Inr (Some True)" if "0 < q" for q
    using that by (simp add: position_side_def zero_pyfloat_def)
  have filled: "\<exists>r. filled_report report_env_example (?p q) = Inr (Some r)" if "0 < q" for q
    by (simp add: filled_report_def side that eurusd_known) (simp add: report_env_example_def)
  have pr: "position_status_report report_env_example None (?p q) = Inr (Some (?pr q))" if "0 < q" for q
    using that by (simp add: position_status_report_def side eurusd_known)
      (simp add: report_env_example_def listed_example_def)
  obtain r2 r3 where fr: "filled_report report_env_example (?p 2) = Inr (Some r2)"
      "filled_report report_env_example (?p 3) = Inr (Some r3)" using filled by fastforce
  have "generate_order_status_reports report_env_example (two_legs, False) (Inr None, False) client_init = Inr (c2, [r2, r3])"
    using p1 p2 conv fr by (simp add: generate_order_status_reports_def get_positions_def get_open_orders_def acc collect_def)
  moreover have "generate_position_status_reports report_env_example None (Inr None) False c2 = Inr (c2, [?pr 2, ?pr 3])"
    using p2 conv pr by (simp add: generate_position_status_reports_def get_positions_def acc collect_def)
  ultimately show ?thesis
    by (simp add: mass_example_def generate_mass_status_def generate_fill_reports_def get_history_deals_def collect_def
        mass_dicts_def split: prod.split)
qed

lemma mass_status_consistent_witness:
  "\<exists>c2 m r. mass_example = Inr (c2, m) \<and> length (ms_position_reports mass_dicts m ''EURUSD.METATRADER_5'') = 2 \<and>
     ms_order_report mass_dicts m ''EURUSD.METATRADER_5'' = Some r \<and> or_status r = FILLED \<and> or_quantity r = Fin 3"
proof -
  obtain c2 m where m: "mass_example = Inr (c2, m)" "ms_position_reports mass_dicts m ''EURUSD.METATRADER_5'' =
       [\<lparr>pr_instrument_id = ''EURUSD.METATRADER_5'', pr_long = True, pr_quantity = Fin 2\<rparr>,
        \<lparr>pr_instrument_id = ''EURUSD.METATRADER_5'', pr_long = True, pr_quantity = Fin 3\<rparr>]"
    using mass_example_runs by blast
  have id: "instrument_id_value \<lparr>iid_symbol = ''EURUSD'', iid_venue = ''METATRADER_5''\<rparr> = ''EURUSD.METATRADER_5''"
    by (simp add: instrument_id_value_def)
  have settled: "positions_settled client_init" using fresh_client_query by (simp add: positions_settled_def)
  obtain r where "ms_order_report mass_dicts m ''EURUSD.METATRADER_5'' = Some r" "or_status r = FILLED" "or_quantity r = Fin 3"
    using mass_status_consistent [OF mass_dicts_documented client_init_wf settled m(1) [unfolded mass_example_def],
        of "\<lparr>iid_symbol = ''EURUSD'', iid_venue = ''METATRADER_5''\<rparr>"] m(2)
    by (auto simp: id leg_reports_def)
  moreover have "length (ms_position_reports mass_dicts m ''EURUSD.METATRADER_5'') = 2" by (simp add: m(2))
  ultimately show ?thesis using m(1) by blast
qed

end
