(* ===== verification/Exec_Account.thy ===== *)
theory Exec_Account
  imports Exec_Reports
begin

text \<open>
  The rest of the execution client (\<^verbatim>\<open>nautilus_mt5/execution.py\<close>): connecting, with the check of the
  account; the account's summary and the balances generated from it; open orders and executions that
  the client reports; and disconnecting.

  What the components called on the way answer is an argument: the connection, the instrument
  provider, the bridge's account. An amount of money is what the platform's constructor makes of a
  number and a currency, and a balance what it makes of three amounts, whose sum it checks after rounding
  them; both constructors are parameters that may refuse.
\<close>

section \<open>State\<close>

record exec_state =
  es_client :: client
  es_summary :: "(string, (string, json) dict) dict"
  es_summary_loaded :: bool
  es_registered :: "string set"
  es_connected :: bool

record account_state =
  as_currency :: string
  as_total :: pyfloat
  as_free :: pyfloat
  as_locked :: pyfloat
  as_initial :: pyfloat
  as_maintenance :: pyfloat

section \<open>Account summary\<close>

definition account_summary_tags :: "string list" where
  "account_summary_tags = [''NetLiquidation'', ''FullAvailableFunds'', ''FullInitMarginReq'', ''FullMaintMarginReq'']"

text \<open>Only numbers can be compared, subtracted and made into money.\<close>

fun summary_number :: "json option \<Rightarrow> pyfloat result" where
  "summary_number (Some (JFloat x)) = Inr x"
| "summary_number _ = Inl TypeError"

text \<open>\<^verbatim>\<open>Money\<close> of a number and a currency, and \<^verbatim>\<open>AccountBalance\<close> of total, free and locked.\<close>

record money_api =
  mn_money :: "pyfloat \<Rightarrow> string \<Rightarrow> unit result"
  mn_balance :: "pyfloat \<Rightarrow> pyfloat \<Rightarrow> pyfloat \<Rightarrow> string \<Rightarrow> unit result"

definition summary_round :: "money_api \<Rightarrow> string \<Rightarrow> (string, json) dict \<Rightarrow> account_state option result" where
  "summary_round money currency d =
     (if currency = [] \<or> \<not> set account_summary_tags \<subseteq> set (dict_keys d) then Inr None
      else
        bindR (summary_number (dict_get d ''FullMaintMarginReq'')) (\<lambda>maint.
        bindR (summary_number (dict_get d ''NetLiquidation'')) (\<lambda>total.
        let locked = (if total < maint then total else maint); free = fsub total locked in
        bindR (mn_money money total currency) (\<lambda>_. bindR (mn_money money free currency) (\<lambda>_.
        bindR (mn_money money locked currency) (\<lambda>_. bindR (mn_balance money total free locked currency) (\<lambda>_.
        bindR (summary_number (dict_get d ''FullInitMarginReq'')) (\<lambda>initial.
        bindR (mn_money money initial currency) (\<lambda>_. bindR (mn_money money maint currency) (\<lambda>_.
          Inr (Some \<lparr>as_currency = currency, as_total = total, as_free = free, as_locked = locked,
                     as_initial = initial, as_maintenance = maint\<rparr>)))))))))))"

text \<open>One round per currency; an exception ends the loop and leaves the handler.\<close>

fun summary_loop ::
    "money_api \<Rightarrow> (string \<times> (string, json) dict) list \<Rightarrow> account_state list \<times> unit result" where
  "summary_loop money [] = ([], Inr ())"
| "summary_loop money ((currency, d) # rest) =
     (case summary_round money currency d of
        Inl e \<Rightarrow> ([], Inl e)
      | Inr None \<Rightarrow> summary_loop money rest
      | Inr (Some a) \<Rightarrow> (case summary_loop money rest of (as, r) \<Rightarrow> (a # as, r)))"

definition summary_value :: "string \<Rightarrow> json" where
  "summary_value v = (case float_of_str v of Inr x \<Rightarrow> JFloat x | Inl _ \<Rightarrow> JStr v)"

definition store_summary :: "string \<Rightarrow> json \<Rightarrow> string \<Rightarrow> (string, (string, json) dict) dict \<Rightarrow> (string, (string, json) dict) dict" where
  "store_summary tag v currency s =
     dict_set currency (dict_set tag v (get_default s currency [])) s"

definition on_account_summary ::
    "money_api \<Rightarrow> string \<Rightarrow> string \<Rightarrow> string \<Rightarrow> exec_state \<Rightarrow>
     exec_state \<times> account_state list \<times> unit result" where
  "on_account_summary money tag value currency es =
     (let es1 = es\<lparr>es_summary := store_summary tag (summary_value value) currency (es_summary es)\<rparr>
      in case summary_loop money (es_summary es1) of
           (evs, Inr _) \<Rightarrow> (es1\<lparr>es_summary_loaded := True\<rparr>, evs, Inr ())
         | (evs, Inl e) \<Rightarrow> (es1, evs, Inl e))"

section \<open>Connecting\<close>

definition event_hooks :: "string \<Rightarrow> string list" where
  "event_hooks account =
     [''accountSummary-'' @ account, ''openOrder-'' @ account, ''orderStatus-'' @ account, ''execDetails-'' @ account]"

fun summary_calls ::
    "money_api \<Rightarrow> (string \<times> string) list \<Rightarrow> string \<Rightarrow> exec_state \<Rightarrow>
     exec_state \<times> account_state list \<times> unit result" where
  "summary_calls money [] currency es = (es, [], Inr ())"
| "summary_calls money ((tag, value) # rest) currency es =
     (case on_account_summary money tag value currency es of
        (es1, evs, Inl e) \<Rightarrow> (es1, evs, Inl e)
      | (es1, evs, Inr _) \<Rightarrow>
          (case summary_calls money rest currency es1 of (es2, evs2, r) \<Rightarrow> (es2, evs @ evs2, r)))"

definition initial_summary :: "(string, json) dict \<Rightarrow> json \<Rightarrow> (string \<times> string) list" where
  "initial_summary info balance =
     [(''FullInitMarginReq'', py_str (get_default info ''margin_initial'' (JFloat 0))),
      (''FullMaintMarginReq'', py_str (get_default info ''margin_maintenance'' (JFloat 0))),
      (''NetLiquidation'', py_str (get_default info ''equity'' balance)),
      (''FullAvailableFunds'', py_str (get_default info ''margin_free'' (JFloat 0)))]"

record connect_env =
  ce_id :: string
  ce_account :: string
  ce_config_account :: string
  ce_money :: money_api
  ce_connect :: "unit result"
  ce_provider :: "unit result"
  ce_subscribe_summary :: "unit result"
  ce_account_info :: "(string, json) dict option"

text \<open>The check of the login, and the balances sent when it passes.\<close>

definition validate_login :: "string \<Rightarrow> (string, json) dict option \<Rightarrow> (string, json) dict result" where
  "validate_login config_account account_info =
     (case account_info of
        None \<Rightarrow> Inl RuntimeError
      | Some info \<Rightarrow>
          (case dict_get info ''login'' of
             None \<Rightarrow> Inl RuntimeError
           | Some login \<Rightarrow>
               bindR (int_of_str config_account) (\<lambda>expected.
               bindR (py_int login) (\<lambda>actual.
                 if expected \<noteq> actual then Inl ConnectionError else Inr info))))"

definition load_balances :: "connect_env \<Rightarrow> (string, json) dict \<Rightarrow> exec_state \<Rightarrow> exec_state \<times> account_state list \<times> unit result" where
  "load_balances ce info es =
     (case dict_get info ''balance'' of
        None \<Rightarrow> (es, [], Inr ())
      | Some balance \<Rightarrow>
          summary_calls (ce_money ce) (initial_summary info balance)
            (py_str (get_default info ''currency'' (JStr ''USD''))) es)"

definition exec_connect :: "connect_env \<Rightarrow> exec_state \<Rightarrow> exec_state \<times> account_state list \<times> unit result" where
  "exec_connect ce es =
     (case ce_connect ce of Inl e \<Rightarrow> (es, [], Inl e) | Inr _ \<Rightarrow>
     (let es1 = es\<lparr>es_registered := insert (ce_id ce) (es_registered es)\<rparr> in
      case ce_provider ce of Inl e \<Rightarrow> (es1, [], Inl e) | Inr _ \<Rightarrow>
     (let es2 = es1\<lparr>es_client := fold subscribe_event (event_hooks (ce_account ce)) (es_client es1)\<rparr> in
      case bindR (ce_subscribe_summary ce) (\<lambda>_. validate_login (ce_config_account ce) (ce_account_info ce)) of
        Inl e \<Rightarrow> (es2, [], Inl e)
      | Inr info \<Rightarrow>
          (case load_balances ce info es2 of
             (es3, evs, Inl e) \<Rightarrow> (es3, evs, Inl e)
           | (es3, evs, Inr _) \<Rightarrow> (es3\<lparr>es_connected := True\<rparr>, evs, Inr ())))))"

text \<open>Disconnecting: the requests written, the clients left, and whether the client is stopped.\<close>

definition exec_disconnect ::
    "exec_env \<Rightarrow> bool \<Rightarrow> bool \<Rightarrow> bool \<Rightarrow> raw_position list result \<Rightarrow> bool \<Rightarrow> string \<Rightarrow> string set \<Rightarrow>
     mt5_request list \<times> string set \<times> bool" where
  "exec_disconnect env cancel_stop close_stop usable positions running me registered =
     ((if cancel_stop then cancel_on_stop env (ee_orders_open env) else []) @
      (if close_stop then close_all_positions_on_stop usable positions else []),
      registered - {me}, running \<and> registered - {me} = {})"

section \<open>Open orders\<close>

text \<open>
  The events, the report that a task sends for an order the cache does not have, and the exception.
  \<open>find_instrument\<close> is the instrument provider's table.
\<close>

definition price_or_none :: "n_instrument option \<Rightarrow> pyfloat \<Rightarrow> pyfloat option result" where
  "price_or_none ins x =
     (if x = 0 then Inr None
      else (case ins of None \<Rightarrow> Inl AttributeError | Some i \<Rightarrow> bindR (ni_make_price i (JFloat x)) (\<lambda>p. Inr (Some p))))"

definition on_open_order ::
    "report_env \<Rightarrow> (string \<Rightarrow> n_instrument option) \<Rightarrow> (pyfloat \<Rightarrow> bool) \<Rightarrow> string \<Rightarrow> mt5_order \<Rightarrow>
     exec_event list \<times> order_status_report result option \<times> unit result" where
  "on_open_order env find_instrument truthy ref m =
     (if orderRef m = [] then ([], None, Inr ())
      else
        (case ee_order (rp_exec env) ref of
           None \<Rightarrow> ([], Some (parse_mt5_order_to_order_status_report env m), Inr ())
         | Some order \<Rightarrow>
             if o_state m \<noteq> 0 \<and> o_state m \<noteq> 1 then ([], None, Inr ())
             else
               (let ins = find_instrument (no_instrument_id order) in
                case bindR (quantity_of_volume env (o_volume m)) (\<lambda>qty.
                     bindR (price_or_none ins (o_price m)) (\<lambda>price.
                     bindR (price_or_none ins (o_trigger_price m)) (\<lambda>trigger. Inr (qty, price, trigger)))) of
                  Inl e \<Rightarrow> ([], None, Inl e)
                | Inr (qty, price, trigger) \<Rightarrow>
                    ((if qty \<noteq> no_quantity order \<or> given truthy price \<or> given truthy trigger
                      then [OrderUpdated (no_client_order_id order) (int_str (order_id m)) qty price trigger
                              (no_venue_order_id order \<noteq> Some (int_str (order_id m)))]
                      else []) @
                     handle_order_event ACCEPTED order (int_str (order_id m)) (JStr []),
                     None, Inr ()))))"

section \<open>Executions\<close>

text \<open>
  An execution is an object with attributes. Where the handler logs one it reads the object's
  dictionary, which a named tuple does not have. \<open>timestamp\<close> is the platform's reading of a time's
  text; the code splits the text at a space first, which a number does not support.
\<close>

record exec_object =
  eo_attrs :: "(string, json) dict"
  eo_has_dict :: bool

record fill_env =
  fl_instrument :: "string \<Rightarrow> n_instrument option"
  fl_quantity :: "n_instrument \<Rightarrow> json \<Rightarrow> pyfloat result"
  fl_price :: "n_instrument \<Rightarrow> json \<Rightarrow> pyfloat result"
  fl_timestamp :: "string \<Rightarrow> string \<Rightarrow> int result"

definition timestring_to_timestamp :: "fill_env \<Rightarrow> json \<Rightarrow> int result" where
  "timestring_to_timestamp fl t =
     (case t of
        JStr s \<Rightarrow>
          (if CHR '' '' \<in> set s
           then fl_timestamp fl (rsplit_head (CHR '' '') s) (drop (length (rsplit_head (CHR '' '') s) + 1) s)
           else Inl (ValueError ''not enough values to unpack''))
      | _ \<Rightarrow> Inl AttributeError)"

definition execution_logged :: "exec_object \<Rightarrow> exec_event list \<times> unit result" where
  "execution_logged ex = ([], if eo_has_dict ex then Inr () else Inl AttributeError)"

definition on_exec_details ::
    "exec_env \<Rightarrow> fill_env \<Rightarrow> string \<Rightarrow> exec_object \<Rightarrow> commission_report \<Rightarrow> exec_event list \<times> unit result" where
  "on_exec_details env fl ref ex cr =
     (case attribute (eo_attrs ex) ''order_id'' of
        Inl e \<Rightarrow> ([], Inl e)
      | Inr oid \<Rightarrow>
          if py_str oid = [] then execution_logged ex
          else
            (case ee_order env ref of
               None \<Rightarrow> execution_logged ex
             | Some order \<Rightarrow>
                 (case fl_instrument fl (no_instrument_id order) of
                    None \<Rightarrow> ([], Inr ())
                  | Some ins \<Rightarrow>
                      (case
                         bindR (attribute (eo_attrs ex) ''exec_id'') (\<lambda>eid.
                         bindR (attribute (eo_attrs ex) ''quantity'') (\<lambda>q.
                         bindR (fl_quantity fl ins q) (\<lambda>qty.
                         bindR (attribute (eo_attrs ex) ''price'') (\<lambda>p.
                         bindR (fl_price fl ins p) (\<lambda>px.
                         bindR (attribute (eo_attrs ex) ''time'') (\<lambda>t.
                         bindR (timestring_to_timestamp fl t) (\<lambda>ts.
                           Inr \<lparr>fe_client_order_id = no_client_order_id order, fe_venue_order_id = py_str oid,
                                fe_trade_id = py_str eid,
                                fe_side = (if jzero (get_default (eo_attrs ex) ''side'' (JInt 0)) then BUY else SELL),
                                fe_type = no_type order, fe_last_qty = qty, fe_last_px = px,
                                fe_commission = cr_commission cr, fe_currency = cr_currency cr\<rparr>))))))) of
                         Inl e \<Rightarrow> ([], Inl e)
                       | Inr f \<Rightarrow> ([OrderFilled f], Inr ())))))"

section \<open>Properties\<close>

lemma summary_round_facts:
  "summary_round money currency d = Inr (Some a) \<Longrightarrow>
   as_locked a = (if as_total a < as_maintenance a then as_total a else as_maintenance a) \<and>
   as_free a = fsub (as_total a) (as_locked a) \<and> as_currency a = currency"
  by (auto simp: summary_round_def bindR_eq_Inr Let_def split: if_splits)

lemma summary_loop_in:
  "a \<in> set (fst (summary_loop money cs)) \<Longrightarrow>
   \<exists>currency d. (currency, d) \<in> set cs \<and> summary_round money currency d = Inr (Some a)"
  by (induction money cs rule: summary_loop.induct) (auto split: sum.splits option.splits prod.splits)

text \<open>
  C19: the balances generated from an account summary add up: with a finite equity and a margin that
  is a number, the locked part is the margin or, when the margin exceeds it, the whole equity, and the
  free part is the rest and not negative.
\<close>

theorem account_state_balanced:
  assumes "on_account_summary money tag value currency es = (es', evs, r)" and "a \<in> set evs"
    and "as_total a = Fin t" and "as_maintenance a \<noteq> NaN"
  shows "as_locked a \<le> as_total a \<and> 0 \<le> as_free a \<and> as_free a = fsub (as_total a) (as_locked a) \<and>
    as_locked a = (if as_total a < as_maintenance a then as_total a else as_maintenance a)"
proof -
  have "evs = fst (summary_loop money (store_summary tag (summary_value value) currency (es_summary es)))"
    using assms(1) by (auto simp: on_account_summary_def Let_def split: prod.splits sum.splits)
  then obtain cur d where "summary_round money cur d = Inr (Some a)"
    using assms(2) summary_loop_in by blast
  note f = summary_round_facts [OF this]
  have le: "as_locked a \<le> as_total a"
  proof (cases "as_total a < as_maintenance a")
    case False
    then show ?thesis using f assms(3,4) pyfloat_le_cases [of "as_maintenance a" "as_total a"] by simp
  qed (use f assms(3) in simp)
  moreover have "0 \<le> as_free a"
    using fsub_nonneg [OF le] f assms(3) by simp
  ultimately show ?thesis using f by simp
qed

definition money_example :: money_api where
  "money_example = \<lparr>mn_money = (\<lambda>_ _. Inr ()),
     mn_balance = (\<lambda>total free locked _. if fsub total locked = free then Inr () else Inl (ValueError []))\<rparr>"

definition exec_state_example :: exec_state where
  "exec_state_example =
     \<lparr>es_client = client_init,
      es_summary = [(''USD'', [(''NetLiquidation'', JFloat (Fin 10)), (''FullAvailableFunds'', JFloat (Fin 1)),
                               (''FullInitMarginReq'', JFloat (Fin 1))])],
      es_summary_loaded = False, es_registered = {}, es_connected = False\<rparr>"

lemma account_state_balanced_witness:
  "\<exists>es' a. on_account_summary money_example ''FullMaintMarginReq'' ''inf'' ''USD'' exec_state_example = (es', [a], Inr ()) \<and>
     as_total a = Fin 10 \<and> as_locked a = Fin 10 \<and> 0 \<le> as_free a"
proof -
  have v: "summary_value ''inf'' = JFloat PosInf" by code_simp
  let ?d = "[(''NetLiquidation'', JFloat (Fin 10)), (''FullAvailableFunds'', JFloat (Fin 1)),
             (''FullInitMarginReq'', JFloat (Fin 1)), (''FullMaintMarginReq'', JFloat PosInf)]"
  have st: "store_summary ''FullMaintMarginReq'' (JFloat PosInf) ''USD'' (es_summary exec_state_example) = [(''USD'', ?d)]"
    by (simp add: store_summary_def exec_state_example_def get_default_def)
  define a where "a = \<lparr>as_currency = ''USD'', as_total = Fin 10, as_free = fsub (Fin 10) (Fin 10), as_locked = Fin 10,
      as_initial = Fin 1, as_maintenance = PosInf\<rparr>"
  have a: "summary_round money_example ''USD'' ?d = Inr (Some a)" "as_total a = Fin 10" "as_maintenance a = PosInf"
    by (simp_all add: summary_round_def account_summary_tags_def a_def money_example_def Let_def del: fsub.simps)
  then obtain es' where run: "on_account_summary money_example ''FullMaintMarginReq'' ''inf'' ''USD'' exec_state_example = (es', [a], Inr ())"
    by (simp add: on_account_summary_def v st)
  then show ?thesis using account_state_balanced [OF run, of a 10] a by auto
qed

lemma subscribe_event_in: "name \<in> set (event_subscriptions (subscribe_event name c))"
  by (simp add: subscribe_event_def)

lemma subscribe_event_mono: "set (event_subscriptions c) \<subseteq> set (event_subscriptions (subscribe_event name c))"
  by (auto simp: subscribe_event_def)

lemma subscribe_all_mono:
  "set (event_subscriptions c) \<subseteq> set (event_subscriptions (fold subscribe_event names c))"
proof (induction names arbitrary: c)
  case (Cons n ns)
  then show ?case using subscribe_event_mono [of c n] by fastforce
qed simp

lemma subscribe_all: "set names \<subseteq> set (event_subscriptions (fold subscribe_event names c))"
proof (induction names arbitrary: c)
  case (Cons n ns)
  have "n \<in> set (event_subscriptions (fold subscribe_event ns (subscribe_event n c)))"
    using subscribe_all_mono subscribe_event_in by blast
  then show ?case using Cons by simp
qed simp

lemma on_account_summary_keeps:
  "on_account_summary money tag value currency es = (es', evs, r) \<Longrightarrow>
   es_client es' = es_client es \<and> es_connected es' = es_connected es \<and> es_registered es' = es_registered es"
  by (auto simp: on_account_summary_def Let_def split: prod.splits sum.splits)

lemma summary_calls_keeps:
  "summary_calls money calls currency es = (es', evs, r) \<Longrightarrow>
   es_client es' = es_client es \<and> es_connected es' = es_connected es \<and> es_registered es' = es_registered es"
proof (induction money calls currency es arbitrary: es' evs r rule: summary_calls.induct)
  case (2 money tag val rest currency es)
  obtain es1 evs1 r1 where s1: "on_account_summary money tag val currency es = (es1, evs1, r1)" by (metis surj_pair)
  note k = on_account_summary_keeps [OF s1]
  show ?case
  proof (cases r1)
    case (Inr u)
    obtain es2 evs2 r2 where s2: "summary_calls money rest currency es1 = (es2, evs2, r2)" by (metis surj_pair)
    have "es' = es2" using "2.prems" s1 s2 Inr by simp
    then show ?thesis using "2.IH" [OF s1 [symmetric] refl Inr s2] k by simp
  qed (use "2.prems" s1 k in simp)
qed simp

lemma load_balances_keeps:
  "load_balances ce info es = (es', evs, r) \<Longrightarrow>
   es_client es' = es_client es \<and> es_connected es' = es_connected es \<and> es_registered es' = es_registered es"
  using summary_calls_keeps by (fastforce simp: load_balances_def split: option.splits)

lemma validate_login_ok:
  "validate_login cfg ai = Inr info \<Longrightarrow>
   \<exists>login n. ai = Some info \<and> dict_get info ''login'' = Some login \<and> py_int login = Inr n \<and> int_of_str cfg = Inr n"
  by (auto simp: validate_login_def bindR_eq_Inr split: option.splits if_splits)

text \<open>
  C18: the execution client connects only to the account it is configured for: when connecting
  succeeds, the terminal's login is the configured number, the handlers of that account are
  subscribed, and the client is registered and connected; when it fails, for whatever reason, the
  client is no more connected than before.
\<close>

theorem connect_validates_account:
  "case exec_connect ce es of
     (es', evs, Inr _) \<Rightarrow>
       es_connected es' \<and> ce_id ce \<in> es_registered es' \<and>
       set (event_hooks (ce_account ce)) \<subseteq> set (event_subscriptions (es_client es')) \<and>
       (\<exists>info login n. ce_account_info ce = Some info \<and> dict_get info ''login'' = Some login \<and>
          py_int login = Inr n \<and> int_of_str (ce_config_account ce) = Inr n)
   | (es', evs, Inl _) \<Rightarrow> es_connected es' = es_connected es"
proof -
  let ?es1 = "es\<lparr>es_registered := insert (ce_id ce) (es_registered es)\<rparr>"
  let ?es2 = "?es1\<lparr>es_client := fold subscribe_event (event_hooks (ce_account ce)) (es_client ?es1)\<rparr>"
  let ?check = "bindR (ce_subscribe_summary ce) (\<lambda>_. validate_login (ce_config_account ce) (ce_account_info ce))"
  consider e where "ce_connect ce = Inl e" | u e where "ce_connect ce = Inr u" "ce_provider ce = Inl e"
    | u v e where "ce_connect ce = Inr u" "ce_provider ce = Inr v" "?check = Inl e"
    | u v info where "ce_connect ce = Inr u" "ce_provider ce = Inr v" "?check = Inr info"
    by (metis old.sum.exhaust)
  then show ?thesis
  proof cases
    case (4 u v info)
    obtain es3 evs r where l: "load_balances ce info ?es2 = (es3, evs, r)" by (metis surj_pair)
    have login: "\<exists>login n. ce_account_info ce = Some info \<and> dict_get info ''login'' = Some login \<and>
        py_int login = Inr n \<and> int_of_str (ce_config_account ce) = Inr n"
      using 4(3) validate_login_ok by (auto simp: bindR_eq_Inr)
    have run: "exec_connect ce es =
        (case r of Inl e \<Rightarrow> (es3, evs, Inl e) | Inr _ \<Rightarrow> (es3\<lparr>es_connected := True\<rparr>, evs, Inr ()))"
      using 4 l by (simp add: exec_connect_def split: sum.split)
    show ?thesis
      using run load_balances_keeps [OF l] login subscribe_all [of "event_hooks (ce_account ce)" "es_client es"]
      by (cases r) auto
  qed (simp_all add: exec_connect_def)
qed

text \<open>
  An execution of the adapter's own type, whose time is a number, is never reported as a fill;
  and one whose side is written out, as that type declares it, would be reported as a sale, a purchase
  included.
\<close>

theorem execution_never_fills:
  assumes "on_exec_details env fl ref ex cr = (evs, r)"
  shows "(dict_get (eo_attrs ex) ''time'' = Some (JInt t) \<longrightarrow> evs = []) \<and>
    (dict_get (eo_attrs ex) ''side'' = Some (JStr ''BUY'') \<and> OrderFilled f \<in> set evs \<longrightarrow> fe_side f = SELL)"
proof (cases "evs = []")
  case False
  then obtain order ins where o: "ee_order env ref = Some order" "fl_instrument fl (no_instrument_id order) = Some ins"
    using assms by (auto simp: on_exec_details_def execution_logged_def split: sum.splits if_splits option.splits)
  then obtain g ts tm where g: "evs = [OrderFilled g]" "attribute (eo_attrs ex) ''time'' = Inr tm" "timestring_to_timestamp fl tm = Inr ts"
      "fe_side g = (if jzero (get_default (eo_attrs ex) ''side'' (JInt 0)) then BUY else SELL)"
    using assms False
    by (auto simp: on_exec_details_def execution_logged_def bindR_eq_Inr split: sum.splits if_splits)
  then show ?thesis
    by (auto simp: attribute_eq_Inr timestring_to_timestamp_def get_default_def jzero_def)
qed simp

lemma execution_never_fills_witness:
  "fst (on_exec_details (env_example JNull [] [order_example])
     \<lparr>fl_instrument = [''EURUSD'' \<mapsto> instrument_example], fl_quantity = (\<lambda>_ _. Inr 1), fl_price = (\<lambda>_ _. Inr 1),
      fl_timestamp = (\<lambda>_ _. Inr 0)\<rparr> ''O-1''
     \<lparr>eo_attrs = [(''exec_id'', JStr ''e''), (''order_id'', JInt 7), (''time'', JInt 5), (''price'', JInt 1), (''quantity'', JInt 1)],
      eo_has_dict = False\<rparr> \<lparr>cr_execId = ''e'', cr_commission = 0, cr_currency = ''USD''\<rparr>) = []"
proof -
  let ?ex = "\<lparr>eo_attrs = [(''exec_id'', JStr ''e''), (''order_id'', JInt 7), (''time'', JInt 5), (''price'', JInt 1), (''quantity'', JInt 1)],
      eo_has_dict = False\<rparr>"
  let ?fl = "\<lparr>fl_instrument = [''EURUSD'' \<mapsto> instrument_example], fl_quantity = (\<lambda>_ _. Inr 1), fl_price = (\<lambda>_ _. Inr 1),
      fl_timestamp = (\<lambda>_ _. Inr 0)\<rparr>"
  obtain evs r where run: "on_exec_details (env_example JNull [] [order_example]) ?fl ''O-1'' ?ex
      \<lparr>cr_execId = ''e'', cr_commission = 0, cr_currency = ''USD''\<rparr> = (evs, r)" by (metis surj_pair)
  then show ?thesis using execution_never_fills [OF run, of 5] by simp
qed

end
