(* ===== verification/Market_Data.thy ===== *)
theory Market_Data
  imports Registry Feed_Converter Instruments Parse_Data
begin

text \<open>
  The client's market data (\<^verbatim>\<open>nautilus_mt5/client/market_data.py\<close>, \<^verbatim>\<open>client/tick_poll.py\<close> and the
  polling of \<^verbatim>\<open>client/client.py\<close>): tick subscriptions, the loop that polls the terminal for the
  subscribed symbols and the queue its ticks go through, bars and their revisions, and history.

  A subscription's handle is the \<^verbatim>\<open>functools.partial\<close> the code makes: a method of the terminal's bridge
  (or a function that does nothing) with its arguments. The platform is a record of functions
  (\<open>md_env\<close>): its cache of instruments, its constructors and its dates. An instant is a number of
  nanoseconds; a timestamp without a zone is read as UTC everywhere. The clock's readings are
  arguments. \<open>md_requests\<close> are the entries of the client's request registry that belong to bars and
  ticks.
\<close>

section \<open>Data and state\<close>

record bar_type =
  bt_text :: string
  bt_instrument_id :: instrument_id
  bt_spec :: bar_spec
  bt_interval :: int

record ('p, 'q) trade_tick =
  tt_instrument_id :: instrument_id
  tt_price :: 'p
  tt_size :: 'q
  tt_trade_id :: string
  tt_ts_event :: int
  tt_ts_init :: int

datatype ('p, 'q) ndata =
    QuoteData "(instrument_id, 'p, 'q) quote_tick"
  | TradeData "('p, 'q) trade_tick"
  | NBarData "(bar_type, 'p, 'q) nbar"

record ('p, 'q) md_env =
  me_instrument :: "instrument_id \<Rightarrow> (instrument_id, 'p, 'q) instrument option"
  me_from_str :: "string \<Rightarrow> instrument_id result"
  me_bar_type :: "string \<Rightarrow> bar_type result"
  me_fromtimestamp :: "pyfloat \<Rightarrow> int result"
  me_secs :: "int \<Rightarrow> int result"
  me_ymd :: "int \<Rightarrow> int result"
  me_ymd_text :: "string \<Rightarrow> int result"
  me_timestamp :: "int \<Rightarrow> pyfloat"
  me_minus :: "int \<Rightarrow> timedelta \<Rightarrow> int result"
  me_trade :: "('p, 'q) trade_tick \<Rightarrow> unit result"

datatype sub_method = BridgeTicks | NoOpTicks | HistoricalBars

datatype sub_arg = ArgInt int | ArgSymbol mt5_symbol | ArgText string | ArgBool bool

record sub_handle =
  sh_method :: sub_method
  sh_args :: "sub_arg list"
  sh_keywords :: "(string, bool) dict"

datatype bridge_call = CallHandle sub_handle | CallCancel int sub_arg

record tick_msg =
  tm_symbol :: string
  tm_time :: json
  tm_bid :: json
  tm_ask :: json

record ('p, 'q) market =
  md_seq :: int
  md_subs :: "(sub_handle, int, unit) subscriptions"
  md_requests :: "(unit, unit, nat, ('p, 'q) ndata) requests"
  md_futures :: "nat \<Rightarrow> ('p, 'q) ndata list option"
  md_queue :: "tick_msg list"
  md_last_bar :: "(string, bar_data) dict"
  md_sent :: "('p, 'q) ndata list"
  md_live_feed :: bool
  md_calls :: "bridge_call list"

definition market_init :: "('p, 'q) market" where
  "market_init =
     \<lparr>md_seq = 10000, md_subs = subscriptions_empty, md_requests = requests_empty,
      md_futures = (\<lambda>_. None), md_queue = [], md_last_bar = [], md_sent = [], md_live_feed = False,
      md_calls = []\<rparr>"

section \<open>Subscriptions\<close>

definition is_quote_tick_subscription :: "string \<Rightarrow> bool" where
  "is_quote_tick_subscription tick_type \<longleftrightarrow> lower tick_type \<in> {''bidask'', ''bid_ask''}"

definition should_poll_quote_ticks :: "string \<Rightarrow> ('p, 'q) market \<Rightarrow> bool" where
  "should_poll_quote_ticks tick_type m \<longleftrightarrow> \<not> (md_live_feed m \<and> is_quote_tick_subscription tick_type)"

text \<open>
  \<^verbatim>\<open>_subscribe\<close>: \<open>call\<close> is what calling the new handle ends in. A call that raises leaves the
  subscription in the registry.
\<close>

definition call_handle ::
    "(sub_handle \<Rightarrow> unit result) \<Rightarrow> sub_handle \<Rightarrow> ('p, 'q) market \<Rightarrow> ('p, 'q) market \<times> unit result" where
  "call_handle call h m =
     (if sh_method h = BridgeTicks then (m\<lparr>md_calls := md_calls m @ [CallHandle h]\<rparr>, call h) else (m, Inr ()))"

definition subscribe_to ::
    "(sub_handle \<Rightarrow> unit result) \<Rightarrow> rname \<Rightarrow> sub_method \<Rightarrow> sub_arg list \<Rightarrow> (string, bool) dict
       \<Rightarrow> ('p, 'q) market \<Rightarrow> ('p, 'q) market \<times> (sub_handle, int, unit) subscription option result" where
  "subscribe_to call name meth args kw m =
     (case subscriptions_get (md_subs m) None (Some name) of
        Inl e \<Rightarrow> (m, Inl e)
      | Inr (Some _) \<Rightarrow> (m, Inr None)
      | Inr None \<Rightarrow>
          (let rid = md_seq m;
               m1 = m\<lparr>md_seq := rid + 1\<rparr>;
               h = \<lparr>sh_method = meth, sh_args = (if meth = HistoricalBars then args else ArgInt rid # args),
                    sh_keywords = kw\<rparr>
           in case subscriptions_add rid name h rid (md_subs m1) of
                Inl e \<Rightarrow> (m1, Inl e)
              | Inr (s, None) \<Rightarrow> (m1\<lparr>md_subs := s\<rparr>, Inr None)
              | Inr (s, Some sub) \<Rightarrow>
                  (case call_handle call (sub_handle sub) (m1\<lparr>md_subs := s\<rparr>) of
                     (m2, Inl e) \<Rightarrow> (m2, Inl e)
                   | (m2, Inr _) \<Rightarrow> (m2, Inr (Some sub)))))"

text \<open>\<^verbatim>\<open>_unsubscribe\<close>: the cancellation method gets the id and the second argument of the handle.\<close>

definition unsubscribe_from ::
    "bool \<Rightarrow> (bridge_call \<Rightarrow> unit result) \<Rightarrow> rname \<Rightarrow> ('p, 'q) market \<Rightarrow> ('p, 'q) market \<times> unit result" where
  "unsubscribe_from has_cancel call name m =
     (case subscriptions_get (md_subs m) None (Some name) of
        Inl e \<Rightarrow> (m, Inl e)
      | Inr None \<Rightarrow> (m, Inr ())
      | Inr (Some sub) \<Rightarrow>
          (let m1 = m\<lparr>md_subs := subscriptions_remove (Some (sub_req_id sub)) None (md_subs m)\<rparr>
           in case sh_args (sub_handle sub) of
                _ # a # _ \<Rightarrow>
                  (if has_cancel
                   then (m1\<lparr>md_calls := md_calls m1 @ [CallCancel (sub_req_id sub) a]\<rparr>,
                         call (CallCancel (sub_req_id sub) a))
                   else (m1, Inr ()))
              | _ \<Rightarrow> (m1, Inl IndexError)))"

definition subscribe_ticks ::
    "bool \<Rightarrow> bool \<Rightarrow> (sub_handle \<Rightarrow> unit result) \<Rightarrow> instrument_id \<Rightarrow> mt5_symbol \<Rightarrow> string \<Rightarrow> bool
       \<Rightarrow> ('p, 'q) market \<Rightarrow> ('p, 'q) market \<times> unit result" where
  "subscribe_ticks has_poll has_cancel call iid symbol tick_type ignore_size m =
     (if md_live_feed m \<and> is_quote_tick_subscription tick_type then (m, Inr ())
      else
        (case subscribe_to call (NPair (instrument_id_value iid) tick_type)
                (if has_poll \<and> has_cancel then BridgeTicks else NoOpTicks)
                [ArgSymbol symbol, ArgText tick_type, ArgInt 0, ArgBool ignore_size] [] m of
           (m1, Inl e) \<Rightarrow> (m1, Inl e)
         | (m1, Inr _) \<Rightarrow> (m1, Inr ())))"

definition unsubscribe_ticks ::
    "bool \<Rightarrow> (bridge_call \<Rightarrow> unit result) \<Rightarrow> instrument_id \<Rightarrow> string \<Rightarrow> ('p, 'q) market
       \<Rightarrow> ('p, 'q) market \<times> unit result" where
  "unsubscribe_ticks has_cancel call iid tick_type m =
     unsubscribe_from has_cancel call (NPair (instrument_id_value iid) tick_type) m"

section \<open>Polling\<close>

text \<open>
  What \<^verbatim>\<open>symbol_info_tick\<close> answers: a dictionary, an object with some of the attributes, or nothing.
\<close>

datatype tick_answer = TickDict "(string, json) dict" | TickObj "string \<Rightarrow> json option" | NoTick

fun tick_field :: "tick_answer \<Rightarrow> string \<Rightarrow> json \<Rightarrow> json" where
  "tick_field (TickDict d) k dflt = get_default d k dflt"
| "tick_field (TickObj attr) k dflt = (case attr k of None \<Rightarrow> dflt | Some v \<Rightarrow> v)"
| "tick_field NoTick k dflt = dflt"

fun tick_present :: "tick_answer \<Rightarrow> bool" where
  "tick_present (TickDict d) \<longleftrightarrow> d \<noteq> []"
| "tick_present (TickObj _) \<longleftrightarrow> True"
| "tick_present NoTick \<longleftrightarrow> False"

definition polled_name :: "string \<Rightarrow> bool" where
  "polled_name tick_type \<longleftrightarrow>
     contains (lower tick_type) ''tick'' \<or> contains (lower tick_type) ''bid'' \<or> contains (lower tick_type) ''ask''"

definition tick_message :: "(string \<Rightarrow> tick_answer result) \<Rightarrow> sub_arg \<Rightarrow> tick_msg list" where
  "tick_message terminal a =
     (case a of
        ArgSymbol s \<Rightarrow>
          (case terminal (sym_symbol s) of
             Inl _ \<Rightarrow> []
           | Inr t \<Rightarrow>
               if tick_present t then
                 [\<lparr>tm_symbol = sym_symbol s, tm_time = tick_field t ''time_msc'' (JInt 0),
                   tm_bid = tick_field t ''bid'' (JFloat 0), tm_ask = tick_field t ''ask'' (JFloat 0)\<rparr>]
               else [])
      | _ \<Rightarrow> [])"

text \<open>
  One round of the polling loop over the ids it has listed. Errors of the terminal are caught per
  symbol; a handle with fewer than two arguments ends the loop.
\<close>

fun poll_keys ::
    "(string \<Rightarrow> tick_answer result) \<Rightarrow> int list \<Rightarrow> ('p, 'q) market \<Rightarrow> ('p, 'q) market \<times> unit result" where
  "poll_keys terminal [] m = (m, Inr ())"
| "poll_keys terminal (rid # rest) m =
     (case subscriptions_get (md_subs m) (Some rid) None of
        Inl e \<Rightarrow> (m, Inl e)
      | Inr None \<Rightarrow> poll_keys terminal rest m
      | Inr (Some sub) \<Rightarrow>
          (case sub_name sub of
             NStr _ \<Rightarrow> poll_keys terminal rest m
           | NPair _ tick_type \<Rightarrow>
               if \<not> should_poll_quote_ticks tick_type m \<or> \<not> polled_name tick_type
               then poll_keys terminal rest m
               else
                 (case sh_args (sub_handle sub) of
                    _ # a # _ \<Rightarrow>
                      poll_keys terminal rest (m\<lparr>md_queue := md_queue m @ tick_message terminal a\<rparr>)
                  | _ \<Rightarrow> (m, Inl IndexError))))"

definition poll_round :: "(string \<Rightarrow> tick_answer result) \<Rightarrow> ('p, 'q) market \<Rightarrow> ('p, 'q) market \<times> unit result" where
  "poll_round terminal m = poll_keys terminal (dict_keys (req_id_to_name (md_subs m))) m"

section \<open>Numbers and times\<close>

text \<open>\<^verbatim>\<open>v <= 0.0\<close>, the conversion of a number to a C double, and \<^verbatim>\<open>v / 1000\<close>.\<close>

fun json_le0 :: "json \<Rightarrow> bool result" where
  "json_le0 (JInt i) = Inr (i \<le> 0)"
| "json_le0 (JFloat x) = Inr (x \<le> 0)"
| "json_le0 (JBool b) = Inr (\<not> b)"
| "json_le0 _ = Inl TypeError"

fun as_double :: "json \<Rightarrow> pyfloat result" where
  "as_double (JInt i) = float_of_int i"
| "as_double (JFloat x) = Inr x"
| "as_double (JBool b) = Inr (if b then 1 else 0)"
| "as_double _ = Inl TypeError"

fun finite_or_overflow :: "pyfloat \<Rightarrow> pyfloat result" where
  "finite_or_overflow (Fin q) = Inr (Fin q)"
| "finite_or_overflow _ = Inl OverflowError"

fun div_1000 :: "json \<Rightarrow> pyfloat result" where
  "div_1000 (JInt i) = finite_or_overflow (rnd64 (of_int i / 1000))"
| "div_1000 (JFloat (Fin q)) = Inr (rnd64 (q / 1000))"
| "div_1000 (JFloat x) = Inr x"
| "div_1000 (JBool b) = Inr (if b then rnd64 (1 / 1000) else 0)"
| "div_1000 _ = Inl TypeError"

definition convert_mt5_timestamp :: "('p, 'q) md_env \<Rightarrow> json \<Rightarrow> int result" where
  "convert_mt5_timestamp env t =
     (case bindR (div_1000 t) (me_fromtimestamp env) of
        Inr ns \<Rightarrow> Inr ns
      | Inl e \<Rightarrow>
          if is_value_error e then
            (case bindR (py_int t) (\<lambda>i. me_ymd_text env (int_str i)) of
               Inr ns \<Rightarrow> Inr ns
             | Inl e2 \<Rightarrow> if is_value_error e2 then Inl (ValueError (''Invalid timestamp: '' @ py_str t)) else Inl e2)
          else Inl e)"

text \<open>The platform's number 14 for an aggregation is its day.\<close>

definition convert_mt5_bar_date :: "('p, 'q) md_env \<Rightarrow> bar_data \<Rightarrow> bar_type \<Rightarrow> int result" where
  "convert_mt5_bar_date env bar bt =
     (if aggregation (bt_spec bt) = DAY_AGG then me_ymd env (bd_time bar)
      else me_secs env (bd_time bar))"

definition mt5_bar_to_ts_init :: "('p, 'q) md_env \<Rightarrow> bar_data \<Rightarrow> bar_type \<Rightarrow> int result" where
  "mt5_bar_to_ts_init env bar bt = bindR (convert_mt5_bar_date env bar bt) (\<lambda>ts. Inr (ts + bt_interval bt))"

section \<open>Bars\<close>

definition make_bar ::
    "(instrument_id, 'p, 'q) instrument \<Rightarrow> bar_type \<Rightarrow> pyfloat \<Rightarrow> pyfloat \<Rightarrow> pyfloat \<Rightarrow> pyfloat \<Rightarrow> int
       \<Rightarrow> int \<Rightarrow> int \<Rightarrow> bool \<Rightarrow> (bar_type, 'p, 'q) nbar result" where
  "make_bar ins bt opn hi lo cl vol ts_event ts_init revision =
     bindR (make_price ins opn) (\<lambda>o1.
     bindR (make_price ins hi) (\<lambda>h1.
     bindR (make_price ins lo) (\<lambda>l1.
     bindR (make_price ins cl) (\<lambda>c1.
     bindR (make_qty ins (if vol = -1 then 0 else vol)) (\<lambda>v1.
       Inr \<lparr>nb_bar_type = bt, nb_open = o1, nb_high = h1, nb_low = l1, nb_close = c1, nb_volume = v1,
            nb_ts_event = ts_event, nb_ts_init = ts_init, nb_is_revision = revision\<rparr>)))))"

definition mt5_bar_to_nautilus_bar ::
    "('p, 'q) md_env \<Rightarrow> bar_type \<Rightarrow> bar_data \<Rightarrow> int \<Rightarrow> bool \<Rightarrow> (bar_type, 'p, 'q) nbar result" where
  "mt5_bar_to_nautilus_bar env bt bar ts_init revision =
     (case me_instrument env (bt_instrument_id bt) of
        None \<Rightarrow> Inl (ValueError (''No cached instrument for '' @ instrument_id_value (bt_instrument_id bt)))
      | Some ins \<Rightarrow>
          bindR (convert_mt5_bar_date env bar bt) (\<lambda>ts_event.
            make_bar ins bt (bd_open bar) (bd_high bar) (bd_low bar) (bd_close bar) (bd_volume bar)
              ts_event ts_init revision))"

text \<open>
  \<^verbatim>\<open>_process_bar_data\<close>: the first component is the new table of last bars, which is written before
  anything can fail. \<open>now\<close> and \<open>later\<close> are the two readings of the clock.
\<close>

definition process_bar_data ::
    "('p, 'q) md_env \<Rightarrow> string \<Rightarrow> bool \<Rightarrow> bool \<Rightarrow> int \<Rightarrow> int \<Rightarrow> bar_data \<Rightarrow> (string, bar_data) dict
       \<Rightarrow> (string, bar_data) dict \<times> (bar_type, 'p, 'q) nbar option result" where
  "process_bar_data env name revised historical now later bar last_bars =
     (let previous = dict_get last_bars name;
          previous_ts = (case previous of None \<Rightarrow> 0 | Some p \<Rightarrow> bd_time p);
          new = previous_ts < bd_time bar
      in if bd_time bar < previous_ts then (last_bars, Inr None)
         else
           (dict_set name bar last_bars,
            bindR (me_bar_type env name) (\<lambda>bt.
              if revised then bindR (mt5_bar_to_nautilus_bar env bt bar now (\<not> new)) (\<lambda>b. Inr (Some b))
              else
                (case previous of
                   None \<Rightarrow> Inr None
                 | Some p \<Rightarrow>
                     if \<not> new then Inr None
                     else if historical then
                       bindR (mt5_bar_to_ts_init env p bt) (\<lambda>ts_init.
                         if later \<le> ts_init then Inr None
                         else bindR (mt5_bar_to_nautilus_bar env bt p ts_init (\<not> new)) (\<lambda>b. Inr (Some b)))
                     else bindR (mt5_bar_to_nautilus_bar env bt p now (\<not> new)) (\<lambda>b. Inr (Some b))))))"

section \<open>Messages of the queue\<close>

definition publish_data :: "('p, 'q) ndata \<Rightarrow> ('p, 'q) market \<Rightarrow> ('p, 'q) market" where
  "publish_data d m = m\<lparr>md_sent := md_sent m @ [d]\<rparr>"

text \<open>\<^verbatim>\<open>subscription.name[0]\<close> as a text.\<close>

fun name_head :: "rname \<Rightarrow> string result" where
  "name_head (NPair a _) = Inr a"
| "name_head (NStr []) = Inl IndexError"
| "name_head (NStr (c # _)) = Inr [c]"

definition process_tick_by_tick_bid_ask ::
    "('p, 'q) md_env \<Rightarrow> int \<Rightarrow> int \<Rightarrow> json \<Rightarrow> json \<Rightarrow> json \<Rightarrow> int \<Rightarrow> int \<Rightarrow> ('p, 'q) market \<Rightarrow> ('p, 'q) market result" where
  "process_tick_by_tick_bid_ask env now rid t b a bid_sz ask_sz m =
     bindR (subscriptions_get (md_subs m) (Some rid) None) (\<lambda>found.
     case found of
       None \<Rightarrow> Inr m
     | Some sub \<Rightarrow>
         bindR (json_le0 b) (\<lambda>bad_bid.
         bindR (if bad_bid then Inr True else json_le0 a) (\<lambda>bad.
         if bad then Inr m
         else
           bindR (bindR (name_head (sub_name sub)) (me_from_str env)) (\<lambda>iid.
           case me_instrument env iid of
             None \<Rightarrow> Inr m
           | Some ins \<Rightarrow>
               bindR (convert_mt5_timestamp env t) (\<lambda>ts_event.
               bindR (bindR (as_double b) (make_price ins)) (\<lambda>bp.
               bindR (bindR (as_double a) (make_price ins)) (\<lambda>ap.
               bindR (make_qty ins bid_sz) (\<lambda>bs.
               bindR (make_qty ins ask_sz) (\<lambda>as.
                 Inr (publish_data (QuoteData
                        \<lparr>qt_instrument_id = iid, qt_bid_price = bp, qt_ask_price = ap, qt_bid_size = bs,
                         qt_ask_size = as, qt_ts_event = ts_event, qt_ts_init = max now ts_event\<rparr>) m))))))))))"

text \<open>The first tick subscription whose handle is for the symbol, in the order of the registry.\<close>

fun find_tick_sub :: "string \<Rightarrow> (int \<times> rname) list \<Rightarrow> ('p, 'q) market \<Rightarrow> int option result" where
  "find_tick_sub symbol [] m = Inr None"
| "find_tick_sub symbol ((rid, name) # rest) m =
     (case name of
        NStr _ \<Rightarrow> find_tick_sub symbol rest m
      | NPair _ tick_type \<Rightarrow>
          if \<not> polled_name tick_type then find_tick_sub symbol rest m
          else
            (case subscriptions_get (md_subs m) (Some rid) None of
               Inl e \<Rightarrow> Inl e
             | Inr None \<Rightarrow> find_tick_sub symbol rest m
             | Inr (Some sub) \<Rightarrow>
                 (case sh_args (sub_handle sub) of
                    _ # ArgSymbol s # _ \<Rightarrow>
                      if sym_symbol s = symbol then Inr (Some rid) else find_tick_sub symbol rest m
                  | _ # _ # _ \<Rightarrow> Inl AttributeError
                  | _ \<Rightarrow> find_tick_sub symbol rest m)))"

definition process_message :: "('p, 'q) md_env \<Rightarrow> int \<Rightarrow> tick_msg \<Rightarrow> ('p, 'q) market \<Rightarrow> ('p, 'q) market result" where
  "process_message env now msg m =
     bindR (find_tick_sub (tm_symbol msg) (req_id_to_name (md_subs m)) m) (\<lambda>found.
       case found of
         None \<Rightarrow> Inr m
       | Some rid \<Rightarrow> process_tick_by_tick_bid_ask env now rid (tm_time msg) (tm_bid msg) (tm_ask msg) 0 0 m)"

text \<open>
  \<^verbatim>\<open>_run_internal_msg_queue_processor\<close>, one message: an exception of its processing is logged, and the
  loop goes on with the next one.
\<close>

definition process_next :: "('p, 'q) md_env \<Rightarrow> int \<Rightarrow> ('p, 'q) market \<Rightarrow> ('p, 'q) market" where
  "process_next env now m =
     (case md_queue m of
        [] \<Rightarrow> m
      | msg # rest \<Rightarrow>
          (let m1 = m\<lparr>md_queue := rest\<rparr>
           in case process_message env now msg m1 of Inl _ \<Rightarrow> m1 | Inr m2 \<Rightarrow> m2))"

text \<open>The processor until the queue is empty, with the clock's readings, one for each message.\<close>

fun drain :: "('p, 'q) md_env \<Rightarrow> int list \<Rightarrow> ('p, 'q) market \<Rightarrow> ('p, 'q) market" where
  "drain env [] m = m"
| "drain env (now # later) m = drain env later (process_next env now m)"

section \<open>Callbacks for bars\<close>

definition process_realtime_bar ::
    "('p, 'q) md_env \<Rightarrow> int \<Rightarrow> int \<Rightarrow> int \<Rightarrow> pyfloat \<Rightarrow> pyfloat \<Rightarrow> pyfloat \<Rightarrow> pyfloat \<Rightarrow> int \<Rightarrow> ('p, 'q) market
       \<Rightarrow> ('p, 'q) market result" where
  "process_realtime_bar env now rid t opn hi lo cl vol m =
     bindR (subscriptions_get (md_subs m) (Some rid) None) (\<lambda>found.
     case found of
       None \<Rightarrow> Inr m
     | Some sub \<Rightarrow>
         bindR (case sub_name sub of NStr s \<Rightarrow> me_bar_type env s | NPair _ _ \<Rightarrow> Inl TypeError) (\<lambda>bt.
         case me_instrument env (bt_instrument_id bt) of
           None \<Rightarrow> Inl AttributeError
         | Some ins \<Rightarrow>
             bindR (make_price ins opn) (\<lambda>o1.
             bindR (make_price ins hi) (\<lambda>h1.
             bindR (make_price ins lo) (\<lambda>l1.
             bindR (make_price ins cl) (\<lambda>c1.
             bindR (make_qty ins (if vol = -1 then 0 else vol)) (\<lambda>v1.
             bindR (me_secs env t) (\<lambda>ts_event.
               Inr (publish_data (NBarData
                      \<lparr>nb_bar_type = bt, nb_open = o1, nb_high = h1, nb_low = l1, nb_close = c1,
                       nb_volume = v1, nb_ts_event = ts_event, nb_ts_init = now, nb_is_revision = False\<rparr>) m)))))))))"

text \<open>\<^verbatim>\<open>str(subscription.name)\<close>.\<close>

fun name_text :: "rname \<Rightarrow> string" where
  "name_text (NStr s) = s"
| "name_text (NPair a b) = ''('' @ repr_str a @ '', '' @ repr_str b @ '')''"

text \<open>
  \<^verbatim>\<open>process_historical_data\<close>. The name of a request is a text or a pair of texts: \<^verbatim>\<open>request.name[0]\<close> is
  a text, which has no specification. The state is written before a bar can fail to convert.
\<close>

definition process_historical_data ::
    "('p, 'q) md_env \<Rightarrow> int \<Rightarrow> int \<Rightarrow> int \<Rightarrow> bar_data \<Rightarrow> ('p, 'q) market \<Rightarrow> ('p, 'q) market \<times> unit result" where
  "process_historical_data env now later rid bar m =
     (case requests_get (md_requests m) (Some rid) None of
        Inl e \<Rightarrow> (m, Inl e)
      | Inr (Some q) \<Rightarrow> (m, bindR (name_head (rq_name q)) (\<lambda>_. Inl AttributeError))
      | Inr None \<Rightarrow>
          (case subscriptions_get (md_subs m) (Some rid) None of
             Inl e \<Rightarrow> (m, Inl e)
           | Inr None \<Rightarrow> (m, Inr ())
           | Inr (Some sub) \<Rightarrow>
               (case process_bar_data env (name_text (sub_name sub)) False True now later bar (md_last_bar m) of
                  (lasts, Inl e) \<Rightarrow> (m\<lparr>md_last_bar := lasts\<rparr>, Inl e)
                | (lasts, Inr None) \<Rightarrow> (m\<lparr>md_last_bar := lasts\<rparr>, Inr ())
                | (lasts, Inr (Some b)) \<Rightarrow> (publish_data (NBarData b) (m\<lparr>md_last_bar := lasts\<rparr>), Inr ()))))"

text \<open>\<open>zero\<close> is the platform's test for a bar of a single price that is zero.\<close>

definition process_historical_data_update ::
    "('p, 'q) md_env \<Rightarrow> ((bar_type, 'p, 'q) nbar \<Rightarrow> bool) \<Rightarrow> int \<Rightarrow> int \<Rightarrow> int \<Rightarrow> bar_data \<Rightarrow> ('p, 'q) market
       \<Rightarrow> ('p, 'q) market \<times> unit result" where
  "process_historical_data_update env zero now later rid bar m =
     (case subscriptions_get (md_subs m) (Some rid) None of
        Inl e \<Rightarrow> (m, Inl e)
      | Inr None \<Rightarrow> (m, Inr ())
      | Inr (Some sub) \<Rightarrow>
          (case process_bar_data env (name_text (sub_name sub))
                  (get_default (sh_keywords (sub_handle sub)) ''handle_revised_bars'' False) False
                  now later bar (md_last_bar m) of
             (lasts, Inl e) \<Rightarrow> (m\<lparr>md_last_bar := lasts\<rparr>, Inl e)
           | (lasts, Inr None) \<Rightarrow> (m\<lparr>md_last_bar := lasts\<rparr>, Inr ())
           | (lasts, Inr (Some b)) \<Rightarrow>
               (if zero b then (m\<lparr>md_last_bar := lasts\<rparr>, Inr ())
                else (publish_data (NBarData b) (m\<lparr>md_last_bar := lasts\<rparr>), Inr ()))))"

section \<open>Requested ticks\<close>

definition process_historical_data_end :: "int \<Rightarrow> ('p, 'q) market \<Rightarrow> ('p, 'q) market result" where
  "process_historical_data_end rid m =
     bindR (requests_get (md_requests m) (Some rid) None) (\<lambda>found.
       case found of
         None \<Rightarrow> Inr m
       | Some q \<Rightarrow>
           Inr (m\<lparr>md_futures := (case md_futures m (rq_future q) of
                                   None \<Rightarrow> (md_futures m)(rq_future q := Some (rq_result q))
                                 | Some _ \<Rightarrow> md_futures m),
                  md_requests := requests_remove (Some rid) None (md_requests m)\<rparr>))"

record history_tick =
  ht_time :: int
  ht_bid :: pyfloat
  ht_ask :: pyfloat
  ht_bid_size :: int
  ht_ask_size :: int

definition history_quote ::
    "('p, 'q) md_env \<Rightarrow> instrument_id \<Rightarrow> (instrument_id, 'p, 'q) instrument option \<Rightarrow> history_tick
       \<Rightarrow> (instrument_id, 'p, 'q) quote_tick result" where
  "history_quote env iid ins t =
     bindR (me_secs env (ht_time t)) (\<lambda>ts.
     case ins of
       None \<Rightarrow> Inl AttributeError
     | Some i \<Rightarrow>
         bindR (make_price i (ht_bid t)) (\<lambda>bp.
         bindR (make_price i (ht_ask t)) (\<lambda>ap.
         bindR (make_qty i (ht_bid_size t)) (\<lambda>bs.
         bindR (make_qty i (ht_ask_size t)) (\<lambda>as.
           Inr \<lparr>qt_instrument_id = iid, qt_bid_price = bp, qt_ask_price = ap, qt_bid_size = bs,
                qt_ask_size = as, qt_ts_event = ts, qt_ts_init = ts\<rparr>)))))"

fun append_quotes ::
    "('p, 'q) md_env \<Rightarrow> instrument_id \<Rightarrow> (instrument_id, 'p, 'q) instrument option \<Rightarrow> int \<Rightarrow> history_tick list
       \<Rightarrow> ('p, 'q) market \<Rightarrow> ('p, 'q) market \<times> unit result" where
  "append_quotes env iid ins rid [] m = (m, Inr ())"
| "append_quotes env iid ins rid (t # ts) m =
     (case history_quote env iid ins t of
        Inl e \<Rightarrow> (m, Inl e)
      | Inr q \<Rightarrow> append_quotes env iid ins rid ts
                   (m\<lparr>md_requests := result_append rid (QuoteData q) (md_requests m)\<rparr>))"

definition process_historical_ticks_bid_ask ::
    "('p, 'q) md_env \<Rightarrow> int \<Rightarrow> history_tick list \<Rightarrow> bool \<Rightarrow> ('p, 'q) market \<Rightarrow> ('p, 'q) market \<times> unit result" where
  "process_historical_ticks_bid_ask env rid ticks finished m =
     (if \<not> finished then (m, Inr ())
      else
        (case requests_get (md_requests m) (Some rid) None of
           Inl e \<Rightarrow> (m, Inl e)
         | Inr None \<Rightarrow> (m, Inr ())
         | Inr (Some q) \<Rightarrow>
             (case bindR (name_head (rq_name q)) (me_from_str env) of
                Inl e \<Rightarrow> (m, Inl e)
              | Inr iid \<Rightarrow>
                  (case append_quotes env iid (me_instrument env iid) rid ticks m of
                     (m1, Inl e) \<Rightarrow> (m1, Inl e)
                   | (m1, Inr _) \<Rightarrow>
                       (case process_historical_data_end rid m1 of
                          Inl e \<Rightarrow> (m1, Inl e)
                        | Inr m2 \<Rightarrow> (m2, Inr ()))))))"

section \<open>History\<close>

text \<open>
  The terminal's history: the bars of a range and the last bars, by symbol, timeframe and instants, and
  the ticks from a second on. Selecting the symbol first may fail, which is logged.
\<close>

record history =
  hi_rates_range :: "string \<Rightarrow> int \<Rightarrow> int \<Rightarrow> int \<Rightarrow> rate_row list option result"
  hi_rates_from_pos :: "string \<Rightarrow> int \<Rightarrow> int \<Rightarrow> int \<Rightarrow> rate_row list option result"

definition rows_or_none :: "rate_row list option \<Rightarrow> rate_row list" where
  "rows_or_none raw = (case raw of None \<Rightarrow> [] | Some rows \<Rightarrow> rows)"

definition copy_rates ::
    "('p, 'q) md_env \<Rightarrow> history \<Rightarrow> string \<Rightarrow> int \<Rightarrow> int \<Rightarrow> string \<Rightarrow> int option \<Rightarrow> int option \<Rightarrow> rate_row list result" where
  "copy_rates env hist symbol timeframe end_time duration start limit =
     bindR
       (case start of
          Some s \<Rightarrow> hi_rates_range hist symbol timeframe s end_time
        | None \<Rightarrow>
            bindR (hi_rates_from_pos hist symbol timeframe 0
                     (case limit of Some n \<Rightarrow> if 0 < n then n else 1000 | None \<Rightarrow> 1000)) (\<lambda>raw.
              if rows_or_none raw \<noteq> [] then Inr raw
              else
                bindR (ib_duration_to_timedelta duration) (\<lambda>delta.
                bindR (me_minus env end_time delta) (\<lambda>from.
                  hi_rates_range hist symbol timeframe from end_time))))
       (\<lambda>raw. Inr (rows_or_none raw))"

fun bars_of_rows ::
    "('p, 'q) md_env \<Rightarrow> bar_type \<Rightarrow> string \<Rightarrow> int \<Rightarrow> rate_row list \<Rightarrow> (bar_type, 'p, 'q) nbar list result" where
  "bars_of_rows env bt symbol ts_init [] = Inr []"
| "bars_of_rows env bt symbol ts_init (row # rows) =
     bindR (mql_rate_row_to_bar_data symbol row) (\<lambda>bar.
       if bd_time bar \<le> 0 \<or> bd_close bar \<le> 0 then bars_of_rows env bt symbol ts_init rows
       else
         bindR (mt5_bar_to_nautilus_bar env bt bar ts_init False) (\<lambda>b.
         bindR (bars_of_rows env bt symbol ts_init rows) (\<lambda>bs. Inr (b # bs))))"

definition get_historical_bars ::
    "('p, 'q) md_env \<Rightarrow> history \<Rightarrow> int \<Rightarrow> bar_type \<Rightarrow> mt5_symbol \<Rightarrow> int \<Rightarrow> string \<Rightarrow> int option \<Rightarrow> int option
       \<Rightarrow> (bar_type, 'p, 'q) nbar list result" where
  "get_historical_bars env hist now bt symbol end_time duration start limit =
     bindR (bar_spec_to_mt5_timeframe (bt_spec bt)) (\<lambda>timeframe.
     bindR (copy_rates env hist (sym_symbol symbol) timeframe end_time duration start limit) (\<lambda>rates.
       bars_of_rows env bt (sym_symbol symbol) now (rev rates)))"

text \<open>
  A tick of the terminal's history: an element of a structured array with named fields, a dictionary, a
  sequence, or an object with some of the attributes. Its five values are the two quotes, the last
  price, the second and, when there is one, the millisecond.
\<close>

datatype tick_row =
    NamedRow "string \<Rightarrow> json result" bool
  | DictRow "(string, json) dict"
  | SeqRow "json list"
  | AttrRow "string \<Rightarrow> json option"

definition value_or_zero :: "json option \<Rightarrow> json" where
  "value_or_zero v = (case v of None \<Rightarrow> JInt 0 | Some x \<Rightarrow> or_zero x)"

definition keyed_tick ::
    "(string \<Rightarrow> json option) \<Rightarrow> (pyfloat \<times> pyfloat \<times> pyfloat \<times> int \<times> json) result" where
  "keyed_tick look =
     bindR (py_float (value_or_zero (look ''bid''))) (\<lambda>b.
     bindR (py_float (value_or_zero (look ''ask''))) (\<lambda>a.
     bindR (py_float (value_or_zero (look ''last''))) (\<lambda>l.
     bindR (py_int (value_or_zero (look ''time''))) (\<lambda>t.
       Inr (b, a, l, t, case look ''time_msc'' of None \<Rightarrow> JNull | Some v \<Rightarrow> v)))))"

fun tick_values :: "tick_row \<Rightarrow> (pyfloat \<times> pyfloat \<times> pyfloat \<times> int \<times> json) result" where
  "tick_values (NamedRow index has_msc) =
     bindR (bindR (index ''bid'') py_float) (\<lambda>b.
     bindR (bindR (index ''ask'') py_float) (\<lambda>a.
     bindR (bindR (index ''last'') py_float) (\<lambda>l.
     bindR (bindR (index ''time'') py_int) (\<lambda>t.
     bindR (if has_msc then index ''time_msc'' else Inr JNull) (\<lambda>ms. Inr (b, a, l, t, ms))))))"
| "tick_values (DictRow d) = keyed_tick (dict_get d)"
| "tick_values (AttrRow attr) = keyed_tick attr"
| "tick_values (SeqRow xs) =
     (if 3 \<le> length xs then
        bindR (py_int (xs ! 0)) (\<lambda>t.
        bindR (py_float (xs ! 1)) (\<lambda>b.
        bindR (py_float (xs ! 2)) (\<lambda>a.
        bindR (if 3 < length xs then py_float (xs ! 3) else Inr 0) (\<lambda>l.
          Inr (b, a, l, t, if 5 < length xs then xs ! 5 else JNull)))))
      else keyed_tick (\<lambda>_. None))"

definition trade_history :: "string \<Rightarrow> bool" where
  "trade_history tick_type \<longleftrightarrow> tick_type \<in> {''TRADES'', ''AllLast''}"

text \<open>
  One row: \<open>None\<close> when it is skipped, which a row that cannot be read is. \<open>now\<close> is the clock's reading
  when the tick is made.
\<close>

definition tick_of_row ::
    "('p, 'q) md_env \<Rightarrow> (instrument_id, 'p, 'q) instrument \<Rightarrow> instrument_id \<Rightarrow> string \<Rightarrow> int \<Rightarrow> tick_row
       \<Rightarrow> ('p, 'q) ndata option result" where
  "tick_of_row env ins iid tick_type now row =
     (case tick_values row of
        Inl e \<Rightarrow> if row_error e then Inr None else Inl e
      | Inr (b, a, l, secs, msc) \<Rightarrow>
          bindR (if jtruthy msc then bindR (py_int msc) (\<lambda>ms. Inr (Some (ms * 1000000)))
                 else if secs \<noteq> 0 then bindR (me_secs env secs) (\<lambda>ns. Inr (Some ns))
                 else Inr None) (\<lambda>ts.
          case ts of
            None \<Rightarrow> Inr None
          | Some ts_event \<Rightarrow>
              if trade_history tick_type then
                (if l \<le> 0 then Inr None
                 else
                   bindR (make_price ins l) (\<lambda>p.
                   bindR (make_qty ins 0) (\<lambda>q.
                     let t = \<lparr>tt_instrument_id = iid, tt_price = p, tt_size = q, tt_trade_id = int_str secs,
                              tt_ts_event = ts_event, tt_ts_init = max now ts_event\<rparr>
                     in bindR (me_trade env t) (\<lambda>_. Inr (Some (TradeData t))))))
              else if b \<le> 0 \<or> a \<le> 0 then Inr None
              else
                bindR (make_price ins b) (\<lambda>bp.
                bindR (make_price ins a) (\<lambda>ap.
                bindR (make_qty ins 0) (\<lambda>bs.
                bindR (make_qty ins 0) (\<lambda>as.
                  Inr (Some (QuoteData
                    \<lparr>qt_instrument_id = iid, qt_bid_price = bp, qt_ask_price = ap, qt_bid_size = bs,
                     qt_ask_size = as, qt_ts_event = ts_event, qt_ts_init = max now ts_event\<rparr>)))))))) "

fun data_ts_init :: "('p, 'q) ndata \<Rightarrow> int" where
  "data_ts_init (QuoteData q) = qt_ts_init q"
| "data_ts_init (TradeData t) = tt_ts_init t"
| "data_ts_init (NBarData b) = nb_ts_init b"

fun data_ts_event :: "('p, 'q) ndata \<Rightarrow> int" where
  "data_ts_event (QuoteData q) = qt_ts_event q"
| "data_ts_event (TradeData t) = tt_ts_event t"
| "data_ts_event (NBarData b) = nb_ts_event b"

text \<open>The rows in order, with the clock's readings, which are taken from \<open>clock\<close> one for each row.\<close>

fun ticks_of_rows ::
    "('p, 'q) md_env \<Rightarrow> (instrument_id, 'p, 'q) instrument \<Rightarrow> instrument_id \<Rightarrow> string \<Rightarrow> (nat \<Rightarrow> int) \<Rightarrow> nat
       \<Rightarrow> tick_row list \<Rightarrow> ('p, 'q) ndata list result" where
  "ticks_of_rows env ins iid tick_type clock k [] = Inr []"
| "ticks_of_rows env ins iid tick_type clock k (row # rows) =
     bindR (tick_of_row env ins iid tick_type (clock k) row) (\<lambda>t.
     bindR (ticks_of_rows env ins iid tick_type clock (Suc k) rows) (\<lambda>ts.
       Inr (case t of None \<Rightarrow> ts | Some d \<Rightarrow> d # ts)))"

text \<open>
  A time given to a query: an instant, or a text, which counts as absent when it is blank; \<open>parse\<close> is
  the platform's reading of a text. \<open>wall\<close> is the time of day in seconds.
\<close>

datatype time_arg = AtTime int | TimeText string

definition arg_seconds :: "('p, 'q) md_env \<Rightarrow> (string \<Rightarrow> int result) \<Rightarrow> time_arg \<Rightarrow> int option result" where
  "arg_seconds env parse t =
     (case t of
        AtTime ns \<Rightarrow> bindR (int_of_float (me_timestamp env ns)) (\<lambda>s. Inr (Some s))
      | TimeText s \<Rightarrow>
          if strip s = [] then Inr None
          else bindR (parse s) (\<lambda>ns. bindR (int_of_float (me_timestamp env ns)) (\<lambda>s. Inr (Some s))))"

definition get_historical_ticks ::
    "('p, 'q) md_env \<Rightarrow> (string \<Rightarrow> int \<Rightarrow> int \<Rightarrow> tick_row list option result) \<Rightarrow> (string \<Rightarrow> int result) \<Rightarrow> int \<Rightarrow> (nat \<Rightarrow> int)
       \<Rightarrow> mt5_symbol \<Rightarrow> string \<Rightarrow> time_arg \<Rightarrow> time_arg \<Rightarrow> int \<Rightarrow> ('p, 'q) ndata list result" where
  "get_historical_ticks env ticks_from parse wall clock symbol tick_type start_time end_time number =
     bindR (arg_seconds env parse end_time) (\<lambda>e.
     let end_ts = (case e of Some s \<Rightarrow> s | None \<Rightarrow> wall) in
     bindR (arg_seconds env parse start_time) (\<lambda>s.
     let from_ts = (case s of Some s \<Rightarrow> s | None \<Rightarrow> end_ts - 86400) in
     (case ticks_from (sym_symbol symbol) from_ts number of
        Inl _ \<Rightarrow> Inr []
      | Inr None \<Rightarrow> Inr []
      | Inr (Some rows) \<Rightarrow>
          if rows = [] then Inr []
          else
            bindR (mt5_symbol_to_instrument_id (Some symbol)) (\<lambda>iid.
            case me_instrument env iid of
              None \<Rightarrow> Inr []
            | Some ins \<Rightarrow>
                bindR (ticks_of_rows env ins iid tick_type clock 0 rows) (\<lambda>ts.
                  Inr (sort_key data_ts_init ts)))))) "

end
