(* ===== verification/Data_Client.thy ===== *)
theory Data_Client
  imports Market_Data Feed_Gateway "HOL-Library.List_Lexorder" "HOL-Library.Char_ord" "HOL-Library.Product_Lexorder"
begin

text \<open>
  The data client (\<^verbatim>\<open>nautilus_mt5/data.py\<close>): it starts the feed gateway, turns the gateway's messages
  into the platform's data, passes subscriptions to the feed service or to the polling client, sends
  them again when the service says hello, and answers requests for history.

  An instrument of the cache is found by its identifier; \<open>de_symbol\<close> is the terminal's symbol in its
  information (\<open>None\<close> when the information has none that can be read), \<open>de_calc_mode\<close> its mode. What
  the client hands to the platform is the list \<open>dc_published\<close>, oldest first. A coroutine is one step
  between the points where it waits for the feed service; what it awaits of the client is an argument.
\<close>

section \<open>State\<close>

datatype ('p, 'q) publication =
    PubInstrument instrument_id
  | PubData "('p, 'q) ndata"
  | PubTicks instrument_id "('p, 'q) ndata list" string
  | PubBars bar_type "(bar_type, 'p, 'q) nbar list" "(bar_type, 'p, 'q) nbar" string
  | PubInstrumentReply instrument_id string
  | PubStatus string bool

record data_config =
  dcf_id :: string
  dcf_feed :: feed_config
  dcf_profile :: "venue_profile option"
  dcf_ignore_size :: bool

record ('p, 'q) data_env =
  de_md :: "('p, 'q) md_env"
  de_symbol :: "instrument_id \<Rightarrow> mt5_symbol option"
  de_calc_mode :: "instrument_id \<Rightarrow> int"

record ('p, 'q) data_client =
  dc_market :: "('p, 'q) market"
  dc_gateway :: "gateway option"
  dc_handler :: "feed_handler option"
  dc_pending_symbols :: "string set"
  dc_pending_bars :: "(string \<times> string) set"
  dc_bar_types :: "(string \<times> string, bar_type) dict"
  dc_registered :: "string set"
  dc_published :: "('p, 'q) publication list"

definition data_client_init :: "('p, 'q) data_client" where
  "data_client_init =
     \<lparr>dc_market = market_init, dc_gateway = None, dc_handler = None, dc_pending_symbols = {},
      dc_pending_bars = {}, dc_bar_types = [], dc_registered = {}, dc_published = []\<rparr>"

definition dc_publish :: "('p, 'q) publication \<Rightarrow> ('p, 'q) data_client \<Rightarrow> ('p, 'q) data_client" where
  "dc_publish x dc = dc\<lparr>dc_published := dc_published dc @ [x]\<rparr>"

definition cached :: "('p, 'q) data_env \<Rightarrow> instrument_id \<Rightarrow> (instrument_id, 'p, 'q) instrument option" where
  "cached env iid = me_instrument (de_md env) iid"

section \<open>Messages of the feed\<close>

fun publish_ticks ::
    "(instrument_id, 'p, 'q) instrument \<Rightarrow> int \<Rightarrow> wire_tick list \<Rightarrow> ('p, 'q) data_client
       \<Rightarrow> ('p, 'q) data_client \<times> unit result" where
  "publish_ticks ins now [] dc = (dc, Inr ())"
| "publish_ticks ins now (t # ts) dc =
     (case wire_tick_to_quote_tick ins t now of
        Inl e \<Rightarrow> (dc, Inl e)
      | Inr None \<Rightarrow> publish_ticks ins now ts dc
      | Inr (Some q) \<Rightarrow> publish_ticks ins now ts (dc_publish (PubData (QuoteData q)) dc))"

definition handle_feed_ticks ::
    "('p, 'q) data_env \<Rightarrow> int \<Rightarrow> tick_batch \<Rightarrow> ('p, 'q) data_client \<Rightarrow> ('p, 'q) data_client \<times> unit result" where
  "handle_feed_ticks env now batch dc =
     (case cached env \<lparr>iid_symbol = tb_symbol batch, iid_venue = ''METATRADER_5''\<rparr> of
        None \<Rightarrow> (dc, Inr ())
      | Some ins \<Rightarrow> publish_ticks ins now (tb_ticks batch) dc)"

definition handle_feed_bar ::
    "('p, 'q) data_env \<Rightarrow> (int \<Rightarrow> int) \<Rightarrow> int \<Rightarrow> wire_bar \<Rightarrow> ('p, 'q) data_client
       \<Rightarrow> ('p, 'q) data_client \<times> unit result" where
  "handle_feed_bar env secs_to_nanos now wire dc =
     (case dict_get (dc_bar_types dc) (wb_symbol wire, upper (wb_timeframe wire)) of
        None \<Rightarrow> (dc, Inr ())
      | Some bt \<Rightarrow>
          (case cached env (bt_instrument_id bt) of
             None \<Rightarrow> (dc, Inr ())
           | Some ins \<Rightarrow>
               (case wire_bar_to_nautilus_bar secs_to_nanos ins bt wire now of
                  Inl e \<Rightarrow> (dc, Inl e)
                | Inr None \<Rightarrow> (dc, Inr ())
                | Inr (Some b) \<Rightarrow> (dc_publish (PubData (NBarData b)) dc, Inr ()))))"

text \<open>A step of the gateway, when there is one; an exception leaves its state as it was.\<close>

definition on_gateway ::
    "(gateway \<Rightarrow> gateway result) \<Rightarrow> ('p, 'q) data_client \<Rightarrow> ('p, 'q) data_client \<times> unit result" where
  "on_gateway f dc =
     (case dc_gateway dc of
        None \<Rightarrow> (dc, Inr ())
      | Some g \<Rightarrow> (case f g of Inl e \<Rightarrow> (dc, Inl e) | Inr g1 \<Rightarrow> (dc\<lparr>dc_gateway := Some g1\<rparr>, Inr ())))"

definition then_step ::
    "'s \<times> unit result \<Rightarrow> ('s \<Rightarrow> 's \<times> unit result) \<Rightarrow> 's \<times> unit result" where
  "then_step r f = (case r of (s, Inr _) \<Rightarrow> f s | (s, Inl e) \<Rightarrow> (s, Inl e))"

definition wanted_symbols :: "gateway \<Rightarrow> ('p, 'q) data_client \<Rightarrow> string list" where
  "wanted_symbols g dc =
     sorted_list_of_set (dc_pending_symbols dc \<union> pending_subscribe (subscription_state (gw_handler g)))"

definition replay_pending_quote_subscriptions :: "('p, 'q) data_client \<Rightarrow> ('p, 'q) data_client \<times> unit result" where
  "replay_pending_quote_subscriptions dc =
     on_gateway (\<lambda>g. if wanted_symbols g dc \<noteq> [] then gw_subscribe (wanted_symbols g dc) g else Inr g) dc"

text \<open>The symbols of each timeframe, timeframes in the order of their first symbol.\<close>

fun by_timeframe :: "(string \<times> string) list \<Rightarrow> (string, string list) dict \<Rightarrow> (string, string list) dict" where
  "by_timeframe [] d = d"
| "by_timeframe ((symbol, tf) # rest) d =
     by_timeframe rest (dict_set tf (get_default d tf [] @ [symbol]) d)"

definition wanted_bars :: "gateway \<Rightarrow> ('p, 'q) data_client \<Rightarrow> (string, string list) dict" where
  "wanted_bars g dc =
     by_timeframe
       (sorted_list_of_set (dc_pending_bars dc \<union> pending_bar_subscribe (subscription_state (gw_handler g)))) []"

fun subscribe_each :: "(string, string list) dict \<Rightarrow> ('p, 'q) data_client \<Rightarrow> ('p, 'q) data_client \<times> unit result" where
  "subscribe_each [] dc = (dc, Inr ())"
| "subscribe_each ((tf, symbols) # rest) dc =
     then_step (on_gateway (gw_subscribe_bars symbols tf) dc) (subscribe_each rest)"

definition replay_pending_bar_subscriptions :: "('p, 'q) data_client \<Rightarrow> ('p, 'q) data_client \<times> unit result" where
  "replay_pending_bar_subscriptions dc =
     (case dc_gateway dc of None \<Rightarrow> (dc, Inr ()) | Some g \<Rightarrow> subscribe_each (wanted_bars g dc) dc)"

definition handle_feed_event ::
    "('p, 'q) data_env \<Rightarrow> (int \<Rightarrow> int) \<Rightarrow> int \<Rightarrow> wire_inbound \<Rightarrow> ('p, 'q) data_client
       \<Rightarrow> ('p, 'q) data_client \<times> unit result" where
  "handle_feed_event env secs_to_nanos now event dc =
     (case event of
        HelloMessage _ \<Rightarrow> then_step (replay_pending_quote_subscriptions dc) replay_pending_bar_subscriptions
      | TickBatchMessage b \<Rightarrow> handle_feed_ticks env now b dc
      | BarMessage b \<Rightarrow> handle_feed_bar env secs_to_nanos now b dc
      | _ \<Rightarrow> (dc, Inr ()))"

text \<open>
  A frame of connection \<open>w\<close>: the gateway's handling with this client as its callback. What the callback
  raises leaves the loop of the connection, as any exception but a \<^verbatim>\<open>ValueError\<close> of the parser does.
\<close>

definition end_connection :: "nat \<Rightarrow> ('p, 'q) data_client \<Rightarrow> ('p, 'q) data_client" where
  "end_connection w dc = dc\<lparr>dc_gateway := map_option (gw_disconnect w) (dc_gateway dc)\<rparr>"

definition feed_frame ::
    "('p, 'q) data_env \<Rightarrow> (int \<Rightarrow> int) \<Rightarrow> int \<Rightarrow> nat \<Rightarrow> raw_frame \<Rightarrow> ('p, 'q) data_client \<Rightarrow> ('p, 'q) data_client" where
  "feed_frame env secs_to_nanos now w raw dc =
     (case dc_gateway dc of
        None \<Rightarrow> dc
      | Some g \<Rightarrow>
          (case gw_handle_raw raw g of
             Inl _ \<Rightarrow> end_connection w dc
           | Inr g1 \<Rightarrow>
               (let dc1 = dc\<lparr>dc_gateway := Some g1\<rparr>
                in if length (events g1) = length (events g) then dc1
                   else
                     (case handle_feed_event env secs_to_nanos now (last (events g1)) dc1 of
                        (dc2, Inr _) \<Rightarrow> dc2
                      | (dc2, Inl _) \<Rightarrow> end_connection w dc2))))"

section \<open>The life of the gateway\<close>

text \<open>
  While there is a gateway, the client's handler is the gateway's, one object with two names.
  \<^verbatim>\<open>_start_feed_gateway\<close> up to the wait for the hello, and from it: \<open>finish_start_feed\<close> is run when the
  hello has come or the time is over.
\<close>

definition current_handler :: "('p, 'q) data_client \<Rightarrow> feed_handler option" where
  "current_handler dc = (case dc_gateway dc of Some g \<Rightarrow> Some (gw_handler g) | None \<Rightarrow> dc_handler dc)"

definition begin_start_feed :: "data_config \<Rightarrow> ('p, 'q) data_client \<Rightarrow> ('p, 'q) data_client" where
  "begin_start_feed cfg dc =
     (let h = (case current_handler dc of Some h \<Rightarrow> h | None \<Rightarrow> feed_handler_init);
          g = (gateway_init (fc_path (dcf_feed cfg)))\<lparr>gw_handler := h\<rparr>
      in dc\<lparr>dc_gateway := Some (gw_start g), dc_handler := Some h\<rparr>)"

definition finish_start_feed :: "('p, 'q) data_client \<Rightarrow> ('p, 'q) data_client \<times> unit result" where
  "finish_start_feed dc =
     (case dc_gateway dc of
        None \<Rightarrow> (dc, Inl AttributeError)
      | Some g \<Rightarrow>
          (case wait_for_hello g of
             Inl e \<Rightarrow>
               if e = TimeoutError then (dc\<lparr>dc_gateway := None, dc_handler := Some (gw_handler (gw_stop g))\<rparr>, Inl RuntimeError)
               else (dc, Inl e)
           | Inr _ \<Rightarrow> then_step (replay_pending_quote_subscriptions dc) replay_pending_bar_subscriptions))"

text \<open>Stopping keeps the handler, with the cursors of the ticks and bars seen.\<close>

definition stop_feed :: "('p, 'q) data_client \<Rightarrow> ('p, 'q) data_client" where
  "stop_feed dc =
     (case dc_gateway dc of
        None \<Rightarrow> dc
      | Some g \<Rightarrow> dc\<lparr>dc_handler := Some (gw_handler g), dc_gateway := None\<rparr>)"

definition restart_feed_gateway :: "data_config \<Rightarrow> ('p, 'q) data_client \<Rightarrow> ('p, 'q) data_client" where
  "restart_feed_gateway cfg dc = begin_start_feed cfg (stop_feed dc)"

text \<open>
  \<^verbatim>\<open>_connect\<close> up to the hello: \<open>conn\<close> is what the client's connection ends in, \<open>loaded\<close> what the
  provider's initialization ends in, with the instruments it lists.
\<close>

definition no_profile_error :: py_exc where
  "no_profile_error =
     ValueError (''MetaTrader5DataClient requires a '' @ [CHR 0x27] @ ''venue_profile'' @ [CHR 0x27] @
       '' to be configured. Use a pre-built profile (e.g., from nautilus_mt5 import TICKMILL_DEMO_PROFILE) '' @
       ''or define a custom VenueProfile. Set it via MetaTrader5DataClientConfig(venue_profile=...).'')"

definition data_connect ::
    "data_config \<Rightarrow> unit result \<Rightarrow> instrument_id list result \<Rightarrow> ('p, 'q) data_client \<Rightarrow> ('p, 'q) data_client \<times> unit result" where
  "data_connect cfg conn loaded dc =
     (if dcf_profile cfg = None then
        (dc, Inl no_profile_error)
      else
        (case conn of
           Inl e \<Rightarrow> (dc, Inl e)
         | Inr _ \<Rightarrow>
             (let dc1 = dc\<lparr>dc_registered := insert (dcf_id cfg) (dc_registered dc)\<rparr>
              in case loaded of
                   Inl e \<Rightarrow> (dc1, Inl e)
                 | Inr iids \<Rightarrow>
                     (let dc2 = fold (\<lambda>i. dc_publish (PubInstrument i)) iids dc1
                      in (if fc_enabled (dcf_feed cfg) then begin_start_feed cfg dc2 else dc2, Inr ())))))"

text \<open>The second component tells whether the client's own connection is closed too.\<close>

definition data_disconnect :: "data_config \<Rightarrow> bool \<Rightarrow> ('p, 'q) data_client \<Rightarrow> ('p, 'q) data_client \<times> bool" where
  "data_disconnect cfg running dc =
     (let dc1 = stop_feed (dc\<lparr>dc_registered := dc_registered dc - {dcf_id cfg}\<rparr>)
      in (dc1, running \<and> dc_registered dc1 = {}))"

section \<open>Subscriptions\<close>

text \<open>The calls of the polling client, with what the bridge has and answers.\<close>

record bridge_ticks =
  br_has_poll :: bool
  br_has_cancel :: bool
  br_subscribe :: "sub_handle \<Rightarrow> unit result"
  br_cancel :: "bridge_call \<Rightarrow> unit result"

definition on_market ::
    "(('p, 'q) market \<Rightarrow> ('p, 'q) market \<times> unit result) \<Rightarrow> ('p, 'q) data_client
       \<Rightarrow> ('p, 'q) data_client \<times> unit result" where
  "on_market f dc = (case f (dc_market dc) of (m, r) \<Rightarrow> (dc\<lparr>dc_market := m\<rparr>, r))"

definition client_subscribe ::
    "bridge_ticks \<Rightarrow> instrument_id \<Rightarrow> mt5_symbol \<Rightarrow> string \<Rightarrow> bool \<Rightarrow> ('p, 'q) data_client
       \<Rightarrow> ('p, 'q) data_client \<times> unit result" where
  "client_subscribe br iid s tick_type ignore_size =
     on_market (subscribe_ticks (br_has_poll br) (br_has_cancel br) (br_subscribe br) iid s tick_type ignore_size)"

definition client_unsubscribe ::
    "bridge_ticks \<Rightarrow> instrument_id \<Rightarrow> string \<Rightarrow> ('p, 'q) data_client \<Rightarrow> ('p, 'q) data_client \<times> unit result" where
  "client_unsubscribe br iid tick_type = on_market (unsubscribe_ticks (br_has_cancel br) (br_cancel br) iid tick_type)"

definition mt5_symbol_from_instrument :: "('p, 'q) data_env \<Rightarrow> instrument_id \<Rightarrow> string" where
  "mt5_symbol_from_instrument env iid =
     (case de_symbol env iid of Some s \<Rightarrow> sym_symbol s | None \<Rightarrow> iid_symbol iid)"

definition subscribe_quote_ticks ::
    "data_config \<Rightarrow> ('p, 'q) data_env \<Rightarrow> bridge_ticks \<Rightarrow> instrument_id \<Rightarrow> ('p, 'q) data_client
       \<Rightarrow> ('p, 'q) data_client \<times> unit result" where
  "subscribe_quote_ticks cfg env br iid dc =
     (case cached env iid of
        None \<Rightarrow> (dc, Inr ())
      | Some _ \<Rightarrow>
          (let s = (case de_symbol env iid of Some s \<Rightarrow> s | None \<Rightarrow> mt5_symbol_of (iid_symbol iid))
           in if fc_enabled (dcf_feed cfg) then
                on_gateway (gw_subscribe [sym_symbol s])
                  (dc\<lparr>dc_pending_symbols := insert (sym_symbol s) (dc_pending_symbols dc)\<rparr>)
              else client_subscribe br iid s ''BidAsk'' (dcf_ignore_size cfg) dc))"

text \<open>
  The check of a capability that trade ticks go through first: \<open>None\<close> when the subscription or the
  request ends there. Only a \<^verbatim>\<open>ValueError\<close> of the profile is caught.
\<close>

definition trade_ticks_allowed :: "data_config \<Rightarrow> ('p, 'q) data_env \<Rightarrow> instrument_id \<Rightarrow> bool result" where
  "trade_ticks_allowed cfg env iid =
     (case dcf_profile cfg of
        None \<Rightarrow> Inl AttributeError
      | Some vp \<Rightarrow>
          (case check_capability vp (de_calc_mode env iid) TradeTicks of
             Inl e \<Rightarrow> if is_value_error e then Inr False else Inl e
           | Inr status \<Rightarrow> Inr (status \<noteq> UNSUPPORTED)))"

definition subscribe_trade_ticks ::
    "data_config \<Rightarrow> ('p, 'q) data_env \<Rightarrow> bridge_ticks \<Rightarrow> instrument_id \<Rightarrow> ('p, 'q) data_client
       \<Rightarrow> ('p, 'q) data_client \<times> unit result" where
  "subscribe_trade_ticks cfg env br iid dc =
     (case cached env iid of
        None \<Rightarrow> (dc, Inr ())
      | Some _ \<Rightarrow>
          (case trade_ticks_allowed cfg env iid of
             Inl e \<Rightarrow> (dc, Inl e)
           | Inr False \<Rightarrow> (dc, Inr ())
           | Inr True \<Rightarrow>
               (case de_symbol env iid of
                  None \<Rightarrow> (dc, Inl GenericException)
                | Some s \<Rightarrow> client_subscribe br iid s ''AllLast'' (dcf_ignore_size cfg) dc)))"

definition subscribe_bars ::
    "data_config \<Rightarrow> ('p, 'q) data_env \<Rightarrow> bar_type \<Rightarrow> ('p, 'q) data_client \<Rightarrow> ('p, 'q) data_client \<times> unit result" where
  "subscribe_bars cfg env bt dc =
     (case cached env (bt_instrument_id bt) of
        None \<Rightarrow> (dc, Inr ())
      | Some _ \<Rightarrow>
          (let symbol = mt5_symbol_from_instrument env (bt_instrument_id bt)
           in if fc_enabled (dcf_feed cfg) then
                (case bar_spec_to_wire_timeframe (bt_spec bt) of
                   Inl e \<Rightarrow> (dc, if is_value_error e then Inr () else Inl e)
                 | Inr tf \<Rightarrow>
                     on_gateway (gw_subscribe_bars [symbol] tf)
                       (dc\<lparr>dc_pending_bars := insert (symbol, tf) (dc_pending_bars dc),
                           dc_bar_types := dict_set (symbol, tf) bt (dc_bar_types dc)\<rparr>))
              else (dc, Inr ())))"

definition unsubscribe_quote_ticks ::
    "data_config \<Rightarrow> ('p, 'q) data_env \<Rightarrow> bridge_ticks \<Rightarrow> instrument_id \<Rightarrow> ('p, 'q) data_client
       \<Rightarrow> ('p, 'q) data_client \<times> unit result" where
  "unsubscribe_quote_ticks cfg env br iid dc =
     (if fc_enabled (dcf_feed cfg) then
        (case cached env iid of
           None \<Rightarrow> (dc, Inr ())
         | Some _ \<Rightarrow>
             (let symbol = mt5_symbol_from_instrument env iid
              in on_gateway (gw_unsubscribe [symbol])
                   (dc\<lparr>dc_pending_symbols := dc_pending_symbols dc - {symbol}\<rparr>)))
      else client_unsubscribe br iid ''BidAsk'' dc)"

definition unsubscribe_trade_ticks ::
    "bridge_ticks \<Rightarrow> instrument_id \<Rightarrow> ('p, 'q) data_client \<Rightarrow> ('p, 'q) data_client \<times> unit result" where
  "unsubscribe_trade_ticks br iid dc = client_unsubscribe br iid ''AllLast'' dc"

definition unsubscribe_bars ::
    "data_config \<Rightarrow> ('p, 'q) data_env \<Rightarrow> bar_type \<Rightarrow> ('p, 'q) data_client \<Rightarrow> ('p, 'q) data_client \<times> unit result" where
  "unsubscribe_bars cfg env bt dc =
     (if fc_enabled (dcf_feed cfg) then
        (case cached env (bt_instrument_id bt) of
           None \<Rightarrow> (dc, Inr ())
         | Some _ \<Rightarrow>
             (let symbol = mt5_symbol_from_instrument env (bt_instrument_id bt)
              in case bar_spec_to_wire_timeframe (bt_spec bt) of
                   Inl e \<Rightarrow> (dc, if is_value_error e then Inr () else Inl e)
                 | Inr tf \<Rightarrow>
                     on_gateway (gw_unsubscribe_bars [symbol] tf)
                       (dc\<lparr>dc_pending_bars := dc_pending_bars dc - {(symbol, tf)},
                           dc_bar_types := dict_pop (symbol, tf) (dc_bar_types dc)\<rparr>)))
      else (dc, Inr ()))"

section \<open>Requests for history\<close>

text \<open>
  \<^verbatim>\<open>_handle_ticks_request\<close>. \<open>fetch k\<close> is the answer of the \<open>k\<close>-th query to the client, for an end and a
  number of ticks. A limit of \<open>None\<close> fails where it is compared or subtracted from. The loop may go on
  for ever: \<open>fuel\<close> bounds its rounds, and the value is \<open>None\<close> when they do not suffice.
\<close>

fun ticks_loop ::
    "(nat \<Rightarrow> int \<Rightarrow> int \<Rightarrow> ('p, 'q) ndata list result) \<Rightarrow> int option \<Rightarrow> int option \<Rightarrow> nat \<Rightarrow> nat \<Rightarrow> int
       \<Rightarrow> ('p, 'q) ndata list \<Rightarrow> ('p, 'q) ndata list result option" where
  "ticks_loop fetch start limit 0 k end_time ticks = None"
| "ticks_loop fetch start limit (Suc fuel) k end_time ticks =
     (let by_start = (case start of Some s \<Rightarrow> s < end_time | None \<Rightarrow> False) in
      if \<not> by_start \<and> limit = None then Some (Inl TypeError)
      else if \<not> by_start \<and> \<not> (int (length ticks) < the limit \<and> 0 < the limit) then Some (Inr ticks)
      else
        (case limit of
           None \<Rightarrow> Some (Inl TypeError)
         | Some n \<Rightarrow>
             (case fetch k end_time (min (max (n - int (length ticks)) 1) 1000) of
                Inl e \<Rightarrow> Some (Inl e)
              | Inr [] \<Rightarrow> Some (Inr ticks)
              | Inr part \<Rightarrow>
                  ticks_loop fetch start limit fuel (Suc k) (Min (set (map data_ts_init part))) (ticks @ part))))"

definition handle_ticks_request ::
    "(nat \<Rightarrow> int \<Rightarrow> int \<Rightarrow> ('p, 'q) ndata list result) \<Rightarrow> int \<Rightarrow> nat \<Rightarrow> int \<Rightarrow> int option \<Rightarrow> int option \<Rightarrow> int option
       \<Rightarrow> ('p, 'q) ndata list result option" where
  "handle_ticks_request fetch capacity fuel now limit start end_time =
     map_option (\<lambda>r. bindR r (\<lambda>ts. Inr (sort_key data_ts_init ts)))
       (ticks_loop fetch start
          (if start = None \<and> (limit = None \<or> limit = Some 0) then Some capacity else limit)
          fuel 0 (case end_time of Some e \<Rightarrow> e | None \<Rightarrow> now) [])"

definition ticks_reply ::
    "instrument_id \<Rightarrow> string \<Rightarrow> ('p, 'q) ndata list result option \<Rightarrow> ('p, 'q) data_client
       \<Rightarrow> (('p, 'q) data_client \<times> unit result) option" where
  "ticks_reply iid corr answer dc =
     map_option (\<lambda>r. case r of
        Inl e \<Rightarrow> (dc, Inl e)
      | Inr [] \<Rightarrow> (dc, Inr ())
      | Inr ts \<Rightarrow> (dc_publish (PubTicks iid ts corr) dc, Inr ())) answer"

text \<open>\<open>query s kind\<close> is the loop for the symbol and the kind of ticks.\<close>

definition request_quote_ticks ::
    "('p, 'q) data_env \<Rightarrow> (mt5_symbol \<Rightarrow> string \<Rightarrow> ('p, 'q) ndata list result option) \<Rightarrow> instrument_id \<Rightarrow> string
       \<Rightarrow> ('p, 'q) data_client \<Rightarrow> (('p, 'q) data_client \<times> unit result) option" where
  "request_quote_ticks env query iid corr dc =
     (case cached env iid of
        None \<Rightarrow> Some (dc, Inr ())
      | Some _ \<Rightarrow>
          (case de_symbol env iid of
             None \<Rightarrow> Some (dc, Inl GenericException)
           | Some s \<Rightarrow> ticks_reply iid corr (query s ''BID_ASK'') dc))"

definition request_trade_ticks ::
    "data_config \<Rightarrow> ('p, 'q) data_env \<Rightarrow> (mt5_symbol \<Rightarrow> string \<Rightarrow> ('p, 'q) ndata list result option) \<Rightarrow> instrument_id
       \<Rightarrow> string \<Rightarrow> ('p, 'q) data_client \<Rightarrow> (('p, 'q) data_client \<times> unit result) option" where
  "request_trade_ticks cfg env query iid corr dc =
     (case cached env iid of
        None \<Rightarrow> Some (dc, Inr ())
      | Some _ \<Rightarrow>
          (case trade_ticks_allowed cfg env iid of
             Inl e \<Rightarrow> Some (dc, Inl e)
           | Inr False \<Rightarrow> Some (dc, Inr ())
           | Inr True \<Rightarrow>
               (case de_symbol env iid of
                  None \<Rightarrow> Some (dc, Inl GenericException)
                | Some s \<Rightarrow> ticks_reply iid corr (query s ''TRADES'') dc)))"

text \<open>
  \<^verbatim>\<open>_request_bars\<close>. \<open>set_list\<close> lists the set of the bars in the order the set has, \<open>history\<close> is the
  client's query, and \<open>ba_diff\<close> the platform's difference of two times. A duration is a text.
\<close>

record bars_env =
  ba_time_aggregated :: "bar_spec \<Rightarrow> bool"
  ba_diff :: "int \<Rightarrow> int \<Rightarrow> timedelta"

definition bars_duration :: "bars_env \<Rightarrow> bar_type \<Rightarrow> int option \<Rightarrow> int \<Rightarrow> string" where
  "bars_duration ba bt start end_time =
     (case start of
        Some s \<Rightarrow> timedelta_to_duration_str (ba_diff ba end_time s)
      | None \<Rightarrow> if 60 * 1000000000 \<le> bt_interval bt then ''7 D'' else ''1 D'')"

definition request_bars ::
    "bars_env \<Rightarrow> ('p, 'q) data_env \<Rightarrow> ((bar_type, 'p, 'q) nbar list \<Rightarrow> (bar_type, 'p, 'q) nbar list)
       \<Rightarrow> (mt5_symbol \<Rightarrow> int \<Rightarrow> string \<Rightarrow> int option \<Rightarrow> int option \<Rightarrow> (bar_type, 'p, 'q) nbar list result)
       \<Rightarrow> int \<Rightarrow> bar_type \<Rightarrow> int \<Rightarrow> int option \<Rightarrow> int option \<Rightarrow> string \<Rightarrow> ('p, 'q) data_client
       \<Rightarrow> ('p, 'q) data_client \<times> unit result" where
  "request_bars ba env set_list history now bt limit start end_time corr dc =
     (case cached env (bt_instrument_id bt) of
        None \<Rightarrow> (dc, Inr ())
      | Some _ \<Rightarrow>
          if \<not> ba_time_aggregated ba (bt_spec bt) then (dc, Inr ())
          else
            (let lim = (if start = None \<and> limit = 0 then 1000 else limit);
                 e = (case end_time of Some t \<Rightarrow> t | None \<Rightarrow> now)
             in case de_symbol env (bt_instrument_id bt) of
                  None \<Rightarrow> (dc, Inl GenericException)
                | Some s \<Rightarrow>
                    (case history s e (bars_duration ba bt start e) start
                            (if start = None then Some lim else None) of
                       Inl x \<Rightarrow> (dc, Inl x)
                     | Inr [] \<Rightarrow> (dc_publish (PubStatus corr False) dc, Inr ())
                     | Inr bs \<Rightarrow>
                         (let sorted_bars = sort_key nb_ts_init (set_list bs)
                          in (dc_publish (PubStatus corr True)
                                (dc_publish (PubBars bt sorted_bars (hd sorted_bars) corr) dc), Inr ())))))"

text \<open>\<open>found\<close> is what the provider has after loading the identifier.\<close>

definition request_instrument ::
    "unit result \<Rightarrow> bool \<Rightarrow> instrument_id \<Rightarrow> string \<Rightarrow> ('p, 'q) data_client \<Rightarrow> ('p, 'q) data_client \<times> unit result" where
  "request_instrument loaded found iid corr dc =
     (case loaded of
        Inl e \<Rightarrow> (dc, Inl e)
      | Inr _ \<Rightarrow>
          if found then (dc_publish (PubInstrumentReply iid corr) (dc_publish (PubInstrument iid) dc), Inr ())
          else (dc, Inr ()))"

end
