(* ===== verification/Market_Facts.thy ===== *)
theory Market_Facts
  imports Market_Data
begin

text \<open>
  What the client's market data does: subscriptions come and go, the polling loop turns the terminal's
  quotes of subscribed symbols into the platform's, bars are passed on when they are closed, and the
  queries for history.
\<close>

section \<open>Closed bars\<close>

text \<open>
  The reference: of a stream of bars, those that are older than the one before them are out of sync;
  of the rest, the last version of each bar is closed when a later bar begins.
\<close>

fun in_sync :: "int \<Rightarrow> bar_data list \<Rightarrow> bar_data list" where
  "in_sync t [] = []"
| "in_sync t (b # bs) = (if bd_time b < t then in_sync t bs else b # in_sync (bd_time b) bs)"

fun closed_bars :: "bar_data list \<Rightarrow> bar_data list" where
  "closed_bars (a # b # bs) =
     (if bd_time a < bd_time b then a # closed_bars (b # bs) else closed_bars (b # bs))"
| "closed_bars bs = []"

text \<open>The code's answers to a stream of bars, each with the clock's reading, and the bars among them.\<close>

fun bar_answers ::
    "('p, 'q) md_env \<Rightarrow> string \<Rightarrow> bool \<Rightarrow> (int \<times> bar_data) list \<Rightarrow> (string, bar_data) dict
       \<Rightarrow> (bar_type, 'p, 'q) nbar option result list" where
  "bar_answers env name revised [] d = []"
| "bar_answers env name revised ((now, bar) # rest) d =
     (case process_bar_data env name revised False now now bar d of
        (d1, r) \<Rightarrow> r # bar_answers env name revised rest d1)"

definition passed_on :: "'b option result list \<Rightarrow> 'b list" where
  "passed_on rs = concat (map (\<lambda>r. case r of Inr (Some b) \<Rightarrow> [b] | _ \<Rightarrow> []) rs)"

lemma passed_on_simps [simp]:
  "passed_on [] = []"
  "passed_on (Inl e # rs) = passed_on rs"
  "passed_on (Inr None # rs) = passed_on rs"
  "passed_on (Inr (Some b) # rs) = b # passed_on rs"
  by (simp_all add: passed_on_def)

lemma process_bar_old: 
  "dict_get d name = Some p \<Longrightarrow> bd_time bar < bd_time p \<Longrightarrow>
   process_bar_data env name revised historical now later bar d = (d, Inr None)"
  by (simp add: process_bar_data_def)

lemma process_bar_again:
  "dict_get d name = Some p \<Longrightarrow> bd_time bar = bd_time p \<Longrightarrow> me_bar_type env name = Inr bt \<Longrightarrow>
   process_bar_data env name False historical now later bar d = (dict_set name bar d, Inr None)"
  by (simp add: process_bar_data_def)

lemma process_bar_new:
  "dict_get d name = Some p \<Longrightarrow> bd_time p < bd_time bar \<Longrightarrow> me_bar_type env name = Inr bt \<Longrightarrow>
   process_bar_data env name False False now later bar d =
     (dict_set name bar d, bindR (mt5_bar_to_nautilus_bar env bt p now False) (\<lambda>b. Inr (Some b)))"
  by (simp add: process_bar_data_def)

lemma process_bar_first:
  "dict_get d name = None \<Longrightarrow> me_bar_type env name = Inr bt \<Longrightarrow>
   process_bar_data env name False historical now later bar d =
     (if bd_time bar < 0 then (d, Inr None) else (dict_set name bar d, Inr None))"
  by (simp add: process_bar_data_def)

text \<open>\<open>converts\<close> says that a bar becomes another one, at one of the clock's readings.\<close>

definition converts :: "('p, 'q) md_env \<Rightarrow> bar_type \<Rightarrow> int set \<Rightarrow> bar_data \<Rightarrow> (bar_type, 'p, 'q) nbar \<Rightarrow> bool" where
  "converts env bt nows p b \<longleftrightarrow> (\<exists>now \<in> nows. mt5_bar_to_nautilus_bar env bt p now False = Inr b)"

lemma list_all2_converts_mono:
  "list_all2 (converts env bt A) ps bs \<Longrightarrow> A \<subseteq> B \<Longrightarrow> list_all2 (converts env bt B) ps bs"
  by (erule list_all2_mono) (auto simp: converts_def)

lemma bar_answers_from:
  assumes "me_bar_type env name = Inr bt"
    and "\<forall>p \<in> insert p0 (snd ` set msgs). \<forall>now. \<exists>b. mt5_bar_to_nautilus_bar env bt p now False = Inr b"
    and "dict_get d name = Some p0"
  shows "list_all2 (converts env bt (fst ` set msgs)) (closed_bars (p0 # in_sync (bd_time p0) (map snd msgs)))
           (passed_on (bar_answers env name False msgs d))"
  using assms(2,3)
proof (induction msgs arbitrary: p0 d)
  case (Cons m msgs)
  obtain now bar where m: "m = (now, bar)" by (cases m)
  consider "bd_time bar < bd_time p0" | "bd_time bar = bd_time p0" | "bd_time p0 < bd_time bar" by linarith
  then show ?case
  proof cases
    case 1
    have "list_all2 (converts env bt (fst ` set msgs)) (closed_bars (p0 # in_sync (bd_time p0) (map snd msgs)))
        (passed_on (bar_answers env name False msgs d))"
      by (rule Cons.IH) (use Cons.prems in auto)
    then show ?thesis
      using 1 Cons.prems(2) m by (auto simp: process_bar_old intro: list_all2_converts_mono)
  next
    case 2
    have "list_all2 (converts env bt (fst ` set msgs)) (closed_bars (bar # in_sync (bd_time bar) (map snd msgs)))
        (passed_on (bar_answers env name False msgs (dict_set name bar d)))"
      by (rule Cons.IH) (use Cons.prems m in \<open>auto simp: dict_simps\<close>)
    then show ?thesis
      using 2 Cons.prems(2) m assms(1)
      by (cases "in_sync (bd_time p0) (map snd msgs)")
         (auto simp: process_bar_again intro: list_all2_converts_mono)
  next
    case 3
    have ih: "list_all2 (converts env bt (fst ` set msgs)) (closed_bars (bar # in_sync (bd_time bar) (map snd msgs)))
        (passed_on (bar_answers env name False msgs (dict_set name bar d)))"
      by (rule Cons.IH) (use Cons.prems m in \<open>auto simp: dict_simps\<close>)
    obtain b where b: "mt5_bar_to_nautilus_bar env bt p0 now False = Inr b" using Cons.prems(1) by blast
    then have "converts env bt (fst ` set (m # msgs)) p0 b" by (auto simp: converts_def m)
    then show ?thesis
      using 3 Cons.prems(2) m assms(1) b ih
      by (auto simp: process_bar_new intro: list_all2_converts_mono)
  qed
qed simp

lemma closed_bars_single: "closed_bars (b # bs) = (case bs of [] \<Rightarrow> [] | c # cs \<Rightarrow>
    if bd_time b < bd_time c then b # closed_bars bs else closed_bars bs)"
  by (cases bs) auto

lemma in_sync_ge: "b \<in> set (in_sync t bs) \<Longrightarrow> t \<le> bd_time b"
  by (induction t bs rule: in_sync.induct) (fastforce split: if_splits)+

lemma in_sync_sorted: "sorted_wrt (\<lambda>a b. bd_time a \<le> bd_time b) (in_sync t bs)"
  by (induction t bs rule: in_sync.induct) (auto dest: in_sync_ge)

lemma closed_bars_increasing:
  assumes "sorted_wrt (\<lambda>a b. bd_time a \<le> bd_time b) bs"
  shows "sorted_wrt (\<lambda>a b. bd_time a < bd_time b) (closed_bars bs) \<and> set (closed_bars bs) \<subseteq> set bs \<and>
         (\<forall>a \<in> set (closed_bars bs). bd_time a < bd_time (last bs))"
  using assms
proof (induction bs rule: closed_bars.induct)
  case (1 a b bs)
  have ih: "sorted_wrt (\<lambda>a b. bd_time a < bd_time b) (closed_bars (b # bs))"
    "set (closed_bars (b # bs)) \<subseteq> set (b # bs)" "\<forall>x \<in> set (closed_bars (b # bs)). bd_time x < bd_time (last (b # bs))"
    using 1 by (cases "bd_time a < bd_time b"; simp)+
  have "\<forall>x \<in> set (b # bs). bd_time b \<le> bd_time x" using 1(3) by auto
  then have later: "\<forall>x \<in> set (closed_bars (b # bs)). bd_time b \<le> bd_time x" and "bd_time b \<le> bd_time (last (b # bs))"
    using ih(2) by (blast, simp)
  then show ?case
    by (cases "bd_time a < bd_time b") (use ih later in \<open>force+\<close>)
qed auto

lemma bar_answers_fresh:
  assumes "me_bar_type env name = Inr bt"
    and "\<forall>p \<in> snd ` set msgs. \<forall>now. \<exists>b. mt5_bar_to_nautilus_bar env bt p now False = Inr b"
    and "dict_get d name = None"
  shows "list_all2 (converts env bt (fst ` set msgs)) (closed_bars (in_sync 0 (map snd msgs)))
           (passed_on (bar_answers env name False msgs d))"
  using assms(2,3)
proof (induction msgs)
  case (Cons m msgs)
  obtain now bar where m: "m = (now, bar)" by (cases m)
  show ?case
  proof (cases "bd_time bar < 0")
    case True
    have "list_all2 (converts env bt (fst ` set msgs)) (closed_bars (in_sync 0 (map snd msgs)))
        (passed_on (bar_answers env name False msgs d))"
      by (rule Cons.IH) (use Cons.prems in auto)
    then show ?thesis
      using True Cons.prems m assms(1) by (auto simp: process_bar_first intro: list_all2_converts_mono)
  next
    case False
    have "list_all2 (converts env bt (fst ` set msgs)) (closed_bars (bar # in_sync (bd_time bar) (map snd msgs)))
        (passed_on (bar_answers env name False msgs (dict_set name bar d)))"
      by (rule bar_answers_from [OF assms(1)]) (use Cons.prems m in \<open>auto simp: dict_simps\<close>)
    then show ?thesis
      using False Cons.prems m assms(1) by (auto simp: process_bar_first intro: list_all2_converts_mono)
  qed
qed simp

text \<open>
  C17: bars of a live stream are passed on when they are closed: the bars the platform gets are, one
  for one, conversions of the closed bars of the stream (the last version of each bar in sync, when a
  later one has begun), and these follow one another strictly in time.
\<close>

theorem bars_pass_when_closed:
  assumes "me_bar_type env name = Inr bt"
    and "\<forall>p \<in> snd ` set msgs. \<forall>now. \<exists>b. mt5_bar_to_nautilus_bar env bt p now False = Inr b"
    and "dict_get d name = None"
  shows "list_all2 (converts env bt (fst ` set msgs)) (closed_bars (in_sync 0 (map snd msgs)))
           (passed_on (bar_answers env name False msgs d)) \<and>
         sorted_wrt (\<lambda>a b. bd_time a < bd_time b) (closed_bars (in_sync 0 (map snd msgs)))"
  using bar_answers_fresh [OF assms] closed_bars_increasing [OF in_sync_sorted] by blast

definition example_instrument :: "instrument_id \<Rightarrow> (instrument_id, pyfloat, int) instrument" where
  "example_instrument iid = \<lparr>instrument_id = iid, make_price = Inr, make_qty = Inr\<rparr>"

definition eurusd :: instrument_id where
  "eurusd = \<lparr>iid_symbol = ''EURUSD'', iid_venue = ''METATRADER_5''\<rparr>"

definition minute_bars :: bar_type where
  "minute_bars = \<lparr>bt_text = ''EURUSD-1-MINUTE'', bt_instrument_id = eurusd,
                  bt_spec = \<lparr>aggregation = MINUTE, step = 1, spec_repr = ''1-MINUTE''\<rparr>,
                  bt_interval = 60000000000\<rparr>"

definition md_example :: "(pyfloat, int) md_env" where
  "md_example =
     \<lparr>me_instrument = (\<lambda>iid. Some (example_instrument iid)), me_from_str = (\<lambda>_. Inr eurusd),
      me_bar_type = (\<lambda>_. Inr minute_bars), me_fromtimestamp = (\<lambda>_. Inr 0), me_secs = (\<lambda>t. Inr (t * 1000000000)),
      me_ymd = (\<lambda>t. if 99991231 < t then Inl (ValueError []) else Inr t), me_ymd_text = (\<lambda>_. Inl TypeError),
      me_timestamp = (\<lambda>t. Fin (of_int t / 1000000000)), me_minus = (\<lambda>t _. Inr t), me_trade = (\<lambda>_. Inr ())\<rparr>"

definition example_bar :: "int \<Rightarrow> pyfloat \<Rightarrow> bar_data" where
  "example_bar t c = \<lparr>bd_symbol = ''EURUSD'', bd_time = t, bd_open = 1, bd_high = 1, bd_low = 1, bd_close = c,
                      bd_volume = 1, bd_complete = True\<rparr>"

lemma md_example_converts: "\<exists>b. mt5_bar_to_nautilus_bar md_example minute_bars p now rv = Inr b"
  by (simp add: mt5_bar_to_nautilus_bar_def md_example_def example_instrument_def minute_bars_def
      convert_mt5_bar_date_def make_bar_def)

lemma bars_pass_when_closed_witness:
  "\<exists>b. passed_on (bar_answers md_example ''b'' False
          [(5, example_bar 60 (Fin 1)), (6, example_bar 60 (Fin 2)), (7, example_bar 120 (Fin 3)), (8, example_bar 60 (Fin 4))] []) = [b] \<and>
       converts md_example minute_bars {5, 6, 7, 8} (example_bar 60 (Fin 2)) b"
proof -
  let ?ms = "[(5, example_bar 60 (Fin 1)), (6, example_bar 60 (Fin 2)), (7, example_bar 120 (Fin 3)), (8, example_bar 60 (Fin 4))]"
  have "list_all2 (converts md_example minute_bars (fst ` set ?ms)) (closed_bars (in_sync 0 (map snd ?ms)))
      (passed_on (bar_answers md_example ''b'' False ?ms []))"
    using bars_pass_when_closed [of md_example "''b''" minute_bars ?ms "[]"] md_example_converts
    by (simp add: md_example_def)
  moreover have "closed_bars (in_sync 0 (map snd ?ms)) = [example_bar 60 (Fin 2)]" by (simp add: example_bar_def)
  ultimately show ?thesis by (auto simp: list_all2_Cons1)
qed

section \<open>Subscriptions\<close>

definition market_wf :: "('p, 'q) market \<Rightarrow> bool" where
  "market_wf m \<longleftrightarrow>
     subscriptions_wf (md_subs m) \<and> 0 < md_seq m \<and>
     (\<forall>r \<in> set (dict_keys (req_id_to_name (md_subs m))). r < md_seq m)"

lemma market_init_wf: "market_wf market_init"
  by (simp add: market_wf_def market_init_def subscriptions_empty_wf) (simp add: subscriptions_empty_def)

text \<open>What a new tick subscription adds to the registry, however its first call ends.\<close>

definition tick_handle :: "bool \<Rightarrow> int \<Rightarrow> mt5_symbol \<Rightarrow> string \<Rightarrow> bool \<Rightarrow> sub_handle" where
  "tick_handle bridged rid s tick_type ignore_size =
     \<lparr>sh_method = (if bridged then BridgeTicks else NoOpTicks),
      sh_args = [ArgInt rid, ArgSymbol s, ArgText tick_type, ArgInt 0, ArgBool ignore_size], sh_keywords = []\<rparr>"

lemma subscribe_ticks_new:
  assumes wf: "market_wf m" and live: "\<not> (md_live_feed m \<and> is_quote_tick_subscription ty)"
    and none: "subscriptions_get (md_subs m) None (Some (NPair (instrument_id_value iid) ty)) = Inr None"
    and step: "subscribe_ticks has_poll has_cancel call iid s ty ign m = (m1, r)"
  shows "\<exists>e. subscriptions_add (md_seq m) (NPair (instrument_id_value iid) ty)
              (tick_handle (has_poll \<and> has_cancel) (md_seq m) s ty ign) (md_seq m) (md_subs m) = Inr (md_subs m1, Some e) \<and>
           sub_req_id e = md_seq m \<and> sub_name e = NPair (instrument_id_value iid) ty \<and>
           sub_handle e = tick_handle (has_poll \<and> has_cancel) (md_seq m) s ty ign \<and>
           m1 = m\<lparr>md_seq := md_seq m + 1, md_subs := md_subs m1,
                  md_calls := md_calls m @ (if has_poll \<and> has_cancel then [CallHandle (sub_handle e)] else [])\<rparr> \<and>
           r = (if has_poll \<and> has_cancel then call (sub_handle e) else Inr ())"
proof -
  let ?n = "NPair (instrument_id_value iid) ty" and ?h = "tick_handle (has_poll \<and> has_cancel) (md_seq m) s ty ign"
  have swf: "subscriptions_wf (md_subs m)" and pos: "md_seq m \<noteq> 0" using wf by (auto simp: market_wf_def)
  have "?n \<notin> set (dict_values (req_id_to_name (md_subs m)))"
  proof -
    have "present_name (md_subs m) None (Some ?n) = None"
      using none subscriptions_get_total [OF swf, of None "Some ?n"] by auto
    then show ?thesis using present_name_name_None [OF subscriptions_base [OF swf], of ?n] by blast
  qed
  moreover have "md_seq m \<notin> set (dict_keys (req_id_to_name (md_subs m)))"
    using wf by (force simp: market_wf_def)
  ultimately have new: "may_add (md_seq m) ?n (md_subs m)" by (simp add: may_add_def)
  obtain s' e where add: "subscriptions_add (md_seq m) ?n ?h (md_seq m) (md_subs m) = Inr (s', Some e)"
    and e: "e = \<lparr>sub_req_id = md_seq m, sub_name = ?n, sub_handle = ?h, sub_cancel = md_seq m, sub_last = None\<rparr>"
    using subscriptions_add_new [OF swf new pos, of ?h "md_seq m"] by auto
  let ?meth = "if has_poll \<and> has_cancel then BridgeTicks else NoOpTicks"
    and ?m1 = "m\<lparr>md_seq := md_seq m + 1, md_subs := s'\<rparr>"
  have hist: "?meth \<noteq> HistoricalBars" by simp
  have h: "\<lparr>sh_method = ?meth, sh_args = (if ?meth = HistoricalBars then xs else ArgInt (md_seq m) # xs), sh_keywords = kw\<rparr>
      = \<lparr>sh_method = ?meth, sh_args = ArgInt (md_seq m) # xs, sh_keywords = kw\<rparr>" for xs and kw :: "(string, bool) dict"
    using hist by (simp only: if_False)
  have eh: "sub_handle e = ?h" using e by simp
  have sub: "subscribe_to call ?n ?meth [ArgSymbol s, ArgText ty, ArgInt 0, ArgBool ign] [] m =
      (case call_handle call ?h ?m1 of (m2, Inl x) \<Rightarrow> (m2, Inl x) | (m2, Inr _) \<Rightarrow> (m2, Inr (Some e)))"
    using none add eh unfolding subscribe_to_def Let_def h tick_handle_def by simp
  obtain m2 r2 where c: "call_handle call ?h ?m1 = (m2, r2)" by fastforce
  have "m1 = m2 \<and> r = r2"
  proof (cases r2)
    case (Inl x)
    then show ?thesis using step unfolding subscribe_ticks_def if_not_P [OF live] sub c by simp
  next
    case (Inr u)
    then show ?thesis using step unfolding subscribe_ticks_def if_not_P [OF live] sub c by simp
  qed
  then have "m1 = fst (call_handle call ?h ?m1)" "r = snd (call_handle call ?h ?m1)" by (simp_all add: c)
  then show ?thesis
    using add eh e by (intro exI [of _ e]) (simp add: call_handle_def tick_handle_def)
qed

lemma subscribe_ticks_wf:
  assumes "market_wf m" and "\<not> (md_live_feed m \<and> is_quote_tick_subscription ty)"
    and "subscriptions_get (md_subs m) None (Some (NPair (instrument_id_value iid) ty)) = Inr None"
    and "subscribe_ticks has_poll has_cancel call iid s ty ign m = (m1, r)"
  shows "market_wf m1 \<and>
    req_id_to_name (md_subs m1) = req_id_to_name (md_subs m) @ [(md_seq m, NPair (instrument_id_value iid) ty)] \<and>
    (\<exists>x. subscriptions_get (md_subs m1) None (Some (NPair (instrument_id_value iid) ty)) = Inr (Some x) \<and>
         sub_req_id x = md_seq m \<and> sub_handle x = tick_handle (has_poll \<and> has_cancel) (md_seq m) s ty ign)"
proof -
  let ?n = "NPair (instrument_id_value iid) ty"
  obtain e where add: "subscriptions_add (md_seq m) ?n (tick_handle (has_poll \<and> has_cancel) (md_seq m) s ty ign)
        (md_seq m) (md_subs m) = Inr (md_subs m1, Some e)"
    and e: "sub_req_id e = md_seq m" "sub_handle e = tick_handle (has_poll \<and> has_cancel) (md_seq m) s ty ign"
    and m1: "m1 = m\<lparr>md_seq := md_seq m + 1, md_subs := md_subs m1,
                  md_calls := md_calls m @ (if has_poll \<and> has_cancel then [CallHandle (sub_handle e)] else [])\<rparr>"
    using subscribe_ticks_new [OF assms] by blast
  have swf: "subscriptions_wf (md_subs m)" and pos: "md_seq m \<noteq> 0" using assms(1) by (auto simp: market_wf_def)
  have ins: "subscriptions_wf (md_subs m1)" "req_id_to_name (md_subs m1) = req_id_to_name (md_subs m) @ [(md_seq m, ?n)]"
    using subs.ins_present [OF swf pos _ add] by auto
  have seq: "md_seq m1 = md_seq m + 1" using arg_cong [OF m1, of md_seq] by simp
  have "market_wf m1"
    using assms(1) ins seq by (force simp: market_wf_def)
  moreover obtain x where x: "subscriptions_get (md_subs m1) None (Some ?n) = Inr (Some x)" "sub_req_id x = md_seq m"
    using subs.get_after_ins(2) [OF swf pos _ add] by auto
  moreover have "x = e"
    using subscriptions_get_name_as_id [OF ins(1) x(1), of None] subscriptions_add_get [OF add] x(2) by simp
  ultimately show ?thesis using ins e by blast
qed

text \<open>
  The life of a tick subscription: subscribing again changes nothing, the handle carries the
  symbol, and unsubscribing restores the registry there was before, while the counter of ids goes on.
\<close>

theorem tick_subscription_life:
  assumes "market_wf m" and "\<not> (md_live_feed m \<and> is_quote_tick_subscription ty)"
    and "subscriptions_get (md_subs m) None (Some (NPair (instrument_id_value iid) ty)) = Inr None"
    and "subscribe_ticks has_poll has_cancel call iid s ty ign m = (m1, r)"
  shows "market_wf m1 \<and> md_seq m1 = md_seq m + 1 \<and>
    subscribe_ticks p c f iid s' ty ign' m1 = (m1, Inr ()) \<and>
    (\<exists>x. subscriptions_get (md_subs m1) None (Some (NPair (instrument_id_value iid) ty)) = Inr (Some x) \<and>
         sh_args (sub_handle x) = [ArgInt (md_seq m), ArgSymbol s, ArgText ty, ArgInt 0, ArgBool ign]) \<and>
    md_subs (fst (unsubscribe_ticks c g iid ty m1)) = md_subs m \<and>
    md_seq (fst (unsubscribe_ticks c g iid ty m1)) = md_seq m + 1"
proof -
  let ?n = "NPair (instrument_id_value iid) ty"
  obtain e where add: "subscriptions_add (md_seq m) ?n (tick_handle (has_poll \<and> has_cancel) (md_seq m) s ty ign)
        (md_seq m) (md_subs m) = Inr (md_subs m1, Some e)"
    and m1: "m1 = m\<lparr>md_seq := md_seq m + 1, md_subs := md_subs m1,
                  md_calls := md_calls m @ (if has_poll \<and> has_cancel then [CallHandle (sub_handle e)] else [])\<rparr>"
    using subscribe_ticks_new [OF assms] by blast
  obtain x where x: "subscriptions_get (md_subs m1) None (Some ?n) = Inr (Some x)" "sub_req_id x = md_seq m"
      "sub_handle x = tick_handle (has_poll \<and> has_cancel) (md_seq m) s ty ign" and wf: "market_wf m1"
    using subscribe_ticks_wf [OF assms] by blast
  have swf: "subscriptions_wf (md_subs m)" and pos: "md_seq m \<noteq> 0" using assms(1) by (auto simp: market_wf_def)
  have seq: "md_seq m1 = md_seq m + 1" using arg_cong [OF m1, of md_seq] by simp
  have again: "subscribe_ticks p c f iid s' ty ign' m1 = (m1, Inr ())"
    using x(1) by (simp add: subscribe_ticks_def subscribe_to_def)
  have args: "sh_args (sub_handle x) = [ArgInt (md_seq m), ArgSymbol s, ArgText ty, ArgInt 0, ArgBool ign]"
    using x(3) by (simp add: tick_handle_def)
  have "subscriptions_remove (Some (sub_req_id x)) None (md_subs m1) = md_subs m"
    using subscriptions_remove_add [OF swf pos add] x(2) by simp
  then have "md_subs (fst (unsubscribe_ticks c g iid ty m1)) = md_subs m \<and>
      md_seq (fst (unsubscribe_ticks c g iid ty m1)) = md_seq m + 1"
    using x(1) args seq by (cases c) (simp_all add: unsubscribe_ticks_def unsubscribe_from_def Let_def)
  then show ?thesis using wf seq again x(1) args by blast
qed

lemma no_subscription_init:
  "subscriptions_get (md_subs market_init) None (Some n) = Inr None"
  by (simp add: market_init_def subscriptions_empty_def subscriptions_get_def present_name_def resolve_id_def
      name_to_req_id_def)

lemma tick_subscription_life_witness:
  "\<exists>m1. subscribe_ticks False False (\<lambda>_. Inr ()) eurusd (mt5_symbol_of ''EURUSD'') ''BidAsk'' False
          (market_init :: (pyfloat, int) market) = (m1, Inr ()) \<and>
        md_subs (fst (unsubscribe_ticks False (\<lambda>_. Inr ()) eurusd ''BidAsk'' m1)) = subscriptions_empty \<and>
        subscribe_ticks True True (\<lambda>_. Inr ()) eurusd (mt5_symbol_of ''EURUSD'') ''BidAsk'' True m1 = (m1, Inr ())"
proof -
  let ?m = "market_init :: (pyfloat, int) market"
  obtain m1 r where s: "subscribe_ticks False False (\<lambda>_. Inr ()) eurusd (mt5_symbol_of ''EURUSD'') ''BidAsk'' False ?m = (m1, r)"
    by fastforce
  have live: "\<not> (md_live_feed ?m \<and> is_quote_tick_subscription ''BidAsk'')" by (simp add: market_init_def)
  have "r = Inr ()" using subscribe_ticks_new [OF market_init_wf live no_subscription_init s] by auto
  note life = tick_subscription_life [OF market_init_wf live no_subscription_init s]
  have "subscribe_ticks True True (\<lambda>_. Inr ()) eurusd (mt5_symbol_of ''EURUSD'') ''BidAsk'' True m1 = (m1, Inr ())"
    using life by blast
  moreover have "md_subs (fst (unsubscribe_ticks False (\<lambda>_. Inr ()) eurusd ''BidAsk'' m1)) = md_subs ?m"
    using life by blast
  ultimately show ?thesis using s \<open>r = Inr ()\<close> by (intro exI [of _ m1]) (simp add: market_init_def)
qed

section \<open>Polling\<close>

text \<open>A message of the loop: the terminal's answer for the symbol of a subscription that is polled.\<close>

definition handles_symbol :: "('p, 'q) market \<Rightarrow> int \<Rightarrow> string \<Rightarrow> mt5_symbol \<Rightarrow> bool" where
  "handles_symbol m rid i s \<longleftrightarrow>
     (\<exists>sub ty a rest. subscriptions_get (md_subs m) (Some rid) None = Inr (Some sub) \<and> sub_name sub = NPair i ty \<and>
        polled_name ty \<and> sh_args (sub_handle sub) = a # ArgSymbol s # rest)"

definition polled_message :: "(string \<Rightarrow> tick_answer result) \<Rightarrow> ('p, 'q) market \<Rightarrow> tick_msg \<Rightarrow> bool" where
  "polled_message terminal m msg \<longleftrightarrow>
     (\<exists>rid i s t. handles_symbol m rid i s \<and> terminal (sym_symbol s) = Inr t \<and> tick_present t \<and>
        msg = \<lparr>tm_symbol = sym_symbol s, tm_time = tick_field t ''time_msc'' (JInt 0),
               tm_bid = tick_field t ''bid'' (JFloat 0), tm_ask = tick_field t ''ask'' (JFloat 0)\<rparr>)"

lemma polled_message_queue [simp]: "polled_message terminal (m\<lparr>md_queue := q\<rparr>) = polled_message terminal m"
  by (simp add: polled_message_def handles_symbol_def fun_eq_iff)

lemma tick_message_polled:
  assumes "subscriptions_get (md_subs m) (Some rid) None = Inr (Some sub)" and "sub_name sub = NPair i ty"
    and "polled_name ty" and "sh_args (sub_handle sub) = x # a # xs" and "msg \<in> set (tick_message terminal a)"
  shows "polled_message terminal m msg"
proof (cases a)
  case (ArgSymbol s)
  have h: "handles_symbol m rid i s" using assms(1-4) ArgSymbol by (simp add: handles_symbol_def)
  obtain t where "terminal (sym_symbol s) = Inr t" "tick_present t"
      "msg = \<lparr>tm_symbol = sym_symbol s, tm_time = tick_field t ''time_msc'' (JInt 0),
               tm_bid = tick_field t ''bid'' (JFloat 0), tm_ask = tick_field t ''ask'' (JFloat 0)\<rparr>"
    using assms(5) ArgSymbol
    by (cases "terminal (sym_symbol s)") (auto simp: tick_message_def split: if_splits)
  then show ?thesis using h unfolding polled_message_def by blast
qed (use assms(5) in \<open>simp_all add: tick_message_def\<close>)

text \<open>One id of the loop: it ends there, or goes on with a longer queue.\<close>

lemma poll_keys_Cons:
  "(\<exists>e. poll_keys terminal (rid # ks) m = (m, Inl e)) \<or>
   (\<exists>q. poll_keys terminal (rid # ks) m = poll_keys terminal ks (m\<lparr>md_queue := md_queue m @ q\<rparr>) \<and>
        (\<forall>msg \<in> set q. polled_message terminal m msg))"
proof (cases "subscriptions_get (md_subs m) (Some rid) None")
  case (Inr found)
  have stay: "m\<lparr>md_queue := md_queue m @ []\<rparr> = m" by simp
  show ?thesis
  proof (cases found)
    case None
    then show ?thesis using Inr stay by (intro disjI2 exI [of _ "[]"]) simp
  next
    case (Some sub)
    show ?thesis
    proof (cases "\<exists>i ty. sub_name sub = NPair i ty \<and> should_poll_quote_ticks ty m \<and> polled_name ty")
      case True
      then obtain i ty where n: "sub_name sub = NPair i ty" "should_poll_quote_ticks ty m" "polled_name ty" by blast
      consider "\<exists>e. poll_keys terminal (rid # ks) m = (m, Inl e)"
        | x a xs where "sh_args (sub_handle sub) = x # a # xs"
        using Inr Some n by (cases "sh_args (sub_handle sub)"; cases "tl (sh_args (sub_handle sub))") auto
      then show ?thesis
      proof cases
        case 2
        then show ?thesis
          using Inr Some n tick_message_polled [OF _ n(1,3) 2, of m rid]
          by (intro disjI2 exI [of _ "tick_message terminal a"]) (simp add: Ball_def)
      qed simp
    next
      case False
      then have "poll_keys terminal (rid # ks) m = poll_keys terminal ks m"
        using Inr Some by (cases "sub_name sub") auto
      then show ?thesis using stay by (intro disjI2 exI [of _ "[]"]) simp
    qed
  qed
qed simp

lemma poll_keys_queue:
  "\<exists>new. fst (poll_keys terminal ks m) = m\<lparr>md_queue := md_queue m @ new\<rparr> \<and>
         (\<forall>msg \<in> set new. polled_message terminal m msg)"
proof (induction ks arbitrary: m)
  case Nil
  show ?case by (rule exI [of _ "[]"]) simp
next
  case (Cons rid ks)
  consider e where "poll_keys terminal (rid # ks) m = (m, Inl e)"
    | q where "poll_keys terminal (rid # ks) m = poll_keys terminal ks (m\<lparr>md_queue := md_queue m @ q\<rparr>)"
        "\<forall>msg \<in> set q. polled_message terminal m msg"
    using poll_keys_Cons [of terminal rid ks m] by blast
  then show ?case
  proof cases
    case 1
    then show ?thesis by (intro exI [of _ "[]"]) simp
  next
    case 2
    obtain new where "fst (poll_keys terminal ks (m\<lparr>md_queue := md_queue m @ q\<rparr>)) = m\<lparr>md_queue := (md_queue m @ q) @ new\<rparr>"
        "\<forall>msg \<in> set new. polled_message terminal m msg"
      using Cons.IH [of "m\<lparr>md_queue := md_queue m @ q\<rparr>"] by auto
    then show ?thesis using 2 by (intro exI [of _ "q @ new"]) auto
  qed
qed

lemma poll_keys_append:
  "poll_keys terminal (ks @ ks') m =
     (case poll_keys terminal ks m of (m1, Inl e) \<Rightarrow> (m1, Inl e) | (m1, Inr _) \<Rightarrow> poll_keys terminal ks' m1)"
  by (induction ks arbitrary: m) (simp_all split: sum.split option.split rname.split list.split)

lemma poll_keys_fields [simp]:
  "md_subs (fst (poll_keys terminal ks m)) = md_subs m"
  "md_live_feed (fst (poll_keys terminal ks m)) = md_live_feed m"
  "md_sent (fst (poll_keys terminal ks m)) = md_sent m"
  using poll_keys_queue [of terminal ks m] by auto

text \<open>The loop reads the subscriptions it polls and the feed's flag, nothing else.\<close>

lemma poll_keys_same:
  assumes "\<forall>q \<in> set ks. subscriptions_get (md_subs m1) (Some q) None = subscriptions_get (md_subs m) (Some q) None"
    and "md_live_feed m1 = md_live_feed m" and "md_queue m1 = md_queue m"
  shows "md_queue (fst (poll_keys terminal ks m1)) = md_queue (fst (poll_keys terminal ks m)) \<and>
         snd (poll_keys terminal ks m1) = snd (poll_keys terminal ks m)"
  using assms
proof (induction ks arbitrary: m m1)
  case (Cons q ks)
  have eq: "subscriptions_get (md_subs m1) (Some q) None = subscriptions_get (md_subs m) (Some q) None"
    using Cons.prems(1) by simp
  have ih: "md_queue (fst (poll_keys terminal ks (m1\<lparr>md_queue := md_queue m1 @ x\<rparr>))) =
        md_queue (fst (poll_keys terminal ks (m\<lparr>md_queue := md_queue m @ x\<rparr>))) \<and>
      snd (poll_keys terminal ks (m1\<lparr>md_queue := md_queue m1 @ x\<rparr>)) =
        snd (poll_keys terminal ks (m\<lparr>md_queue := md_queue m @ x\<rparr>))" for x
    by (rule Cons.IH) (use Cons.prems in auto)
  have ih0: "md_queue (fst (poll_keys terminal ks m1)) = md_queue (fst (poll_keys terminal ks m)) \<and>
      snd (poll_keys terminal ks m1) = snd (poll_keys terminal ks m)"
    using ih [of "[]"] by simp
  have should: "should_poll_quote_ticks ty m1 = should_poll_quote_ticks ty m" for ty
    using Cons.prems(2) by (simp add: should_poll_quote_ticks_def)
  show ?case
  proof (cases "subscriptions_get (md_subs m) (Some q) None")
    case (Inl e)
    then show ?thesis using eq Cons.prems(3) by simp
  next
    case (Inr found)
    show ?thesis
    proof (cases found)
      case None
      then show ?thesis using Inr eq ih0 by simp
    next
      case (Some sub)
      show ?thesis
      proof (cases "sub_name sub")
        case (NStr n)
        then show ?thesis using Inr Some eq ih0 by simp
      next
        case (NPair i ty)
        show ?thesis
        proof (cases "should_poll_quote_ticks ty m \<and> polled_name ty")
          case False
          then show ?thesis using Inr Some NPair eq ih0 should by simp
        next
          case True
          show ?thesis
          proof (cases "sh_args (sub_handle sub)")
            case (Cons x xs)
            then show ?thesis using Inr Some NPair True eq ih should Cons.prems(3) \<open>md_queue m1 = md_queue m\<close> by (cases xs) simp_all
          qed (use Inr Some NPair True eq Cons.prems(3) should in simp)
        qed
      qed
    qed
  qed
qed simp

lemma all_last_not_polled: "\<not> polled_name ''AllLast''"
  by (simp add: polled_name_def lower_def lower_char_def startswith_def)

text \<open>
  A subscription to trade ticks is never polled: the loop lists it and passes it over, so that
  the messages of a round are those of the round without it.
\<close>

theorem trade_subscription_silent:
  assumes "market_wf m" and "subscribe_ticks has_poll has_cancel call iid s ''AllLast'' ign m = (m1, r)"
  shows "md_queue (fst (poll_round terminal m1)) = md_queue (fst (poll_round terminal m))"
proof -
  let ?n = "NPair (instrument_id_value iid) ''AllLast''"
  have live: "\<not> (md_live_feed m \<and> is_quote_tick_subscription ''AllLast'')"
    by (simp add: is_quote_tick_subscription_def lower_def lower_char_def)
  have swf: "subscriptions_wf (md_subs m)" using assms(1) by (simp add: market_wf_def)
  obtain found where found: "subscriptions_get (md_subs m) None (Some ?n) = Inr found"
    using subscriptions_get_total [OF swf] by blast
  show ?thesis
  proof (cases found)
    case (Some x)
    then have "m1 = m" using assms(2) found live by (simp add: subscribe_ticks_def subscribe_to_def)
    then show ?thesis by simp
  next
    case None
    then have none: "subscriptions_get (md_subs m) None (Some ?n) = Inr None" using found by simp
    obtain e where add: "subscriptions_add (md_seq m) ?n (tick_handle (has_poll \<and> has_cancel) (md_seq m) s ''AllLast'' ign)
          (md_seq m) (md_subs m) = Inr (md_subs m1, Some e)" and ename: "sub_name e = ?n"
      and m1: "m1 = m\<lparr>md_seq := md_seq m + 1, md_subs := md_subs m1,
                  md_calls := md_calls m @ (if has_poll \<and> has_cancel then [CallHandle (sub_handle e)] else [])\<rparr>"
      using subscribe_ticks_new [OF assms(1) live none assms(2)] by blast
    let ?ks = "dict_keys (req_id_to_name (md_subs m))"
    have names: "req_id_to_name (md_subs m1) = req_id_to_name (md_subs m) @ [(md_seq m, ?n)]"
      using subscribe_ticks_wf [OF assms(1) live none assms(2)] by blast
    have fields: "md_live_feed m1 = md_live_feed m" "md_queue m1 = md_queue m"
      using arg_cong [OF m1, of md_live_feed] arg_cong [OF m1, of md_queue] by simp_all
    have "q \<noteq> 0 \<and> q \<noteq> md_seq m" if "q \<in> set ?ks" for q
      using that assms(1) by (auto simp: market_wf_def subscriptions_wf_def base_wf_def)
    then have "\<forall>q \<in> set ?ks. subscriptions_get (md_subs m1) (Some q) None = subscriptions_get (md_subs m) (Some q) None"
      using subscriptions_get_other [OF _ _ add] by blast
    note same = poll_keys_same [OF this fields, of terminal]
    have last: "subscriptions_get (md_subs m1) (Some (md_seq m)) None = Inr (Some e)"
      by (rule subscriptions_add_get [OF add])
    have skip: "md_queue (fst (poll_keys terminal [md_seq m] m2)) = md_queue m2" if "md_subs m2 = md_subs m1" for m2 :: "('a, 'b) market"
      using last that ename all_last_not_polled by simp
    show ?thesis
    proof (cases "poll_keys terminal ?ks m1")
      case (Pair m2 r2)
      have "md_subs m2 = md_subs m1" using poll_keys_fields(1) [of terminal ?ks m1] Pair by simp
      moreover have "md_queue m2 = md_queue (fst (poll_keys terminal ?ks m))" using same Pair by simp
      ultimately show ?thesis
        using Pair skip [of m2] by (cases r2) (simp_all add: poll_round_def names poll_keys_append del: poll_keys.simps)
    qed
  qed
qed

lemma trade_subscription_silent_witness:
  "\<exists>m1. subscribe_ticks True True (\<lambda>_. Inr ()) eurusd (mt5_symbol_of ''EURUSD'') ''AllLast'' False
          (market_init :: (pyfloat, int) market) = (m1, Inr ()) \<and>
        req_id_to_name (md_subs m1) = [(10000, NPair ''EURUSD.METATRADER_5'' ''AllLast'')] \<and>
        md_queue (fst (poll_round (\<lambda>_. Inr (TickDict [(''last'', JFloat 1)])) m1)) = []"
proof -
  let ?m = "market_init :: (pyfloat, int) market"
  obtain m1 r where s: "subscribe_ticks True True (\<lambda>_. Inr ()) eurusd (mt5_symbol_of ''EURUSD'') ''AllLast'' False ?m = (m1, r)"
    by fastforce
  have live: "\<not> (md_live_feed ?m \<and> is_quote_tick_subscription ''AllLast'')" by (simp add: market_init_def)
  have r: "r = Inr ()" using subscribe_ticks_new [OF market_init_wf live no_subscription_init s] by auto
  have "req_id_to_name (md_subs m1) = req_id_to_name (md_subs ?m) @
      [(md_seq ?m, NPair (instrument_id_value eurusd) ''AllLast'')]"
    using subscribe_ticks_wf [OF market_init_wf live no_subscription_init s] by blast
  then have "req_id_to_name (md_subs m1) = [(10000, NPair ''EURUSD.METATRADER_5'' ''AllLast'')]"
    by (simp add: market_init_def subscriptions_empty_def eurusd_def instrument_id_value_def)
  moreover have "md_queue (fst (poll_round (\<lambda>_. Inr (TickDict [(''last'', JFloat 1)])) m1)) = []"
    using trade_subscription_silent [OF market_init_wf s, of "\<lambda>_. Inr (TickDict [(''last'', JFloat 1)])"]
    by (simp add: poll_round_def market_init_def subscriptions_empty_def)
  ultimately show ?thesis using s r by blast
qed

section \<open>From the queue to the platform\<close>

text \<open>
  A quote that comes from the terminal: its instrument is that of a polled subscription, its prices the
  platform's for the terminal's quote of the subscription's symbol, neither of them zero or negative.
\<close>

definition terminal_quote ::
    "('p, 'q) md_env \<Rightarrow> (string \<Rightarrow> tick_answer result) \<Rightarrow> ('p, 'q) market \<Rightarrow> int list \<Rightarrow> ('p, 'q) ndata \<Rightarrow> bool" where
  "terminal_quote env terminal m nows d \<longleftrightarrow>
     (\<exists>q rid i s t ins.
        d = QuoteData q \<and> handles_symbol m rid i s \<and> terminal (sym_symbol s) = Inr t \<and> tick_present t \<and>
        me_from_str env i = Inr (qt_instrument_id q) \<and> me_instrument env (qt_instrument_id q) = Some ins \<and>
        json_le0 (tick_field t ''bid'' (JFloat 0)) = Inr False \<and>
        json_le0 (tick_field t ''ask'' (JFloat 0)) = Inr False \<and>
        bindR (as_double (tick_field t ''bid'' (JFloat 0))) (make_price ins) = Inr (qt_bid_price q) \<and>
        bindR (as_double (tick_field t ''ask'' (JFloat 0))) (make_price ins) = Inr (qt_ask_price q) \<and>
        convert_mt5_timestamp env (tick_field t ''time_msc'' (JInt 0)) = Inr (qt_ts_event q) \<and>
        qt_ts_event q \<le> qt_ts_init q \<and> (\<exists>now \<in> set nows. now \<le> qt_ts_init q))"

lemma find_tick_sub_handles:
  assumes "find_tick_sub symbol entries m = Inr (Some rid)" and "\<forall>(r, n) \<in> set entries.
      \<forall>sub. subscriptions_get (md_subs m) (Some r) None = Inr (Some sub) \<longrightarrow> sub_name sub = n"
  shows "\<exists>i s. handles_symbol m rid i s \<and> sym_symbol s = symbol"
  using assms
proof (induction entries)
  case (Cons entry rest)
  obtain r name where entry: "entry = (r, name)" by (cases entry)
  have ih: "find_tick_sub symbol rest m = Inr (Some rid) \<Longrightarrow> \<exists>i s. handles_symbol m rid i s \<and> sym_symbol s = symbol"
    using Cons.IH Cons.prems(2) by simp
  show ?case
  proof (cases "find_tick_sub symbol rest m = Inr (Some rid)")
    case False
    then obtain i ty where n: "name = NPair i ty" "polled_name ty"
      using Cons.prems(1) entry by (cases name) (auto split: if_splits)
    then obtain sub where sub: "subscriptions_get (md_subs m) (Some r) None = Inr (Some sub)"
      using Cons.prems(1) False entry
      by (cases "subscriptions_get (md_subs m) (Some r) None"; cases "projr (subscriptions_get (md_subs m) (Some r) None)") auto
    then have step: "(case sh_args (sub_handle sub) of
          _ # ArgSymbol s # _ \<Rightarrow> if sym_symbol s = symbol then Inr (Some r) else find_tick_sub symbol rest m
        | _ # _ # _ \<Rightarrow> Inl AttributeError | _ \<Rightarrow> find_tick_sub symbol rest m) = Inr (Some rid)"
      using Cons.prems(1) entry n by simp
    then obtain a s xs where "sh_args (sub_handle sub) = a # ArgSymbol s # xs" "sym_symbol s = symbol" "rid = r"
      using False by (auto split: list.splits sub_arg.splits if_splits)
    moreover have "sub_name sub = NPair i ty" using Cons.prems(2) entry sub n by auto
    ultimately show ?thesis using sub n unfolding handles_symbol_def by blast
  qed (rule ih)
qed simp

lemma handles_symbol_fields [simp]:
  "handles_symbol (m\<lparr>md_queue := q\<rparr>) = handles_symbol m"
  "handles_symbol (publish_data d m) = handles_symbol m"
  by (simp_all add: handles_symbol_def publish_data_def fun_eq_iff)

lemma process_tick_cases:
  assumes "process_tick_by_tick_bid_ask env now rid t b a bs as m = Inr m'" and "handles_symbol m rid i s"
  shows "m' = m \<or> (\<exists>q ins. m' = publish_data (QuoteData q) m \<and>
        me_from_str env i = Inr (qt_instrument_id q) \<and> me_instrument env (qt_instrument_id q) = Some ins \<and>
        json_le0 b = Inr False \<and> json_le0 a = Inr False \<and>
        bindR (as_double b) (make_price ins) = Inr (qt_bid_price q) \<and>
        bindR (as_double a) (make_price ins) = Inr (qt_ask_price q) \<and>
        convert_mt5_timestamp env t = Inr (qt_ts_event q) \<and> qt_ts_init q = max now (qt_ts_event q))"
proof -
  obtain sub where sub: "subscriptions_get (md_subs m) (Some rid) None = Inr (Some sub)" and
      name: "name_head (sub_name sub) = Inr i"
    using assms(2) by (auto simp: handles_symbol_def)
  show ?thesis
  proof (cases "json_le0 b = Inr False \<and> json_le0 a = Inr False")
    case False
    then show ?thesis
      using assms(1) sub
      by (cases "json_le0 b"; cases "json_le0 a")
         (auto simp: process_tick_by_tick_bid_ask_def split: if_splits)
  next
    case True
    then have step: "bindR (me_from_str env i) (\<lambda>iid.
        case me_instrument env iid of
          None \<Rightarrow> Inr m
        | Some ins \<Rightarrow>
            bindR (convert_mt5_timestamp env t) (\<lambda>ts_event.
            bindR (bindR (as_double b) (make_price ins)) (\<lambda>bp.
            bindR (bindR (as_double a) (make_price ins)) (\<lambda>ap.
            bindR (make_qty ins bs) (\<lambda>x.
            bindR (make_qty ins as) (\<lambda>y.
              Inr (publish_data (QuoteData
                     \<lparr>qt_instrument_id = iid, qt_bid_price = bp, qt_ask_price = ap, qt_bid_size = x,
                      qt_ask_size = y, qt_ts_event = ts_event, qt_ts_init = max now ts_event\<rparr>) m))))))) = Inr m'"
      using assms(1) sub name by (simp add: process_tick_by_tick_bid_ask_def)
    then obtain iid where iid: "me_from_str env i = Inr iid" by (auto simp: bindR_eq_Inr)
    show ?thesis
    proof (cases "me_instrument env iid")
      case None
      then show ?thesis using step iid by simp
    next
      case (Some ins)
      obtain ts where ts: "convert_mt5_timestamp env t = Inr ts"
        using step iid Some by (cases "convert_mt5_timestamp env t") simp_all
      obtain bp where bp: "bindR (as_double b) (make_price ins) = Inr bp"
        using step iid Some ts by (cases "bindR (as_double b) (make_price ins)") simp_all
      obtain ap where ap: "bindR (as_double a) (make_price ins) = Inr ap"
        using step iid Some ts bp by (cases "bindR (as_double a) (make_price ins)") simp_all
      obtain x where x: "make_qty ins bs = Inr x"
        using step iid Some ts bp ap by (cases "make_qty ins bs") simp_all
      obtain y where y: "make_qty ins as = Inr y"
        using step iid Some ts bp ap x by (cases "make_qty ins as") simp_all
      have "m' = publish_data (QuoteData \<lparr>qt_instrument_id = iid, qt_bid_price = bp, qt_ask_price = ap,
            qt_bid_size = x, qt_ask_size = y, qt_ts_event = ts, qt_ts_init = max now ts\<rparr>) m"
        using step iid Some ts bp ap x y by simp
      note this ts bp ap
      then show ?thesis
        using iid Some True
        by (intro disjI2 exI [of _ "\<lparr>qt_instrument_id = iid, qt_bid_price = bp, qt_ask_price = ap,
            qt_bid_size = x, qt_ask_size = y, qt_ts_event = ts, qt_ts_init = max now ts\<rparr>"] exI [of _ ins]) simp
    qed
  qed
qed

lemma subscriptions_names_agree:
  assumes "subscriptions_wf s" and "(r, n) \<in> set (req_id_to_name s)"
    and "subscriptions_get s (Some r) None = Inr (Some sub)"
  shows "sub_name sub = n"
proof -
  have "r \<noteq> 0" "distinct (dict_keys (req_id_to_name s))"
    using assms(1,2) by (force simp: subscriptions_wf_def base_wf_def)+
  then have "map_of (req_id_to_name s) r = Some n" using assms(2) by simp
  then show ?thesis using subscriptions_get_by_id [OF assms(1) \<open>r \<noteq> 0\<close>, of None] assms(3) by auto
qed

lemma process_next_quotes:
  assumes wf: "subscriptions_wf (md_subs m)" and q: "\<forall>msg \<in> set (md_queue m). polled_message terminal m msg"
  shows "\<exists>new. md_sent (process_next env now m) = md_sent m @ new \<and>
      (\<forall>d \<in> set new. terminal_quote env terminal m [now] d) \<and>
      md_subs (process_next env now m) = md_subs m \<and>
      set (md_queue (process_next env now m)) \<subseteq> set (md_queue m)"
proof (cases "md_queue m")
  case (Cons msg rest)
  let ?m1 = "m\<lparr>md_queue := rest\<rparr>"
  show ?thesis
  proof (cases "process_message env now msg ?m1 = Inr ?m1 \<or> (\<exists>e. process_message env now msg ?m1 = Inl e)")
    case True
    then show ?thesis using Cons by (intro exI [of _ "[]"]) (auto simp: process_next_def)
  next
    case False
    then obtain m2 where m2: "process_message env now msg ?m1 = Inr m2" "m2 \<noteq> ?m1"
      by (cases "process_message env now msg ?m1") auto
    then obtain rid where rid: "find_tick_sub (tm_symbol msg) (req_id_to_name (md_subs ?m1)) ?m1 = Inr (Some rid)"
      and step: "process_tick_by_tick_bid_ask env now rid (tm_time msg) (tm_bid msg) (tm_ask msg) 0 0 ?m1 = Inr m2"
      by (auto simp: process_message_def bindR_eq_Inr split: option.splits)
    obtain i s where hs: "handles_symbol m rid i s" "sym_symbol s = tm_symbol msg"
    proof -
      have "\<forall>(r, n) \<in> set (req_id_to_name (md_subs ?m1)). \<forall>sub.
          subscriptions_get (md_subs ?m1) (Some r) None = Inr (Some sub) \<longrightarrow> sub_name sub = n"
        using subscriptions_names_agree [OF wf] by auto
      from find_tick_sub_handles [OF rid this] show ?thesis using that by auto
    qed
    obtain t s' where t: "terminal (tm_symbol msg) = Inr t" "tick_present t" "tm_time msg = tick_field t ''time_msc'' (JInt 0)"
        "tm_bid msg = tick_field t ''bid'' (JFloat 0)" "tm_ask msg = tick_field t ''ask'' (JFloat 0)"
      using q Cons by (auto simp: polled_message_def)
    have hs1: "handles_symbol ?m1 rid i s" using hs(1) by simp
    obtain qd ins where "m2 = publish_data (QuoteData qd) ?m1" and
        "me_from_str env i = Inr (qt_instrument_id qd)" "me_instrument env (qt_instrument_id qd) = Some ins"
        "json_le0 (tm_bid msg) = Inr False" "json_le0 (tm_ask msg) = Inr False"
        "bindR (as_double (tm_bid msg)) (make_price ins) = Inr (qt_bid_price qd)"
        "bindR (as_double (tm_ask msg)) (make_price ins) = Inr (qt_ask_price qd)"
        "convert_mt5_timestamp env (tm_time msg) = Inr (qt_ts_event qd)" "qt_ts_init qd = max now (qt_ts_event qd)"
      using process_tick_cases [OF step hs1] m2(2) by blast
    then have "terminal_quote env terminal m [now] (QuoteData qd)" and sent: "process_next env now m = publish_data (QuoteData qd) ?m1"
      using hs t m2(1) Cons unfolding terminal_quote_def by (force, simp add: process_next_def)
    then show ?thesis using Cons by (intro exI [of _ "[QuoteData qd]"]) (auto simp: publish_data_def)
  qed
qed (simp add: process_next_def)

lemma drain_quotes:
  assumes "subscriptions_wf (md_subs m)" and "\<forall>msg \<in> set (md_queue m). polled_message terminal m msg"
  shows "\<exists>new. md_sent (drain env nows m) = md_sent m @ new \<and> (\<forall>d \<in> set new. terminal_quote env terminal m nows d)"
  using assms
proof (induction nows arbitrary: m)
  case (Cons now nows)
  let ?m1 = "process_next env now m"
  obtain n1 where n1: "md_sent ?m1 = md_sent m @ n1" "\<forall>d \<in> set n1. terminal_quote env terminal m [now] d"
      and subs: "md_subs ?m1 = md_subs m" and queue: "set (md_queue ?m1) \<subseteq> set (md_queue m)"
    using process_next_quotes [OF Cons.prems] by blast
  have same: "handles_symbol ?m1 = handles_symbol m" by (simp add: handles_symbol_def subs fun_eq_iff)
  then have "\<forall>msg \<in> set (md_queue ?m1). polled_message terminal ?m1 msg"
    using Cons.prems(2) queue by (auto simp: polled_message_def)
  then obtain n2 where "md_sent (drain env nows ?m1) = md_sent ?m1 @ n2"
      "\<forall>d \<in> set n2. terminal_quote env terminal m nows d"
    using Cons.IH [of ?m1] Cons.prems(1) subs by (auto simp: terminal_quote_def same)
  then show ?case using n1 by (intro exI [of _ "n1 @ n2"]) (fastforce simp: terminal_quote_def)
qed simp

text \<open>
  The other direction. Every polled subscription has its symbol as the second argument of its handle,
  as \<^verbatim>\<open>subscribe_ticks\<close> leaves it; then a round lists the answer for each of them.
\<close>

definition handles_ready :: "('p, 'q) market \<Rightarrow> bool" where
  "handles_ready m \<longleftrightarrow>
     (\<forall>(rid, name) \<in> set (req_id_to_name (md_subs m)).
        \<forall>i ty. name = NPair i ty \<and> polled_name ty \<longrightarrow> (\<exists>s. handles_symbol m rid i s))"

text \<open>\<open>polled_sub m rid i s\<close>: the subscription \<open>rid\<close> for the instrument \<open>i\<close>, whose symbol \<open>s\<close> the loop asks for.\<close>

definition polled_sub :: "('p, 'q) market \<Rightarrow> int \<Rightarrow> string \<Rightarrow> mt5_symbol \<Rightarrow> bool" where
  "polled_sub m rid i s \<longleftrightarrow>
     (\<exists>ty. (rid, NPair i ty) \<in> set (req_id_to_name (md_subs m)) \<and> polled_name ty \<and> should_poll_quote_ticks ty m) \<and>
     handles_symbol m rid i s"

text \<open>The quote that the terminal's answer for the symbol \<open>s\<close> is for the instrument \<open>i\<close>, at a reading of the clock.\<close>

definition quote_of ::
    "('p, 'q) md_env \<Rightarrow> (string \<Rightarrow> tick_answer result) \<Rightarrow> string \<Rightarrow> mt5_symbol \<Rightarrow> int \<Rightarrow> (instrument_id, 'p, 'q) quote_tick \<Rightarrow> bool" where
  "quote_of env terminal i s now q \<longleftrightarrow>
     (\<exists>t ins.
        terminal (sym_symbol s) = Inr t \<and> tick_present t \<and>
        me_from_str env i = Inr (qt_instrument_id q) \<and> me_instrument env (qt_instrument_id q) = Some ins \<and>
        json_le0 (tick_field t ''bid'' (JFloat 0)) = Inr False \<and>
        json_le0 (tick_field t ''ask'' (JFloat 0)) = Inr False \<and>
        bindR (as_double (tick_field t ''bid'' (JFloat 0))) (make_price ins) = Inr (qt_bid_price q) \<and>
        bindR (as_double (tick_field t ''ask'' (JFloat 0))) (make_price ins) = Inr (qt_ask_price q) \<and>
        make_qty ins 0 = Inr (qt_bid_size q) \<and> make_qty ins 0 = Inr (qt_ask_size q) \<and>
        convert_mt5_timestamp env (tick_field t ''time_msc'' (JInt 0)) = Inr (qt_ts_event q) \<and>
        qt_ts_init q = max now (qt_ts_event q))"

lemma handles_ready_queue [simp]:
  "handles_ready (m\<lparr>md_queue := q\<rparr>) = handles_ready m"
  "polled_sub (m\<lparr>md_queue := q\<rparr>) = polled_sub m"
  by (simp_all add: handles_ready_def polled_sub_def should_poll_quote_ticks_def fun_eq_iff)

text \<open>One listed id when the handles are ready: the loop goes on, with the answer if the id is polled.\<close>

lemma poll_keys_ready:
  assumes "subscriptions_wf (md_subs m)" and "handles_ready m" and "set ks \<subseteq> fst ` set (req_id_to_name (md_subs m))"
  shows "snd (poll_keys terminal ks m) = Inr () \<and> set (md_queue m) \<subseteq> set (md_queue (fst (poll_keys terminal ks m))) \<and>
         (\<forall>rid i s. rid \<in> set ks \<and> polled_sub m rid i s \<longrightarrow>
            set (tick_message terminal (ArgSymbol s)) \<subseteq> set (md_queue (fst (poll_keys terminal ks m))))"
  using assms
proof (induction ks arbitrary: m)
  case (Cons rid ks)
  obtain n where n: "(rid, n) \<in> set (req_id_to_name (md_subs m))" using Cons.prems(3) by auto
  obtain found where found: "subscriptions_get (md_subs m) (Some rid) None = Inr found"
    using subscriptions_get_total [OF Cons.prems(1)] by blast
  have name: "sub_name sub = n" if "found = Some sub" for sub
    using subscriptions_names_agree [OF Cons.prems(1) n] found that by simp
  have ih: "snd (poll_keys terminal ks (m\<lparr>md_queue := q\<rparr>)) = Inr () \<and>
      set q \<subseteq> set (md_queue (fst (poll_keys terminal ks (m\<lparr>md_queue := q\<rparr>)))) \<and>
      (\<forall>rid i s. rid \<in> set ks \<and> polled_sub m rid i s \<longrightarrow>
         set (tick_message terminal (ArgSymbol s)) \<subseteq> set (md_queue (fst (poll_keys terminal ks (m\<lparr>md_queue := q\<rparr>)))))" for q
    using Cons.IH [of "m\<lparr>md_queue := q\<rparr>"] Cons.prems by simp
  show ?case
  proof (cases "\<exists>i s. polled_sub m rid i s")
    case False
    have step: "poll_keys terminal (rid # ks) m = poll_keys terminal ks m"
    proof (cases found)
      case (Some sub)
      show ?thesis
      proof (cases n)
        case (NPair i ty)
        have "\<not> (should_poll_quote_ticks ty m \<and> polled_name ty)"
          using False n NPair Cons.prems(2) by (fastforce simp: polled_sub_def handles_ready_def)
        then show ?thesis using found Some name NPair by auto
      qed (use found Some name in simp)
    qed (use found in simp)
    have "snd (poll_keys terminal ks m) = Inr () \<and> set (md_queue m) \<subseteq> set (md_queue (fst (poll_keys terminal ks m))) \<and>
        (\<forall>rid i s. rid \<in> set ks \<and> polled_sub m rid i s \<longrightarrow>
           set (tick_message terminal (ArgSymbol s)) \<subseteq> set (md_queue (fst (poll_keys terminal ks m))))"
      using ih [of "md_queue m"] by simp
    then show ?thesis unfolding step using False by (metis set_ConsD)
  next
    case True
    then obtain i s ty where p: "(rid, NPair i ty) \<in> set (req_id_to_name (md_subs m))" "polled_name ty"
        "should_poll_quote_ticks ty m" and h: "handles_symbol m rid i s" by (auto simp: polled_sub_def)
    then obtain sub a rest where sub: "found = Some sub" "sh_args (sub_handle sub) = a # ArgSymbol s # rest"
      using found by (auto simp: handles_symbol_def)
    have "sub_name sub = NPair i ty" using subscriptions_names_agree [OF Cons.prems(1) p(1)] found sub by simp
    then have step: "poll_keys terminal (rid # ks) m =
        poll_keys terminal ks (m\<lparr>md_queue := md_queue m @ tick_message terminal (ArgSymbol s)\<rparr>)"
      using found sub p by simp
    have "s' = s" if "polled_sub m rid i' s'" for i' s'
      using that found sub by (auto simp: polled_sub_def handles_symbol_def)
    then show ?thesis
      unfolding step using ih [of "md_queue m @ tick_message terminal (ArgSymbol s)"]
      by (metis set_ConsD set_append Un_subset_iff)
  qed
qed simp

lemma find_tick_sub_finds:
  assumes "subscriptions_wf (md_subs m)" and "handles_ready m" and "set entries \<subseteq> set (req_id_to_name (md_subs m))"
    and "(rid, NPair i ty) \<in> set entries" and "polled_name ty" and "handles_symbol m rid i s"
  shows "\<exists>r. find_tick_sub (sym_symbol s) entries m = Inr (Some r)"
  using assms
proof (induction entries)
  case (Cons entry rest)
  obtain r n where entry: "entry = (r, n)" by (cases entry)
  have ih: "\<exists>x. find_tick_sub (sym_symbol s) rest m = Inr (Some x)" if "entry \<noteq> (rid, NPair i ty)"
    using Cons.IH Cons.prems that by auto
  show ?case
  proof (cases "\<exists>i' ty'. n = NPair i' ty' \<and> polled_name ty'")
    case False
    then show ?thesis using ih entry Cons.prems(5) by (cases n) auto
  next
    case True
    then obtain i' ty' where n: "n = NPair i' ty'" "polled_name ty'" by blast
    then obtain s' where "handles_symbol m r i' s'"
      using Cons.prems(2,3) entry by (fastforce simp: handles_ready_def)
    then obtain sub a xs where sub: "subscriptions_get (md_subs m) (Some r) None = Inr (Some sub)"
        "sh_args (sub_handle sub) = a # ArgSymbol s' # xs" by (auto simp: handles_symbol_def)
    then have step: "find_tick_sub (sym_symbol s) (entry # rest) m =
        (if sym_symbol s' = sym_symbol s then Inr (Some r) else find_tick_sub (sym_symbol s) rest m)"
      using entry n by simp
    have "entry = (rid, NPair i ty) \<Longrightarrow> s' = s"
      using sub entry Cons.prems(6) by (auto simp: handles_symbol_def)
    then show ?thesis using ih step by (cases "entry = (rid, NPair i ty)") auto
  qed
qed simp

lemma find_tick_sub_queue [simp]: "find_tick_sub symbol entries (m\<lparr>md_queue := q\<rparr>) = find_tick_sub symbol entries m"
  by (induction entries)
     (auto split: rname.split sum.split option.split list.split sub_arg.split)

lemma process_next_step:
  "md_queue (process_next env now m) = tl (md_queue m) \<and> md_subs (process_next env now m) = md_subs m \<and>
   md_live_feed (process_next env now m) = md_live_feed m \<and> (\<exists>new. md_sent (process_next env now m) = md_sent m @ new)"
proof (cases "md_queue m")
  case (Cons msg rest)
  have "m2 = m\<lparr>md_queue := rest\<rparr> \<or> (\<exists>d. m2 = publish_data d (m\<lparr>md_queue := rest\<rparr>))"
    if "process_message env now msg (m\<lparr>md_queue := rest\<rparr>) = Inr m2" for m2
    using that
    by (auto simp: process_message_def process_tick_by_tick_bid_ask_def bindR_eq_Inr
             split: option.splits if_splits)
  then show ?thesis
    using Cons
    by (cases "process_message env now msg (m\<lparr>md_queue := rest\<rparr>)")
       (fastforce simp: process_next_def publish_data_def)+
qed (simp add: process_next_def)

lemma process_next_publishes:
  assumes wf: "subscriptions_wf (md_subs m)" and ready: "handles_ready m" and p: "polled_sub m rid i s"
    and one: "\<forall>rid' i' s'. handles_symbol m rid' i' s' \<and> sym_symbol s' = sym_symbol s \<longrightarrow> i' = i"
    and q: "quote_of env terminal i s now0 q" and queue: "md_queue m = msg # rest"
    and msg: "msg \<in> set (tick_message terminal (ArgSymbol s))"
  shows "md_sent (process_next env now m) = md_sent m @ [QuoteData (q\<lparr>qt_ts_init := max now (qt_ts_event q)\<rparr>)]"
proof -
  let ?m1 = "m\<lparr>md_queue := rest\<rparr>"
  obtain t ins where t: "terminal (sym_symbol s) = Inr t" "tick_present t" and
      q1: "me_from_str env i = Inr (qt_instrument_id q)" "me_instrument env (qt_instrument_id q) = Some ins" and
      q2: "json_le0 (tick_field t ''bid'' (JFloat 0)) = Inr False" "json_le0 (tick_field t ''ask'' (JFloat 0)) = Inr False" and
      q3: "bindR (as_double (tick_field t ''bid'' (JFloat 0))) (make_price ins) = Inr (qt_bid_price q)"
          "bindR (as_double (tick_field t ''ask'' (JFloat 0))) (make_price ins) = Inr (qt_ask_price q)" and
      q4: "make_qty ins 0 = Inr (qt_bid_size q)" "qt_ask_size q = qt_bid_size q"
          "convert_mt5_timestamp env (tick_field t ''time_msc'' (JInt 0)) = Inr (qt_ts_event q)"
    using q by (auto simp: quote_of_def)
  have m: "tm_symbol msg = sym_symbol s" "tm_time msg = tick_field t ''time_msc'' (JInt 0)"
      "tm_bid msg = tick_field t ''bid'' (JFloat 0)" "tm_ask msg = tick_field t ''ask'' (JFloat 0)"
    using msg t by (simp_all add: tick_message_def)
  obtain ty where ty: "(rid, NPair i ty) \<in> set (req_id_to_name (md_subs m))" "polled_name ty" and hs: "handles_symbol m rid i s"
    using p by (auto simp: polled_sub_def)
  obtain r where r: "find_tick_sub (sym_symbol s) (req_id_to_name (md_subs m)) m = Inr (Some r)"
    using find_tick_sub_finds [OF wf ready subset_refl ty hs] by blast
  obtain i' s' where h': "handles_symbol m r i' s'" "sym_symbol s' = sym_symbol s"
    using find_tick_sub_handles [OF r] subscriptions_names_agree [OF wf] by blast
  then have "i' = i" using one by blast
  then obtain sub where sub: "subscriptions_get (md_subs m) (Some r) None = Inr (Some sub)" "name_head (sub_name sub) = Inr i"
    using h'(1) by (auto simp: handles_symbol_def)
  have "process_tick_by_tick_bid_ask env now r (tm_time msg) (tm_bid msg) (tm_ask msg) 0 0 ?m1 =
      Inr (publish_data (QuoteData (q\<lparr>qt_ts_init := max now (qt_ts_event q)\<rparr>)) ?m1)"
    using sub q1 q2 q3 q4 by (cases q) (simp add: process_tick_by_tick_bid_ask_def m)
  then show ?thesis using queue r by (simp add: process_next_def process_message_def m publish_data_def)
qed

lemma drain_publishes:
  assumes "subscriptions_wf (md_subs m)" and "handles_ready m" and "polled_sub m rid i s"
    and "\<forall>rid' i' s'. handles_symbol m rid' i' s' \<and> sym_symbol s' = sym_symbol s \<longrightarrow> i' = i"
    and "quote_of env terminal i s now0 q" and "set (tick_message terminal (ArgSymbol s)) \<subseteq> set (md_queue m)"
    and "length (md_queue m) \<le> length nows"
  shows "\<exists>now \<in> set nows. QuoteData (q\<lparr>qt_ts_init := max now (qt_ts_event q)\<rparr>)
           \<in> set (drop (length (md_sent m)) (md_sent (drain env nows m)))"
  using assms
proof (induction nows arbitrary: m)
  case Nil
  then show ?case by (auto simp: quote_of_def tick_message_def)
next
  case (Cons now nows)
  obtain msg where msg: "tick_message terminal (ArgSymbol s) = [msg]"
    using Cons.prems(5) by (auto simp: quote_of_def tick_message_def)
  obtain msg1 rest where queue: "md_queue m = msg1 # rest" using Cons.prems(6) msg by (cases "md_queue m") auto
  let ?m1 = "process_next env now m"
  have st: "md_queue ?m1 = rest" "md_subs ?m1 = md_subs m" "md_live_feed ?m1 = md_live_feed m"
    using process_next_step [of env now m] queue by auto
  have h: "handles_symbol ?m1 = handles_symbol m" using st by (simp add: handles_symbol_def fun_eq_iff)
  have grow: "\<exists>x. md_sent (drain env ns m') = md_sent m' @ x" for m' and ns
  proof (induction ns arbitrary: m')
    case (Cons a ns)
    show ?case using Cons [of "process_next env a m'"] process_next_step [of env a m'] by auto
  qed simp
  show ?case
  proof (cases "msg1 = msg")
    case True
    have "md_sent ?m1 = md_sent m @ [QuoteData (q\<lparr>qt_ts_init := max now (qt_ts_event q)\<rparr>)]"
      by (rule process_next_publishes [OF Cons.prems(1-5) queue]) (simp add: msg True)
    then show ?thesis using grow [of nows ?m1] by auto
  next
    case False
    have "\<exists>now \<in> set nows. QuoteData (q\<lparr>qt_ts_init := max now (qt_ts_event q)\<rparr>)
            \<in> set (drop (length (md_sent ?m1)) (md_sent (drain env nows ?m1)))"
      by (rule Cons.IH)
         (use Cons.prems False queue msg st h in
            \<open>simp_all add: handles_ready_def polled_sub_def should_poll_quote_ticks_def\<close>)
    moreover obtain x where "md_sent ?m1 = md_sent m @ x" using process_next_step by blast
    moreover obtain y where "md_sent (drain env nows ?m1) = md_sent ?m1 @ y" using grow by blast
    ultimately show ?thesis by auto
  qed
qed

text \<open>
  C15: a round of polling sends the platform the terminal's quotes, and all of them. With an empty
  queue before it, every item sent once the queue has been worked on is a quote of a polled
  subscription's instrument, with the prices the terminal answered for its symbol, none of them zero
  or negative, and an initialization time that is not before the quote's own nor before the clock's
  reading. When the subscriptions' handles are those of \<^verbatim>\<open>subscribe_ticks\<close> the round ends without an
  error, and if the processor then gets a turn for every message, each polled subscription whose symbol
  no other instrument uses has its quote sent: the terminal answered a tick for the symbol, both its
  prices are positive and its instrument is in the cache.
\<close>

theorem polled_quotes:
  assumes "subscriptions_wf (md_subs m)" and "md_queue m = []" and "poll_round terminal m = (m1, r)"
  shows "\<exists>new. md_sent (drain env nows m1) = md_sent m @ new \<and>
    (\<forall>d \<in> set new. terminal_quote env terminal m nows d) \<and>
    (handles_ready m \<longrightarrow> r = Inr () \<and>
       (length (md_queue m1) \<le> length nows \<longrightarrow>
          (\<forall>rid i s now0 q.
             polled_sub m rid i s \<and> quote_of env terminal i s now0 q \<and>
             (\<forall>rid' i' s'. handles_symbol m rid' i' s' \<and> sym_symbol s' = sym_symbol s \<longrightarrow> i' = i) \<longrightarrow>
             (\<exists>now \<in> set nows. QuoteData (q\<lparr>qt_ts_init := max now (qt_ts_event q)\<rparr>) \<in> set new))))"
proof -
  let ?ks = "dict_keys (req_id_to_name (md_subs m))"
  obtain new where new: "m1 = m\<lparr>md_queue := new\<rparr>" "\<forall>msg \<in> set new. polled_message terminal m msg"
    using poll_keys_queue [of terminal ?ks m] assms(2,3) by (auto simp: poll_round_def)
  have "terminal_quote env terminal m1 nows = terminal_quote env terminal m nows"
    by (simp add: terminal_quote_def new(1) fun_eq_iff)
  then obtain sent where sent: "md_sent (drain env nows m1) = md_sent m @ sent"
      "\<forall>d \<in> set sent. terminal_quote env terminal m nows d"
    using drain_quotes [of m1 terminal env nows] new assms(1) by auto
  have ready: "r = Inr () \<and> (\<forall>rid i s. polled_sub m rid i s \<longrightarrow> set (tick_message terminal (ArgSymbol s)) \<subseteq> set (md_queue m1))"
    if "handles_ready m"
    using poll_keys_ready [OF assms(1) that, of ?ks terminal] assms(3) by (force simp: poll_round_def polled_sub_def)
  have wf1: "subscriptions_wf (md_subs m1)" using assms(1) by (simp add: new(1))
  have same: "handles_ready m1 = handles_ready m" "polled_sub m1 = polled_sub m" "handles_symbol m1 = handles_symbol m"
    by (simp_all add: new(1))
  have old: "md_sent m1 = md_sent m" by (simp add: new(1))
  note publishes = drain_publishes [OF wf1, where env = env and terminal = terminal and nows = nows, unfolded same sent(1) old]
  show ?thesis
  proof (rule exI [of _ sent], intro conjI impI allI)
    show "md_sent (drain env nows m1) = md_sent m @ sent" by (rule sent(1))
    show "\<forall>d \<in> set sent. terminal_quote env terminal m nows d" by (rule sent(2))
    show "r = Inr ()" if "handles_ready m" using ready [OF that] by blast
    fix rid i s now0 q
    assume h: "handles_ready m" and len: "length (md_queue m1) \<le> length nows"
      and p: "polled_sub m rid i s \<and> quote_of env terminal i s now0 q \<and>
        (\<forall>rid' i' s'. handles_symbol m rid' i' s' \<and> sym_symbol s' = sym_symbol s \<longrightarrow> i' = i)"
    have "\<exists>now \<in> set nows. QuoteData (q\<lparr>qt_ts_init := max now (qt_ts_event q)\<rparr>)
            \<in> set (drop (length (md_sent m)) (md_sent m @ sent))"
      by (rule publishes [OF h]) (use ready [OF h] p len in blast)+
    then show "\<exists>now \<in> set nows. QuoteData (q\<lparr>qt_ts_init := max now (qt_ts_event q)\<rparr>) \<in> set sent"
      by simp
  qed
qed

definition quoted_market :: "(pyfloat, int) market" where
  "quoted_market = fst (subscribe_ticks False False (\<lambda>_. Inr ()) eurusd (mt5_symbol_of ''EURUSD'') ''BidAsk'' False market_init)"

definition quoting_terminal :: "string \<Rightarrow> tick_answer result" where
  "quoting_terminal x = (if x = ''EURUSD'' then Inr (TickDict [(''time_msc'', JInt 0), (''bid'', JFloat (Fin 1)), (''ask'', JFloat PosInf)])
                         else Inl KeyError)"

lemma quoted_market_sent:
  "length (md_sent (drain md_example [5] (fst (poll_round quoting_terminal quoted_market)))) = 1"
  by code_simp

lemma quoted_market_wf: "market_wf quoted_market" "md_queue quoted_market = []" "md_sent quoted_market = []"
proof -
  let ?m = "market_init :: (pyfloat, int) market"
  obtain m1 r where s: "subscribe_ticks False False (\<lambda>_. Inr ()) eurusd (mt5_symbol_of ''EURUSD'') ''BidAsk'' False ?m = (m1, r)"
    by fastforce
  then have m1: "quoted_market = m1" by (simp add: quoted_market_def)
  have live: "\<not> (md_live_feed ?m \<and> is_quote_tick_subscription ''BidAsk'')" by (simp add: market_init_def)
  show "market_wf quoted_market" using subscribe_ticks_wf [OF market_init_wf live no_subscription_init s] m1 by blast
  obtain e :: "(sub_handle, int, unit) subscription" where
      "m1 = ?m\<lparr>md_seq := md_seq ?m + 1, md_subs := md_subs m1, md_calls := md_calls ?m @ []\<rparr>"
    using subscribe_ticks_new [OF market_init_wf live no_subscription_init s] by auto
  from arg_cong [OF this, of md_queue] arg_cong [OF this, of md_sent]
  show "md_queue quoted_market = []" "md_sent quoted_market = []"
    unfolding m1 by (simp_all add: market_init_def)
qed

definition first_quote :: "(instrument_id, pyfloat, int) quote_tick" where
  "first_quote =
     \<lparr>qt_instrument_id = eurusd, qt_bid_price = Fin 1, qt_ask_price = PosInf, qt_bid_size = 0, qt_ask_size = 0,
      qt_ts_event = 0, qt_ts_init = 5\<rparr>"

lemma quoted_market_names: "req_id_to_name (md_subs quoted_market) = [(10000, NPair ''EURUSD.METATRADER_5'' ''BidAsk'')]"
  by code_simp

lemma quoted_market_sub:
  "subscriptions_get (md_subs quoted_market) (Some 10000) None =
     Inr (Some \<lparr>sub_req_id = 10000, sub_name = NPair ''EURUSD.METATRADER_5'' ''BidAsk'',
       sub_handle = \<lparr>sh_method = NoOpTicks, sh_args = [ArgInt 10000, ArgSymbol (mt5_symbol_of ''EURUSD''), ArgText ''BidAsk'',
         ArgInt 0, ArgBool False], sh_keywords = []\<rparr>, sub_cancel = 10000, sub_last = None\<rparr>)"
  "subscriptions_get (md_subs quoted_market) (Some 0) None = Inr None"
  by code_simp+

lemma quoted_market_handles:
  "handles_symbol quoted_market 10000 ''EURUSD.METATRADER_5'' (mt5_symbol_of ''EURUSD'')"
  "polled_name ''BidAsk''"
proof -
  show p: "polled_name ''BidAsk''" by code_simp
  show "handles_symbol quoted_market 10000 ''EURUSD.METATRADER_5'' (mt5_symbol_of ''EURUSD'')"
    using p by (auto simp: handles_symbol_def quoted_market_sub(1))
qed

lemma quoted_market_only:
  assumes "handles_symbol quoted_market rid i s"
  shows "i = ''EURUSD.METATRADER_5''"
proof -
  have wf: "subscriptions_wf (md_subs quoted_market)" using quoted_market_wf(1) by (simp add: market_wf_def)
  obtain sub ty where sub: "subscriptions_get (md_subs quoted_market) (Some rid) None = Inr (Some sub)" "sub_name sub = NPair i ty"
    using assms by (auto simp: handles_symbol_def)
  have "rid \<noteq> 0" using sub(1) by (auto simp: quoted_market_sub(2))
  then have "map_of (req_id_to_name (md_subs quoted_market)) rid = Some (NPair i ty)"
    using subscriptions_get_by_id [OF wf, of rid None] sub
    by (cases "map_of (req_id_to_name (md_subs quoted_market)) rid") auto
  then show ?thesis by (simp add: quoted_market_names split: if_splits)
qed

lemma polled_quotes_witness:
  "\<exists>d. md_sent (drain md_example [5] (fst (poll_round quoting_terminal quoted_market))) = [d] \<and>
       terminal_quote md_example quoting_terminal quoted_market [5] d \<and> d = QuoteData first_quote"
proof -
  let ?r = "poll_round quoting_terminal quoted_market" and ?s = "mt5_symbol_of ''EURUSD''"
  have wf: "subscriptions_wf (md_subs quoted_market)" using quoted_market_wf(1) by (simp add: market_wf_def)
  have ready: "handles_ready quoted_market"
    using quoted_market_handles by (auto simp: handles_ready_def quoted_market_names)
  have polled: "polled_sub quoted_market 10000 ''EURUSD.METATRADER_5'' ?s"
  proof -
    have "should_poll_quote_ticks ''BidAsk'' quoted_market" by code_simp
    then show ?thesis using quoted_market_handles by (auto simp: polled_sub_def quoted_market_names)
  qed
  have quote: "quote_of md_example quoting_terminal ''EURUSD.METATRADER_5'' ?s 5 first_quote"
    unfolding quote_of_def
    by (rule exI [of _ "projr (quoting_terminal ''EURUSD'')"], rule exI [of _ "example_instrument eurusd"])
       (intro conjI; (simp add: md_example_def first_quote_def quoting_terminal_def mt5_symbol_of_def; fail)?; code_simp)
  have len: "length (md_queue (fst ?r)) \<le> length [5 :: int]" by code_simp
  obtain new where new: "md_sent (drain md_example [5] (fst ?r)) = md_sent quoted_market @ new"
      "\<forall>d \<in> set new. terminal_quote md_example quoting_terminal quoted_market [5] d"
      "\<exists>now \<in> set [5]. QuoteData (first_quote\<lparr>qt_ts_init := max now (qt_ts_event first_quote)\<rparr>) \<in> set new"
    using polled_quotes [OF wf quoted_market_wf(2), of quoting_terminal "fst ?r" "snd ?r" md_example "[5]"]
      ready len polled quote quoted_market_only by (metis prod.collapse)
  then have "length new = 1" using quoted_market_sent quoted_market_wf(3) by simp
  then obtain d where "new = [d]" by (auto simp: length_Suc_conv)
  then show ?thesis using new quoted_market_wf(3) by (simp add: first_quote_def)
qed

section \<open>History\<close>

definition good_bar :: "bar_data \<Rightarrow> bool" where
  "good_bar b \<longleftrightarrow> \<not> (bd_time b \<le> 0 \<or> bd_close b \<le> 0)"

lemma bars_of_rows_eq:
  assumes "traverse (mql_rate_row_to_bar_data symbol) rows = Inr all_bars"
  shows "bars_of_rows env bt symbol now rows =
         traverse (\<lambda>b. mt5_bar_to_nautilus_bar env bt b now False) (filter good_bar all_bars)"
  using assms
proof (induction rows arbitrary: all_bars)
  case (Cons row rows)
  then obtain b bs where b: "mql_rate_row_to_bar_data symbol row = Inr b" "all_bars = b # bs"
      "traverse (mql_rate_row_to_bar_data symbol) rows = Inr bs"
    by (auto simp: bindR_eq_Inr simp del: traverse_eq_Inr)
  then show ?case using Cons.IH [OF b(3)] by (simp add: good_bar_def)
qed simp

lemma make_bar_fields:
  "make_bar ins bt opn hi lo cl vol ts_event ts_init rv = Inr b \<Longrightarrow>
   nb_bar_type b = bt \<and> nb_ts_event b = ts_event \<and> nb_ts_init b = ts_init \<and> nb_is_revision b = rv \<and>
   make_price ins cl = Inr (nb_close b) \<and> make_price ins opn = Inr (nb_open b) \<and>
   make_price ins hi = Inr (nb_high b) \<and> make_price ins lo = Inr (nb_low b) \<and>
   make_qty ins (if vol = -1 then 0 else vol) = Inr (nb_volume b)"
  unfolding make_bar_def bindR_eq_Inr by auto

lemma mt5_bar_fields:
  assumes "mt5_bar_to_nautilus_bar env bt bar ts_init rv = Inr b"
  shows "nb_bar_type b = bt \<and> convert_mt5_bar_date env bar bt = Inr (nb_ts_event b) \<and> nb_ts_init b = ts_init \<and>
         nb_is_revision b = rv"
proof (cases "me_instrument env (bt_instrument_id bt)")
  case (Some ins)
  then obtain ts where "convert_mt5_bar_date env bar bt = Inr ts"
      "make_bar ins bt (bd_open bar) (bd_high bar) (bd_low bar) (bd_close bar) (bd_volume bar) ts ts_init rv = Inr b"
    using assms by (auto simp: mt5_bar_to_nautilus_bar_def bindR_eq_Inr)
  then show ?thesis using make_bar_fields by blast
qed (use assms in \<open>simp add: mt5_bar_to_nautilus_bar_def\<close>)

lemma bars_of_rows_ts_init:
  "bars_of_rows env bt symbol now rows = Inr bs \<Longrightarrow> b \<in> set bs \<Longrightarrow> nb_ts_init b = now \<and> nb_bar_type b = bt"
proof (induction rows arbitrary: bs)
  case (Cons row rows)
  then obtain d where d: "mql_rate_row_to_bar_data symbol row = Inr d" by (auto simp: bindR_eq_Inr)
  show ?case
  proof (cases "good_bar d")
    case False
    then show ?thesis using Cons d by (simp add: good_bar_def)
  next
    case True
    then obtain x xs where x: "mt5_bar_to_nautilus_bar env bt d now False = Inr x"
        "bars_of_rows env bt symbol now rows = Inr xs" "bs = x # xs"
      using Cons.prems(1) d by (auto simp: good_bar_def bindR_eq_Inr split: if_splits)
    then show ?thesis using Cons.IH [OF x(2)] Cons.prems(2) mt5_bar_fields [OF x(1)] by auto
  qed
qed simp

text \<open>
  Day bars cannot be queried: the terminal gives the seconds of a bar's day, which are read
  as the eight digits of a date. With a platform that refuses numbers of more than eight digits for
  that, a query that finds bars ends in an exception.
\<close>

theorem day_bars_fail:
  assumes "aggregation (bt_spec bt) = DAY_AGG" and "step (bt_spec bt) = 1"
    and "me_instrument env (bt_instrument_id bt) = Some ins"
    and "\<forall>t. 99991231 < t \<longrightarrow> (\<exists>e. me_ymd env t = Inl (ValueError e))"
    and "copy_rates env hist (sym_symbol s) 16408 end_time duration start limit = Inr rates" and "rates \<noteq> []"
    and "\<forall>row \<in> set rates. \<exists>b. mql_rate_row_to_bar_data (sym_symbol s) row = Inr b \<and>
           99991231 < bd_time b \<and> \<not> bd_close b \<le> 0"
  shows "\<exists>e. get_historical_bars env hist now bt s end_time duration start limit = Inl (ValueError e)"
proof -
  obtain row rows where r: "rev rates = row # rows" using assms(6) by (cases "rev rates") auto
  then have "row \<in> set rates" by (metis list.set_intros(1) set_rev)
  then obtain b where b: "mql_rate_row_to_bar_data (sym_symbol s) row = Inr b" "99991231 < bd_time b" "\<not> bd_close b \<le> 0"
    using assms(7) by blast
  then obtain e where e: "me_ymd env (bd_time b) = Inl (ValueError e)" using assms(4) by blast
  have "bar_spec_to_mt5_timeframe (bt_spec bt) = Inr 16408"
    using assms(1,2) by (simp add: bar_spec_to_mt5_timeframe_def)
  then show ?thesis
    using assms(1,3,5) r b e
    by (simp add: get_historical_bars_def mt5_bar_to_nautilus_bar_def convert_mt5_bar_date_def)
qed

definition day_bars :: bar_type where
  "day_bars = minute_bars\<lparr>bt_spec := \<lparr>aggregation = DAY_AGG, step = 1, spec_repr = ''1-DAY''\<rparr>\<rparr>"

definition day_row :: rate_row where
  "day_row = RowDict [(''time'', JInt 1700006400), (''open'', JFloat 1), (''high'', JFloat 1),
                      (''low'', JFloat 1), (''close'', JFloat 1), (''tick_volume'', JInt 5)]"

lemma day_row_bar: "\<exists>b. mql_rate_row_to_bar_data x day_row = Inr b \<and> bd_time b = 1700006400 \<and> bd_close b = 1"
  by (simp add: mql_rate_row_to_bar_data_def day_row_def rate_row_field_def or_zero_def)

lemma day_bars_fail_witness:
  "\<exists>e. get_historical_bars md_example \<lparr>hi_rates_range = (\<lambda>_ _ _ _. Inr None), hi_rates_from_pos = (\<lambda>_ _ _ _. Inr (Some [day_row]))\<rparr>
         9 day_bars (mt5_symbol_of ''EURUSD'') 0 ''7 D'' None (Some 1) = Inl (ValueError e)"
proof (rule day_bars_fail)
  show "\<forall>row \<in> set [day_row]. \<exists>b. mql_rate_row_to_bar_data (sym_symbol (mt5_symbol_of ''EURUSD'')) row = Inr b \<and>
      99991231 < bd_time b \<and> \<not> bd_close b \<le> 0"
    using day_row_bar [of "sym_symbol (mt5_symbol_of ''EURUSD'')"] by (auto simp: one_pyfloat_def)
  show "copy_rates md_example \<lparr>hi_rates_range = \<lambda>_ _ _ _. Inr None, hi_rates_from_pos = \<lambda>_ _ _ _. Inr (Some [day_row])\<rparr>
     (sym_symbol (mt5_symbol_of ''EURUSD'')) 16408 0 ''7 D'' None (Some 1) = Inr [day_row]"
    by (simp add: copy_rates_def rows_or_none_def)
qed (simp_all add: day_bars_def md_example_def minute_bars_def)

text \<open>Ticks of the history, as the loops over them use them.\<close>

lemma tick_of_row_times:
  assumes "tick_of_row env ins iid ty now row = Inr (Some d)"
  shows "data_ts_event d \<le> data_ts_init d \<and> now \<le> data_ts_init d"
proof -
  obtain b a l secs msc where v: "tick_values row = Inr (b, a, l, secs, msc)"
    using assms by (cases "tick_values row") (auto simp: tick_of_row_def split: if_splits)
  then obtain ts where "(if jtruthy msc then bindR (py_int msc) (\<lambda>ms. Inr (Some (ms * 1000000)))
                 else if secs \<noteq> 0 then bindR (me_secs env secs) (\<lambda>ns. Inr (Some ns)) else Inr None) = Inr ts"
    using assms by (auto simp: tick_of_row_def bindR_eq_Inr)
  then show ?thesis
    using assms v
    by (cases ts; cases "trade_history ty")
       (auto simp: tick_of_row_def bindR_eq_Inr Let_def split: if_splits)
qed

lemma ticks_of_rows_times:
  "ticks_of_rows env ins iid ty clock k rows = Inr ts \<Longrightarrow> d \<in> set ts \<Longrightarrow>
   data_ts_event d \<le> data_ts_init d \<and> (\<exists>j. clock j \<le> data_ts_init d)"
proof (induction rows arbitrary: k ts)
  case (Cons row rows)
  then obtain t rest where t: "tick_of_row env ins iid ty (clock k) row = Inr t"
      "ticks_of_rows env ins iid ty clock (Suc k) rows = Inr rest" "ts = (case t of None \<Rightarrow> rest | Some d \<Rightarrow> d # rest)"
    by (auto simp: bindR_eq_Inr)
  then show ?case
    using Cons.IH [OF t(2)] Cons.prems(2) tick_of_row_times [of env ins iid ty "clock k" row]
    by (cases t) auto
qed simp

lemma get_historical_ticks_times:
  assumes "get_historical_ticks env ticks_from parse wall clock s ty st en n = Inr ts"
  shows "sorted (map data_ts_init ts) \<and>
         (\<forall>d \<in> set ts. data_ts_event d \<le> data_ts_init d \<and> (\<exists>k. clock k \<le> data_ts_init d))"
proof -
  have "ts = [] \<or> (\<exists>iid ins rows us. ticks_of_rows env ins iid ty clock 0 rows = Inr us \<and> ts = sort_key data_ts_init us)"
  proof -
    obtain from_ts where step: "(case ticks_from (sym_symbol s) from_ts n of
        Inl _ \<Rightarrow> Inr []
      | Inr None \<Rightarrow> Inr []
      | Inr (Some rows) \<Rightarrow>
          if rows = [] then Inr []
          else
            bindR (mt5_symbol_to_instrument_id (Some s)) (\<lambda>iid.
            case me_instrument env iid of
              None \<Rightarrow> Inr []
            | Some ins \<Rightarrow>
                bindR (ticks_of_rows env ins iid ty clock 0 rows) (\<lambda>ts. Inr (sort_key data_ts_init ts)))) = Inr ts"
      using assms unfolding get_historical_ticks_def Let_def bindR_eq_Inr by blast
    show ?thesis
    proof (cases "\<exists>rows. ticks_from (sym_symbol s) from_ts n = Inr (Some rows) \<and> rows \<noteq> []")
      case True
      then obtain rows iid where "bindR (mt5_symbol_to_instrument_id (Some s)) (\<lambda>iid.
            case me_instrument env iid of
              None \<Rightarrow> Inr []
            | Some ins \<Rightarrow>
                bindR (ticks_of_rows env ins iid ty clock 0 rows) (\<lambda>ts. Inr (sort_key data_ts_init ts))) = Inr ts"
        using step by auto
      then obtain iid where "(case me_instrument env iid of
              None \<Rightarrow> Inr []
            | Some ins \<Rightarrow>
                bindR (ticks_of_rows env ins iid ty clock 0 rows) (\<lambda>ts. Inr (sort_key data_ts_init ts))) = Inr ts"
        unfolding bindR_eq_Inr by blast
      then show ?thesis by (cases "me_instrument env iid") (auto simp: bindR_eq_Inr)
    next
      case False
      then show ?thesis
        using step
        by (cases "ticks_from (sym_symbol s) from_ts n"; cases "projr (ticks_from (sym_symbol s) from_ts n)") auto
    qed
  qed
  then show ?thesis
    by (elim disjE exE conjE) (simp, simp, metis ticks_of_rows_times)
qed

end
