(* ===== verification/Data_Facts.thy ===== *)
theory Data_Facts
  imports Data_Client Market_Facts
begin

text \<open>
  What the data client does: its loop over the history of ticks ends or does not, bars of a request
  come in the order of a set, a hello is answered with every subscription that is wanted, and the
  feed's ticks and bars become the platform's.
\<close>

section \<open>The loop over the history of ticks\<close>

lemma ticks_loop_by_limit:
  assumes "nat n < fuel + length ticks" and "0 < fuel"
  shows "\<exists>r. ticks_loop fetch None (Some n) fuel k e ticks = Some r"
  using assms
proof (induction fuel arbitrary: k e ticks)
  case (Suc fuel)
  let ?m = "min (max (n - int (length ticks)) 1) 1000"
  show ?case
  proof (cases "int (length ticks) < n \<and> (\<exists>d ds. fetch k e ?m = Inr (d # ds))")
    case True
    then obtain d ds where part: "fetch k e ?m = Inr (d # ds)" by blast
    have "nat n < fuel + length (ticks @ d # ds)" "0 < fuel" using Suc.prems True by auto
    moreover have "max (n - int (length ticks)) 1 = n - int (length ticks)" using True by simp
    ultimately show ?thesis using Suc.IH [of "ticks @ d # ds"] part by simp
  next
    case False
    then show ?thesis
      by (cases "fetch k e ?m"; cases "projr (fetch k e ?m)") auto
  qed
qed simp

text \<open>
  The queries of a request for \<open>n\<close> ticks: the parts that were answered, none of them empty, each asked for up to the
  first time of the part before it and for what is still missing, at most a thousand ticks at once. The request ends
  when nothing is missing, or with the first answer that is empty or an exception.
\<close>

fun walked :: "(nat \<Rightarrow> int \<Rightarrow> int \<Rightarrow> ('p, 'q) ndata list result) \<Rightarrow> int \<Rightarrow> nat \<Rightarrow> int \<Rightarrow> int \<Rightarrow> ('p, 'q) ndata list list \<Rightarrow> bool" where
  "walked fetch n k e got [] \<longleftrightarrow> True"
| "walked fetch n k e got (p # ps) \<longleftrightarrow>
     got < n \<and> p \<noteq> [] \<and> fetch k e (min (n - got) 1000) = Inr p \<and>
     walked fetch n (Suc k) (Min (set (map data_ts_init p))) (got + int (length p)) ps"

fun walk_end :: "int \<Rightarrow> ('p, 'q) ndata list list \<Rightarrow> int" where
  "walk_end e [] = e"
| "walk_end e (p # ps) = walk_end (Min (set (map data_ts_init p))) ps"

definition walk_result ::
    "int \<Rightarrow> (int \<Rightarrow> ('p, 'q) ndata list result) \<Rightarrow> ('p, 'q) ndata list \<Rightarrow> ('p, 'q) ndata list result \<Rightarrow> bool" where
  "walk_result n answer ticks r \<longleftrightarrow>
     (if n \<le> int (length ticks) then r = Inr ticks
      else (case answer (min (n - int (length ticks)) 1000) of
              Inl x \<Rightarrow> r = Inl x
            | Inr part \<Rightarrow> part = [] \<and> r = Inr ticks))"

lemma ticks_loop_walk:
  assumes "ticks_loop fetch None (Some n) fuel k e ticks = Some r" and "0 < n"
  shows "\<exists>parts. walked fetch n k e (int (length ticks)) parts \<and>
    walk_result n (fetch (k + length parts) (walk_end e parts)) (ticks @ concat parts) r"
  using assms(1)
proof (induction fuel arbitrary: k e ticks)
  case (Suc fuel)
  let ?got = "int (length ticks)" and ?m = "min (n - int (length ticks)) 1000"
  show ?case
  proof (cases "?got < n")
    case False
    then have "r = Inr ticks" using Suc.prems by simp
    then show ?thesis using False by (intro exI [of _ "[]"]) (simp add: walk_result_def)
  next
    case True
    then have m: "min (max (n - ?got) 1) 1000 = ?m" by simp
    show ?thesis
    proof (cases "\<exists>d ds. fetch k e ?m = Inr (d # ds)")
      case False
      then have "walk_result n (fetch k e) ticks r" using Suc.prems True assms(2) m
        by (cases "fetch k e ?m"; cases "projr (fetch k e ?m)") (auto simp: walk_result_def)
      then show ?thesis by (intro exI [of _ "[]"]) simp
    next
      case part: True
      then obtain d ds where p: "fetch k e ?m = Inr (d # ds)" by blast
      let ?p = "d # ds"
      have "ticks_loop fetch None (Some n) fuel (Suc k) (Min (set (map data_ts_init ?p))) (ticks @ ?p) = Some r"
        using Suc.prems True assms(2) m p by simp
      from Suc.IH [OF this] obtain parts where
        "walked fetch n (Suc k) (Min (set (map data_ts_init ?p))) (int (length (ticks @ ?p))) parts"
        "walk_result n (fetch (Suc k + length parts) (walk_end (Min (set (map data_ts_init ?p))) parts)) ((ticks @ ?p) @ concat parts) r"
        by blast
      then show ?thesis using True p by (intro exI [of _ "?p # parts"]) (simp add: algebra_simps)
    qed
  qed
qed simp


definition one_quote :: "int \<Rightarrow> (pyfloat, int) ndata" where
  "one_quote t = QuoteData \<lparr>qt_instrument_id = eurusd, qt_bid_price = 1, qt_ask_price = 1, qt_bid_size = 0,
                            qt_ask_size = 0, qt_ts_event = t, qt_ts_init = t\<rparr>"


lemma ticks_loop_diverges:
  assumes "\<forall>k e m. \<exists>d ds. fetch k e m = Inr (d # ds) \<and> (\<forall>x \<in> set (d # ds). s < data_ts_init x)" and "s < e"
  shows "ticks_loop fetch (Some s) (Some n) fuel k e ticks = None"
  using assms(2)
proof (induction fuel arbitrary: k e ticks)
  case (Suc fuel)
  obtain d ds where part: "fetch k e (min (max (n - int (length ticks)) 1) 1000) = Inr (d # ds)"
      and later: "\<forall>x \<in> set (d # ds). s < data_ts_init x"
    using assms(1) by blast
  have "s < Min (set (map data_ts_init (d # ds)))" using later by (subst Min_gr_iff) auto
  from Suc.IH [OF this] show ?case using part Suc.prems by simp
qed simp

text \<open>
  C14: a request for ticks from a time on does not end as long as the terminal has ticks: the
  initialization time of a tick of the history is the time at which it is read, so the end of the next
  query never comes near the start. Here every query is the client's own, with a clock that is past
  the start; no number of rounds is enough.
\<close>

theorem request_from_start_never_ends:
  assumes "\<forall>k e m. \<exists>d ds. get_historical_ticks env tf parse wall (clock k) s ty (TimeText []) (AtTime e) m = Inr (d # ds)"
    and "\<forall>k j. start < clock k j" and "start < (case end_time of Some e \<Rightarrow> e | None \<Rightarrow> now)"
  shows "handle_ticks_request
           (\<lambda>k e m. get_historical_ticks env tf parse wall (clock k) s ty (TimeText []) (AtTime e) m)
           capacity fuel now (Some n) (Some start) end_time = None"
proof -
  let ?fetch = "\<lambda>k e m. get_historical_ticks env tf parse wall (clock k) s ty (TimeText []) (AtTime e) m"
  have "\<exists>d ds. ?fetch k e m = Inr (d # ds) \<and> (\<forall>x \<in> set (d # ds). start < data_ts_init x)" for k e m
  proof -
    obtain d ds where ds: "?fetch k e m = Inr (d # ds)" using assms(1) by blast
    then have "\<forall>x \<in> set (d # ds). \<exists>j. clock k j \<le> data_ts_init x"
      using get_historical_ticks_times [OF ds] by blast
    then have "\<forall>x \<in> set (d # ds). start < data_ts_init x" using assms(2) by (meson order_less_le_trans)
    then show ?thesis using ds by blast
  qed
  then have "ticks_loop ?fetch (Some start) (Some n) fuel 0 (case end_time of Some e \<Rightarrow> e | None \<Rightarrow> now) [] = None"
    using ticks_loop_diverges [of ?fetch start] assms(3) by blast
  then show ?thesis by (simp add: handle_ticks_request_def)
qed

definition one_tick_row :: tick_row where
  "one_tick_row = DictRow [(''bid'', JFloat 1), (''ask'', JFloat 1), (''last'', JFloat 1), (''time'', JInt 7)]"

lemma one_tick_history:
  "\<exists>d. get_historical_ticks md_example (\<lambda>_ _ _. Inr (Some [one_tick_row])) parse 0 clock (mt5_symbol_of ''EURUSD'')
         ''BID_ASK'' (TimeText []) (AtTime e) m = Inr [d]"
proof -
  have v: "tick_values one_tick_row = Inr (1, 1, 1, 7, JNull)"
    by (simp add: one_tick_row_def keyed_tick_def value_or_zero_def or_zero_def ftruthy_def zero_pyfloat_def one_pyfloat_def)
  obtain d where "tick_of_row md_example (example_instrument i) i ''BID_ASK'' now one_tick_row = Inr (Some (d i now))" for i now
    by (simp add: tick_of_row_def v md_example_def example_instrument_def trade_history_def zero_pyfloat_def one_pyfloat_def)
  then show ?thesis
    by (simp add: get_historical_ticks_def arg_seconds_def md_example_def mt5_symbol_to_instrument_id_def
        mt5_symbol_to_instrument_id_simplified_symbology_def mt5_symbol_of_def strip_def)
qed

lemma request_from_start_never_ends_witness:
  "\<forall>fuel. handle_ticks_request
     (\<lambda>k e m. get_historical_ticks md_example (\<lambda>_ _ _. Inr (Some [one_tick_row])) (\<lambda>_. Inl TypeError) 0 (\<lambda>_. 5 + int k)
        (mt5_symbol_of ''EURUSD'') ''BID_ASK'' (TimeText []) (AtTime e) m)
     1000 fuel 9 (Some 2) (Some 1) None = None"
proof (rule allI, rule request_from_start_never_ends)
  show "\<forall>k e m. \<exists>d ds. get_historical_ticks md_example (\<lambda>_ _ _. Inr (Some [one_tick_row])) (\<lambda>_. Inl TypeError) 0
      (\<lambda>_. 5 + int k) (mt5_symbol_of ''EURUSD'') ''BID_ASK'' (TimeText []) (AtTime e) m = Inr (d # ds)"
    using one_tick_history by blast
qed simp_all

section \<open>Bars of a request\<close>

lemma sort_key_const: "\<forall>x \<in> set xs. f x = c \<Longrightarrow> sort_key f xs = xs"
proof (induction xs)
  case (Cons x xs)
  then show ?case by (cases xs) simp_all
qed simp

lemma bars_all_at_once:
  assumes "get_historical_bars md hist now bt s e duration start limit = Inr bs"
  shows "\<forall>b \<in> set bs. nb_ts_init b = now \<and> nb_bar_type b = bt"
  using assms bars_of_rows_ts_init by (fastforce simp: get_historical_bars_def bindR_eq_Inr)

text \<open>
  The bars of a request are handed to the platform in the order in which a set lists them: the
  client gives all bars of a query the same initialization time, so that sorting the set's list by
  that time leaves it as it is, and the bar given as the one in progress is the first of that list.
\<close>

theorem requested_bars_in_set_order:
  assumes "set (set_list bs) = set bs"
    and "get_historical_bars (de_md env) hist now' bt s e (bars_duration ba bt start e) start
           (if start = None then Some (if limit = 0 then 1000 else limit) else None) = Inr bs"
    and "bs \<noteq> []" and "cached env (bt_instrument_id bt) = Some ins" and "de_symbol env (bt_instrument_id bt) = Some s"
    and "ba_time_aggregated ba (bt_spec bt)" and "e = (case end_time of Some t \<Rightarrow> t | None \<Rightarrow> now)"
  shows "request_bars ba env set_list (\<lambda>s e d st l. get_historical_bars (de_md env) hist now' bt s e d st l)
           now bt limit start end_time corr dc =
         (dc\<lparr>dc_published := dc_published dc @ [PubBars bt (set_list bs) (hd (set_list bs)) corr, PubStatus corr True]\<rparr>,
          Inr ())"
proof -
  have "\<forall>b \<in> set (set_list bs). nb_ts_init b = now'"
    using bars_all_at_once [OF assms(2)] assms(1) by blast
  then have "sort_key nb_ts_init (set_list bs) = set_list bs" by (rule sort_key_const)
  moreover obtain b bs' where "bs = b # bs'" using assms(3) by (cases bs) auto
  moreover have "(if start = None then Some (if start = None \<and> limit = 0 then 1000 else limit) else None) =
      (if start = None then Some (if limit = 0 then 1000 else limit) else None)" by simp
  ultimately show ?thesis
    using assms by (simp add: request_bars_def Let_def dc_publish_def del: sort_key_simps)
qed

definition data_example :: "(pyfloat, int) data_env" where
  "data_example = \<lparr>de_md = md_example, de_symbol = (\<lambda>i. Some (mt5_symbol_of (iid_symbol i))), de_calc_mode = (\<lambda>_. 0)\<rparr>"

definition minute_row :: "int \<Rightarrow> rate_row" where
  "minute_row t = RowDict [(''time'', JInt t), (''open'', JFloat 1), (''high'', JFloat 1),
                      (''low'', JFloat 1), (''close'', JFloat 1), (''tick_volume'', JInt 5)]"

definition minute_history :: history where
  "minute_history = \<lparr>hi_rates_range = (\<lambda>_ _ _ _. Inr None),
                     hi_rates_from_pos = (\<lambda>_ _ _ _. Inr (Some [minute_row 60, minute_row 120]))\<rparr>"

definition minute_nbar :: "int \<Rightarrow> (bar_type, pyfloat, int) nbar" where
  "minute_nbar t = \<lparr>nb_bar_type = minute_bars, nb_open = 1, nb_high = 1, nb_low = 1, nb_close = 1, nb_volume = 5,
                    nb_ts_event = t * 1000000000, nb_ts_init = 9, nb_is_revision = False\<rparr>"

lemma minute_history_bars:
  "get_historical_bars md_example minute_history 9 minute_bars s e d None (Some n) = Inr [minute_nbar 120, minute_nbar 60]"
  by (simp add: get_historical_bars_def minute_bars_def bar_spec_to_mt5_timeframe_def mt5_minutes_def copy_rates_def
      minute_history_def rows_or_none_def minute_row_def mql_rate_row_to_bar_data_def rate_row_field_def or_zero_def
      mt5_bar_to_nautilus_bar_def md_example_def example_instrument_def convert_mt5_bar_date_def make_bar_def
      minute_nbar_def zero_pyfloat_def one_pyfloat_def)

lemma requested_bars_in_set_order_witness:
  "request_bars \<lparr>ba_time_aggregated = (\<lambda>_. True), ba_diff = (\<lambda>_ _. \<lparr>td_days = 0, td_seconds = 0, td_microseconds = 0\<rparr>)\<rparr>
     data_example id (\<lambda>s e d st l. get_historical_bars (de_md data_example) minute_history 9 minute_bars s e d st l)
     9 minute_bars 0 None None ''c'' data_client_init =
   (data_client_init\<lparr>dc_published := dc_published data_client_init @
      [PubBars minute_bars (id [minute_nbar 120, minute_nbar 60]) (hd (id [minute_nbar 120, minute_nbar 60])) ''c'',
       PubStatus ''c'' True]\<rparr>, Inr ())"
proof (rule requested_bars_in_set_order)
  show "cached data_example (bt_instrument_id minute_bars) = Some (example_instrument eurusd)"
    by (simp add: cached_def data_example_def md_example_def minute_bars_def)
  show "de_symbol data_example (bt_instrument_id minute_bars) = Some (mt5_symbol_of ''EURUSD'')"
    by (simp add: data_example_def minute_bars_def eurusd_def)
  show "get_historical_bars (de_md data_example) minute_history 9 minute_bars (mt5_symbol_of ''EURUSD'') 9
     (bars_duration \<lparr>ba_time_aggregated = \<lambda>_. True, ba_diff = \<lambda>_ _. \<lparr>td_days = 0, td_seconds = 0, td_microseconds = 0\<rparr>\<rparr>
       minute_bars None 9) None (if None = None then Some (if (0 :: int) = 0 then 1000 else 0) else None) =
    Inr [minute_nbar 120, minute_nbar 60]"
    by (simp add: data_example_def minute_history_bars)
qed simp_all

section \<open>Commands after a hello\<close>

text \<open>\<open>sends w g g' cmds\<close>: what has happened between the two states is that the commands went to \<open>w\<close>.\<close>

definition sends :: "nat \<Rightarrow> gateway \<Rightarrow> gateway \<Rightarrow> string list \<Rightarrow> bool" where
  "sends w g g' cmds \<longleftrightarrow>
     service_ws g = Some w \<and> w \<in> ws_open g \<and> service_ws g' = Some w \<and> ws_open g' = ws_open g \<and>
     sent g' = sent g @ map (Pair w) cmds \<and> hello_event g' = hello_event g \<and> last_hello g' = last_hello g"

lemma sends_refl: "service_ws g = Some w \<Longrightarrow> w \<in> ws_open g \<Longrightarrow> sends w g g []"
  by (simp add: sends_def)

lemma sends_trans: "sends w g1 g2 cs \<Longrightarrow> sends w g2 g3 ds \<Longrightarrow> sends w g1 g3 (cs @ ds)"
  by (simp add: sends_def)

lemma on_subscriptions_fields [simp]:
  "service_ws (on_subscriptions f g) = service_ws g" "ws_open (on_subscriptions f g) = ws_open g"
  "sent (on_subscriptions f g) = sent g" "hello_event (on_subscriptions f g) = hello_event g"
  "last_hello (on_subscriptions f g) = last_hello g" "is_service_connected (on_subscriptions f g) = is_service_connected g"
  "subscription_state (gw_handler (on_subscriptions f g)) = f (subscription_state (gw_handler g))"
  by (simp_all add: on_subscriptions_def is_service_connected_def split: option.split)

lemma gw_subscribe_connected:
  assumes "service_ws g = Some w" and "w \<in> ws_open g" and "ks \<noteq> []"
  shows "\<exists>g'. gw_subscribe ks g = Inr g' \<and> sends w g g' [build_subscribe_command ks] \<and>
     pending_bar_subscribe (subscription_state (gw_handler g')) = pending_bar_subscribe (subscription_state (gw_handler g))"
  using assms
  by (simp add: gw_subscribe_def Let_def gw_send_def sends_def mark_subscribe_fields is_service_connected_def)

lemma gw_subscribe_bars_connected:
  assumes "service_ws g = Some w" and "w \<in> ws_open g" and "ks \<noteq> []" and "tf \<noteq> []"
  shows "\<exists>g'. gw_subscribe_bars ks tf g = Inr g' \<and> sends w g g' [build_subscribe_bars_command ks tf]"
  using assms
  by (simp add: gw_subscribe_bars_def Let_def gw_send_def sends_def is_service_connected_def)

lemma subscribe_each_sends:
  assumes "dc_gateway dc = Some g" and "service_ws g = Some w" and "w \<in> ws_open g"
    and "\<forall>(tf, ks) \<in> set d. tf \<noteq> [] \<and> ks \<noteq> []"
  shows "\<exists>g'. subscribe_each d dc = (dc\<lparr>dc_gateway := Some g'\<rparr>, Inr ()) \<and>
     sends w g g' (map (\<lambda>(tf, ks). build_subscribe_bars_command ks tf) d)"
  using assms
proof (induction d arbitrary: dc g)
  case Nil
  then have "dc\<lparr>dc_gateway := Some g\<rparr> = dc" by (cases dc) simp
  then show ?case using Nil sends_refl [of g w] by (intro exI [of _ g]) simp
next
  case (Cons p d)
  obtain tf ks where p: "p = (tf, ks)" by (cases p)
  obtain g1 where g1: "gw_subscribe_bars ks tf g = Inr g1" "sends w g g1 [build_subscribe_bars_command ks tf]"
    using gw_subscribe_bars_connected [of g w ks tf] Cons.prems p by auto
  let ?dc1 = "dc\<lparr>dc_gateway := Some g1\<rparr>"
  obtain g' where "subscribe_each d ?dc1 = (?dc1\<lparr>dc_gateway := Some g'\<rparr>, Inr ())"
      "sends w g1 g' (map (\<lambda>(tf, ks). build_subscribe_bars_command ks tf) d)"
    using Cons.IH [of ?dc1 g1] g1(2) Cons.prems by (auto simp: sends_def)
  then show ?case
    using g1 Cons.prems p sends_trans [OF g1(2)] by (auto simp: on_gateway_def then_step_def)
qed

text \<open>Grouping by timeframe keeps every pair.\<close>

lemma by_timeframe_dom:
  "dict_get (by_timeframe xs d) tf =
     (if \<exists>s. (s, tf) \<in> set xs then Some (get_default d tf [] @ map fst (filter (\<lambda>p. snd p = tf) xs)) else dict_get d tf)"
proof (induction xs d rule: by_timeframe.induct)
  case (2 s t rest d)
  show ?case
    unfolding by_timeframe.simps 2
    by (cases "t = tf"; cases "\<exists>s. (s, tf) \<in> set rest")
       (auto simp: dict_simps get_default_def filter_empty_conv split: option.splits)
qed simp

lemma by_timeframe_distinct: "distinct (dict_keys d) \<Longrightarrow> distinct (dict_keys (by_timeframe xs d))"
  by (induction xs d rule: by_timeframe.induct) (simp_all add: distinct_update)

lemma by_timeframe_entries:
  "(tf, ks) \<in> set (by_timeframe xs []) \<longleftrightarrow> (\<exists>s. (s, tf) \<in> set xs) \<and> ks = map fst (filter (\<lambda>p. snd p = tf) xs)"
proof -
  have "distinct (dict_keys (by_timeframe xs ([] :: (string, string list) dict)))"
    using by_timeframe_distinct [of "[]" xs] by simp
  then have "(tf, ks) \<in> set (by_timeframe xs []) \<longleftrightarrow> dict_get (by_timeframe xs []) tf = Some ks"
    by (metis map_of_eq_Some_iff)
  then show ?thesis by (auto simp: by_timeframe_dom get_default_def)
qed

lemma gw_handle_raw_hello:
  assumes "parse_wire_message raw = Inr (HelloMessage h)"
  shows "\<exists>g1. gw_handle_raw raw g = Inr g1 \<and> events g1 = events g @ [HelloMessage h] \<and>
    service_ws g1 = service_ws g \<and> ws_open g1 = ws_open g \<and> sent g1 = sent g \<and> hello_event g1 \<and>
    last_hello g1 = Some h \<and>
    subscription_state (gw_handler g1) = apply_hello h (subscription_state (gw_handler g))"
  using assms by (simp add: gw_handle_raw_def)

text \<open>
  C10: whenever the feed service says hello on an open connection, it is told again of everything the
  client wants: one command with the symbols whose quotes are wanted, when there are any, and for every
  wanted bar a command of its timeframe that names its symbol; and nothing else is sent.
\<close>

theorem hello_resubscribes:
  assumes "dc_gateway dc = Some g" and "parse_wire_message raw = Inr (HelloMessage h)"
    and "service_ws g = Some w" and "w \<in> ws_open g"
    and "W = dc_pending_symbols dc \<union> (pending_subscribe (subscription_state (gw_handler g)) - set (h_symbols h))"
    and "B = dc_pending_bars dc \<union> (pending_bar_subscribe (subscription_state (gw_handler g)) - hello_bars (h_bars h))"
    and "finite W" and "finite B" and "\<forall>(s, tf) \<in> B. tf \<noteq> []"
  shows "\<exists>g' cmds. dc_gateway (feed_frame env sn now w' raw dc) = Some g' \<and> hello_event g' \<and>
     sent g' = sent g @ map (Pair w) cmds \<and>
     set cmds = {build_subscribe_command (sorted_list_of_set W) | x. x \<in> W} \<union>
                {build_subscribe_bars_command (map fst (filter (\<lambda>p. snd p = tf) (sorted_list_of_set B))) tf | s tf. (s, tf) \<in> B}"
proof -
  obtain g1 where g1: "gw_handle_raw raw g = Inr g1" "events g1 = events g @ [HelloMessage h]"
      "service_ws g1 = Some w" "ws_open g1 = ws_open g" "sent g1 = sent g" "hello_event g1"
      "subscription_state (gw_handler g1) = apply_hello h (subscription_state (gw_handler g))"
    using gw_handle_raw_hello [OF assms(2), of g] assms(3) by auto
  let ?dc1 = "dc\<lparr>dc_gateway := Some g1\<rparr>"
  have W: "wanted_symbols g1 ?dc1 = sorted_list_of_set W"
    by (simp add: wanted_symbols_def g1(7) apply_hello_def assms(5))
  have W0: "sorted_list_of_set W = [] \<longleftrightarrow> W = {}" using assms(7) by simp
  obtain g2 qs where quotes: "replay_pending_quote_subscriptions ?dc1 = (dc\<lparr>dc_gateway := Some g2\<rparr>, Inr ())"
      and s2: "sends w g1 g2 qs" and qs: "set qs = {build_subscribe_command (sorted_list_of_set W) | x. x \<in> W}"
      and bars2: "pending_bar_subscribe (subscription_state (gw_handler g2)) = pending_bar_subscribe (subscription_state (gw_handler g1))"
  proof (cases "W = {}")
    case True
    then show ?thesis
      using that [of g1 "[]"] sends_refl [of g1 w] g1 assms(4) W
      by (simp add: replay_pending_quote_subscriptions_def on_gateway_def)
  next
    case False
    obtain g2 where g2: "gw_subscribe (sorted_list_of_set W) g1 = Inr g2"
        "sends w g1 g2 [build_subscribe_command (sorted_list_of_set W)]"
        "pending_bar_subscribe (subscription_state (gw_handler g2)) = pending_bar_subscribe (subscription_state (gw_handler g1))"
      using gw_subscribe_connected [of g1 w "sorted_list_of_set W"] g1(3,4) assms(4) W0 False by auto
    have "replay_pending_quote_subscriptions ?dc1 = (dc\<lparr>dc_gateway := Some g2\<rparr>, Inr ())"
      using g2(1) W W0 False by (simp add: replay_pending_quote_subscriptions_def on_gateway_def)
    moreover have "set [build_subscribe_command (sorted_list_of_set W)] = {build_subscribe_command (sorted_list_of_set W) | x. x \<in> W}"
      using False by auto
    ultimately show ?thesis using that g2 by blast
  qed
  let ?dc2 = "dc\<lparr>dc_gateway := Some g2\<rparr>" and ?xs = "sorted_list_of_set B"
  have B: "wanted_bars g2 ?dc2 = by_timeframe ?xs []"
    by (simp add: wanted_bars_def bars2 g1(7) apply_hello_def assms(6))
  have "tf \<noteq> [] \<and> ks \<noteq> []" if "(tf, ks) \<in> set (by_timeframe ?xs [])" for tf ks
    using that assms(8,9) by (force simp: by_timeframe_entries filter_empty_conv)
  then obtain g3 where bars: "subscribe_each (by_timeframe ?xs []) ?dc2 = (?dc2\<lparr>dc_gateway := Some g3\<rparr>, Inr ())"
      and s3: "sends w g2 g3 (map (\<lambda>(tf, ks). build_subscribe_bars_command ks tf) (by_timeframe ?xs []))"
    using subscribe_each_sends [of ?dc2 g2 w "by_timeframe ?xs []"] s2 by (auto simp: sends_def)
  have frame: "dc_gateway (feed_frame env sn now w' raw dc) = Some g3"
    using assms(1) g1(1,2) quotes bars B
    by (simp add: feed_frame_def Let_def handle_feed_event_def then_step_def replay_pending_bar_subscriptions_def)
  have "set (map (\<lambda>(tf, ks). build_subscribe_bars_command ks tf) (by_timeframe ?xs [])) =
      {build_subscribe_bars_command (map fst (filter (\<lambda>p. snd p = tf) ?xs)) tf | s tf. (s, tf) \<in> B}"
    using assms(8) by (force simp: by_timeframe_entries)
  then show ?thesis
    using frame sends_trans [OF s2 s3] g1(5,6) qs
    by (intro exI [of _ g3] exI [of _ "qs @ map (\<lambda>(tf, ks). build_subscribe_bars_command ks tf) (by_timeframe ?xs [])"])
       (simp add: sends_def)
qed

definition connected_gateway :: gateway where
  "connected_gateway = (gateway_init ''/mt5-feed'')\<lparr>server := True, service_ws := Some 1, ws_open := {1}, serving := {1}\<rparr>"

definition wanting_client :: "(pyfloat, int) data_client" where
  "wanting_client = data_client_init\<lparr>dc_gateway := Some connected_gateway, dc_pending_symbols := {''GBPUSD''},
                                      dc_pending_bars := {(''EURUSD'', ''M1'')}\<rparr>"

lemma hello_resubscribes_witness:
  "\<exists>g' cmds. dc_gateway (feed_frame data_example id 0 1 hello_frame wanting_client) = Some g' \<and> hello_event g' \<and>
     sent g' = map (Pair 1) cmds \<and>
     set cmds = {build_subscribe_bars_command [''EURUSD''] ''M1'', build_subscribe_command [''GBPUSD'']}"
proof -
  let ?h = "\<lparr>h_session = ''s1'', h_symbols = [''EURUSD''], h_bars = [''EURUSD:m1''], h_terminal = None, h_account = None\<rparr>"
    and ?st = "subscription_state (gw_handler connected_gateway)"
  have st: "pending_subscribe ?st = {}" "pending_bar_subscribe ?st = {}"
    by (simp_all add: connected_gateway_def gateway_init_def feed_handler_init_def subscription_state_init_def)
  have fields: "dc_gateway wanting_client = Some connected_gateway" "dc_pending_symbols wanting_client = {''GBPUSD''}"
    "dc_pending_bars wanting_client = {(''EURUSD'', ''M1'')}" "service_ws connected_gateway = Some 1"
    "(1 :: nat) \<in> ws_open connected_gateway" "sent connected_gateway = []"
    by (simp_all add: wanting_client_def connected_gateway_def gateway_init_def)
  have W: "{''GBPUSD''} = dc_pending_symbols wanting_client \<union> (pending_subscribe ?st - set (h_symbols ?h))"
    and B: "{(''EURUSD'', ''M1'')} = dc_pending_bars wanting_client \<union> (pending_bar_subscribe ?st - hello_bars (h_bars ?h))"
    by (simp_all add: fields st)
  show ?thesis
    using hello_resubscribes [OF fields(1) hello_frame_parse fields(4,5) W B, where env = data_example and sn = id and now = 0 and w' = 1]
    by (simp add: fields(6))
qed

section \<open>Ticks and bars of the feed\<close>

lemma publish_ticks_all:
  assumes "\<forall>t \<in> set ts. \<exists>q. wire_tick_to_quote_tick ins t now = Inr (Some q)"
  shows "\<exists>qs. publish_ticks ins now ts dc = (dc\<lparr>dc_published := dc_published dc @ map (\<lambda>q. PubData (QuoteData q)) qs\<rparr>, Inr ()) \<and>
     list_all2 (\<lambda>t q. wire_tick_to_quote_tick ins t now = Inr (Some q)) ts qs"
  using assms
proof (induction ts arbitrary: dc)
  case Nil
  show ?case by (intro exI [of _ "[]"]) simp
next
  case (Cons t ts)
  obtain q where q: "wire_tick_to_quote_tick ins t now = Inr (Some q)" using Cons.prems by auto
  let ?dc1 = "dc_publish (PubData (QuoteData q)) dc"
  obtain qs where "publish_ticks ins now ts ?dc1 = (?dc1\<lparr>dc_published := dc_published ?dc1 @ map (\<lambda>q. PubData (QuoteData q)) qs\<rparr>, Inr ())"
      "list_all2 (\<lambda>t q. wire_tick_to_quote_tick ins t now = Inr (Some q)) ts qs"
    using Cons.IH [of ?dc1] Cons.prems by auto
  then show ?case using q by (intro exI [of _ "q # qs"]) (simp add: dc_publish_def)
qed

lemma gw_handle_raw_event:
  assumes "parse_wire_message raw = Inr m" and "handle_message m (gw_handler g) = (h, Some event)"
    and "\<not> (\<exists>x. event = HelloMessage x)"
  shows "gw_handle_raw raw g = Inr (g\<lparr>gw_handler := h, events := events g @ [event]\<rparr>)"
  using assms by (cases event) (simp_all add: gw_handle_raw_def)

lemma gw_handle_raw_silent:
  assumes "parse_wire_message raw = Inr m" and "handle_message m (gw_handler g) = (h, None)"
  shows "gw_handle_raw raw g = Inr (g\<lparr>gw_handler := h\<rparr>)"
  using assms by (simp add: gw_handle_raw_def)

text \<open>The ticks of a batch that the filter of its symbol lets through.\<close>

definition new_ticks :: "gateway \<Rightarrow> tick_batch \<Rightarrow> wire_tick list" where
  "new_ticks g b = snd (dedup_ticks b (gw_handler g))"

text \<open>
  C16: a frame with a batch of ticks of an instrument in the cache gives the platform one quote for
  each tick that the filter lets through, in their order, provided the instrument accepts their prices;
  the quotes carry the tick's own time, and no time of initialization before it.
\<close>

theorem feed_ticks_become_quotes:
  assumes "dc_gateway dc = Some g" and "parse_wire_message raw = Inr (TickBatchMessage b)"
    and "cached env \<lparr>iid_symbol = tb_symbol b, iid_venue = ''METATRADER_5''\<rparr> = Some ins"
    and "\<forall>t \<in> set (tb_ticks b). \<exists>p q. make_price ins (bid t) = Inr p \<and> make_price ins (ask t) = Inr q"
    and "make_qty ins 0 = Inr z"
  shows "\<exists>qs. dc_published (feed_frame env sn now w raw dc) = dc_published dc @ map (\<lambda>q. PubData (QuoteData q)) qs \<and>
     list_all2 (\<lambda>t q. make_price ins (bid t) = Inr (qt_bid_price q) \<and> make_price ins (ask t) = Inr (qt_ask_price q) \<and>
         qt_ts_event q = time_msc t * 1000000 \<and> qt_ts_event q \<le> qt_ts_init q \<and> now \<le> qt_ts_init q) (new_ticks g b) qs"
proof -
  obtain h out where d: "dedup_ticks b (gw_handler g) = (h, out)" by fastforce
  then have new: "new_ticks g b = out" by (simp add: new_ticks_def)
  show ?thesis
  proof (cases out)
    case Nil
    then have "gw_handle_raw raw g = Inr (g\<lparr>gw_handler := h\<rparr>)"
      using gw_handle_raw_silent [OF assms(2)] d by simp
    then show ?thesis using assms(1) new Nil by (intro exI [of _ "[]"]) (simp add: feed_frame_def Let_def)
  next
    case (Cons t ts)
    let ?b = "b\<lparr>tb_ticks := out\<rparr>"
    have m: "handle_message (TickBatchMessage b) (gw_handler g) = (h, Some (TickBatchMessage ?b))"
      using d Cons by (cases b) simp
    then have raw: "gw_handle_raw raw g = Inr (g\<lparr>gw_handler := h, events := events g @ [TickBatchMessage ?b]\<rparr>)"
      using gw_handle_raw_event [OF assms(2)] by simp
    have out: "out = filter (tick_passes (feed_state (gw_handler g) (tb_symbol b))) (tb_ticks b)"
      using dedup_ticks_spec(1) [OF d] Cons by (auto split: if_splits)
    have conv: "\<exists>q. wire_tick_to_quote_tick ins x now = Inr (Some q)" if x: "x \<in> set out" for x
    proof -
      have "\<not> bid x \<le> 0" "\<not> ask x \<le> 0" using x out by (auto simp: tick_passes_def)
      moreover obtain p q where "make_price ins (bid x) = Inr p" "make_price ins (ask x) = Inr q"
        using assms(4) x out by auto
      ultimately show ?thesis using assms(5) by (simp add: wire_tick_to_quote_tick_def Let_def)
    qed
    define dc1 where "dc1 = dc\<lparr>dc_gateway := Some (g\<lparr>gw_handler := h, events := events g @ [TickBatchMessage ?b]\<rparr>)\<rparr>"
    obtain qs where qs: "publish_ticks ins now out dc1 =
          (dc1\<lparr>dc_published := dc_published dc1 @ map (\<lambda>q. PubData (QuoteData q)) qs\<rparr>, Inr ())"
        "list_all2 (\<lambda>t q. wire_tick_to_quote_tick ins t now = Inr (Some q)) out qs"
      using publish_ticks_all [of out ins now dc1] conv by blast
    have "dc_published (feed_frame env sn now w raw dc) = dc_published dc @ map (\<lambda>q. PubData (QuoteData q)) qs"
      using assms(1,3) raw qs(1)
      by (simp add: feed_frame_def Let_def handle_feed_event_def handle_feed_ticks_def dc1_def)
    moreover have "list_all2 (\<lambda>t q. make_price ins (bid t) = Inr (qt_bid_price q) \<and> make_price ins (ask t) = Inr (qt_ask_price q) \<and>
         qt_ts_event q = time_msc t * 1000000 \<and> qt_ts_event q \<le> qt_ts_init q \<and> now \<le> qt_ts_init q) out qs"
      using qs(2) by (rule list_all2_mono) (use wire_tick_to_quote_tick_Some in blast)
    ultimately show ?thesis using new by blast
  qed
qed

definition tick_frame :: raw_frame where
  "tick_frame = RStr (dq ''{~op~:~ticks~,~symbol~:~EURUSD~,~cursor~:5,~data~:[{~time_msc~:5,~bid~:Infinity,~ask~:Infinity}]}'')"

definition frame_tick :: wire_tick where
  "frame_tick = \<lparr>time_msc = 5, bid = PosInf, ask = PosInf, tlast = 0, volume = 0, flags = 0\<rparr>"

definition frame_batch :: tick_batch where
  "frame_batch = \<lparr>tb_symbol = ''EURUSD'', tb_cursor = 5, tb_ticks = [frame_tick]\<rparr>"

lemma tick_frame_parse: "parse_wire_message tick_frame = Inr (TickBatchMessage frame_batch)"
  by code_simp

lemma wanting_handler: "gw_handler connected_gateway = feed_handler_init"
  by (simp add: connected_gateway_def gateway_init_def)

lemma frame_batch_new: "new_ticks connected_gateway frame_batch = [frame_tick]"
  by (simp add: new_ticks_def wanting_handler dedup_ticks_def state_for_def feed_handler_init_def symbol_feed_init_def
      frame_batch_def frame_tick_def zero_pyfloat_def Let_def)

lemma feed_ticks_become_quotes_witness:
  "\<exists>q. dc_published (feed_frame data_example id 3 1 tick_frame wanting_client) = [PubData (QuoteData q)] \<and>
       qt_ts_event q = 5000000 \<and> qt_bid_price q = PosInf"
proof -
  have gw: "dc_gateway wanting_client = Some connected_gateway" "dc_published wanting_client = []"
    by (simp_all add: wanting_client_def data_client_init_def)
  have ins: "cached data_example \<lparr>iid_symbol = tb_symbol frame_batch, iid_venue = ''METATRADER_5''\<rparr> =
      Some (example_instrument \<lparr>iid_symbol = ''EURUSD'', iid_venue = ''METATRADER_5''\<rparr>)"
    by (simp add: cached_def data_example_def md_example_def frame_batch_def)
  obtain qs where qs: "dc_published (feed_frame data_example id 3 1 tick_frame wanting_client) = map (\<lambda>q. PubData (QuoteData q)) qs"
      "list_all2 (\<lambda>t q. make_price (example_instrument eurusd) (bid t) = Inr (qt_bid_price q) \<and>
           qt_ts_event q = time_msc t * 1000000) [frame_tick] qs"
    using feed_ticks_become_quotes [OF gw(1) tick_frame_parse ins, where z = 0 and sn = id and now = 3 and w = 1]
    by (auto simp: gw(2) frame_batch_new example_instrument_def list_all2_Cons1)
  then show ?thesis by (auto simp: list_all2_Cons1 example_instrument_def frame_tick_def)
qed

lemma publish_ticks_refused:
  assumes "t \<in> set ts" and "wire_tick_to_quote_tick ins t now = Inl e"
  shows "\<exists>dc' e'. publish_ticks ins now ts dc = (dc', Inl e') \<and> dc_gateway dc' = dc_gateway dc"
  using assms(1)
proof (induction ts arbitrary: dc)
  case (Cons x ts)
  show ?case
  proof (cases "wire_tick_to_quote_tick ins x now")
    case (Inr r)
    then have "t \<in> set ts" using Cons.prems assms(2) by auto
    from Cons.IH [OF this, of dc] Cons.IH [OF this, of "dc_publish (PubData (QuoteData (the r))) dc"] show ?thesis
      using Inr by (cases r) (auto simp: dc_publish_def)
  qed simp
qed simp

text \<open>
  A tick whose price the platform refuses costs the connection: the exception of its conversion
  leaves the callback and ends the loop that reads the feed service's frames, so that the service is
  no longer connected, whatever else the batch held.
\<close>

theorem refused_tick_ends_connection:
  assumes "dc_gateway dc = Some g" and "parse_wire_message raw = Inr (TickBatchMessage b)"
    and "cached env \<lparr>iid_symbol = tb_symbol b, iid_venue = ''METATRADER_5''\<rparr> = Some ins"
    and "t \<in> set (new_ticks g b)" and "make_price ins (bid t) = Inl e"
  shows "\<exists>g'. dc_gateway (feed_frame env sn now w raw dc) = Some g' \<and> w \<notin> ws_open g' \<and> w \<notin> serving g' \<and>
           service_ws g' \<noteq> Some w"
proof -
  obtain h out where d: "dedup_ticks b (gw_handler g) = (h, out)" by fastforce
  then have t: "t \<in> set out" using assms(4) by (simp add: new_ticks_def)
  let ?b = "b\<lparr>tb_ticks := out\<rparr>"
  obtain u us where out: "out = u # us" using t by (cases out) auto
  then have m: "handle_message (TickBatchMessage b) (gw_handler g) = (h, Some (TickBatchMessage ?b))"
    using d by (cases b) simp
  define g1 where "g1 = g\<lparr>gw_handler := h, events := events g @ [TickBatchMessage ?b]\<rparr>"
  have raw: "gw_handle_raw raw g = Inr g1" using gw_handle_raw_event [OF assms(2) m] by (simp add: g1_def)
  have "out = filter (tick_passes (feed_state (gw_handler g) (tb_symbol b))) (tb_ticks b)"
    using dedup_ticks_spec(1) [OF d] out by (auto split: if_splits)
  then have "\<not> bid t \<le> 0" "\<not> ask t \<le> 0" using t by (auto simp: tick_passes_def)
  then have "wire_tick_to_quote_tick ins t now = Inl e"
    using assms(5) by (simp add: wire_tick_to_quote_tick_def Let_def)
  then obtain dc' e' where p: "publish_ticks ins now out (dc\<lparr>dc_gateway := Some g1\<rparr>) = (dc', Inl e')"
      "dc_gateway dc' = Some g1"
    using publish_ticks_refused [OF t, of ins now e "dc\<lparr>dc_gateway := Some g1\<rparr>"] by auto
  have "feed_frame env sn now w raw dc = end_connection w dc'"
    using assms(1,3) raw p(1)
    by (simp add: feed_frame_def Let_def handle_feed_event_def handle_feed_ticks_def g1_def)
  then show ?thesis using p(2) by (simp add: end_connection_def gw_disconnect_def)
qed

definition refusing_env :: "(pyfloat, int) data_env" where
  "refusing_env = data_example\<lparr>de_md := md_example\<lparr>me_instrument := (\<lambda>i. Some
     (example_instrument i\<lparr>make_price := (\<lambda>_. Inl (ValueError []))\<rparr>))\<rparr>\<rparr>"

lemma refused_tick_ends_connection_witness:
  "\<exists>g'. dc_gateway (feed_frame refusing_env id 3 1 tick_frame wanting_client) = Some g' \<and> service_ws g' \<noteq> Some 1"
proof -
  have gw: "dc_gateway wanting_client = Some connected_gateway" by (simp add: wanting_client_def)
  have ins: "cached refusing_env \<lparr>iid_symbol = tb_symbol frame_batch, iid_venue = ''METATRADER_5''\<rparr> =
      Some (example_instrument \<lparr>iid_symbol = ''EURUSD'', iid_venue = ''METATRADER_5''\<rparr>\<lparr>make_price := (\<lambda>_. Inl (ValueError []))\<rparr>)"
    by (simp add: cached_def refusing_env_def frame_batch_def)
  show ?thesis
    using refused_tick_ends_connection [OF gw tick_frame_parse ins, of frame_tick "ValueError []" id 3 1] frame_batch_new by auto
qed

section \<open>Steps of the data client\<close>

text \<open>
  The steps: the client's own operations, with any answer of what they call, the frames of the feed
  service, and what happens to its connections. The bars and symbols that are wanted and the bar types
  kept for them go together; the handler's sets are finite; what the feed has given the platform is
  timed; and the gateway keeps its own invariant.
\<close>

inductive dc_step :: "data_config \<Rightarrow> ('p, 'q) data_client \<Rightarrow> ('p, 'q) data_client \<Rightarrow> bool" for cfg where
  connect: "dc_step cfg dc (fst (data_connect cfg conn loaded dc))"
| started: "dc_step cfg dc (fst (finish_start_feed dc))"
| restart: "dc_step cfg dc (restart_feed_gateway cfg dc)"
| disconnect: "dc_step cfg dc (fst (data_disconnect cfg running dc))"
| connection: "dc_gateway dc = Some g \<Longrightarrow> gw_step g e g' \<Longrightarrow> e \<in> {Connect w rp, Disconnect w, LeaveOpen w} \<Longrightarrow>
    dc_step cfg dc (dc\<lparr>dc_gateway := Some g'\<rparr>)"
| frame: "dc_step cfg dc (feed_frame env sn now w raw dc)"
| subscribe_quotes: "dc_step cfg dc (fst (subscribe_quote_ticks cfg env br iid dc))"
| subscribe_trades: "dc_step cfg dc (fst (subscribe_trade_ticks cfg env br iid dc))"
| subscribe_bars: "dc_step cfg dc (fst (subscribe_bars cfg env bt dc))"
| unsubscribe_quotes: "dc_step cfg dc (fst (unsubscribe_quote_ticks cfg env br iid dc))"
| unsubscribe_trades: "dc_step cfg dc (fst (unsubscribe_trade_ticks br iid dc))"
| unsubscribe_bars: "dc_step cfg dc (fst (unsubscribe_bars cfg env bt dc))"

inductive dc_reachable :: "data_config \<Rightarrow> ('p, 'q) data_client \<Rightarrow> bool" for cfg where
  init: "dc_reachable cfg data_client_init"
| step: "dc_reachable cfg dc \<Longrightarrow> dc_step cfg dc dc' \<Longrightarrow> dc_reachable cfg dc'"

fun timed :: "('p, 'q) publication \<Rightarrow> bool" where
  "timed (PubData (QuoteData q)) \<longleftrightarrow> qt_ts_event q \<le> qt_ts_init q"
| "timed (PubData (NBarData b)) \<longleftrightarrow> nb_ts_event b \<le> nb_ts_init b \<and> \<not> nb_is_revision b"
| "timed _ \<longleftrightarrow> True"

definition handler_ok :: "feed_handler \<Rightarrow> bool" where
  "handler_ok h \<longleftrightarrow>
     finite (pending_subscribe (subscription_state h)) \<and> finite (pending_bar_subscribe (subscription_state h)) \<and>
     (\<forall>(s, tf) \<in> pending_bar_subscribe (subscription_state h). tf \<noteq> []) \<and> marks_ok (subscription_state h)"

definition dc_inv :: "data_config \<Rightarrow> ('p, 'q) data_client \<Rightarrow> bool" where
  "dc_inv cfg dc \<longleftrightarrow>
     finite (dc_pending_symbols dc) \<and> set (dict_keys (dc_bar_types dc)) = dc_pending_bars dc \<and>
     (\<forall>(s, tf) \<in> dc_pending_bars dc. tf \<noteq> []) \<and> (\<forall>x \<in> set (dc_published dc). timed x) \<and>
     (\<forall>h. dc_handler dc = Some h \<longrightarrow> handler_ok h) \<and>
     (\<forall>g. dc_gateway dc = Some g \<longrightarrow> handler_ok (gw_handler g) \<and> gw_inv (fc_path (dcf_feed cfg)) g)"

lemma handler_ok_init: "handler_ok feed_handler_init"
  by (simp add: handler_ok_def feed_handler_init_def subscription_state_init_def marks_ok_def)

lemma handler_ok_marks:
  assumes "handler_ok (gw_handler g)"
  shows "handler_ok (gw_handler (on_subscriptions (mark_subscribe ks) g))"
    "handler_ok (gw_handler (on_subscriptions (mark_unsubscribe ks) g))"
    "tf \<noteq> [] \<Longrightarrow> handler_ok (gw_handler (on_subscriptions (mark_subscribe_bars ks tf) g))"
    "handler_ok (gw_handler (on_subscriptions (mark_unsubscribe_bars ks tf) g))"
  using assms marks_ok_ops [of "subscription_state (gw_handler g)"]
  by (auto simp: handler_ok_def on_subscriptions_def mark_subscribe_fields mark_unsubscribe_fields
      mark_subscribe_bars_def mark_unsubscribe_bars_def mark_bars_fields unmark_bars_fields upper_def)

lemma gw_send_handler: "gw_send p g = Inr g' \<Longrightarrow> gw_handler g' = gw_handler g"
  by (auto simp: gw_send_def split: option.splits if_splits)

text \<open>What the client does to its gateway keeps the gateway's invariant and the handler.\<close>

definition keeps_gateway :: "string \<Rightarrow> (gateway \<Rightarrow> gateway result) \<Rightarrow> bool" where
  "keeps_gateway path f \<longleftrightarrow>
     (\<forall>g g'. f g = Inr g' \<longrightarrow> gw_inv path g \<longrightarrow> handler_ok (gw_handler g) \<longrightarrow> gw_inv path g' \<and> handler_ok (gw_handler g'))"

lemma keeps_gatewayI:
  assumes "\<And>g g'. f g = Inr g' \<Longrightarrow> \<exists>e. gw_step g e g'"
    and "\<And>g g'. f g = Inr g' \<Longrightarrow> handler_ok (gw_handler g) \<Longrightarrow> handler_ok (gw_handler g')"
  shows "keeps_gateway path f"
  unfolding keeps_gateway_def using assms gw_inv_step by blast

lemma keeps_gateway_calls:
  "keeps_gateway path (gw_subscribe ks)" "keeps_gateway path (gw_unsubscribe ks)"
  "keeps_gateway path (gw_subscribe_bars ks tf)" "keeps_gateway path (gw_unsubscribe_bars ks tf)"
proof -
  show "keeps_gateway path (gw_subscribe ks)"
    by (rule keeps_gatewayI, rule exI, erule gw_step.subscribe)
       (use handler_ok_marks(1) in \<open>auto simp: gw_subscribe_def Let_def dest: gw_send_handler split: if_splits\<close>)
  show "keeps_gateway path (gw_unsubscribe ks)"
    by (rule keeps_gatewayI, rule exI, erule gw_step.unsubscribe)
       (use handler_ok_marks(2) in \<open>auto simp: gw_unsubscribe_def Let_def dest: gw_send_handler split: if_splits\<close>)
  show "keeps_gateway path (gw_subscribe_bars ks tf)"
    by (rule keeps_gatewayI, rule exI, erule gw_step.subscribe_bars)
       (use handler_ok_marks(3) in \<open>auto simp: gw_subscribe_bars_def Let_def dest: gw_send_handler split: if_splits\<close>)
  show "keeps_gateway path (gw_unsubscribe_bars ks tf)"
    by (rule keeps_gatewayI, rule exI, erule gw_step.unsubscribe_bars)
       (use handler_ok_marks(4) in \<open>auto simp: gw_unsubscribe_bars_def Let_def dest: gw_send_handler split: if_splits\<close>)
qed

lemma on_gateway_inv:
  assumes "dc_inv cfg dc" and "keeps_gateway (fc_path (dcf_feed cfg)) f"
  shows "dc_inv cfg (fst (on_gateway f dc))"
proof (cases "dc_gateway dc")
  case (Some g)
  show ?thesis
  proof (cases "f g")
    case (Inr g')
    then have "gw_inv (fc_path (dcf_feed cfg)) g' \<and> handler_ok (gw_handler g')"
      using assms Some by (auto simp: dc_inv_def keeps_gateway_def)
    then show ?thesis using assms(1) Some Inr by (simp add: on_gateway_def dc_inv_def)
  qed (use assms Some in \<open>simp add: on_gateway_def\<close>)
qed (use assms in \<open>simp add: on_gateway_def\<close>)

lemma then_step_inv:
  assumes "dc_inv cfg (fst r)" and "\<And>dc. dc_inv cfg dc \<Longrightarrow> dc_inv cfg (fst (f dc))"
  shows "dc_inv cfg (fst (then_step r f))"
  using assms by (cases r; cases "snd r") (simp_all add: then_step_def)

lemma subscribe_each_inv: "dc_inv cfg dc \<Longrightarrow> dc_inv cfg (fst (subscribe_each d dc))"
proof (induction d arbitrary: dc)
  case (Cons p d)
  obtain tf ks where p: "p = (tf, ks)" by (cases p)
  show ?case
    unfolding p subscribe_each.simps
    by (rule then_step_inv [OF on_gateway_inv [OF Cons.prems keeps_gateway_calls(3)] Cons.IH])
qed simp

lemma replay_inv:
  assumes "dc_inv cfg dc"
  shows "dc_inv cfg (fst (replay_pending_quote_subscriptions dc))" "dc_inv cfg (fst (replay_pending_bar_subscriptions dc))"
proof -
  have "keeps_gateway (fc_path (dcf_feed cfg))
      (\<lambda>g. if wanted_symbols g dc \<noteq> [] then gw_subscribe (wanted_symbols g dc) g else Inr g)"
    using keeps_gateway_calls(1) [of "fc_path (dcf_feed cfg)"] by (auto simp: keeps_gateway_def)
  then show "dc_inv cfg (fst (replay_pending_quote_subscriptions dc))"
    unfolding replay_pending_quote_subscriptions_def by (rule on_gateway_inv [OF assms])
  show "dc_inv cfg (fst (replay_pending_bar_subscriptions dc))"
    using assms subscribe_each_inv [OF assms]
    by (simp add: replay_pending_bar_subscriptions_def split: option.split)
qed

lemma dc_publish_inv: "dc_inv cfg dc \<Longrightarrow> timed x \<Longrightarrow> dc_inv cfg (dc_publish x dc)"
  by (auto simp: dc_inv_def dc_publish_def)

lemma publish_ticks_inv: "dc_inv cfg dc \<Longrightarrow> dc_inv cfg (fst (publish_ticks ins now ts dc))"
proof (induction ts arbitrary: dc)
  case (Cons t ts)
  show ?case
  proof (cases "wire_tick_to_quote_tick ins t now")
    case (Inr r)
    show ?thesis
    proof (cases r)
      case (Some q)
      have "timed (PubData (QuoteData q))" using wire_tick_to_quote_tick_Some [OF Inr [unfolded Some]] by simp
      then show ?thesis using Cons.IH [OF dc_publish_inv [OF Cons.prems]] Inr Some by simp
    qed (use Cons Inr in simp)
  qed (use Cons in simp)
qed simp

lemma wire_bar_timed:
  "wire_bar_to_nautilus_bar sn ins bt wire now = Inr (Some b) \<Longrightarrow> nb_ts_event b \<le> nb_ts_init b \<and> \<not> nb_is_revision b"
  by (auto simp: wire_bar_to_nautilus_bar_def Let_def bindR_eq_Inr split: if_splits)

lemma handle_feed_event_inv:
  assumes "dc_inv cfg dc"
  shows "dc_inv cfg (fst (handle_feed_event env sn now event dc))"
proof (cases event)
  case (HelloMessage h)
  then show ?thesis
    using assms replay_inv by (auto simp: handle_feed_event_def intro!: then_step_inv)
next
  case (TickBatchMessage b)
  then show ?thesis
    using assms publish_ticks_inv [OF assms]
    by (cases "cached env \<lparr>iid_symbol = tb_symbol b, iid_venue = ''METATRADER_5''\<rparr>")
       (simp_all add: handle_feed_event_def handle_feed_ticks_def)
next
  case (BarMessage b)
  show ?thesis
  proof (cases "\<exists>bt ins x. dict_get (dc_bar_types dc) (wb_symbol b, upper (wb_timeframe b)) = Some bt \<and>
      cached env (bt_instrument_id bt) = Some ins \<and> wire_bar_to_nautilus_bar sn ins bt b now = Inr (Some x)")
    case True
    then obtain bt ins x where x: "dict_get (dc_bar_types dc) (wb_symbol b, upper (wb_timeframe b)) = Some bt"
        "cached env (bt_instrument_id bt) = Some ins" "wire_bar_to_nautilus_bar sn ins bt b now = Inr (Some x)" by blast
    then have "fst (handle_feed_event env sn now event dc) = dc_publish (PubData (NBarData x)) dc"
      using BarMessage by (simp add: handle_feed_event_def handle_feed_bar_def)
    then show ?thesis using dc_publish_inv [OF assms] wire_bar_timed [OF x(3)] by simp
  next
    case False
    then have "fst (handle_feed_event env sn now event dc) = dc"
      using BarMessage by (auto simp: handle_feed_event_def handle_feed_bar_def split: option.splits sum.splits)
    then show ?thesis using assms by simp
  qed
qed (use assms in \<open>simp_all add: handle_feed_event_def\<close>)

lemma handle_message_handler_ok:
  assumes "handle_message m h = (h', e)" and "handler_ok h"
  shows "handler_ok h'"
proof (cases m)
  case (HelloMessage x)
  then show ?thesis using assms marks_ok_ops(5) [of "subscription_state h" x] by (auto simp: handler_ok_def apply_hello_def)
next
  case (TickBatchMessage b)
  obtain h1 out where d: "dedup_ticks b h = (h1, out)" by fastforce
  then have "subscription_state h' = subscription_state h"
    using assms(1) TickBatchMessage dedup_ticks_spec(4) [OF d] by (cases out) auto
  then show ?thesis using assms(2) by (simp add: handler_ok_def)
next
  case (BarMessage b)
  then have "subscription_state h' = subscription_state h"
    using assms(1) by (auto split: prod.splits dest: dedup_bar_spec(4))
  then show ?thesis using assms(2) by (simp add: handler_ok_def)
qed (use assms in auto)

lemma gw_handle_raw_inv:
  assumes "gw_handle_raw raw g = Inr g1" and "gw_inv path g" and "handler_ok (gw_handler g)"
  shows "gw_inv path g1 \<and> handler_ok (gw_handler g1)"
proof -
  have "gw_inv path g1" using gw_inv_frame [OF assms(2), of _ raw] assms(1) by (simp add: gw_frame_def)
  moreover have "handler_ok (gw_handler g1)"
  proof (cases "parse_wire_message raw")
    case (Inl e)
    then show ?thesis using assms by (auto simp: gw_handle_raw_def split: if_splits)
  next
    case (Inr m)
    obtain h e where m: "handle_message m (gw_handler g) = (h, e)" by fastforce
    then have "gw_handler g1 = h"
      using assms(1) Inr by (cases e) (auto simp: gw_handle_raw_def Let_def split: wire_inbound.splits)
    then show ?thesis using handle_message_handler_ok [OF m assms(3)] by simp
  qed
  ultimately show ?thesis ..
qed

lemma end_connection_inv: "dc_inv cfg dc \<Longrightarrow> dc_inv cfg (end_connection w dc)"
  using gw_inv_disconnect by (auto simp: dc_inv_def end_connection_def) (auto simp: gw_disconnect_def)

lemma feed_frame_inv:
  assumes "dc_inv cfg dc"
  shows "dc_inv cfg (feed_frame env sn now w raw dc)"
proof (cases "dc_gateway dc")
  case (Some g)
  show ?thesis
  proof (cases "gw_handle_raw raw g")
    case (Inl e)
    then show ?thesis using Some end_connection_inv [OF assms] by (simp add: feed_frame_def)
  next
    case (Inr g1)
    let ?dc1 = "dc\<lparr>dc_gateway := Some g1\<rparr>"
    have inv1: "dc_inv cfg ?dc1"
      using assms Some gw_handle_raw_inv [OF Inr, of "fc_path (dcf_feed cfg)"] by (simp add: dc_inv_def)
    let ?r = "handle_feed_event env sn now (last (events g1)) ?dc1"
    have inv2: "dc_inv cfg (fst ?r)" by (rule handle_feed_event_inv [OF inv1])
    show ?thesis
      using Some Inr inv1 inv2 end_connection_inv [OF inv2]
      by (cases ?r; cases "snd ?r") (simp_all add: feed_frame_def Let_def)
  qed
qed (use assms in \<open>simp add: feed_frame_def\<close>)

lemma stop_feed_inv: "dc_inv cfg dc \<Longrightarrow> dc_inv cfg (stop_feed dc)"
  by (auto simp: dc_inv_def stop_feed_def split: option.split)

lemma begin_start_feed_inv:
  assumes "dc_inv cfg dc"
  shows "dc_inv cfg (begin_start_feed cfg dc)"
proof -
  let ?h = "case current_handler dc of Some h \<Rightarrow> h | None \<Rightarrow> feed_handler_init"
    and ?path = "fc_path (dcf_feed cfg)"
  have h: "handler_ok ?h"
    using assms handler_ok_init by (auto simp: current_handler_def dc_inv_def split: option.split)
  then have "gw_inv ?path ((gateway_init ?path)\<lparr>gw_handler := ?h\<rparr>)"
    using gw_inv_init [of ?path] by (simp add: gw_inv_def handler_ok_def)
  then have "gw_inv ?path (gw_start ((gateway_init ?path)\<lparr>gw_handler := ?h\<rparr>))" by (rule gw_inv_start_stop)
  moreover have "handler_ok (gw_handler (gw_start ((gateway_init ?path)\<lparr>gw_handler := ?h\<rparr>)))"
    using h by (simp add: gw_start_def)
  ultimately show ?thesis
    using assms h unfolding begin_start_feed_def Let_def dc_inv_def by simp
qed

lemma finish_start_feed_inv:
  assumes "dc_inv cfg dc"
  shows "dc_inv cfg (fst (finish_start_feed dc))"
proof (cases "dc_gateway dc")
  case (Some g)
  have stopped: "handler_ok (gw_handler (gw_stop g))"
    using assms Some by (auto simp: dc_inv_def gw_stop_def Let_def split: option.split)
  show ?thesis
  proof (cases "wait_for_hello g")
    case (Inl e)
    then show ?thesis using assms stopped Some by (simp add: finish_start_feed_def) (auto simp: dc_inv_def)
  next
    case (Inr h)
    then show ?thesis
      using Some then_step_inv [OF replay_inv(1) [OF assms] replay_inv(2)] by (simp add: finish_start_feed_def)
  qed
qed (use assms in \<open>simp add: finish_start_feed_def\<close>)

lemma publish_instruments_inv: "dc_inv cfg dc \<Longrightarrow> dc_inv cfg (fold (\<lambda>i. dc_publish (PubInstrument i)) iids dc)"
  by (induction iids arbitrary: dc) (simp_all add: dc_publish_inv)

lemma data_connect_inv:
  assumes "dc_inv cfg dc"
  shows "dc_inv cfg (fst (data_connect cfg conn loaded dc))"
proof -
  let ?dc1 = "dc\<lparr>dc_registered := insert (dcf_id cfg) (dc_registered dc)\<rparr>"
  have inv1: "dc_inv cfg ?dc1" using assms by (simp add: dc_inv_def)
  show ?thesis
  proof (cases "dcf_profile cfg = None")
    case False
    show ?thesis
    proof (cases conn)
      case (Inr u)
      show ?thesis
      proof (cases loaded)
        case (Inr iids)
        let ?dc2 = "fold (\<lambda>i. dc_publish (PubInstrument i)) iids ?dc1"
        have "fst (data_connect cfg conn loaded dc) =
            (if fc_enabled (dcf_feed cfg) then begin_start_feed cfg ?dc2 else ?dc2)"
          using False \<open>conn = Inr u\<close> Inr by (auto simp: data_connect_def Let_def)
        then show ?thesis
          using publish_instruments_inv [OF inv1, of iids] begin_start_feed_inv [of cfg ?dc2] by (cases "fc_enabled (dcf_feed cfg)") simp_all
      qed (use False inv1 \<open>conn = Inr u\<close> in \<open>auto simp: data_connect_def Let_def\<close>)
    qed (use False assms in \<open>simp add: data_connect_def\<close>)
  qed (use assms in \<open>simp add: data_connect_def\<close>)
qed

lemma data_disconnect_inv: "dc_inv cfg dc \<Longrightarrow> dc_inv cfg (fst (data_disconnect cfg running dc))"
  using stop_feed_inv [of cfg "dc\<lparr>dc_registered := dc_registered dc - {dcf_id cfg}\<rparr>"]
  by (simp add: data_disconnect_def Let_def) (simp add: dc_inv_def)

lemma on_market_inv: "dc_inv cfg dc \<Longrightarrow> dc_inv cfg (fst (on_market f dc))"
  by (simp add: on_market_def dc_inv_def split: prod.split)

lemma wire_timeframe_nonempty: "bar_spec_to_wire_timeframe bs = Inr tf \<Longrightarrow> tf \<noteq> []"
  by (auto simp: bar_spec_to_wire_timeframe_def Let_def split: option.splits if_splits)

lemma quote_subscription_inv:
  assumes "dc_inv cfg dc"
  shows "dc_inv cfg (fst (subscribe_quote_ticks cfg env br iid dc))"
    "dc_inv cfg (fst (unsubscribe_quote_ticks cfg env br iid dc))"
proof -
  have "dc_inv cfg (dc\<lparr>dc_pending_symbols := insert s (dc_pending_symbols dc)\<rparr>)"
    "dc_inv cfg (dc\<lparr>dc_pending_symbols := dc_pending_symbols dc - {s}\<rparr>)" for s
    using assms by (simp_all add: dc_inv_def)
  note pending = this on_gateway_inv [OF this(1) keeps_gateway_calls(1)] on_gateway_inv [OF this(2) keeps_gateway_calls(2)]
  show "dc_inv cfg (fst (subscribe_quote_ticks cfg env br iid dc))"
    using pending assms on_market_inv [OF assms]
    by (cases "cached env iid") (auto simp: subscribe_quote_ticks_def client_subscribe_def Let_def)
  show "dc_inv cfg (fst (unsubscribe_quote_ticks cfg env br iid dc))"
    using pending assms on_market_inv [OF assms]
    by (cases "cached env iid") (auto simp: unsubscribe_quote_ticks_def client_unsubscribe_def Let_def)
qed

lemma trade_subscription_inv:
  assumes "dc_inv cfg dc"
  shows "dc_inv cfg (fst (subscribe_trade_ticks cfg env br iid dc))"
    "dc_inv cfg (fst (unsubscribe_trade_ticks br iid dc))"
  using assms on_market_inv [OF assms]
  by (auto simp: subscribe_trade_ticks_def unsubscribe_trade_ticks_def client_subscribe_def
      client_unsubscribe_def split: option.split sum.split bool.split)

lemma bar_subscription_inv:
  assumes "dc_inv cfg dc"
  shows "dc_inv cfg (fst (subscribe_bars cfg env bt dc))" "dc_inv cfg (fst (unsubscribe_bars cfg env bt dc))"
proof -
  let ?s = "mt5_symbol_from_instrument env (bt_instrument_id bt)"
  have add: "dc_inv cfg (dc\<lparr>dc_pending_bars := insert (?s, tf) (dc_pending_bars dc),
      dc_bar_types := dict_set (?s, tf) bt (dc_bar_types dc)\<rparr>)" if "tf \<noteq> []" for tf
    using assms that by (auto simp: dc_inv_def dict_simps simp del: set_map)
  have rem: "dc_inv cfg (dc\<lparr>dc_pending_bars := dc_pending_bars dc - {(?s, tf)},
      dc_bar_types := dict_pop (?s, tf) (dc_bar_types dc)\<rparr>)" for tf
    using assms by (auto simp: dc_inv_def dict_simps simp del: set_map)
  show "dc_inv cfg (fst (subscribe_bars cfg env bt dc))"
    using assms on_gateway_inv [OF add keeps_gateway_calls(3)] wire_timeframe_nonempty
    by (simp add: subscribe_bars_def Let_def split: option.split sum.split)
  show "dc_inv cfg (fst (unsubscribe_bars cfg env bt dc))"
    using assms on_gateway_inv [OF rem keeps_gateway_calls(4)]
    by (simp add: unsubscribe_bars_def Let_def split: option.split sum.split)
qed

lemma dc_inv_init: "dc_inv cfg data_client_init"
  by (simp add: dc_inv_def data_client_init_def)

lemma connection_handler: "gw_step g e g' \<Longrightarrow> e \<in> {Connect w rp, Disconnect w, LeaveOpen w} \<Longrightarrow> gw_handler g' = gw_handler g"
  by (induction rule: gw_step.induct) (auto simp: gw_connect_def gw_disconnect_def Let_def split: option.split)

lemma dc_inv_step: "dc_step cfg dc dc' \<Longrightarrow> dc_inv cfg dc \<Longrightarrow> dc_inv cfg dc'"
proof (induction rule: dc_step.induct)
  case (connection dc g e g' w rp)
  then show ?case using gw_inv_step [OF connection(2)] connection_handler [OF connection(2,3)] by (simp add: dc_inv_def)
next
  case (restart dc)
  then show ?case using begin_start_feed_inv [OF stop_feed_inv] by (simp add: restart_feed_gateway_def)
qed (fact data_connect_inv finish_start_feed_inv data_disconnect_inv feed_frame_inv quote_subscription_inv
      trade_subscription_inv bar_subscription_inv)+

lemma dc_reachable_inv: "dc_reachable cfg dc \<Longrightarrow> dc_inv cfg dc"
  by (induction rule: dc_reachable.induct) (simp_all add: dc_inv_init dc_inv_step)

text \<open>
  C1: in every state the data client can reach: the bar types it keeps are those of exactly the bars
  that are wanted, each under a timeframe; the sets a hello is answered from are finite; every quote and
  bar handed on from the feed has an initialization time that is not before its event, and no bar is a
  revision; and its gateway has at most one open connection that is served.
\<close>

theorem data_client_invariant:
  assumes "dc_reachable cfg dc"
  shows "set (dict_keys (dc_bar_types dc)) = dc_pending_bars dc \<and> finite (dc_pending_symbols dc) \<and>
    (\<forall>(s, tf) \<in> dc_pending_bars dc. tf \<noteq> []) \<and>
    (\<forall>q. PubData (QuoteData q) \<in> set (dc_published dc) \<longrightarrow> qt_ts_event q \<le> qt_ts_init q) \<and>
    (\<forall>b. PubData (NBarData b) \<in> set (dc_published dc) \<longrightarrow> nb_ts_event b \<le> nb_ts_init b \<and> \<not> nb_is_revision b) \<and>
    (\<forall>g. dc_gateway dc = Some g \<longrightarrow>
       finite (pending_subscribe (subscription_state (gw_handler g))) \<and>
       finite (pending_bar_subscribe (subscription_state (gw_handler g))) \<and>
       card (serving g \<inter> ws_open g) \<le> 1)"
proof -
  have inv: "dc_inv cfg dc" using assms by (rule dc_reachable_inv)
  have "card (serving g \<inter> ws_open g) \<le> 1" if "dc_gateway dc = Some g" for g
  proof -
    have "serving g \<inter> ws_open g \<subseteq> set_option (service_ws g)" using inv that by (simp add: dc_inv_def gw_inv_def)
    then have "card (serving g \<inter> ws_open g) \<le> card (set_option (service_ws g))" by (intro card_mono) simp_all
    also have "\<dots> \<le> 1" by (cases "service_ws g") auto
    finally show ?thesis .
  qed
  then show ?thesis using inv by (fastforce simp: dc_inv_def handler_ok_def)
qed

definition feed_cfg :: data_config where
  "feed_cfg = \<lparr>dcf_id = ''MT5'', dcf_feed = feed_config_default\<lparr>fc_enabled := True\<rparr>,
               dcf_profile = Some tickmill_demo_profile, dcf_ignore_size = False\<rparr>"

definition bar_client :: "(pyfloat, int) data_client" where
  "bar_client = fst (subscribe_bars feed_cfg data_example minute_bars
     (fst (data_connect feed_cfg (Inr ()) (Inr [eurusd]) data_client_init)))"

lemma data_client_invariant_witness:
  "dc_reachable feed_cfg bar_client \<and> dc_pending_bars bar_client = {(''EURUSD'', ''M1'')} \<and>
   set (dict_keys (dc_bar_types bar_client)) = {(''EURUSD'', ''M1'')} \<and> dc_gateway bar_client \<noteq> None"
proof -
  have r: "dc_reachable feed_cfg bar_client"
    unfolding bar_client_def
    by (rule dc_reachable.step [OF dc_reachable.step [OF dc_reachable.init dc_step.connect] dc_step.subscribe_bars])
  have "dc_pending_bars bar_client = {(''EURUSD'', ''M1'')} \<and> dc_gateway bar_client \<noteq> None"
    by (simp add: bar_client_def subscribe_bars_def data_connect_def Let_def feed_cfg_def feed_config_default_def
        cached_def data_example_def md_example_def minute_bars_def eurusd_def mt5_symbol_from_instrument_def
        mt5_symbol_of_def bar_spec_to_wire_timeframe_def begin_start_feed_def on_gateway_def dc_publish_def
        data_client_init_def gw_subscribe_bars_def gw_start_def gateway_init_def is_service_connected_def
        on_subscriptions_def)
  then show ?thesis using r data_client_invariant [OF r] by auto
qed

text \<open>The subscriptions of a client whose gateway runs, and what a hello will be answered with.\<close>

lemma gw_subscribe_wanted:
  "gw_subscribe ks g = Inr g' \<Longrightarrow> pending_subscribe (subscription_state (gw_handler g')) =
     pending_subscribe (subscription_state (gw_handler g)) \<union> set ks"
  by (auto simp: gw_subscribe_def Let_def mark_subscribe_fields dest!: gw_send_handler split: if_splits)

lemma gw_unsubscribe_wanted:
  "gw_unsubscribe ks g = Inr g' \<Longrightarrow> pending_subscribe (subscription_state (gw_handler g')) =
     pending_subscribe (subscription_state (gw_handler g)) - set ks"
  by (auto simp: gw_unsubscribe_def Let_def mark_unsubscribe_fields dest!: gw_send_handler split: if_splits)

lemma on_gateway_ok:
  "on_gateway f dc = (dc', Inr ()) \<Longrightarrow> dc_gateway dc = Some g \<Longrightarrow> \<exists>g'. f g = Inr g' \<and> dc' = dc\<lparr>dc_gateway := Some g'\<rparr>"
  by (auto simp: on_gateway_def split: sum.splits)

lemma set_wanted_symbols:
  assumes "dc_reachable cfg dc" and "dc_gateway dc = Some g"
  shows "finite (dc_pending_symbols dc \<union> pending_subscribe (subscription_state (gw_handler g)))"
    and "set (wanted_symbols g dc) = dc_pending_symbols dc \<union> pending_subscribe (subscription_state (gw_handler g))"
proof -
  show fin: "finite (dc_pending_symbols dc \<union> pending_subscribe (subscription_state (gw_handler g)))"
    using dc_reachable_inv [OF assms(1)] assms(2) by (simp add: dc_inv_def handler_ok_def)
  show "set (wanted_symbols g dc) = dc_pending_symbols dc \<union> pending_subscribe (subscription_state (gw_handler g))"
    unfolding wanted_symbols_def by (rule set_sorted_list_of_set [OF fin])
qed

text \<open>
  A symbol is wanted from its subscription to its cancellation: after a subscription to quotes it
  is among the symbols a hello is answered with, after the cancellation it is not, and the symbols of
  other instruments are wanted exactly as before.
\<close>

theorem quotes_wanted_until_cancelled:
  assumes "dc_reachable cfg dc" and "fc_enabled (dcf_feed cfg)" and "dc_gateway dc = Some g"
    and "cached env iid = Some ins" and "de_symbol env iid = Some s"
    and "subscribe_quote_ticks cfg env br iid dc = (dc1, Inr ())"
    and "unsubscribe_quote_ticks cfg env br iid dc1 = (dc2, Inr ())"
  shows "\<exists>g1 g2. dc_gateway dc1 = Some g1 \<and> dc_gateway dc2 = Some g2 \<and>
    set (wanted_symbols g1 dc1) = insert (sym_symbol s) (set (wanted_symbols g dc)) \<and>
    set (wanted_symbols g2 dc2) = set (wanted_symbols g dc) - {sym_symbol s}"
proof -
  let ?k = "sym_symbol s"
  obtain g1 where g1: "gw_subscribe [?k] g = Inr g1"
      "dc1 = dc\<lparr>dc_pending_symbols := insert ?k (dc_pending_symbols dc), dc_gateway := Some g1\<rparr>"
    using on_gateway_ok [of "gw_subscribe [?k]" "dc\<lparr>dc_pending_symbols := insert ?k (dc_pending_symbols dc)\<rparr>" dc1 g] assms
    by (auto simp: subscribe_quote_ticks_def)
  obtain g2 where g2: "gw_unsubscribe [?k] g1 = Inr g2"
      "dc2 = dc1\<lparr>dc_pending_symbols := dc_pending_symbols dc1 - {?k}, dc_gateway := Some g2\<rparr>"
    using on_gateway_ok [of "gw_unsubscribe [?k]" "dc1\<lparr>dc_pending_symbols := dc_pending_symbols dc1 - {?k}\<rparr>" dc2 g1] assms g1(2)
    by (auto simp: unsubscribe_quote_ticks_def mt5_symbol_from_instrument_def Let_def)
  have r1: "dc_reachable cfg dc1" and r2: "dc_reachable cfg dc2"
    using assms dc_reachable.step dc_step.subscribe_quotes dc_step.unsubscribe_quotes by (metis fst_conv)+
  have e1: "dc_gateway dc1 = Some g1" "dc_pending_symbols dc1 = insert ?k (dc_pending_symbols dc)"
    and e2: "dc_gateway dc2 = Some g2" "dc_pending_symbols dc2 = dc_pending_symbols dc1 - {?k}"
    using g1(2) g2(2) by simp_all
  note w = set_wanted_symbols(2)
  have "set (wanted_symbols g1 dc1) = insert ?k (set (wanted_symbols g dc))"
    using w [OF r1 e1(1)] w [OF assms(1,3)] e1(2) gw_subscribe_wanted [OF g1(1)] by simp
  moreover have "set (wanted_symbols g2 dc2) = set (wanted_symbols g dc) - {?k}"
    using w [OF r2 e2(1)] w [OF assms(1,3)] e1(2) e2(2) gw_subscribe_wanted [OF g1(1)] gw_unsubscribe_wanted [OF g2(1)]
    by auto
  ultimately show ?thesis using e1(1) e2(1) by blast
qed

definition silent_bridge :: bridge_ticks where
  "silent_bridge = \<lparr>br_has_poll = True, br_has_cancel = False, br_subscribe = (\<lambda>_. Inr ()), br_cancel = (\<lambda>_. Inr ())\<rparr>"

definition quoting_client :: "(pyfloat, int) data_client" where
  "quoting_client = fst (data_connect feed_cfg (Inr ()) (Inr [eurusd]) data_client_init)"

definition quoted_client :: "(pyfloat, int) data_client" where
  "quoted_client = fst (subscribe_quote_ticks feed_cfg data_example silent_bridge eurusd quoting_client)"

definition cancelled_client :: "(pyfloat, int) data_client" where
  "cancelled_client = fst (unsubscribe_quote_ticks feed_cfg data_example silent_bridge eurusd quoted_client)"

lemma quotes_wanted_until_cancelled_witness:
  "\<exists>g1 g2. dc_gateway quoted_client = Some g1 \<and> dc_gateway cancelled_client = Some g2 \<and>
     set (wanted_symbols g1 quoted_client) = {''EURUSD''} \<and> set (wanted_symbols g2 cancelled_client) = {}"
proof -
  note d = quoting_client_def quoted_client_def cancelled_client_def subscribe_quote_ticks_def unsubscribe_quote_ticks_def
    data_connect_def Let_def feed_cfg_def feed_config_default_def
    cached_def data_example_def md_example_def eurusd_def mt5_symbol_from_instrument_def
    mt5_symbol_of_def begin_start_feed_def on_gateway_def dc_publish_def
    data_client_init_def gw_subscribe_def gw_unsubscribe_def gw_start_def gateway_init_def is_service_connected_def
    on_subscriptions_def
  have r: "dc_reachable feed_cfg quoting_client"
    unfolding quoting_client_def by (rule dc_reachable.step [OF dc_reachable.init dc_step.connect])
  obtain g where g: "dc_gateway quoting_client = Some g" by (simp add: d)
  have s: "subscribe_quote_ticks feed_cfg data_example silent_bridge eurusd quoting_client = (quoted_client, Inr ())"
    by (simp add: d)
  have u: "unsubscribe_quote_ticks feed_cfg data_example silent_bridge eurusd quoted_client = (cancelled_client, Inr ())"
    by (simp add: d)
  have w: "set (wanted_symbols g quoting_client) = {}"
    using g by (auto simp: d current_handler_def wanted_symbols_def feed_handler_init_def subscription_state_init_def)
  have f: "fc_enabled (dcf_feed feed_cfg)" "cached data_example eurusd = Some (example_instrument eurusd)"
    "de_symbol data_example eurusd = Some (mt5_symbol_of ''EURUSD'')"
    by (simp_all add: feed_cfg_def cached_def data_example_def md_example_def eurusd_def)
  show ?thesis
    using quotes_wanted_until_cancelled [OF r f(1) g f(2,3) s u] w by (auto simp: mt5_symbol_of_def)
qed

end
