(* ===== verification/EA_Client.thy ===== *)
theory EA_Client
  imports Py_Json
begin

text \<open>
  The client of the expert adviser (\<^verbatim>\<open>metatrader5/ea_sockets.py\<close>, \<^verbatim>\<open>metatrader5/ea_client.py\<close> and the
  error table of \<^verbatim>\<open>metatrader5/errors.py\<close>): the text messages with carets between their parts, the
  socket exchange that reads at most 1024 bytes, the check of an answer, and one definition per
  request. The other end of the socket is the parameter \<open>link\<close>: for the text written, the bytes its
  first read finds or the text of the exception. The encoding is UTF-8, the default of
  \<^verbatim>\<open>EAConnectionConfig\<close>, and a text is kept as its bytes. The prints of the debug mode are left out.
\<close>

section \<open>The table of errors\<close>

definition EA_ERROR_DICT :: "(string, string) dict" where
  "EA_ERROR_DICT =
    [(''00001'', ''Undefined check connection error''),
     (''00101'', ''IP address error''),
     (''00102'', ''Port number error''),
     (''00103'', ''Connection error with license EA''),
     (''00104'', ''Undefined answer from license EA''),
     (''00301'', ''Unknown instrument for broker''),
     (''00302'', ''Instrument not in demo''),
     (''00304'', ''Unknown instrument for broker''),
     (''00401'', ''Instrument not in demo''),
     (''00402'', ''Instrument not exists for broker''),
     (''00501'', ''No instrument defined/configured''),
     (''01101'', ''Undefined check terminal connection error''),
     (''01201'', ''Undefined check MT type error''),
     (''02001'', ''Instrument not in demo''),
     (''02002'', ''Unknown instrument for broker''),
     (''02003'', ''Unknown instrument for broker''),
     (''02004'', ''Time out error''),
     (''04101'', ''Instrument not in demo''),
     (''04102'', ''Wrong/unknown time frame''),
     (''04103'', ''No records''),
     (''04104'', ''Undefined error''),
     (''04105'', ''Unknown instrument for broker''),
     (''04201'', ''Instrument not in demo''),
     (''04202'', ''Wrong/unknown time frame''),
     (''04204'', ''Unknown instrument for broker''),
     (''04501'', ''Instrument not in demo''),
     (''04502'', ''Wrong/unknown time frame''),
     (''04503'', ''No records''),
     (''04504'', ''Missing market instrument''),
     (''06201'', ''Wrong time window''),
     (''06401'', ''Wrong time window''),
     (''07001'', ''Trading not allowed, check MT terminal settings''),
     (''07002'', ''Instrument not in demo''),
     (''07003'', ''Instrument not in market watch''),
     (''07004'', ''Instrument not known at broker''),
     (''07005'', ''Unknown order type''),
     (''07006'', ''Wrong SL value''),
     (''07007'', ''Wrong TP value''),
     (''07008'', ''Wrong volume value''),
     (''07009'', ''Error opening / placing order''),
     (''07101'', ''Trading not allowed''),
     (''07102'', ''Position not found/error''),
     (''07201'', ''Trading not allowed''),
     (''07202'', ''Position not found/error''),
     (''07203'', ''Wrong volume''),
     (''07204'', ''Error in partial close''),
     (''07301'', ''Trading not allowed''),
     (''07302'', ''Error in delete''),
     (''07401'', ''Trading not allowed, check MT terminal settings''),
     (''07402'', ''Error check number''),
     (''07403'', ''Position does not exist''),
     (''07404'', ''Opposite position does not exist''),
     (''07405'', ''Both position of same type''),
     (''07501'', ''Trading not allowed''),
     (''07502'', ''Position not open''),
     (''07503'', ''Error in modify''),
     (''07601'', ''Trading not allowed''),
     (''07602'', ''Position not open''),
     (''07603'', ''Error in modify''),
     (''07701'', ''Trading not allowed''),
     (''07702'', ''Position not open''),
     (''07703'', ''Error in modify''),
     (''07801'', ''Trading not allowed''),
     (''07802'', ''Position not open''),
     (''07803'', ''Error in modify''),
     (''07901'', ''Trading not allowed''),
     (''07902'', ''Instrument not in demo''),
     (''07903'', ''Order does not exist''),
     (''07904'', ''Wrong order type''),
     (''07905'', ''Wrong price''),
     (''07906'', ''Wrong TP value''),
     (''07907'', ''Wrong SL value''),
     (''07908'', ''Check error code''),
     (''07909'', ''Something wrong''),
     (''08101'', ''Unknown global variable''),
     (''08201'', ''Log file not existing''),
     (''08202'', ''Log file empty''),
     (''08203'', ''Error in reading log file''),
     (''08204'', ''Function not implemented''),
     (''09101'', ''Trading not allowed''),
     (''09102'', ''Unknown instrument for broker''),
     (''09103'', ''Function not implemented''),
     (''99900'', ''Wrong authorizaton code''),
     (''99901'', ''Undefined error''),
     (''99999'', ''Dummy'')]"

definition ea_error :: "string \<Rightarrow> string" where
  "ea_error code = (case dict_get EA_ERROR_DICT code of Some t \<Rightarrow> t | None \<Rightarrow> [])"

text \<open>Both codes the client looks up are in the table, so that no look-up raises.\<close>

lemma ea_error_known:
  "dict_get EA_ERROR_DICT ''99900'' = Some (ea_error ''99900'')"
  "dict_get EA_ERROR_DICT ''00001'' = Some (ea_error ''00001'')"
  by (simp_all add: ea_error_def EA_ERROR_DICT_def)

lemma ea_error_texts [simp]:
  "ea_error ''99900'' = ''Wrong authorizaton code''"
  "ea_error ''00001'' = ''Undefined check connection error''"
  by (simp_all add: ea_error_def EA_ERROR_DICT_def)

section \<open>Messages\<close>

definition caret :: char where
  "caret = CHR ''^''"

definition make_message :: "string \<Rightarrow> string \<Rightarrow> string list \<Rightarrow> string" where
  "make_message command sub_command parameters =
     command @ ''^'' @ sub_command @ ''^'' @ join ''^'' parameters"

record ea_response =
  rs_command :: string
  rs_sub_command :: string
  rs_data :: "string list"

text \<open>The dictionary with an error text is the left side.\<close>

definition parse_response_message :: "string \<Rightarrow> string + ea_response" where
  "parse_response_message message =
     (let parts = split_on caret message
      in case parts of
           command # sub_command # rest \<Rightarrow>
             (if length parts < 3 then Inl ''Invalid format. Expected at least three parts separated by '^'.''
              else
                let data = filter (\<lambda>d. d \<noteq> []) rest
                in if [] \<in> set data then Inl ''Invalid format. Hidden '^' delimiters detected in data.''
                   else Inr \<lparr>rs_command = command, rs_sub_command = sub_command, rs_data = data\<rparr>)
         | _ \<Rightarrow> Inl ''Invalid format. Expected at least three parts separated by '^'.'')"

text \<open>
  \<^verbatim>\<open>send_message\<close>: every exception of the exchange becomes an answer that starts with \<^verbatim>\<open>Error: \<close>.
\<close>

type_synonym ea_link = "string \<Rightarrow> string + string"

definition send_message :: "ea_link \<Rightarrow> string \<Rightarrow> string" where
  "send_message link message =
     (case link message of
        Inl e \<Rightarrow> ''Error: '' @ e
      | Inr received \<Rightarrow>
          (case utf8_decode (take 1024 received) of
             Inr response \<Rightarrow> response
           | Inl (ValueError e) \<Rightarrow> ''Error: '' @ e
           | Inl _ \<Rightarrow> ''Error: ''))"

section \<open>The state of the client and its exchange\<close>

text \<open>\<^verbatim>\<open>timeout\<close> is an attribute only the first answer creates; \<open>ea_sent\<close> lists what was written.\<close>

record ea =
  ea_return_error :: string
  ea_ok :: bool
  ea_id :: int
  ea_timeout :: "bool option"
  ea_sent :: "string list"

definition ea_init :: ea where
  "ea_init = \<lparr>ea_return_error = [], ea_ok = False, ea_id = 1, ea_timeout = None, ea_sent = []\<rparr>"

definition process_response :: "string \<Rightarrow> string \<Rightarrow> ea \<Rightarrow> ea \<times> ea_response option" where
  "process_response response expected_code ea =
     (let refused = ea\<lparr>ea_timeout := Some True, ea_return_error := ea_error ''99900'', ea_ok := False\<rparr>
      in case parse_response_message response of
           Inl _ \<Rightarrow> (refused, None)
         | Inr parsed \<Rightarrow>
             if rs_command parsed \<noteq> expected_code then (refused, None)
             else (ea\<lparr>ea_timeout := Some False, ea_ok := True\<rparr>, Some parsed))"

text \<open>
  The body every request shares. The value for no answer is a parameter, as is the reading of the
  data; an exception of the reading is raised again under the text of the request.
\<close>

definition ea_call ::
    "ea_link \<Rightarrow> string \<Rightarrow> string \<Rightarrow> string list \<Rightarrow> 'a \<Rightarrow> (string list \<Rightarrow> 'a result) \<Rightarrow> ea \<Rightarrow> ea \<times> 'a result" where
  "ea_call link code sub_command parameters none read ea =
     (let message = make_message code sub_command parameters;
          ea1 = ea\<lparr>ea_return_error := [], ea_sent := ea_sent ea @ [message]\<rparr>;
          response = send_message link message
      in if response = [] then (ea1\<lparr>ea_ok := False\<rparr>, Inr none)
         else (case process_response response code ea1 of
                 (ea2, None) \<Rightarrow> (ea2, Inr none)
               | (ea2, Some parsed) \<Rightarrow>
                   (case read (rs_data parsed) of
                      Inr x \<Rightarrow> (ea2, Inr x)
                    | Inl _ \<Rightarrow> (ea2\<lparr>ea_return_error := ea_error ''00001'', ea_ok := False\<rparr>, Inl GenericException))))"

section \<open>Reading the data of an answer\<close>

definition item :: "string list \<Rightarrow> nat \<Rightarrow> string result" where
  "item data i = (if i < length data then Inr (data ! i) else Inl IndexError)"

text \<open>The dictionaries of the answers: a key, the conversion of its value and the index it reads.\<close>

datatype field = Text | Whole | Decimal

fun convert_field :: "field \<Rightarrow> string \<Rightarrow> json result" where
  "convert_field Text s = Inr (JStr s)"
| "convert_field Whole s = bindR (int_of_str s) (\<lambda>i. Inr (JInt i))"
| "convert_field Decimal s = bindR (float_of_str s) (\<lambda>x. Inr (JFloat x))"

type_synonym layout = "(string \<times> field \<times> nat) list"

definition read_entry :: "string list \<Rightarrow> string \<times> field \<times> nat \<Rightarrow> (string \<times> json) result" where
  "read_entry data e =
     (case e of (k, f, i) \<Rightarrow> bindR (item data i) (\<lambda>s. bindR (convert_field f s) (\<lambda>v. Inr (k, v))))"

definition read_dict :: "layout \<Rightarrow> string list \<Rightarrow> (string, json) dict result" where
  "read_dict l data = traverse (read_entry data) l"

definition read_rows :: "layout \<Rightarrow> string list \<Rightarrow> (string, json) dict list result" where
  "read_rows l data = traverse (\<lambda>row. read_dict l (split_on (CHR ''$'') row)) data"

definition ea_flag :: "ea_link \<Rightarrow> string \<Rightarrow> string \<Rightarrow> string list \<Rightarrow> ea \<Rightarrow> ea \<times> bool result" where
  "ea_flag link code sub_command parameters = ea_call link code sub_command parameters False (\<lambda>_. Inr True)"

definition ea_optional ::
    "ea_link \<Rightarrow> string \<Rightarrow> string \<Rightarrow> string list \<Rightarrow> (string list \<Rightarrow> 'a result) \<Rightarrow> ea \<Rightarrow> ea \<times> 'a option result" where
  "ea_optional link code sub_command parameters read =
     ea_call link code sub_command parameters None (\<lambda>data. bindR (read data) (\<lambda>x. Inr (Some x)))"

section \<open>Times\<close>

record date_time =
  dt_year :: int
  dt_month :: nat
  dt_day :: nat
  dt_hour :: nat
  dt_minute :: nat
  dt_second :: nat

definition two :: "nat \<Rightarrow> string" where
  "two n = pad_left 2 (nat_str n)"

text \<open>\<^verbatim>\<open>strftime('%Y-%m-%d %H:%M:%S')\<close> and \<^verbatim>\<open>strftime('%Y/%m/%d/%H/%M/%S')\<close>.\<close>

definition dash_text :: "date_time \<Rightarrow> string" where
  "dash_text t = int_str (dt_year t) @ ''-'' @ two (dt_month t) @ ''-'' @ two (dt_day t) @ '' '' @
     two (dt_hour t) @ '':'' @ two (dt_minute t) @ '':'' @ two (dt_second t)"

definition slash_text :: "date_time \<Rightarrow> string" where
  "slash_text t = int_str (dt_year t) @ ''/'' @ two (dt_month t) @ ''/'' @ two (dt_day t) @ ''/'' @
     two (dt_hour t) @ ''/'' @ two (dt_minute t) @ ''/'' @ two (dt_second t)"

definition bool_str :: "bool \<Rightarrow> string" where
  "bool_str b = (if b then ''True'' else ''False'')"

section \<open>Requests for accounts, ticks and instruments\<close>

definition check_connection :: "ea_link \<Rightarrow> ea \<Rightarrow> ea \<times> bool result" where
  "check_connection link = ea_flag link ''F000'' ''1'' []"

definition static_account_info_layout :: layout where
  "static_account_info_layout =
     [(''name'', Text, 0), (''login'', Text, 1), (''currency'', Text, 2), (''type'', Text, 3),
       (''leverage'', Text, 4), (''trade_allowed'', Text, 5), (''limit_orders'', Text, 6),
       (''margin_call'', Text, 7), (''margin_close'', Text, 8), (''company'', Text, 9)]"

definition get_static_account_info ::
    "ea_link \<Rightarrow> ea \<Rightarrow> ea \<times> (string, json) dict option result" where
  "get_static_account_info link = ea_optional link ''F001'' ''1'' [] (read_dict static_account_info_layout)"

definition dynamic_account_info_layout :: layout where
  "dynamic_account_info_layout =
     [(''balance'', Text, 0), (''equity'', Text, 1), (''profit'', Text, 2), (''margin'', Text, 3),
       (''margin_level'', Text, 4), (''margin_free'', Text, 5)]"

definition get_dynamic_account_info ::
    "ea_link \<Rightarrow> ea \<Rightarrow> ea \<times> (string, json) dict option result" where
  "get_dynamic_account_info link = ea_optional link ''F002'' ''1'' [] (read_dict dynamic_account_info_layout)"

definition last_tick_layout :: layout where
  "last_tick_layout =
     [(''bid'', Decimal, 1), (''ask'', Decimal, 2), (''last'', Decimal, 3), (''volume'', Whole, 4),
       (''spread'', Decimal, 5), (''date_in_ms'', Whole, 6)]"

text \<open>The first value of the data is a time, which is written in the local time zone.\<close>

definition get_last_tick_info ::
    "ea_link \<Rightarrow> (int \<Rightarrow> date_time result) \<Rightarrow> string \<Rightarrow> ea \<Rightarrow> ea \<times> (string, json) dict option result" where
  "get_last_tick_info link local_time instrument_name =
     ea_optional link ''F020'' ''2'' [instrument_name]
       (\<lambda>data. bindR (item data 0) (\<lambda>s. bindR (int_of_str s) (\<lambda>i. bindR (local_time i) (\<lambda>t.
          bindR (read_dict last_tick_layout data) (\<lambda>d.
            Inr ((''instrument'', JStr instrument_name) # (''date'', JStr (dash_text t)) # d))))))"

definition get_broker_server_time ::
    "ea_link \<Rightarrow> (int \<Rightarrow> date_time result) \<Rightarrow> ea \<Rightarrow> ea \<times> (string, int) dict option result" where
  "get_broker_server_time link local_time =
     ea_optional link ''F005'' ''1'' []
       (\<lambda>data. bindR (item data 0) (\<lambda>s. bindR (int_of_str s) (\<lambda>i. bindR (local_time i) (\<lambda>t.
          Inr [(''year'', dt_year t), (''month'', int (dt_month t)), (''day'', int (dt_day t)),
               (''hour'', int (dt_hour t)), (''minute'', int (dt_minute t)), (''second'', int (dt_second t))]))))"

definition instrument_info_layout :: layout where
  "instrument_info_layout =
     [(''digits'', Whole, 0), (''max_lotsize'', Decimal, 1), (''min_lotsize'', Decimal, 2),
       (''lot_step'', Decimal, 3), (''point'', Decimal, 4), (''tick_size'', Decimal, 5),
       (''tick_value'', Decimal, 6), (''swap_long'', Decimal, 7), (''swap_short'', Decimal, 8),
       (''stop_level'', Whole, 9), (''contract_size'', Decimal, 10)]"

definition get_instrument_info ::
    "ea_link \<Rightarrow> string \<Rightarrow> ea \<Rightarrow> ea \<times> (string, json) dict option result" where
  "get_instrument_info link instrument_name =
     ea_optional link ''F003'' ''2'' [instrument_name]
       (\<lambda>data. bindR (read_dict instrument_info_layout data)
                  (\<lambda>d. Inr ((''instrument'', JStr instrument_name) # d)))"

definition check_terminal_server_connection ::
    "ea_link \<Rightarrow> ea \<Rightarrow> ea \<times> bool result" where
  "check_terminal_server_connection link =
     ea_call link ''F011'' ''1'' [] False
       (\<lambda>data. bindR (item data 0) (\<lambda>s. Inr (s = ''1'')))"

definition check_terminal_type ::
    "ea_link \<Rightarrow> ea \<Rightarrow> ea \<times> string option result" where
  "check_terminal_type link =
     ea_optional link ''F012'' ''1'' []
       (\<lambda>data. bindR (item data 0) (\<lambda>s. Inr (if s = ''1'' then ''MT4'' else ''MT5'')))"

definition check_license :: "ea_link \<Rightarrow> ea \<Rightarrow> ea \<times> string option result" where
  "check_license link = ea_optional link ''F006'' ''1'' [] (\<lambda>data. item data 2)"

definition check_trading_allowed ::
    "ea_link \<Rightarrow> string \<Rightarrow> ea \<Rightarrow> ea \<times> bool result" where
  "check_trading_allowed link instrument_name =
     ea_call link ''F008'' ''2'' [instrument_name] False
       (\<lambda>data. bindR (item data 1) (\<lambda>s. Inr (s = ''OK'')))"

definition get_instruments ::
    "ea_link \<Rightarrow> ea \<Rightarrow> ea \<times> string list option result" where
  "get_instruments link = ea_optional link ''F007'' ''2'' [] (\<lambda>data. Inr (drop 1 data))"

section \<open>Requests for series\<close>

definition ticks_from_now_layout :: layout where
  "ticks_from_now_layout =
     [(''date'', Whole, 0), (''ask'', Decimal, 1), (''bid'', Decimal, 2), (''last'', Decimal, 3),
       (''volume'', Whole, 4)]"

definition get_last_x_ticks_from_now ::
    "ea_link \<Rightarrow> string \<Rightarrow> int \<Rightarrow> ea \<Rightarrow> ea \<times> (string, json) dict list option result" where
  "get_last_x_ticks_from_now link instrument_name nbrofticks =
     ea_optional link ''F021'' ''4'' [instrument_name, int_str nbrofticks]
       (read_rows ticks_from_now_layout)"

definition actual_bar_info_layout :: layout where
  "actual_bar_info_layout =
     [(''date'', Whole, 0), (''open'', Decimal, 1), (''high'', Decimal, 2), (''low'', Decimal, 3),
       (''close'', Decimal, 4), (''volume'', Whole, 5)]"

definition get_actual_bar_info ::
    "ea_link \<Rightarrow> string \<Rightarrow> int \<Rightarrow> ea \<Rightarrow> ea \<times> (string, json) dict option result" where
  "get_actual_bar_info link instrument_name timeframe =
     ea_optional link ''F041'' ''3'' [instrument_name, int_str timeframe]
       (\<lambda>data. bindR (read_dict actual_bar_info_layout data)
                  (\<lambda>d. Inr ((''instrument'', JStr instrument_name) # d)))"

definition specific_bar_layout :: layout where
  "specific_bar_layout =
     [(''instrument'', Text, 0), (''date'', Whole, 1), (''open'', Decimal, 2), (''high'', Decimal, 3),
       (''low'', Decimal, 4), (''close'', Decimal, 5), (''volume'', Whole, 6)]"

definition get_specific_bar ::
    "ea_link \<Rightarrow> string list \<Rightarrow> int \<Rightarrow> int \<Rightarrow> ea \<Rightarrow> ea \<times> (string, json) dict list option result" where
  "get_specific_bar link instrument_list specific_bar_index timeframe =
     ea_optional link ''F045'' ''3'' [join ''$'' instrument_list, int_str specific_bar_index, int_str timeframe]
       (read_rows specific_bar_layout)"

definition bars_from_now_layout :: layout where
  "bars_from_now_layout =
     [(''date'', Whole, 0), (''open'', Decimal, 1), (''high'', Decimal, 2), (''low'', Decimal, 3),
       (''close'', Decimal, 4), (''volume'', Whole, 5)]"

definition get_last_x_bars_from_now ::
    "ea_link \<Rightarrow> string \<Rightarrow> int \<Rightarrow> int \<Rightarrow> ea \<Rightarrow> ea \<times> (string, json) dict list option result" where
  "get_last_x_bars_from_now link instrument_name timeframe nbrofbars =
     ea_optional link ''F042'' ''5'' [instrument_name, int_str timeframe, ''0'', int_str nbrofbars]
       (read_rows bars_from_now_layout)"

section \<open>Requests for positions and orders\<close>

text \<open>
  The layouts are those the client reads; the rows the adviser writes for open positions are in the theory
  \<open>EA_Adviser\<close>.
\<close>

definition all_open_positions_layout :: layout where
  "all_open_positions_layout =
     [(''ticket'', Whole, 0), (''instrument'', Text, 1), (''order_ticket'', Whole, 2),
       (''position_type'', Text, 3), (''magic_number'', Whole, 4), (''volume'', Decimal, 5),
       (''open_price'', Decimal, 6), (''open_time'', Whole, 7), (''stop_loss'', Decimal, 8),
       (''take_profit'', Decimal, 9), (''comment'', Text, 10), (''profit'', Decimal, 11),
       (''swap'', Decimal, 12), (''commission'', Decimal, 13)]"

definition get_all_open_positions ::
    "ea_link \<Rightarrow> ea \<Rightarrow> ea \<times> (string, json) dict list option result" where
  "get_all_open_positions link =
     ea_optional link ''F061'' ''1'' []
       (read_rows all_open_positions_layout)"

definition all_closed_positions_layout :: layout where
  "all_closed_positions_layout =
     [(''ticket'', Whole, 0), (''instrument'', Text, 1), (''order_ticket'', Whole, 2),
       (''position_type'', Text, 3), (''magic_number'', Whole, 4), (''volume'', Decimal, 5),
       (''open_price'', Decimal, 6), (''open_time'', Whole, 7), (''stop_loss'', Decimal, 8),
       (''take_profit'', Decimal, 9), (''close_price'', Decimal, 10), (''close_time'', Whole, 11),
       (''comment'', Text, 12), (''profit'', Decimal, 13), (''swap'', Decimal, 14),
       (''commission'', Decimal, 15)]"

definition get_all_closed_positions ::
    "ea_link \<Rightarrow> ea \<Rightarrow> ea \<times> (string, json) dict list option result" where
  "get_all_closed_positions link =
     ea_optional link ''F063'' ''1'' []
       (read_rows all_closed_positions_layout)"

definition all_deleted_orders_layout :: layout where
  "all_deleted_orders_layout =
     [(''ticket'', Whole, 0), (''instrument'', Text, 1), (''order_type'', Text, 2),
       (''magic_number'', Whole, 3), (''volume'', Decimal, 4), (''open_price'', Decimal, 5),
       (''open_time'', Whole, 6), (''stop_loss'', Decimal, 7), (''take_profit'', Decimal, 8),
       (''delete_price'', Decimal, 9), (''delete_time'', Whole, 10), (''comment'', Text, 11)]"

definition get_all_deleted_orders ::
    "ea_link \<Rightarrow> ea \<Rightarrow> ea \<times> (string, json) dict list option result" where
  "get_all_deleted_orders link =
     ea_optional link ''F065'' ''1'' []
       (read_rows all_deleted_orders_layout)"

section \<open>Requests that trade\<close>

definition open_order ::
    "ea_link \<Rightarrow> string \<Rightarrow> string \<Rightarrow> pyfloat \<Rightarrow> pyfloat \<Rightarrow> int \<Rightarrow> int \<Rightarrow> pyfloat \<Rightarrow> pyfloat \<Rightarrow> string \<Rightarrow> bool \<Rightarrow> ea \<Rightarrow> ea \<times> int option result" where
  "open_order link instrument_name order_type volume open_price slippage magic_number stop_loss take_profit comment market =
     ea_optional link ''F070'' ''9'' [instrument_name, order_type, float_repr volume, float_repr open_price, int_str slippage,
        int_str magic_number, float_repr stop_loss, float_repr take_profit, comment, bool_str market]
       (\<lambda>data. bindR (item data 0) int_of_str)"

definition close_position_by_ticket ::
    "ea_link \<Rightarrow> int \<Rightarrow> ea \<Rightarrow> ea \<times> bool result" where
  "close_position_by_ticket link ticket = ea_flag link ''F071'' ''2'' [int_str ticket]"

definition close_position_partial_by_ticket ::
    "ea_link \<Rightarrow> int \<Rightarrow> pyfloat \<Rightarrow> ea \<Rightarrow> ea \<times> bool result" where
  "close_position_partial_by_ticket link ticket volume_to_close = ea_flag link ''F072'' ''3'' [int_str ticket, float_repr volume_to_close]"

definition delete_order_by_ticket ::
    "ea_link \<Rightarrow> int \<Rightarrow> ea \<Rightarrow> ea \<times> bool result" where
  "delete_order_by_ticket link ticket = ea_flag link ''F073'' ''2'' [int_str ticket]"

section \<open>Pending orders and windows of history\<close>

definition all_pending_orders_layout :: layout where
  "all_pending_orders_layout =
     [(''ticket'', Whole, 0), (''instrument'', Text, 1), (''order_type'', Text, 2),
       (''magic_number'', Whole, 3), (''volume'', Decimal, 4), (''open_price'', Decimal, 5),
       (''stop_loss'', Decimal, 6), (''take_profit'', Decimal, 7), (''comment'', Text, 8)]"

definition get_all_pending_orders ::
    "ea_link \<Rightarrow> ea \<Rightarrow> ea \<times> (string, json) dict list option result" where
  "get_all_pending_orders link =
     ea_optional link ''F060'' ''1'' []
       (read_rows all_pending_orders_layout)"

definition all_closed_positions_within_window_layout :: layout where
  "all_closed_positions_within_window_layout =
     [(''ticket'', Whole, 0), (''instrument'', Text, 1), (''order_type'', Text, 2),
       (''magic_number'', Whole, 3), (''volume'', Decimal, 4), (''open_price'', Decimal, 5),
       (''open_time'', Whole, 6), (''stop_loss'', Decimal, 7), (''take_profit'', Decimal, 8),
       (''close_price'', Decimal, 9), (''close_time'', Whole, 10), (''comment'', Text, 11),
       (''profit'', Decimal, 12), (''swap'', Decimal, 13), (''commission'', Decimal, 14)]"

definition get_all_closed_positions_within_window ::
    "ea_link \<Rightarrow> date_time \<Rightarrow> date_time \<Rightarrow> ea \<Rightarrow> ea \<times> (string, json) dict list option result" where
  "get_all_closed_positions_within_window link date_from date_to =
     ea_optional link ''F062'' ''3'' [slash_text date_from, slash_text date_to]
       (read_rows all_closed_positions_within_window_layout)"

definition all_deleted_pending_orders_within_window_layout :: layout where
  "all_deleted_pending_orders_within_window_layout =
     [(''ticket'', Whole, 0), (''instrument'', Text, 1), (''order_type'', Text, 2),
       (''magic_number'', Whole, 3), (''volume'', Decimal, 4), (''open_price'', Decimal, 5),
       (''open_time'', Whole, 6), (''stop_loss'', Decimal, 7), (''take_profit'', Decimal, 8),
       (''delete_price'', Decimal, 9), (''delete_time'', Whole, 10), (''comment'', Text, 11)]"

definition get_all_deleted_pending_orders_within_window ::
    "ea_link \<Rightarrow> date_time \<Rightarrow> date_time \<Rightarrow> ea \<Rightarrow> ea \<times> (string, json) dict list option result" where
  "get_all_deleted_pending_orders_within_window link date_from date_to =
     ea_optional link ''F064'' ''3'' [slash_text date_from, slash_text date_to]
       (read_rows all_deleted_pending_orders_within_window_layout)"

section \<open>Requests that change positions and orders\<close>

definition closeby_position_by_ticket ::
    "ea_link \<Rightarrow> int \<Rightarrow> int \<Rightarrow> ea \<Rightarrow> ea \<times> bool result" where
  "closeby_position_by_ticket link ticket opposite_ticket = ea_flag link ''F074'' ''3'' [int_str ticket, int_str opposite_ticket]"

definition close_positions_async ::
    "ea_link \<Rightarrow> string \<Rightarrow> int \<Rightarrow> ea \<Rightarrow> ea \<times> bool result" where
  "close_positions_async link instrument_name magic_number = ea_flag link ''F091'' ''3'' [instrument_name, int_str magic_number]"

definition set_sl_and_tp_for_position ::
    "ea_link \<Rightarrow> int \<Rightarrow> pyfloat \<Rightarrow> pyfloat \<Rightarrow> ea \<Rightarrow> ea \<times> bool result" where
  "set_sl_and_tp_for_position link ticket stop_loss take_profit = ea_flag link ''F075'' ''4'' [int_str ticket, float_repr stop_loss, float_repr take_profit]"

definition set_sl_and_tp_for_pending_order ::
    "ea_link \<Rightarrow> int \<Rightarrow> pyfloat \<Rightarrow> pyfloat \<Rightarrow> ea \<Rightarrow> ea \<times> bool result" where
  "set_sl_and_tp_for_pending_order link ticket stop_loss take_profit = ea_flag link ''F076'' ''4'' [int_str ticket, float_repr stop_loss, float_repr take_profit]"

definition reset_sl_and_tp_for_position ::
    "ea_link \<Rightarrow> int \<Rightarrow> ea \<Rightarrow> ea \<times> bool result" where
  "reset_sl_and_tp_for_position link ticket = ea_flag link ''F077'' ''2'' [int_str ticket]"

definition reset_sl_and_tp_for_pending_order ::
    "ea_link \<Rightarrow> int \<Rightarrow> ea \<Rightarrow> ea \<times> bool result" where
  "reset_sl_and_tp_for_pending_order link ticket = ea_flag link ''F078'' ''2'' [int_str ticket]"

definition change_settings_for_pending_order ::
    "ea_link \<Rightarrow> int \<Rightarrow> pyfloat \<Rightarrow> pyfloat \<Rightarrow> pyfloat \<Rightarrow> ea \<Rightarrow> ea \<times> bool result" where
  "change_settings_for_pending_order link ticket price stop_loss take_profit = ea_flag link ''F079'' ''5'' [int_str ticket, float_repr price, float_repr stop_loss, float_repr take_profit]"

section \<open>Requests for the terminal\<close>

definition set_global_variable ::
    "ea_link \<Rightarrow> string \<Rightarrow> pyfloat \<Rightarrow> ea \<Rightarrow> ea \<times> bool result" where
  "set_global_variable link global_name global_value = ea_flag link ''F080'' ''3'' [global_name, float_repr global_value]"

definition get_global_variable ::
    "ea_link \<Rightarrow> string \<Rightarrow> ea \<Rightarrow> ea \<times> pyfloat option result" where
  "get_global_variable link global_name =
     ea_optional link ''F081'' ''2'' [global_name]
       (\<lambda>data. bindR (item data 0) float_of_str)"

definition switch_auto_trading_on_off ::
    "ea_link \<Rightarrow> bool \<Rightarrow> ea \<Rightarrow> ea \<times> bool result" where
  "switch_auto_trading_on_off link on_off = ea_flag link ''F084'' ''2'' [if on_off then ''On'' else ''Off'']"

section \<open>The stream\<close>

text \<open>
  \<^verbatim>\<open>start_stream\<close>, \<^verbatim>\<open>stop_stream\<close> and the listening thread. The socket is \<open>None\<close> before the first
  start; \<open>Some True\<close> is an open one. \<open>connects\<close> says whether the server accepts.
\<close>

record ea_stream =
  es_socket :: "bool option"
  es_running :: bool
  es_threads :: nat

definition stream_init :: ea_stream where
  "stream_init = \<lparr>es_socket = None, es_running = False, es_threads = 0\<rparr>"

definition start_stream :: "bool \<Rightarrow> ea_stream \<Rightarrow> ea_stream" where
  "start_stream connects es =
     (let es1 = es\<lparr>es_socket := Some True\<rparr>
      in if connects then es1\<lparr>es_running := True, es_threads := es_threads es + 1\<rparr> else es1)"

definition stop_stream :: "ea_stream \<Rightarrow> ea_stream" where
  "stop_stream es =
     (let es1 = es\<lparr>es_running := False\<rparr>
      in case es_socket es of None \<Rightarrow> es1 | Some _ \<Rightarrow> es1\<lparr>es_socket := Some False\<rparr>)"

text \<open>
  The loop of the thread: \<open>running k\<close> is the flag at its \<open>k\<close>-th test and \<open>recv k\<close> what the socket then
  gives. The value is the list of texts given to the callback, once the loop has ended.
\<close>

fun listen_stream ::
    "(nat \<Rightarrow> string result) \<Rightarrow> (nat \<Rightarrow> bool) \<Rightarrow> (string \<Rightarrow> unit result) option \<Rightarrow> nat \<Rightarrow> nat \<Rightarrow> string list
       \<Rightarrow> string list option" where
  "listen_stream recv running callback 0 k out = None"
| "listen_stream recv running callback (Suc fuel) k out =
     (if \<not> running k then Some out
      else case recv k of
             Inl _ \<Rightarrow> Some out
           | Inr data \<Rightarrow>
               if data = [] then listen_stream recv running callback fuel (k + 1) out
               else (case utf8_decode data of
                       Inl _ \<Rightarrow> Some out
                     | Inr decoded \<Rightarrow>
                         (case callback of
                            None \<Rightarrow> listen_stream recv running callback fuel (k + 1) out
                          | Some f \<Rightarrow>
                              (case f decoded of
                                 Inl _ \<Rightarrow> Some (out @ [decoded])
                               | Inr _ \<Rightarrow> listen_stream recv running callback fuel (k + 1) (out @ [decoded])))))"

end
