(* ===== verification/EA_Facts.thy ===== *)
theory EA_Facts
  imports EA_Client
begin

text \<open>
  What the client of the expert adviser makes of the answers: messages read back, rows in the layout
  of the client read back when they fit into one read, the number of rows that can ever come, the silent cut of longer answers, and
  the report of a connection that fails.
\<close>

section \<open>Texts\<close>

lemma ascii_take: "ascii s \<Longrightarrow> ascii (take n s)"
  by (auto simp: ascii_def dest: in_set_takeD)

lemma length_join:
  "length (join sep ws) = sum_list (map length ws) + (length ws - 1) * length sep"
  by (induction sep ws rule: join.induct) (auto simp: algebra_simps)

lemma length_join_split_on: "sum_list (map length (split_on c s)) + (length (split_on c s) - 1) = length s"
  using length_join [of "[c]" "split_on c s"] by (simp add: join_split_on)

lemma split_on_message:
  assumes "caret \<notin> set c" and "caret \<notin> set s" and "\<forall>p \<in> set ps. caret \<notin> set p" and "ps \<noteq> []"
  shows "split_on caret (make_message c s ps) = c # s # ps"
  using assms split_on_join [of ps caret] by (simp add: make_message_def caret_def split_on_append_sep)

lemma parse_make_message:
  assumes "caret \<notin> set c" and "caret \<notin> set s" and "\<forall>p \<in> set ps. caret \<notin> set p"
  shows "parse_response_message (make_message c s ps) =
    Inr \<lparr>rs_command = c, rs_sub_command = s, rs_data = filter (\<lambda>p. p \<noteq> []) ps\<rparr>"
proof (cases "ps = []")
  case True
  then have "make_message c s ps = make_message c s [[]]" by (simp add: make_message_def)
  then show ?thesis using True split_on_message [of c s "[[]]"] assms(1,2)
    by (simp add: parse_response_message_def)
next
  case False
  then show ?thesis using split_on_message [OF assms(1-3)] by (cases ps) (auto simp: parse_response_message_def Let_def)
qed

lemma utf8_decode_ascii: "ascii s \<Longrightarrow> utf8_decode s = Inr s"
  by (auto simp: utf8_decode_def utf8_points_ascii is_surrogate_def ascii_def)

lemma utf8_decode_Inr: "utf8_decode s = Inr r \<Longrightarrow> r = s"
  by (auto simp: utf8_decode_def split: option.splits if_splits)

section \<open>The outcome of a request\<close>

lemma ea_call_reads:
  assumes "link (make_message code sub ps) = Inr answer" and "length answer \<le> 1024" and "ascii answer" and "answer \<noteq> []"
    and "parse_response_message answer = Inr p" and "rs_command p = code" and "read (rs_data p) = Inr x"
  shows "ea_call link code sub ps none read ea =
    (ea\<lparr>ea_return_error := [], ea_sent := ea_sent ea @ [make_message code sub ps],
        ea_timeout := Some False, ea_ok := True\<rparr>, Inr x)"
  using assms by (simp add: ea_call_def send_message_def utf8_decode_ascii process_response_def)

lemma parse_error_text:
  assumes "parse_response_message (''Error: '' @ e) = Inr p"
  shows "\<exists>t. rs_command p = CHR ''E'' # t"
proof -
  obtain t ts where "split_on caret (''Error: '' @ e) = (CHR ''E'' # t) # ts"
    by (cases "split_on caret e") (auto simp: caret_def)
  then show ?thesis using assms by (auto simp: parse_response_message_def Let_def split: if_splits list.splits)
qed

lemma send_message_cases:
  obtains (error) e where "send_message link m = ''Error: '' @ e"
  | (received) a where "link m = Inr a" "send_message link m = take 1024 a"
proof (cases "link m")
  case (Inr a)
  then show ?thesis
  proof (cases "utf8_decode (take 1024 a)")
    case (Inr r)
    then show ?thesis using that(2) [OF \<open>link m = Inr a\<close>] utf8_decode_Inr [OF Inr] \<open>link m = Inr a\<close>
      by (simp add: send_message_def)
  next
    case (Inl e)
    then show ?thesis using that(1) \<open>link m = Inr a\<close> by (cases e) (auto simp: send_message_def)
  qed
qed (use that(1) in \<open>auto simp: send_message_def\<close>)

text \<open>An answer other than the default has been received, carries the code of the request and was read.\<close>

lemma ea_call_some:
  assumes "ea_call link code sub ps none read ea = (ea', Inr x)" and "x \<noteq> none" and "code \<noteq> []" and "hd code \<noteq> CHR ''E''"
  obtains answer p where "link (make_message code sub ps) = Inr answer"
    "parse_response_message (take 1024 answer) = Inr p" "rs_command p = code" "read (rs_data p) = Inr x"
    "ea_ok ea'"
proof -
  let ?m = "make_message code sub ps"
  obtain p where p: "parse_response_message (send_message link ?m) = Inr p" "rs_command p = code"
      "read (rs_data p) = Inr x" "ea_ok ea'"
    using assms(1,2) by (auto simp: ea_call_def process_response_def Let_def split: if_splits sum.splits)
  show ?thesis
  proof (cases rule: send_message_cases [of link ?m])
    case (error e)
    then show ?thesis using parse_error_text [of e p] p(1,2) assms(3,4) by auto
  next
    case (received a)
    then show ?thesis using that [of a p] p by simp
  qed
qed

section \<open>How many rows an answer can carry\<close>

lemma length_filter_le_sum: "length (filter (\<lambda>w. w \<noteq> []) ws) \<le> sum_list (map length ws)"
proof (induction ws)
  case (Cons w ws)
  then show ?case by (cases w) auto
qed simp

lemma convert_field_nonempty: "convert_field f s = Inr v \<Longrightarrow> f \<noteq> Text \<Longrightarrow> s \<noteq> []"
  by (cases f) (auto simp: int_of_str_def float_of_str_def strip_def lower_def unsigned_decimal_def
      opt_run_def split_first_def Let_def)

lemma traverse_item: "traverse f xs = Inr ys \<Longrightarrow> x \<in> set xs \<Longrightarrow> \<exists>y. f x = Inr y"
  by (induction xs arbitrary: ys) (auto simp: bindR_eq_Inr)

lemma read_dict_items:
  assumes "read_dict l fs = Inr d" and "(k, f, i) \<in> set l"
  shows "i < length fs \<and> (f \<noteq> Text \<longrightarrow> fs ! i \<noteq> [])"
proof -
  obtain kv where "read_entry fs (k, f, i) = Inr kv"
    using traverse_item [OF assms(1) [unfolded read_dict_def] assms(2)] by (elim exE)
  then show ?thesis
    by (auto simp: read_entry_def item_def bindR_eq_Inr dest: convert_field_nonempty split: if_splits)
qed

lemma row_length:
  assumes "read_dict l (split_on c row) = Inr d" and "(k, f, n) \<in> set l"
    and "\<forall>i \<in> I. \<exists>k f. (k, f, i) \<in> set l \<and> f \<noteq> Text"
  shows "card I + n \<le> length row"
proof -
  let ?ws = "split_on c row"
  have "I \<subseteq> {i. i < length ?ws \<and> ?ws ! i \<noteq> []}" using read_dict_items [OF assms(1)] assms(3) by blast
  then have "card I \<le> length (filter (\<lambda>w. w \<noteq> []) ?ws)"
    unfolding length_filter_conv_card by (intro card_mono) auto
  then have "card I \<le> sum_list (map length ?ws)" using length_filter_le_sum order_trans by blast
  moreover have "n < length ?ws" using read_dict_items [OF assms(1,2)] by blast
  ultimately show ?thesis using length_join_split_on [of c row] by linarith
qed

lemma sum_list_filter_nonempty: "sum_list (map length (filter (\<lambda>d. d \<noteq> []) ws)) = sum_list (map length ws)"
  by (induction ws) auto

lemma rows_of_answer:
  assumes "parse_response_message answer = Inr p" and "read_rows l (rs_data p) = Inr ds"
    and "\<And>row d. read_dict l (split_on (CHR ''$'') row) = Inr d \<Longrightarrow> w \<le> length row"
  shows "length (rs_command p) + 1 + (w + 1) * length ds \<le> length answer"
proof -
  obtain rest where split: "split_on caret answer = rs_command p # rs_sub_command p # rest" "rest \<noteq> []"
      and data: "rs_data p = filter (\<lambda>d. d \<noteq> []) rest"
    using assms(1) by (auto simp: parse_response_message_def Let_def split: list.splits if_splits)
  have all: "list_all2 (\<lambda>row d. read_dict l (split_on (CHR ''$'') row) = Inr d) (rs_data p) ds"
    using assms(2) by (simp add: read_rows_def traverse_eq_Inr)
  have long: "\<forall>row \<in> set (rs_data p). w \<le> length row"
  proof
    fix row assume "row \<in> set (rs_data p)"
    then show "w \<le> length row" using all assms(3) by (auto simp: list_all2_conv_all_nth in_set_conv_nth)
  qed
  have "w * length xs \<le> sum_list (map length xs)" if "\<forall>x \<in> set xs. w \<le> length x" for xs :: "string list"
    using that by (induction xs) auto
  then have "w * length (rs_data p) \<le> sum_list (map length rest)"
    using long sum_list_filter_nonempty [of rest] data by metis
  moreover have "length ds \<le> length rest"
    using list_all2_lengthD [OF all] data length_filter_le [of "\<lambda>d. d \<noteq> []" rest] by simp
  moreover have "length ds = length (rs_data p)" using list_all2_lengthD [OF all] by simp
  ultimately show ?thesis using length_join_split_on [of caret answer] split by (simp add: algebra_simps)
qed

text \<open>The rows of a request for rows, from the shape of one row.\<close>

lemma request_rows_bounded:
  assumes "ea_optional link code sub ps (read_rows l) ea = (ea', Inr (Some ds))" and "code \<noteq> []" and "hd code \<noteq> CHR ''E''"
    and "(k, f, n) \<in> set l" and "\<forall>i \<in> I. \<exists>k f. (k, f, i) \<in> set l \<and> f \<noteq> Text"
  shows "length code + 1 + (card I + n + 1) * length ds \<le> 1024"
proof -
  let ?read = "\<lambda>data. bindR (read_rows l data) (\<lambda>x. Inr (Some x))"
  have call: "ea_call link code sub ps None ?read ea = (ea', Inr (Some ds))"
    using assms(1) by (simp add: ea_optional_def)
  obtain answer p where a: "parse_response_message (take 1024 answer) = Inr p" "rs_command p = code"
      "?read (rs_data p) = Inr (Some ds)"
    by (rule ea_call_some [OF call _ assms(2,3)]) (simp, blast)
  have "read_rows l (rs_data p) = Inr ds" using a(3) by (auto simp: bindR_eq_Inr)
  from rows_of_answer [OF a(1) this, of "card I + n"] row_length [OF _ assms(4,5)] a(2)
  show ?thesis by fastforce
qed

text \<open>
  C23: however many ticks, bars or positions are asked for, at most 101 ticks, 84 bars and 40 open positions
  are ever returned: the client reads an answer once, 1024 bytes at most, and a row has a least length.
\<close>

theorem answers_bounded:
  assumes "get_last_x_ticks_from_now link i n ea = (ea1, Inr (Some ticks))"
    and "get_last_x_bars_from_now link j tf m ea = (ea2, Inr (Some rows))"
    and "get_all_open_positions link ea = (ea3, Inr (Some positions))"
  shows "length ticks \<le> 101 \<and> length rows \<le> 84 \<and> length positions \<le> 40"
proof -
  have "length ''F021'' + 1 + (card {0..<5::nat} + 4 + 1) * length ticks \<le> 1024"
    by (rule request_rows_bounded [OF assms(1) [unfolded get_last_x_ticks_from_now_def]])
       (auto simp: ticks_from_now_layout_def atLeast0_lessThan_Suc numeral_eq_Suc)
  moreover have "length ''F042'' + 1 + (card {0..<6::nat} + 5 + 1) * length rows \<le> 1024"
    by (rule request_rows_bounded [OF assms(2) [unfolded get_last_x_bars_from_now_def]])
       (auto simp: bars_from_now_layout_def atLeast0_lessThan_Suc numeral_eq_Suc)
  moreover have "length ''F061'' + 1 + (card {0::nat, 2, 4, 5, 6, 7, 8, 9, 11, 12, 13} + 13 + 1) * length positions \<le> 1024"
    by (rule request_rows_bounded [OF assms(3) [unfolded get_all_open_positions_def]])
       (auto simp: all_open_positions_layout_def)
  ultimately show ?thesis by simp
qed

section \<open>Reading rows back\<close>

lemma caret_in_join: "caret \<in> set (join ''$'' ws) \<Longrightarrow> \<exists>w \<in> set ws. caret \<in> set w"
  by (induction "''$''" ws rule: join.induct) (auto simp: caret_def)

lemma join_row_nonempty: "2 \<le> length ws \<Longrightarrow> join ''$'' ws \<noteq> []"
  by (cases "(''$'', ws)" rule: join.cases) auto

definition accepted :: "string \<Rightarrow> ea \<Rightarrow> ea" where
  "accepted message ea =
     ea\<lparr>ea_return_error := [], ea_sent := ea_sent ea @ [message], ea_timeout := Some False, ea_ok := True\<rparr>"

lemma rows_read_back:
  assumes "link (make_message code sub ps) = Inr (make_message code t (map (join ''$'') table))"
    and "ascii (make_message code t (map (join ''$'') table))" and "length (make_message code t (map (join ''$'') table)) \<le> 1024"
    and "caret \<notin> set code" and "caret \<notin> set t"
    and "\<forall>row \<in> set table. 2 \<le> length row \<and> (\<forall>w \<in> set row. caret \<notin> set w \<and> CHR ''$'' \<notin> set w)"
    and "list_all2 (\<lambda>row d. read_dict l row = Inr d) table ds"
  shows "ea_optional link code sub ps (read_rows l) ea = (accepted (make_message code sub ps) ea, Inr (Some ds))"
proof -
  let ?rows = "map (join ''$'') table"
  have free: "\<forall>p \<in> set ?rows. caret \<notin> set p" using assms(6) caret_in_join by fastforce
  have "filter (\<lambda>p. p \<noteq> []) ?rows = ?rows" using assms(6) join_row_nonempty by (auto simp: filter_id_conv)
  then have parsed: "parse_response_message (make_message code t ?rows) =
      Inr \<lparr>rs_command = code, rs_sub_command = t, rs_data = ?rows\<rparr>"
    using parse_make_message [OF assms(4,5) free] by simp
  have "list_all2 (\<lambda>r d. read_dict l (split_on (CHR ''$'') r) = Inr d) ?rows ds"
  proof -
    have "split_on (CHR ''$'') (join ''$'' row) = row" if "row \<in> set table" for row
      using split_on_join [of row "CHR ''$''"] assms(6) that by fastforce
    then show ?thesis using assms(7) by (auto simp: list_all2_conv_all_nth)
  qed
  then have "read_rows l ?rows = Inr ds" by (simp add: read_rows_def traverse_eq_Inr)
  moreover have "make_message code t ?rows \<noteq> []" by (simp add: make_message_def)
  ultimately show ?thesis
    unfolding ea_optional_def accepted_def
    by (intro ea_call_reads [where answer = "make_message code t ?rows" and
        p = "\<lparr>rs_command = code, rs_sub_command = t, rs_data = ?rows\<rparr>"]) (use assms(1-3) parsed in simp_all)
qed

definition position_row :: "string list" where
  "position_row = [''7'', ''EURUSD'', ''7'', ''buy'', ''0'', ''inf'', ''inf'', ''60'', ''inf'', ''inf'', ''note'',
     ''inf'', ''inf'', ''inf'']"

definition position_answer :: string where
  "position_answer = make_message ''F061'' ''1'' (map (join ''$'') [position_row])"

lemma digits_read:
  "int_of_str ''7'' = Inr 7" "int_of_str ''0'' = Inr 0" "int_of_str ''60'' = Inr 60" "int_of_str ''5'' = Inr 5"
  "float_of_str ''inf'' = Inr PosInf"
  by code_simp+

definition position_read :: "(string, json) dict" where
  "position_read =
     [(''ticket'', JInt 7), (''instrument'', JStr ''EURUSD''), (''order_ticket'', JInt 7), (''position_type'', JStr ''buy''),
      (''magic_number'', JInt 0), (''volume'', JFloat PosInf), (''open_price'', JFloat PosInf), (''open_time'', JInt 60),
      (''stop_loss'', JFloat PosInf), (''take_profit'', JFloat PosInf), (''comment'', JStr ''note''),
      (''profit'', JFloat PosInf), (''swap'', JFloat PosInf), (''commission'', JFloat PosInf)]"

lemma position_row_reads: "read_dict all_open_positions_layout position_row = Inr position_read"
  by (simp add: read_dict_def all_open_positions_layout_def read_entry_def item_def position_row_def digits_read
      position_read_def)

lemma position_answer_text: "ascii position_answer \<and> length position_answer \<le> 1024"
  by (simp add: position_answer_def position_row_def make_message_def ascii_def)

definition row_server :: ea_link where
  "row_server m =
     (if take 4 m = ''F021'' then Inr (make_message ''F021'' ''1'' (map (join ''$'') [[''60'', ''inf'', ''inf'', ''inf'', ''5'']]))
      else if take 4 m = ''F042'' then
        Inr (make_message ''F042'' ''1'' (map (join ''$'') [[''60'', ''inf'', ''inf'', ''inf'', ''inf'', ''5'']]))
      else Inr position_answer)"

lemma answers_bounded_witness:
  "\<exists>ea1 ea2 ea3 ticks rows positions.
     get_last_x_ticks_from_now row_server ''EURUSD'' 2000 ea_init = (ea1, Inr (Some ticks)) \<and> length ticks = 1 \<and>
     get_last_x_bars_from_now row_server ''EURUSD'' 16408 1000 ea_init = (ea2, Inr (Some rows)) \<and> length rows = 1 \<and>
     get_all_open_positions row_server ea_init = (ea3, Inr (Some positions)) \<and> length positions = 1 \<and>
     length ticks \<le> 101 \<and> length rows \<le> 84 \<and> length positions \<le> 40"
proof -
  obtain d1 where d1: "read_dict ticks_from_now_layout [''60'', ''inf'', ''inf'', ''inf'', ''5''] = Inr d1"
    by (simp add: read_dict_def ticks_from_now_layout_def read_entry_def item_def digits_read)
  obtain d2 where d2: "read_dict bars_from_now_layout [''60'', ''inf'', ''inf'', ''inf'', ''inf'', ''5''] = Inr d2"
    by (simp add: read_dict_def bars_from_now_layout_def read_entry_def item_def digits_read)
  have t: "get_last_x_ticks_from_now row_server ''EURUSD'' 2000 ea_init =
      (accepted (make_message ''F021'' ''4'' [''EURUSD'', int_str 2000]) ea_init, Inr (Some [d1]))"
    unfolding get_last_x_ticks_from_now_def
    by (rule rows_read_back [where t = "''1''" and table = "[[''60'', ''inf'', ''inf'', ''inf'', ''5'']]"])
       (use d1 in \<open>simp_all add: row_server_def make_message_def caret_def ascii_def\<close>)
  have b: "get_last_x_bars_from_now row_server ''EURUSD'' 16408 1000 ea_init =
      (accepted (make_message ''F042'' ''5'' [''EURUSD'', int_str 16408, ''0'', int_str 1000]) ea_init, Inr (Some [d2]))"
    unfolding get_last_x_bars_from_now_def
    by (rule rows_read_back [where t = "''1''" and table = "[[''60'', ''inf'', ''inf'', ''inf'', ''inf'', ''5'']]"])
       (use d2 in \<open>simp_all add: row_server_def make_message_def caret_def ascii_def\<close>)
  have p: "get_all_open_positions row_server ea_init =
      (accepted (make_message ''F061'' ''1'' []) ea_init, Inr (Some [position_read]))"
    unfolding get_all_open_positions_def
    by (rule rows_read_back [where t = "''1''" and table = "[position_row]"])
       (use position_row_reads position_answer_text in
        \<open>simp_all add: row_server_def position_answer_def make_message_def caret_def position_row_def\<close>)
  note r = answers_bounded [OF t b p]
  show ?thesis
    by (intro exI conjI)
       (rule t, simp, rule b, simp, rule p, simp, rule conjunct1 [OF r], rule conjunct1 [OF conjunct2 [OF r]],
        rule conjunct2 [OF conjunct2 [OF r]])
qed

section \<open>Orders as the expert adviser reads them\<close>

definition float_chars :: "char set" where
  "float_chars = {c. is_digit c} \<union> set ''.-+eINFNANinfnan''"

lemma digit_float_char: "is_digit c \<Longrightarrow> c \<in> float_chars"
  by (simp add: float_chars_def)

lemma place_point_chars:
  assumes "\<forall>c \<in> set ds. is_digit c" and "c \<in> set (place_point ds e)"
  shows "c \<in> float_chars"
proof -
  have sym: "set ''.-+e'' \<subseteq> float_chars" "CHR ''0'' \<in> float_chars"
    by (auto simp: float_chars_def is_digit_def digit_val_def)
  have "set (place_point ds e) \<subseteq> set ds \<union> set ''.-+e'' \<union> {CHR ''0''} \<union> {c. is_digit c}"
    by (auto simp: place_point_def Let_def dest: in_set_takeD in_set_dropD nat_str_digits split: if_splits)
  then show ?thesis using assms sym digit_float_char by blast
qed

lemma float_repr_chars: "c \<in> set (float_repr x) \<Longrightarrow> c \<in> float_chars"
proof (cases x)
  case (Fin q)
  have z: "set ''0.0'' \<subseteq> float_chars" "CHR ''-'' \<in> float_chars"
    by (auto simp: float_chars_def is_digit_def digit_val_def)
  assume "c \<in> set (float_repr x)"
  then show ?thesis using Fin z place_point_chars nat_str_digits
    by (fastforce split: if_splits prod.splits)
qed (auto simp: float_chars_def)

lemma caret_notin_float_repr: "caret \<notin> set (float_repr x)"
  using float_repr_chars [of caret x] by (auto simp: float_chars_def caret_def is_digit_def digit_val_def)

lemma ascii_int_str: "ascii (int_str i)"
  unfolding ascii_def by (auto dest!: int_str_chars simp: is_digit_def digit_val_def Let_def split: if_splits)

lemma caret_notin_int_str: "caret \<notin> set (int_str i)"
  by (rule sep_notin_int_str) (simp_all add: caret_def is_digit_def digit_val_def)

text \<open>
  A request for an order carries its ten fields in order between carets: who splits the text at the carets
  finds exactly them, and an answer with a ticket gives that ticket.
\<close>

theorem order_request_readable:
  assumes "caret \<notin> set instrument_name" and "caret \<notin> set order_type" and "caret \<notin> set comment"
    and "\<forall>m. link m = Inr (make_message ''F070'' ''1'' [int_str ticket])" and "length (int_str ticket) \<le> 1000"
  shows "\<exists>m. open_order link instrument_name order_type volume open_price slippage magic_number stop_loss take_profit
      comment market ea = (accepted m ea, Inr (Some ticket)) \<and>
    split_on caret m = [''F070'', ''9'', instrument_name, order_type, float_repr volume, float_repr open_price,
      int_str slippage, int_str magic_number, float_repr stop_loss, float_repr take_profit, comment, bool_str market]"
proof -
  let ?ps = "[instrument_name, order_type, float_repr volume, float_repr open_price, int_str slippage,
      int_str magic_number, float_repr stop_loss, float_repr take_profit, comment, bool_str market]"
  let ?answer = "make_message ''F070'' ''1'' [int_str ticket]"
  have split: "split_on caret (make_message ''F070'' ''9'' ?ps) = ''F070'' # ''9'' # ?ps"
    by (rule split_on_message) (use assms(1-3) caret_notin_float_repr in \<open>simp_all add: caret_notin_int_str bool_str_def caret_def [symmetric]\<close>,
        simp_all add: caret_def)
  note digits = ascii_int_str [of ticket]
  have parsed: "parse_response_message ?answer =
      Inr \<lparr>rs_command = ''F070'', rs_sub_command = ''1'', rs_data = [int_str ticket]\<rparr>"
    by (subst parse_make_message) (simp_all add: caret_notin_int_str, simp_all add: caret_def)
  have "ea_call link ''F070'' ''9'' ?ps None (\<lambda>data. bindR (bindR (item data 0) int_of_str) (\<lambda>x. Inr (Some x))) ea =
      (accepted (make_message ''F070'' ''9'' ?ps) ea, Inr (Some ticket))"
    unfolding accepted_def
    by (rule ea_call_reads [where answer = ?answer, OF _ _ _ _ parsed])
       (use assms(4,5) digits int_of_int_str [of ticket] in \<open>simp_all add: make_message_def ascii_def item_def\<close>)
  then show ?thesis using split by (auto simp: open_order_def ea_optional_def)
qed

text \<open>
  A connection that fails, for whatever reason, is reported by every request as a wrong authorization code,
  with no exception: the text of the failure is parsed as an answer.
\<close>

theorem failed_connection_misreported:
  assumes "link (make_message code sub ps) = Inl reason" and "code = CHR ''F'' # digits"
  shows "ea_call link code sub ps none read ea =
    (ea\<lparr>ea_return_error := ''Wrong authorizaton code'', ea_sent := ea_sent ea @ [make_message code sub ps],
        ea_timeout := Some True, ea_ok := False\<rparr>, Inr none)"
proof -
  have send: "send_message link (make_message code sub ps) = ''Error: '' @ reason" using assms(1) by (simp add: send_message_def)
  show ?thesis
  proof (cases "parse_response_message (''Error: '' @ reason)")
    case (Inl e)
    then show ?thesis unfolding ea_call_def Let_def send process_response_def by simp
  next
    case (Inr p)
    obtain t where "rs_command p = CHR ''E'' # t" using parse_error_text [OF Inr] by blast
    then have "rs_command p \<noteq> code" using assms(2) by auto
    then show ?thesis unfolding ea_call_def Let_def send process_response_def Inr by simp
  qed
qed

lemma failed_connection_misreported_witness:
  "close_position_by_ticket (\<lambda>_. Inl ''Connect call failed ('127.0.0.1', 15556)'') 7 ea_init =
     (ea_init\<lparr>ea_return_error := ''Wrong authorizaton code'', ea_sent := [make_message ''F071'' ''2'' [int_str 7]],
              ea_timeout := Some True, ea_ok := False\<rparr>, Inr False)"
  unfolding close_position_by_ticket_def ea_flag_def
  by (subst failed_connection_misreported [where reason = "''Connect call failed ('127.0.0.1', 15556)''" and digits = "''071''"])
     (simp_all add: ea_init_def)

lemma answer_digits: "length (int_str 42) \<le> 1000"
  by code_simp

lemma order_request_readable_witness:
  "\<exists>m. open_order (\<lambda>_. Inr (make_message ''F070'' ''1'' [int_str 42])) ''EURUSD'' ''buy'' PosInf 0 3 7 0 0 ''note'' True ea_init =
      (accepted m ea_init, Inr (Some 42)) \<and> length (split_on caret m) = 12"
  using order_request_readable [of "''EURUSD''" "''buy''" "''note''" "\<lambda>_. Inr (make_message ''F070'' ''1'' [int_str 42])" 42
      PosInf 0 3 7 0 0 True ea_init] answer_digits
  by (auto simp: caret_def)

end
