(* ===== verification/EA_Adviser.thy ===== *)
theory EA_Adviser
  imports EA_Facts
begin

text \<open>
  The other end of the socket: the expert adviser of \<^verbatim>\<open>MQL5/Include/MT5Ext\<close> (\<^verbatim>\<open>MT5Ext.mqh\<close> and the
  handlers of \<^verbatim>\<open>rest-handlers.mqh\<close> it reaches), and the conversation of the client with it. The
  terminal the handlers query is the record \<open>terminal\<close>; its doubles are opaque, and \<open>double_text\<close> is
  \<^verbatim>\<open>DoubleToString\<close>. An access out of the bounds of an array stops the adviser, which leaves the request
  without an answer (\<open>None\<close>).
\<close>

section \<open>The terminal\<close>

record 'd quote =
  q_time :: int
  q_bid :: 'd
  q_ask :: 'd
  q_last :: 'd
  q_volume :: int
  q_time_msc :: int

record 'd terminal =
  double_text :: "'d \<Rightarrow> nat \<Rightarrow> string"
  time_current :: int
  account_name :: string
  account_login :: int
  account_currency :: string
  account_trade_mode :: int
  account_leverage :: int
  account_trade_allowed :: bool
  account_limit_orders :: int
  margin_so_call :: 'd
  margin_so_so :: 'd
  account_company :: string
  account_balance :: 'd
  account_equity :: 'd
  account_profit :: 'd
  account_margin :: 'd
  account_margin_level :: 'd
  account_margin_free :: 'd
  terminal_name :: string
  terminal_connected :: bool
  symbol_select :: "string \<Rightarrow> bool"
  symbol_trade_disabled :: "string \<Rightarrow> bool"
  symbol_integer :: "string \<Rightarrow> string \<Rightarrow> int"
  symbol_double :: "string \<Rightarrow> string \<Rightarrow> 'd"
  symbol_tick :: "string \<Rightarrow> 'd quote option"

section \<open>Handlers\<close>

definition GetBrokerServerTime :: "'d terminal \<Rightarrow> string" where
  "GetBrokerServerTime t = make_message ''F005'' ''1'' [int_str (time_current t)]"

definition GetCheckConnection :: string where
  "GetCheckConnection = make_message ''F000'' ''1'' [''OK'']"

definition BoolToString :: "bool \<Rightarrow> string" where
  "BoolToString b = (if b then ''true'' else ''false'')"

definition GetStaticAccountInfo :: "'d terminal \<Rightarrow> string" where
  "GetStaticAccountInfo t = make_message ''F001'' ''10''
     [account_name t, int_str (account_login t), account_currency t, int_str (account_trade_mode t),
      int_str (account_leverage t), BoolToString (account_trade_allowed t), int_str (account_limit_orders t),
      double_text t (margin_so_call t) 8, double_text t (margin_so_so t) 8, account_company t]"

definition GetDynamicAccountInfo :: "'d terminal \<Rightarrow> string" where
  "GetDynamicAccountInfo t = make_message ''F002'' ''6''
     [double_text t (account_balance t) 2, double_text t (account_equity t) 2, double_text t (account_profit t) 2,
      double_text t (account_margin t) 2, double_text t (account_margin_level t) 2,
      double_text t (account_margin_free t) 2]"

definition GetInstrumentInfo :: "'d terminal \<Rightarrow> string \<Rightarrow> string" where
  "GetInstrumentInfo t symbol =
     (let whole = (\<lambda>p. int_str (symbol_integer t symbol p));
          decimal = (\<lambda>p n. double_text t (symbol_double t symbol p) n)
      in make_message ''F003'' ''3''
           [whole ''SYMBOL_DIGITS'', decimal ''SYMBOL_VOLUME_MAX'' 2, decimal ''SYMBOL_VOLUME_MIN'' 2,
            decimal ''SYMBOL_VOLUME_STEP'' 2, decimal ''SYMBOL_POINT'' 5, decimal ''SYMBOL_TRADE_TICK_SIZE'' 5,
            decimal ''SYMBOL_TRADE_TICK_VALUE'' 2, decimal ''SYMBOL_SWAP_LONG'' 2, decimal ''SYMBOL_SWAP_SHORT'' 2,
            whole ''SYMBOL_TRADE_STOPS_LEVEL'', decimal ''SYMBOL_TRADE_CONTRACT_SIZE'' 2])"

definition GetBrokerInstrumentNames :: "'d terminal \<Rightarrow> string" where
  "GetBrokerInstrumentNames t = make_message ''F007'' ''1'' [terminal_name t]"

definition CheckMarketWatch :: "'d terminal \<Rightarrow> string \<Rightarrow> string" where
  "CheckMarketWatch t symbol = make_message ''F004'' ''1'' [if symbol_select t symbol then ''YES'' else ''NO'']"

definition CheckTradingAllowed :: "'d terminal \<Rightarrow> string \<Rightarrow> string" where
  "CheckTradingAllowed t symbol =
     make_message ''F008'' ''1'' [if \<not> symbol_trade_disabled t symbol then ''YES'' else ''NO'']"

definition CheckTerminalServerConnection :: "'d terminal \<Rightarrow> string" where
  "CheckTerminalServerConnection t =
     make_message ''F011'' ''1'' [if terminal_connected t then ''CONNECTED'' else ''DISCONNECTED'']"

definition CheckTerminalType :: "'d terminal \<Rightarrow> string" where
  "CheckTerminalType t = make_message ''F012'' ''1'' [terminal_name t]"

definition GetLastTickInfo :: "'d terminal \<Rightarrow> string \<Rightarrow> string" where
  "GetLastTickInfo t symbol0 =
     (let symbol = upper symbol0
      in case symbol_tick t symbol of
           Some q \<Rightarrow>
             make_message ''F020'' ''6''
               [int_str (q_time q), double_text t (q_bid q) 5, double_text t (q_ask q) 5, double_text t (q_last q) 5,
                int_str (q_volume q), int_str (symbol_integer t symbol ''SYMBOL_SPREAD''), int_str (q_time_msc q)]
         | None \<Rightarrow> make_message ''F020'' ''1'' [''ERROR''])"

section \<open>Dispatch\<close>

text \<open>\<^verbatim>\<open>ParseRequest\<close>: the command, the sub-command and the parameters; \<open>None\<close> when it stops the adviser.\<close>

definition ParseRequest :: "string \<Rightarrow> (string \<times> string \<times> string list) option" where
  "ParseRequest request =
     (case split_on caret request of
        command # sub_command # parameters \<Rightarrow> Some (command, sub_command, parameters)
      | _ \<Rightarrow> None)"

definition first_parameter :: "string list \<Rightarrow> (string \<Rightarrow> string) \<Rightarrow> string option" where
  "first_parameter parameters handler = (case parameters of [] \<Rightarrow> None | p # _ \<Rightarrow> Some (handler p))"

definition ProcessRequest :: "'d terminal \<Rightarrow> string \<Rightarrow> string \<Rightarrow> string list \<Rightarrow> string option" where
  "ProcessRequest t command sub_command parameters =
     (if command = ''F000'' \<and> sub_command = ''1'' then Some GetCheckConnection
      else if command = ''F001'' \<and> sub_command = ''1'' then Some (GetStaticAccountInfo t)
      else if command = ''F002'' \<and> sub_command = ''1'' then Some (GetDynamicAccountInfo t)
      else if command = ''F003'' \<and> sub_command = ''2'' then first_parameter parameters (GetInstrumentInfo t)
      else if command = ''F007'' \<and> sub_command = ''1'' then Some (GetBrokerInstrumentNames t)
      else if command = ''F004'' \<and> sub_command = ''2'' then first_parameter parameters (CheckMarketWatch t)
      else if command = ''F008'' \<and> sub_command = ''2'' then first_parameter parameters (CheckTradingAllowed t)
      else if command = ''F011'' \<and> sub_command = ''1'' then Some (CheckTerminalServerConnection t)
      else if command = ''F012'' \<and> sub_command = ''1'' then Some (CheckTerminalType t)
      else if command = ''F020'' \<and> sub_command = ''2'' then first_parameter parameters (GetLastTickInfo t)
      else if command = ''F005'' \<and> sub_command = ''1'' then Some (GetBrokerServerTime t)
      else Some (make_message ''F999'' ''1'' [''UNKNOWN_REQUEST'']))"

text \<open>
  \<^verbatim>\<open>ProcessClient\<close>, which reads at most 4098 bytes. With \<open>only_stream\<close> the answer goes to the stream and the
  client of the request reads the end of the connection; an adviser that has stopped resets it.
\<close>

definition adviser_link :: "bool \<Rightarrow> 'd terminal \<Rightarrow> ea_link" where
  "adviser_link only_stream t request =
     (case ParseRequest (take 4098 request) of
        None \<Rightarrow> Inl ''Connection lost''
      | Some (command, sub_command, parameters) \<Rightarrow>
          (case ProcessRequest t command sub_command parameters of
             None \<Rightarrow> Inl ''Connection lost''
           | Some response \<Rightarrow> Inr (if only_stream then [] else response)))"

section \<open>Conversations\<close>

lemma split_on_request:
  assumes "caret \<notin> set code" and "caret \<notin> set sub" and "length code + length sub + 2 \<le> n"
  shows "\<exists>m. split_on caret (take n (make_message code sub ps)) = code # sub # split_on caret (take m (join ''^'' ps))"
proof -
  have "take n (make_message code sub ps) =
      code @ caret # sub @ caret # take (n - (length code + length sub + 2)) (join ''^'' ps)"
    using assms(3) by (simp add: make_message_def caret_def take_Cons')
  then show ?thesis using assms(1,2) by (auto simp: split_on_append_sep)
qed

text \<open>The commands the adviser knows, with their sub-commands.\<close>

definition adviser_commands :: "(string \<times> string) list" where
  "adviser_commands =
     [(''F000'', ''1''), (''F001'', ''1''), (''F002'', ''1''), (''F003'', ''2''), (''F007'', ''1''), (''F004'', ''2''),
      (''F008'', ''2''), (''F011'', ''1''), (''F012'', ''1''), (''F020'', ''2''), (''F005'', ''1'')]"

lemma process_unknown:
  assumes "(code, sub) \<notin> set adviser_commands"
  shows "ProcessRequest t code sub qs = Some (make_message ''F999'' ''1'' [''UNKNOWN_REQUEST''])"
proof -
  have "\<not> (code = c \<and> sub = d)" if "(c, d) \<in> set adviser_commands" for c d using assms that by blast
  then show ?thesis unfolding ProcessRequest_def adviser_commands_def by (simp only: if_False list.set insert_iff prod.inject simp_thms)
qed

lemma unknown_request:
  assumes "(code, sub) \<notin> set adviser_commands" and "caret \<notin> set code" and "caret \<notin> set sub" and "length code + length sub \<le> 4096"
  shows "adviser_link only t (make_message code sub ps) =
    Inr (if only then [] else make_message ''F999'' ''1'' [''UNKNOWN_REQUEST''])"
proof -
  obtain m where "split_on caret (take 4098 (make_message code sub ps)) = code # sub # split_on caret (take m (join ''^'' ps))"
    using split_on_request [of code sub 4098 ps] assms by auto
  then have "ParseRequest (take 4098 (make_message code sub ps)) =
      Some (code, sub, split_on caret (take m (join ''^'' ps)))"
    by (simp add: ParseRequest_def)
  then show ?thesis by (simp add: adviser_link_def process_unknown [OF assms(1)])
qed

text \<open>
  What the client is left with: a wrong authorization code, or no error at all when the answers go to
  the stream. In both cases the request has not gone well.
\<close>

definition turned_away :: "bool \<Rightarrow> string \<Rightarrow> ea \<Rightarrow> ea" where
  "turned_away only message ea =
     (let ea1 = ea\<lparr>ea_sent := ea_sent ea @ [message], ea_ok := False\<rparr>
      in if only then ea1\<lparr>ea_return_error := []\<rparr>
         else ea1\<lparr>ea_return_error := ''Wrong authorizaton code'', ea_timeout := Some True\<rparr>)"

lemma unknown_call:
  assumes "(code, sub) \<notin> set adviser_commands" and "caret \<notin> set code" and "caret \<notin> set sub" and "length code + length sub \<le> 4096"
    and "code \<noteq> ''F999''"
  shows "ea_call (adviser_link only t) code sub ps none read ea = (turned_away only (make_message code sub ps) ea, Inr none)"
proof -
  let ?a = "make_message ''F999'' ''1'' [''UNKNOWN_REQUEST'']"
  have send: "send_message (adviser_link only t) (make_message code sub ps) = (if only then [] else ?a)"
  proof -
    have "ascii ?a \<and> length ?a \<le> 1024" by (simp add: make_message_def ascii_def)
    then show ?thesis by (simp add: send_message_def unknown_request [OF assms(1-4)] utf8_decode_ascii ascii_def)
  qed
  have parse: "parse_response_message ?a =
      Inr \<lparr>rs_command = ''F999'', rs_sub_command = ''1'', rs_data = [''UNKNOWN_REQUEST'']\<rparr>"
    by (subst parse_make_message) (simp_all add: caret_def)
  have "?a \<noteq> []" by (simp add: make_message_def)
  then show ?thesis
    unfolding ea_call_def Let_def send process_response_def
    by (cases only) (simp_all add: parse assms(5) [symmetric] turned_away_def)
qed

text \<open>
  \<open>turns_away only t none f\<close>: the adviser turns the request \<open>f\<close> away whatever the client's state, and the
  client's method returns \<open>none\<close>.
\<close>

definition turns_away :: "bool \<Rightarrow> 'd terminal \<Rightarrow> 'a \<Rightarrow> (ea_link \<Rightarrow> ea \<Rightarrow> ea \<times> 'a result) \<Rightarrow> bool" where
  "turns_away only t none f \<longleftrightarrow> (\<forall>ea. \<exists>m. f (adviser_link only t) ea = (turned_away only m ea, Inr none))"

lemma turns_away_unknown:
  assumes "(code, sub) \<notin> set adviser_commands" and "caret \<notin> set code" and "caret \<notin> set sub" and "length code + length sub \<le> 4096"
    and "code \<noteq> ''F999''"
  shows "turns_away only t None (\<lambda>link. ea_optional link code sub ps rd)"
    and "turns_away only t False (\<lambda>link. ea_flag link code sub ps)"
  unfolding turns_away_def ea_optional_def ea_flag_def
  by (rule allI, rule exI, rule unknown_call [OF assms])+

text \<open>
  C21: no request of the client that trades, changes or lists positions and orders, asks for series, names
  the instruments, asks for the license or sets the terminal reaches a handler: the adviser answers
  all of them as unknown, on the connection of the request or on the stream. The client's methods return
  \<^verbatim>\<open>None\<close> or \<^verbatim>\<open>False\<close>; on the connection it reports a wrong authorization code, and with a stream nothing.
  Whatever the terminal holds, nothing is ever opened, closed, changed or listed.
\<close>

theorem trading_never_reaches_adviser:
  "turns_away only t None (\<lambda>l. open_order l instr ty v p slip mg s tp c market) \<and>
   turns_away only t False (\<lambda>l. close_position_by_ticket l k) \<and>
   turns_away only t False (\<lambda>l. close_position_partial_by_ticket l k v) \<and>
   turns_away only t False (\<lambda>l. closeby_position_by_ticket l k k2) \<and>
   turns_away only t False (\<lambda>l. close_positions_async l instr mg) \<and>
   turns_away only t False (\<lambda>l. delete_order_by_ticket l k) \<and>
   turns_away only t False (\<lambda>l. set_sl_and_tp_for_position l k s tp) \<and>
   turns_away only t False (\<lambda>l. set_sl_and_tp_for_pending_order l k s tp) \<and>
   turns_away only t False (\<lambda>l. reset_sl_and_tp_for_position l k) \<and>
   turns_away only t False (\<lambda>l. reset_sl_and_tp_for_pending_order l k) \<and>
   turns_away only t False (\<lambda>l. change_settings_for_pending_order l k p s tp) \<and>
   turns_away only t None (\<lambda>l. get_all_open_positions l) \<and>
   turns_away only t None (\<lambda>l. get_all_closed_positions l) \<and>
   turns_away only t None (\<lambda>l. get_all_closed_positions_within_window l d1 d2) \<and>
   turns_away only t None (\<lambda>l. get_all_pending_orders l) \<and>
   turns_away only t None (\<lambda>l. get_all_deleted_orders l) \<and>
   turns_away only t None (\<lambda>l. get_all_deleted_pending_orders_within_window l d1 d2) \<and>
   turns_away only t None (\<lambda>l. get_last_x_ticks_from_now l instr n) \<and>
   turns_away only t None (\<lambda>l. get_actual_bar_info l instr tf) \<and>
   turns_away only t None (\<lambda>l. get_specific_bar l instrs n tf) \<and>
   turns_away only t None (\<lambda>l. get_last_x_bars_from_now l instr tf n) \<and>
   turns_away only t None (\<lambda>l. get_instruments l) \<and>
   turns_away only t None (\<lambda>l. check_license l) \<and>
   turns_away only t False (\<lambda>l. set_global_variable l name x) \<and>
   turns_away only t None (\<lambda>l. get_global_variable l name) \<and>
   turns_away only t False (\<lambda>l. switch_auto_trading_on_off l on)"
  unfolding open_order_def close_position_by_ticket_def close_position_partial_by_ticket_def
    closeby_position_by_ticket_def close_positions_async_def delete_order_by_ticket_def
    set_sl_and_tp_for_position_def set_sl_and_tp_for_pending_order_def reset_sl_and_tp_for_position_def
    reset_sl_and_tp_for_pending_order_def change_settings_for_pending_order_def get_all_open_positions_def
    get_all_closed_positions_def get_all_closed_positions_within_window_def get_all_pending_orders_def
    get_all_deleted_orders_def get_all_deleted_pending_orders_within_window_def get_last_x_ticks_from_now_def
    get_actual_bar_info_def get_specific_bar_def get_last_x_bars_from_now_def get_instruments_def
    check_license_def set_global_variable_def get_global_variable_def switch_auto_trading_on_off_def
  by (intro conjI; rule turns_away_unknown) (simp_all add: adviser_commands_def caret_def)

text \<open>
  The handlers those requests would reach do not fit the client either. One row of the adviser's
  \<^verbatim>\<open>GetAllOpenPositions\<close>, which is never dispatched, has thirteen values and no order ticket; the client
  reads fourteen.
\<close>

record 'd adviser_position =
  ap_ticket :: int
  ap_symbol :: string
  ap_type :: int
  ap_magic :: int
  ap_volume :: 'd
  ap_price_open :: 'd
  ap_time :: int
  ap_sl :: 'd
  ap_tp :: 'd
  ap_comment :: string
  ap_profit :: 'd
  ap_swap :: 'd
  ap_commission :: 'd

definition position_row_values :: "'d terminal \<Rightarrow> 'd adviser_position \<Rightarrow> string list" where
  "position_row_values t p =
     [int_str (ap_ticket p), ap_symbol p, int_str (ap_type p), int_str (ap_magic p), double_text t (ap_volume p) 2,
      double_text t (ap_price_open p) 5, int_str (ap_time p), double_text t (ap_sl p) 5, double_text t (ap_tp p) 5,
      ap_comment p, double_text t (ap_profit p) 2, double_text t (ap_swap p) 2, double_text t (ap_commission p) 2]"

theorem adviser_positions_unreadable:
  assumes "p \<in> set ps" and "\<forall>w \<in> set (position_row_values t p). CHR ''$'' \<notin> set w"
  shows "\<exists>e. read_rows all_open_positions_layout (map (\<lambda>p. join ''$'' (position_row_values t p)) ps) = Inl e"
proof (rule ccontr)
  assume "\<not> ?thesis"
  then obtain ds where "read_rows all_open_positions_layout (map (\<lambda>p. join ''$'' (position_row_values t p)) ps) = Inr ds"
    by (cases "read_rows all_open_positions_layout (map (\<lambda>p. join ''$'' (position_row_values t p)) ps)") auto
  then obtain d where "read_dict all_open_positions_layout (split_on (CHR ''$'') (join ''$'' (position_row_values t p))) = Inr d"
    using assms(1) by (auto simp: read_rows_def traverse_eq_Inr list_all2_conv_all_nth in_set_conv_nth)
  moreover have "split_on (CHR ''$'') (join ''$'' (position_row_values t p)) = position_row_values t p"
    using split_on_join [of "position_row_values t p" "CHR ''$''"] assms(2) by (simp add: position_row_values_def)
  ultimately have "read_dict all_open_positions_layout (position_row_values t p) = Inr d" by simp
  from read_dict_items [OF this, of "''commission''" Decimal 13] show False
    by (simp add: all_open_positions_layout_def position_row_values_def)
qed

text \<open>A request the adviser knows: what its handler answers is what the client parses.\<close>

lemma known_call:
  assumes "caret \<notin> set code" and "caret \<notin> set sub" and "length code + length sub \<le> 4096"
    and "\<And>qs. qs \<noteq> [] \<Longrightarrow> ProcessRequest t code sub qs = Some (make_message code tag vals)"
    and "caret \<notin> set tag" and "\<forall>v \<in> set vals. caret \<notin> set v"
    and "ascii (make_message code tag vals)" and "length (make_message code tag vals) \<le> 1024"
  shows "ea_call (adviser_link False t) code sub ps none read ea =
    (case read (filter (\<lambda>v. v \<noteq> []) vals) of
       Inr x \<Rightarrow> (accepted (make_message code sub ps) ea, Inr x)
     | Inl _ \<Rightarrow> ((accepted (make_message code sub ps) ea)\<lparr>ea_return_error := ea_error ''00001'', ea_ok := False\<rparr>,
                  Inl GenericException))"
proof -
  obtain m where "split_on caret (take 4098 (make_message code sub ps)) = code # sub # split_on caret (take m (join ''^'' ps))"
    using split_on_request [of code sub 4098 ps] assms(1-3) by auto
  then have "adviser_link False t (make_message code sub ps) = Inr (make_message code tag vals)"
    using assms(4) by (simp add: adviser_link_def ParseRequest_def)
  then have send: "send_message (adviser_link False t) (make_message code sub ps) = make_message code tag vals"
    by (simp add: send_message_def assms(7,8) utf8_decode_ascii)
  have ne: "make_message code tag vals \<noteq> []" by (simp add: make_message_def)
  show ?thesis
    unfolding ea_call_def Let_def send process_response_def parse_make_message [OF assms(1,5,6)]
    using ne by (simp add: accepted_def split: sum.split)
qed

text \<open>
  The checks of the client do not fit the answers of the adviser: whether trading is allowed can never be
  read (the check raises whatever the answer), and a terminal that is connected to its server is reported
  as not connected, by a check that says it went well.
\<close>

theorem checks_disagree:
  "check_connection (adviser_link False t) ea = (accepted ''F000^1^'' ea, Inr True) \<and>
   check_trading_allowed (adviser_link False t) symbol ea =
     ((accepted (''F008^2^'' @ symbol) ea)\<lparr>ea_return_error := ''Undefined check connection error'', ea_ok := False\<rparr>,
      Inl GenericException) \<and>
   check_terminal_server_connection (adviser_link False t) ea = (accepted ''F011^1^'' ea, Inr False)"
proof (intro conjI)
  show "check_connection (adviser_link False t) ea = (accepted ''F000^1^'' ea, Inr True)"
    unfolding check_connection_def ea_flag_def
    by (subst known_call [where tag = "''1''" and vals = "[''OK'']"])
       (simp_all add: ProcessRequest_def GetCheckConnection_def caret_def make_message_def ascii_def)
next
  obtain m where p: "split_on caret (take 4098 (make_message ''F008'' ''2'' [symbol])) =
      ''F008'' # ''2'' # split_on caret (take m symbol)"
    using split_on_request [of "''F008''" "''2''" 4098 "[symbol]"] by (auto simp: caret_def)
  obtain q qs where q: "split_on caret (take m symbol) = q # qs"
    using split_on_not_Nil [of caret "take m symbol"] by (cases "split_on caret (take m symbol)") auto
  let ?y = "if \<not> symbol_trade_disabled t q then ''YES'' else ''NO''"
  have link: "adviser_link False t (make_message ''F008'' ''2'' [symbol]) = Inr (make_message ''F008'' ''1'' [?y])"
    by (simp add: adviser_link_def ParseRequest_def p q ProcessRequest_def first_parameter_def CheckTradingAllowed_def)
  have "ascii (make_message ''F008'' ''1'' [?y]) \<and> length (make_message ''F008'' ''1'' [?y]) \<le> 1024"
    by (simp add: make_message_def ascii_def)
  then have send: "send_message (adviser_link False t) (make_message ''F008'' ''2'' [symbol]) = make_message ''F008'' ''1'' [?y]"
    by (simp add: send_message_def link utf8_decode_ascii)
  have parse: "parse_response_message (make_message ''F008'' ''1'' [?y]) =
      Inr \<lparr>rs_command = ''F008'', rs_sub_command = ''1'', rs_data = [?y]\<rparr>"
    by (subst parse_make_message) (simp_all add: caret_def)
  have "make_message ''F008'' ''1'' [?y] \<noteq> []" by (simp add: make_message_def)
  then show "check_trading_allowed (adviser_link False t) symbol ea =
     ((accepted (''F008^2^'' @ symbol) ea)\<lparr>ea_return_error := ''Undefined check connection error'', ea_ok := False\<rparr>,
      Inl GenericException)"
    unfolding check_trading_allowed_def ea_call_def Let_def send process_response_def parse
    by (simp add: item_def accepted_def) (simp add: make_message_def)
next
  show "check_terminal_server_connection (adviser_link False t) ea = (accepted ''F011^1^'' ea, Inr False)"
    unfolding check_terminal_server_connection_def
    by (subst known_call [where tag = "''1''" and vals = "[if terminal_connected t then ''CONNECTED'' else ''DISCONNECTED'']"])
       (simp_all add: ProcessRequest_def CheckTerminalServerConnection_def caret_def make_message_def ascii_def item_def)
qed


definition account_values :: "'d terminal \<Rightarrow> string list" where
  "account_values t =
     [account_name t, int_str (account_login t), account_currency t, int_str (account_trade_mode t),
      int_str (account_leverage t), BoolToString (account_trade_allowed t), int_str (account_limit_orders t),
      double_text t (margin_so_call t) 8, double_text t (margin_so_so t) 8, account_company t]"

text \<open>
  C22: the account comes back exactly as the terminal has it when no text of it is empty; with one text empty the
  values after it move up and the last one is missing, and the request raises.
\<close>

theorem account_read_back:
  assumes "\<forall>v \<in> set (account_values t). caret \<notin> set v"
    and "ascii (GetStaticAccountInfo t)" and "length (GetStaticAccountInfo t) \<le> 1024"
  shows "get_static_account_info (adviser_link False t) ea =
    (if [] \<in> set (account_values t)
     then ((accepted ''F001^1^'' ea)\<lparr>ea_return_error := ''Undefined check connection error'', ea_ok := False\<rparr>,
           Inl GenericException)
     else (accepted ''F001^1^'' ea,
           Inr (Some (zip [''name'', ''login'', ''currency'', ''type'', ''leverage'', ''trade_allowed'', ''limit_orders'',
                           ''margin_call'', ''margin_close'', ''company''] (map JStr (account_values t))))))"
proof -
  let ?vs = "filter (\<lambda>v. v \<noteq> []) (account_values t)"
  have msg: "GetStaticAccountInfo t = make_message ''F001'' ''10'' (account_values t)"
    by (simp add: GetStaticAccountInfo_def account_values_def)
  have call: "get_static_account_info (adviser_link False t) ea =
     (case bindR (read_dict static_account_info_layout ?vs) (\<lambda>x. Inr (Some x)) of
       Inr x \<Rightarrow> (accepted (make_message ''F001'' ''1'' []) ea, Inr x)
     | Inl _ \<Rightarrow> ((accepted (make_message ''F001'' ''1'' []) ea)\<lparr>ea_return_error := ea_error ''00001'', ea_ok := False\<rparr>,
                  Inl GenericException))"
    unfolding get_static_account_info_def ea_optional_def
    by (rule known_call [where tag = "''10''"])
       (use assms msg in \<open>simp_all add: ProcessRequest_def caret_def\<close>)
  show ?thesis
  proof (cases "[] \<in> set (account_values t)")
    case True
    then have "length ?vs < length (account_values t)" by (intro length_filter_less) auto
    then have "length ?vs \<le> 9" by (simp add: account_values_def)
    then have "\<exists>e. read_dict static_account_info_layout ?vs = Inl e"
      using read_dict_items [of static_account_info_layout ?vs _ "''company''" Text 9]
      by (cases "read_dict static_account_info_layout ?vs") (auto simp: static_account_info_layout_def)
    then show ?thesis using True call by (auto simp: make_message_def)
  next
    case False
    then have vs: "?vs = account_values t" by (auto simp: filter_id_conv)
    have "read_dict static_account_info_layout (account_values t) =
        Inr (zip [''name'', ''login'', ''currency'', ''type'', ''leverage'', ''trade_allowed'', ''limit_orders'',
                  ''margin_call'', ''margin_close'', ''company''] (map JStr (account_values t)))"
      by (simp add: read_dict_def static_account_info_layout_def read_entry_def item_def account_values_def)
    then show ?thesis using False call vs by (simp add: make_message_def)
  qed
qed

definition demo_terminal :: "string \<Rightarrow> unit terminal" where
  "demo_terminal company =
     \<lparr>double_text = (\<lambda>_ _. ''50.0''), time_current = 60, account_name = ''Demo'', account_login = 7,
      account_currency = ''USD'', account_trade_mode = 0, account_leverage = 100, account_trade_allowed = True,
      account_limit_orders = 200, margin_so_call = (), margin_so_so = (), account_company = company,
      account_balance = (), account_equity = (), account_profit = (), account_margin = (), account_margin_level = (),
      account_margin_free = (), terminal_name = ''MetaTrader 5'', terminal_connected = True,
      symbol_select = (\<lambda>_. True), symbol_trade_disabled = (\<lambda>_. False), symbol_integer = (\<lambda>_ _. 5),
      symbol_double = (\<lambda>_ _. ()), symbol_tick = (\<lambda>_. None)\<rparr>"

lemma account_read_back_witness:
  "snd (get_static_account_info (adviser_link False (demo_terminal [])) ea_init) = Inl GenericException \<and>
   (\<exists>d. snd (get_static_account_info (adviser_link False (demo_terminal ''Broker'')) ea_init) = Inr (Some d) \<and>
        dict_get d ''company'' = Some (JStr ''Broker'') \<and> dict_get d ''login'' = Some (JStr ''7''))"
proof -
  have free: "\<forall>v \<in> set (account_values (demo_terminal c)). caret \<notin> set v" if "c = [] \<or> c = ''Broker''" for c
    using that caret_notin_int_str by (auto simp: account_values_def demo_terminal_def caret_def BoolToString_def)
  have plain_text: "ascii (GetStaticAccountInfo (demo_terminal c))" if "c = [] \<or> c = ''Broker''" for c
    using that ascii_int_str by (auto simp: GetStaticAccountInfo_def demo_terminal_def make_message_def BoolToString_def ascii_def)
  have "length (int_str 7) = 1" "length (int_str 0) = 1" "length (int_str 100) = 3" "length (int_str 200) = 3" by code_simp+
  then have short: "length (GetStaticAccountInfo (demo_terminal c)) \<le> 1024" if "c = [] \<or> c = ''Broker''" for c
    using that by (auto simp: GetStaticAccountInfo_def demo_terminal_def make_message_def BoolToString_def)
  have c: "[] = [] \<or> [] = ''Broker''" "''Broker'' = [] \<or> ''Broker'' = ''Broker''" by simp_all
  have seven: "int_str 7 = ''7''" by code_simp
  show ?thesis
    unfolding account_read_back [OF free [OF c(1)] plain_text [OF c(1)] short [OF c(1)]]
      account_read_back [OF free [OF c(2)] plain_text [OF c(2)] short [OF c(2)]]
    by (simp add: account_values_def demo_terminal_def BoolToString_def int_str_not_Nil [THEN not_sym] seven)
qed

end
