(* ===== verification/Terminal_Bridge.thy ===== *)
theory Terminal_Bridge
  imports Py_Json
begin

text \<open>
  The wrapper of the remote terminal (\<^verbatim>\<open>metatrader5/MetaTrader5.py\<close>), the conversion of what it receives
  (\<^verbatim>\<open>normalize_rpyc_return\<close> and the other functions of \<^verbatim>\<open>metatrader5/utils.py\<close>) and the wrapper of a local
  terminal (\<^verbatim>\<open>metatrader5/local_python.py\<close>). The RPyC connection, the copying of a remote object and the module
  of a local terminal are parameters.
\<close>

section \<open>Values that cross the bridge\<close>

text \<open>
  The Python objects the conversion tells apart: scalars, objects with \<^verbatim>\<open>_asdict\<close> (named tuples), lists,
  tuples, sets, dictionaries, objects with a \<^verbatim>\<open>__dict__\<close>, and all others. A set is the list of its elements
  in the order of its iteration.
\<close>

datatype pyobj =
    PNone
  | PBool bool
  | PInt int
  | PFloat pyfloat
  | PStr string
  | PBytes string
  | PNamed "(string \<times> pyobj) list"
  | PList "pyobj list"
  | PTuple "pyobj list"
  | PSet "pyobj list"
  | PDict "(pyobj \<times> pyobj) list"
  | PObject "(string \<times> pyobj) list"
  | POpaque nat

text \<open>
  \<^verbatim>\<open>normalize_rpyc_return\<close>: \<open>obtain_copy\<close> is \<^verbatim>\<open>rpyc.classic.obtain\<close>, whose exceptions are dropped, and \<open>depth\<close> is
  what is left of the depth the interpreter allows a recursion; past it the call raises \<^verbatim>\<open>RecursionError\<close>, a
  \<^verbatim>\<open>RuntimeError\<close>.
\<close>

definition local_copy :: "(pyobj \<Rightarrow> pyobj result) \<Rightarrow> pyobj \<Rightarrow> pyobj" where
  "local_copy obtain_copy x = (case obtain_copy x of Inr y \<Rightarrow> y | Inl _ \<Rightarrow> x)"

definition public_attributes :: "(string \<times> pyobj) list \<Rightarrow> (string \<times> pyobj) list" where
  "public_attributes fs = filter (\<lambda>(k, v). \<not> startswith k ''_'') fs"

fun normalize_rpyc_return :: "(pyobj \<Rightarrow> pyobj result) \<Rightarrow> nat \<Rightarrow> pyobj \<Rightarrow> pyobj result" where
  "normalize_rpyc_return obtain_copy 0 x = Inl RuntimeError"
| "normalize_rpyc_return obtain_copy (Suc depth) x =
     (case local_copy obtain_copy x of
        PNamed fs \<Rightarrow> normalize_rpyc_return obtain_copy depth (PDict (map (\<lambda>(k, v). (PStr k, v)) fs))
      | PList xs \<Rightarrow> bindR (traverse (normalize_rpyc_return obtain_copy depth) xs) (\<lambda>ys. Inr (PList ys))
      | PTuple xs \<Rightarrow> bindR (traverse (normalize_rpyc_return obtain_copy depth) xs) (\<lambda>ys. Inr (PTuple ys))
      | PSet xs \<Rightarrow> bindR (traverse (normalize_rpyc_return obtain_copy depth) xs) (\<lambda>ys. Inr (PList ys))
      | PDict kvs \<Rightarrow>
          bindR (traverse (\<lambda>(k, v). bindR (normalize_rpyc_return obtain_copy depth v) (\<lambda>w. Inr (k, w))) kvs)
            (\<lambda>kws. Inr (PDict kws))
      | PObject fs \<Rightarrow>
          bindR (traverse (\<lambda>(k, v). bindR (normalize_rpyc_return obtain_copy depth v) (\<lambda>w. Inr (PStr k, w)))
                   (public_attributes fs))
            (\<lambda>kws. Inr (PDict kws))
      | y \<Rightarrow> Inr y)"

section \<open>Constants\<close>

definition session_constants :: "(string, int) dict" where
  "session_constants =
    [(''ACCOUNT_MARGIN_MODE_RETAIL_NETTING'', 0), (''ACCOUNT_MARGIN_MODE_EXCHANGE'', 1),
     (''ACCOUNT_MARGIN_MODE_RETAIL_HEDGING'', 2), (''ACCOUNT_STOPOUT_MODE_PERCENT'', 0),
     (''ACCOUNT_STOPOUT_MODE_MONEY'', 1), (''ACCOUNT_TRADE_MODE_DEMO'', 0),
     (''ACCOUNT_TRADE_MODE_CONTEST'', 1), (''ACCOUNT_TRADE_MODE_REAL'', 2), (''COPY_TICKS_ALL'', -1),
     (''COPY_TICKS_INFO'', 1), (''COPY_TICKS_TRADE'', 2), (''DAY_OF_WEEK_SUNDAY'', 0),
     (''DAY_OF_WEEK_MONDAY'', 1), (''DAY_OF_WEEK_TUESDAY'', 2), (''DAY_OF_WEEK_WEDNESDAY'', 3),
     (''DAY_OF_WEEK_THURSDAY'', 4), (''DAY_OF_WEEK_FRIDAY'', 5), (''DAY_OF_WEEK_SATURDAY'', 6),
     (''DEAL_DIVIDEND'', 15), (''DEAL_DIVIDEND_FRANKED'', 16), (''DEAL_ENTRY_IN'', 0),
     (''DEAL_ENTRY_OUT'', 1), (''DEAL_ENTRY_INOUT'', 2), (''DEAL_ENTRY_OUT_BY'', 3),
     (''DEAL_REASON_CLIENT'', 0), (''DEAL_REASON_MOBILE'', 1), (''DEAL_REASON_WEB'', 2),
     (''DEAL_REASON_EXPERT'', 3), (''DEAL_REASON_SL'', 4), (''DEAL_REASON_TP'', 5),
     (''DEAL_REASON_SO'', 6), (''DEAL_REASON_ROLLOVER'', 7), (''DEAL_REASON_VMARGIN'', 8),
     (''DEAL_REASON_SPLIT'', 9), (''DEAL_TAX'', 17), (''DEAL_TYPE_BUY'', 0), (''DEAL_TYPE_SELL'', 1),
     (''DEAL_TYPE_BALANCE'', 2), (''DEAL_TYPE_CREDIT'', 3), (''DEAL_TYPE_CHARGE'', 4),
     (''DEAL_TYPE_CORRECTION'', 5), (''DEAL_TYPE_BONUS'', 6), (''DEAL_TYPE_COMMISSION'', 7),
     (''DEAL_TYPE_COMMISSION_DAILY'', 8), (''DEAL_TYPE_COMMISSION_MONTHLY'', 9),
     (''DEAL_TYPE_COMMISSION_AGENT_DAILY'', 10), (''DEAL_TYPE_COMMISSION_AGENT_MONTHLY'', 11),
     (''DEAL_TYPE_INTEREST'', 12), (''DEAL_TYPE_BUY_CANCELED'', 13), (''DEAL_TYPE_SELL_CANCELED'', 14),
     (''ORDER_REASON_CLIENT'', 0), (''ORDER_REASON_MOBILE'', 1), (''ORDER_REASON_WEB'', 2),
     (''ORDER_REASON_EXPERT'', 3), (''ORDER_REASON_SL'', 4), (''ORDER_REASON_TP'', 5),
     (''ORDER_REASON_SO'', 6), (''ORDER_STATE_STARTED'', 0), (''ORDER_STATE_PLACED'', 1),
     (''ORDER_STATE_CANCELED'', 2), (''ORDER_STATE_PARTIAL'', 3), (''ORDER_STATE_FILLED'', 4),
     (''ORDER_STATE_REJECTED'', 5), (''ORDER_STATE_EXPIRED'', 6), (''ORDER_STATE_REQUEST_ADD'', 7),
     (''ORDER_STATE_REQUEST_MODIFY'', 8), (''ORDER_STATE_REQUEST_CANCEL'', 9),
     (''POSITION_REASON_CLIENT'', 0), (''POSITION_REASON_MOBILE'', 1), (''POSITION_REASON_WEB'', 2),
     (''POSITION_REASON_EXPERT'', 3), (''POSITION_TYPE_BUY'', 0), (''POSITION_TYPE_SELL'', 1),
     (''RES_E_INTERNAL_FAIL_TIMEOUT'', -10005), (''RES_E_INTERNAL_FAIL_CONNECT'', -10004),
     (''RES_E_INTERNAL_FAIL_INIT'', -10003), (''RES_E_INTERNAL_FAIL_RECEIVE'', -10002),
     (''RES_E_INTERNAL_FAIL_SEND'', -10001), (''RES_E_INTERNAL_FAIL'', -10000),
     (''RES_E_AUTO_TRADING_DISABLED'', -8), (''RES_E_UNSUPPORTED'', -7), (''RES_E_AUTH_FAILED'', -6),
     (''RES_E_INVALID_VERSION'', -5), (''RES_E_NOT_FOUND'', -4), (''RES_E_NO_MEMORY'', -3),
     (''RES_E_FAIL'', -1), (''RES_E_INVALID_PARAMS'', -2), (''RES_S_OK'', 1)]"

definition market_constants :: "(string, int) dict" where
  "market_constants =
    [(''SYMBOL_CALC_MODE_FOREX'', 0), (''SYMBOL_CALC_MODE_FUTURES'', 1), (''SYMBOL_CALC_MODE_CFD'', 2),
     (''SYMBOL_CALC_MODE_CFDINDEX'', 3), (''SYMBOL_CALC_MODE_CFDLEVERAGE'', 4),
     (''SYMBOL_CALC_MODE_FOREX_NO_LEVERAGE'', 5), (''SYMBOL_CALC_MODE_EXCH_STOCKS'', 32),
     (''SYMBOL_CALC_MODE_EXCH_FUTURES'', 33), (''SYMBOL_CALC_MODE_EXCH_OPTIONS'', 34),
     (''SYMBOL_CALC_MODE_EXCH_OPTIONS_MARGIN'', 36), (''SYMBOL_CALC_MODE_EXCH_BONDS'', 37),
     (''SYMBOL_CALC_MODE_EXCH_STOCKS_MOEX'', 38), (''SYMBOL_CALC_MODE_EXCH_BONDS_MOEX'', 39),
     (''SYMBOL_CALC_MODE_SERV_COLLATERAL'', 64), (''SYMBOL_CHART_MODE_BID'', 0),
     (''SYMBOL_CHART_MODE_LAST'', 1), (''SYMBOL_OPTION_MODE_EUROPEAN'', 0),
     (''SYMBOL_OPTION_MODE_AMERICAN'', 1), (''SYMBOL_OPTION_RIGHT_CALL'', 0),
     (''SYMBOL_OPTION_RIGHT_PUT'', 1), (''SYMBOL_ORDERS_GTC'', 0), (''SYMBOL_ORDERS_DAILY'', 1),
     (''SYMBOL_ORDERS_DAILY_NO_STOPS'', 2), (''SYMBOL_SWAP_MODE_DISABLED'', 0),
     (''SYMBOL_SWAP_MODE_POINTS'', 1), (''SYMBOL_SWAP_MODE_CURRENCY_SYMBOL'', 2),
     (''SYMBOL_SWAP_MODE_CURRENCY_MARGIN'', 3), (''SYMBOL_SWAP_MODE_CURRENCY_DEPOSIT'', 4),
     (''SYMBOL_SWAP_MODE_INTEREST_CURRENT'', 5), (''SYMBOL_SWAP_MODE_INTEREST_OPEN'', 6),
     (''SYMBOL_SWAP_MODE_REOPEN_CURRENT'', 7), (''SYMBOL_SWAP_MODE_REOPEN_BID'', 8),
     (''SYMBOL_TRADE_EXECUTION_REQUEST'', 0), (''SYMBOL_TRADE_EXECUTION_INSTANT'', 1),
     (''SYMBOL_TRADE_EXECUTION_MARKET'', 2), (''SYMBOL_TRADE_EXECUTION_EXCHANGE'', 3),
     (''SYMBOL_TRADE_MODE_DISABLED'', 0), (''SYMBOL_TRADE_MODE_LONGONLY'', 1),
     (''SYMBOL_TRADE_MODE_SHORTONLY'', 2), (''SYMBOL_TRADE_MODE_CLOSEONLY'', 3),
     (''SYMBOL_TRADE_MODE_FULL'', 4), (''TICK_FLAG_BID'', 2), (''TICK_FLAG_ASK'', 4),
     (''TICK_FLAG_LAST'', 8), (''TICK_FLAG_VOLUME'', 16), (''TICK_FLAG_BUY'', 32),
     (''TICK_FLAG_SELL'', 64), (''TIMEFRAME_M1'', 1), (''TIMEFRAME_M2'', 2), (''TIMEFRAME_M3'', 3),
     (''TIMEFRAME_M4'', 4), (''TIMEFRAME_M5'', 5), (''TIMEFRAME_M6'', 6), (''TIMEFRAME_M10'', 10),
     (''TIMEFRAME_M12'', 12), (''TIMEFRAME_M15'', 15), (''TIMEFRAME_M20'', 20), (''TIMEFRAME_M30'', 30),
     (''TIMEFRAME_H1'', 16385), (''TIMEFRAME_H2'', 16386), (''TIMEFRAME_H3'', 16387),
     (''TIMEFRAME_H4'', 16388), (''TIMEFRAME_H6'', 16390), (''TIMEFRAME_H8'', 16392),
     (''TIMEFRAME_H12'', 16396), (''TIMEFRAME_D1'', 16408), (''TIMEFRAME_W1'', 32769),
     (''TIMEFRAME_MN1'', 49153)]"

definition trade_constants :: "(string, int) dict" where
  "trade_constants =
    [(''TRADE_RETCODE_REQUOTE'', 10004), (''TRADE_RETCODE_REJECT'', 10006),
     (''TRADE_RETCODE_CANCEL'', 10007), (''TRADE_RETCODE_PLACED'', 10008), (''TRADE_RETCODE_DONE'', 10009),
     (''TRADE_RETCODE_DONE_PARTIAL'', 10010), (''TRADE_RETCODE_ERROR'', 10011),
     (''TRADE_RETCODE_TIMEOUT'', 10012), (''TRADE_RETCODE_INVALID'', 10013),
     (''TRADE_RETCODE_INVALID_VOLUME'', 10014), (''TRADE_RETCODE_INVALID_PRICE'', 10015),
     (''TRADE_RETCODE_INVALID_STOPS'', 10016), (''TRADE_RETCODE_TRADE_DISABLED'', 10017),
     (''TRADE_RETCODE_MARKET_CLOSED'', 10018), (''TRADE_RETCODE_NO_MONEY'', 10019),
     (''TRADE_RETCODE_PRICE_CHANGED'', 10020), (''TRADE_RETCODE_PRICE_OFF'', 10021),
     (''TRADE_RETCODE_INVALID_EXPIRATION'', 10022), (''TRADE_RETCODE_ORDER_CHANGED'', 10023),
     (''TRADE_RETCODE_TOO_MANY_REQUESTS'', 10024), (''TRADE_RETCODE_NO_CHANGES'', 10025),
     (''TRADE_RETCODE_SERVER_DISABLES_AT'', 10026), (''TRADE_RETCODE_CLIENT_DISABLES_AT'', 10027),
     (''TRADE_RETCODE_LOCKED'', 10028), (''TRADE_RETCODE_FROZEN'', 10029),
     (''TRADE_RETCODE_INVALID_FILL'', 10030), (''TRADE_RETCODE_CONNECTION'', 10031),
     (''TRADE_RETCODE_ONLY_REAL'', 10032), (''TRADE_RETCODE_LIMIT_ORDERS'', 10033),
     (''TRADE_RETCODE_LIMIT_VOLUME'', 10034), (''TRADE_RETCODE_INVALID_ORDER'', 10035),
     (''TRADE_RETCODE_POSITION_CLOSED'', 10036), (''TRADE_RETCODE_INVALID_CLOSE_VOLUME'', 10038),
     (''TRADE_RETCODE_CLOSE_ORDER_EXIST'', 10039), (''TRADE_RETCODE_LIMIT_POSITIONS'', 10040),
     (''TRADE_RETCODE_REJECT_CANCEL'', 10041), (''TRADE_RETCODE_LONG_ONLY'', 10042),
     (''TRADE_RETCODE_SHORT_ONLY'', 10043), (''TRADE_RETCODE_CLOSE_ONLY'', 10044),
     (''TRADE_RETCODE_FIFO_CLOSE'', 10045), (''TRADE_RETCODE_HEDGE_PROHIBITED'', 10046),
     (''BOOK_TYPE_SELL'', 1), (''BOOK_TYPE_BUY'', 2), (''BOOK_TYPE_SELL_MARKET'', 3),
     (''BOOK_TYPE_BUY_MARKET'', 4), (''ORDER_TYPE_BUY'', 0), (''ORDER_TYPE_SELL'', 1),
     (''ORDER_TYPE_BUY_LIMIT'', 2), (''ORDER_TYPE_SELL_LIMIT'', 3), (''ORDER_TYPE_BUY_STOP'', 4),
     (''ORDER_TYPE_SELL_STOP'', 5), (''ORDER_TYPE_BUY_STOP_LIMIT'', 6),
     (''ORDER_TYPE_SELL_STOP_LIMIT'', 7), (''ORDER_TYPE_CLOSE_BY'', 8), (''TRADE_ACTION_DEAL'', 1),
     (''TRADE_ACTION_PENDING'', 5), (''TRADE_ACTION_SLTP'', 6), (''TRADE_ACTION_MODIFY'', 7),
     (''TRADE_ACTION_REMOVE'', 8), (''TRADE_ACTION_CLOSE_BY'', 10), (''ORDER_FILLING_FOK'', 0),
     (''ORDER_FILLING_IOC'', 1), (''ORDER_FILLING_RETURN'', 2), (''ORDER_TIME_GTC'', 0),
     (''ORDER_TIME_DAY'', 1), (''ORDER_TIME_SPECIFIED'', 2), (''ORDER_TIME_SPECIFIED_DAY'', 3)]"

section \<open>The wrapper of the remote terminal\<close>

datatype remote_call = Exposed string "pyobj list" "(string, pyobj) dict" | Evaluate string | Execute string

text \<open>
  What is on the other side: the answer to a call, the copying of objects, and the depth the interpreter
  leaves the conversion. A method the service does not expose answers \<^verbatim>\<open>AttributeError\<close>.
\<close>

record gateway_link =
  gl_call :: "remote_call \<Rightarrow> pyobj result"
  gl_obtain :: "pyobj \<Rightarrow> pyobj result"
  gl_depth :: nat

record bridge =
  br_id :: int
  br_connected :: bool
  br_calls :: "remote_call list"

text \<open>\<^verbatim>\<open>MetaTrader5.__init__\<close>; \<open>connects\<close> is the outcome of \<^verbatim>\<open>rpyc.connect\<close>.\<close>

definition bridge_init :: "unit result \<Rightarrow> bridge result" where
  "bridge_init connects =
     (case connects of
        Inr _ \<Rightarrow> Inr \<lparr>br_id = 1, br_connected = True, br_calls = []\<rparr>
      | Inl ConnectionError \<Rightarrow> Inl RuntimeError
      | Inl TimeoutError \<Rightarrow> Inl RuntimeError
      | Inl e \<Rightarrow> Inl e)"

definition missing_method :: "'a result \<Rightarrow> 'a result" where
  "missing_method r = (case r of Inl AttributeError \<Rightarrow> Inl RuntimeError | _ \<Rightarrow> r)"

text \<open>
  The body of every method: the call on the root of the connection and the conversion of its result. Without a
  connection the attribute of \<^verbatim>\<open>None\<close> is missing as well.
\<close>

definition remote_result :: "gateway_link \<Rightarrow> remote_call \<Rightarrow> bridge \<Rightarrow> bridge \<times> pyobj result" where
  "remote_result link c b =
     (if br_connected b then
        (b\<lparr>br_calls := br_calls b @ [c]\<rparr>,
         missing_method (bindR (gl_call link c) (normalize_rpyc_return (gl_obtain link) (gl_depth link))))
      else (b, missing_method (Inl AttributeError)))"

definition exposed_call ::
    "gateway_link \<Rightarrow> string \<Rightarrow> pyobj list \<Rightarrow> (string, pyobj) dict \<Rightarrow> bridge \<Rightarrow> bridge \<times> pyobj result" where
  "exposed_call link name args kwargs = remote_result link (Exposed name args kwargs)"

definition mt5_initialize ::
    "gateway_link \<Rightarrow> pyobj list \<Rightarrow> (string, pyobj) dict \<Rightarrow> bridge \<Rightarrow> bridge \<times> pyobj result" where
  "mt5_initialize link args kwargs = exposed_call link ''exposed_initialize'' args kwargs"

definition mt5_login ::
    "gateway_link \<Rightarrow> pyobj list \<Rightarrow> (string, pyobj) dict \<Rightarrow> bridge \<Rightarrow> bridge \<times> pyobj result" where
  "mt5_login link args kwargs = exposed_call link ''exposed_login'' args kwargs"

definition mt5_shutdown ::
    "gateway_link \<Rightarrow> pyobj list \<Rightarrow> (string, pyobj) dict \<Rightarrow> bridge \<Rightarrow> bridge \<times> pyobj result" where
  "mt5_shutdown link args kwargs = exposed_call link ''exposed_shutdown'' args kwargs"

definition mt5_version ::
    "gateway_link \<Rightarrow> pyobj list \<Rightarrow> (string, pyobj) dict \<Rightarrow> bridge \<Rightarrow> bridge \<times> pyobj result" where
  "mt5_version link args kwargs = exposed_call link ''exposed_version'' args kwargs"

definition mt5_last_error ::
    "gateway_link \<Rightarrow> pyobj list \<Rightarrow> (string, pyobj) dict \<Rightarrow> bridge \<Rightarrow> bridge \<times> pyobj result" where
  "mt5_last_error link args kwargs = exposed_call link ''exposed_last_error'' args kwargs"

definition mt5_get_constant ::
    "gateway_link \<Rightarrow> pyobj list \<Rightarrow> (string, pyobj) dict \<Rightarrow> bridge \<Rightarrow> bridge \<times> pyobj result" where
  "mt5_get_constant link args kwargs = exposed_call link ''exposed_get_constant'' args kwargs"

definition mt5_account_info ::
    "gateway_link \<Rightarrow> pyobj list \<Rightarrow> (string, pyobj) dict \<Rightarrow> bridge \<Rightarrow> bridge \<times> pyobj result" where
  "mt5_account_info link args kwargs = exposed_call link ''exposed_account_info'' args kwargs"

definition mt5_terminal_info ::
    "gateway_link \<Rightarrow> pyobj list \<Rightarrow> (string, pyobj) dict \<Rightarrow> bridge \<Rightarrow> bridge \<times> pyobj result" where
  "mt5_terminal_info link args kwargs = exposed_call link ''exposed_terminal_info'' args kwargs"

definition mt5_symbols_total ::
    "gateway_link \<Rightarrow> pyobj list \<Rightarrow> (string, pyobj) dict \<Rightarrow> bridge \<Rightarrow> bridge \<times> pyobj result" where
  "mt5_symbols_total link args kwargs = exposed_call link ''exposed_symbols_total'' args kwargs"

definition mt5_symbols_get ::
    "gateway_link \<Rightarrow> pyobj list \<Rightarrow> (string, pyobj) dict \<Rightarrow> bridge \<Rightarrow> bridge \<times> pyobj result" where
  "mt5_symbols_get link args kwargs = exposed_call link ''exposed_symbols_get'' args kwargs"

definition mt5_symbol_info ::
    "gateway_link \<Rightarrow> pyobj list \<Rightarrow> (string, pyobj) dict \<Rightarrow> bridge \<Rightarrow> bridge \<times> pyobj result" where
  "mt5_symbol_info link args kwargs = exposed_call link ''exposed_symbol_info'' args kwargs"

definition mt5_symbol_info_tick ::
    "gateway_link \<Rightarrow> pyobj list \<Rightarrow> (string, pyobj) dict \<Rightarrow> bridge \<Rightarrow> bridge \<times> pyobj result" where
  "mt5_symbol_info_tick link args kwargs = exposed_call link ''exposed_symbol_info_tick'' args kwargs"

definition mt5_symbol_select ::
    "gateway_link \<Rightarrow> pyobj list \<Rightarrow> (string, pyobj) dict \<Rightarrow> bridge \<Rightarrow> bridge \<times> pyobj result" where
  "mt5_symbol_select link args kwargs = exposed_call link ''exposed_symbol_select'' args kwargs"

definition mt5_market_book_add ::
    "gateway_link \<Rightarrow> pyobj list \<Rightarrow> (string, pyobj) dict \<Rightarrow> bridge \<Rightarrow> bridge \<times> pyobj result" where
  "mt5_market_book_add link args kwargs = exposed_call link ''exposed_market_book_add'' args kwargs"

definition mt5_market_book_get ::
    "gateway_link \<Rightarrow> pyobj list \<Rightarrow> (string, pyobj) dict \<Rightarrow> bridge \<Rightarrow> bridge \<times> pyobj result" where
  "mt5_market_book_get link args kwargs = exposed_call link ''exposed_market_book_get'' args kwargs"

definition mt5_market_book_release ::
    "gateway_link \<Rightarrow> pyobj \<Rightarrow> pyobj list \<Rightarrow> (string, pyobj) dict \<Rightarrow> bridge \<Rightarrow> bridge \<times> pyobj result" where
  "mt5_market_book_release link symbol args kwargs = exposed_call link ''exposed_market_book_release'' (symbol # args) kwargs"

definition mt5_copy_rates_from_pos ::
    "gateway_link \<Rightarrow> pyobj list \<Rightarrow> (string, pyobj) dict \<Rightarrow> bridge \<Rightarrow> bridge \<times> pyobj result" where
  "mt5_copy_rates_from_pos link args kwargs = exposed_call link ''exposed_copy_rates_from_pos'' args kwargs"

definition mt5_copy_ticks_from ::
    "gateway_link \<Rightarrow> pyobj list \<Rightarrow> (string, pyobj) dict \<Rightarrow> bridge \<Rightarrow> bridge \<times> pyobj result" where
  "mt5_copy_ticks_from link args kwargs = exposed_call link ''exposed_copy_ticks_from'' args kwargs"

definition mt5_copy_ticks_range ::
    "gateway_link \<Rightarrow> pyobj list \<Rightarrow> (string, pyobj) dict \<Rightarrow> bridge \<Rightarrow> bridge \<times> pyobj result" where
  "mt5_copy_ticks_range link args kwargs = exposed_call link ''exposed_copy_ticks_range'' args kwargs"

definition mt5_orders_total ::
    "gateway_link \<Rightarrow> pyobj list \<Rightarrow> (string, pyobj) dict \<Rightarrow> bridge \<Rightarrow> bridge \<times> pyobj result" where
  "mt5_orders_total link args kwargs = exposed_call link ''exposed_orders_total'' args kwargs"

definition mt5_orders_get ::
    "gateway_link \<Rightarrow> pyobj list \<Rightarrow> (string, pyobj) dict \<Rightarrow> bridge \<Rightarrow> bridge \<times> pyobj result" where
  "mt5_orders_get link args kwargs = exposed_call link ''exposed_orders_get'' args kwargs"

definition mt5_order_calc_margin ::
    "gateway_link \<Rightarrow> pyobj list \<Rightarrow> (string, pyobj) dict \<Rightarrow> bridge \<Rightarrow> bridge \<times> pyobj result" where
  "mt5_order_calc_margin link args kwargs = exposed_call link ''exposed_order_calc_margin'' args kwargs"

definition mt5_order_calc_profit ::
    "gateway_link \<Rightarrow> pyobj list \<Rightarrow> (string, pyobj) dict \<Rightarrow> bridge \<Rightarrow> bridge \<times> pyobj result" where
  "mt5_order_calc_profit link args kwargs = exposed_call link ''exposed_order_calc_profit'' args kwargs"

definition mt5_order_check ::
    "gateway_link \<Rightarrow> pyobj list \<Rightarrow> (string, pyobj) dict \<Rightarrow> bridge \<Rightarrow> bridge \<times> pyobj result" where
  "mt5_order_check link args kwargs = exposed_call link ''exposed_order_check'' args kwargs"

definition mt5_order_send ::
    "gateway_link \<Rightarrow> pyobj \<Rightarrow> pyobj list \<Rightarrow> (string, pyobj) dict \<Rightarrow> bridge \<Rightarrow> bridge \<times> pyobj result" where
  "mt5_order_send link request args kwargs = exposed_call link ''exposed_order_send'' (request # args) kwargs"

definition mt5_positions_total ::
    "gateway_link \<Rightarrow> pyobj list \<Rightarrow> (string, pyobj) dict \<Rightarrow> bridge \<Rightarrow> bridge \<times> pyobj result" where
  "mt5_positions_total link args kwargs = exposed_call link ''exposed_positions_total'' args kwargs"

definition mt5_positions_get ::
    "gateway_link \<Rightarrow> pyobj list \<Rightarrow> (string, pyobj) dict \<Rightarrow> bridge \<Rightarrow> bridge \<times> pyobj result" where
  "mt5_positions_get link args kwargs = exposed_call link ''exposed_positions_get'' args kwargs"

definition mt5_history_orders_total ::
    "gateway_link \<Rightarrow> pyobj \<Rightarrow> pyobj \<Rightarrow> pyobj list \<Rightarrow> (string, pyobj) dict \<Rightarrow> bridge \<Rightarrow> bridge \<times> pyobj result" where
  "mt5_history_orders_total link date_from date_to args kwargs = exposed_call link ''exposed_history_orders_total'' (date_from # date_to # args) kwargs"

definition mt5_history_orders_get ::
    "gateway_link \<Rightarrow> pyobj list \<Rightarrow> (string, pyobj) dict \<Rightarrow> bridge \<Rightarrow> bridge \<times> pyobj result" where
  "mt5_history_orders_get link args kwargs = exposed_call link ''exposed_history_orders_get'' args kwargs"

definition mt5_history_deals_total ::
    "gateway_link \<Rightarrow> pyobj \<Rightarrow> pyobj \<Rightarrow> pyobj list \<Rightarrow> (string, pyobj) dict \<Rightarrow> bridge \<Rightarrow> bridge \<times> pyobj result" where
  "mt5_history_deals_total link date_from date_to args kwargs = exposed_call link ''exposed_history_deals_total'' (date_from # date_to # args) kwargs"

definition mt5_history_deals_get ::
    "gateway_link \<Rightarrow> pyobj list \<Rightarrow> (string, pyobj) dict \<Rightarrow> bridge \<Rightarrow> bridge \<times> pyobj result" where
  "mt5_history_deals_get link args kwargs = exposed_call link ''exposed_history_deals_get'' args kwargs"

definition mt5_disconnect :: "bridge \<Rightarrow> bridge" where
  "mt5_disconnect b = b\<lparr>br_connected := False\<rparr>"

text \<open>\<^verbatim>\<open>req_ids\<close> asks only a service that has the method, drops the answer and every exception.\<close>

definition mt5_req_ids ::
    "bool \<Rightarrow> gateway_link \<Rightarrow> pyobj list \<Rightarrow> (string, pyobj) dict \<Rightarrow> bridge \<Rightarrow> bridge" where
  "mt5_req_ids exposed link args kwargs b =
     (if br_connected b \<and> exposed then b\<lparr>br_calls := br_calls b @ [Exposed ''exposed_req_ids'' args kwargs]\<rparr> else b)"

text \<open>
  The two queries that are sent as source text. Dates are given as the text of their representation; the symbol
  and the numbers are put into the text as they are.
\<close>

definition dq_text :: "string \<Rightarrow> string" where
  "dq_text s = [CHR 0x22] @ s @ [CHR 0x22]"

definition copy_rates_from_code :: "string \<Rightarrow> int \<Rightarrow> string \<Rightarrow> int \<Rightarrow> string" where
  "copy_rates_from_code symbol timeframe date_from count =
     ''mt5.copy_rates_from('' @ dq_text symbol @ '', '' @ int_str timeframe @ '', '' @ date_from @ '', '' @ int_str count @ '')''"

definition mt5_copy_rates_from ::
    "gateway_link \<Rightarrow> string \<Rightarrow> int \<Rightarrow> string \<Rightarrow> int \<Rightarrow> bridge \<Rightarrow> bridge \<times> pyobj result" where
  "mt5_copy_rates_from link symbol timeframe date_from count =
     remote_result link (Evaluate (copy_rates_from_code symbol timeframe date_from count))"

definition copy_rates_range_code :: "string \<Rightarrow> int \<Rightarrow> string \<Rightarrow> string \<Rightarrow> string" where
  "copy_rates_range_code symbol timeframe date_from date_to =
     ''mt5.copy_rates_range('' @ dq_text symbol @ '', '' @ int_str timeframe @ '', '' @ date_from @ '', '' @ date_to @ '')''"

definition mt5_copy_rates_range ::
    "gateway_link \<Rightarrow> string \<Rightarrow> int \<Rightarrow> string \<Rightarrow> string \<Rightarrow> bridge \<Rightarrow> bridge \<times> pyobj result" where
  "mt5_copy_rates_range link symbol timeframe date_from date_to =
     remote_result link (Evaluate (copy_rates_range_code symbol timeframe date_from date_to))"

text \<open>\<^verbatim>\<open>eval\<close> and \<^verbatim>\<open>execute\<close> pass text on without converting the answer; without a connection they raise.\<close>

definition mt5_eval :: "gateway_link \<Rightarrow> string \<Rightarrow> bridge \<Rightarrow> bridge \<times> pyobj result" where
  "mt5_eval link command b =
     (if br_connected b then (b\<lparr>br_calls := br_calls b @ [Evaluate command]\<rparr>, gl_call link (Evaluate command))
      else (b, Inl AttributeError))"

definition mt5_execute :: "gateway_link \<Rightarrow> string \<Rightarrow> bridge \<Rightarrow> bridge \<times> unit result" where
  "mt5_execute link command b =
     (if br_connected b then
        (b\<lparr>br_calls := br_calls b @ [Execute command]\<rparr>, bindR (gl_call link (Execute command)) (\<lambda>_. Inr ()))
      else (b, Inl AttributeError))"

definition mt5_is_connected :: "bridge \<Rightarrow> bool" where
  "mt5_is_connected b = True"

section \<open>The wrapper of a local terminal\<close>

text \<open>
  The calls of the official module: its function, positional and named arguments. Loading it is the first thing
  the constructor does; \<open>windows\<close> and \<open>installed\<close> are the platform and the presence of the package.
\<close>

type_synonym local_module = "string \<Rightarrow> pyobj list \<Rightarrow> (string, pyobj) dict \<Rightarrow> pyobj result"

record local_terminal =
  lt_path :: "string option"
  lt_login :: "int option"
  lt_password :: "string option"
  lt_server :: "string option"
  lt_timeout :: int
  lt_portable :: bool

definition load_mt5_module :: "bool \<Rightarrow> bool \<Rightarrow> unit result" where
  "load_mt5_module windows installed =
     (if \<not> windows then Inl RuntimeError else if \<not> installed then Inl RuntimeError else Inr ())"

definition local_init :: "bool \<Rightarrow> bool \<Rightarrow> local_terminal \<Rightarrow> local_terminal result" where
  "local_init windows installed t = bindR (load_mt5_module windows installed) (\<lambda>_. Inr t)"

fun dict_update :: "('k, 'v) dict \<Rightarrow> ('k, 'v) dict \<Rightarrow> ('k, 'v) dict" where
  "dict_update d [] = d"
| "dict_update d ((k, v) # e) = dict_update (dict_set k v d) e"

definition initialize_kwargs :: "local_terminal \<Rightarrow> (string, pyobj) dict \<Rightarrow> (string, pyobj) dict" where
  "initialize_kwargs t kwargs =
     (let given = (\<lambda>k f x. case x of None \<Rightarrow> [] | Some y \<Rightarrow> [(k, f y)])
      in dict_update
           (given ''path'' PStr (lt_path t) @ (case lt_login t of None \<Rightarrow> [] | Some i \<Rightarrow> [(''login'', PInt i)]) @
            given ''password'' PStr (lt_password t) @ given ''server'' PStr (lt_server t) @
            [(''timeout'', PInt (lt_timeout t)), (''portable'', PBool (lt_portable t))])
           kwargs)"

definition local_initialize :: "local_module \<Rightarrow> local_terminal \<Rightarrow> pyobj list \<Rightarrow> (string, pyobj) dict \<Rightarrow> pyobj result" where
  "local_initialize mt5 t args kwargs = mt5 ''initialize'' args (initialize_kwargs t kwargs)"

definition local_login :: "local_module \<Rightarrow> int \<Rightarrow> string \<Rightarrow> string \<Rightarrow> int \<Rightarrow> pyobj result" where
  "local_login mt5 login password server timeout =
     mt5 ''login'' [PInt login] [(''password'', PStr password), (''server'', PStr server), (''timeout'', PInt timeout)]"

definition local_shutdown :: "local_module \<Rightarrow> unit result" where
  "local_shutdown mt5 = bindR (mt5 ''shutdown'' [] []) (\<lambda>_. Inr ())"

definition local_last_error :: "local_module \<Rightarrow> pyobj result" where
  "local_last_error mt5 = mt5 ''last_error'' [] []"

definition local_version :: "local_module \<Rightarrow> pyobj result" where
  "local_version mt5 = mt5 ''version'' [] []"

definition local_terminal_info :: "local_module \<Rightarrow> pyobj result" where
  "local_terminal_info mt5 = mt5 ''terminal_info'' [] []"

definition local_account_info :: "local_module \<Rightarrow> pyobj result" where
  "local_account_info mt5 = mt5 ''account_info'' [] []"

definition local_symbols_get :: "local_module \<Rightarrow> string \<Rightarrow> pyobj result" where
  "local_symbols_get mt5 grp = mt5 ''symbols_get'' (if grp \<noteq> [] then [PStr grp] else []) []"

definition local_symbol_info :: "local_module \<Rightarrow> string \<Rightarrow> pyobj result" where
  "local_symbol_info mt5 symbol = mt5 ''symbol_info'' [PStr symbol] []"

definition local_symbol_info_tick :: "local_module \<Rightarrow> string \<Rightarrow> pyobj result" where
  "local_symbol_info_tick mt5 symbol = mt5 ''symbol_info_tick'' [PStr symbol] []"

definition local_symbol_select :: "local_module \<Rightarrow> string \<Rightarrow> bool \<Rightarrow> pyobj result" where
  "local_symbol_select mt5 symbol enable = mt5 ''symbol_select'' [PStr symbol, PBool enable] []"

definition local_copy_rates_from_pos :: "local_module \<Rightarrow> string \<Rightarrow> int \<Rightarrow> int \<Rightarrow> int \<Rightarrow> pyobj result" where
  "local_copy_rates_from_pos mt5 symbol timeframe start_pos count =
     mt5 ''copy_rates_from_pos'' [PStr symbol, PInt timeframe, PInt start_pos, PInt count] []"

definition local_copy_ticks_range :: "local_module \<Rightarrow> string \<Rightarrow> pyobj \<Rightarrow> pyobj \<Rightarrow> int \<Rightarrow> pyobj result" where
  "local_copy_ticks_range mt5 symbol date_from date_to flags =
     mt5 ''copy_ticks_range'' [PStr symbol, date_from, date_to, PInt flags] []"

definition local_copy_ticks_from :: "local_module \<Rightarrow> string \<Rightarrow> pyobj \<Rightarrow> int \<Rightarrow> int \<Rightarrow> pyobj result" where
  "local_copy_ticks_from mt5 symbol date_from count flags =
     mt5 ''copy_ticks_from'' [PStr symbol, date_from, PInt count, PInt flags] []"

definition local_order_send :: "local_module \<Rightarrow> pyobj \<Rightarrow> pyobj result" where
  "local_order_send mt5 request = mt5 ''order_send'' [request] []"

definition query_kwargs :: "string \<Rightarrow> string \<Rightarrow> int \<Rightarrow> (string, pyobj) dict" where
  "query_kwargs symbol grp ticket =
     (if symbol \<noteq> [] then [(''symbol'', PStr symbol)] else []) @
     (if grp \<noteq> [] then [(''group'', PStr grp)] else []) @
     (if ticket \<noteq> 0 then [(''ticket'', PInt ticket)] else [])"

definition local_orders_get :: "local_module \<Rightarrow> string \<Rightarrow> string \<Rightarrow> int \<Rightarrow> pyobj result" where
  "local_orders_get mt5 symbol grp ticket = mt5 ''orders_get'' [] (query_kwargs symbol grp ticket)"

definition local_positions_get :: "local_module \<Rightarrow> string \<Rightarrow> string \<Rightarrow> int \<Rightarrow> pyobj result" where
  "local_positions_get mt5 symbol grp ticket = mt5 ''positions_get'' [] (query_kwargs symbol grp ticket)"

definition local_history_orders_total :: "local_module \<Rightarrow> pyobj \<Rightarrow> pyobj \<Rightarrow> pyobj result" where
  "local_history_orders_total mt5 date_from date_to = mt5 ''history_orders_total'' [date_from, date_to] []"

definition local_history_orders_get ::
    "local_module \<Rightarrow> pyobj \<Rightarrow> pyobj \<Rightarrow> (string, pyobj) dict \<Rightarrow> pyobj result" where
  "local_history_orders_get mt5 date_from date_to kwargs = mt5 ''history_orders_get'' [date_from, date_to] kwargs"

definition local_history_deals_total :: "local_module \<Rightarrow> pyobj \<Rightarrow> pyobj \<Rightarrow> pyobj result" where
  "local_history_deals_total mt5 date_from date_to = mt5 ''history_deals_total'' [date_from, date_to] []"

definition local_history_deals_get ::
    "local_module \<Rightarrow> pyobj \<Rightarrow> pyobj \<Rightarrow> (string, pyobj) dict \<Rightarrow> pyobj result" where
  "local_history_deals_get mt5 date_from date_to kwargs = mt5 ''history_deals_get'' [date_from, date_to] kwargs"

definition local_get_constant :: "(string, pyobj) dict \<Rightarrow> string \<Rightarrow> pyobj" where
  "local_get_constant attributes name = (case dict_get attributes name of Some v \<Rightarrow> v | None \<Rightarrow> PNone)"

section \<open>Texts of the terminal's own language\<close>

text \<open>\<^verbatim>\<open>parse_mql5_response\<close>: a single value, or rows of values.\<close>

datatype mql5_data = Single string | Table "string list list"

definition parse_mql5_response :: "string option \<Rightarrow> mql5_data option" where
  "parse_mql5_response response =
     (case response of
        None \<Rightarrow> None
      | Some s \<Rightarrow>
          (let parts = split_on (CHR '';'') (rstrip_char (CHR '';'') s);
               table = map (split_on (CHR '','')) parts
           in Some (if length parts = 1 \<and> length (hd table) = 1 then Single (hd (hd table)) else Table table)))"

definition mql5_periods :: "string list" where
  "mql5_periods =
     [''M1'', ''M2'', ''M3'', ''M4'', ''M5'', ''M6'', ''M10'', ''M12'', ''M15'', ''M20'', ''M30'',
      ''H1'', ''H2'', ''H3'', ''H4'', ''H6'', ''H8'', ''H12'', ''D1'', ''W1'', ''MN1'']"

definition get_mql5_period :: "string \<Rightarrow> string" where
  "get_mql5_period s = (if upper s \<in> set mql5_periods then ''PERIOD_'' @ upper s else ''PERIOD_CURRENT'')"

end
