(* ===== verification/Client_Life.thy ===== *)
theory Client_Life
  imports Client_Core Terminal_Bridge
begin

text \<open>
  The life of the client (\<^verbatim>\<open>client/connection.py\<close> and the starting, stopping and watching of
  \<^verbatim>\<open>client/client.py\<close>): the handshake with the terminal, what a failed handshake schedules, the start loop
  with the handshake in it, stopping, resetting, resuming, the watchdog and the processor of handler tasks.
  A coroutine that is created as a task is an entry of \<open>l_jobs\<close>, run when the event loop comes to it.
\<close>

section \<open>Types and state\<close>

datatype connection_state = DISCONNECTED | CONNECTED | CONNECTING | REDIRECTED

datatype connection_mode = IPC | EA | EA_IPC

datatype access_mode = EXTERNAL_RPYC | LOCAL_PYTHON | MANAGED_TERMINAL

datatype terminal_platform = WINDOWS | LINUX

definition RES_E_INTERNAL_FAIL_INIT :: int where "RES_E_INTERNAL_FAIL_INIT = -10003"

text \<open>Which wrapper is built, from which entry of the configuration.\<close>

datatype wrapper = LocalWrapper | RpycWrapper bool

text \<open>A step of the handshake that is awaited can be cancelled as well.\<close>

datatype 'a awaited = Returned 'a | Raised py_exc | CancelledHere

text \<open>
  What the terminal side does during one handshake: whether the wrapper can be built, the answer of
  \<^verbatim>\<open>initialize\<close>, of \<^verbatim>\<open>last_error\<close> and of the two queries.
\<close>

record answers =
  an_create :: "unit awaited"
  an_initialize :: "bool awaited"
  an_last_error :: "(int \<times> string) result"
  an_terminal_info :: "pyobj result"
  an_account_info :: "pyobj result"

record terminal_info_dict =
  ti_version :: int
  ti_build :: pyobj

datatype job = JStop | JReset | JResume

record life =
  l_client :: client
  l_state :: connection_state
  l_mt5 :: bool
  l_ea :: bool
  l_info :: "terminal_info_dict option"
  l_attempts :: nat
  l_last_error :: "py_exc option"
  l_watchdog :: bool
  l_reader :: bool
  l_processors :: bool
  l_registered :: "string set"
  l_jobs :: "job list"
  l_connects :: nat

text \<open>\<open>l_connects\<close> counts the handshakes begun; the code keeps no such count.\<close>

definition life_init :: life where
  "life_init =
     \<lparr>l_client = client_init, l_state = DISCONNECTED, l_mt5 = False, l_ea = False, l_info = None, l_attempts = 0,
      l_last_error = None, l_watchdog = False, l_reader = False, l_processors = False, l_registered = {},
      l_jobs = [], l_connects = 0\<rparr>"

record life_config =
  lc_mode :: connection_mode
  lc_access :: access_mode
  lc_platform :: terminal_platform
  lc_keys :: "string set"
  lc_max_attempts :: nat

section \<open>Building the wrappers\<close>

text \<open>
  \<^verbatim>\<open>_create_ipc_client\<close>: the entry of the configuration it reads must be there. The flag of the remote wrapper
  is whether it is given that entry or its own defaults.
\<close>

definition create_ipc_client :: "life_config \<Rightarrow> wrapper result" where
  "create_ipc_client cfg =
     (if lc_access cfg = LOCAL_PYTHON then
        (if ''local_python'' \<in> lc_keys cfg then Inr LocalWrapper else Inl KeyError)
      else if lc_access cfg = EXTERNAL_RPYC then
        (if ''rpyc'' \<in> lc_keys cfg then Inr (RpycWrapper True) else Inl KeyError)
      else if lc_platform cfg \<noteq> WINDOWS then
        (if ''rpyc'' \<in> lc_keys cfg then Inr (RpycWrapper True) else Inl KeyError)
      else Inr (RpycWrapper False))"

definition create_ea_client :: "life_config \<Rightarrow> unit result" where
  "create_ea_client cfg = (if ''ea'' \<in> lc_keys cfg then Inr () else Inl KeyError)"

definition create_mt5_client :: "life_config \<Rightarrow> (wrapper option \<times> bool) result" where
  "create_mt5_client cfg =
     (case lc_mode cfg of
        IPC \<Rightarrow> bindR (create_ipc_client cfg) (\<lambda>w. Inr (Some w, False))
      | EA \<Rightarrow> bindR (create_ea_client cfg) (\<lambda>_. Inr (None, True))
      | EA_IPC \<Rightarrow> bindR (create_ipc_client cfg) (\<lambda>w. bindR (create_ea_client cfg) (\<lambda>_. Inr (Some w, True))))"

section \<open>The handshake\<close>

fun as_awaited :: "'a result \<Rightarrow> 'a awaited" where
  "as_awaited (Inr x) = Returned x"
| "as_awaited (Inl e) = Raised e"

definition initialize_and_connect :: "life_config \<Rightarrow> answers \<Rightarrow> life \<Rightarrow> life \<times> unit awaited" where
  "initialize_and_connect cfg an l =
     (case create_mt5_client cfg of
        Inl e \<Rightarrow> (l, Raised e)
      | Inr (w, ea) \<Rightarrow>
          (case an_create an of
             Raised e \<Rightarrow> (l, Raised e)
           | CancelledHere \<Rightarrow> (l, CancelledHere)
           | Returned _ \<Rightarrow>
               (let l1 = l\<lparr>l_mt5 := (w \<noteq> None), l_ea := ea\<rparr>
                in if w = None then (l1, Returned ())
                   else (case an_initialize an of
                           Raised e \<Rightarrow> (l1, Raised e)
                         | CancelledHere \<Rightarrow> (l1, CancelledHere)
                         | Returned True \<Rightarrow> (l1, Returned ())
                         | Returned False \<Rightarrow>
                             (case an_last_error an of
                                Inl e \<Rightarrow> (l1, Raised e)
                              | Inr _ \<Rightarrow> (l1, Raised ConnectionError))))))"

fun pytruthy :: "pyobj \<Rightarrow> bool" where
  "pytruthy PNone = False"
| "pytruthy (PBool b) = b"
| "pytruthy (PInt i) = (i \<noteq> 0)"
| "pytruthy (PFloat x) = ftruthy x"
| "pytruthy (PStr s) = (s \<noteq> [])"
| "pytruthy (PBytes s) = (s \<noteq> [])"
| "pytruthy (PNamed fs) = (fs \<noteq> [])"
| "pytruthy (PList xs) = (xs \<noteq> [])"
| "pytruthy (PTuple xs) = (xs \<noteq> [])"
| "pytruthy (PSet xs) = (xs \<noteq> [])"
| "pytruthy (PDict kvs) = (kvs \<noteq> [])"
| "pytruthy (PObject fs) = True"
| "pytruthy (POpaque n) = True"

text \<open>The dictionary of an answer: of a named tuple, of an object, or of a dictionary; others do not convert.\<close>

fun text_key :: "pyobj \<times> pyobj \<Rightarrow> (string \<times> pyobj) option" where
  "text_key (PStr k, v) = Some (k, v)"
| "text_key _ = None"

fun info_dict :: "pyobj \<Rightarrow> (string, pyobj) dict result" where
  "info_dict (PNamed fs) = Inr fs"
| "info_dict (PObject fs) = Inr fs"
| "info_dict (PDict kvs) = Inr (List.map_filter text_key kvs)"
| "info_dict _ = Inl TypeError"

text \<open>
  \<^verbatim>\<open>_fetch_terminal_info\<close> and \<^verbatim>\<open>_fetch_account_info\<close>: whatever goes wrong becomes a \<^verbatim>\<open>ConnectionError\<close>, also
  the call of \<^verbatim>\<open>None\<close> when there is no wrapper.
\<close>

definition fetch_terminal_info :: "answers \<Rightarrow> life \<Rightarrow> life \<times> unit result" where
  "fetch_terminal_info an l =
     (case (if l_mt5 l then an_terminal_info an else Inl TypeError) of
        Inl _ \<Rightarrow> (l, Inl ConnectionError)
      | Inr info \<Rightarrow>
          if \<not> pytruthy info then (l, Inl ConnectionError)
          else (case info_dict info of
                  Inl _ \<Rightarrow> (l, Inl ConnectionError)
                | Inr d \<Rightarrow>
                    if \<not> pytruthy (get_default d ''connected'' (PBool True)) then (l, Inl ConnectionError)
                    else (l\<lparr>l_info := Some \<lparr>ti_version = 5, ti_build = get_default d ''build'' (PInt 0)\<rparr>\<rparr>, Inr ())))"

definition fetch_account_info :: "answers \<Rightarrow> life \<Rightarrow> unit result" where
  "fetch_account_info an l =
     (case (if l_mt5 l then an_account_info an else Inl TypeError) of
        Inl _ \<Rightarrow> Inl ConnectionError
      | Inr PNone \<Rightarrow> Inl ConnectionError
      | Inr _ \<Rightarrow> Inr ())"

definition client_disconnect :: "life \<Rightarrow> life" where
  "client_disconnect l =
     l\<lparr>l_mt5 := False, l_ea := False, l_state := DISCONNECTED, l_client := (l_client l)\<lparr>mt5_connected := False\<rparr>\<rparr>"

text \<open>\<^verbatim>\<open>_handle_reconnect\<close> only creates tasks.\<close>

definition handle_reconnect :: "life \<Rightarrow> life" where
  "handle_reconnect l = l\<lparr>l_jobs := l_jobs l @ [JReset, JResume]\<rparr>"

text \<open>
  \<^verbatim>\<open>_handle_connection_error\<close> raises a \<^verbatim>\<open>ValueError\<close> with the code it chooses whenever there is a wrapper; the
  handshake keeps that error, and lets any other one out before it comes to reconnecting.
\<close>

definition TERMINAL_CONNECT_FAIL_code :: int where "TERMINAL_CONNECT_FAIL_code = 0"

definition connection_error_code :: "int \<Rightarrow> int" where
  "connection_error_code code =
     (if code \<noteq> RES_E_INTERNAL_FAIL_INIT then TERMINAL_CONNECT_FAIL_code else code)"

definition handle_connection_error :: "answers \<Rightarrow> life \<Rightarrow> unit result" where
  "handle_connection_error an l =
     (if \<not> l_mt5 l then Inr ()
      else (case an_last_error an of
              Inl e \<Rightarrow> Inl e
            | Inr (code, msg) \<Rightarrow> Inl (ValueError (int_str (connection_error_code code)))))"

definition connect_failed :: "answers \<Rightarrow> py_exc \<Rightarrow> life \<Rightarrow> life \<times> unit result" where
  "connect_failed an e l =
     (let l1 = l\<lparr>l_last_error := Some e\<rparr>
      in case handle_connection_error an l1 of
           Inr _ \<Rightarrow> (handle_reconnect l1, Inl e)
         | Inl (ValueError s) \<Rightarrow> (handle_reconnect (l1\<lparr>l_last_error := Some (ValueError s)\<rparr>), Inl e)
         | Inl e' \<Rightarrow> (l1, Inl e'))"

definition connect :: "life_config \<Rightarrow> answers \<Rightarrow> life \<Rightarrow> life \<times> unit result" where
  "connect cfg an l0 =
     (let l = l0\<lparr>l_state := CONNECTING, l_connects := l_connects l0 + 1\<rparr>
      in case initialize_and_connect cfg an l of
           (l1, CancelledHere) \<Rightarrow> (client_disconnect l1, Inr ())
         | (l1, Raised e) \<Rightarrow> connect_failed an e l1
         | (l1, Returned _) \<Rightarrow>
             (case fetch_terminal_info an l1 of
                (l2, Inl e) \<Rightarrow> connect_failed an e l2
              | (l2, Inr _) \<Rightarrow>
                  (case fetch_account_info an l2 of
                     Inl e \<Rightarrow> connect_failed an e l2
                   | Inr _ \<Rightarrow> (l2\<lparr>l_state := CONNECTED, l_last_error := None\<rparr>, Inr ()))))"

section \<open>Starting, stopping, resetting\<close>

definition started :: "life_config \<Rightarrow> life \<Rightarrow> life" where
  "started cfg l =
     (let l1 = l\<lparr>l_client := (l_client l)\<lparr>mt5_connected := True\<rparr>, l_watchdog := True\<rparr>;
          l2 = (if lc_mode cfg = IPC \<or> lc_mode cfg = EA_IPC then l1\<lparr>l_reader := True, l_processors := True\<rparr> else l1)
      in l2\<lparr>l_client := (l_client l2)\<lparr>client_ready := True\<rparr>\<rparr>)"

text \<open>
  \<^verbatim>\<open>_start_async\<close> with the handshakes in it; \<open>tries\<close> are the answers the successive handshakes meet. The count
  of attempts is a field of the client, and the limit is off when it is zero.
\<close>

fun start_tries :: "life_config \<Rightarrow> answers list \<Rightarrow> life \<Rightarrow> life \<times> start_end" where
  "start_tries cfg tries l0 =
     (let l = l0\<lparr>l_attempts := l_attempts l0 + 1\<rparr>
      in if lc_max_attempts cfg \<noteq> 0 \<and> lc_max_attempts cfg < l_attempts l then (l\<lparr>l_jobs := l_jobs l @ [JStop]\<rparr>, GaveUp)
         else (case tries of
                 [] \<Rightarrow> (l, StillTrying)
               | an # rest \<Rightarrow>
                   (case connect cfg an l of
                      (l1, Inr _) \<Rightarrow> (started cfg l1, Started)
                    | (l1, Inl e) \<Rightarrow>
                        if e = TimeoutError then start_tries cfg rest l1
                        else (l1\<lparr>l_last_error := Some e, l_jobs := l_jobs l1 @ [JStop]\<rparr>, Failed e))))"

declare start_tries.simps [simp del]

definition start_life :: "life_config \<Rightarrow> answers list \<Rightarrow> life \<Rightarrow> life \<times> start_end" where
  "start_life cfg tries l =
     (case start_tries cfg tries l of
        (l1, StillTrying) \<Rightarrow> (l1, StillTrying)
      | (l1, r) \<Rightarrow> (l1\<lparr>l_attempts := 0\<rparr>, r))"

definition stop_life :: "life \<Rightarrow> life" where
  "stop_life l =
     l\<lparr>l_client := (l_client l)\<lparr>client_ready := False, account_ids := {}\<rparr>, l_watchdog := False, l_reader := False,
       l_processors := False, l_mt5 := False, l_registered := {}\<rparr>"

definition reset_life :: "life_config \<Rightarrow> answers list \<Rightarrow> life \<Rightarrow> life" where
  "reset_life cfg tries l = fst (start_life cfg tries (stop_life l))"

text \<open>
  One task of the event loop. The tasks interleave where they await; nothing below depends on how, each fact is
  about a single task. \<^verbatim>\<open>_resume\<close> waits for the client to be ready: until then its task stays.
\<close>

definition run_job :: "life_config \<Rightarrow> answers list \<Rightarrow> job \<Rightarrow> life \<Rightarrow> life" where
  "run_job cfg tries j l0 =
     (let l = l0\<lparr>l_jobs := remove1 j (l_jobs l0)\<rparr>
      in case j of
           JStop \<Rightarrow> stop_life l
         | JReset \<Rightarrow> reset_life cfg tries l
         | JResume \<Rightarrow> (if client_ready (l_client l) then l else l0))"

text \<open>
  What \<^verbatim>\<open>_resubscribe_all\<close> calls: the handles of all subscriptions, in turn, whatever the calls raise.
\<close>

definition resubscribe_all :: "('h, 'c, 'l) subscriptions \<Rightarrow> ('h list) result" where
  "resubscribe_all subs =
     bindR (base_get_all (\<lambda>rid. subscriptions_get subs (Some rid) None) subs) (\<lambda>found.
       if None \<in> set found then Inl AttributeError else Inr (map (\<lambda>s. sub_handle (the s)) found))"

section \<open>Watching\<close>

text \<open>
  One round of the watchdog: without a wrapper, or with one that says it is not connected, the client degrades
  and reconnects.
\<close>

definition watchdog_round :: "bool \<Rightarrow> bool \<Rightarrow> bool \<Rightarrow> life \<Rightarrow> life" where
  "watchdog_round says_connected is_running is_degraded l =
     (if l_mt5 l \<and> says_connected then l
      else handle_reconnect (l\<lparr>l_client := handle_disconnection is_running is_degraded (l_client l)\<rparr>))"

text \<open>
  The end of a task: cancelled and failed tasks are logged, a finished one runs its actions, whose exception is
  logged, and then its message is. The value says whether the actions ran and whether the message was logged.
\<close>

definition on_task_completed :: "unit awaited \<Rightarrow> unit result option \<Rightarrow> bool \<Rightarrow> bool \<times> bool" where
  "on_task_completed outcome actions has_message =
     (case outcome of
        CancelledHere \<Rightarrow> (False, False)
      | Raised _ \<Rightarrow> (False, False)
      | Returned _ \<Rightarrow> (actions \<noteq> None, has_message))"

text \<open>
  The processor of handler tasks: it runs the queued tasks in order; an exception of one ends it. The values are
  the number of tasks run to their end, the tasks left, and how it stands.
\<close>

datatype processor_end = Waiting | Died py_exc | WasCancelled

fun run_msg_handlers :: "unit awaited list \<Rightarrow> nat \<Rightarrow> nat \<times> unit awaited list \<times> processor_end" where
  "run_msg_handlers [] n = (n, [], Waiting)"
| "run_msg_handlers (Returned _ # ts) n = run_msg_handlers ts (n + 1)"
| "run_msg_handlers (Raised e # ts) n = (n, ts, Died e)"
| "run_msg_handlers (CancelledHere # ts) n = (n, ts, WasCancelled)"

text \<open>A task that is submitted goes to the end of the queue.\<close>

definition submit_to_msg_handler_queue :: "unit awaited \<Rightarrow> unit awaited list \<Rightarrow> unit awaited list" where
  "submit_to_msg_handler_queue task queue = queue @ [task]"

text \<open>
  Waiting for the client, as it is when the wait begins and when it is over: what is logged. The caller is not told
  whether the client is ready.
\<close>

definition wait_until_ready :: "client \<Rightarrow> client \<Rightarrow> string list" where
  "wait_until_ready before after =
     (if client_ready before \<or> client_ready after then [] else [''Client is not ready. ''])"

end
