(* ===== verification/Bridge_Service.thy ===== *)
theory Bridge_Service
  imports Client_Life
begin

text \<open>
  The service at the other end of the bridge (\<^verbatim>\<open>MQL5/refactoring/bridge/mt5_bridge_v007.py\<close>): the methods it
  exposes over the module of the terminal, and the link the wrapper has with it. The module is the parameter; the
  texts the service prints are left out, but not the length it takes of a result to print it.
\<close>

section \<open>Calls of Python functions\<close>

text \<open>
  The arguments a function of these parameters receives, none of which has a default: the positional ones first,
  then exactly the remaining ones by name.
\<close>

definition bind_args :: "string list \<Rightarrow> pyobj list \<Rightarrow> (string, pyobj) dict \<Rightarrow> pyobj list result" where
  "bind_args names args kwargs =
     (let rest = drop (length args) names
      in if length names < length args \<or> set (map fst kwargs) \<noteq> set rest then Inl TypeError
         else Inr (args @ map (\<lambda>k. case dict_get kwargs k of Some v \<Rightarrow> v | None \<Rightarrow> PNone) rest))"

text \<open>\<^verbatim>\<open>len(result) if result is not None\<close>: numbers have no length.\<close>

definition counted :: "pyobj \<Rightarrow> pyobj result" where
  "counted r =
     (case r of PBool _ \<Rightarrow> Inl TypeError | PInt _ \<Rightarrow> Inl TypeError | PFloat _ \<Rightarrow> Inl TypeError | _ \<Rightarrow> Inr r)"

text \<open>\<^verbatim>\<open>dict(request)\<close> of what the adapter sends.\<close>

definition dict_copy :: "pyobj \<Rightarrow> pyobj result" where
  "dict_copy r = (case r of PDict kvs \<Rightarrow> Inr (PDict kvs) | _ \<Rightarrow> Inl TypeError)"

section \<open>The exposed methods\<close>

definition attribute_or :: "pyobj \<Rightarrow> string \<Rightarrow> pyobj \<Rightarrow> pyobj" where
  "attribute_or x name dflt =
     (case x of
        PNamed fs \<Rightarrow> get_default fs name dflt
      | PObject fs \<Rightarrow> get_default fs name dflt
      | _ \<Rightarrow> dflt)"

definition is_mt5_ready :: "local_module \<Rightarrow> bool" where
  "is_mt5_ready mt5 =
     (case mt5 ''terminal_info'' [] [] of
        Inl _ \<Rightarrow> False
      | Inr info \<Rightarrow> info \<noteq> PNone \<and> pytruthy (attribute_or info ''connected'' (PBool False)))"

definition exposed_initialize :: "local_module \<Rightarrow> pyobj list \<Rightarrow> (string, pyobj) dict \<Rightarrow> pyobj result" where
  "exposed_initialize mt5 args kwargs =
     (if is_mt5_ready mt5 then Inr (PBool True) else mt5 ''initialize'' args kwargs)"

definition exposed_login :: "local_module \<Rightarrow> pyobj list \<Rightarrow> (string, pyobj) dict \<Rightarrow> pyobj result" where
  "exposed_login mt5 args kwargs =
     bindR (bind_args [''login'', ''password'', ''server''] args kwargs) (\<lambda>xs. mt5 ''login'' xs [])"

definition exposed_last_error :: "local_module \<Rightarrow> pyobj list \<Rightarrow> (string, pyobj) dict \<Rightarrow> pyobj result" where
  "exposed_last_error mt5 args kwargs = bindR (bind_args [] args kwargs) (\<lambda>xs. mt5 ''last_error'' xs [])"

definition exposed_version :: "local_module \<Rightarrow> pyobj list \<Rightarrow> (string, pyobj) dict \<Rightarrow> pyobj result" where
  "exposed_version mt5 args kwargs = bindR (bind_args [] args kwargs) (\<lambda>xs. mt5 ''version'' xs [])"

definition exposed_terminal_info :: "local_module \<Rightarrow> pyobj list \<Rightarrow> (string, pyobj) dict \<Rightarrow> pyobj result" where
  "exposed_terminal_info mt5 args kwargs = bindR (bind_args [] args kwargs) (\<lambda>xs. mt5 ''terminal_info'' xs [])"

definition exposed_account_info :: "local_module \<Rightarrow> pyobj list \<Rightarrow> (string, pyobj) dict \<Rightarrow> pyobj result" where
  "exposed_account_info mt5 args kwargs = bindR (bind_args [] args kwargs) (\<lambda>xs. mt5 ''account_info'' xs [])"

definition exposed_symbols_get :: "local_module \<Rightarrow> pyobj list \<Rightarrow> (string, pyobj) dict \<Rightarrow> pyobj result" where
  "exposed_symbols_get mt5 args kwargs = bindR (mt5 ''symbols_get'' args kwargs) counted"

definition exposed_symbol_info :: "local_module \<Rightarrow> pyobj list \<Rightarrow> (string, pyobj) dict \<Rightarrow> pyobj result" where
  "exposed_symbol_info mt5 args kwargs = bindR (bind_args [''symbol''] args kwargs) (\<lambda>xs. mt5 ''symbol_info'' xs [])"

definition exposed_symbol_info_tick :: "local_module \<Rightarrow> pyobj list \<Rightarrow> (string, pyobj) dict \<Rightarrow> pyobj result" where
  "exposed_symbol_info_tick mt5 args kwargs =
     bindR (bind_args [''symbol''] args kwargs) (\<lambda>xs. mt5 ''symbol_info_tick'' xs [])"

definition exposed_symbol_select :: "local_module \<Rightarrow> pyobj list \<Rightarrow> (string, pyobj) dict \<Rightarrow> pyobj result" where
  "exposed_symbol_select mt5 args kwargs =
     bindR (bind_args [''symbol'', ''enable''] args kwargs) (\<lambda>xs. mt5 ''symbol_select'' xs [])"

definition exposed_copy_rates_from_pos :: "local_module \<Rightarrow> pyobj list \<Rightarrow> (string, pyobj) dict \<Rightarrow> pyobj result" where
  "exposed_copy_rates_from_pos mt5 args kwargs =
     bindR (bind_args [''symbol'', ''timeframe'', ''start_pos'', ''count''] args kwargs) (\<lambda>xs.
     bindR (mt5 ''copy_rates_from_pos'' xs []) counted)"

definition exposed_copy_ticks_range :: "local_module \<Rightarrow> pyobj list \<Rightarrow> (string, pyobj) dict \<Rightarrow> pyobj result" where
  "exposed_copy_ticks_range mt5 args kwargs =
     bindR (bind_args [''symbol'', ''date_from'', ''date_to'', ''flags''] args kwargs) (\<lambda>xs.
     bindR (mt5 ''copy_ticks_range'' xs []) counted)"

definition exposed_copy_ticks_from :: "local_module \<Rightarrow> pyobj list \<Rightarrow> (string, pyobj) dict \<Rightarrow> pyobj result" where
  "exposed_copy_ticks_from mt5 args kwargs =
     bindR (bind_args [''symbol'', ''date_from'', ''count'', ''flags''] args kwargs) (\<lambda>xs.
     bindR (mt5 ''copy_ticks_from'' xs []) counted)"

definition exposed_order_send :: "local_module \<Rightarrow> pyobj list \<Rightarrow> (string, pyobj) dict \<Rightarrow> pyobj result" where
  "exposed_order_send mt5 args kwargs =
     bindR (bind_args [''request''] args kwargs) (\<lambda>xs.
     bindR (dict_copy (hd xs)) (\<lambda>request. mt5 ''order_send'' [request] []))"

definition exposed_positions_get :: "local_module \<Rightarrow> pyobj list \<Rightarrow> (string, pyobj) dict \<Rightarrow> pyobj result" where
  "exposed_positions_get mt5 args kwargs = bindR (mt5 ''positions_get'' args kwargs) counted"

definition exposed_orders_get :: "local_module \<Rightarrow> pyobj list \<Rightarrow> (string, pyobj) dict \<Rightarrow> pyobj result" where
  "exposed_orders_get mt5 args kwargs = bindR (mt5 ''orders_get'' args kwargs) counted"

definition exposed_history_orders_total :: "local_module \<Rightarrow> pyobj list \<Rightarrow> (string, pyobj) dict \<Rightarrow> pyobj result" where
  "exposed_history_orders_total mt5 args kwargs = mt5 ''history_orders_total'' args kwargs"

definition exposed_history_orders_get :: "local_module \<Rightarrow> pyobj list \<Rightarrow> (string, pyobj) dict \<Rightarrow> pyobj result" where
  "exposed_history_orders_get mt5 args kwargs = bindR (mt5 ''history_orders_get'' args kwargs) counted"

definition exposed_history_deals_total :: "local_module \<Rightarrow> pyobj list \<Rightarrow> (string, pyobj) dict \<Rightarrow> pyobj result" where
  "exposed_history_deals_total mt5 args kwargs = mt5 ''history_deals_total'' args kwargs"

definition exposed_history_deals_get :: "local_module \<Rightarrow> pyobj list \<Rightarrow> (string, pyobj) dict \<Rightarrow> pyobj result" where
  "exposed_history_deals_get mt5 args kwargs = bindR (mt5 ''history_deals_get'' args kwargs) counted"

text \<open>A client that disconnects leaves the shared terminal alone.\<close>

definition exposed_shutdown :: "pyobj list \<Rightarrow> (string, pyobj) dict \<Rightarrow> pyobj result" where
  "exposed_shutdown args kwargs = bindR (bind_args [] args kwargs) (\<lambda>_. Inr (PBool True))"

definition exposed_get_constant ::
    "(string \<Rightarrow> pyobj option) \<Rightarrow> pyobj list \<Rightarrow> (string, pyobj) dict \<Rightarrow> pyobj result" where
  "exposed_get_constant constants args kwargs =
     bindR (bind_args [''name''] args kwargs) (\<lambda>xs.
       case hd xs of
         PStr name \<Rightarrow> (case constants name of Some v \<Rightarrow> Inr v | None \<Rightarrow> Inl AttributeError)
       | _ \<Rightarrow> Inl TypeError)"

section \<open>The service and the link with it\<close>

text \<open>\<^verbatim>\<open>MT5Service\<close>: its methods by name; \<^verbatim>\<open>exposed_getmodule\<close> is no method but \<open>None\<close>.\<close>

definition exposed_methods ::
    "local_module \<Rightarrow> (string \<Rightarrow> pyobj option) \<Rightarrow> (string \<times> (pyobj list \<Rightarrow> (string, pyobj) dict \<Rightarrow> pyobj result)) list" where
  "exposed_methods mt5 constants =
     [(''exposed_initialize'', exposed_initialize mt5), (''exposed_login'', exposed_login mt5),
      (''exposed_last_error'', exposed_last_error mt5), (''exposed_version'', exposed_version mt5),
      (''exposed_terminal_info'', exposed_terminal_info mt5), (''exposed_account_info'', exposed_account_info mt5),
      (''exposed_symbols_get'', exposed_symbols_get mt5), (''exposed_symbol_info'', exposed_symbol_info mt5),
      (''exposed_symbol_info_tick'', exposed_symbol_info_tick mt5), (''exposed_symbol_select'', exposed_symbol_select mt5),
      (''exposed_copy_rates_from_pos'', exposed_copy_rates_from_pos mt5),
      (''exposed_copy_ticks_range'', exposed_copy_ticks_range mt5), (''exposed_copy_ticks_from'', exposed_copy_ticks_from mt5),
      (''exposed_order_send'', exposed_order_send mt5), (''exposed_positions_get'', exposed_positions_get mt5),
      (''exposed_orders_get'', exposed_orders_get mt5), (''exposed_history_orders_total'', exposed_history_orders_total mt5),
      (''exposed_history_orders_get'', exposed_history_orders_get mt5),
      (''exposed_history_deals_total'', exposed_history_deals_total mt5),
      (''exposed_history_deals_get'', exposed_history_deals_get mt5),
      (''exposed_shutdown'', exposed_shutdown), (''exposed_get_constant'', exposed_get_constant constants)]"

definition MT5Service ::
    "local_module \<Rightarrow> (string \<Rightarrow> pyobj option) \<Rightarrow> string \<Rightarrow> pyobj list \<Rightarrow> (string, pyobj) dict \<Rightarrow> pyobj result" where
  "MT5Service mt5 constants name args kwargs =
     (case map_of (exposed_methods mt5 constants) name of
        Some handler \<Rightarrow> handler args kwargs
      | None \<Rightarrow> if name = ''exposed_getmodule'' then Inl TypeError else Inl AttributeError)"

text \<open>
  The link of a wrapper that connects to it with \<^verbatim>\<open>rpyc.connect\<close>: such a connection evaluates no text, and the
  service exposes no evaluation either.
\<close>

definition service_link ::
    "local_module \<Rightarrow> (string \<Rightarrow> pyobj option) \<Rightarrow> (pyobj \<Rightarrow> pyobj result) \<Rightarrow> nat \<Rightarrow> gateway_link" where
  "service_link mt5 constants obtain_copy depth =
     \<lparr>gl_call = (\<lambda>c. case c of
        Exposed name args kwargs \<Rightarrow> MT5Service mt5 constants name args kwargs
      | Evaluate _ \<Rightarrow> Inl AttributeError
      | Execute _ \<Rightarrow> Inl AttributeError),
      gl_obtain = obtain_copy, gl_depth = depth\<rparr>"

end
