(* ===== verification/Bridge_Facts.thy ===== *)
theory Bridge_Facts
  imports Terminal_Bridge Venue_Profile Parse_Data Parse_Execution
begin

text \<open>
  What the conversion makes of what crosses the bridge: built-in data, with the remote objects that could not be
  copied still in it, within the depth of the object; the constants of the wrapper are those the rest of the adapter repeats; the two wrappers ask a
  terminal the same things; and what a lost connection is reported as.
\<close>

section \<open>Conversion\<close>

text \<open>
  The shape of a converted value: lists, tuples and dictionaries down to scalars and objects of no
  other kind, with no named tuple, set or object with attributes among the values.
\<close>

fun converted_obj :: "pyobj \<Rightarrow> bool" where
  "converted_obj (PNamed fs) = False"
| "converted_obj (PSet xs) = False"
| "converted_obj (PObject fs) = False"
| "converted_obj (PList xs) = (\<forall>x \<in> set xs. converted_obj x)"
| "converted_obj (PTuple xs) = (\<forall>x \<in> set xs. converted_obj x)"
| "converted_obj (PDict kvs) = (\<forall>kv \<in> set kvs. converted_obj (snd kv))"
| "converted_obj _ = True"

text \<open>
  The objects of no other kind in a value, keys included and private attributes left out: the arrays
  and other remote objects that stay behind the connection unless they are copied.
\<close>

fun remote_parts :: "pyobj \<Rightarrow> nat set" where
  "remote_parts (PNamed fs) = (\<Union>kv \<in> set fs. remote_parts (snd kv))"
| "remote_parts (PSet xs) = (\<Union>x \<in> set xs. remote_parts x)"
| "remote_parts (PObject fs) = (\<Union>kv \<in> set fs. if startswith (fst kv) ''_'' then {} else remote_parts (snd kv))"
| "remote_parts (PList xs) = (\<Union>x \<in> set xs. remote_parts x)"
| "remote_parts (PTuple xs) = (\<Union>x \<in> set xs. remote_parts x)"
| "remote_parts (PDict kvs) = (\<Union>kv \<in> set kvs. remote_parts (fst kv) \<union> remote_parts (snd kv))"
| "remote_parts (POpaque n) = {n}"
| "remote_parts _ = {}"

lemma traverse_all:
  assumes "traverse f xs = Inr ys" and "\<And>x y. x \<in> set xs \<Longrightarrow> f x = Inr y \<Longrightarrow> P y"
  shows "\<forall>y \<in> set ys. P y"
  using traverse_InrE [OF assms(1)] assms(2) by blast

lemma traverse_values_all:
  assumes "traverse (\<lambda>(k, v). bindR (f v) (\<lambda>w. Inr (g k, w))) kvs = Inr kws" and "\<And>v w. f v = Inr w \<Longrightarrow> P w"
  shows "\<forall>kw \<in> set kws. P (snd kw)"
  by (rule traverse_all [OF assms(1)]) (auto simp: bindR_eq_Inr assms(2))

lemma normalized_is_converted:
  assumes "normalize_rpyc_return obtain_copy depth x = Inr y"
  shows "converted_obj y"
  using assms
proof (induction depth arbitrary: x y)
  case (Suc d)
  show ?case
  proof (cases "local_copy obtain_copy x")
    case (PList xs)
    then show ?thesis using Suc.prems traverse_all [where P = converted_obj] Suc.IH by (fastforce simp: bindR_eq_Inr)
  next
    case (PTuple xs)
    then show ?thesis using Suc.prems traverse_all [where P = converted_obj] Suc.IH by (fastforce simp: bindR_eq_Inr)
  next
    case (PSet xs)
    then show ?thesis using Suc.prems traverse_all [where P = converted_obj] Suc.IH by (fastforce simp: bindR_eq_Inr)
  next
    case (PDict kvs)
    obtain kws where "traverse (\<lambda>(k, v). bindR (normalize_rpyc_return obtain_copy d v) (\<lambda>w. Inr (k, w))) kvs = Inr kws"
        "y = PDict kws"
      using PDict Suc.prems by (auto simp: bindR_eq_Inr)
    then show ?thesis
      using traverse_values_all [where P = converted_obj and g = "\<lambda>k. k" and f = "normalize_rpyc_return obtain_copy d"] Suc.IH
      by (metis converted_obj.simps(6))
  next
    case (PObject fs)
    obtain kws where "traverse (\<lambda>(k, v). bindR (normalize_rpyc_return obtain_copy d v) (\<lambda>w. Inr (PStr k, w)))
        (public_attributes fs) = Inr kws" "y = PDict kws"
      using PObject Suc.prems by (auto simp: bindR_eq_Inr)
    then show ?thesis
      using traverse_values_all [where P = converted_obj and g = PStr and f = "normalize_rpyc_return obtain_copy d"] Suc.IH
      by (metis converted_obj.simps(6))
  next
    case (PNamed fs)
    then show ?thesis using Suc.prems Suc.IH by simp
  qed (use Suc.prems in \<open>cases y; simp\<close>)+
qed simp

text \<open>The remote objects of a container's conversion, given those of its elements' conversions.\<close>

lemma traverse_remote_parts:
  "traverse f xs = Inr ys \<Longrightarrow> (\<And>x y. f x = Inr y \<Longrightarrow> remote_parts y = g x) \<Longrightarrow>
   (\<Union>y \<in> set ys. remote_parts y) = (\<Union>x \<in> set xs. g x)"
proof (induction xs arbitrary: ys)
  case (Cons x xs)
  obtain y zs where y: "f x = Inr y" "traverse f xs = Inr zs" "ys = y # zs"
    using Cons.prems(1) by (auto simp: bindR_eq_Inr simp del: traverse_eq_Inr)
  have "(\<Union>y \<in> set zs. remote_parts y) = (\<Union>x \<in> set xs. g x)" by (rule Cons.IH [OF y(2) Cons.prems(2)])
  moreover have "remote_parts y = g x" by (rule Cons.prems(2) [OF y(1)])
  ultimately show ?case using y(3) by simp
qed simp

lemma traverse_values_remote_parts:
  "traverse (\<lambda>(k, v). bindR (f v) (\<lambda>w. Inr (h k, w))) kvs = Inr kws \<Longrightarrow>
   (\<And>v w. f v = Inr w \<Longrightarrow> remote_parts w = g v) \<Longrightarrow>
   remote_parts (PDict kws) = (\<Union>kv \<in> set kvs. remote_parts (h (fst kv)) \<union> g (snd kv))"
proof (induction kvs arbitrary: kws)
  case (Cons kv kvs)
  obtain k v where kv: "kv = (k, v)" by fastforce
  obtain w zs where w: "f v = Inr w" "traverse (\<lambda>(k, v). bindR (f v) (\<lambda>w. Inr (h k, w))) kvs = Inr zs" "kws = (h k, w) # zs"
    using Cons.prems(1) kv by (auto simp: bindR_eq_Inr simp del: traverse_eq_Inr)
  have "remote_parts (PDict zs) = (\<Union>kv \<in> set kvs. remote_parts (h (fst kv)) \<union> g (snd kv))"
    by (rule Cons.IH [OF w(2) Cons.prems(2)])
  moreover have "remote_parts w = g v" by (rule Cons.prems(2) [OF w(1)])
  ultimately show ?case using kv w(3) by simp
qed simp

text \<open>One round of the conversion: \<open>g\<close> gives the remote objects of the parts' conversions.\<close>

lemma normalize_step:
  assumes y: "normalize_rpyc_return oc (Suc d) x = Inr y" and x: "local_copy oc x = x'"
    and parts: "\<And>z w. normalize_rpyc_return oc d z = Inr w \<Longrightarrow> remote_parts w = g z"
  shows "remote_parts y = (case x' of
        PNamed fs \<Rightarrow> g (PDict (map (\<lambda>(k, v). (PStr k, v)) fs))
      | PList xs \<Rightarrow> (\<Union>x \<in> set xs. g x)
      | PTuple xs \<Rightarrow> (\<Union>x \<in> set xs. g x)
      | PSet xs \<Rightarrow> (\<Union>x \<in> set xs. g x)
      | PDict kvs \<Rightarrow> (\<Union>kv \<in> set kvs. remote_parts (fst kv) \<union> g (snd kv))
      | PObject fs \<Rightarrow> (\<Union>kv \<in> set (public_attributes fs). g (snd kv))
      | _ \<Rightarrow> remote_parts x')"
proof (cases x')
  case (PNamed fs)
  then show ?thesis using y x parts [of "PDict (map (\<lambda>(k, v). (PStr k, v)) fs)"] by simp
next
  case (PList xs)
  then obtain ys where "traverse (normalize_rpyc_return oc d) xs = Inr ys" "y = PList ys"
    using y x by (auto simp: bindR_eq_Inr simp del: traverse_eq_Inr)
  then show ?thesis using traverse_remote_parts [of "normalize_rpyc_return oc d" xs ys g] parts PList by simp
next
  case (PTuple xs)
  then obtain ys where "traverse (normalize_rpyc_return oc d) xs = Inr ys" "y = PTuple ys"
    using y x by (auto simp: bindR_eq_Inr simp del: traverse_eq_Inr)
  then show ?thesis using traverse_remote_parts [of "normalize_rpyc_return oc d" xs ys g] parts PTuple by simp
next
  case (PSet xs)
  then obtain ys where "traverse (normalize_rpyc_return oc d) xs = Inr ys" "y = PList ys"
    using y x by (auto simp: bindR_eq_Inr simp del: traverse_eq_Inr)
  then show ?thesis using traverse_remote_parts [of "normalize_rpyc_return oc d" xs ys g] parts PSet by simp
next
  case (PDict kvs)
  then obtain kws where kws: "traverse (\<lambda>(k, v). bindR (normalize_rpyc_return oc d v) (\<lambda>w. Inr (k, w))) kvs = Inr kws"
      "y = PDict kws"
    using y x by (auto simp: bindR_eq_Inr simp del: traverse_eq_Inr)
  then show ?thesis using traverse_values_remote_parts [OF kws(1), of g] parts PDict by simp
next
  case (PObject kvs)
  then obtain kws where kws: "traverse (\<lambda>(k, v). bindR (normalize_rpyc_return oc d v) (\<lambda>w. Inr (PStr k, w))) (public_attributes kvs) = Inr kws"
      "y = PDict kws"
    using y x by (auto simp: bindR_eq_Inr simp del: traverse_eq_Inr)
  then show ?thesis using traverse_values_remote_parts [OF kws(1), of g] parts PObject by simp
qed (use y x in \<open>auto\<close>)

lemma normalize_copies_nothing:
  assumes "\<forall>z. local_copy obtain_copy z = z" and "normalize_rpyc_return obtain_copy depth x = Inr y"
  shows "remote_parts y = remote_parts x"
  using assms(2)
proof (induction depth arbitrary: x y)
  case (Suc d)
  have "local_copy obtain_copy x = x" using assms(1) by blast
  from normalize_step [OF Suc.prems this, of remote_parts] Suc.IH show ?case
    by (cases x) (simp_all add: public_attributes_def case_prod_unfold image_image, auto)
qed simp

lemma normalize_copies_all:
  assumes "\<forall>z. remote_parts (local_copy obtain_copy z) = {}" and "normalize_rpyc_return obtain_copy depth x = Inr y"
  shows "remote_parts y = {}"
  using assms(2)
proof (induction depth arbitrary: x y)
  case (Suc d)
  have "remote_parts (local_copy obtain_copy x) = {}" using assms(1) by blast
  with normalize_step [OF Suc.prems refl, of "\<lambda>_. {}"] Suc.IH show ?case
    by (cases "local_copy obtain_copy x") simp_all
qed simp

text \<open>
  C37: what the conversion returns has only built-in containers among its values, and its remote objects depend on
  whether the connection lets objects be copied. When it copies nothing (a bridge without pickling, or a value
  that is local already), exactly the remote objects of the value are still in the result: an array comes back as
  the remote object it was. When every object is copied to a local one, no remote object is left.
\<close>

theorem normalized_remote_parts:
  assumes "normalize_rpyc_return obtain_copy depth x = Inr y"
  shows "converted_obj y \<and>
    ((\<forall>z. local_copy obtain_copy z = z) \<longrightarrow> remote_parts y = remote_parts x) \<and>
    ((\<forall>z. remote_parts (local_copy obtain_copy z) = {}) \<longrightarrow> remote_parts y = {})"
  using normalized_is_converted [OF assms] normalize_copies_nothing [OF _ assms] normalize_copies_all [OF _ assms] by blast

lemma normalized_remote_parts_witness:
  "normalize_rpyc_return (\<lambda>_. Inl GenericException) 9 (PTuple [PNamed [(''ask'', PFloat PosInf), (''rates'', POpaque 3)]]) =
     Inr (PTuple [PDict [(PStr ''ask'', PFloat PosInf), (PStr ''rates'', POpaque 3)]]) \<and>
   remote_parts (PTuple [PDict [(PStr ''ask'', PFloat PosInf), (PStr ''rates'', POpaque 3)]]) =
     remote_parts (PTuple [PNamed [(''ask'', PFloat PosInf), (''rates'', POpaque 3)]]) \<and>
   remote_parts (PTuple [PNamed [(''ask'', PFloat PosInf), (''rates'', POpaque 3)]]) = {3}"
proof -
  have run: "normalize_rpyc_return (\<lambda>_. Inl GenericException) 9 (PTuple [PNamed [(''ask'', PFloat PosInf), (''rates'', POpaque 3)]]) =
     Inr (PTuple [PDict [(PStr ''ask'', PFloat PosInf), (PStr ''rates'', POpaque 3)]])"
    by (simp add: local_copy_def numeral_eq_Suc)
  have "\<forall>z. local_copy (\<lambda>_. Inl GenericException) z = z" by (simp add: local_copy_def)
  then show ?thesis using run normalized_remote_parts [OF run] by simp
qed

text \<open>The nesting of a value, a named tuple counting for the dictionary it becomes.\<close>

fun nesting :: "pyobj \<Rightarrow> nat" where
  "nesting (PNamed fs) = 3 + foldr max (map (nesting \<circ> snd) fs) 0"
| "nesting (PObject fs) = 2 + foldr max (map (nesting \<circ> snd) fs) 0"
| "nesting (PSet xs) = 2 + foldr max (map nesting xs) 0"
| "nesting (PList xs) = 2 + foldr max (map nesting xs) 0"
| "nesting (PTuple xs) = 2 + foldr max (map nesting xs) 0"
| "nesting (PDict kvs) = 2 + foldr max (map (nesting \<circ> snd) kvs) 0"
| "nesting _ = 1"

lemma foldr_max_le: "foldr max ns 0 \<le> (k :: nat) \<longleftrightarrow> (\<forall>n \<in> set ns. n \<le> k)"
  by (induction ns) auto

lemma traverse_total: "(\<And>x. x \<in> set xs \<Longrightarrow> \<exists>y. f x = Inr y) \<Longrightarrow> \<exists>ys. traverse f xs = Inr ys"
  by (induction xs) (auto, metis bindR.simps(2))

text \<open>
  The conversion ends with a value whenever the interpreter allows as many frames as the value is nested: there
  is no other way for it to fail, provided that what is copied is local already.
\<close>

theorem normalize_ends:
  assumes "\<forall>z. local_copy obtain_copy z = z" and "nesting x \<le> depth"
  shows "\<exists>y. normalize_rpyc_return obtain_copy depth x = Inr y"
  using assms(2)
proof (induction depth arbitrary: x)
  case 0
  then show ?case by (cases x) simp_all
next
  case (Suc d)
  have many: "\<exists>ys. traverse (normalize_rpyc_return obtain_copy d) xs = Inr ys" if "foldr max (map nesting xs) 0 < d" for xs
    by (rule traverse_total) (use that foldr_max_le [of "map nesting xs" "d - 1"] Suc.IH in fastforce)
  have pairs: "\<exists>ys. traverse (\<lambda>(k, v). bindR (normalize_rpyc_return obtain_copy d v) (\<lambda>w. Inr (g k, w))) kvs = Inr ys"
    if "\<forall>kv \<in> set kvs. nesting (snd kv) \<le> d" for kvs g
    by (rule traverse_total) (use that Suc.IH in \<open>fastforce simp: bindR_eq_Inr\<close>)
  have local_x: "local_copy obtain_copy x = x" using assms(1) by blast
  show ?case
  proof (cases x)
    case (PNamed fs)
    have "nesting (PDict (map (\<lambda>(k, v). (PStr k, v)) fs)) \<le> d"
      using Suc.prems PNamed by (simp add: comp_def case_prod_unfold)
    then show ?thesis using Suc.IH local_x PNamed by simp
  next
    case (PList xs)
    obtain ys where "traverse (normalize_rpyc_return obtain_copy d) xs = Inr ys" using many Suc.prems PList by fastforce
    then show ?thesis using local_x PList by simp
  next
    case (PTuple xs)
    obtain ys where "traverse (normalize_rpyc_return obtain_copy d) xs = Inr ys" using many Suc.prems PTuple by fastforce
    then show ?thesis using local_x PTuple by simp
  next
    case (PSet xs)
    obtain ys where "traverse (normalize_rpyc_return obtain_copy d) xs = Inr ys" using many Suc.prems PSet by fastforce
    then show ?thesis using local_x PSet by simp
  next
    case (PDict kvs)
    have "\<forall>kv \<in> set kvs. nesting (snd kv) \<le> d"
      using Suc.prems PDict foldr_max_le [of "map (nesting \<circ> snd) kvs" "d - 1"] by fastforce
    from pairs [OF this, of "\<lambda>k. k"] show ?thesis using local_x PDict by auto
  next
    case (PObject fs)
    have "\<forall>kv \<in> set (public_attributes fs). nesting (snd kv) \<le> d"
      using Suc.prems PObject foldr_max_le [of "map (nesting \<circ> snd) fs" "d - 1"]
      by (fastforce simp: public_attributes_def)
    from pairs [OF this, of PStr] show ?thesis using local_x PObject by auto
  qed (use local_x in simp_all)
qed

lemma normalize_ends_witness:
  "\<exists>y. normalize_rpyc_return Inr 7 (PList [PNamed [(''ask'', PFloat PosInf)], PObject [(''_id'', PInt 1)]]) = Inr y"
  by (rule normalize_ends) (simp_all add: local_copy_def)

section \<open>Constants\<close>

text \<open>
  The constants the parsing of orders repeats, and those of the venue profile for foreign exchange and contracts
  for difference, have the value they have in the wrapper of the terminal, and the timeframes of bar
  specifications are the timeframes of the wrapper. The modes of exchanges do not agree (theory \<open>Venue_Modes\<close>).
\<close>

theorem constants_agree:
  "map (dict_get session_constants) [''DEAL_TYPE_BUY'', ''DEAL_TYPE_SELL''] = map Some [DEAL_TYPE_BUY, DEAL_TYPE_SELL] \<and>
   map (dict_get market_constants) [''SYMBOL_CALC_MODE_FOREX'', ''SYMBOL_CALC_MODE_FUTURES'', ''SYMBOL_CALC_MODE_CFD'',
       ''SYMBOL_CALC_MODE_CFDINDEX'', ''SYMBOL_CALC_MODE_CFDLEVERAGE'', ''SYMBOL_CALC_MODE_FOREX_NO_LEVERAGE''] =
     map Some [SYMBOL_CALC_MODE_FOREX, SYMBOL_CALC_MODE_FUTURES, SYMBOL_CALC_MODE_CFD, SYMBOL_CALC_MODE_CFDINDEX,
       SYMBOL_CALC_MODE_CFDLEVERAGE, SYMBOL_CALC_MODE_FOREX_NO_LEVERAGE] \<and>
   map (dict_get trade_constants) [''TRADE_ACTION_DEAL'', ''TRADE_ACTION_PENDING'', ''TRADE_ACTION_SLTP'', ''TRADE_ACTION_MODIFY'',
       ''TRADE_ACTION_REMOVE'', ''TRADE_ACTION_CLOSE_BY'', ''TRADE_RETCODE_PLACED'', ''TRADE_RETCODE_DONE'',
       ''TRADE_RETCODE_DONE_PARTIAL'', ''ORDER_FILLING_FOK'', ''ORDER_FILLING_IOC'', ''ORDER_FILLING_RETURN'',
       ''ORDER_TIME_GTC'', ''ORDER_TIME_DAY''] =
     map Some [TRADE_ACTION_DEAL, TRADE_ACTION_PENDING, TRADE_ACTION_SLTP, TRADE_ACTION_MODIFY,
       TRADE_ACTION_REMOVE, TRADE_ACTION_CLOSE_BY, TRADE_RETCODE_PLACED, TRADE_RETCODE_DONE,
       TRADE_RETCODE_DONE_PARTIAL, ORDER_FILLING_FOK, ORDER_FILLING_IOC, ORDER_FILLING_RETURN,
       ORDER_TIME_GTC, ORDER_TIME_DAY] \<and>
   map (dict_get trade_constants) [''ORDER_TYPE_BUY'', ''ORDER_TYPE_SELL'', ''ORDER_TYPE_BUY_LIMIT'', ''ORDER_TYPE_SELL_LIMIT'',
       ''ORDER_TYPE_BUY_STOP'', ''ORDER_TYPE_SELL_STOP'', ''ORDER_TYPE_BUY_STOP_LIMIT'', ''ORDER_TYPE_SELL_STOP_LIMIT''] =
     map Some [ORDER_TYPE_BUY, ORDER_TYPE_SELL, ORDER_TYPE_BUY_LIMIT, ORDER_TYPE_SELL_LIMIT,
       ORDER_TYPE_BUY_STOP, ORDER_TYPE_SELL_STOP, ORDER_TYPE_BUY_STOP_LIMIT, ORDER_TYPE_SELL_STOP_LIMIT] \<and>
   list_all (\<lambda>(n, tf). dict_get market_constants (''TIMEFRAME_M'' @ int_str n) = Some tf) mt5_minutes \<and>
   list_all (\<lambda>(n, tf). dict_get market_constants (''TIMEFRAME_H'' @ int_str n) = Some tf) mt5_hours"
  by (intro conjI; code_simp)

section \<open>A lost connection, and the local terminal\<close>

text \<open>
  Once the wrapper is disconnected every request fails as one the gateway does not expose, and none reaches the
  service; the wrapper still says that it is connected. Evaluating text raises another exception.
\<close>

theorem disconnected_calls_misreported:
  "exposed_call link name args kwargs (mt5_disconnect b) = (mt5_disconnect b, Inl RuntimeError) \<and>
   mt5_order_send link request args kwargs (mt5_disconnect b) = (mt5_disconnect b, Inl RuntimeError) \<and>
   mt5_copy_rates_range link symbol tf from_text to_text (mt5_disconnect b) = (mt5_disconnect b, Inl RuntimeError) \<and>
   mt5_eval link command (mt5_disconnect b) = (mt5_disconnect b, Inl AttributeError) \<and>
   mt5_is_connected (mt5_disconnect b)"
  by (simp add: exposed_call_def remote_result_def mt5_order_send_def mt5_copy_rates_range_def mt5_eval_def
      mt5_is_connected_def mt5_disconnect_def missing_method_def)


definition serves :: "gateway_link \<Rightarrow> local_module \<Rightarrow> bool" where
  "serves link mt5 \<longleftrightarrow> (\<forall>name args kwargs. gl_call link (Exposed (''exposed_'' @ name) args kwargs) = mt5 name args kwargs)"

definition converted :: "gateway_link \<Rightarrow> pyobj result \<Rightarrow> pyobj result" where
  "converted link r = missing_method (bindR r (normalize_rpyc_return (gl_obtain link) (gl_depth link)))"

lemma exposed_call_serves:
  assumes "serves link mt5" and "br_connected b"
  shows "exposed_call link (''exposed_'' @ name) args kwargs b =
    (b\<lparr>br_calls := br_calls b @ [Exposed (''exposed_'' @ name) args kwargs]\<rparr>, converted link (mt5 name args kwargs))"
  using assms by (simp add: exposed_call_def remote_result_def serves_def converted_def)

text \<open>
  The two wrappers can stand for each other: when the service exposes the functions of the module, the remote
  wrapper returns what the local one does, converted to plain data, and asks the terminal once.
\<close>

theorem wrappers_agree:
  assumes "serves link mt5" and "br_connected b"
  shows "snd (mt5_order_send link request [] [] b) = converted link (local_order_send mt5 request) \<and>
    snd (mt5_orders_get link [] (query_kwargs symbol grp ticket) b) = converted link (local_orders_get mt5 symbol grp ticket) \<and>
    snd (mt5_positions_get link [] (query_kwargs symbol grp ticket) b) = converted link (local_positions_get mt5 symbol grp ticket) \<and>
    snd (mt5_symbol_info_tick link [PStr symbol] [] b) = converted link (local_symbol_info_tick mt5 symbol) \<and>
    snd (mt5_symbol_info link [PStr symbol] [] b) = converted link (local_symbol_info mt5 symbol) \<and>
    snd (mt5_copy_rates_from_pos link [PStr symbol, PInt tf, PInt start, PInt n] [] b) =
      converted link (local_copy_rates_from_pos mt5 symbol tf start n) \<and>
    snd (mt5_history_deals_get link [d1, d2] kwargs b) = converted link (local_history_deals_get mt5 d1 d2 kwargs) \<and>
    snd (mt5_account_info link [] [] b) = converted link (local_account_info mt5)"
  using exposed_call_serves [OF assms, of "''order_send''"] exposed_call_serves [OF assms, of "''orders_get''"]
    exposed_call_serves [OF assms, of "''positions_get''"] exposed_call_serves [OF assms, of "''symbol_info_tick''"]
    exposed_call_serves [OF assms, of "''symbol_info''"] exposed_call_serves [OF assms, of "''copy_rates_from_pos''"]
    exposed_call_serves [OF assms, of "''history_deals_get''"] exposed_call_serves [OF assms, of "''account_info''"]
  by (simp add: mt5_order_send_def mt5_orders_get_def mt5_positions_get_def mt5_symbol_info_tick_def mt5_symbol_info_def
      mt5_copy_rates_from_pos_def mt5_history_deals_get_def mt5_account_info_def local_order_send_def local_orders_get_def
      local_positions_get_def local_symbol_info_tick_def local_symbol_info_def local_copy_rates_from_pos_def
      local_history_deals_get_def local_account_info_def)

definition demo_module :: local_module where
  "demo_module name args kwargs = Inr (PNamed [(''name'', PStr name), (''given'', PInt (int (length args + length kwargs)))])"

definition demo_link :: gateway_link where
  "demo_link = \<lparr>gl_call = (\<lambda>c. case c of Exposed name args kwargs \<Rightarrow> demo_module (drop 8 name) args kwargs
                              | _ \<Rightarrow> Inl AttributeError), gl_obtain = Inr, gl_depth = 900\<rparr>"

lemma wrappers_agree_witness:
  "serves demo_link demo_module \<and>
   snd (mt5_orders_get demo_link [] (query_kwargs ''EURUSD'' [] 7) \<lparr>br_id = 1, br_connected = True, br_calls = []\<rparr>) =
     Inr (PDict [(PStr ''name'', PStr ''orders_get''), (PStr ''given'', PInt 2)])"
proof -
  have s: "serves demo_link demo_module" by (simp add: serves_def demo_link_def)
  have "converted demo_link (local_orders_get demo_module ''EURUSD'' [] 7) =
      Inr (PDict [(PStr ''name'', PStr ''orders_get''), (PStr ''given'', PInt 2)])"
    by (simp add: converted_def demo_link_def local_orders_get_def demo_module_def query_kwargs_def local_copy_def
        missing_method_def numeral_eq_Suc)
  then show ?thesis
    using s wrappers_agree [OF s, of "\<lparr>br_id = 1, br_connected = True, br_calls = []\<rparr>" _ "''EURUSD''" "[]" 7] by simp
qed

section \<open>Tables of the terminal's own language\<close>

lemma set_join: "set (join sep ws) \<subseteq> set sep \<union> (\<Union>w \<in> set ws. set w)"
  by (induction sep ws rule: join.induct) auto

lemma last_join: "ws \<noteq> [] \<Longrightarrow> last ws \<noteq> [] \<Longrightarrow> join sep ws \<noteq> [] \<and> last (join sep ws) = last (last ws)"
  by (induction sep ws rule: join.induct) auto

text \<open>A table written with semicolons and commas is read back, unless it is a single value, which is read as such.\<close>

theorem mql5_table_read_back:
  assumes "rows \<noteq> []" and "\<forall>row \<in> set rows. row \<noteq> [] \<and> (\<forall>w \<in> set row. CHR '';'' \<notin> set w \<and> CHR '','' \<notin> set w)"
    and "last (last rows) \<noteq> []"
  shows "parse_mql5_response (Some (join '';'' (map (join '','') rows))) =
    Some (if length rows = 1 \<and> length (hd rows) = 1 then Single (hd (hd rows)) else Table rows)"
proof -
  let ?lines = "map (join '','') rows"
  have lines: "\<forall>l \<in> set ?lines. CHR '';'' \<notin> set l" using assms(2) set_join [of "'',''"] by fastforce
  have "last rows \<in> set rows" using assms(1) by simp
  then have "last rows \<noteq> []" using assms(2) by blast
  then have l: "join '','' (last rows) \<noteq> []" "last (join '','' (last rows)) = last (last (last rows))"
    using last_join [of "last rows" "'',''"] assms(3) by simp_all
  have "last ?lines = join '','' (last rows)" using assms(1) by (simp add: last_map)
  then have j: "join '';'' ?lines \<noteq> []" "last (join '';'' ?lines) = last (last (last rows))"
    using last_join [of ?lines "'';''"] assms(1) l by simp_all
  have "last (last (last rows)) \<noteq> CHR '';''"
    using assms(2,3) \<open>last rows \<in> set rows\<close> \<open>last rows \<noteq> []\<close> by (metis last_in_set)
  then have strip: "rstrip_char (CHR '';'') (join '';'' ?lines) = join '';'' ?lines"
    using rstrip_char_id j(2) by simp
  have parts: "split_on (CHR '';'') (join '';'' ?lines) = ?lines"
    using split_on_join [of ?lines "CHR '';''"] lines assms(1) by simp
  have "map (split_on (CHR '','')) ?lines = rows"
    using split_on_join assms(2) by (auto intro!: map_idI)
  then show ?thesis using assms(1) by (simp add: parse_mql5_response_def strip parts Let_def)
qed

lemma mql5_table_read_back_witness:
  "parse_mql5_response (Some (join '';'' (map (join '','') [[''EURUSD'', ''1.1''], [''GBPUSD'', ''1.3'']]))) =
     Some (Table [[''EURUSD'', ''1.1''], [''GBPUSD'', ''1.3'']])"
  by (subst mql5_table_read_back) simp_all

end
