(* ===== verification/Life_Facts.thy ===== *)
theory Life_Facts
  imports Client_Life
begin

text \<open>
  What a handshake that succeeds has seen, what becomes of one that is cancelled or fails, and that a failing
  terminal is asked again for ever, whatever the limit of attempts. How many handshakes a start with a limit
  makes, and how each of them ends it.
\<close>

lemma connect_failed_cases:
  assumes "connect_failed an e l = (l', r)"
  shows "(\<exists>e'. r = Inl e') \<and> l_connects l' = l_connects l \<and> l_state l' = l_state l \<and>
     l_client l' = l_client l \<and> l_mt5 l' = l_mt5 l"
proof -
  obtain x where h: "handle_connection_error an (l\<lparr>l_last_error := Some e\<rparr>) = x" by blast
  show ?thesis
    using assms unfolding connect_failed_def Let_def h
    by (cases x; simp add: handle_reconnect_def) (auto simp: handle_reconnect_def split: py_exc.splits)
qed

lemma initialize_fields:
  "initialize_and_connect cfg an l = (l', r) \<Longrightarrow> l_connects l' = l_connects l \<and> l_state l' = l_state l \<and>
     l_client l' = l_client l \<and> l_jobs l' = l_jobs l"
  by (auto simp: initialize_and_connect_def Let_def split: sum.splits awaited.splits if_splits bool.splits)

lemma fetch_terminal_fields:
  "fetch_terminal_info an l = (l', r) \<Longrightarrow> l_connects l' = l_connects l \<and> l_state l' = l_state l \<and>
     l_client l' = l_client l \<and> l_jobs l' = l_jobs l \<and> l_mt5 l' = l_mt5 l"
  by (auto simp: fetch_terminal_info_def split: sum.splits if_splits)

text \<open>
  C7: a handshake that ends without an exception has either been cancelled, or found a wrapper that initialized, a
  terminal that does not say it is disconnected, and an account.
\<close>

theorem connect_sound:
  assumes "connect cfg an l = (l', Inr ())" and "an_create an \<noteq> CancelledHere" and "an_initialize an \<noteq> CancelledHere"
  shows "l_state l' = CONNECTED \<and> l_mt5 l' \<and> l_info l' \<noteq> None \<and> l_last_error l' = None \<and> l_jobs l' = l_jobs l \<and>
    an_initialize an = Returned True \<and>
    (\<exists>info d. an_terminal_info an = Inr info \<and> info_dict info = Inr d \<and>
       pytruthy (get_default d ''connected'' (PBool True))) \<and>
    (\<exists>account. an_account_info an = Inr account \<and> account \<noteq> PNone)"
proof -
  let ?l = "l\<lparr>l_state := CONNECTING, l_connects := l_connects l + 1\<rparr>"
  obtain l1 i where init: "initialize_and_connect cfg an ?l = (l1, i)" by fastforce
  have i: "i = Returned ()"
  proof (cases i)
    case CancelledHere
    then show ?thesis using init assms(2,3)
      by (auto simp: initialize_and_connect_def Let_def split: sum.splits awaited.splits if_splits bool.splits)
  next
    case (Raised e)
    then show ?thesis using assms(1) init connect_failed_cases [of an e l1 l' "Inr ()"] by (simp add: connect_def Let_def)
  qed simp
  obtain l2 t where ti: "fetch_terminal_info an l1 = (l2, t)" by fastforce
  have t: "t = Inr ()"
    using assms(1) init i ti connect_failed_cases by (cases t) (fastforce simp: connect_def Let_def)+
  have a: "fetch_account_info an l2 = Inr ()"
    using assms(1) init i ti t connect_failed_cases
    by (cases "fetch_account_info an l2") (fastforce simp: connect_def Let_def)+
  have l': "l' = l2\<lparr>l_state := CONNECTED, l_last_error := None\<rparr>"
    using assms(1) init i ti t a by (simp add: connect_def Let_def)
  have mt5: "l_mt5 l1" and info: "\<exists>info d. an_terminal_info an = Inr info \<and> info_dict info = Inr d \<and>
       pytruthy (get_default d ''connected'' (PBool True))" and "l_info l2 \<noteq> None"
    using ti t by (auto simp: fetch_terminal_info_def split: if_splits sum.splits)
  moreover have "an_initialize an = Returned True"
    using init i mt5 by (auto simp: initialize_and_connect_def Let_def split: sum.splits awaited.splits if_splits bool.splits)
  moreover have "\<exists>account. an_account_info an = Inr account \<and> account \<noteq> PNone"
    using a by (auto simp: fetch_account_info_def split: if_splits sum.splits pyobj.splits)
  ultimately show ?thesis using l' initialize_fields [OF init] fetch_terminal_fields [OF ti] by simp
qed

definition rpyc_config :: "nat \<Rightarrow> life_config" where
  "rpyc_config n = \<lparr>lc_mode = IPC, lc_access = EXTERNAL_RPYC, lc_platform = LINUX, lc_keys = {''rpyc'', ''ea''}, lc_max_attempts = n\<rparr>"

definition good_answers :: answers where
  "good_answers =
     \<lparr>an_create = Returned (), an_initialize = Returned True, an_last_error = Inr (1, ''Success''),
      an_terminal_info = Inr (PDict [(PStr ''connected'', PBool True), (PStr ''build'', PInt 4620)]),
      an_account_info = Inr (PDict [(PStr ''login'', PInt 7)])\<rparr>"

lemma connect_sound_witness:
  "\<exists>l'. connect (rpyc_config 0) good_answers life_init = (l', Inr ()) \<and> l_state l' = CONNECTED \<and> l_jobs l' = []"
proof -
  obtain l' where c: "connect (rpyc_config 0) good_answers life_init = (l', Inr ())"
    by (simp add: connect_def Let_def rpyc_config_def good_answers_def initialize_and_connect_def create_mt5_client_def
        create_ipc_client_def fetch_terminal_info_def fetch_account_info_def List.map_filter_def get_default_def)
  have "an_create good_answers \<noteq> CancelledHere" "an_initialize good_answers \<noteq> CancelledHere"
    by (simp_all add: good_answers_def)
  from connect_sound [OF c this] show ?thesis using c by (auto simp: life_init_def)
qed

text \<open>
  A handshake that is cancelled while it waits for the terminal returns as if it had succeeded: the start loop
  declares the client connected and ready, with no wrapper and in the state disconnected.
\<close>

theorem cancelled_start_reported_ready:
  assumes "lc_mode cfg = IPC" and "create_ipc_client cfg = Inr w" and "an_create an = Returned ()"
    and "an_initialize an = CancelledHere" and "lc_max_attempts cfg = 0 \<or> l_attempts l < lc_max_attempts cfg"
  shows "\<exists>l'. start_life cfg (an # rest) l = (l', Started) \<and> client_ready (l_client l') \<and> mt5_connected (l_client l') \<and>
    l_state l' = DISCONNECTED \<and> \<not> l_mt5 l'"
proof -
  have "\<not> (lc_max_attempts cfg \<noteq> 0 \<and> lc_max_attempts cfg < l_attempts l + 1)" using assms(5) by auto
  then show ?thesis
    using assms(1-4)
    by (auto simp: start_life_def start_tries.simps connect_def Let_def initialize_and_connect_def create_mt5_client_def
        client_disconnect_def started_def)
qed

lemma cancelled_start_reported_ready_witness:
  "\<exists>l'. start_life (rpyc_config 5) [good_answers\<lparr>an_initialize := CancelledHere\<rparr>] life_init = (l', Started) \<and>
     client_ready (l_client l') \<and> l_state l' = DISCONNECTED"
  using cancelled_start_reported_ready [of "rpyc_config 5" "RpycWrapper True" "good_answers\<lparr>an_initialize := CancelledHere\<rparr>" life_init "[]"]
  by (auto simp: rpyc_config_def good_answers_def create_ipc_client_def life_init_def)

text \<open>
  With only the adviser there is no wrapper of the terminal to ask: the handshake always fails, and schedules the
  next one.
\<close>

lemma adviser_mode_never_connects:
  assumes "lc_mode cfg = EA" and "''ea'' \<in> lc_keys cfg" and "an_create an = Returned ()"
  shows "snd (connect cfg an l) = Inl ConnectionError \<and> JReset \<in> set (l_jobs (fst (connect cfg an l)))"
  using assms
  by (simp add: connect_def Let_def initialize_and_connect_def create_mt5_client_def create_ea_client_def
      fetch_terminal_info_def connect_failed_def handle_connection_error_def handle_reconnect_def)

text \<open>What one reset does with a terminal that does not initialize.\<close>

lemma reset_again:
  assumes "create_mt5_client cfg = Inr (Some w, ea)" and "an_create an = Returned ()"
    and "an_initialize an = Returned False" and "an_last_error an = Inr err" and "l_attempts l = 0" and "0 < lc_max_attempts cfg"
  shows "l_connects (run_job cfg [an] JReset l) = l_connects l + 1 \<and> JReset \<in> set (l_jobs (run_job cfg [an] JReset l)) \<and>
    l_attempts (run_job cfg [an] JReset l) = 0 \<and> \<not> client_ready (l_client (run_job cfg [an] JReset l))"
proof -
  obtain code msg where err: "err = (code, msg)" by fastforce
  show ?thesis
    using assms unfolding err
    by (simp add: run_job_def reset_life_def start_life_def start_tries.simps connect_def Let_def stop_life_def
        initialize_and_connect_def connect_failed_def handle_connection_error_def handle_reconnect_def)
qed

text \<open>
  C20: a terminal that cannot be initialized is asked again for ever, whatever the limit of attempts is: each reset
  counts its own attempts from zero, makes a new handshake and leaves the next reset behind.
\<close>

theorem reconnects_for_ever:
  assumes "create_mt5_client cfg = Inr (Some w, ea)" and "an_create an = Returned ()"
    and "an_initialize an = Returned False" and "an_last_error an = Inr err"
    and "0 < lc_max_attempts cfg" and "l_attempts l = 0" and "JReset \<in> set (l_jobs l)"
  shows "l_connects ((run_job cfg [an] JReset ^^ n) l) = l_connects l + n \<and>
    JReset \<in> set (l_jobs ((run_job cfg [an] JReset ^^ n) l)) \<and>
    (0 < n \<longrightarrow> \<not> client_ready (l_client ((run_job cfg [an] JReset ^^ n) l)))"
proof -
  have "l_connects ((run_job cfg [an] JReset ^^ n) l) = l_connects l + n \<and>
    JReset \<in> set (l_jobs ((run_job cfg [an] JReset ^^ n) l)) \<and> l_attempts ((run_job cfg [an] JReset ^^ n) l) = 0 \<and>
    (0 < n \<longrightarrow> \<not> client_ready (l_client ((run_job cfg [an] JReset ^^ n) l)))"
  proof (induction n)
    case (Suc n)
    then show ?case using reset_again [OF assms(1-4) _ assms(5), of "(run_job cfg [an] JReset ^^ n) l"] by simp
  qed (use assms(6,7) in simp)
  then show ?thesis by blast
qed

lemma reconnects_for_ever_witness:
  "\<exists>l. l_connects l = 1 \<and> snd (start_life (rpyc_config 3) [good_answers\<lparr>an_initialize := Returned False\<rparr>] life_init) = Failed ConnectionError \<and>
     l = fst (start_life (rpyc_config 3) [good_answers\<lparr>an_initialize := Returned False\<rparr>] life_init) \<and>
     l_connects ((run_job (rpyc_config 3) [good_answers\<lparr>an_initialize := Returned False\<rparr>] JReset ^^ 100) l) = 101"
proof -
  let ?an = "good_answers\<lparr>an_initialize := Returned False\<rparr>" and ?cfg = "rpyc_config 3"
  let ?l = "fst (start_life ?cfg [?an] life_init)"
  have l: "l_connects ?l = 1" "l_attempts ?l = 0" "JReset \<in> set (l_jobs ?l)"
      "snd (start_life ?cfg [?an] life_init) = Failed ConnectionError"
    by (simp_all add: start_life_def start_tries.simps connect_def Let_def rpyc_config_def good_answers_def life_init_def
        initialize_and_connect_def create_mt5_client_def create_ipc_client_def connect_failed_def
        handle_connection_error_def handle_reconnect_def)
  have "create_mt5_client ?cfg = Inr (Some (RpycWrapper True), False)" "an_create ?an = Returned ()"
      "an_initialize ?an = Returned False" "an_last_error ?an = Inr (1, ''Success'')" "0 < lc_max_attempts ?cfg"
    by (simp_all add: rpyc_config_def good_answers_def create_mt5_client_def create_ipc_client_def)
  from reconnects_for_ever [OF this l(2,3), of 100] show ?thesis using l by auto
qed

section \<open>The start loop\<close>

text \<open>What the handshakes of a start end in, one after the other.\<close>

fun handshakes :: "life_config \<Rightarrow> answers list \<Rightarrow> life \<Rightarrow> unit result list" where
  "handshakes cfg [] l = []"
| "handshakes cfg (an # rest) l =
     (case connect cfg an (l\<lparr>l_attempts := l_attempts l + 1\<rparr>) of (l1, r) \<Rightarrow> r # handshakes cfg rest l1)"

lemma connect_client:
  assumes "connect cfg an l = (l1, r)"
  shows "l_connects l1 = l_connects l + 1 \<and> l_attempts l1 = l_attempts l \<and>
    (\<forall>e. r = Inl e \<longrightarrow> l_client l1 = l_client l) \<and>
    (l_client l1)\<lparr>mt5_connected := True\<rparr> = (l_client l)\<lparr>mt5_connected := True\<rparr>"
proof -
  let ?l = "l\<lparr>l_state := CONNECTING, l_connects := l_connects l + 1\<rparr>"
  have fail: "l_connects l' = l_connects k \<and> l_attempts l' = l_attempts k \<and> l_client l' = l_client k"
    if "connect_failed an e k = (l', r')" for e k l' r'
    using that unfolding connect_failed_def Let_def
    by (auto simp: handle_reconnect_def split: sum.splits py_exc.splits)
  obtain l2 i where init: "initialize_and_connect cfg an ?l = (l2, i)" by fastforce
  have l2: "l_connects l2 = l_connects l + 1" "l_client l2 = l_client l" "l_attempts l2 = l_attempts l"
    using init by (auto simp: initialize_and_connect_def Let_def split: sum.splits awaited.splits if_splits bool.splits)
  obtain l3 t where ti: "fetch_terminal_info an l2 = (l3, t)" by fastforce
  have l3: "l_connects l3 = l_connects l2" "l_client l3 = l_client l2" "l_attempts l3 = l_attempts l2"
    using ti by (auto simp: fetch_terminal_info_def split: sum.splits if_splits)
  have r_fail: "\<exists>e'. r' = Inl e'" if "connect_failed an e k = (l', r')" for e k l' r'
    using connect_failed_cases [OF that] by blast
  show ?thesis
  proof (cases i)
    case CancelledHere
    then show ?thesis using assms init l2 by (auto simp: connect_def Let_def client_disconnect_def)
  next
    case (Raised e)
    then show ?thesis using assms init l2 fail r_fail by (fastforce simp: connect_def Let_def)
  next
    case (Returned u)
    show ?thesis
    proof (cases t)
      case (Inl e)
      then show ?thesis using assms init ti Returned l2 l3 fail r_fail by (fastforce simp: connect_def Let_def)
    next
      case (Inr v)
      then show ?thesis using assms init ti Returned l2 l3 fail r_fail
        by (cases "fetch_account_info an l3") (fastforce simp: connect_def Let_def)+
    qed
  qed
qed

lemma length_handshakes [simp]: "length (handshakes cfg tries l) = length tries"
  by (induction tries arbitrary: l) (simp_all split: prod.split)

definition timed_out :: "unit result \<Rightarrow> bool" where
  "timed_out h \<longleftrightarrow> h = Inl TimeoutError"

lemma start_tries_outcome:
  assumes "start_tries cfg tries l = (l', r)" and "lc_max_attempts cfg = 0 \<or> l_attempts l \<le> lc_max_attempts cfg"
    and "k = length (takeWhile timed_out (handshakes cfg tries l))"
  shows "if 0 < lc_max_attempts cfg \<and> lc_max_attempts cfg \<le> l_attempts l + k
    then r = GaveUp \<and> l_connects l' + l_attempts l = l_connects l + lc_max_attempts cfg \<and> l_client l' = l_client l \<and>
         l_jobs l' \<noteq> [] \<and> last (l_jobs l') = JStop
    else if k = length tries
    then r = StillTrying \<and> l_connects l' = l_connects l + k \<and> l_client l' = l_client l
    else l_connects l' = l_connects l + k + 1 \<and>
         (case handshakes cfg tries l ! k of
            Inr _ \<Rightarrow> r = Started \<and> l_client l' = (l_client l)\<lparr>mt5_connected := True, client_ready := True\<rparr> \<and> l_watchdog l'
          | Inl e \<Rightarrow> r = Failed e \<and> l_client l' = l_client l \<and> l_last_error l' = Some e \<and>
                     l_jobs l' \<noteq> [] \<and> last (l_jobs l') = JStop)"
  using assms
proof (induction tries arbitrary: l k)
  case Nil
  then show ?case by (auto simp: start_tries.simps [of _ "[]"] Let_def split: if_splits)
next
  case (Cons an rest)
  let ?l = "l\<lparr>l_attempts := l_attempts l + 1\<rparr>" and ?n = "lc_max_attempts cfg"
  show ?case
  proof (cases "?n \<noteq> 0 \<and> ?n < l_attempts l + 1")
    case True
    then have "l_attempts l = ?n" using Cons.prems(2) by simp
    then show ?thesis using True Cons.prems(1) by (auto simp: start_tries.simps [of cfg "an # rest"] Let_def)
  next
    case False
    obtain l1 c where con: "connect cfg an ?l = (l1, c)" by fastforce
    have l1: "l_connects l1 = l_connects l + 1" "l_attempts l1 = l_attempts l + 1"
        "\<And>e. c = Inl e \<Longrightarrow> l_client l1 = l_client l"
        "(l_client l1)\<lparr>mt5_connected := True\<rparr> = (l_client l)\<lparr>mt5_connected := True\<rparr>"
      using connect_client [OF con] by simp_all
    have hs: "handshakes cfg (an # rest) l = c # handshakes cfg rest l1" using con by simp
    have c_no: "(?n \<noteq> 0 \<and> ?n < l_attempts ?l) = False" using False by auto
    note run = Cons.prems(1) [unfolded start_tries.simps [of cfg "an # rest"] Let_def c_no if_False list.case con prod.case]
    show ?thesis
    proof (cases "timed_out c")
      case True
      let ?k = "length (takeWhile timed_out (handshakes cfg rest l1))"
      have k: "k = Suc ?k" unfolding Cons.prems(3) hs using True by simp
      have c: "c = Inl TimeoutError" using True by (simp add: timed_out_def)
      have "start_tries cfg rest l1 = (l', r)" using run c by simp
      moreover have "?n = 0 \<or> l_attempts l1 \<le> ?n" using False l1(2) by auto
      ultimately show ?thesis using Cons.IH [of l1 ?k] l1 c k unfolding hs by (auto split: if_splits sum.splits)
    next
      case no: False
      then have k: "k = 0" and limit: "\<not> (0 < ?n \<and> ?n \<le> l_attempts l + k)"
        using Cons.prems(3) False unfolding hs by auto
      show ?thesis
      proof (cases c)
        case (Inl e)
        then show ?thesis using run no l1 limit k unfolding hs by (auto simp: timed_out_def)
      next
        case (Inr u)
        then have "l' = started cfg l1" "r = Started" using run by simp_all
        then show ?thesis using Inr l1 limit k unfolding hs by (auto simp: started_def Let_def)
      qed
    qed
  qed
qed


lemma timeout_then_good:
  "handshakes (rpyc_config 2) [good_answers\<lparr>an_create := Raised TimeoutError\<rparr>, good_answers] life_init = [Inl TimeoutError, Inr ()]"
  by (simp add: life_init_def connect_def Let_def rpyc_config_def good_answers_def initialize_and_connect_def
      create_mt5_client_def create_ipc_client_def fetch_terminal_info_def fetch_account_info_def
      List.map_filter_def get_default_def connect_failed_def handle_connection_error_def handle_reconnect_def)


section \<open>The queue of handler tasks\<close>

text \<open>
  The processor runs the tasks in the order they were submitted, up to the first that does not return: a task
  submitted after it is never run.
\<close>

lemma msg_handlers_run:
  "run_msg_handlers ts n =
     (let returned = takeWhile (\<lambda>t. t = Returned ()) ts; left = dropWhile (\<lambda>t. t = Returned ()) ts
      in (n + length returned, tl left,
          case left of [] \<Rightarrow> Waiting | Raised e # _ \<Rightarrow> Died e | _ \<Rightarrow> WasCancelled))"
proof (induction ts n rule: run_msg_handlers.induct)
  case (2 u ts n)
  then show ?case by (simp add: Let_def)
qed (simp_all add: Let_def)

lemma submitted_task_runs:
  "snd (snd (run_msg_handlers queue n)) = Waiting \<Longrightarrow>
   fst (run_msg_handlers (submit_to_msg_handler_queue (Returned ()) queue) n) = fst (run_msg_handlers queue n) + 1"
  unfolding submit_to_msg_handler_queue_def
  by (induction queue n rule: run_msg_handlers.induct) simp_all

end
