(* ===== verification/Bridge_System.thy ===== *)
theory Bridge_System
  imports Bridge_Service Bridge_Facts Life_Facts Exec_Client Data_Facts
begin

text \<open>
  The wrapper, the RPyC connection and the bridge service composed, and the client on top of them: what an order,
  a handshake and a request for bars come to when they go through the whole chain.
\<close>

section \<open>The chain of calls\<close>

text \<open>The objects a wrapper and its service copy as they are.\<close>

definition copies :: "(pyobj \<Rightarrow> pyobj result) \<Rightarrow> bool" where
  "copies obtain_copy \<longleftrightarrow> (\<forall>z. local_copy obtain_copy z = z)"

lemma service_result:
  assumes "br_connected b"
  shows "snd (exposed_call (service_link mt5 constants oc d) name args kwargs b) =
    converted (service_link mt5 constants oc d) (MT5Service mt5 constants name args kwargs)"
  using assms by (simp add: exposed_call_def remote_result_def service_link_def converted_def)

lemma missing_method_idem [simp]: "missing_method (missing_method r) = missing_method r"
  by (simp add: missing_method_def split: sum.splits py_exc.splits)

lemma service_methods:
  "MT5Service mt5 constants ''exposed_order_send'' = exposed_order_send mt5"
  "MT5Service mt5 constants ''exposed_orders_get'' = exposed_orders_get mt5"
  "MT5Service mt5 constants ''exposed_positions_get'' = exposed_positions_get mt5"
  "MT5Service mt5 constants ''exposed_symbol_info'' = exposed_symbol_info mt5"
  "MT5Service mt5 constants ''exposed_symbol_info_tick'' = exposed_symbol_info_tick mt5"
  "MT5Service mt5 constants ''exposed_symbol_select'' = exposed_symbol_select mt5"
  "MT5Service mt5 constants ''exposed_copy_rates_from_pos'' = exposed_copy_rates_from_pos mt5"
  "MT5Service mt5 constants ''exposed_copy_ticks_from'' = exposed_copy_ticks_from mt5"
  "MT5Service mt5 constants ''exposed_history_deals_get'' = exposed_history_deals_get mt5"
  "MT5Service mt5 constants ''exposed_account_info'' = exposed_account_info mt5"
  "MT5Service mt5 constants ''exposed_terminal_info'' = exposed_terminal_info mt5"
  "MT5Service mt5 constants ''exposed_initialize'' = exposed_initialize mt5"
  "MT5Service mt5 constants ''exposed_shutdown'' = exposed_shutdown"
  by (intro ext; simp add: MT5Service_def exposed_methods_def)+

text \<open>
  The queries for symbols, ticks, orders, positions, deals and the account, and an order, through the service: each is the
  function of the terminal's module that the local wrapper calls, its answer converted. Only what has no length is
  refused where rows are expected. The query for the bars of a range is not among them: it has no method in the
  service.
\<close>

theorem service_answers_as_module:
  fixes mt5 constants oc d
  defines "link \<equiv> service_link mt5 constants oc d"
  assumes "br_connected b"
  shows "snd (mt5_order_send link (PDict request) [] [] b) = converted link (local_order_send mt5 (PDict request)) \<and>
    snd (mt5_orders_get link [] (query_kwargs symbol grp ticket) b) =
      converted link (bindR (local_orders_get mt5 symbol grp ticket) counted) \<and>
    snd (mt5_positions_get link [] (query_kwargs symbol grp ticket) b) =
      converted link (bindR (local_positions_get mt5 symbol grp ticket) counted) \<and>
    snd (mt5_symbol_info link [PStr symbol] [] b) = converted link (local_symbol_info mt5 symbol) \<and>
    snd (mt5_symbol_info_tick link [PStr symbol] [] b) = converted link (local_symbol_info_tick mt5 symbol) \<and>
    snd (mt5_symbol_select link [PStr symbol, PBool enable] [] b) = converted link (local_symbol_select mt5 symbol enable) \<and>
    snd (mt5_copy_rates_from_pos link [PStr symbol, PInt tf, PInt start, PInt n] [] b) =
      converted link (bindR (local_copy_rates_from_pos mt5 symbol tf start n) counted) \<and>
    snd (mt5_copy_ticks_from link [PStr symbol, since, PInt n, PInt fl] [] b) =
      converted link (bindR (local_copy_ticks_from mt5 symbol since n fl) counted) \<and>
    snd (mt5_history_deals_get link [d1, d2] kwargs b) =
      converted link (bindR (local_history_deals_get mt5 d1 d2 kwargs) counted) \<and>
    snd (mt5_account_info link [] [] b) = converted link (local_account_info mt5)"
  unfolding link_def mt5_order_send_def mt5_orders_get_def mt5_positions_get_def mt5_symbol_info_def mt5_symbol_info_tick_def
    mt5_symbol_select_def mt5_copy_rates_from_pos_def mt5_copy_ticks_from_def mt5_history_deals_get_def mt5_account_info_def
    service_result [OF assms(2)] service_methods
  by (simp add: exposed_order_send_def exposed_orders_get_def exposed_positions_get_def exposed_symbol_info_def
      exposed_symbol_info_tick_def exposed_symbol_select_def exposed_copy_rates_from_pos_def exposed_copy_ticks_from_def
      exposed_history_deals_get_def exposed_account_info_def bind_args_def dict_copy_def local_order_send_def
      local_orders_get_def local_positions_get_def local_symbol_info_def local_symbol_info_tick_def
      local_symbol_select_def local_copy_rates_from_pos_def local_copy_ticks_from_def local_history_deals_get_def
      local_account_info_def)

section \<open>Answers that are named tuples\<close>

fun scalar :: "pyobj \<Rightarrow> bool" where
  "scalar PNone = True"
| "scalar (PBool _) = True"
| "scalar (PInt _) = True"
| "scalar (PFloat _) = True"
| "scalar (PStr _) = True"
| "scalar _ = False"

definition flat_record :: "pyobj \<Rightarrow> bool" where
  "flat_record x \<longleftrightarrow> (case x of PNone \<Rightarrow> True | PNamed fs \<Rightarrow> list_all (scalar \<circ> snd) fs | _ \<Rightarrow> False)"

definition as_dictionary :: "pyobj \<Rightarrow> pyobj" where
  "as_dictionary x = (case x of PNamed fs \<Rightarrow> PDict (map (\<lambda>(k, v). (PStr k, v)) fs) | _ \<Rightarrow> x)"

lemma normalize_scalar:
  "copies oc \<Longrightarrow> scalar x \<Longrightarrow> normalize_rpyc_return oc (Suc d) x = Inr x"
  by (cases x) (simp_all add: copies_def)

lemma traverse_id: "(\<And>x. x \<in> set xs \<Longrightarrow> f x = Inr x) \<Longrightarrow> traverse f xs = Inr xs"
  by (induction xs) simp_all

lemma normalize_flat:
  assumes "copies oc" and "flat_record x" and "3 \<le> d"
  shows "normalize_rpyc_return oc d x = Inr (as_dictionary x)"
proof -
  obtain e where d: "d = Suc (Suc (Suc e))" using that [of "d - 3"] assms(3) by simp
  show ?thesis
  proof (cases x)
    case (PNamed fs)
    have atom: "normalize_rpyc_return oc (Suc e) v = Inr v" if "(k, v) \<in> set fs" for k v
      using that assms(1,2) PNamed by (intro normalize_scalar) (auto simp: flat_record_def list_all_iff)
    have "traverse (\<lambda>(k, v). bindR (normalize_rpyc_return oc (Suc e) v) (\<lambda>w. Inr (k, w)))
        (map (\<lambda>(k, v). (PStr k, v)) fs) = Inr (map (\<lambda>(k, v). (PStr k, v)) fs)"
      by (rule traverse_id) (auto simp: atom simp del: normalize_rpyc_return.simps)
    then show ?thesis using assms(1) PNamed d by (simp add: copies_def as_dictionary_def)
  qed (use assms d in \<open>simp_all add: flat_record_def copies_def as_dictionary_def\<close>)
qed

lemma converted_flat:
  assumes "copies oc" and "3 \<le> d" and "r = Inr x" and "flat_record x"
  shows "converted (service_link mt5 constants oc d) r = Inr (as_dictionary x)"
  using assms normalize_flat by (simp add: converted_def service_link_def missing_method_def)

section \<open>Orders\<close>

text \<open>The values of the two ends: what the adapter writes, and what it makes of plain data.\<close>

fun py_of_json :: "json \<Rightarrow> pyobj" where
  "py_of_json JNull = PNone"
| "py_of_json (JBool b) = PBool b"
| "py_of_json (JInt i) = PInt i"
| "py_of_json (JFloat x) = PFloat x"
| "py_of_json (JStr s) = PStr s"
| "py_of_json (JArr xs) = PList (map py_of_json xs)"
| "py_of_json (JObj kvs) = PDict (map (\<lambda>(k, v). (PStr k, py_of_json v)) kvs)"

fun json_of_answer :: "pyobj \<Rightarrow> json" where
  "json_of_answer (PBool b) = JBool b"
| "json_of_answer (PInt i) = JInt i"
| "json_of_answer (PFloat x) = JFloat x"
| "json_of_answer (PStr s) = JStr s"
| "json_of_answer (PList xs) = JArr (map json_of_answer xs)"
| "json_of_answer (PTuple xs) = JArr (map json_of_answer xs)"
| "json_of_answer (PDict kvs) =
     JObj (concat (map (\<lambda>(k, v). case k of PStr s \<Rightarrow> [(s, json_of_answer v)] | _ \<Rightarrow> []) kvs))"
| "json_of_answer _ = JNull"

text \<open>The terminal as the client of orders sees it through the wrapper.\<close>

definition order_bridge :: "gateway_link \<Rightarrow> Terminal_Bridge.bridge \<Rightarrow> Client_Orders.bridge" where
  "order_bridge link b =
     \<lparr>b_order_send = NativeSend (\<lambda>req. map_sum id json_of_answer (snd (mt5_order_send link (py_of_json (JObj req)) [] [] b))),
      b_req_ids = Inr ()\<rparr>"

text \<open>
  The documented answer of the terminal's \<^verbatim>\<open>order_send\<close>: \<^verbatim>\<open>None\<close>, or the named tuple of an \<^verbatim>\<open>MqlTradeResult\<close>, whose last
  field is the named tuple of the request.
\<close>

record trade_result =
  tr_retcode :: int
  tr_deal :: int
  tr_order :: int
  tr_volume :: pyfloat
  tr_price :: pyfloat
  tr_bid :: pyfloat
  tr_ask :: pyfloat
  tr_comment :: string
  tr_request_id :: int
  tr_retcode_external :: int
  tr_request :: "(string \<times> pyobj) list"

definition result_object :: "trade_result \<Rightarrow> pyobj" where
  "result_object r =
     PNamed [(''retcode'', PInt (tr_retcode r)), (''deal'', PInt (tr_deal r)), (''order'', PInt (tr_order r)),
             (''volume'', PFloat (tr_volume r)), (''price'', PFloat (tr_price r)), (''bid'', PFloat (tr_bid r)),
             (''ask'', PFloat (tr_ask r)), (''comment'', PStr (tr_comment r)), (''request_id'', PInt (tr_request_id r)),
             (''retcode_external'', PInt (tr_retcode_external r)), (''request'', PNamed (tr_request r))]"

definition answers_orders :: "local_module \<Rightarrow> ((pyobj \<times> pyobj) list \<Rightarrow> trade_result option) \<Rightarrow> bool" where
  "answers_orders mt5 answer \<longleftrightarrow>
     (\<forall>req. mt5 ''order_send'' [PDict req] [] = Inr (case answer req of None \<Rightarrow> PNone | Some r \<Rightarrow> result_object r)) \<and>
     (\<forall>req r. answer req = Some r \<longrightarrow> list_all (scalar \<circ> snd) (tr_request r))"

text \<open>What the adapter gets of it: the fields of both named tuples, one in the other.\<close>

definition result_fields :: "trade_result \<Rightarrow> (string, json) dict" where
  "result_fields r =
     [(''retcode'', JInt (tr_retcode r)), (''deal'', JInt (tr_deal r)), (''order'', JInt (tr_order r)),
      (''volume'', JFloat (tr_volume r)), (''price'', JFloat (tr_price r)), (''bid'', JFloat (tr_bid r)),
      (''ask'', JFloat (tr_ask r)), (''comment'', JStr (tr_comment r)), (''request_id'', JInt (tr_request_id r)),
      (''retcode_external'', JInt (tr_retcode_external r)),
      (''request'', JObj (map (\<lambda>(k, v). (k, json_of_answer v)) (tr_request r)))]"

lemma normalize_result:
  assumes "copies oc" and "list_all (scalar \<circ> snd) (tr_request r)" and "5 \<le> d"
  shows "\<exists>y. normalize_rpyc_return oc d (result_object r) = Inr y \<and> json_of_answer y = JObj (result_fields r)"
proof -
  obtain e where d: "d = Suc (Suc (Suc e))" "2 \<le> e" using that [of "d - 3"] assms(3) by simp
  let ?q = "PDict (map (\<lambda>(k, v). (PStr k, v)) (tr_request r))"
  have request: "normalize_rpyc_return oc (Suc e) (PNamed (tr_request r)) = Inr ?q"
    using normalize_flat [OF assms(1), of "PNamed (tr_request r)" "Suc e"] assms(2) d(2)
    by (simp add: flat_record_def as_dictionary_def del: normalize_rpyc_return.simps)
  have atom: "normalize_rpyc_return oc (Suc e) (PInt i) = Inr (PInt i)"
      "normalize_rpyc_return oc (Suc e) (PFloat x) = Inr (PFloat x)"
      "normalize_rpyc_return oc (Suc e) (PStr t) = Inr (PStr t)" for i x t
    using assms(1) by (simp_all add: copies_def)
  note once = normalize_rpyc_return.simps(2) [of oc "Suc (Suc e)"] normalize_rpyc_return.simps(2) [of oc "Suc e"]
  have "normalize_rpyc_return oc d (result_object r) =
      normalize_rpyc_return oc (Suc (Suc e)) (PDict (map (\<lambda>(k, v). (PStr k, v)) (case result_object r of PNamed fs \<Rightarrow> fs)))"
    unfolding d(1) by (subst normalize_rpyc_return.simps(2))
      (use assms(1) in \<open>simp add: copies_def result_object_def del: normalize_rpyc_return.simps\<close>)
  also have "\<dots> = Inr (PDict [(PStr ''retcode'', PInt (tr_retcode r)), (PStr ''deal'', PInt (tr_deal r)),
        (PStr ''order'', PInt (tr_order r)), (PStr ''volume'', PFloat (tr_volume r)), (PStr ''price'', PFloat (tr_price r)),
        (PStr ''bid'', PFloat (tr_bid r)), (PStr ''ask'', PFloat (tr_ask r)), (PStr ''comment'', PStr (tr_comment r)),
        (PStr ''request_id'', PInt (tr_request_id r)), (PStr ''retcode_external'', PInt (tr_retcode_external r)),
        (PStr ''request'', ?q)])"
    by (subst normalize_rpyc_return.simps(2))
      (use assms(1) in \<open>simp add: copies_def result_object_def atom request del: normalize_rpyc_return.simps\<close>)
  finally show ?thesis
    by (simp add: result_fields_def comp_def case_prod_unfold concat_map_singleton)
qed

text \<open>The answer to a request that is sent through the chain.\<close>

lemma order_bridge_answer:
  assumes "br_connected b" and "copies oc" and "5 \<le> d" and "answers_orders mt5 answer" and "py_of_json (JObj req) = PDict kvs"
  shows "map_sum id json_of_answer (snd (mt5_order_send (service_link mt5 constants oc d) (py_of_json (JObj req)) [] [] b)) =
    Inr (case answer kvs of None \<Rightarrow> JNull | Some r \<Rightarrow> JObj (result_fields r))"
proof -
  let ?link = "service_link mt5 constants oc d"
  have sent: "snd (mt5_order_send ?link (PDict kvs) [] [] b) =
      converted ?link (Inr (case answer kvs of None \<Rightarrow> PNone | Some r \<Rightarrow> result_object r))"
    using assms(4) unfolding mt5_order_send_def service_result [OF assms(1)] service_methods
    by (simp add: exposed_order_send_def bind_args_def dict_copy_def answers_orders_def)
  show ?thesis
  proof (cases "answer kvs")
    case None
    have "normalize_rpyc_return oc d PNone = Inr PNone"
      using normalize_scalar [OF assms(2), of PNone "d - 1"] assms(3) by simp
    then show ?thesis using sent assms(5) None by (simp add: converted_def service_link_def missing_method_def)
  next
    case (Some r)
    then have "list_all (scalar \<circ> snd) (tr_request r)" using assms(4) by (auto simp: answers_orders_def)
    from normalize_result [OF assms(2) this assms(3)] obtain y where
        "normalize_rpyc_return oc d (result_object r) = Inr y" "json_of_answer y = JObj (result_fields r)" by blast
    then show ?thesis using sent assms(5) Some by (simp add: converted_def service_link_def missing_method_def)
  qed
qed


text \<open>
  An order whose request raises on its way to the terminal, for instance because the wrapper has lost its
  connection, is never heard of again: no event is generated, not even the one that it was submitted, and the
  exception leaves the handler.
\<close>

theorem lost_order_unreported:
  assumes "validate_order_pre_venue (no_type order) (no_tif order) = Inr ()"
    and "ee_instrument env (no_instrument_id order) = Some ins"
    and "transform_order_to_mt5_order (ee_account env) order ins = Inr m"
    and "\<forall>req. snd (mt5_order_send link req [] [] b) = Inl e" and "\<not> is_value_error e"
  shows "\<exists>c2 reqs. submit_order (env\<lparr>ee_bridge := order_bridge link b\<rparr>) order c = (c2, [], reqs, Inl e)"
  using assms
  by (simp add: submit_order_def submit_body_def next_order_id_def order_bridge_def place_order_def Let_def
      split: option.splits)

lemma lost_order_unreported_witness:
  "\<exists>c2 reqs. submit_order ((env_example JNull [] [])\<lparr>ee_bridge :=
       order_bridge demo_link (mt5_disconnect \<lparr>br_id = 1, br_connected = True, br_calls = []\<rparr>)\<rparr>) order_example client_init =
     (c2, [], reqs, Inl RuntimeError)"
proof -
  let ?b = "mt5_disconnect \<lparr>br_id = 1, br_connected = True, br_calls = []\<rparr>"
  have lost: "\<forall>req. snd (mt5_order_send demo_link req [] [] ?b) = Inl RuntimeError"
    by (simp add: mt5_order_send_def exposed_call_def remote_result_def mt5_disconnect_def missing_method_def)
  let ?ins = instrument_example
  have ins: "ee_instrument (env_example JNull [] []) (no_instrument_id order_example) = Some ?ins"
      "\<exists>s. ni_symbol ?ins = Inr s"
    by (simp_all add: env_example_def order_example_def instrument_example_def)
  have ok: "validate_order_pre_venue (no_type order_example) (no_tif order_example) = Inr ()"
    "no_type order_example \<in> supported_order_types"
    by (auto simp: order_example_def validate_order_pre_venue_def supported_order_types_def supported_time_in_force_def)
  obtain m where m: "transform_order_to_mt5_order (ee_account (env_example JNull [] [])) order_example ?ins = Inr m"
    using transform_supported ok(2) ins(2) by blast
  show ?thesis using lost_order_unreported [OF ok(1) ins(1) m lost] by simp
qed

section \<open>Orders to a local terminal\<close>

text \<open>
  The wrapper of a local terminal as the client of orders sees it: its methods are those of its class, and the
  answer of the terminal comes as it is.
\<close>

definition local_wrapper_methods :: "string set" where
  "local_wrapper_methods =
     {''initialize'', ''login'', ''shutdown'', ''last_error'', ''version'', ''terminal_info'', ''account_info'',
      ''symbols_get'', ''symbol_info'', ''symbol_info_tick'', ''symbol_select'', ''copy_rates_from_pos'',
      ''copy_ticks_range'', ''copy_ticks_from'', ''order_send'', ''orders_get'', ''positions_get'',
      ''history_orders_total'', ''history_orders_get'', ''history_deals_total'', ''history_deals_get'',
      ''get_constant''}"

definition local_bridge :: "local_module \<Rightarrow> Client_Orders.bridge" where
  "local_bridge mt5 =
     \<lparr>b_order_send =
        (if ''order_send'' \<in> local_wrapper_methods
         then NativeSend (\<lambda>req. map_sum id json_of_answer (local_order_send mt5 (py_of_json (JObj req)))) else NoSend),
      b_req_ids = (if ''req_ids'' \<in> local_wrapper_methods then Inr () else Inl AttributeError)\<rparr>"

lemma local_bridge_fields [simp]:
  "b_req_ids (local_bridge mt5) = Inl AttributeError"
  "b_order_send (local_bridge mt5) = NativeSend (\<lambda>req. map_sum id json_of_answer (local_order_send mt5 (py_of_json (JObj req))))"
  by (simp_all add: local_bridge_def local_wrapper_methods_def)

text \<open>
  C39: a local terminal gets no order at all: the request for the next order number, which its wrapper does not have, raises
  before the order is sent. Whatever the order, no request is written and no event but a rejection is
  generated, and for an order that is supported not even that. With the method the answers, which are named
  tuples, would still not be read.
\<close>

theorem local_terminal_gets_no_order:
  assumes "\<forall>req x. mt5 ''order_send'' [req] [] = Inr x \<longrightarrow> x = PNone \<or> (\<exists>fs. x = PNamed fs)"
  shows "(\<exists>c' evs r. submit_order (env\<lparr>ee_bridge := local_bridge mt5\<rparr>) order c = (c', evs, [], r) \<and>
           (\<forall>e \<in> set evs. \<exists>reason. e = OrderRejected (no_client_order_id order) reason) \<and>
           (validate_order_pre_venue (no_type order) (no_tif order) = Inr () \<and>
            (\<exists>ins m. ee_instrument env (no_instrument_id order) = Some ins \<and>
                     transform_order_to_mt5_order (ee_account env) order ins = Inr m) \<longrightarrow>
              evs = [] \<and> r = Inl AttributeError)) \<and>
         (\<forall>req x ins. local_order_send mt5 req = Inr x \<longrightarrow> interpret_result ins order (json_of_answer x) = ([], Inr ()))"
proof (intro conjI)
  let ?env = "env\<lparr>ee_bridge := local_bridge mt5\<rparr>"
  have body: "\<exists>c1 e. submit_body ?env order c = (c1, [], [], Inl e) \<and>
      (validate_order_pre_venue (no_type order) (no_tif order) = Inr () \<and>
        (\<exists>ins m. ee_instrument env (no_instrument_id order) = Some ins \<and>
                 transform_order_to_mt5_order (ee_account env) order ins = Inr m) \<longrightarrow> e = AttributeError)"
    by (auto simp: submit_body_def next_order_id_def split: sum.split option.split)
  then obtain c1 e where b: "submit_body ?env order c = (c1, [], [], Inl e)"
    and e: "validate_order_pre_venue (no_type order) (no_tif order) = Inr () \<and>
        (\<exists>ins m. ee_instrument env (no_instrument_id order) = Some ins \<and>
                 transform_order_to_mt5_order (ee_account env) order ins = Inr m) \<longrightarrow> e = AttributeError"
    by blast
  show "\<exists>c' evs r. submit_order ?env order c = (c', evs, [], r) \<and>
      (\<forall>e \<in> set evs. \<exists>reason. e = OrderRejected (no_client_order_id order) reason) \<and>
      (validate_order_pre_venue (no_type order) (no_tif order) = Inr () \<and>
        (\<exists>ins m. ee_instrument env (no_instrument_id order) = Some ins \<and>
                 transform_order_to_mt5_order (ee_account env) order ins = Inr m) \<longrightarrow>
          evs = [] \<and> r = Inl AttributeError)"
  proof (cases "is_value_error e")
    case True
    then have "e \<noteq> AttributeError" by auto
    then show ?thesis using b e True by (auto simp: submit_order_def handle_order_event_def)
  next
    case False
    then show ?thesis using b e by (auto simp: submit_order_def)
  qed
  show "\<forall>req x ins. local_order_send mt5 req = Inr x \<longrightarrow> interpret_result ins order (json_of_answer x) = ([], Inr ())"
  proof (intro allI impI)
    fix req x ins
    assume "local_order_send mt5 req = Inr x"
    then have "x = PNone \<or> (\<exists>fs. x = PNamed fs)" using assms by (auto simp: local_order_send_def)
    then show "interpret_result ins order (json_of_answer x) = ([], Inr ())"
      by (auto simp: interpret_result_def)
  qed
qed

lemma local_terminal_gets_no_order_witness:
  "let mt5 = (\<lambda>name args kwargs. Inr (PNamed [(''retcode'', PInt 10009), (''order'', PInt 7)]))
   in \<exists>c'. submit_order ((env_example JNull [] [])\<lparr>ee_bridge := local_bridge mt5\<rparr>) order_example client_init =
        (c', [], [], Inl AttributeError)"
proof -
  let ?mt5 = "\<lambda>name args kwargs. Inr (PNamed [(''retcode'', PInt 10009), (''order'', PInt 7)]) :: pyobj result"
  have ins: "ee_instrument (env_example JNull [] []) (no_instrument_id order_example) = Some instrument_example"
      "ni_symbol instrument_example = Inr ''EURUSD''"
    by (simp_all add: env_example_def order_example_def instrument_example_def)
  have ok: "validate_order_pre_venue (no_type order_example) (no_tif order_example) = Inr ()"
    "no_type order_example \<in> supported_order_types"
    by (auto simp: order_example_def validate_order_pre_venue_def supported_order_types_def supported_time_in_force_def)
  obtain m where m: "transform_order_to_mt5_order (ee_account (env_example JNull [] [])) order_example instrument_example = Inr m"
    using transform_supported ok(2) ins(2) by blast
  show ?thesis
    using local_terminal_gets_no_order [of ?mt5 "env_example JNull [] []" order_example client_init] ok(1) ins(1) m
    by (auto simp: Let_def)
qed

section \<open>The handshake\<close>

text \<open>What a handshake meets when its wrapper is the remote one.\<close>

definition bridge_answers :: "gateway_link \<Rightarrow> Terminal_Bridge.bridge \<Rightarrow> answers" where
  "bridge_answers link b =
     \<lparr>an_create = Returned (),
      an_initialize = (case snd (mt5_initialize link [] [] b) of Inr v \<Rightarrow> Returned (pytruthy v) | Inl e \<Rightarrow> Raised e),
      an_last_error = (case snd (mt5_last_error link [] [] b) of
                         Inr (PTuple [PInt code, PStr msg]) \<Rightarrow> Inr (code, msg)
                       | Inr _ \<Rightarrow> Inl TypeError
                       | Inl e \<Rightarrow> Inl e),
      an_terminal_info = snd (mt5_terminal_info link [] [] b),
      an_account_info = snd (mt5_account_info link [] [] b)\<rparr>"

lemma text_keys: "List.map_filter text_key (map (\<lambda>(k, v). (PStr k, v)) fs) = fs"
  by (induction fs) (auto simp: List.map_filter_def)

text \<open>
  C35: through the bridge a handshake succeeds exactly when the terminal says that it is connected and has an account.
  Which account that is does not matter: a connected terminal is not initialized again.
\<close>

theorem handshake_over_bridge:
  assumes "lc_mode cfg = IPC" and "create_ipc_client cfg = Inr w" and "br_connected b" and "copies oc" and "3 \<le> d"
    and "mt5 ''terminal_info'' [] [] = Inr (PNamed tf)" and "flat_record (PNamed tf)"
    and "map_of tf ''connected'' = Some v" and "mt5 ''account_info'' [] [] = Inr account" and "flat_record account"
  shows "snd (connect cfg (bridge_answers (service_link mt5 constants oc d) b) l) = Inr () \<longleftrightarrow>
    pytruthy v \<and> account \<noteq> PNone"
proof -
  let ?link = "service_link mt5 constants oc d"
  let ?an = "bridge_answers ?link b"
  have "snd (mt5_terminal_info ?link [] [] b) = Inr (as_dictionary (PNamed tf))"
    unfolding mt5_terminal_info_def service_result [OF assms(3)] service_methods
    by (rule converted_flat [OF assms(4,5)]) (use assms(6,7) in \<open>simp_all add: exposed_terminal_info_def bind_args_def\<close>)
  then have ti: "an_terminal_info ?an = Inr (PDict (map (\<lambda>(k, v). (PStr k, v)) tf))"
    by (simp add: bridge_answers_def as_dictionary_def)
  have "snd (mt5_account_info ?link [] [] b) = Inr (as_dictionary account)"
    unfolding mt5_account_info_def service_result [OF assms(3)] service_methods
    by (rule converted_flat [OF assms(4,5)]) (use assms(9,10) in \<open>simp_all add: exposed_account_info_def bind_args_def\<close>)
  then have ai: "an_account_info ?an = Inr (as_dictionary account)" by (simp add: bridge_answers_def)
  have acc: "as_dictionary account = PNone \<longleftrightarrow> account = PNone"
    using assms(10) by (cases account) (simp_all add: as_dictionary_def flat_record_def)
  have "tf \<noteq> []" using assms(8) by auto
  then have fetch: "snd (fetch_terminal_info ?an k) = Inr () \<longleftrightarrow> pytruthy v" if "l_mt5 k" for k
    using that assms(8) by (simp add: fetch_terminal_info_def ti text_keys get_default_def)
  have ready: "an_initialize ?an = Returned True" if "pytruthy v"
  proof -
    have "is_mt5_ready mt5" using that assms(6,8) by (simp add: is_mt5_ready_def attribute_or_def get_default_def)
    then have "MT5Service mt5 constants ''exposed_initialize'' [] [] = Inr (PBool True)"
      by (simp add: service_methods exposed_initialize_def)
    moreover have "normalize_rpyc_return oc d (PBool True) = Inr (PBool True)"
      using normalize_scalar [OF assms(4), of "PBool True" "d - 1"] assms(5) by simp
    ultimately have "snd (mt5_initialize ?link [] [] b) = Inr (PBool True)"
      unfolding mt5_initialize_def service_result [OF assms(3)] by (simp add: converted_def service_link_def missing_method_def)
    then show ?thesis by (simp add: bridge_answers_def)
  qed
  have create: "an_create ?an = Returned ()" "an_initialize ?an \<noteq> CancelledHere"
    by (simp_all add: bridge_answers_def split: sum.split)
  have wrapper: "create_mt5_client cfg = Inr (Some w, False)" using assms(1,2) by (simp add: create_mt5_client_def)
  obtain l1 i where init: "initialize_and_connect cfg ?an (l\<lparr>l_state := CONNECTING, l_connects := l_connects l + 1\<rparr>) = (l1, i)"
    by fastforce
  have i: "i \<noteq> CancelledHere" "i = Returned u \<Longrightarrow> l_mt5 l1" "an_initialize ?an = Returned True \<Longrightarrow> i = Returned ()" for u
    using init create by (auto simp: initialize_and_connect_def wrapper Let_def split: awaited.splits bool.splits sum.splits)
  obtain l2 t where two: "fetch_terminal_info ?an l1 = (l2, t)" by fastforce
  have mt5: "l_mt5 l2 = l_mt5 l1" using fetch_terminal_fields [OF two] by blast
  show ?thesis
  proof (cases i)
    case (Returned u)
    then have l1: "l_mt5 l1" using i by blast
    have t: "t = Inr () \<longleftrightarrow> pytruthy v" using fetch [OF l1] two by simp
    have a: "fetch_account_info ?an l2 = Inr () \<longleftrightarrow> account \<noteq> PNone"
      using l1 mt5 ai acc by (auto simp: fetch_account_info_def split: pyobj.splits)
    have refused: "snd (connect_failed ?an e k) \<noteq> Inr ()" for e k
      using connect_failed_cases [of ?an e k "fst (connect_failed ?an e k)" "snd (connect_failed ?an e k)"] by auto
    have con: "connect cfg ?an l = (case t of
        Inl e \<Rightarrow> connect_failed ?an e l2
      | Inr _ \<Rightarrow> (case fetch_account_info ?an l2 of
           Inl e \<Rightarrow> connect_failed ?an e l2
         | Inr _ \<Rightarrow> (l2\<lparr>l_state := CONNECTED, l_last_error := None\<rparr>, Inr ())))"
      using init two Returned by (simp add: connect_def Let_def)
    show ?thesis
    proof (cases t)
      case (Inl e)
      then show ?thesis using con t refused by simp
    next
      case (Inr x)
      then show ?thesis using con t a refused by (cases "fetch_account_info ?an l2") simp_all
    qed
  next
    case (Raised e)
    then have "\<not> pytruthy v" using ready i(3) by force
    moreover have "connect cfg ?an l = connect_failed ?an e l1" using init Raised by (simp add: connect_def Let_def)
    then have "snd (connect cfg ?an l) \<noteq> Inr ()"
      using connect_failed_cases [of ?an e l1 "fst (connect cfg ?an l)" "snd (connect cfg ?an l)"] by auto
    ultimately show ?thesis by simp
  next
    case CancelledHere
    then show ?thesis using i(1) by blast
  qed
qed

section \<open>Requests for bars\<close>

text \<open>
  The history of the client of data: through the bridge, where \<open>instant\<close> is the text of an instant and \<open>rows\<close> reads
  the rows of an answer, and through the local wrapper, which has no query for a range.
\<close>

definition gateway_history ::
    "gateway_link \<Rightarrow> Terminal_Bridge.bridge \<Rightarrow> (int \<Rightarrow> string) \<Rightarrow> (pyobj \<Rightarrow> rate_row list option result) \<Rightarrow> history" where
  "gateway_history link b instant rows =
     \<lparr>hi_rates_range = (\<lambda>symbol tf since til.
        bindR (snd (mt5_copy_rates_range link symbol tf (instant since) (instant til) b)) rows),
      hi_rates_from_pos = (\<lambda>symbol tf pos n.
        bindR (snd (mt5_copy_rates_from_pos link [PStr symbol, PInt tf, PInt pos, PInt n] [] b)) rows)\<rparr>"

definition local_history :: "local_module \<Rightarrow> (pyobj \<Rightarrow> rate_row list option result) \<Rightarrow> history" where
  "local_history mt5 rows =
     \<lparr>hi_rates_range = (\<lambda>symbol tf since til.
        if ''copy_rates_range'' \<in> local_wrapper_methods
        then bindR (mt5 ''copy_rates_range'' [PStr symbol, PInt tf, PInt since, PInt til] []) rows
        else Inl AttributeError),
      hi_rates_from_pos = (\<lambda>symbol tf pos n. bindR (local_copy_rates_from_pos mt5 symbol tf pos n) rows)\<rparr>"

text \<open>
  C36: a request for the bars since a time is never answered. It needs the query for a range, which the wrapper sends
  as text to a connection that evaluates none, and which the local wrapper does not have: the request raises, and
  neither bars nor the report of a failure are published. No wrapper, service or terminal is at fault alone.
\<close>

theorem bars_since_never_served:
  assumes "cached env (bt_instrument_id bt) = Some i" and "ba_time_aggregated ba (bt_spec bt)"
    and "de_symbol env (bt_instrument_id bt) = Some s" and "bar_spec_to_mt5_timeframe (bt_spec bt) = Inr tf"
  shows "request_bars ba env set_list
       (get_historical_bars (de_md env) (gateway_history (service_link mt5 constants oc d) b instant rows) ts bt)
       now bt limit (Some since) til corr dc = (dc, Inl RuntimeError) \<and>
    request_bars ba env set_list (get_historical_bars (de_md env) (local_history mt5 rows) ts bt)
       now bt limit (Some since) til corr dc = (dc, Inl AttributeError)"
proof -
  have "snd (mt5_copy_rates_range (service_link mt5 constants oc d) symbol t from_text to_text b) = Inl RuntimeError"
    for symbol t from_text to_text
    by (simp add: mt5_copy_rates_range_def remote_result_def service_link_def missing_method_def)
  then show ?thesis
    using assms by (simp add: request_bars_def get_historical_bars_def copy_rates_def gateway_history_def local_history_def
        local_wrapper_methods_def Let_def)
qed

lemma bars_since_never_served_witness:
  "request_bars \<lparr>ba_time_aggregated = (\<lambda>_. True), ba_diff = (\<lambda>_ _. \<lparr>td_days = 0, td_seconds = 0, td_microseconds = 0\<rparr>)\<rparr>
     data_example id (get_historical_bars (de_md data_example)
        (gateway_history (service_link demo_module (\<lambda>_. None) Inr 900) \<lparr>br_id = 1, br_connected = True, br_calls = []\<rparr>
           (\<lambda>_. ''date'') (\<lambda>_. Inr None)) 9 minute_bars)
     9 minute_bars 0 (Some 5) None ''c'' data_client_init = (data_client_init, Inl RuntimeError)"
proof -
  have "cached data_example (bt_instrument_id minute_bars) = Some (example_instrument eurusd)"
    by (simp add: cached_def data_example_def md_example_def minute_bars_def)
  moreover have "de_symbol data_example (bt_instrument_id minute_bars) = Some (mt5_symbol_of ''EURUSD'')"
    by (simp add: data_example_def minute_bars_def eurusd_def)
  moreover have "\<exists>tf. bar_spec_to_mt5_timeframe (bt_spec minute_bars) = Inr tf"
    by (simp add: minute_bars_def bar_spec_defs)
  ultimately show ?thesis using bars_since_never_served by fastforce
qed

section \<open>A terminal\<close>

definition demo_result :: trade_result where
  "demo_result =
     \<lparr>tr_retcode = 10009, tr_deal = 3, tr_order = 5, tr_volume = 1, tr_price = 1, tr_bid = 1, tr_ask = 1,
      tr_comment = ''Request executed'', tr_request_id = 55, tr_retcode_external = 0,
      tr_request = [(''action'', PInt 1), (''symbol'', PStr ''EURUSD''), (''volume'', PFloat 1)]\<rparr>"

definition demo_mt5 :: local_module where
  "demo_mt5 name args kwargs =
     Inr (if name = ''terminal_info'' then PNamed [(''connected'', PBool True), (''build'', PInt 4620)]
          else if name = ''account_info'' then PNamed [(''login'', PInt 7)]
          else if name = ''order_send'' then result_object demo_result
          else PNone)"

definition demo_service :: gateway_link where
  "demo_service = service_link demo_mt5 (\<lambda>_. None) Inr 900"

definition demo_wrapper :: Terminal_Bridge.bridge where
  "demo_wrapper = \<lparr>br_id = 1, br_connected = True, br_calls = []\<rparr>"

lemma copies_Inr: "copies Inr"
  by (simp add: copies_def local_copy_def)

lemma service_answers_as_module_witness:
  "snd (mt5_account_info demo_service [] [] demo_wrapper) = Inr (PDict [(PStr ''login'', PInt 7)])"
proof -
  have "snd (mt5_account_info demo_service [] [] demo_wrapper) = converted demo_service (local_account_info demo_mt5)"
    using service_answers_as_module [of demo_wrapper demo_mt5 "\<lambda>_. None" Inr 900]
    unfolding demo_service_def demo_wrapper_def by simp
  also have "\<dots> = Inr (as_dictionary (PNamed [(''login'', PInt 7)]))"
    unfolding demo_service_def
    by (rule converted_flat [OF copies_Inr]) (simp_all add: local_account_info_def demo_mt5_def flat_record_def)
  finally show ?thesis by (simp add: as_dictionary_def)
qed


lemma handshake_over_bridge_witness:
  "snd (connect (rpyc_config 3) (bridge_answers demo_service demo_wrapper) life_init) = Inr ()"
proof -
  have "snd (connect (rpyc_config 3) (bridge_answers (service_link demo_mt5 (\<lambda>_. None) Inr 900) demo_wrapper) life_init) = Inr () \<longleftrightarrow>
      pytruthy (PBool True) \<and> PNamed [(''login'', PInt 7)] \<noteq> PNone"
    by (rule handshake_over_bridge [where w = "RpycWrapper True" and tf = "[(''connected'', PBool True), (''build'', PInt 4620)]"])
       (simp_all add: rpyc_config_def create_ipc_client_def demo_wrapper_def copies_Inr demo_mt5_def flat_record_def)
  then show ?thesis by (simp add: demo_service_def)
qed

end
