(* ===== verification/Client_Factory.thy ===== *)
theory Client_Factory
  imports Client_Life
begin

text \<open>
  How clients come to be: the choice of a shared client from a configuration (\<^verbatim>\<open>factories.py\<close>), the masking of
  secrets in printed configurations (\<^verbatim>\<open>config.py\<close>) and the terminal in a container (\<^verbatim>\<open>terminal.py\<close>). Docker
  is the parameter of the last part.
\<close>

section \<open>Configurations\<close>

record rpyc_endpoint =
  re_host :: string
  re_port :: int
  re_keep_alive :: bool
  re_timeout :: "pyfloat option"

record ea_endpoint =
  ee_host :: string
  ee_rest_port :: int
  ee_stream_port :: int

definition ea_endpoint_default :: ea_endpoint where
  "ea_endpoint_default = \<lparr>ee_host = ''127.0.0.1'', ee_rest_port = 15556, ee_stream_port = 15557\<rparr>"

datatype managed_backend = LOCAL_PROCESS | DOCKERIZED

text \<open>The access mode is \<open>None\<close> when the configuration holds no value of the enumeration.\<close>

record client_config =
  cc_access :: "access_mode option"
  cc_client_id :: int
  cc_rpyc :: "rpyc_endpoint option"
  cc_local :: "local_terminal option"
  cc_managed :: "managed_backend option"
  cc_ea :: "ea_endpoint option"

datatype client_key =
    LocalKey connection_mode int "string option" "int option" "string option" int bool ea_endpoint
  | RpycKey connection_mode int rpyc_endpoint ea_endpoint

datatype client_payload = LocalPayload local_terminal ea_endpoint | RpycPayload rpyc_endpoint ea_endpoint

section \<open>Shared clients\<close>

text \<open>The key a configuration is looked up under, and what a new client would be given.\<close>

definition client_key_of :: "client_config \<Rightarrow> (client_key \<times> client_payload) result" where
  "client_key_of cfg =
     (let ea = (case cc_ea cfg of Some e \<Rightarrow> e | None \<Rightarrow> ea_endpoint_default)
      in case cc_access cfg of
           Some LOCAL_PYTHON \<Rightarrow>
             (if cc_rpyc cfg \<noteq> None then
                Inl (ValueError ''external_rpyc config must be None for LOCAL_PYTHON terminal access.'')
              else if cc_managed cfg \<noteq> None then
                Inl (ValueError ''managed_terminal config must be None for LOCAL_PYTHON terminal access.'')
              else (case cc_local cfg of
                      None \<Rightarrow> Inl (ValueError ''local_python config is required for LOCAL_PYTHON terminal access.'')
                    | Some lp \<Rightarrow>
                        Inr (LocalKey IPC (cc_client_id cfg) (lt_path lp) (lt_login lp) (lt_server lp) (lt_timeout lp)
                               (lt_portable lp) ea, LocalPayload lp ea)))
         | Some EXTERNAL_RPYC \<Rightarrow>
             (if cc_managed cfg \<noteq> None then
                Inl (ValueError ''managed_terminal config must be None for EXTERNAL_RPYC terminal access.'')
              else (case cc_rpyc cfg of
                      None \<Rightarrow> Inl (ValueError ''external_rpyc config is required for EXTERNAL_RPYC terminal access.'')
                    | Some r \<Rightarrow> Inr (RpycKey IPC (cc_client_id cfg) r ea, RpycPayload r ea)))
         | Some MANAGED_TERMINAL \<Rightarrow>
             (if cc_rpyc cfg \<noteq> None then
                Inl (ValueError ''external_rpyc config must be None for MANAGED_TERMINAL terminal access.'')
              else if cc_managed cfg = None then
                Inl (ValueError ''managed_terminal config is required for MANAGED_TERMINAL terminal access.'')
              else Inl RuntimeError)
         | None \<Rightarrow> Inl (ValueError ''Unsupported or missing terminal_access mode''))"

text \<open>The module's dictionary of clients; a client is a number, and \<open>cr_payloads\<close> what it was built with.\<close>

record client_registry =
  mt5_clients :: "(client_key, nat) dict"
  cr_payloads :: "(nat, client_payload) dict"
  cr_feed_flags :: "nat set"
  cr_next :: nat

definition registry_init :: client_registry where
  "registry_init = \<lparr>mt5_clients = [], cr_payloads = [], cr_feed_flags = {}, cr_next = 0\<rparr>"

definition get_resolved_mt5_client :: "client_config \<Rightarrow> client_registry \<Rightarrow> (client_registry \<times> nat) result" where
  "get_resolved_mt5_client cfg r =
     bindR (client_key_of cfg) (\<lambda>(key, payload).
       case dict_get (mt5_clients r) key of
         Some c \<Rightarrow> Inr (r, c)
       | None \<Rightarrow>
           Inr (r\<lparr>mt5_clients := dict_set key (cr_next r) (mt5_clients r),
                  cr_payloads := dict_set (cr_next r) payload (cr_payloads r), cr_next := cr_next r + 1\<rparr>, cr_next r))"

text \<open>\<^verbatim>\<open>MT5LiveDataClientFactory.create\<close> turns the live feed of the shared client on, never off.\<close>

definition create_data_client :: "client_config \<Rightarrow> bool \<Rightarrow> client_registry \<Rightarrow> (client_registry \<times> nat) result" where
  "create_data_client cfg feed_enabled r =
     bindR (get_resolved_mt5_client cfg r) (\<lambda>(r1, c).
       Inr (if feed_enabled then r1\<lparr>cr_feed_flags := insert c (cr_feed_flags r1)\<rparr> else r1, c))"

text \<open>\<^verbatim>\<open>MT5LiveExecClientFactory.create\<close>: the account is that of the configuration or of the environment.\<close>

definition create_exec_client ::
    "client_config \<Rightarrow> string option \<Rightarrow> string option \<Rightarrow> string option \<Rightarrow> client_registry
       \<Rightarrow> (client_registry \<times> nat \<times> string) result" where
  "create_exec_client cfg account_id env_account name r =
     bindR (get_resolved_mt5_client cfg r) (\<lambda>(r1, c).
       let given = (\<lambda>x. case x of None \<Rightarrow> [] | Some s \<Rightarrow> s);
           account = (if given account_id \<noteq> [] then given account_id else given env_account);
           prefix = (if given name \<noteq> [] then given name else ''METATRADER_5'')
       in if account = [] then Inl AssertionError else Inr (r1, c, prefix @ ''-'' @ account))"

section \<open>Secrets\<close>

definition mask_sensitive_info :: "string option \<Rightarrow> string" where
  "mask_sensitive_info v =
     (case v of
        None \<Rightarrow> ''None''
      | Some s \<Rightarrow>
          if 2 < length s then [hd s] @ replicate (length s - 2) (CHR ''*'') @ [last s]
          else replicate (length s) (CHR ''*''))"

section \<open>The terminal in a container\<close>

datatype container_state = CRunning | CStopped | CExited | COther

record container =
  ct_name :: string
  ct_state :: container_state
  ct_logs :: string

datatype container_status =
    NO_CONTAINER | CONTAINER_CREATED | CONTAINER_STARTING | CONTAINER_STOPPED | NOT_LOGGED_IN | READY | UNKNOWN

text \<open>
  The object and what Docker holds. The container, once looked up or run, is kept; \<open>dk_slept\<close> counts the seconds
  waited for it.
\<close>

record docker_terminal =
  dk_container :: "container option"
  dk_all :: "container list"
  dk_timeout :: nat
  dk_slept :: nat

definition terminal_container_name :: string where
  "terminal_container_name = ''nautilus-mt5-18812''"

text \<open>The constructor takes every credential from the configuration or the environment, and none may be missing.\<close>

definition credential :: "string \<Rightarrow> string \<Rightarrow> string option \<Rightarrow> string option \<Rightarrow> string result" where
  "credential name env_name given env =
     (case (case given of Some s \<Rightarrow> if s \<noteq> [] then Some s else env | None \<Rightarrow> env) of
        Some v \<Rightarrow> Inr v
      | None \<Rightarrow> Inl (ValueError (''`'' @ name @ ''` not set nor available in env `'' @ env_name @ ''`'')))"

definition dockerized_init ::
    "string option \<times> string option \<Rightarrow> string option \<times> string option \<Rightarrow> string option \<times> string option \<Rightarrow> bool \<Rightarrow> nat
       \<Rightarrow> container list \<Rightarrow> docker_terminal result" where
  "dockerized_init account password server docker_installed timeout containers =
     bindR (credential ''account_number'' ''MT5_ACCOUNT_NUMBER'' (fst account) (snd account)) (\<lambda>_.
     bindR (credential ''password'' ''MT5_PASSWORD'' (fst password) (snd password)) (\<lambda>_.
     bindR (credential ''server'' ''MT5_SERVER'' (fst server) (snd server)) (\<lambda>_.
       if docker_installed then Inr \<lparr>dk_container = None, dk_all = containers, dk_timeout = timeout, dk_slept = 0\<rparr>
       else Inl RuntimeError)))"

definition is_logged_in :: "container \<Rightarrow> bool" where
  "is_logged_in c =
     (let ls = split_on (CHR 0x0A) (ct_logs c)
      in list_ex (\<lambda>l. contains l ''Login successful: True'') ls \<and> list_ex (\<lambda>l. contains l '':18812'') ls)"

definition lookup_container :: "docker_terminal \<Rightarrow> docker_terminal" where
  "lookup_container t =
     (case dk_container t of
        Some _ \<Rightarrow> t
      | None \<Rightarrow> t\<lparr>dk_container := find (\<lambda>c. ct_name c = terminal_container_name) (rev (dk_all t))\<rparr>)"

definition container_status_of :: "container option \<Rightarrow> container_status" where
  "container_status_of c =
     (case c of
        None \<Rightarrow> NO_CONTAINER
      | Some k \<Rightarrow>
          if ct_state k = CRunning then (if is_logged_in k then READY else CONTAINER_STARTING)
          else if ct_state k = CStopped \<or> ct_state k = CExited then CONTAINER_STOPPED
          else UNKNOWN)"

text \<open>The answers of Docker: of the removal of a container, and of its run, with the state the new one reports.\<close>

definition docker_stop :: "unit result \<Rightarrow> docker_terminal \<Rightarrow> docker_terminal \<times> unit result" where
  "docker_stop removes t0 =
     (let t = lookup_container t0
      in case dk_container t of
           None \<Rightarrow> (t, Inr ())
         | Some c \<Rightarrow>
             (case removes of
                Inl e \<Rightarrow> (t, Inl e)
              | Inr _ \<Rightarrow> (t\<lparr>dk_all := filter (\<lambda>k. ct_name k \<noteq> ct_name c) (dk_all t)\<rparr>, Inr ())))"

text \<open>The wait: \<open>logs k\<close> are the logs of the new container after \<open>k\<close> seconds, and \<open>n\<close> checks are left.\<close>

fun await_login :: "container_state \<Rightarrow> (nat \<Rightarrow> string) \<Rightarrow> nat \<Rightarrow> nat \<Rightarrow> nat option" where
  "await_login st logs k 0 = None"
| "await_login st logs k (Suc n) =
     (if is_logged_in \<lparr>ct_name = terminal_container_name, ct_state = st, ct_logs = logs k\<rparr> then Some k
      else await_login st logs (k + 1) n)"

definition docker_run ::
    "container_state result \<Rightarrow> (nat \<Rightarrow> string) \<Rightarrow> nat \<Rightarrow> docker_terminal \<Rightarrow> docker_terminal \<times> unit result" where
  "docker_run runs logs limit t =
     (case runs of
        Inl e \<Rightarrow> (t, Inl e)
      | Inr st \<Rightarrow>
          (let fresh = \<lparr>ct_name = terminal_container_name, ct_state = st, ct_logs = logs 0\<rparr>;
               t1 = t\<lparr>dk_container := Some fresh, dk_all := dk_all t @ [fresh]\<rparr>
           in case await_login st logs 0 limit of
                Some k \<Rightarrow>
                  (t1\<lparr>dk_container := Some (fresh\<lparr>ct_logs := logs k\<rparr>), dk_slept := dk_slept t1 + k\<rparr>, Inr ())
              | None \<Rightarrow> (t1\<lparr>dk_slept := dk_slept t1 + limit\<rparr>, Inl RuntimeError)))"

definition docker_start ::
    "unit result \<Rightarrow> container_state result \<Rightarrow> (nat \<Rightarrow> string) \<Rightarrow> nat option \<Rightarrow> docker_terminal
       \<Rightarrow> docker_terminal \<times> unit result" where
  "docker_start removes runs logs wait_secs t0 =
     (let t = lookup_container t0; status = container_status_of (dk_container t);
          limit = (case wait_secs of Some n \<Rightarrow> if n \<noteq> 0 then n else dk_timeout t | None \<Rightarrow> dk_timeout t)
      in if status = NO_CONTAINER then docker_run runs logs limit t
         else if status \<in> {NOT_LOGGED_IN, CONTAINER_STOPPED, CONTAINER_CREATED, UNKNOWN} then
           (case docker_stop removes t of
              (t1, Inl e) \<Rightarrow> (t1, Inl e)
            | (t1, Inr _) \<Rightarrow> docker_run runs logs limit t1)
         else (t, Inr ()))"

text \<open>\<^verbatim>\<open>safe_start\<close> reports an error of Docker's own interface as a container that exists already.\<close>

definition docker_safe_start ::
    "(py_exc \<Rightarrow> bool) \<Rightarrow> unit result \<Rightarrow> container_state result \<Rightarrow> (nat \<Rightarrow> string) \<Rightarrow> nat option \<Rightarrow> docker_terminal
       \<Rightarrow> docker_terminal \<times> unit result" where
  "docker_safe_start is_api_error removes runs logs wait_secs t =
     (case docker_start removes runs logs wait_secs t of
        (t1, Inl e) \<Rightarrow> (t1, Inl (if is_api_error e then RuntimeError else e))
      | (t1, Inr u) \<Rightarrow> (t1, Inr u))"

text \<open>\<^verbatim>\<open>__exit__\<close> logs whatever the removal raises.\<close>

definition docker_exit :: "unit result \<Rightarrow> docker_terminal \<Rightarrow> docker_terminal" where
  "docker_exit removes t = fst (docker_stop removes t)"

end
