(* ===== verification/Factory_Facts.thy ===== *)
theory Factory_Facts
  imports Client_Factory
begin

text \<open>
  Which configurations share a client and what the client was built with, what a printed configuration reveals
  of a secret, and what a start of the terminal in a container promises.
\<close>

section \<open>Shared clients\<close>

text \<open>The requests of a node, one after the other.\<close>

fun resolve_all :: "client_config list \<Rightarrow> client_registry \<Rightarrow> (client_registry \<times> nat list) result" where
  "resolve_all [] r = Inr (r, [])"
| "resolve_all (cfg # cfgs) r =
     bindR (get_resolved_mt5_client cfg r) (\<lambda>(r1, c).
     bindR (resolve_all cfgs r1) (\<lambda>(r2, cs). Inr (r2, c # cs)))"

definition registry_ok :: "client_registry \<Rightarrow> bool" where
  "registry_ok r \<longleftrightarrow>
     (\<forall>k c. map_of (mt5_clients r) k = Some c \<longrightarrow> c < cr_next r) \<and>
     (\<forall>k k' c. map_of (mt5_clients r) k = Some c \<and> map_of (mt5_clients r) k' = Some c \<longrightarrow> k = k')"

lemma registry_ok_init: "registry_ok registry_init"
  by (simp add: registry_ok_def registry_init_def)

lemma resolved_once:
  assumes "get_resolved_mt5_client cfg r = Inr (r', c)" and "registry_ok r"
  obtains k p where "client_key_of cfg = Inr (k, p)" and "map_of (mt5_clients r') k = Some c" and "registry_ok r'"
    and "map_of (mt5_clients r) \<subseteq>\<^sub>m map_of (mt5_clients r')" and "cr_next r \<le> cr_next r'"
    and "map_of (mt5_clients r) k = None \<Longrightarrow> map_of (cr_payloads r') c = Some p \<and> c = cr_next r \<and> c < cr_next r'"
    and "\<And>c'. c' < cr_next r \<Longrightarrow> map_of (cr_payloads r') c' = map_of (cr_payloads r) c'"
proof -
  obtain k p where kp: "client_key_of cfg = Inr (k, p)"
    using assms(1) by (cases "client_key_of cfg") (auto simp: get_resolved_mt5_client_def)
  show ?thesis
  proof (cases "map_of (mt5_clients r) k")
    case (Some c0)
    then have "r' = r" "c = c0" using assms(1) kp by (simp_all add: get_resolved_mt5_client_def)
    then show ?thesis using that [OF kp] Some assms(2) by simp
  next
    case None
    then have r': "r' = r\<lparr>mt5_clients := dict_set k (cr_next r) (mt5_clients r),
        cr_payloads := dict_set (cr_next r) p (cr_payloads r), cr_next := cr_next r + 1\<rparr>" and c: "c = cr_next r"
      using assms(1) kp by (auto simp: get_resolved_mt5_client_def)
    have "registry_ok r'"
      using assms(2) None unfolding registry_ok_def r'
      by (auto simp: dict_simps less_Suc_eq split: if_splits)
    moreover have "map_of (mt5_clients r) \<subseteq>\<^sub>m map_of (mt5_clients r')"
      using None by (auto simp: r' dict_simps map_le_def)
    ultimately show ?thesis using that [OF kp] None by (simp add: r' c dict_simps)
  qed
qed

lemma resolve_all_keys:
  assumes "resolve_all cfgs r = Inr (r', cs)" and "registry_ok r"
  shows "registry_ok r' \<and> length cs = length cfgs \<and> map_of (mt5_clients r) \<subseteq>\<^sub>m map_of (mt5_clients r') \<and>
    (\<forall>i < length cfgs. \<exists>k p. client_key_of (cfgs ! i) = Inr (k, p) \<and> map_of (mt5_clients r') k = Some (cs ! i))"
  using assms
proof (induction cfgs arbitrary: r cs)
  case (Cons cfg cfgs)
  obtain r1 c cs' where one: "get_resolved_mt5_client cfg r = Inr (r1, c)"
    and rest: "resolve_all cfgs r1 = Inr (r', cs')" and cs: "cs = c # cs'"
    using Cons.prems(1) by (auto simp: result_simps)
  obtain k p where k: "client_key_of cfg = Inr (k, p)" "map_of (mt5_clients r1) k = Some c" "registry_ok r1"
    "map_of (mt5_clients r) \<subseteq>\<^sub>m map_of (mt5_clients r1)"
    by (rule resolved_once [OF one Cons.prems(2)])
  note IH = Cons.IH [OF rest k(3)]
  have "map_of (mt5_clients r') k = Some c" using IH k(2) by (auto simp: map_le_def dom_def)
  then have "\<forall>i < length (cfg # cfgs). \<exists>k p. client_key_of ((cfg # cfgs) ! i) = Inr (k, p) \<and>
      map_of (mt5_clients r') k = Some (cs ! i)"
    using IH k(1) cs by (auto simp: less_Suc_eq_0_disj)
  then show ?case using IH k(4) cs by (auto intro: map_le_trans)
qed simp

text \<open>What a client was built with is what a configuration with its key asks for.\<close>

definition built_for_keys :: "client_registry \<Rightarrow> bool" where
  "built_for_keys r \<longleftrightarrow>
     (\<forall>k c. map_of (mt5_clients r) k = Some c \<longrightarrow>
        (\<exists>cfg p. client_key_of cfg = Inr (k, p) \<and> map_of (cr_payloads r) c = Some p))"

lemma resolved_built:
  assumes "get_resolved_mt5_client cfg r = Inr (r', c)" and "registry_ok r" and "built_for_keys r"
  shows "built_for_keys r'"
proof -
  obtain k p where kp: "client_key_of cfg = Inr (k, p)"
    using assms(1) by (cases "client_key_of cfg") (auto simp: get_resolved_mt5_client_def)
  show ?thesis
  proof (cases "map_of (mt5_clients r) k")
    case (Some c0)
    then show ?thesis using assms kp by (simp add: get_resolved_mt5_client_def)
  next
    case None
    then have r': "r' = r\<lparr>mt5_clients := dict_set k (cr_next r) (mt5_clients r),
        cr_payloads := dict_set (cr_next r) p (cr_payloads r), cr_next := cr_next r + 1\<rparr>"
      using assms(1) kp by (auto simp: get_resolved_mt5_client_def)
    have old: "c' \<noteq> cr_next r" if "map_of (mt5_clients r) k' = Some c'" for k' c'
      using that assms(2) unfolding registry_ok_def by blast
    show ?thesis
      using assms(3) kp old unfolding built_for_keys_def r' by (auto simp: dict_simps split: if_splits)
  qed
qed

lemma resolve_all_built:
  "resolve_all cfgs r = Inr (r', cs) \<Longrightarrow> registry_ok r \<Longrightarrow> built_for_keys r \<Longrightarrow> built_for_keys r'"
proof (induction cfgs arbitrary: r cs)
  case (Cons cfg cfgs)
  obtain r1 c cs' where one: "get_resolved_mt5_client cfg r = Inr (r1, c)" and rest: "resolve_all cfgs r1 = Inr (r', cs')"
    using Cons.prems(1) by (auto simp: result_simps)
  have "registry_ok r1" using resolved_once [OF one Cons.prems(2)] by blast
  then show ?case using Cons.IH [OF rest] resolved_built [OF one Cons.prems(2,3)] by blast
qed simp

text \<open>The parts of a configuration that say which terminal it means.\<close>

definition ea_of :: "client_config \<Rightarrow> ea_endpoint" where
  "ea_of cfg = (case cc_ea cfg of Some e \<Rightarrow> e | None \<Rightarrow> ea_endpoint_default)"

definition terminal_of :: "local_terminal \<Rightarrow> string option \<times> int option \<times> string option \<times> int \<times> bool" where
  "terminal_of t = (lt_path t, lt_login t, lt_server t, lt_timeout t, lt_portable t)"

lemma client_key_cases:
  assumes "client_key_of cfg = Inr (k, p)"
  obtains (remote) e where "cc_access cfg = Some EXTERNAL_RPYC" and "cc_rpyc cfg = Some e"
      and "k = RpycKey IPC (cc_client_id cfg) e (ea_of cfg)" and "p = RpycPayload e (ea_of cfg)"
  | (local) t where "cc_access cfg = Some LOCAL_PYTHON" and "cc_local cfg = Some t"
      and "k = LocalKey IPC (cc_client_id cfg) (lt_path t) (lt_login t) (lt_server t) (lt_timeout t) (lt_portable t) (ea_of cfg)"
      and "p = LocalPayload t (ea_of cfg)"
  using assms that by (auto simp: client_key_of_def ea_of_def Let_def split: option.splits access_mode.splits if_splits)


definition gateway_config :: "int \<Rightarrow> string \<Rightarrow> client_config" where
  "gateway_config n host = \<lparr>cc_access = Some EXTERNAL_RPYC, cc_client_id = n,
     cc_rpyc = Some \<lparr>re_host = host, re_port = 18812, re_keep_alive = False, re_timeout = None\<rparr>, cc_local = None,
     cc_managed = None, cc_ea = None\<rparr>"


text \<open>
  The password of a local terminal is not part of the key: a second configuration that differs only in its
  password is given the client of the first, which goes on logging in with the first password.
\<close>

theorem password_of_first_configuration:
  assumes "client_key_of cfg = Inr (LocalKey m n path lg sv tm portable ea, LocalPayload lp ea)"
    and "cfg' = cfg\<lparr>cc_local := Some (lp\<lparr>lt_password := pw\<rparr>)\<rparr>"
  shows "\<exists>r c. resolve_all [cfg, cfg'] registry_init = Inr (r, [c, c]) \<and>
    map_of (cr_payloads r) c = Some (LocalPayload lp ea)"
proof -
  have a: "cc_access cfg = Some LOCAL_PYTHON" and l: "cc_local cfg = Some lp"
    using assms(1) by (auto simp: client_key_of_def Let_def split: option.splits access_mode.splits if_splits)
  have k: "client_key_of cfg' = Inr (LocalKey m n path lg sv tm portable ea, LocalPayload (lp\<lparr>lt_password := pw\<rparr>) ea)"
    using assms a l by (auto simp: client_key_of_def Let_def split: if_splits)
  show ?thesis
    by (simp add: get_resolved_mt5_client_def assms(1) k registry_init_def dict_simps)
qed

section \<open>Secrets\<close>

text \<open>
  What is printed of a secret is as long as the secret, and two secrets that agree on their length and, when they
  have more than two characters, on the first and the last one are printed alike: nothing else is revealed.
\<close>

theorem mask_reveals_ends_only:
  assumes "length s' = length s" and "2 < length s \<Longrightarrow> hd s' = hd s \<and> last s' = last s"
  shows "mask_sensitive_info (Some s') = mask_sensitive_info (Some s) \<and>
    length (mask_sensitive_info (Some s)) = length s"
  using assms by (auto simp: mask_sensitive_info_def)

lemma mask_reveals_ends_only_witness:
  "mask_sensitive_info (Some ''s3cret'') = mask_sensitive_info (Some ''s4fast'') \<and>
     mask_sensitive_info (Some ''s3cret'') = ''s****t''"
  using mask_reveals_ends_only [of "''s3cret''" "''s4fast''"] by (simp add: mask_sensitive_info_def)

section \<open>The terminal in a container\<close>

lemma await_login_logged:
  "await_login st logs k n = Some m \<Longrightarrow> k \<le> m \<and> m < k + n \<and>
     is_logged_in \<lparr>ct_name = terminal_container_name, ct_state = st, ct_logs = logs m\<rparr>"
  by (induction n arbitrary: k) (auto split: if_splits, fastforce+)

lemma await_login_finds:
  "j < n \<Longrightarrow> is_logged_in \<lparr>ct_name = terminal_container_name, ct_state = st, ct_logs = logs (k + j)\<rparr> \<Longrightarrow>
     await_login st logs k n \<noteq> None"
proof (induction n arbitrary: k j)
  case (Suc n)
  then show ?case by (cases j) (auto dest: Suc.IH [where k = "k + 1"])
qed simp

lemma docker_run_outcome:
  assumes "docker_run runs logs limit t = (t', r)"
  shows "dk_slept t' \<le> dk_slept t + limit" and
    "r = Inr () \<longleftrightarrow> (\<exists>st k. runs = Inr st \<and> k < limit \<and>
       is_logged_in \<lparr>ct_name = terminal_container_name, ct_state = st, ct_logs = logs k\<rparr>)" and
    "r = Inr () \<Longrightarrow> \<exists>c. dk_container t' = Some c \<and> is_logged_in c"
proof -
  have "dk_slept t' \<le> dk_slept t + limit \<and> (r = Inr () \<longleftrightarrow> (\<exists>st k. runs = Inr st \<and> k < limit \<and>
       is_logged_in \<lparr>ct_name = terminal_container_name, ct_state = st, ct_logs = logs k\<rparr>)) \<and>
       (r = Inr () \<longrightarrow> (\<exists>c. dk_container t' = Some c \<and> is_logged_in c))"
  proof (cases runs)
    case (Inr st)
    show ?thesis
    proof (cases "await_login st logs 0 limit")
      case None
      then show ?thesis using assms Inr await_login_finds [of _ limit st logs 0]
        by (auto simp: docker_run_def Let_def)
    next
      case (Some m)
      then show ?thesis using assms Inr await_login_logged [OF Some] by (auto simp: docker_run_def Let_def)
    qed
  qed (use assms in \<open>auto simp: docker_run_def\<close>)
  then show "dk_slept t' \<le> dk_slept t + limit" and
    "r = Inr () \<longleftrightarrow> (\<exists>st k. runs = Inr st \<and> k < limit \<and>
       is_logged_in \<lparr>ct_name = terminal_container_name, ct_state = st, ct_logs = logs k\<rparr>)" and
    "r = Inr () \<Longrightarrow> \<exists>c. dk_container t' = Some c \<and> is_logged_in c" by blast+
qed

lemma docker_stop_fields:
  "docker_stop removes t = (t1, r) \<Longrightarrow> dk_slept t1 = dk_slept t \<and> dk_timeout t1 = dk_timeout t"
  by (auto simp: docker_stop_def lookup_container_def Let_def split: option.splits sum.splits)

text \<open>
  A start that succeeds leaves a container that is logged in, or it has found one that runs without being logged
  in and did not wait for it; it never sleeps longer than it was asked to wait.
\<close>

theorem docker_start_sound:
  assumes "docker_start removes runs logs (Some (Suc n)) t = (t', Inr ())"
  shows "dk_slept t' \<le> dk_slept t + Suc n \<and>
    (\<exists>c. dk_container t' = Some c \<and>
       (is_logged_in c \<or> t' = lookup_container t \<and> container_status_of (Some c) = CONTAINER_STARTING))"
proof -
  let ?t = "lookup_container t"
  have slept: "dk_slept ?t = dk_slept t" by (simp add: lookup_container_def split: option.splits)
  consider (none) "container_status_of (dk_container ?t) = NO_CONTAINER"
    | (broken) "container_status_of (dk_container ?t) \<in> {NOT_LOGGED_IN, CONTAINER_STOPPED, CONTAINER_CREATED, UNKNOWN}"
    | (running) "container_status_of (dk_container ?t) \<in> {READY, CONTAINER_STARTING}"
    by (cases "container_status_of (dk_container ?t)") auto
  then show ?thesis
  proof cases
    case none
    then have "docker_run runs logs (Suc n) ?t = (t', Inr ())" using assms by (simp add: docker_start_def Let_def)
    from docker_run_outcome [OF this] slept show ?thesis by auto
  next
    case broken
    then obtain t1 where stop: "docker_stop removes ?t = (t1, Inr ())" and run: "docker_run runs logs (Suc n) t1 = (t', Inr ())"
      using assms by (auto simp: docker_start_def Let_def split: prod.splits sum.splits)
    from docker_run_outcome [OF run] docker_stop_fields [OF stop] slept show ?thesis by auto
  next
    case running
    then have t': "t' = ?t" using assms by (auto simp: docker_start_def Let_def)
    obtain c where c: "dk_container ?t = Some c" using running by (cases "dk_container ?t") (simp_all add: container_status_of_def)
    have "container_status_of (Some c) = READY \<Longrightarrow> is_logged_in c"
      by (simp add: container_status_of_def split: if_split_asm)
    then show ?thesis using running slept c unfolding t' by auto
  qed
qed

definition login_logs :: "nat \<Rightarrow> string" where
  "login_logs k = (if k < 2 then [] else ''Login successful: True :18812'')"

lemma login_logs_at: "is_logged_in \<lparr>ct_name = n, ct_state = st, ct_logs = login_logs k\<rparr> \<longleftrightarrow> 2 \<le> k"
proof (cases "2 \<le> k")
  case True
  have "contains ''Login successful: True :18812'' ''Login successful: True''"
    and "contains ''Login successful: True :18812'' '':18812''"
    unfolding contains_iff by (rule exI [of _ "[]"], rule exI [of _ "'' :18812''"], simp)
      (rule exI [of _ "''Login successful: True ''"], rule exI [of _ "[]"], simp)
  moreover have "split_on (CHR 0x0A) ''Login successful: True :18812'' = [''Login successful: True :18812'']"
    by (rule split_on_no_sep) simp
  ultimately show ?thesis using True by (simp add: is_logged_in_def login_logs_def)
next
  case False
  then show ?thesis by (simp add: is_logged_in_def login_logs_def)
qed

lemma docker_start_sound_witness:
  "\<exists>t'. docker_start (Inr ()) (Inr CRunning) login_logs (Some (Suc 4))
       \<lparr>dk_container = None, dk_all = [], dk_timeout = 300, dk_slept = 0\<rparr> = (t', Inr ()) \<and>
     (\<exists>c. dk_container t' = Some c \<and> (is_logged_in c \<or> container_status_of (Some c) = CONTAINER_STARTING)) \<and>
     dk_slept t' \<le> 5"
proof -
  let ?t = "\<lparr>dk_container = None, dk_all = [], dk_timeout = 300, dk_slept = 0\<rparr>"
  obtain t' where run: "docker_start (Inr ()) (Inr CRunning) login_logs (Some (Suc 4)) ?t = (t', Inr ())"
    by (simp add: docker_start_def docker_run_def lookup_container_def container_status_of_def Let_def
        numeral_eq_Suc login_logs_at)
  from docker_start_sound [OF run] show ?thesis using run by auto
qed

end
