(* ===== verification/Feed_Service.thy ===== *)
theory Feed_Service
  imports Feed_Gateway "HOL-Library.Word"
begin

text \<open>
  The feed service inside the terminal (\<^verbatim>\<open>MQL5/refactoring/Include/NT5FeedWire.mqh\<close> and
  \<^verbatim>\<open>Services/NT5TickFeedService.mq5\<close>): the texts it writes and reads, its tables of symbols and bars, the
  export of ticks and bars and the loop of the service. What the service asks of the terminal and of its WebSocket
  is the record \<open>feed_env\<close>; integers have the width they have in MQL5. A text is a list of characters; texts
  written with \<open>dq\<close> show a tilde for each double quote.
\<close>

section \<open>Texts\<close>

abbreviation quote_char :: char where
  "quote_char \<equiv> CHR 0x22"

definition replace_char :: "char \<Rightarrow> string \<Rightarrow> string \<Rightarrow> string" where
  "replace_char c r s = concat (map (\<lambda>x. if x = c then r else [x]) s)"

definition NT5JsonEscape :: "string \<Rightarrow> string" where
  "NT5JsonEscape v =
     replace_char quote_char [CHR 0x5C, quote_char] (replace_char (CHR 0x5C) [CHR 0x5C, CHR 0x5C] v)"

definition mql_blank :: "char \<Rightarrow> bool" where
  "mql_blank c \<longleftrightarrow> (of_char c :: nat) \<in> {9, 10, 13, 32}"

text \<open>\<^verbatim>\<open>StringTrimLeft\<close> and \<^verbatim>\<open>StringTrimRight\<close>.\<close>

definition mql_trim :: "string \<Rightarrow> string" where
  "mql_trim s = rev (dropWhile mql_blank (rev (dropWhile mql_blank s)))"

record mql_tick =
  mq_time_msc :: "64 word"
  mq_bid :: pyfloat
  mq_ask :: pyfloat
  mq_last :: pyfloat
  mq_volume :: "64 word"
  mq_flags :: "32 word"

record mql_rates =
  mr_time :: "64 word"
  mr_open :: pyfloat
  mr_high :: pyfloat
  mr_low :: pyfloat
  mr_close :: pyfloat
  mr_tick_volume :: "64 word"
  mr_real_volume :: "64 word"
  mr_spread :: "32 word"

text \<open>The formats \<^verbatim>\<open>%I64d\<close>, \<^verbatim>\<open>%u\<close> and \<^verbatim>\<open>%d\<close>.\<close>

definition dec64 :: "64 word \<Rightarrow> string" where
  "dec64 w = int_str (sint w)"

definition udec32 :: "32 word \<Rightarrow> string" where
  "udec32 w = int_str (uint w)"

definition dec32 :: "32 word \<Rightarrow> string" where
  "dec32 w = int_str (sint w)"

definition NT5TickToJson :: "mql_tick \<Rightarrow> string" where
  "NT5TickToJson t =
     dq ''{~time_msc~:'' @ dec64 (mq_time_msc t) @ dq '',~bid~:'' @ fixed8 (mq_bid t) @
     dq '',~ask~:'' @ fixed8 (mq_ask t) @ dq '',~last~:'' @ fixed8 (mq_last t) @
     dq '',~volume~:'' @ dec64 (mq_volume t) @ dq '',~flags~:'' @ udec32 (mq_flags t) @ ''}''"

definition NT5BarSpecToJson :: "string \<Rightarrow> string \<Rightarrow> string" where
  "NT5BarSpecToJson symbol timeframe =
     [quote_char] @ NT5JsonEscape symbol @ '':'' @ NT5JsonEscape timeframe @ [quote_char]"

text \<open>The loops that join texts with commas.\<close>

fun comma_loop :: "string \<Rightarrow> string list \<Rightarrow> string" where
  "comma_loop out [] = out"
| "comma_loop out (x # xs) = comma_loop (out @ '','' @ x) xs"

definition comma_list :: "string list \<Rightarrow> string" where
  "comma_list xs = (case xs of [] \<Rightarrow> ''['' | y # ys \<Rightarrow> comma_loop (''['' @ y) ys) @ '']''"

definition NT5BuildHelloJson :: "string \<Rightarrow> string list \<Rightarrow> string list \<Rightarrow> string \<Rightarrow> 64 word \<Rightarrow> string" where
  "NT5BuildHelloJson session_id symbols bar_specs terminal_name login =
     dq ''{~op~:~hello~,~session~:~'' @ NT5JsonEscape session_id @
     dq ''~,~terminal~:~'' @ NT5JsonEscape terminal_name @ dq ''~,~account~:~'' @ dec64 login @
     dq ''~,~symbols~:'' @ comma_list (map (\<lambda>s. [quote_char] @ NT5JsonEscape s @ [quote_char]) symbols) @
     dq '',~bars~:'' @ comma_list bar_specs @ ''}''"

definition NT5BuildTicksJson :: "string \<Rightarrow> 64 word \<Rightarrow> mql_tick list \<Rightarrow> string" where
  "NT5BuildTicksJson symbol cursor ticks =
     dq ''{~op~:~ticks~,~symbol~:~'' @ NT5JsonEscape symbol @ dq ''~,~cursor~:'' @ dec64 cursor @
     dq '',~data~:'' @ comma_list (map NT5TickToJson ticks) @ ''}''"

definition NT5BuildHeartbeatJson :: "64 word \<Rightarrow> string" where
  "NT5BuildHeartbeatJson time_gmt = dq ''{~op~:~heartbeat~,~ts_msc~:'' @ dec64 (time_gmt * 1000) @ ''}''"

definition NT5BuildPongJson :: string where
  "NT5BuildPongJson = dq ''{~op~:~pong~}''"

text \<open>\<^verbatim>\<open>ENUM_TIMEFRAMES\<close>.\<close>

definition NT5TimeframeToString :: "int \<Rightarrow> string" where
  "NT5TimeframeToString period =
     (if period = 1 then ''M1'' else if period = 5 then ''M5'' else if period = 15 then ''M15''
      else if period = 30 then ''M30'' else if period = 16385 then ''H1'' else if period = 16388 then ''H4''
      else if period = 16408 then ''D1'' else ''TF'' @ int_str period)"

definition NT5TimeframeFromString :: "string \<Rightarrow> int option" where
  "NT5TimeframeFromString raw =
     (let tf = upper (mql_trim raw)
      in if tf = ''M1'' then Some 1 else if tf = ''M5'' then Some 5 else if tf = ''M15'' then Some 15
         else if tf = ''M30'' then Some 30 else if tf = ''H1'' then Some 16385 else if tf = ''H4'' then Some 16388
         else if tf = ''D1'' then Some 16408 else None)"

definition NT5BuildBarJson :: "string \<Rightarrow> string \<Rightarrow> mql_rates \<Rightarrow> string" where
  "NT5BuildBarJson symbol timeframe rate =
     dq ''{~op~:~bar~,~symbol~:~'' @ NT5JsonEscape symbol @ dq ''~,~timeframe~:~'' @ NT5JsonEscape timeframe @
     dq ''~,~time~:'' @ dec64 (mr_time rate) @ dq '',~open~:'' @ fixed8 (mr_open rate) @
     dq '',~high~:'' @ fixed8 (mr_high rate) @ dq '',~low~:'' @ fixed8 (mr_low rate) @
     dq '',~close~:'' @ fixed8 (mr_close rate) @ dq '',~tick_volume~:'' @ dec64 (mr_tick_volume rate) @
     dq '',~real_volume~:'' @ dec64 (mr_real_volume rate) @ dq '',~spread~:'' @ dec32 (mr_spread rate) @ ''}''"

definition NT5BuildErrorJson :: "string \<Rightarrow> string \<Rightarrow> string" where
  "NT5BuildErrorJson code message =
     dq ''{~op~:~error~,~code~:~'' @ NT5JsonEscape code @ dq ''~,~message~:~'' @ NT5JsonEscape message @ dq ''~}''"

text \<open>The text from the first place where \<open>needle\<close> stands.\<close>

definition from_first :: "string \<Rightarrow> string \<Rightarrow> string option" where
  "from_first needle s = map_option (\<lambda>(_, r). needle @ r) (cut needle s)"

definition NT5ExtractJsonStringField :: "string \<Rightarrow> string \<Rightarrow> string option" where
  "NT5ExtractJsonStringField json field =
     Option.bind (from_first ([quote_char] @ field @ [quote_char]) json) (\<lambda>s.
     Option.bind (cut '':'' s) (\<lambda>(_, s1).
     Option.bind (cut [quote_char] s1) (\<lambda>(_, s2).
     Option.bind (cut [quote_char] s2) (\<lambda>(v, _). Some v))))"

definition NT5ParseWireOp :: "string \<Rightarrow> string option" where
  "NT5ParseWireOp json = NT5ExtractJsonStringField json ''op''"

definition NT5SplitCsvSymbols :: "string \<Rightarrow> string list" where
  "NT5SplitCsvSymbols csv =
     (if csv = [] then [] else filter (\<lambda>p. p \<noteq> []) (map mql_trim (split_on (CHR '','') csv)))"

fun bar_specs_loop :: "string list \<Rightarrow> string list \<Rightarrow> string list" where
  "bar_specs_loop [] out = out"
| "bar_specs_loop (raw # rest) out =
     (let p = mql_trim raw
      in if p = [] then bar_specs_loop rest out
         else (case split_on (CHR '':'') p of
                 [a, b] \<Rightarrow>
                   if mql_trim a = [] \<or> mql_trim b = [] then bar_specs_loop rest out
                   else (case NT5TimeframeFromString (mql_trim b) of
                           None \<Rightarrow> bar_specs_loop rest out
                         | Some period \<Rightarrow>
                             bar_specs_loop rest (out @ [NT5BarSpecToJson (mql_trim a) (NT5TimeframeToString period)]))
               | _ \<Rightarrow> bar_specs_loop rest out))"

definition NT5SplitCsvBarSpecs :: "string \<Rightarrow> string list" where
  "NT5SplitCsvBarSpecs csv = (if csv = [] then [] else bar_specs_loop (split_on (CHR '','') csv) [])"

definition NT5ParseBarSpecJson :: "string \<Rightarrow> (string \<times> string) option" where
  "NT5ParseBarSpecJson spec =
     (case split_on (CHR '':'') (replace_char quote_char [] spec) of
        [a, b] \<Rightarrow> if a \<noteq> [] \<and> b \<noteq> [] then Some (a, b) else None
      | _ \<Rightarrow> None)"

definition NT5ExtractJsonStringArray :: "string \<Rightarrow> string \<Rightarrow> string list option" where
  "NT5ExtractJsonStringArray json field =
     Option.bind (from_first ([quote_char] @ field @ [quote_char]) json) (\<lambda>s.
     Option.bind (cut ''['' s) (\<lambda>(_, s1).
     Option.bind (cut '']'' s1) (\<lambda>(raw, _).
       (let inner = replace_char (CHR '' '') [] raw
        in Some (if inner = [] then []
                 else filter (\<lambda>p. p \<noteq> []) (map (replace_char quote_char []) (split_on (CHR '','') inner)))))))"

section \<open>State\<close>

text \<open>\<^verbatim>\<open>has_last_sent\<close> and \<^verbatim>\<open>last_sent\<close> together are an option.\<close>

record symbol_entry =
  se_symbol :: string
  se_last_msc :: "64 word"
  se_active :: bool
  se_last_sent :: "mql_tick option"

record bar_entry =
  be_symbol :: string
  be_period :: int
  be_timeframe :: string
  be_last_closed_time :: "64 word"
  be_active :: bool

record feed_inputs =
  InpBatchSize :: int
  InpSymbols :: string
  InpBarSpecs :: string
  InpBarPollMs :: int
  InpHeartbeatSec :: int

text \<open>
  \<open>g_ws\<close> is whether the WebSocket is connected, once there is one, and \<open>g_sent\<close> the texts that it has taken.
\<close>

record feed_service =
  g_ws :: "bool option"
  g_symbols :: "symbol_entry list"
  g_bars :: "bar_entry list"
  g_session :: string
  g_last_heartbeat_tick :: "64 word"
  g_last_bar_poll_tick :: "64 word"
  g_sent :: "string list"

text \<open>
  The answers of the terminal and of the WebSocket: \<open>None\<close> is a negative count of \<^verbatim>\<open>CopyTicks\<close> or
  \<^verbatim>\<open>CopyRates\<close>, and \<open>fe_takes\<close> is what \<^verbatim>\<open>send\<close> returns while the socket is connected.
\<close>

record feed_env =
  fe_select :: "string \<Rightarrow> bool"
  fe_symbol_tick :: "string \<Rightarrow> mql_tick option"
  fe_time_current :: "64 word"
  fe_time_gmt :: "64 word"
  fe_tick_count :: "64 word"
  fe_copy_ticks :: "string \<Rightarrow> 64 word \<Rightarrow> int \<Rightarrow> mql_tick list option"
  fe_copy_rates :: "string \<Rightarrow> int \<Rightarrow> mql_rates list option"
  fe_terminal_name :: string
  fe_login :: "64 word"
  fe_takes :: "string \<Rightarrow> bool"
  fe_opens :: bool

definition ws_connected :: "feed_service \<Rightarrow> bool" where
  "ws_connected fs \<longleftrightarrow> g_ws fs = Some True"

definition ws_send :: "feed_env \<Rightarrow> string \<Rightarrow> feed_service \<Rightarrow> feed_service \<times> bool" where
  "ws_send env s fs =
     (if ws_connected fs \<and> fe_takes env s then (fs\<lparr>g_sent := g_sent fs @ [s]\<rparr>, True) else (fs, False))"

fun index_where :: "('a \<Rightarrow> bool) \<Rightarrow> 'a list \<Rightarrow> nat option" where
  "index_where p [] = None"
| "index_where p (x # xs) = (if p x then Some 0 else map_option Suc (index_where p xs))"

section \<open>Subscriptions\<close>

definition NT5FindSymbolIndex :: "string \<Rightarrow> feed_service \<Rightarrow> nat option" where
  "NT5FindSymbolIndex symbol fs = index_where (\<lambda>e. se_symbol e = symbol) (g_symbols fs)"

definition NT5ListActiveSymbols :: "feed_service \<Rightarrow> string list" where
  "NT5ListActiveSymbols fs = map se_symbol (filter se_active (g_symbols fs))"

definition NT5EnsureSymbolSelected :: "feed_env \<Rightarrow> string \<Rightarrow> bool" where
  "NT5EnsureSymbolSelected env symbol = fe_select env symbol"

definition NT5ActivateSymbol :: "feed_env \<Rightarrow> string \<Rightarrow> feed_service \<Rightarrow> feed_service \<times> bool" where
  "NT5ActivateSymbol env symbol fs =
     (if \<not> NT5EnsureSymbolSelected env symbol then (fs, False)
      else (case NT5FindSymbolIndex symbol fs of
              None \<Rightarrow>
                (fs\<lparr>g_symbols := g_symbols fs @
                   [\<lparr>se_symbol = symbol, se_last_msc = 0, se_active = True, se_last_sent = None\<rparr>]\<rparr>, True)
            | Some idx \<Rightarrow>
                if \<not> se_active (g_symbols fs ! idx)
                then (fs\<lparr>g_symbols := (g_symbols fs)[idx := (g_symbols fs ! idx)\<lparr>se_active := True\<rparr>]\<rparr>, True)
                else (fs, False)))"

definition NT5DeactivateSymbol :: "string \<Rightarrow> feed_service \<Rightarrow> feed_service \<times> bool" where
  "NT5DeactivateSymbol symbol fs =
     (case NT5FindSymbolIndex symbol fs of
        None \<Rightarrow> (fs, False)
      | Some idx \<Rightarrow>
          if \<not> se_active (g_symbols fs ! idx) then (fs, False)
          else (fs\<lparr>g_symbols := (g_symbols fs)[idx := (g_symbols fs ! idx)\<lparr>se_active := False\<rparr>]\<rparr>, True))"

definition NT5ListActiveBarSpecs :: "feed_service \<Rightarrow> string list" where
  "NT5ListActiveBarSpecs fs =
     map (\<lambda>e. NT5BarSpecToJson (be_symbol e) (be_timeframe e)) (filter be_active (g_bars fs))"

definition NT5FindBarIndex :: "string \<Rightarrow> int \<Rightarrow> feed_service \<Rightarrow> nat option" where
  "NT5FindBarIndex symbol period fs =
     index_where (\<lambda>e. be_symbol e = symbol \<and> be_period e = period) (g_bars fs)"

definition NT5ActivateBar :: "feed_env \<Rightarrow> string \<Rightarrow> int \<Rightarrow> feed_service \<Rightarrow> feed_service \<times> bool" where
  "NT5ActivateBar env symbol period fs =
     (if \<not> NT5EnsureSymbolSelected env symbol then (fs, False)
      else (case NT5FindBarIndex symbol period fs of
              None \<Rightarrow>
                (fs\<lparr>g_bars := g_bars fs @
                   [\<lparr>be_symbol = symbol, be_period = period, be_timeframe = NT5TimeframeToString period,
                     be_last_closed_time = 0, be_active = True\<rparr>]\<rparr>, True)
            | Some idx \<Rightarrow>
                if \<not> be_active (g_bars fs ! idx)
                then (fs\<lparr>g_bars := (g_bars fs)[idx := (g_bars fs ! idx)\<lparr>be_last_closed_time := 0, be_active := True\<rparr>]\<rparr>,
                      True)
                else (fs, False)))"

definition NT5DeactivateBar :: "string \<Rightarrow> int \<Rightarrow> feed_service \<Rightarrow> feed_service \<times> bool" where
  "NT5DeactivateBar symbol period fs =
     (case NT5FindBarIndex symbol period fs of
        None \<Rightarrow> (fs, False)
      | Some idx \<Rightarrow>
          if \<not> be_active (g_bars fs ! idx) then (fs, False)
          else (fs\<lparr>g_bars := (g_bars fs)[idx := (g_bars fs ! idx)\<lparr>be_active := False\<rparr>]\<rparr>, True))"

text \<open>The loops over the symbols of a command, which collect whether anything changed.\<close>

fun change_all :: "('a \<Rightarrow> feed_service \<Rightarrow> feed_service \<times> bool) \<Rightarrow> 'a list \<Rightarrow> feed_service \<Rightarrow> feed_service \<times> bool" where
  "change_all f [] fs = (fs, False)"
| "change_all f (x # xs) fs =
     (case f x fs of (fs1, one) \<Rightarrow> (case change_all f xs fs1 of (fs2, changed) \<Rightarrow> (fs2, one \<or> changed)))"

definition NT5SendHello :: "feed_env \<Rightarrow> feed_service \<Rightarrow> feed_service" where
  "NT5SendHello env fs =
     (if \<not> ws_connected fs then fs
      else fst (ws_send env (NT5BuildHelloJson (g_session fs) (NT5ListActiveSymbols fs) (NT5ListActiveBarSpecs fs)
                              (fe_terminal_name env) (fe_login env)) fs))"

definition hello_if_changed :: "feed_env \<Rightarrow> feed_service \<times> bool \<Rightarrow> feed_service" where
  "hello_if_changed env r = (case r of (fs, changed) \<Rightarrow> if changed then NT5SendHello env fs else fs)"

definition send_if_connected :: "feed_env \<Rightarrow> string \<Rightarrow> feed_service \<Rightarrow> feed_service" where
  "send_if_connected env s fs = (if ws_connected fs then fst (ws_send env s fs) else fs)"

definition NT5HandleSubscribeBars :: "feed_env \<Rightarrow> string \<Rightarrow> bool \<Rightarrow> feed_service \<Rightarrow> feed_service" where
  "NT5HandleSubscribeBars env json subscribe fs =
     (case NT5ExtractJsonStringArray json ''symbols'' of
        None \<Rightarrow> fs
      | Some symbols \<Rightarrow>
     (case NT5ExtractJsonStringField json ''timeframe'' of
        None \<Rightarrow>
          send_if_connected env (NT5BuildErrorJson ''missing_timeframe'' ''subscribe_bars requires timeframe'') fs
      | Some tf_raw \<Rightarrow>
     (case NT5TimeframeFromString tf_raw of
        None \<Rightarrow> send_if_connected env (NT5BuildErrorJson ''invalid_timeframe'' tf_raw) fs
      | Some period \<Rightarrow>
          hello_if_changed env
            (change_all (\<lambda>s. if subscribe then NT5ActivateBar env s period else NT5DeactivateBar s period) symbols fs))))"

definition NT5HandleWireMessage :: "feed_env \<Rightarrow> string \<Rightarrow> feed_service \<Rightarrow> feed_service" where
  "NT5HandleWireMessage env json fs =
     (case NT5ParseWireOp json of
        None \<Rightarrow> fs
      | Some op \<Rightarrow>
          if op = ''subscribe'' then
            (case NT5ExtractJsonStringArray json ''symbols'' of
               None \<Rightarrow> fs
             | Some symbols \<Rightarrow> hello_if_changed env (change_all (NT5ActivateSymbol env) symbols fs))
          else if op = ''unsubscribe'' then
            (case NT5ExtractJsonStringArray json ''symbols'' of
               None \<Rightarrow> fs
             | Some symbols \<Rightarrow> hello_if_changed env (change_all NT5DeactivateSymbol symbols fs))
          else if op = ''subscribe_bars'' then NT5HandleSubscribeBars env json True fs
          else if op = ''unsubscribe_bars'' then NT5HandleSubscribeBars env json False fs
          else if op = ''ping'' then send_if_connected env NT5BuildPongJson fs
          else fs)"

section \<open>Ticks\<close>

definition NT5TickSameSnapshot :: "mql_tick \<Rightarrow> mql_tick \<Rightarrow> bool" where
  "NT5TickSameSnapshot a b \<longleftrightarrow>
     mq_time_msc a = mq_time_msc b \<and> feq (mq_bid a) (mq_bid b) \<and> feq (mq_ask a) (mq_ask b) \<and>
     feq (mq_last a) (mq_last b) \<and> mq_flags a = mq_flags b \<and> mq_volume a = mq_volume b"

definition NT5SeedCursorFromMarket :: "feed_env \<Rightarrow> symbol_entry \<Rightarrow> symbol_entry" where
  "NT5SeedCursorFromMarket env e =
     (case fe_symbol_tick env (se_symbol e) of
        Some latest \<Rightarrow> e\<lparr>se_last_msc := mq_time_msc latest, se_last_sent := Some latest\<rparr>
      | None \<Rightarrow> e\<lparr>se_last_msc := fe_time_current env * 1000, se_last_sent := None\<rparr>)"

text \<open>The ticks at the front that equal the last one sent are dropped.\<close>

definition NT5FilterNewTicks :: "symbol_entry \<Rightarrow> mql_tick list \<Rightarrow> mql_tick list" where
  "NT5FilterNewTicks e src =
     (case se_last_sent e of
        None \<Rightarrow> src
      | Some l \<Rightarrow> dropWhile (\<lambda>t. NT5TickSameSnapshot t l) src)"

definition NT5ExportSymbolTicks :: "feed_env \<Rightarrow> feed_inputs \<Rightarrow> nat \<Rightarrow> feed_service \<Rightarrow> feed_service" where
  "NT5ExportSymbolTicks env inp idx fs =
     (if \<not> se_active (g_symbols fs ! idx) then fs
      else
        (let e = (if se_last_msc (g_symbols fs ! idx) = 0 then NT5SeedCursorFromMarket env (g_symbols fs ! idx)
                  else g_symbols fs ! idx);
             fs1 = fs\<lparr>g_symbols := (g_symbols fs)[idx := e]\<rparr>
         in case fe_copy_ticks env (se_symbol e) (se_last_msc e + 1) (InpBatchSize inp) of
              None \<Rightarrow> fs1
            | Some raw \<Rightarrow>
                if raw = [] then fs1
                else
                  (let ticks = NT5FilterNewTicks e raw
                   in if ticks = [] then fs1
                      else
                        (let cursor = mq_time_msc (last ticks)
                         in case ws_send env (NT5BuildTicksJson (se_symbol e) cursor ticks) fs1 of
                              (fs2, False) \<Rightarrow> fs2
                            | (fs2, True) \<Rightarrow>
                                fs2\<lparr>g_symbols := (g_symbols fs2)[idx :=
                                      e\<lparr>se_last_msc := cursor, se_last_sent := Some (last ticks)\<rparr>]\<rparr>))))"

definition NT5ExportAllTicks :: "feed_env \<Rightarrow> feed_inputs \<Rightarrow> feed_service \<Rightarrow> feed_service" where
  "NT5ExportAllTicks env inp fs = fold (NT5ExportSymbolTicks env inp) [0..<length (g_symbols fs)] fs"

section \<open>Bars\<close>

definition NT5PollBar :: "feed_env \<Rightarrow> nat \<Rightarrow> feed_service \<Rightarrow> feed_service" where
  "NT5PollBar env idx fs =
     (let e = g_bars fs ! idx
      in if \<not> be_active e then fs
         else if \<not> NT5EnsureSymbolSelected env (be_symbol e) then fs
         else (case fe_copy_rates env (be_symbol e) (be_period e) of
                 None \<Rightarrow> fs
               | Some [] \<Rightarrow> fs
               | Some (rate # _) \<Rightarrow>
                   if sint (mr_time rate) \<le> 0 then fs
                   else if be_last_closed_time e = mr_time rate then fs
                   else if \<not> ws_connected fs then fs
                   else (case ws_send env (NT5BuildBarJson (be_symbol e) (be_timeframe e) rate) fs of
                           (fs1, False) \<Rightarrow> fs1
                         | (fs1, True) \<Rightarrow>
                             fs1\<lparr>g_bars := (g_bars fs1)[idx := e\<lparr>be_last_closed_time := mr_time rate\<rparr>]\<rparr>)))"

definition NT5PollAllBars :: "feed_env \<Rightarrow> feed_inputs \<Rightarrow> feed_service \<Rightarrow> feed_service" where
  "NT5PollAllBars env inp fs =
     (if 0 < InpBarPollMs inp \<and> fe_tick_count env - g_last_bar_poll_tick fs < word_of_int (InpBarPollMs inp) then fs
      else fold (NT5PollBar env) [0..<length (g_bars fs)] (fs\<lparr>g_last_bar_poll_tick := fe_tick_count env\<rparr>))"

fun activate_specs :: "feed_env \<Rightarrow> string list \<Rightarrow> feed_service \<Rightarrow> feed_service" where
  "activate_specs env [] fs = fs"
| "activate_specs env (spec # rest) fs =
     (case NT5ParseBarSpecJson spec of
        None \<Rightarrow> activate_specs env rest fs
      | Some (symbol, timeframe) \<Rightarrow>
          (case NT5TimeframeFromString timeframe of
             None \<Rightarrow> activate_specs env rest fs
           | Some period \<Rightarrow> activate_specs env rest (fst (NT5ActivateBar env symbol period fs))))"

definition NT5ActivateInitialBarSpecs :: "feed_env \<Rightarrow> feed_inputs \<Rightarrow> feed_service \<Rightarrow> feed_service" where
  "NT5ActivateInitialBarSpecs env inp fs = activate_specs env (NT5SplitCsvBarSpecs (InpBarSpecs inp)) fs"

section \<open>The connection and the loop\<close>

definition NT5MaybeSendHeartbeat :: "feed_env \<Rightarrow> feed_inputs \<Rightarrow> feed_service \<Rightarrow> feed_service" where
  "NT5MaybeSendHeartbeat env inp fs =
     (if fe_tick_count env - g_last_heartbeat_tick fs < word_of_int (InpHeartbeatSec inp) * 1000 then fs
      else (send_if_connected env (NT5BuildHeartbeatJson (fe_time_gmt env)) fs)
             \<lparr>g_last_heartbeat_tick := fe_tick_count env\<rparr>)"

definition NT5EnsureWebSocketOpen :: "feed_env \<Rightarrow> feed_service \<Rightarrow> feed_service \<times> bool" where
  "NT5EnsureWebSocketOpen env fs =
     (if ws_connected fs then (fs, True)
      else if \<not> fe_opens env then (fs\<lparr>g_ws := Some False\<rparr>, False)
      else (fs\<lparr>g_ws := Some True\<rparr>, True))"

definition onConnected :: "feed_env \<Rightarrow> feed_service \<Rightarrow> feed_service" where
  "onConnected env fs = NT5SendHello env fs"

definition NT5ClearActiveBarSubscriptions :: "feed_service \<Rightarrow> feed_service" where
  "NT5ClearActiveBarSubscriptions fs =
     fs\<lparr>g_bars := map (\<lambda>e. if be_active e then e\<lparr>be_active := False\<rparr> else e) (g_bars fs)\<rparr>"

definition onDisconnect :: "feed_service \<Rightarrow> feed_service" where
  "onDisconnect fs = NT5ClearActiveBarSubscriptions fs"

definition onMessage :: "feed_env \<Rightarrow> string option \<Rightarrow> feed_service \<Rightarrow> feed_service" where
  "onMessage env msg fs = (case msg of None \<Rightarrow> fs | Some s \<Rightarrow> NT5HandleWireMessage env s fs)"

text \<open>What the WebSocket calls back with while its messages are checked.\<close>

datatype feed_callback = Connected_Back | Disconnected_Back | Message_Back "string option"

fun call_back :: "feed_env \<Rightarrow> feed_callback \<Rightarrow> feed_service \<Rightarrow> feed_service" where
  "call_back env Connected_Back fs = onConnected env fs"
| "call_back env Disconnected_Back fs = onDisconnect (fs\<lparr>g_ws := Some False\<rparr>)"
| "call_back env (Message_Back m) fs = onMessage env m fs"

text \<open>The start of the service, and one pass of its loop.\<close>

definition service_begin :: "feed_env \<Rightarrow> feed_inputs \<Rightarrow> feed_service" where
  "service_begin env inp =
     NT5ActivateInitialBarSpecs env inp
       (fst (change_all (NT5ActivateSymbol env) (NT5SplitCsvSymbols (InpSymbols inp))
          \<lparr>g_ws = None, g_symbols = [], g_bars = [], g_session = ''nt5-'' @ dec64 (fe_tick_count env),
           g_last_heartbeat_tick = 0, g_last_bar_poll_tick = 0, g_sent = []\<rparr>))"

definition service_pass :: "feed_env \<Rightarrow> feed_inputs \<Rightarrow> feed_callback list \<Rightarrow> feed_service \<Rightarrow> feed_service" where
  "service_pass env inp calls fs =
     (case NT5EnsureWebSocketOpen env fs of
        (fs1, False) \<Rightarrow> fs1
      | (fs1, True) \<Rightarrow>
          NT5MaybeSendHeartbeat env inp (NT5PollAllBars env inp (NT5ExportAllTicks env inp (fold (call_back env) calls fs1))))"

definition OnStart :: "feed_inputs \<Rightarrow> feed_env \<Rightarrow> (feed_env \<times> feed_callback list) list \<Rightarrow> feed_service" where
  "OnStart inp env passes =
     (let fs = fold (\<lambda>(e, calls). service_pass e inp calls) passes (service_begin env inp)
      in if g_ws fs = None then fs else fs\<lparr>g_ws := None\<rparr>)"

end
