(* ===== verification/Feed_Texts.thy ===== *)
theory Feed_Texts
  imports Feed_Service
begin

text \<open>
  What the feed service writes, the adapter reads: prices with eight decimals, the texts of every message, and
  the commands in the other direction.
\<close>

section \<open>Prices with eight decimals\<close>

text \<open>The floats that stand for a price of at most eight decimals, up to forty-five millions.\<close>

definition grid_price :: "pyfloat \<Rightarrow> bool" where
  "grid_price x \<longleftrightarrow> (\<exists>n. \<bar>n\<bar> < 2 ^ 52 \<and> x = rnd64 (of_int n / 10 ^ 8))"

lemma pow2_diff: "pow2 (int a - int b) = 2 ^ a / 2 ^ b"
proof (cases "b \<le> a")
  case True
  then have "(2 :: rat) ^ a = 2 ^ (a - b) * 2 ^ b" by (simp flip: power_add)
  then show ?thesis using True by (simp add: pow2_def nat_diff_distrib)
next
  case False
  then have "(2 :: rat) ^ b = 2 ^ (b - a) * 2 ^ a" by (simp flip: power_add)
  then show ?thesis using False by (simp add: pow2_def nat_diff_distrib)
qed

lemma pow2_add: "pow2 (i + j) = pow2 i * pow2 j"
proof -
  have rep: "\<exists>a b. k = int a - int b" for k :: int
  proof
    show "\<exists>b. k = int (nat k) - int b" by (rule exI [of _ "nat (- k)"]) simp
  qed
  obtain a b where i: "i = int a - int b" using rep by blast
  obtain c d where j: "j = int c - int d" using rep by blast
  have "pow2 (i + j) = pow2 (int (a + c) - int (b + d))" by (simp add: i j algebra_simps)
  then show ?thesis unfolding i j pow2_diff by (simp add: power_add)
qed

lemma pow2_mono: "i \<le> j \<Longrightarrow> pow2 i \<le> pow2 j"
proof -
  assume "i \<le> j"
  then have "pow2 j = pow2 i * 2 ^ nat (j - i)" using pow2_add [of i "j - i"] by (simp add: pow2_def)
  moreover have "(1 :: rat) \<le> 2 ^ nat (j - i)" by simp
  ultimately show ?thesis using mult_left_mono [of 1 "2 ^ nat (j - i)" "pow2 i"] pow2_pos [of i] by simp
qed

lemma floor_log2_le:
  assumes "0 < q"
  shows "pow2 (floor_log2 q) \<le> q"
proof -
  obtain a b where ab: "quotient_of q = (a, b)" by fastforce
  have b: "0 < b" using ab by (rule quotient_of_denom_pos)
  have q: "q = of_int a / of_int b" using ab by (rule quotient_of_div)
  then have a: "0 < a" using assms b by (simp add: zero_less_divide_iff)
  let ?k = "bitlen a - bitlen b"
  show ?thesis
  proof (cases "pow2 ?k \<le> q")
    case True
    then show ?thesis by (simp add: floor_log2_def ab Let_def)
  next
    case False
    obtain m n where m: "bitlen a = int (Suc m)" and n: "bitlen b = int n"
      using a b bitlen_nonneg by (metis bitlen_eq_zero_iff gr0_implies_Suc linorder_not_le of_nat_0 of_nat_0_less_iff nonneg_int_cases order_less_le)
    have "2 ^ m \<le> a" using bitlen_bounds [OF a] m by simp
    then have lo: "(2 :: rat) ^ m \<le> of_int a" by (metis of_int_le_iff of_int_numeral of_int_power)
    have "b < 2 ^ n" using bitlen_bounds [OF b] n by simp
    then have hi: "rat_of_int b < 2 ^ n" by (metis of_int_less_iff of_int_numeral of_int_power)
    have "pow2 (?k - 1) = 2 ^ m / 2 ^ n" using pow2_diff [of m n] m n by simp
    also have "\<dots> \<le> of_int a / of_int b" using lo hi a b by (intro frac_le) simp_all
    finally have "pow2 (?k - 1) \<le> q" by (simp add: q)
    then show ?thesis using False by (simp add: floor_log2_def ab Let_def)
  qed
qed

lemma round_half_even_error: "\<bar>of_int (round_half_even q) - q\<bar> \<le> 1 / 2"
proof -
  let ?d = "q - of_int \<lfloor>q\<rfloor>"
  have "0 \<le> ?d" "?d < 1" by (simp, linarith)
  then show ?thesis by (auto simp: round_half_even_def Let_def)
qed

lemma scaled_distance: "0 < (p :: rat) \<Longrightarrow> \<bar>k - x / p\<bar> * p = \<bar>k * p - x\<bar>"
proof -
  assume "0 < p"
  then have "k * p - x = (k - x / p) * p" by (simp add: left_diff_distrib)
  with \<open>0 < p\<close> show ?thesis by (simp add: abs_mult)
qed

lemma round_half_even_near: "\<bar>q - of_int n\<bar> < 1 / 2 \<Longrightarrow> round_half_even q = n"
proof -
  assume near: "\<bar>q - of_int n\<bar> < 1 / 2"
  then have "\<lfloor>q\<rfloor> = n \<or> \<lfloor>q\<rfloor> = n - 1" by linarith
  then show ?thesis using near by (auto simp: round_half_even_def Let_def)
qed

text \<open>Away from the subnormal and the largest numbers the relative error of rounding is \<open>2 ^ -53\<close>.\<close>

lemma rnd64_error:
  assumes lo: "pow2 (- 1000) \<le> \<bar>q\<bar>" and hi: "\<bar>q\<bar> \<le> pow2 1000"
  shows "\<exists>r. rnd64 q = Fin r \<and> \<bar>r - q\<bar> \<le> \<bar>q\<bar> * pow2 (- 53) \<and> (0 < q \<longleftrightarrow> 0 < r)"
proof -
  have pos: "0 < \<bar>q\<bar>" using pow2_pos [of "- 1000"] lo by (rule less_le_trans)
  let ?e = "max (floor_log2 \<bar>q\<bar> - 52) (- 1074)"
  let ?r = "of_int (round_half_even (\<bar>q\<bar> / pow2 ?e)) * pow2 ?e"
  have "pow2 (floor_log2 \<bar>q\<bar> - 52) \<le> \<bar>q\<bar> * pow2 (- 52)"
    using pow2_add [of "floor_log2 \<bar>q\<bar>" "- 52"] floor_log2_le [OF pos] by simp
  moreover have "pow2 (- 1074) \<le> \<bar>q\<bar> * pow2 (- 52)"
  proof -
    have "pow2 (- 1074) \<le> pow2 (- 1000 + - 52)" by (rule pow2_mono) simp
    also have "\<dots> = pow2 (- 1000) * pow2 (- 52)" by (rule pow2_add)
    also have "\<dots> \<le> \<bar>q\<bar> * pow2 (- 52)" by (rule mult_right_mono [OF lo less_imp_le [OF pow2_pos]])
    finally show ?thesis .
  qed
  ultimately have e: "pow2 ?e \<le> \<bar>q\<bar> * pow2 (- 52)" by (simp add: max_def)
  have "\<bar>of_int (round_half_even (\<bar>q\<bar> / pow2 ?e)) - \<bar>q\<bar> / pow2 ?e\<bar> * pow2 ?e \<le> 1 / 2 * pow2 ?e"
    by (rule mult_right_mono [OF round_half_even_error less_imp_le [OF pow2_pos]])
  moreover have "\<bar>of_int (round_half_even (\<bar>q\<bar> / pow2 ?e)) - \<bar>q\<bar> / pow2 ?e\<bar> * pow2 ?e = \<bar>?r - \<bar>q\<bar>\<bar>"
    by (rule scaled_distance [OF pow2_pos])
  ultimately have "\<bar>?r - \<bar>q\<bar>\<bar> \<le> 1 / 2 * pow2 ?e" by (simp only:)
  also have "\<dots> \<le> 1 / 2 * (\<bar>q\<bar> * pow2 (- 52))" using e by simp
  also have "\<dots> = \<bar>q\<bar> * (pow2 (- 1) * pow2 (- 52))" by (simp add: pow2_def)
  also have "pow2 (- 1) * pow2 (- 52) = pow2 (- 53)" using pow2_add [of "- 1" "- 52"] by simp
  finally have err: "\<bar>?r - \<bar>q\<bar>\<bar> \<le> \<bar>q\<bar> * pow2 (- 53)" .
  have small: "\<bar>q\<bar> * pow2 (- 53) < \<bar>q\<bar>"
    using pos by (simp add: pow2_def)
  then have r0: "0 < ?r" using err by linarith
  have "?r < 2 * \<bar>q\<bar>" using err small by linarith
  also have "\<dots> \<le> pow2 1 * pow2 1000" using hi by (simp add: pow2_def)
  also have "\<dots> = pow2 1001" using pow2_add [of 1 1000] by simp
  also have "\<dots> \<le> pow2 1024" by (rule pow2_mono) simp
  finally have "\<not> 2 ^ 1024 \<le> ?r" by (simp add: pow2_def)
  then have "rnd64 q = Fin (if 0 < q then ?r else - ?r)" using pos by (simp add: rnd64_def Let_def)
  moreover have "\<bar>(if 0 < q then x else - x) - q\<bar> = \<bar>x - \<bar>q\<bar>\<bar>" for x by (simp add: abs_if)
  ultimately show ?thesis using err r0 by auto
qed

lemma grid_price_exact:
  assumes "grid_price x"
  shows "\<exists>q. x = Fin q" and "eight_decimals x = x"
proof -
  obtain n where n: "\<bar>n\<bar> < 2 ^ 52" and x: "x = rnd64 (of_int n / 10 ^ 8)"
    using assms by (auto simp: grid_price_def)
  let ?q = "rat_of_int n / 10 ^ 8"
  have "(\<exists>q. x = Fin q) \<and> eight_decimals x = x"
  proof (cases "n = 0")
    case True
    then show ?thesis by (simp add: x eight_decimals_def rnd64_def Let_def round_half_even_def)
  next
    case False
    then have "1 \<le> \<bar>rat_of_int n\<bar>" by linarith
    then have lo: "pow2 (- 1000) \<le> \<bar>?q\<bar>"
      using pow2_mono [of "- 1000" "- 30"] by (simp add: pow2_def abs_divide)
    have nb: "\<bar>rat_of_int n\<bar> < 2 ^ 52" using n by (metis of_int_abs of_int_less_iff of_int_numeral of_int_power)
    then have hi: "\<bar>?q\<bar> \<le> pow2 1000"
      using pow2_mono [of 52 1000] by (simp add: pow2_def abs_divide)
    obtain r where r: "rnd64 ?q = Fin r" "\<bar>r - ?q\<bar> \<le> \<bar>?q\<bar> * pow2 (- 53)" "0 < ?q \<longleftrightarrow> 0 < r"
      using rnd64_error [OF lo hi] by blast
    have "\<bar>?q\<bar> * pow2 (- 53) * 10 ^ 8 < 1 / 2" using nb by (simp add: pow2_def abs_divide)
    then have near: "\<bar>r * 10 ^ 8 - of_int n\<bar> < 1 / 2" using r(2) scaled_distance [of "10 ^ 8" r "of_int n"] by simp
    have small: "\<bar>?q\<bar> * pow2 (- 53) < \<bar>?q\<bar>" using False by (simp add: pow2_def)
    have sign: "r < 0 \<longleftrightarrow> n < 0" using r(2) small False by (auto simp: abs_if split: if_splits)
    have "\<bar>\<bar>r\<bar> * 10 ^ 8 - of_int \<bar>n\<bar>\<bar> < 1 / 2" using near sign by (auto simp: abs_if split: if_splits)
    then have "round_half_even (\<bar>r\<bar> * 10 ^ 8) = \<bar>n\<bar>" by (rule round_half_even_near)
    moreover have "x = Fin r" using x r(1) by (simp only:)
    ultimately have "eight_decimals x = rnd64 ?q" using sign by (simp add: eight_decimals_def Let_def)
    then show ?thesis using r(1) x by metis
  qed
  then show "\<exists>q. x = Fin q" "eight_decimals x = x" by blast+
qed

section \<open>Texts of the service\<close>

definition printable :: "string \<Rightarrow> bool" where
  "printable s \<longleftrightarrow> (\<forall>c \<in> set s. 32 \<le> (of_char c :: nat) \<and> (of_char c :: nat) < 127)"

lemma printable_simps [simp]: "printable []"
  "printable (c # s) \<longleftrightarrow> 32 \<le> (of_char c :: nat) \<and> (of_char c :: nat) < 127 \<and> printable s"
  "printable (s @ t) \<longleftrightarrow> printable s \<and> printable t"
  by (auto simp: printable_def)

lemma printable_ascii: "printable s \<Longrightarrow> ascii s"
  by (auto simp: printable_def ascii_def)

lemma replace_char_simps [simp]:
  "replace_char c r [] = []"
  "replace_char c r (x # s) = (if x = c then r else [x]) @ replace_char c r s"
  "replace_char c r (s @ t) = replace_char c r s @ replace_char c r t"
  by (simp_all add: replace_char_def)

lemma replace_char_none: "c \<notin> set s \<Longrightarrow> replace_char c r s = s"
  by (induction s) auto

lemma of_char_eq: "(of_char c :: nat) = k \<longleftrightarrow> c = char_of k \<and> k < 256"
  by (auto simp: char_of_eq)

text \<open>A printable text is escaped by the service as Python does.\<close>

lemma dump_str_escape:
  assumes "printable s"
  shows "dump_str s = [quote_char] @ NT5JsonEscape s @ [quote_char]"
proof -
  have "concat (map esc_point (map of_char s)) = NT5JsonEscape s"
    using assms
  proof (induction s)
    case (Cons c s)
    have "esc_point (of_char c) =
        (if c = CHR 0x5C then [CHR 0x5C, CHR 0x5C] else if c = quote_char then [CHR 0x5C, quote_char] else [c])"
      using Cons.prems by (auto simp: esc_point_def Let_def of_char_eq)
    then show ?case using Cons by (simp add: NT5JsonEscape_def)
  qed (simp add: NT5JsonEscape_def)
  then show ?thesis using dump_str_ascii [OF printable_ascii [OF assms]] by simp
qed

lemma comma_loop_eq: "comma_loop out xs = out @ concat (map (\<lambda>x. '','' @ x) xs)"
  by (induction xs arbitrary: out) auto

lemma comma_list_eq: "comma_list xs = ''['' @ join '','' xs @ '']''"
proof -
  have "join '','' (y # ys) = y @ concat (map (\<lambda>x. '','' @ x) ys)" for y ys
    by (induction ys arbitrary: y) auto
  then show ?thesis by (cases xs) (simp_all add: comma_list_def comma_loop_eq)
qed

text \<open>The ticks and bars that the adapter reads.\<close>

definition wire_of :: "mql_tick \<Rightarrow> wire_tick" where
  "wire_of t =
     \<lparr>time_msc = sint (mq_time_msc t), bid = mq_bid t, ask = mq_ask t, tlast = mq_last t,
      volume = sint (mq_volume t), flags = uint (mq_flags t)\<rparr>"

definition wire_bar_of :: "string \<Rightarrow> string \<Rightarrow> mql_rates \<Rightarrow> wire_bar" where
  "wire_bar_of symbol timeframe b =
     \<lparr>wb_symbol = symbol, wb_timeframe = timeframe, wb_time = sint (mr_time b), wb_open = mr_open b,
      wb_high = mr_high b, wb_low = mr_low b, wb_close = mr_close b, wb_tick_volume = sint (mr_tick_volume b),
      wb_real_volume = sint (mr_real_volume b), wb_spread = sint (mr_spread b)\<rparr>"

definition grid_tick :: "mql_tick \<Rightarrow> bool" where
  "grid_tick t \<longleftrightarrow> grid_price (mq_bid t) \<and> grid_price (mq_ask t) \<and> grid_price (mq_last t)"

definition grid_bar :: "mql_rates \<Rightarrow> bool" where
  "grid_bar b \<longleftrightarrow> grid_price (mr_open b) \<and> grid_price (mr_high b) \<and> grid_price (mr_low b) \<and> grid_price (mr_close b)"

lemma length_nat_str: "n < 10 ^ k \<Longrightarrow> 0 < k \<Longrightarrow> length (nat_str n) \<le> k"
proof (induction n arbitrary: k rule: nat_str.induct)
  case (1 n)
  show ?case
  proof (cases "n < 10")
    case False
    obtain j where k: "k = Suc j" using 1(3) by (cases k) auto
    have "n div 10 < 10 ^ j" using 1(2) k by (simp add: less_mult_imp_div_less mult.commute)
    moreover have "0 < j" using False 1(2) k by (cases j) auto
    ultimately have "length (nat_str (n div 10)) \<le> j" by (rule 1(1) [OF False])
    then show ?thesis using False k by (simp add: nat_str.simps [of n])
  qed (use 1 in \<open>simp add: nat_str.simps [of n]\<close>)
qed

lemma length_int_str: "\<bar>i\<bar> < 10 ^ 20 \<Longrightarrow> length (int_str i) \<le> 4300"
proof -
  assume "\<bar>i\<bar> < 10 ^ 20"
  then have "nat \<bar>i\<bar> < 10 ^ 20" by simp
  then have "length (nat_str (nat \<bar>i\<bar>)) \<le> 20" by (rule length_nat_str) simp
  then show ?thesis by (auto simp: int_str_def abs_if split: if_splits)
qed

lemma word_lengths [simp]:
  "length (int_str (sint (w :: 64 word))) \<le> 4300" "length (int_str (uint (v :: 32 word))) \<le> 4300"
  "length (int_str (sint (v :: 32 word))) \<le> 4300"
  using sint_range_size [of w] sint_range_size [of v] uint_bounded [of v] uint_nonnegative [of v]
  by (auto intro!: length_int_str simp: word_size)

lemma dq_simps [simp]: "dq [] = []" "dq (c # s) = (if c = CHR ''~'' then quote_char else c) # dq s"
  by (simp_all add: dq_def)

lemma dump_str_plain:
  "printable s \<Longrightarrow> quote_char \<notin> set s \<Longrightarrow> CHR 0x5C \<notin> set s \<Longrightarrow> dump_str s = quote_char # s @ [quote_char]"
  using dump_str_escape [of s] by (simp add: NT5JsonEscape_def replace_char_none)

text \<open>Each text of the service is the one a writer with eight decimals makes of a payload.\<close>

lemma tick_text: "NT5TickToJson t = json_text fixed8 (tick_payload (wire_of t))"
  by (simp add: NT5TickToJson_def tick_payload_def wire_of_def dec64_def udec32_def dump_str_plain)

lemma ticks_text:
  assumes "printable symbol"
  shows "NT5BuildTicksJson symbol cursor ticks =
    json_text fixed8 (payload_of (TickBatchMessage
      \<lparr>tb_symbol = symbol, tb_cursor = sint cursor, tb_ticks = map wire_of ticks\<rparr>))"
proof -
  have "map (json_text fixed8) (map tick_payload (map wire_of ticks)) = map NT5TickToJson ticks"
    by (simp add: tick_text)
  then show ?thesis
    using dump_str_escape [OF assms]
    by (simp add: NT5BuildTicksJson_def comma_list_eq dump_str_plain dec64_def del: map_map list.map_comp)
qed

lemma bar_text:
  assumes "printable symbol" and "printable timeframe"
  shows "NT5BuildBarJson symbol timeframe rate =
    json_text fixed8 (payload_of (BarMessage (wire_bar_of symbol timeframe rate)))"
  using dump_str_escape [OF assms(1)] dump_str_escape [OF assms(2)]
  by (simp add: NT5BuildBarJson_def wire_bar_of_def dec64_def dec32_def dump_str_plain)

definition hello_payload :: "string \<Rightarrow> string list \<Rightarrow> (string \<times> string) list \<Rightarrow> string \<Rightarrow> int \<Rightarrow> json" where
  "hello_payload session_id symbols specs terminal_name login =
     JObj [(''op'', JStr ''hello''), (''session'', JStr session_id), (''terminal'', JStr terminal_name),
           (''account'', JStr (int_str login)), (''symbols'', JArr (map JStr symbols)),
           (''bars'', JArr (map (\<lambda>(s, tf). JStr (s @ '':'' @ tf)) specs))]"

lemma int_str_range: "c \<in> set (int_str i) \<Longrightarrow> 45 \<le> (of_char c :: nat) \<and> (of_char c :: nat) \<le> 57"
proof -
  have "is_digit c \<Longrightarrow> 48 \<le> (of_char c :: nat) \<and> (of_char c :: nat) \<le> 57"
    by (auto simp: is_digit_def digit_val_def Let_def split: if_splits)
  then show "c \<in> set (int_str i) \<Longrightarrow> 45 \<le> (of_char c :: nat) \<and> (of_char c :: nat) \<le> 57"
    using int_str_chars [of c i] by force
qed

lemma printable_int_str: "printable (int_str i)" "quote_char \<notin> set (int_str i)" "CHR 0x5C \<notin> set (int_str i)"
proof -
  show "printable (int_str i)" unfolding printable_def using int_str_range by fastforce
  show "quote_char \<notin> set (int_str i)" "CHR 0x5C \<notin> set (int_str i)"
    using int_str_range [of quote_char i] int_str_range [of "CHR 0x5C" i] by auto
qed

lemma spec_text:
  "printable s \<Longrightarrow> printable tf \<Longrightarrow> NT5BarSpecToJson s tf = dump_str (s @ '':'' @ tf)"
  using dump_str_escape [of "s @ '':'' @ tf"] by (simp add: NT5BarSpecToJson_def NT5JsonEscape_def)

lemma hello_text:
  assumes "printable session_id" and "printable terminal_name" and "\<forall>s \<in> set symbols. printable s"
    and "\<forall>(s, tf) \<in> set specs. printable s \<and> printable tf"
  shows "NT5BuildHelloJson session_id symbols (map (\<lambda>(s, tf). NT5BarSpecToJson s tf) specs) terminal_name login =
    json_text fixed8 (hello_payload session_id symbols specs terminal_name (sint login))"
proof -
  have "map (json_text fixed8) (map JStr symbols) = map (\<lambda>s. [quote_char] @ NT5JsonEscape s @ [quote_char]) symbols"
    using assms(3) dump_str_escape by simp
  moreover have "map (json_text fixed8) (map (\<lambda>(s, tf). JStr (s @ '':'' @ tf)) specs) = map (\<lambda>(s, tf). NT5BarSpecToJson s tf) specs"
    using assms(4) spec_text by auto
  ultimately show ?thesis
    using dump_str_escape [OF assms(1)] dump_str_escape [OF assms(2)]
    by (simp add: NT5BuildHelloJson_def hello_payload_def comma_list_eq dump_str_plain printable_int_str dec64_def
        del: map_map list.map_comp)
qed

section \<open>Reading them\<close>

lemma printable_writable: "printable s \<Longrightarrow> writable ok (JStr s)"
  by (simp add: printable_ascii)

lemma service_text_read:
  assumes "writable (\<lambda>x. \<exists>q. x = Fin q) v" and "map_floats eight_decimals v = v"
  shows "json_loads (json_text fixed8 v) = Inr v"
  using service_writer.loads_text [OF assms(1)] assms(2) by simp

lemma message_read:
  assumes "writable (\<lambda>x. \<exists>q. x = Fin q) (payload_of m)" and "map_floats eight_decimals (payload_of m) = payload_of m"
    and "wire_wf m"
  shows "parse_wire_message (RStr (json_text fixed8 (payload_of m))) = Inr m"
  using service_text_read [OF assms(1,2)] parse_payload_of [OF assms(3)]
  by (simp add: parse_wire_message_def frame_text_def)

lemma ticks_read:
  assumes "printable symbol" and "symbol \<noteq> []" and "\<forall>t \<in> set ticks. grid_tick t"
  shows "parse_wire_message (RStr (NT5BuildTicksJson symbol cursor ticks)) =
    Inr (TickBatchMessage \<lparr>tb_symbol = symbol, tb_cursor = sint cursor, tb_ticks = map wire_of ticks\<rparr>)"
  unfolding ticks_text [OF assms(1)]
proof (rule message_read)
  have "writable (\<lambda>x. \<exists>q. x = Fin q) (tick_payload (wire_of t)) \<and>
      map_floats eight_decimals (tick_payload (wire_of t)) = tick_payload (wire_of t)" if "grid_tick t" for t
    using that grid_price_exact by (auto simp: grid_tick_def tick_payload_def wire_of_def ascii_def)
  then show "writable (\<lambda>x. \<exists>q. x = Fin q) (payload_of (TickBatchMessage
        \<lparr>tb_symbol = symbol, tb_cursor = sint cursor, tb_ticks = map wire_of ticks\<rparr>))"
    and "map_floats eight_decimals (payload_of (TickBatchMessage
        \<lparr>tb_symbol = symbol, tb_cursor = sint cursor, tb_ticks = map wire_of ticks\<rparr>)) =
      payload_of (TickBatchMessage \<lparr>tb_symbol = symbol, tb_cursor = sint cursor, tb_ticks = map wire_of ticks\<rparr>)"
    using assms printable_ascii by (auto simp: ascii_def)
qed (use assms in simp)

lemma bar_read:
  assumes "printable symbol" and "symbol \<noteq> []" and "printable timeframe" and "timeframe \<noteq> []" and "grid_bar rate"
  shows "parse_wire_message (RStr (NT5BuildBarJson symbol timeframe rate)) =
    Inr (BarMessage (wire_bar_of symbol timeframe rate))"
  unfolding bar_text [OF assms(1,3)]
  by (rule message_read)
     (use assms grid_price_exact printable_ascii in \<open>auto simp: grid_bar_def wire_bar_of_def ascii_def\<close>)

lemma hello_read:
  assumes "printable session_id" and "session_id \<noteq> []" and "printable terminal_name"
    and "\<forall>s \<in> set symbols. printable s \<and> s \<noteq> []" and "\<forall>(s, tf) \<in> set specs. printable s \<and> printable tf"
  shows "parse_wire_message (RStr (NT5BuildHelloJson session_id symbols (map (\<lambda>(s, tf). NT5BarSpecToJson s tf) specs)
      terminal_name login)) =
    Inr (HelloMessage \<lparr>h_session = session_id, h_symbols = symbols, h_bars = map (\<lambda>(s, tf). s @ '':'' @ tf) specs,
      h_terminal = Some (JStr terminal_name), h_account = Some (int_str (sint login))\<rparr>)"
proof -
  let ?p = "hello_payload session_id symbols specs terminal_name (sint login)"
  have "writable (\<lambda>x. \<exists>q. x = Fin q) ?p" "map_floats eight_decimals ?p = ?p"
    using assms by (auto simp: hello_payload_def printable_ascii printable_int_str)
  then have "json_loads (json_text fixed8 ?p) = Inr ?p" by (rule service_text_read)
  moreover have "symbols_tuple (Some (JArr (map JStr symbols))) = symbols"
    using assms(4) by (intro symbols_tuple_strings) auto
  moreover have "symbols_tuple (Some (JArr (map JStr (map (\<lambda>(s, tf). s @ '':'' @ tf) specs)))) = map (\<lambda>(s, tf). s @ '':'' @ tf) specs"
    by (rule symbols_tuple_strings) auto
  then have "symbols_tuple (Some (JArr (map (\<lambda>(s, tf). JStr (s @ '':'' @ tf)) specs))) = map (\<lambda>(s, tf). s @ '':'' @ tf) specs"
    by (simp add: comp_def case_prod_unfold)
  ultimately have "parse_payload ?p = Inr (HelloMessage \<lparr>h_session = session_id, h_symbols = symbols,
      h_bars = map (\<lambda>(s, tf). s @ '':'' @ tf) specs, h_terminal = Some (JStr terminal_name),
      h_account = Some (int_str (sint login))\<rparr>)"
    using assms(2) by (simp add: hello_payload_def payload_defs bars_tuple_eq get_present_def nonempty_str_def)
  moreover have "\<forall>s \<in> set symbols. printable s" using assms(4) by blast
  ultimately show ?thesis
    using hello_text [OF assms(1,3) _ assms(5)] \<open>json_loads _ = _\<close> by (simp add: parse_wire_message_def frame_text_def)
qed

text \<open>
  C32: whatever the feed service reports, the adapter reads exactly that: the ticks and bars whose prices are floats of
  at most eight decimals, the hello message with its symbols and bars, heartbeats, pongs and errors, for every name
  of printable characters. No price is changed by the eight decimals it travels with.
\<close>

theorem service_messages_read_back:
  assumes "printable symbol" and "symbol \<noteq> []" and "printable timeframe" and "timeframe \<noteq> []"
    and "printable session_id" and "session_id \<noteq> []" and "printable terminal_name"
    and "\<forall>t \<in> set ticks. grid_tick t" and "grid_bar rate"
    and "\<forall>s \<in> set symbols. printable s \<and> s \<noteq> []" and "\<forall>(s, tf) \<in> set specs. printable s \<and> printable tf"
    and "printable code" and "printable message"
  shows "parse_wire_message (RStr (NT5BuildTicksJson symbol cursor ticks)) =
      Inr (TickBatchMessage \<lparr>tb_symbol = symbol, tb_cursor = sint cursor, tb_ticks = map wire_of ticks\<rparr>) \<and>
    parse_wire_message (RStr (NT5BuildBarJson symbol timeframe rate)) =
      Inr (BarMessage (wire_bar_of symbol timeframe rate)) \<and>
    parse_wire_message (RStr (NT5BuildHelloJson session_id symbols (map (\<lambda>(s, tf). NT5BarSpecToJson s tf) specs)
        terminal_name login)) =
      Inr (HelloMessage \<lparr>h_session = session_id, h_symbols = symbols, h_bars = map (\<lambda>(s, tf). s @ '':'' @ tf) specs,
        h_terminal = Some (JStr terminal_name), h_account = Some (int_str (sint login))\<rparr>) \<and>
    parse_wire_message (RStr (NT5BuildHeartbeatJson now)) = Inr (HeartbeatMessage (sint (now * 1000))) \<and>
    parse_wire_message (RStr NT5BuildPongJson) = Inr PongMessage \<and>
    parse_wire_message (RStr (NT5BuildErrorJson code message)) = Inr (ErrorMessage code message)"
proof (intro conjI)
  have "NT5BuildHeartbeatJson now = json_text fixed8 (payload_of (HeartbeatMessage (sint (now * 1000))))"
    by (simp add: NT5BuildHeartbeatJson_def dump_str_plain dec64_def)
  then show "parse_wire_message (RStr (NT5BuildHeartbeatJson now)) = Inr (HeartbeatMessage (sint (now * 1000)))"
    by (simp only:) (rule message_read, simp_all add: ascii_def)
  have pong: "NT5BuildPongJson = json_text fixed8 (payload_of PongMessage)"
    by (simp add: NT5BuildPongJson_def dump_str_plain)
  show "parse_wire_message (RStr NT5BuildPongJson) = Inr PongMessage"
    unfolding pong by (rule message_read) (simp_all add: ascii_def)
  have "NT5BuildErrorJson code message = json_text fixed8 (payload_of (ErrorMessage code message))"
    using dump_str_escape assms(12,13) by (simp add: NT5BuildErrorJson_def dump_str_plain)
  then show "parse_wire_message (RStr (NT5BuildErrorJson code message)) = Inr (ErrorMessage code message)"
    by (simp only:) (rule message_read, use assms(12,13) printable_ascii in \<open>auto simp: ascii_def\<close>)
qed (rule ticks_read [OF assms(1,2,8)] bar_read [OF assms(1-4,9)] hello_read [OF assms(5-7,10,11)])+

definition tick_example :: "64 word \<Rightarrow> mql_tick" where
  "tick_example t =
     \<lparr>mq_time_msc = t, mq_bid = rnd64 (107423 / 10 ^ 5), mq_ask = rnd64 (107431 / 10 ^ 5), mq_last = 0,
      mq_volume = 0, mq_flags = 6\<rparr>"

lemma grid_tick_example: "grid_tick (tick_example t)"
proof -
  have "grid_price (rnd64 (of_int n / 10 ^ 8))" if "\<bar>n\<bar> < 2 ^ 52" for n
    using that by (auto simp: grid_price_def)
  from this [of 107423000] this [of 107431000] this [of 0] show ?thesis
    by (simp add: grid_tick_def tick_example_def)
qed

lemma service_messages_read_back_witness:
  "parse_wire_message (RStr (NT5BuildTicksJson ''EURUSD'' 1700000000123 [tick_example 1700000000123])) =
     Inr (TickBatchMessage \<lparr>tb_symbol = ''EURUSD'', tb_cursor = 1700000000123, tb_ticks = [wire_of (tick_example 1700000000123)]\<rparr>) \<and>
   parse_wire_message (RStr (NT5BuildHelloJson ''nt5-1'' [''EURUSD'', ''WIN$N''] [NT5BarSpecToJson ''EURUSD'' ''M1''] ''Terminal'' 7)) =
     Inr (HelloMessage \<lparr>h_session = ''nt5-1'', h_symbols = [''EURUSD'', ''WIN$N''], h_bars = [''EURUSD:M1''],
       h_terminal = Some (JStr ''Terminal''), h_account = Some (int_str 7)\<rparr>)"
proof -
  have "grid_price 0"
    using grid_price_def [of "0"] by (auto simp: rnd64_def zero_pyfloat_def intro!: exI [of _ "0 :: int"])
  then have bar: "grid_bar \<lparr>mr_time = 60, mr_open = 0, mr_high = 0, mr_low = 0, mr_close = 0, mr_tick_volume = 1,
      mr_real_volume = 0, mr_spread = 1\<rparr>" by (simp add: grid_bar_def)
  show ?thesis
    using service_messages_read_back [OF _ _ _ _ _ _ _ _ bar, of "''EURUSD''" "''M1''" "''nt5-1''" "''Terminal''"
        "[tick_example 1700000000123]" "[''EURUSD'', ''WIN$N'']" "[(''EURUSD'', ''M1'')]" "''E''" "''m''" 1700000000123 7 0]
    by (simp add: grid_tick_example)
qed

section \<open>Commands to the service\<close>

text \<open>Names without blanks, quotes and the characters that separate elements.\<close>

definition plain_name :: "string \<Rightarrow> bool" where
  "plain_name s \<longleftrightarrow> s \<noteq> [] \<and> (\<forall>c \<in> set s. 32 < (of_char c :: nat) \<and> (of_char c :: nat) < 127 \<and>
     c \<notin> {quote_char, CHR 0x5C, CHR '','', CHR '':'', CHR ''['', CHR '']''})"

abbreviation quoted :: "string \<Rightarrow> string" where
  "quoted s \<equiv> quote_char # s @ [quote_char]"

lemma plain_nameD:
  assumes "plain_name s"
  shows "s \<noteq> []" "printable s" "quote_char \<notin> set s" "CHR 0x5C \<notin> set s" "CHR '','' \<notin> set s" "CHR '']'' \<notin> set s"
    "CHR '' '' \<notin> set s" "CHR '':'' \<notin> set s"
proof -
  have chars: "32 < (of_char c :: nat) \<and> (of_char c :: nat) < 127 \<and>
      c \<notin> {quote_char, CHR 0x5C, CHR '','', CHR '':'', CHR ''['', CHR '']''}" if "c \<in> set s" for c
    using that assms unfolding plain_name_def by blast
  show "s \<noteq> []" using assms by (simp add: plain_name_def)
  show "printable s" unfolding printable_def using chars less_imp_le by blast
  show "quote_char \<notin> set s" "CHR 0x5C \<notin> set s" "CHR '','' \<notin> set s" "CHR '']'' \<notin> set s" "CHR '':'' \<notin> set s"
    using chars by blast+
  show "CHR '' '' \<notin> set s" using chars [of "CHR '' ''"] by auto
qed

lemma dump_plain_name: "plain_name s \<Longrightarrow> dump_str s = quoted s"
  by (rule dump_str_plain) (rule plain_nameD; assumption)+

lemma map_dump_names: "\<forall>s \<in> set ss. plain_name s \<Longrightarrow> map json_dumps (map JStr ss) = map quoted ss"
  using dump_plain_name by simp

lemma command_texts:
  assumes "\<forall>s \<in> set ss. plain_name s"
  shows "build_subscribe_command ss = dq ''{~op~:~subscribe~,~symbols~:['' @ join '','' (map quoted ss) @ '']}''"
    and "build_unsubscribe_command ss = dq ''{~op~:~unsubscribe~,~symbols~:['' @ join '','' (map quoted ss) @ '']}''"
    and "plain_name tf \<Longrightarrow> build_subscribe_bars_command ss tf =
      dq ''{~op~:~subscribe_bars~,~symbols~:['' @ join '','' (map quoted ss) @ dq ''],~timeframe~:'' @ quoted tf @ ''}''"
    and "plain_name tf \<Longrightarrow> build_unsubscribe_bars_command ss tf =
      dq ''{~op~:~unsubscribe_bars~,~symbols~:['' @ join '','' (map quoted ss) @ dq ''],~timeframe~:'' @ quoted tf @ ''}''"
  using map_dump_names [OF assms] dump_plain_name
  by (simp_all add: build_subscribe_command_def build_unsubscribe_command_def build_subscribe_bars_command_def
      build_unsubscribe_bars_command_def dump_str_plain del: map_map list.map_comp)

text \<open>Looking for a field, character by character.\<close>

lemma from_first_simps:
  assumes "n \<noteq> []"
  shows "from_first n [] = None"
    and "from_first n (c # s) = (if startswith (c # s) n then Some (c # s) else from_first n s)"
proof -
  show "from_first n [] = None" using assms by (simp add: from_first_def)
  have "n @ drop (length n) (c # s) = c # s" if "startswith (c # s) n"
    using that append_take_drop_id [of "length n" "c # s"] by (simp add: startswith_def)
  then show "from_first n (c # s) = (if startswith (c # s) n then Some (c # s) else from_first n s)"
    by (auto simp: from_first_def option.map_comp comp_def case_prod_unfold)
qed

lemma cut_char: "c \<notin> set a \<Longrightarrow> cut [c] (a @ c # b) = Some (a, b)"
  by (induction a) (auto simp: startswith_simps)

lemma from_first_skip: "quote_char \<notin> set s \<Longrightarrow> from_first (quote_char # n) (s @ r) = from_first (quote_char # n) r"
  by (induction s) (auto simp: from_first_simps startswith_simps)

lemma startswith_prefix: "startswith s p \<longleftrightarrow> (\<exists>b. s = p @ b)"
  unfolding startswith_def by (metis append_eq_conv_conj append_take_drop_id)

lemma startswith_quoted:
  "quote_char \<notin> set s \<Longrightarrow> quote_char \<notin> set f \<Longrightarrow> startswith (s @ quote_char # r) (f @ [quote_char]) \<longleftrightarrow> s = f"
  by (auto simp: startswith_prefix) (metis split_first_sep prod.inject)

lemma from_first_other:
  assumes "quote_char \<notin> set s" and "quote_char \<notin> set f" and "s \<noteq> f" and "f = x # g" and "x \<noteq> c"
  shows "from_first (quoted f) (quoted s @ c # r) = from_first (quoted f) (c # r)"
proof -
  have "from_first (quoted f) (quoted s @ c # r) = from_first (quoted f) (s @ quote_char # c # r)"
    using startswith_quoted [OF assms(1,2), of "c # r"] assms(3) by (simp add: from_first_simps startswith_simps)
  also have "\<dots> = from_first (quoted f) (quote_char # c # r)" by (rule from_first_skip [OF assms(1)])
  also have "\<dots> = from_first (quoted f) (c # r)" using assms(4,5) by (simp add: from_first_simps startswith_simps)
  finally show ?thesis .
qed

lemma from_first_names:
  assumes "\<forall>s \<in> set ss. quote_char \<notin> set s \<and> s \<noteq> f" and "quote_char \<notin> set f" and "f = x # g"
    and "x \<noteq> CHR '',''" and "x \<noteq> CHR '']''"
  shows "from_first (quoted f) (join '','' (map quoted ss) @ CHR '']'' # r) = from_first (quoted f) (CHR '']'' # r)"
  using assms(1)
proof (induction ss rule: induct_list012)
  case (2 s)
  then show ?case using from_first_other [of s f x g "CHR '']''" r] assms(2-5) by simp
next
  case (3 s t ss)
  have "from_first (quoted f) (quoted s @ CHR '','' # join '','' (map quoted (t # ss)) @ CHR '']'' # r) =
      from_first (quoted f) (CHR '','' # join '','' (map quoted (t # ss)) @ CHR '']'' # r)"
    by (rule from_first_other) (use 3(3) assms(2-5) in auto)
  also have "\<dots> = from_first (quoted f) (join '','' (map quoted (t # ss)) @ CHR '']'' # r)"
    by (simp add: from_first_simps startswith_simps)
  finally show ?case using 3 by simp
qed simp

lemma join_chars: "c \<in> set (join '','' (map quoted ss)) \<Longrightarrow> c = CHR '','' \<or> c = quote_char \<or> (\<exists>s \<in> set ss. c \<in> set s)"
  by (induction ss rule: induct_list012) auto

lemma names_read:
  assumes "\<forall>s \<in> set ss. plain_name s"
  shows "filter (\<lambda>p. p \<noteq> []) (map (replace_char quote_char []) (split_on (CHR '','') (join '','' (map quoted ss)))) = ss
    \<or> ss = []"
proof (cases "ss = []")
  case False
  have "split_on (CHR '','') (join '','' (map quoted ss)) = map quoted ss"
    by (rule split_on_join) (use False assms plain_nameD in auto)
  moreover have "map (replace_char quote_char []) (map quoted ss) = ss"
    using assms by (induction ss) (auto simp: replace_char_none dest: plain_nameD)
  moreover have "filter (\<lambda>p. p \<noteq> []) ss = ss"
    using assms by (induction ss) (auto dest: plain_nameD(1))
  ultimately show ?thesis by (simp only: simp_thms)
qed simp

lemma symbols_extracted:
  assumes "\<forall>s \<in> set ss. plain_name s"
    and "from_first (quoted ''symbols'') json = Some (dq ''~symbols~:['' @ join '','' (map quoted ss) @ CHR '']'' # r)"
  shows "NT5ExtractJsonStringArray json ''symbols'' = Some ss"
proof -
  let ?J = "join '','' (map quoted ss)"
  have bracket: "(CHR '']'' = CHR '','') = False" "(CHR '']'' = quote_char) = False" "(CHR '' '' = CHR '','') = False"
    "(CHR '' '' = quote_char) = False" by simp_all
  have none: "CHR '']'' \<notin> set ?J" "CHR '' '' \<notin> set ?J"
    using join_chars [of "CHR '']''"] join_chars [of "CHR '' ''"] plain_nameD(6,7) assms(1) unfolding bracket by blast+
  note cut_char [OF none(1), where b = r] replace_char_none [OF none(2)]
  moreover have "?J = [] \<longleftrightarrow> ss = []" by (cases ss; cases "tl ss") auto
  ultimately show ?thesis
    using assms(2) names_read [OF assms(1)] by (auto simp: NT5ExtractJsonStringArray_def startswith_simps)
qed

lemma op_extracted:
  assumes "quote_char \<notin> set op"
  shows "NT5ParseWireOp (dq ''{~op~:~'' @ op @ quote_char # r) = Some op"
  using cut_char [OF assms, of r]
  by (simp add: NT5ParseWireOp_def NT5ExtractJsonStringField_def from_first_simps startswith_simps)

lemma timeframe_extracted:
  assumes "plain_name tf"
    and "from_first (quoted ''timeframe'') json = Some (dq ''~timeframe~:'' @ quoted tf @ r)"
  shows "NT5ExtractJsonStringField json ''timeframe'' = Some tf"
  using assms(2) cut_char [OF plain_nameD(3) [OF assms(1)], of r]
  by (simp add: NT5ExtractJsonStringField_def startswith_simps)

lemma symbol_commands:
  assumes "\<forall>s \<in> set ss. plain_name s"
  shows "NT5HandleWireMessage env (build_subscribe_command ss) fs =
      hello_if_changed env (change_all (NT5ActivateSymbol env) ss fs)"
    and "NT5HandleWireMessage env (build_unsubscribe_command ss) fs =
      hello_if_changed env (change_all NT5DeactivateSymbol ss fs)"
proof -
  note texts = command_texts(1,2) [OF assms(1)]
  have op: "NT5ParseWireOp (build_subscribe_command ss) = Some ''subscribe''"
    "NT5ParseWireOp (build_unsubscribe_command ss) = Some ''unsubscribe''"
    using op_extracted [of "''subscribe''"] op_extracted [of "''unsubscribe''"] by (simp_all add: texts)
  have symbols: "NT5ExtractJsonStringArray (build_subscribe_command ss) ''symbols'' = Some ss"
    "NT5ExtractJsonStringArray (build_unsubscribe_command ss) ''symbols'' = Some ss"
    by (rule symbols_extracted [OF assms(1)]; simp add: texts from_first_simps startswith_simps)+
  show "NT5HandleWireMessage env (build_subscribe_command ss) fs =
      hello_if_changed env (change_all (NT5ActivateSymbol env) ss fs)"
    "NT5HandleWireMessage env (build_unsubscribe_command ss) fs =
      hello_if_changed env (change_all NT5DeactivateSymbol ss fs)"
    by (simp_all add: NT5HandleWireMessage_def op symbols)
qed

lemma bar_commands:
  assumes "\<forall>s \<in> set ss. plain_name s" and "''timeframe'' \<notin> set ss"
    and "plain_name tf" and "NT5TimeframeFromString tf = Some period"
  shows "NT5HandleWireMessage env (build_subscribe_bars_command ss tf) fs =
      hello_if_changed env (change_all (\<lambda>s. NT5ActivateBar env s period) ss fs)"
    and "NT5HandleWireMessage env (build_unsubscribe_bars_command ss tf) fs =
      hello_if_changed env (change_all (\<lambda>s. NT5DeactivateBar s period) ss fs)"
proof -
  note texts = command_texts(3,4) [OF assms(1,3)]
  have op: "NT5ParseWireOp (build_subscribe_bars_command ss tf) = Some ''subscribe_bars''"
    "NT5ParseWireOp (build_unsubscribe_bars_command ss tf) = Some ''unsubscribe_bars''"
    using op_extracted [of "''subscribe_bars''"] op_extracted [of "''unsubscribe_bars''"] by (simp_all add: texts)
  have symbols: "NT5ExtractJsonStringArray (build_subscribe_bars_command ss tf) ''symbols'' = Some ss"
    "NT5ExtractJsonStringArray (build_unsubscribe_bars_command ss tf) ''symbols'' = Some ss"
    by (rule symbols_extracted [OF assms(1)]; simp add: texts from_first_simps startswith_simps)+
  have "\<forall>s \<in> set ss. quote_char \<notin> set s \<and> s \<noteq> ''timeframe''" using assms(1,2) plain_nameD(3) by blast
  then have skip: "from_first (quoted ''timeframe'') (join '','' (map quoted ss) @ CHR '']'' # r) =
      from_first (quoted ''timeframe'') (CHR '']'' # r)" for r
    by (rule from_first_names [where x = "CHR ''t''" and g = "''imeframe''"]) simp_all
  have timeframe: "NT5ExtractJsonStringField (build_subscribe_bars_command ss tf) ''timeframe'' = Some tf"
    "NT5ExtractJsonStringField (build_unsubscribe_bars_command ss tf) ''timeframe'' = Some tf"
    by (rule timeframe_extracted [OF assms(3)]; use skip in \<open>simp add: texts from_first_simps startswith_simps\<close>)+
  show "NT5HandleWireMessage env (build_subscribe_bars_command ss tf) fs =
      hello_if_changed env (change_all (\<lambda>s. NT5ActivateBar env s period) ss fs)"
    "NT5HandleWireMessage env (build_unsubscribe_bars_command ss tf) fs =
      hello_if_changed env (change_all (\<lambda>s. NT5DeactivateBar s period) ss fs)"
    by (simp_all add: NT5HandleWireMessage_def NT5HandleSubscribeBars_def op symbols timeframe assms(4))
qed

lemma ping_command: "NT5HandleWireMessage env build_ping_command fs = send_if_connected env NT5BuildPongJson fs"
proof -
  have ping_text: "build_ping_command = dq ''{~op~:~'' @ ''ping'' @ quote_char # ''}''"
    by (simp add: build_ping_command_def dump_str_plain)
  have "NT5ParseWireOp build_ping_command = Some ''ping''"
    unfolding ping_text by (rule op_extracted) simp
  then show ?thesis by (simp add: NT5HandleWireMessage_def)
qed

text \<open>
  The service understands every command of the adapter, for symbols without blanks, quotes, commas, colons and
  brackets of which none is called \<^verbatim>\<open>timeframe\<close>: it reads the symbols in their order and the timeframe, and
  does to each symbol what the command says.
\<close>

theorem commands_understood:
  assumes "\<forall>s \<in> set ss. plain_name s" and "''timeframe'' \<notin> set ss"
    and "plain_name tf" and "NT5TimeframeFromString tf = Some period"
  shows "NT5HandleWireMessage env (build_subscribe_command ss) fs =
      hello_if_changed env (change_all (NT5ActivateSymbol env) ss fs) \<and>
    NT5HandleWireMessage env (build_unsubscribe_command ss) fs =
      hello_if_changed env (change_all NT5DeactivateSymbol ss fs) \<and>
    NT5HandleWireMessage env (build_subscribe_bars_command ss tf) fs =
      hello_if_changed env (change_all (\<lambda>s. NT5ActivateBar env s period) ss fs) \<and>
    NT5HandleWireMessage env (build_unsubscribe_bars_command ss tf) fs =
      hello_if_changed env (change_all (\<lambda>s. NT5DeactivateBar s period) ss fs) \<and>
    NT5HandleWireMessage env build_ping_command fs = send_if_connected env NT5BuildPongJson fs"
  using symbol_commands [OF assms(1)] bar_commands [OF assms] ping_command by blast

text \<open>A terminal that selects every symbol and has nothing to report, and the service at its start.\<close>

definition quiet_env :: feed_env where
  "quiet_env =
     \<lparr>fe_select = (\<lambda>_. True), fe_symbol_tick = (\<lambda>_. None), fe_time_current = 1700000000, fe_time_gmt = 1700000000,
      fe_tick_count = 5, fe_copy_ticks = (\<lambda>_ _ _. Some []), fe_copy_rates = (\<lambda>_ _. None),
      fe_terminal_name = ''Terminal'', fe_login = 7, fe_takes = (\<lambda>_. True), fe_opens = True\<rparr>"

definition fresh_service :: feed_service where
  "fresh_service =
     \<lparr>g_ws = Some True, g_symbols = [], g_bars = [], g_session = ''nt5-5'', g_last_heartbeat_tick = 0,
      g_last_bar_poll_tick = 0, g_sent = []\<rparr>"

lemma commands_understood_witness:
  "NT5HandleWireMessage quiet_env (build_subscribe_bars_command [''EURUSD'', ''WIN$N''] ''h4'') fresh_service =
   hello_if_changed quiet_env (change_all (\<lambda>s. NT5ActivateBar quiet_env s 16388) [''EURUSD'', ''WIN$N''] fresh_service)"
proof -
  have "upper (mql_trim ''h4'') = ''H4''"
    by (simp add: mql_trim_def mql_blank_def upper_def upper_char_def char_of_eq)
  then have "NT5TimeframeFromString ''h4'' = Some 16388" by (simp add: NT5TimeframeFromString_def)
  then show ?thesis
    using commands_understood [of "[''EURUSD'', ''WIN$N'']" "''h4''" 16388 quiet_env fresh_service]
    by (simp add: plain_name_def)
qed

end
