(* ===== verification/Feed_System.thy ===== *)
theory Feed_System
  imports Feed_Texts
begin

text \<open>
  The feed service and the adapter joined by their texts: what a subscription of the adapter comes to in the
  tables of the service and how the adapter learns of it.

  \<open>switching\<close> is the contract of an operation that turns a symbol on or off; it is interpreted for the four
  operations of the service.
\<close>

section \<open>The tables of the service\<close>

definition active_keys :: "('e \<Rightarrow> 'k) \<Rightarrow> ('e \<Rightarrow> bool) \<Rightarrow> 'e list \<Rightarrow> 'k set" where
  "active_keys key act xs = {key e | e. e \<in> set xs \<and> act e}"

definition active_symbols :: "feed_service \<Rightarrow> string set" where
  "active_symbols fs = active_keys se_symbol se_active (g_symbols fs)"

definition bar_key_of :: "bar_entry \<Rightarrow> string \<times> int" where
  "bar_key_of e = (be_symbol e, be_period e)"

lemma bar_key_of_eq: "bar_key_of e = (s, p) \<longleftrightarrow> be_symbol e = s \<and> be_period e = p"
  by (simp add: bar_key_of_def)

definition active_bars :: "feed_service \<Rightarrow> (string \<times> int) set" where
  "active_bars fs = active_keys bar_key_of be_active (g_bars fs)"

definition service_ok :: "feed_service \<Rightarrow> bool" where
  "service_ok fs \<longleftrightarrow>
     distinct (map se_symbol (g_symbols fs)) \<and>
     distinct (map bar_key_of (g_bars fs)) \<and>
     (\<forall>e \<in> set (g_bars fs). be_timeframe e = NT5TimeframeToString (be_period e))"

lemma index_where_None: "index_where p xs = None \<longleftrightarrow> (\<forall>x \<in> set xs. \<not> p x)"
  by (induction xs) auto

lemma index_where_Some: "index_where p xs = Some i \<Longrightarrow> i < length xs \<and> p (xs ! i)"
  by (induction xs arbitrary: i) (auto split: if_splits)

text \<open>Entry \<open>i\<close> of a table with distinct keys is the only one with its key.\<close>

lemma update_active:
  assumes "distinct (map key xs)" and "i < length xs" and "key x' = key (xs ! i)"
  shows "distinct (map key (xs[i := x']))"
    and "active_keys key act (xs[i := x']) =
      (if act x' then insert (key (xs ! i)) (active_keys key act xs) else active_keys key act xs - {key (xs ! i)})"
proof -
  have same: "map key (xs[i := x']) = map key xs"
    using assms(2,3) by (metis list_update_id map_update nth_map)
  then show "distinct (map key (xs[i := x']))" using assms(1) by simp
  have other: "key (xs ! j) \<noteq> key (xs ! i)" if "j < length xs" "j \<noteq> i" for j
    using that assms(1,2) by (metis distinct_conv_nth length_map nth_map)
  have "e \<in> set (xs[i := x']) \<longleftrightarrow> e = x' \<or> (\<exists>j < length xs. j \<noteq> i \<and> e = xs ! j)" for e
    using assms(2) by (auto simp: in_set_conv_nth nth_list_update)
  moreover have "e \<in> set xs \<longleftrightarrow> e = xs ! i \<or> (\<exists>j < length xs. j \<noteq> i \<and> e = xs ! j)" for e
    using assms(2) by (auto simp: in_set_conv_nth)
  ultimately show "active_keys key act (xs[i := x']) =
      (if act x' then insert (key (xs ! i)) (active_keys key act xs) else active_keys key act xs - {key (xs ! i)})"
    unfolding active_keys_def using assms(3) other by auto metis+
qed

text \<open>
  \<open>turn\<close> turns one key, \<open>on\<close> reads which keys are on, \<open>effect\<close> says what a turn does to them and \<open>rest\<close> is what it
  leaves alone. A turn reports whether anything changed, and turns of one kind go in one direction.
\<close>

locale switching =
  fixes turn :: "'k \<Rightarrow> feed_service \<Rightarrow> feed_service \<times> bool" and on :: "feed_service \<Rightarrow> 'k set"
    and effect :: "'k \<Rightarrow> 'k set \<Rightarrow> 'k set" and rest :: "feed_service \<Rightarrow> 'r"
  assumes turns: "service_ok fs \<Longrightarrow> turn k fs = (fs', changed) \<Longrightarrow>
      service_ok fs' \<and> on fs' = effect k (on fs) \<and> rest fs' = rest fs \<and> (changed \<longleftrightarrow> on fs' \<noteq> on fs)"
    and one_way: "(\<forall>k S. S \<subseteq> effect k S) \<or> (\<forall>k S. effect k S \<subseteq> S)"
begin

lemma fold_one_way: "(\<forall>k S. S \<subseteq> effect k S) \<Longrightarrow> S \<subseteq> fold effect ks S"
  "(\<forall>k S. effect k S \<subseteq> S) \<Longrightarrow> fold effect ks S \<subseteq> S"
  by (induction ks arbitrary: S) (auto, blast+)

lemma turn_all:
  assumes "service_ok fs" and "change_all turn ks fs = (fs', changed)"
  shows "service_ok fs' \<and> on fs' = fold effect ks (on fs) \<and> rest fs' = rest fs \<and> (changed \<longleftrightarrow> on fs' \<noteq> on fs)"
  using assms
proof (induction ks arbitrary: fs changed)
  case (Cons k ks)
  obtain fs1 one where one: "turn k fs = (fs1, one)" by fastforce
  obtain more where all: "change_all turn ks fs1 = (fs', more)" and changed: "changed \<longleftrightarrow> one \<or> more"
    using Cons.prems(2) one by (auto split: prod.splits)
  note t = turns [OF Cons.prems(1) one]
  have IH: "service_ok fs' \<and> on fs' = fold effect ks (on fs1) \<and> rest fs' = rest fs1 \<and> (more \<longleftrightarrow> on fs' \<noteq> on fs1)"
    by (rule Cons.IH [OF _ all]) (use t in blast)
  have "on fs1 = on fs" if "on fs' = on fs"
    using one_way
  proof
    assume up: "\<forall>k S. S \<subseteq> effect k S"
    have "on fs \<subseteq> on fs1" using up t by simp
    moreover have "on fs1 \<subseteq> on fs'" using fold_one_way(1) [OF up] IH by simp
    ultimately show ?thesis using that by blast
  next
    assume down: "\<forall>k S. effect k S \<subseteq> S"
    have "on fs1 \<subseteq> on fs" using down t by simp
    moreover have "on fs' \<subseteq> on fs1" using fold_one_way(2) [OF down] IH by simp
    ultimately show ?thesis using that by blast
  qed
  then show ?case using t IH changed by auto
qed simp

end

text \<open>What a turn leaves alone of the symbols, and of the bars of one period.\<close>

definition link_part :: "feed_service \<Rightarrow> bool option \<times> string \<times> string list" where
  "link_part fs = (g_ws fs, g_session fs, g_sent fs)"

lemma find_symbol:
  "NT5FindSymbolIndex s fs = None \<Longrightarrow> s \<notin> se_symbol ` set (g_symbols fs)"
  "NT5FindSymbolIndex s fs = Some i \<Longrightarrow> i < length (g_symbols fs) \<and> se_symbol (g_symbols fs ! i) = s"
  by (auto simp: NT5FindSymbolIndex_def index_where_None dest: index_where_Some)

lemma find_bar:
  "NT5FindBarIndex s p fs = None \<Longrightarrow> (s, p) \<notin> bar_key_of ` set (g_bars fs)"
  "NT5FindBarIndex s p fs = Some i \<Longrightarrow>
     i < length (g_bars fs) \<and> bar_key_of (g_bars fs ! i) = (s, p)"
  by (auto simp: bar_key_of_def NT5FindBarIndex_def index_where_None dest: index_where_Some)

lemma append_active:
  assumes "key x \<notin> key ` set xs"
  shows "active_keys key act (xs @ [x]) = (if act x then insert (key x) (active_keys key act xs) else active_keys key act xs)"
    and "key x \<notin> active_keys key act xs"
  using assms by (auto simp: active_keys_def)

lemma active_nth: "i < length xs \<Longrightarrow> act (xs ! i) \<Longrightarrow> key (xs ! i) \<in> active_keys key act xs"
  by (auto simp: active_keys_def)

lemma inactive_nth:
  assumes "distinct (map key xs)" and "i < length xs" and "\<not> act (xs ! i)"
  shows "key (xs ! i) \<notin> active_keys key act xs"
proof
  assume "key (xs ! i) \<in> active_keys key act xs"
  then obtain j where "j < length xs" "act (xs ! j)" "key (xs ! j) = key (xs ! i)"
    by (auto simp: active_keys_def in_set_conv_nth)
  then show False using assms by (metis distinct_conv_nth length_map nth_map)
qed

lemma symbol_turns:
  assumes ok: "service_ok fs"
  shows "NT5ActivateSymbol env s fs = (fs', ch) \<Longrightarrow>
      service_ok fs' \<and> active_symbols fs' = (if fe_select env s then insert s (active_symbols fs) else active_symbols fs) \<and>
      (g_bars fs', link_part fs') = (g_bars fs, link_part fs) \<and> (ch \<longleftrightarrow> active_symbols fs' \<noteq> active_symbols fs)"
    and "NT5DeactivateSymbol s fs = (fs', ch) \<Longrightarrow>
      service_ok fs' \<and> active_symbols fs' = active_symbols fs - {s} \<and>
      (g_bars fs', link_part fs') = (g_bars fs, link_part fs) \<and> (ch \<longleftrightarrow> active_symbols fs' \<noteq> active_symbols fs)"
proof -
  have d: "distinct (map se_symbol (g_symbols fs))" using ok by (simp add: service_ok_def)
  note upd = update_active(1) [OF d] update_active(2) [OF d, where act = se_active]
  show "service_ok fs' \<and> active_symbols fs' = (if fe_select env s then insert s (active_symbols fs) else active_symbols fs) \<and>
      (g_bars fs', link_part fs') = (g_bars fs, link_part fs) \<and> (ch \<longleftrightarrow> active_symbols fs' \<noteq> active_symbols fs)"
    if "NT5ActivateSymbol env s fs = (fs', ch)"
  proof (cases "fe_select env s")
    case False
    then show ?thesis using that ok by (simp add: NT5ActivateSymbol_def NT5EnsureSymbolSelected_def)
  next
    case True
    show ?thesis
    proof (cases "NT5FindSymbolIndex s fs")
      case None
      let ?x = "\<lparr>se_symbol = s, se_last_msc = 0, se_active = True, se_last_sent = None\<rparr>"
      have new: "se_symbol ?x \<notin> se_symbol ` set (g_symbols fs)" using find_symbol(1) [OF None] by simp
      have "fs' = fs\<lparr>g_symbols := g_symbols fs @ [?x]\<rparr>" "ch"
        using that True None by (simp_all add: NT5ActivateSymbol_def NT5EnsureSymbolSelected_def)
      moreover have "active_symbols (fs\<lparr>g_symbols := g_symbols fs @ [?x]\<rparr>) = insert s (active_symbols fs)"
        using append_active(1) [OF new, of se_active] by (simp add: active_symbols_def)
      moreover have "s \<notin> active_symbols fs"
        using append_active(2) [OF new, of se_active] by (simp add: active_symbols_def)
      ultimately show ?thesis using True ok new by (auto simp: service_ok_def link_part_def)
    next
      case (Some i)
      note i = find_symbol(2) [OF Some]
      show ?thesis
      proof (cases "se_active (g_symbols fs ! i)")
        case True
        then have "s \<in> active_symbols fs" using active_nth [of i "g_symbols fs" se_active se_symbol] i by (simp add: active_symbols_def)
        then show ?thesis using that True Some ok \<open>fe_select env s\<close>
          by (auto simp: NT5ActivateSymbol_def NT5EnsureSymbolSelected_def)
      next
        case False
        then have "s \<notin> active_symbols fs"
          using inactive_nth [OF d, of i se_active] i by (simp add: active_symbols_def)
        then show ?thesis
          using that False Some ok \<open>fe_select env s\<close> i upd [of i "(g_symbols fs ! i)\<lparr>se_active := True\<rparr>"]
          by (auto simp: NT5ActivateSymbol_def NT5EnsureSymbolSelected_def service_ok_def active_symbols_def link_part_def)
      qed
    qed
  qed
  show "service_ok fs' \<and> active_symbols fs' = active_symbols fs - {s} \<and>
      (g_bars fs', link_part fs') = (g_bars fs, link_part fs) \<and> (ch \<longleftrightarrow> active_symbols fs' \<noteq> active_symbols fs)"
    if "NT5DeactivateSymbol s fs = (fs', ch)"
  proof (cases "NT5FindSymbolIndex s fs")
    case None
    then have "s \<notin> active_symbols fs" using find_symbol(1) [OF None] by (auto simp: active_symbols_def active_keys_def)
    then show ?thesis using that None ok by (simp add: NT5DeactivateSymbol_def)
  next
    case (Some i)
    note i = find_symbol(2) [OF Some]
    show ?thesis
    proof (cases "se_active (g_symbols fs ! i)")
      case True
      then have "s \<in> active_symbols fs" using active_nth [of i "g_symbols fs" se_active se_symbol] i by (simp add: active_symbols_def)
      then show ?thesis
        using that True Some ok i upd [of i "(g_symbols fs ! i)\<lparr>se_active := False\<rparr>"]
        by (auto simp: NT5DeactivateSymbol_def service_ok_def active_symbols_def link_part_def)
    next
      case False
      then have "s \<notin> active_symbols fs"
        using inactive_nth [OF d, of i se_active] i by (simp add: active_symbols_def)
      then show ?thesis using that False Some ok by (simp add: NT5DeactivateSymbol_def)
    qed
  qed
qed

text \<open>The bars of one period, and everything else.\<close>

definition bars_of :: "int \<Rightarrow> feed_service \<Rightarrow> string set" where
  "bars_of p fs = {s. (s, p) \<in> active_bars fs}"

definition bars_rest :: "int \<Rightarrow> feed_service \<Rightarrow>
    symbol_entry list \<times> (bool option \<times> string \<times> string list) \<times> (string \<times> int) set" where
  "bars_rest p fs = (g_symbols fs, link_part fs, {k \<in> active_bars fs. snd k \<noteq> p})"

lemma bars_of_change:
  "active_bars fs' = insert (s, p) (active_bars fs) \<Longrightarrow> bars_of p fs' = insert s (bars_of p fs)"
  "active_bars fs' = active_bars fs - {(s, p)} \<Longrightarrow> bars_of p fs' = bars_of p fs - {s}"
  "active_bars fs' = insert (s, p) (active_bars fs) \<or> active_bars fs' = active_bars fs - {(s, p)} \<Longrightarrow>
     {k \<in> active_bars fs'. snd k \<noteq> p} = {k \<in> active_bars fs. snd k \<noteq> p}"
proof -
  have "A' = insert (s, p) A \<Longrightarrow> {x. (x, p) \<in> A'} = insert s {x. (x, p) \<in> A}" for A A' by blast
  then show "active_bars fs' = insert (s, p) (active_bars fs) \<Longrightarrow> bars_of p fs' = insert s (bars_of p fs)"
    unfolding bars_of_def .
  have "A' = A - {(s, p)} \<Longrightarrow> {x. (x, p) \<in> A'} = {x. (x, p) \<in> A} - {s}" for A A' by blast
  then show "active_bars fs' = active_bars fs - {(s, p)} \<Longrightarrow> bars_of p fs' = bars_of p fs - {s}"
    unfolding bars_of_def .
  have "A' = insert (s, p) A \<or> A' = A - {(s, p)} \<Longrightarrow> {k \<in> A'. snd k \<noteq> p} = {k \<in> A. snd k \<noteq> p}" for A A'
    by force
  then show "active_bars fs' = insert (s, p) (active_bars fs) \<or> active_bars fs' = active_bars fs - {(s, p)} \<Longrightarrow>
     {k \<in> active_bars fs'. snd k \<noteq> p} = {k \<in> active_bars fs. snd k \<noteq> p}" .
qed

lemma bar_turns:
  assumes ok: "service_ok fs"
  shows "NT5ActivateBar env s p fs = (fs', ch) \<Longrightarrow>
      service_ok fs' \<and> bars_of p fs' = (if fe_select env s then insert s (bars_of p fs) else bars_of p fs) \<and>
      bars_rest p fs' = bars_rest p fs \<and> (ch \<longleftrightarrow> bars_of p fs' \<noteq> bars_of p fs)"
    and "NT5DeactivateBar s p fs = (fs', ch) \<Longrightarrow>
      service_ok fs' \<and> bars_of p fs' = bars_of p fs - {s} \<and>
      bars_rest p fs' = bars_rest p fs \<and> (ch \<longleftrightarrow> bars_of p fs' \<noteq> bars_of p fs)"
proof -
  have d: "distinct (map bar_key_of (g_bars fs))"
    and tf: "e \<in> set (g_bars fs) \<Longrightarrow> be_timeframe e = NT5TimeframeToString (be_period e)" for e
    using ok by (auto simp: service_ok_def)
  note upd = update_active(1) [OF d] update_active(2) [OF d, where act = be_active]
  have in_bars: "s \<in> bars_of p fs \<longleftrightarrow> (s, p) \<in> active_bars fs" by (simp add: bars_of_def)
  have changed: "service_ok fs2 \<and> active_bars fs2 = (if be_active x then insert (s, p) (active_bars fs) else active_bars fs - {(s, p)})"
    if "i < length (g_bars fs)" "bar_key_of (g_bars fs ! i) = (s, p)" "bar_key_of x = (s, p)"
      "be_timeframe x = be_timeframe (g_bars fs ! i)" "fs2 = fs\<lparr>g_bars := (g_bars fs)[i := x]\<rparr>" for i x fs2
  proof -
    have "be_timeframe e = NT5TimeframeToString (be_period e)" if "e \<in> set ((g_bars fs)[i := x])" for e
    proof -
      have "e = x \<or> e \<in> set (g_bars fs)" using set_update_subset_insert [THEN subsetD, OF that] by simp
      then show ?thesis
        using tf [of e] tf [of "g_bars fs ! i"] \<open>i < _\<close> \<open>be_timeframe x = _\<close>
          \<open>bar_key_of (g_bars fs ! i) = _\<close> \<open>bar_key_of x = _\<close>
        by (auto simp: bar_key_of_eq)
    qed
    moreover have "bar_key_of x = bar_key_of (g_bars fs ! i)" using that by simp
    ultimately show ?thesis using upd [of i x] that ok by (simp add: service_ok_def active_bars_def)
  qed
  show "service_ok fs' \<and> bars_of p fs' = (if fe_select env s then insert s (bars_of p fs) else bars_of p fs) \<and>
      bars_rest p fs' = bars_rest p fs \<and> (ch \<longleftrightarrow> bars_of p fs' \<noteq> bars_of p fs)"
    if run: "NT5ActivateBar env s p fs = (fs', ch)"
  proof (cases "fe_select env s")
    case False
    then show ?thesis using run ok by (simp add: NT5ActivateBar_def NT5EnsureSymbolSelected_def)
  next
    case select: True
    show ?thesis
    proof (cases "NT5FindBarIndex s p fs")
      case None
      let ?x = "\<lparr>be_symbol = s, be_period = p, be_timeframe = NT5TimeframeToString p, be_last_closed_time = 0, be_active = True\<rparr>"
      have key: "bar_key_of ?x = (s, p)" by (simp add: bar_key_of_eq)
      have new: "bar_key_of ?x \<notin> bar_key_of ` set (g_bars fs)" using find_bar(1) [OF None] key by simp
      have fs': "fs' = fs\<lparr>g_bars := g_bars fs @ [?x]\<rparr>" "ch"
        using run select None by (simp_all add: NT5ActivateBar_def NT5EnsureSymbolSelected_def)
      have act: "active_bars fs' = insert (s, p) (active_bars fs)"
        using append_active(1) [OF new, of be_active] key by (simp add: fs'(1) active_bars_def)
      moreover have "(s, p) \<notin> active_bars fs"
        using append_active(2) [OF new, of be_active] key by (simp add: active_bars_def)
      moreover have "service_ok fs'" using ok new by (auto simp: fs'(1) service_ok_def)
      ultimately show ?thesis
        using bars_of_change(1,3) [of fs' s p fs] select in_bars fs' by (auto simp: bars_rest_def link_part_def)
    next
      case (Some i)
      note i = find_bar(2) [OF Some]
      show ?thesis
      proof (cases "be_active (g_bars fs ! i)")
        case True
        then have "(s, p) \<in> active_bars fs"
          using active_nth [of i "g_bars fs" be_active bar_key_of] i by (simp add: active_bars_def)
        then show ?thesis using run True Some ok select in_bars
          by (auto simp: NT5ActivateBar_def NT5EnsureSymbolSelected_def)
      next
        case False
        let ?x = "(g_bars fs ! i)\<lparr>be_last_closed_time := 0, be_active := True\<rparr>"
        have fs': "fs' = fs\<lparr>g_bars := (g_bars fs)[i := ?x]\<rparr>" "ch"
          using run False Some select by (simp_all add: NT5ActivateBar_def NT5EnsureSymbolSelected_def)
        have "(s, p) \<notin> active_bars fs"
          using inactive_nth [OF d, of i be_active] False i by (simp add: active_bars_def)
        moreover have "service_ok fs' \<and> active_bars fs' = insert (s, p) (active_bars fs)"
          using changed [of i ?x fs'] i fs' by (simp add: bar_key_of_eq)
        ultimately show ?thesis
          using bars_of_change(1,3) [of fs' s p fs] select in_bars fs' by (auto simp: bars_rest_def link_part_def)
      qed
    qed
  qed
  show "service_ok fs' \<and> bars_of p fs' = bars_of p fs - {s} \<and>
      bars_rest p fs' = bars_rest p fs \<and> (ch \<longleftrightarrow> bars_of p fs' \<noteq> bars_of p fs)"
    if run: "NT5DeactivateBar s p fs = (fs', ch)"
  proof (cases "NT5FindBarIndex s p fs")
    case None
    then have "(s, p) \<notin> active_bars fs" using find_bar(1) [OF None] by (auto simp: active_bars_def active_keys_def)
    then show ?thesis using run None ok in_bars by (auto simp: NT5DeactivateBar_def)
  next
    case (Some i)
    note i = find_bar(2) [OF Some]
    show ?thesis
    proof (cases "be_active (g_bars fs ! i)")
      case False
      then have "(s, p) \<notin> active_bars fs"
        using inactive_nth [OF d, of i be_active] i by (simp add: active_bars_def)
      then show ?thesis using run False Some ok in_bars by (auto simp: NT5DeactivateBar_def)
    next
      case True
      let ?x = "(g_bars fs ! i)\<lparr>be_active := False\<rparr>"
      have fs': "fs' = fs\<lparr>g_bars := (g_bars fs)[i := ?x]\<rparr>" "ch"
        using run True Some by (simp_all add: NT5DeactivateBar_def)
      have "(s, p) \<in> active_bars fs"
        using active_nth [of i "g_bars fs" be_active bar_key_of] True i by (simp add: active_bars_def)
      moreover have "service_ok fs' \<and> active_bars fs' = active_bars fs - {(s, p)}"
        using changed [of i ?x fs'] i fs' by (simp add: bar_key_of_eq)
      ultimately show ?thesis
        using bars_of_change(2) [of fs' fs s p] bars_of_change(3) [of fs' s p fs] in_bars fs' by (auto simp: bars_rest_def link_part_def)
    qed
  qed
qed

interpretation symbol_on: switching "NT5ActivateSymbol env" active_symbols "\<lambda>s S. if fe_select env s then insert s S else S"
    "\<lambda>fs. (g_bars fs, link_part fs)" for env
  by unfold_locales (use symbol_turns(1) in blast, auto)

interpretation symbol_off: switching NT5DeactivateSymbol active_symbols "\<lambda>s S. S - {s}" "\<lambda>fs. (g_bars fs, link_part fs)"
  by unfold_locales (use symbol_turns(2) in blast, auto)

interpretation bar_on: switching "\<lambda>s. NT5ActivateBar env s p" "bars_of p" "\<lambda>s S. if fe_select env s then insert s S else S"
    "bars_rest p" for env p
  by unfold_locales (use bar_turns(1) in blast, auto)

interpretation bar_off: switching "\<lambda>s. NT5DeactivateBar s p" "bars_of p" "\<lambda>s S. S - {s}" "bars_rest p" for p
  by unfold_locales (use bar_turns(2) in blast, auto)

section \<open>Subscriptions confirmed\<close>

abbreviation subs :: "gateway \<Rightarrow> subscription_state" where
  "subs g \<equiv> subscription_state (gw_handler g)"

definition reported_bars :: "feed_service \<Rightarrow> (string \<times> string) set" where
  "reported_bars fs = (\<lambda>(s, p). (s, NT5TimeframeToString p)) ` active_bars fs"

text \<open>What the service is subscribed to has plain names, and so have its session and the terminal.\<close>

definition names_ok :: "feed_service \<Rightarrow> bool" where
  "names_ok fs \<longleftrightarrow>
     printable (g_session fs) \<and> g_session fs \<noteq> [] \<and> (\<forall>s \<in> active_symbols fs. plain_name s) \<and>
     (\<forall>k \<in> active_bars fs. plain_name (fst k))"

definition link_ok :: "feed_env \<Rightarrow> bool" where
  "link_ok env \<longleftrightarrow> (\<forall>s. fe_takes env s) \<and> printable (fe_terminal_name env)"

lemma plain_timeframe: "plain_name (NT5TimeframeToString p)" "upper (NT5TimeframeToString p) = NT5TimeframeToString p"
proof -
  have digits: "32 < (of_char c :: nat) \<and> (of_char c :: nat) < 127 \<and>
      c \<notin> {quote_char, CHR 0x5C, CHR '','', CHR '':'', CHR ''['', CHR '']''}" if "c \<in> set (int_str p)" for c
    using int_str_range [OF that] by auto
  then have "plain_name (''TF'' @ int_str p)" unfolding plain_name_def by simp
  then show "plain_name (NT5TimeframeToString p)" by (auto simp: NT5TimeframeToString_def plain_name_def)
  have "upper_char c = c" if "c \<in> set (int_str p)" for c
    using int_str_range [OF that] by (simp add: upper_char_def)
  then have "upper (int_str p) = int_str p" by (simp add: upper_def map_idI)
  then show "upper (NT5TimeframeToString p) = NT5TimeframeToString p"
    by (simp add: NT5TimeframeToString_def upper_def upper_char_def)
qed

lemma plain_not_blank:
  assumes "plain_name s"
  shows "\<forall>c \<in> set s. \<not> is_space c \<and> \<not> mql_blank c"
  using assms by (force simp: plain_name_def is_space_def mql_blank_def)

lemma strip_plain: "plain_name s \<Longrightarrow> strip s = s" "plain_name s \<Longrightarrow> mql_trim s = s"
proof -
  assume s: "plain_name s"
  show "strip s = s" by (rule strip_id) (use plain_not_blank [OF s] plain_nameD(1) [OF s] in auto)
  have "dropWhile mql_blank s = s" "dropWhile mql_blank (rev s) = rev s"
    using plain_not_blank [OF s] plain_nameD(1) [OF s] by (auto simp: dropWhile_eq_self_iff hd_rev)
  then show "mql_trim s = s" by (simp add: mql_trim_def)
qed

lemma timeframe_there_and_back:
  assumes "NT5TimeframeFromString tf = Some p" and "plain_name tf"
  shows "NT5TimeframeToString p = upper tf"
  using assms strip_plain(2) [OF assms(2)]
  by (auto simp: NT5TimeframeFromString_def NT5TimeframeToString_def Let_def split: if_splits)

lemma hello_bars_specs:
  "\<forall>(s, tf) \<in> set specs. plain_name s \<and> plain_name tf \<Longrightarrow>
     hello_bars (map (\<lambda>(s, tf). s @ '':'' @ tf) specs) = (\<lambda>(s, tf). (s, upper tf)) ` set specs"
proof (induction specs)
  case (Cons x specs)
  obtain s tf where x: "x = (s, tf)" by fastforce
  have "plain_name s" "plain_name tf" using Cons.prems x by auto
  then have "parse_bar_spec (s @ '':'' @ tf) = Some (s, tf)"
    using split_first_sep [of "CHR '':''" s tf] plain_nameD(1,8)
    by (simp add: parse_bar_spec_def strip_plain Let_def)
  then show ?case using Cons x by simp
qed simp

lemma service_hello:
  assumes "names_ok fs" and "service_ok fs" and "ws_connected fs" and "link_ok env"
  shows "\<exists>s h. NT5SendHello env fs = fs\<lparr>g_sent := g_sent fs @ [s]\<rparr> \<and>
    parse_wire_message (RStr s) = Inr (HelloMessage h) \<and> set (h_symbols h) = active_symbols fs \<and>
    hello_bars (h_bars h) = reported_bars fs"
proof -
  let ?act = "filter be_active (g_bars fs)"
  let ?specs = "map (\<lambda>e. (be_symbol e, be_timeframe e)) ?act"
  have tf: "be_timeframe e = NT5TimeframeToString (be_period e)" if "e \<in> set (g_bars fs)" for e
    using that assms(2) by (auto simp: service_ok_def)
  have "bar_key_of e \<in> active_bars fs" if "e \<in> set ?act" for e
    using that by (auto simp: active_bars_def active_keys_def)
  then have "plain_name (be_symbol e)" if "e \<in> set ?act" for e
    using that assms(1) by (fastforce simp: names_ok_def bar_key_of_def)
  then have plain: "\<forall>(s, tf) \<in> set ?specs. plain_name s \<and> plain_name tf" using tf plain_timeframe(1) by auto
  have symbols: "set (NT5ListActiveSymbols fs) = active_symbols fs"
    by (auto simp: NT5ListActiveSymbols_def active_symbols_def active_keys_def)
  have specs: "NT5ListActiveBarSpecs fs = map (\<lambda>(s, tf). NT5BarSpecToJson s tf) ?specs"
    by (simp add: NT5ListActiveBarSpecs_def)
  let ?s = "NT5BuildHelloJson (g_session fs) (NT5ListActiveSymbols fs) (NT5ListActiveBarSpecs fs) (fe_terminal_name env) (fe_login env)"
  let ?h = "\<lparr>h_session = g_session fs, h_symbols = NT5ListActiveSymbols fs,
      h_bars = map (\<lambda>(s, tf). s @ '':'' @ tf) ?specs, h_terminal = Some (JStr (fe_terminal_name env)),
      h_account = Some (int_str (sint (fe_login env)))\<rparr>"
  have "parse_wire_message (RStr ?s) = Inr (HelloMessage ?h)"
    unfolding specs
  proof (rule hello_read)
    show "\<forall>s \<in> set (NT5ListActiveSymbols fs). printable s \<and> s \<noteq> []"
      using assms(1) symbols plain_nameD(1,2) by (simp add: names_ok_def)
    show "\<forall>(s, tf) \<in> set ?specs. printable s \<and> printable tf" using plain plain_nameD(2) by blast
  qed (use assms(1,4) in \<open>auto simp: names_ok_def link_ok_def\<close>)
  moreover have "hello_bars (map (\<lambda>(s, tf). s @ '':'' @ tf) ?specs) = reported_bars fs"
    using hello_bars_specs [OF plain] tf plain_timeframe(2)
    by (auto simp: reported_bars_def active_bars_def active_keys_def image_iff bar_key_of_def) (metis | force)+
  moreover have "NT5SendHello env fs = fs\<lparr>g_sent := g_sent fs @ [?s]\<rparr>"
    using assms(3,4) by (simp add: NT5SendHello_def ws_send_def link_ok_def)
  ultimately show ?thesis
    using symbols by (intro exI [of _ ?s] exI [of _ ?h]) simp
qed

text \<open>A command that changes something is answered with a hello message of the new tables.\<close>

lemma changed_hello:
  assumes "change_all turn ks fs = (fs1, True)" and "names_ok fs1" and "service_ok fs1" and "ws_connected fs1" and "link_ok env"
  shows "\<exists>s h. hello_if_changed env (change_all turn ks fs) = fs1\<lparr>g_sent := g_sent fs1 @ [s]\<rparr> \<and>
    parse_wire_message (RStr s) = Inr (HelloMessage h) \<and> set (h_symbols h) = active_symbols fs1 \<and>
    hello_bars (h_bars h) = reported_bars fs1"
  using service_hello [OF assms(2-5)] assms(1) by (simp add: hello_if_changed_def)

lemma fold_selected:
  "\<forall>k \<in> set ks. sel k \<Longrightarrow> fold (\<lambda>k S. if sel k then insert k S else S) ks S = S \<union> set ks"
  by (induction ks arbitrary: S) auto

lemma gw_handle_hello:
  "parse_wire_message raw = Inr (HelloMessage h) \<Longrightarrow>
     \<exists>g1. gw_handle_raw raw g = Inr g1 \<and> subs g1 = apply_hello h (subs g)"
  by (simp add: gw_handle_raw_def)

lemma gw_subscribe_sends:
  assumes "is_service_connected g" and "ss \<noteq> []"
  shows "gw_subscribe ss g = Inr g1 \<Longrightarrow> snd (last (sent g1)) = build_subscribe_command ss"
    and "tf \<noteq> [] \<Longrightarrow> gw_subscribe_bars ss tf g = Inr g2 \<Longrightarrow> snd (last (sent g2)) = build_subscribe_bars_command ss tf"
  using assms
  by (auto simp: gw_subscribe_def gw_subscribe_bars_def gw_send_def on_subscriptions_def is_service_connected_def Let_def
      split: option.splits if_splits)

text \<open>
  C28: a subscription takes effect and is confirmed. When the adapter, connected, subscribes to symbols or bars of which
  at least one is new to the service and all of which the terminal can select, the service turns on exactly those
  and sends one hello message; from its text the adapter learns that everything it asked for is served, and none
  of it stays pending.
\<close>

theorem subscriptions_confirmed:
  assumes fs: "service_ok fs" "names_ok fs" "ws_connected fs" and env: "link_ok env"
    and ss: "\<forall>s \<in> set ss. plain_name s \<and> fe_select env s" "''timeframe'' \<notin> set ss" "ss \<noteq> []"
    and tf: "plain_name tf" "NT5TimeframeFromString tf = Some p"
    and g: "is_service_connected g" "gw_subscribe ss g = Inr g1" "gw_subscribe_bars ss tf g = Inr g2"
    and new: "\<not> set ss \<subseteq> active_symbols fs" "\<not> set ss \<subseteq> bars_of p fs"
  shows "(\<exists>hello g3. let fs1 = NT5HandleWireMessage env (snd (last (sent g1))) fs in
      g_sent fs1 = g_sent fs @ [hello] \<and> active_symbols fs1 = active_symbols fs \<union> set ss \<and>
      gw_handle_raw (RStr hello) g1 = Inr g3 \<and> service_symbols (subs g3) = active_symbols fs \<union> set ss \<and>
      pending_subscribe (subs g3) \<inter> set ss = {}) \<and>
    (\<exists>hello g3. let fs1 = NT5HandleWireMessage env (snd (last (sent g2))) fs in
      g_sent fs1 = g_sent fs @ [hello] \<and> active_bars fs1 = active_bars fs \<union> set ss \<times> {p} \<and>
      gw_handle_raw (RStr hello) g2 = Inr g3 \<and>
      service_bars (subs g3) = reported_bars fs \<union> set ss \<times> {upper tf} \<and>
      pending_bar_subscribe (subs g3) \<inter> set ss \<times> {upper tf} = {})"
proof -
  have names: "\<forall>s \<in> set ss. plain_name s" and select: "\<forall>s \<in> set ss. fe_select env s" using ss(1) by blast+
  obtain fs1 ch1 where one: "change_all (NT5ActivateSymbol env) ss fs = (fs1, ch1)" by fastforce
  have s1: "service_ok fs1" "active_symbols fs1 = active_symbols fs \<union> set ss" "g_bars fs1 = g_bars fs"
      "link_part fs1 = link_part fs" "ch1"
    using symbol_on.turn_all [OF fs(1) one] fold_selected [OF select] new(1) by auto
  have "active_bars fs1 = active_bars fs" using s1(3) by (simp add: active_bars_def)
  then have "names_ok fs1" "ws_connected fs1" "g_sent fs1 = g_sent fs"
    using fs(2,3) s1(2,4) names by (auto simp: names_ok_def ws_connected_def link_part_def)
  then obtain t h where hello1: "hello_if_changed env (change_all (NT5ActivateSymbol env) ss fs) = fs1\<lparr>g_sent := g_sent fs @ [t]\<rparr>"
      "parse_wire_message (RStr t) = Inr (HelloMessage h)" "set (h_symbols h) = active_symbols fs1"
    using changed_hello [OF _ _ s1(1), of "NT5ActivateSymbol env" ss fs env] one s1(5) env by auto
  have c1: "NT5HandleWireMessage env (snd (last (sent g1))) fs = fs1\<lparr>g_sent := g_sent fs @ [t]\<rparr>"
    unfolding gw_subscribe_sends(1) [OF g(1) ss(3) g(2)] symbol_commands(1) [OF names] by (rule hello1(1))
  obtain fs2 ch2 where two: "change_all (\<lambda>s. NT5ActivateBar env s p) ss fs = (fs2, ch2)" by fastforce
  have s2: "service_ok fs2" "bars_of p fs2 = bars_of p fs \<union> set ss" "bars_rest p fs2 = bars_rest p fs" "ch2"
    using bar_on.turn_all [OF fs(1) two] fold_selected [OF select] new(2) by auto
  have bars: "active_bars fs2 = active_bars fs \<union> set ss \<times> {p}"
  proof (rule set_eqI)
    fix k :: "string \<times> int"
    obtain s q where k: "k = (s, q)" by fastforce
    have "{k \<in> active_bars fs2. snd k \<noteq> p} = {k \<in> active_bars fs. snd k \<noteq> p}" using s2(3) by (simp add: bars_rest_def)
    then have "q \<noteq> p \<Longrightarrow> k \<in> active_bars fs2 \<longleftrightarrow> k \<in> active_bars fs" using k by (metis (mono_tags, lifting) mem_Collect_eq snd_conv)
    moreover have "(s, p) \<in> active_bars fs2 \<longleftrightarrow> (s, p) \<in> active_bars fs \<or> s \<in> set ss"
      using s2(2) unfolding bars_of_def by blast
    ultimately show "k \<in> active_bars fs2 \<longleftrightarrow> k \<in> active_bars fs \<union> set ss \<times> {p}" using k by auto
  qed
  have "link_part fs2 = link_part fs" "g_symbols fs2 = g_symbols fs" using s2(3) by (simp_all add: bars_rest_def)
  then have "names_ok fs2" "ws_connected fs2" "g_sent fs2 = g_sent fs"
    using fs(2,3) bars names by (auto simp: names_ok_def ws_connected_def link_part_def active_symbols_def)
  then obtain u k where hello2: "hello_if_changed env (change_all (\<lambda>s. NT5ActivateBar env s p) ss fs) = fs2\<lparr>g_sent := g_sent fs @ [u]\<rparr>"
      "parse_wire_message (RStr u) = Inr (HelloMessage k)" "hello_bars (h_bars k) = reported_bars fs2"
    using changed_hello [OF _ _ s2(1), of "\<lambda>s. NT5ActivateBar env s p" ss fs env] two s2(4) env by auto
  have c2: "NT5HandleWireMessage env (snd (last (sent g2))) fs = fs2\<lparr>g_sent := g_sent fs @ [u]\<rparr>"
    unfolding gw_subscribe_sends(2) [OF g(1) ss(3) plain_nameD(1) [OF tf(1)] g(3)] bar_commands(1) [OF names ss(2) tf]
    by (rule hello2(1))
  have reported: "reported_bars fs2 = reported_bars fs \<union> set ss \<times> {upper tf}"
    unfolding reported_bars_def bars image_Un timeframe_there_and_back [OF tf(2,1), symmetric] by auto
  obtain g3 where g3: "gw_handle_raw (RStr t) g1 = Inr g3" "subs g3 = apply_hello h (subs g1)"
    using gw_handle_hello [OF hello1(2)] by blast
  obtain g4 where g4: "gw_handle_raw (RStr u) g2 = Inr g4" "subs g4 = apply_hello k (subs g2)"
    using gw_handle_hello [OF hello2(2)] by blast
  have same: "active_symbols (fs\<lparr>g_sent := x\<rparr>) = active_symbols fs" "active_bars (fs\<lparr>g_sent := x\<rparr>) = active_bars fs" for fs x
    by (simp_all add: active_symbols_def active_bars_def)
  have "g_sent (fs1\<lparr>g_sent := g_sent fs @ [t]\<rparr>) = g_sent fs @ [t] \<and> service_symbols (subs g3) = active_symbols fs \<union> set ss \<and>
      pending_subscribe (subs g3) \<inter> set ss = {}"
    using hello1(3) s1(2) by (auto simp: g3(2) apply_hello_def)
  moreover have "g_sent (fs2\<lparr>g_sent := g_sent fs @ [u]\<rparr>) = g_sent fs @ [u] \<and>
      service_bars (subs g4) = reported_bars fs \<union> set ss \<times> {upper tf} \<and>
      pending_bar_subscribe (subs g4) \<inter> set ss \<times> {upper tf} = {}"
    using hello2(3) reported by (auto simp: g4(2) apply_hello_def)
  ultimately show ?thesis
    unfolding Let_def c1 c2 same using g3(1) g4(1) s1(2) bars by blast
qed

text \<open>The gateway with a service connection that is open.\<close>

definition served_gateway :: gateway where
  "served_gateway = (gateway_init ''/mt5-feed'')\<lparr>server := True, service_ws := Some 1, ws_open := {1}, serving := {1}\<rparr>"

lemma subscriptions_confirmed_witness:
  "\<exists>g1 hello g3. gw_subscribe [''EURUSD''] served_gateway = Inr g1 \<and>
     g_sent (NT5HandleWireMessage quiet_env (snd (last (sent g1))) fresh_service) = [hello] \<and>
     gw_handle_raw (RStr hello) g1 = Inr g3 \<and> service_symbols (subs g3) = {''EURUSD''} \<and>
     ''EURUSD'' \<notin> pending_subscribe (subs g3)"
proof -
  have empty: "active_symbols fresh_service = {}" "active_bars fresh_service = {}"
    by (simp_all add: active_symbols_def active_bars_def active_keys_def fresh_service_def)
  have fs: "service_ok fresh_service" "names_ok fresh_service" "ws_connected fresh_service" "link_ok quiet_env"
    by (simp_all add: service_ok_def names_ok_def empty ws_connected_def link_ok_def)
       (simp_all add: fresh_service_def quiet_env_def)
  have tf: "plain_name ''M1''" "NT5TimeframeFromString ''M1'' = Some 1"
    by (simp add: plain_name_def)
       (simp add: NT5TimeframeFromString_def mql_trim_def mql_blank_def upper_def upper_char_def)
  have g: "is_service_connected served_gateway" by (simp add: is_service_connected_def served_gateway_def)
  obtain g1 where g1: "gw_subscribe [''EURUSD''] served_gateway = Inr g1"
    by (simp add: gw_subscribe_def gw_send_def is_service_connected_def on_subscriptions_def served_gateway_def Let_def)
  obtain g2 where g2: "gw_subscribe_bars [''EURUSD''] ''M1'' served_gateway = Inr g2"
    by (simp add: gw_subscribe_bars_def gw_send_def is_service_connected_def on_subscriptions_def served_gateway_def Let_def)
  have ss: "\<forall>s \<in> set [''EURUSD'']. plain_name s \<and> fe_select quiet_env s"
    by (simp add: plain_name_def quiet_env_def)
  have new: "\<not> set [''EURUSD''] \<subseteq> active_symbols fresh_service" "\<not> set [''EURUSD''] \<subseteq> bars_of 1 fresh_service"
    by (simp_all add: empty bars_of_def)
  show ?thesis
    using subscriptions_confirmed [OF fs ss _ _ tf g g1 g2 new] g1 empty
    by (auto simp: Let_def fresh_service_def)
qed

end
