(* ===== verification/Feed_Ticks.thy ===== *)
theory Feed_Ticks
  imports Feed_System
begin

text \<open>
  Which ticks of the terminal reach the adapter: passes of the service over a symbol, the texts it sends, and the
  filter of the adapter behind them. \<open>batches\<close> is the specification of the export, \<open>relay\<close> the composition.
\<close>

section \<open>Ticks\<close>

abbreviation msc :: "mql_tick \<Rightarrow> int" where
  "msc t \<equiv> sint (mq_time_msc t)"

text \<open>
  What \<^verbatim>\<open>CopyTicks\<close> promises: ticks in the order of their times, none older than asked for. Times are those of the
  near future at most and prices are floats of at most eight decimals.
\<close>

definition copies_ok :: "feed_env \<Rightarrow> bool" where
  "copies_ok env \<longleftrightarrow>
     (\<forall>s from n ts. fe_copy_ticks env s from n = Some ts \<longrightarrow>
        sorted (map msc ts) \<and> (\<forall>t \<in> set ts. sint from \<le> msc t \<and> msc t < 2 ^ 63 - 1 \<and> grid_tick t))"

text \<open>The export of a symbol, as a specification: each pass asks for what is newer than the last tick sent.\<close>

fun batches :: "int \<Rightarrow> string \<Rightarrow> feed_env list \<Rightarrow> 64 word \<Rightarrow> mql_tick list list" where
  "batches n s [] c = []"
| "batches n s (env # envs) c =
     (case fe_copy_ticks env s (c + 1) n of
        None \<Rightarrow> batches n s envs c
      | Some ts \<Rightarrow> if ts = [] then batches n s envs c else ts # batches n s envs (mq_time_msc (last ts)))"

text \<open>The adapter handles the texts of the service in their order, and drops those it cannot read.\<close>

fun deliver_texts :: "string list \<Rightarrow> feed_handler \<Rightarrow> feed_handler \<times> wire_inbound list" where
  "deliver_texts [] h = (h, [])"
| "deliver_texts (s # ss) h =
     (case handle_raw (RStr s) h of
        Inl _ \<Rightarrow> deliver_texts ss h
      | Inr (h1, e) \<Rightarrow>
          (case deliver_texts ss h1 of (h2, out) \<Rightarrow> (h2, (case e of None \<Rightarrow> out | Some m \<Rightarrow> m # out))))"

text \<open>Passes of the service over one symbol, each with the answers of the terminal, and the adapter behind it.\<close>

fun relay :: "feed_inputs \<Rightarrow> nat \<Rightarrow> feed_env list \<Rightarrow> feed_service \<Rightarrow> feed_handler \<Rightarrow>
    feed_service \<times> feed_handler \<times> wire_inbound list" where
  "relay inp i [] fs h = (fs, h, [])"
| "relay inp i (env # envs) fs h =
     (let fs1 = NT5ExportSymbolTicks env inp i fs in
      case deliver_texts (drop (length (g_sent fs)) (g_sent fs1)) h of
        (h1, out1) \<Rightarrow> (case relay inp i envs fs1 h1 of (fs2, h2, out2) \<Rightarrow> (fs2, h2, out1 @ out2)))"

fun ticks_in :: "string \<Rightarrow> wire_inbound list \<Rightarrow> wire_tick list" where
  "ticks_in s [] = []"
| "ticks_in s (TickBatchMessage b # out) = (if tb_symbol b = s then tb_ticks b @ ticks_in s out else ticks_in s out)"
| "ticks_in s (m # out) = ticks_in s out"

definition good_tick :: "wire_tick \<Rightarrow> bool" where
  "good_tick t \<longleftrightarrow> \<not> bid t \<le> 0 \<and> \<not> ask t \<le> 0"

text \<open>The symbol of the entry is being exported, and the adapter is not ahead of it.\<close>

definition exporting :: "nat \<Rightarrow> feed_service \<Rightarrow> bool" where
  "exporting i fs \<longleftrightarrow>
     i < length (g_symbols fs) \<and> ws_connected fs \<and>
     (let e = g_symbols fs ! i in
        se_active e \<and> se_symbol e \<noteq> [] \<and> printable (se_symbol e) \<and>
        0 < sint (se_last_msc e) \<and> sint (se_last_msc e) < 2 ^ 63 - 1 \<and>
        (\<forall>l. se_last_sent e = Some l \<longrightarrow> mq_time_msc l = se_last_msc e))"

definition behind :: "string \<Rightarrow> int \<Rightarrow> feed_handler \<Rightarrow> bool" where
  "behind s c h \<longleftrightarrow>
     cursor_of h s \<le> c \<and> (\<forall>l. last_tick (feed_state h s) = Some l \<longrightarrow> time_msc l \<le> c)"

lemma sint_Suc: "sint (w :: 64 word) < 2 ^ 63 - 1 \<Longrightarrow> sint (w + 1) = sint w + 1"
proof -
  assume less: "sint w < 2 ^ 63 - 1"
  have "- (2 ^ 63) \<le> sint w" using sint_range_size [of w] by (simp add: word_size)
  then show ?thesis using less by (simp add: sint_word_ariths signed_take_bit_int_eq_self)
qed

lemma newer_ticks:
  assumes "copies_ok env" and "fe_copy_ticks env s (c + 1) n = Some ts" and "sint c < 2 ^ 63 - 1" and "t \<in> set ts"
  shows "sint c < msc t" "msc t \<le> msc (last ts)" "msc t < 2 ^ 63 - 1" "grid_tick t"
proof -
  have a: "sorted (map msc ts)" "\<forall>t \<in> set ts. sint (c + 1) \<le> msc t \<and> msc t < 2 ^ 63 - 1 \<and> grid_tick t"
    using assms(1,2) by (auto simp: copies_ok_def)
  then show "sint c < msc t" "msc t < 2 ^ 63 - 1" "grid_tick t" using assms(3,4) by (auto simp: sint_Suc)
  obtain us where "ts = us @ [last ts]" using assms(4) by (metis append_butlast_last_id empty_iff list.set(1))
  then have "sorted (map msc (us @ [last ts]))" "t \<in> set (us @ [last ts])" using a(1) assms(4) by auto
  then show "msc t \<le> msc (last ts)" by (auto simp: sorted_append)
qed

definition next_ticks :: "feed_env \<Rightarrow> feed_inputs \<Rightarrow> symbol_entry \<Rightarrow> mql_tick list" where
  "next_ticks env inp e =
     (case fe_copy_ticks env (se_symbol e) (se_last_msc e + 1) (InpBatchSize inp) of None \<Rightarrow> [] | Some ts \<Rightarrow> ts)"

lemma export_pass:
  fixes inp :: feed_inputs
  assumes "exporting i fs" and "link_ok env" and "copies_ok env"
  defines "e \<equiv> g_symbols fs ! i"
  defines "ts \<equiv> next_ticks env inp e"
  shows "NT5ExportSymbolTicks env inp i fs =
    (if ts = [] then fs
     else fs\<lparr>g_sent := g_sent fs @ [NT5BuildTicksJson (se_symbol e) (mq_time_msc (last ts)) ts],
             g_symbols := (g_symbols fs)[i := e\<lparr>se_last_msc := mq_time_msc (last ts), se_last_sent := Some (last ts)\<rparr>]\<rparr>)"
proof -
  have e: "i < length (g_symbols fs)" "ws_connected fs" "se_active e" "0 < sint (se_last_msc e)"
      "sint (se_last_msc e) < 2 ^ 63 - 1" "se_last_sent e = Some l \<Longrightarrow> mq_time_msc l = se_last_msc e" for l
    using assms(1) by (auto simp: exporting_def e_def Let_def)
  have seeded: "se_last_msc e \<noteq> 0" using e(4) by auto
  have same: "fs\<lparr>g_symbols := (g_symbols fs)[i := e]\<rparr> = fs" using e(1) by (simp add: e_def)
  show ?thesis
  proof (cases "ts = []")
    case True
    then show ?thesis
      using e(3) seeded same
      by (auto simp: NT5ExportSymbolTicks_def e_def [symmetric] ts_def next_ticks_def Let_def split: option.splits if_splits)
  next
    case False
    then have copy: "fe_copy_ticks env (se_symbol e) (se_last_msc e + 1) (InpBatchSize inp) = Some ts"
      by (auto simp: ts_def next_ticks_def split: option.splits)
    obtain t us where ts: "ts = t # us" using False by (cases ts) auto
    have "sint (se_last_msc e) < msc t" using newer_ticks(1) [OF assms(3) copy e(5)] ts by simp
    then have "\<not> NT5TickSameSnapshot t l" if "se_last_sent e = Some l" for l
      using e(6) [OF that] by (auto simp: NT5TickSameSnapshot_def)
    then have "NT5FilterNewTicks e ts = ts" by (simp add: NT5FilterNewTicks_def ts split: option.split)
    then show ?thesis
      using e(2,3) seeded same copy False assms(2)
      by (simp add: NT5ExportSymbolTicks_def e_def [symmetric] Let_def ws_send_def link_ok_def)
  qed
qed

text \<open>The adapter lets through every tick with good prices of a batch that is newer than what it has seen.\<close>

lemma adapter_pass:
  assumes "behind s (sint c) h" and "printable s" and "s \<noteq> []" and "ts \<noteq> []"
    and "\<forall>t \<in> set ts. sint c < msc t \<and> msc t \<le> msc (last ts) \<and> grid_tick t"
  shows "\<exists>h1 out. deliver_texts [NT5BuildTicksJson s (mq_time_msc (last ts)) ts] h = (h1, out) \<and>
    behind s (msc (last ts)) h1 \<and> ticks_in s out = filter good_tick (map wire_of ts)"
proof -
  let ?b = "\<lparr>tb_symbol = s, tb_cursor = msc (last ts), tb_ticks = map wire_of ts\<rparr>"
  have read: "parse_wire_message (RStr (NT5BuildTicksJson s (mq_time_msc (last ts)) ts)) = Inr (TickBatchMessage ?b)"
    using ticks_read [OF assms(2,3)] assms(5) by blast
  obtain h1 out where d: "dedup_ticks ?b h = (h1, out)" by fastforce
  have cursor: "\<not> msc (last ts) < cursor_of h s" "cursor_of h s \<le> sint c"
    using assms(1,4,5) by (auto simp: behind_def dest: last_in_set)
  have "tick_passes (feed_state h s) (wire_of t) \<longleftrightarrow> good_tick (wire_of t)" if "t \<in> set ts" for t
  proof -
    have "sint c < time_msc (wire_of t)" using that assms(5) by (simp add: wire_of_def)
    then have "last_cursor (feed_state h s) \<le> time_msc (wire_of t)" "last_tick (feed_state h s) = Some l \<Longrightarrow> tick_key (wire_of t) \<noteq> tick_key l" for l
      using assms(1) cursor(2) by (auto simp: behind_def cursor_of_def tick_key_def)
    then show ?thesis by (auto simp: tick_passes_def good_tick_def)
  qed
  then have "filter (tick_passes (feed_state h s)) (map wire_of ts) = filter good_tick (map wire_of ts)"
    by (intro filter_cong) auto
  then have out: "out = filter good_tick (map wire_of ts)"
    using dedup_ticks_spec(1) [OF d] cursor(1) by simp
  have behind: "behind s (msc (last ts)) h1"
  proof (cases "out = []")
    case True
    then have "feed_state h1 = feed_state h" using dedup_ticks_spec(2) [OF d] by simp
    moreover have "sint c \<le> msc (last ts)" using assms(4,5) by (auto dest: last_in_set)
    ultimately show ?thesis using assms(1) by (fastforce simp: behind_def cursor_of_def)
  next
    case False
    have "last out \<in> wire_of ` set ts" using last_in_set [OF False] out by auto
    then have "time_msc (last out) \<le> msc (last ts)" using assms(5) by (auto simp: wire_of_def)
    then show ?thesis using dedup_ticks_spec(2) [OF d] False by (simp add: behind_def cursor_of_def)
  qed
  show ?thesis
  proof (cases out)
    case Nil
    then show ?thesis using d read behind out by (simp add: handle_raw_def)
  next
    case (Cons t us)
    then show ?thesis using d read behind out by (simp add: handle_raw_def)
  qed
qed

lemma exporting_next:
  assumes "exporting i fs" and "copies_ok env"
  defines "e \<equiv> g_symbols fs ! i"
  assumes "next_ticks env inp e = ts" and "ts \<noteq> []"
  shows "exporting i (fs\<lparr>g_sent := x,
    g_symbols := (g_symbols fs)[i := e\<lparr>se_last_msc := mq_time_msc (last ts), se_last_sent := Some (last ts)\<rparr>]\<rparr>)"
proof -
  have copy: "fe_copy_ticks env (se_symbol e) (se_last_msc e + 1) (InpBatchSize inp) = Some ts"
    using assms(4,5) by (auto simp: next_ticks_def split: option.splits)
  have c: "sint (se_last_msc e) < 2 ^ 63 - 1" "0 < sint (se_last_msc e)"
    using assms(1) by (simp_all add: exporting_def e_def Let_def)
  have "sint (se_last_msc e) < msc (last ts)" "msc (last ts) < 2 ^ 63 - 1"
    using newer_ticks(1,3) [OF assms(2) copy c(1)] last_in_set [OF assms(5)] by blast+
  then show ?thesis using assms(1) c(2) by (simp add: exporting_def e_def Let_def ws_connected_def)
qed

lemma ticks_in_append: "ticks_in s (a @ b) = ticks_in s a @ ticks_in s b"
  by (induction s a rule: ticks_in.induct) auto

lemma relay_batches:
  assumes "exporting i fs" and "\<forall>env \<in> set envs. link_ok env \<and> copies_ok env"
    and "behind (se_symbol (g_symbols fs ! i)) (sint (se_last_msc (g_symbols fs ! i))) h"
    and "relay inp i envs fs h = (fs', h', out)"
  shows "ticks_in (se_symbol (g_symbols fs ! i)) out = filter good_tick (map wire_of (concat
      (batches (InpBatchSize inp) (se_symbol (g_symbols fs ! i)) envs (se_last_msc (g_symbols fs ! i))))) \<and>
    exporting i fs' \<and> se_symbol (g_symbols fs' ! i) = se_symbol (g_symbols fs ! i) \<and>
    behind (se_symbol (g_symbols fs ! i)) (sint (se_last_msc (g_symbols fs' ! i))) h'"
  using assms
proof (induction envs arbitrary: fs h out)
  case (Cons env envs)
  let ?e = "g_symbols fs ! i"
  let ?s = "se_symbol ?e"
  let ?ts = "next_ticks env inp ?e"
  have env: "link_ok env" "copies_ok env" and envs: "\<forall>env \<in> set envs. link_ok env \<and> copies_ok env"
    using Cons.prems(2) by simp_all
  have e: "i < length (g_symbols fs)" "?s \<noteq> []" "printable ?s" "sint (se_last_msc ?e) < 2 ^ 63 - 1"
    using Cons.prems(1) by (simp_all add: exporting_def Let_def)
  note pass = export_pass [OF Cons.prems(1) env, of inp]
  show ?case
  proof (cases "?ts = []")
    case True
    then have "batches (InpBatchSize inp) ?s (env # envs) (se_last_msc ?e) = batches (InpBatchSize inp) ?s envs (se_last_msc ?e)"
      by (auto simp: next_ticks_def split: option.splits)
    moreover have "relay inp i envs fs h = (fs', h', out)" using Cons.prems(4) pass True by (simp split: prod.splits)
    ultimately show ?thesis using Cons.IH [OF Cons.prems(1) envs Cons.prems(3)] by simp
  next
    case False
    then have copy: "fe_copy_ticks env ?s (se_last_msc ?e + 1) (InpBatchSize inp) = Some ?ts"
      by (auto simp: next_ticks_def split: option.splits)
    let ?fs1 = "fs\<lparr>g_sent := g_sent fs @ [NT5BuildTicksJson ?s (mq_time_msc (last ?ts)) ?ts],
        g_symbols := (g_symbols fs)[i := ?e\<lparr>se_last_msc := mq_time_msc (last ?ts), se_last_sent := Some (last ?ts)\<rparr>]\<rparr>"
    have fs1: "NT5ExportSymbolTicks env inp i fs = ?fs1" using pass False by simp
    obtain h1 out1 where h1: "deliver_texts [NT5BuildTicksJson ?s (mq_time_msc (last ?ts)) ?ts] h = (h1, out1)"
        "behind ?s (msc (last ?ts)) h1" "ticks_in ?s out1 = filter good_tick (map wire_of ?ts)"
      using adapter_pass [OF Cons.prems(3) e(3,2) False] newer_ticks [OF env(2) copy e(4)] by blast
    obtain out2 where out2: "relay inp i envs ?fs1 h1 = (fs', h', out2)" "out = out1 @ out2"
      using Cons.prems(4) fs1 h1(1) by (auto split: prod.splits)
    have entry: "se_symbol (g_symbols ?fs1 ! i) = ?s" "se_last_msc (g_symbols ?fs1 ! i) = mq_time_msc (last ?ts)"
      using e(1) by simp_all
    have exp: "exporting i ?fs1" by (rule exporting_next [OF Cons.prems(1) env(2) refl False])
    have b: "behind (se_symbol (g_symbols ?fs1 ! i)) (sint (se_last_msc (g_symbols ?fs1 ! i))) h1"
      unfolding entry by (rule h1(2))
    note Cons.IH [OF exp envs b out2(1), unfolded entry]
    then show ?thesis using copy False h1(3) out2(2) by (simp add: ticks_in_append)
  qed
qed simp

text \<open>The batches go strictly forward in time.\<close>

lemma batches_forward:
  assumes "\<forall>env \<in> set envs. copies_ok env" and "sint c < 2 ^ 63 - 1"
  shows "(\<forall>b \<in> set (batches n s envs c). b \<noteq> [] \<and> (\<forall>t \<in> set b. sint c < msc t)) \<and>
    sorted_wrt (\<lambda>a b. \<forall>t \<in> set b. msc (last a) < msc t) (batches n s envs c)"
  using assms
proof (induction envs arbitrary: c)
  case (Cons env envs)
  show ?case
  proof (cases "fe_copy_ticks env s (c + 1) n")
    case (Some ts)
    show ?thesis
    proof (cases "ts = []")
      case False
      have new: "\<forall>t \<in> set ts. sint c < msc t" "msc (last ts) < 2 ^ 63 - 1"
        using newer_ticks [OF _ Some Cons.prems(2)] Cons.prems(1) last_in_set [OF False] by auto
      then have rest: "(\<forall>b \<in> set (batches n s envs (mq_time_msc (last ts))). b \<noteq> [] \<and> (\<forall>t \<in> set b. msc (last ts) < msc t)) \<and>
          sorted_wrt (\<lambda>a b. \<forall>t \<in> set b. msc (last a) < msc t) (batches n s envs (mq_time_msc (last ts)))"
        using Cons.IH [of "mq_time_msc (last ts)"] Cons.prems(1) by simp
      moreover have "sint c < msc (last ts)" using new(1) last_in_set [OF False] by blast
      then have "\<forall>b \<in> set (batches n s envs (mq_time_msc (last ts))). \<forall>t \<in> set b. sint c < msc t"
        using rest less_trans by blast
      ultimately show ?thesis using Some False new(1) by simp
    qed (use Some Cons in simp)
  qed (use Cons in simp)
qed simp

section \<open>A terminal with a history\<close>

text \<open>\<^verbatim>\<open>CopyTicks\<close> on a history: the first \<open>n\<close> ticks of it that are not older than asked for.\<close>

definition history_env :: "mql_tick list \<Rightarrow> feed_env" where
  "history_env H =
     quiet_env\<lparr>fe_copy_ticks := (\<lambda>_ from n. Some (take (nat n) (filter (\<lambda>t. sint from \<le> msc t) H)))\<rparr>"

lemma sorted_take_filter: "sorted (map f xs) \<Longrightarrow> sorted (map f (take n (filter p xs)))"
  by (metis sorted_wrt_take sorted_filter take_map)

lemma history_env_ok:
  assumes "sorted (map msc H)" and "\<forall>t \<in> set H. msc t < 2 ^ 63 - 1 \<and> grid_tick t"
  shows "copies_ok (history_env H)" and "link_ok (history_env H)"
  using assms sorted_take_filter
  by (auto simp: copies_ok_def link_ok_def history_env_def quiet_env_def dest!: in_set_takeD)

text \<open>In a strictly increasing list, what follows the first \<open>k\<close> elements is what exceeds the last of them.\<close>

lemma filter_beyond_take:
  assumes "sorted_wrt (<) (map (f :: 'a \<Rightarrow> int) xs)" and "take k xs \<noteq> []"
  shows "filter (\<lambda>t. f (last (take k xs)) < f t) xs = drop k xs"
proof -
  let ?a = "take k xs" and ?b = "drop k xs"
  have split: "sorted_wrt (<) (map f ?a @ map f ?b)" using assms(1) by (metis append_take_drop_id map_append)
  have "sorted_wrt (<) (map f (butlast ?a) @ [f (last ?a)])"
    using split assms(2) by (metis append_butlast_last_id list.simps(8,9) map_append sorted_wrt_append)
  then have "\<forall>t \<in> set (butlast ?a). f t < f (last ?a)" by (simp add: sorted_wrt_append)
  moreover have "set ?a = set (butlast ?a) \<union> {last ?a}"
    using assms(2) by (metis append_butlast_last_id list.simps(15) set_append empty_set)
  ultimately have "filter (\<lambda>t. f (last ?a) < f t) ?a = []" by (auto simp: filter_empty_conv)
  moreover have "\<forall>t \<in> set ?b. f (last ?a) < f t" using split assms(2) by (auto simp: sorted_wrt_append)
  then have "filter (\<lambda>t. f (last ?a) < f t) ?b = ?b" by simp
  ultimately show ?thesis by (metis append_take_drop_id filter_append append_Nil)
qed

lemma batches_of_history:
  assumes "sorted_wrt (<) (map msc H)" and "\<forall>t \<in> set H. msc t < 2 ^ 63 - 1" and "0 < n" and "sint c < 2 ^ 63 - 1"
  shows "concat (batches n s (replicate k (history_env H)) c) = take (k * nat n) (filter (\<lambda>t. sint c < msc t) H)"
  using assms(4)
proof (induction k arbitrary: c)
  case (Suc k)
  let ?F = "filter (\<lambda>t. sint c < msc t) H"
  let ?ts = "take (nat n) ?F"
  have "(\<lambda>t. sint (c + 1) \<le> msc t) = (\<lambda>t. sint c < msc t)" using sint_Suc [OF Suc.prems] by auto
  then have copy: "fe_copy_ticks (history_env H) s (c + 1) n = Some ?ts" by (simp add: history_env_def)
  show ?case
  proof (cases "?ts = []")
    case True
    then have "?F = []" using assms(3) by simp
    then show ?thesis using copy True Suc.IH [OF Suc.prems] by (simp add: \<open>?F = []\<close>)
  next
    case False
    let ?l = "last ?ts"
    have l: "?l \<in> set H" "sint c < msc ?l" using last_in_set [OF False] by (auto dest!: in_set_takeD)
    have "sorted_wrt (<) (map msc ?F)" using assms(1) by (simp add: sorted_wrt_map sorted_wrt_filter)
    then have "filter (\<lambda>t. msc ?l < msc t) ?F = drop (nat n) ?F" by (rule filter_beyond_take [OF _ False])
    moreover have "filter (\<lambda>t. msc ?l < msc t) ?F = filter (\<lambda>t. msc ?l < msc t) H"
      using l(2) by (auto intro!: filter_cong)
    ultimately have "concat (batches n s (replicate k (history_env H)) (mq_time_msc ?l)) = take (k * nat n) (drop (nat n) ?F)"
      using Suc.IH [of "mq_time_msc ?l"] l(1) assms(2) by simp
    then show ?thesis using copy False by (simp add: take_add)
  qed
qed simp

text \<open>
  C29: the ticks the adapter lets through are exactly those with good prices of the batches of the service, in their
  order: nothing is lost, repeated or changed between the two, whatever the terminal answers and however many
  passes are made. And the batches go strictly forward in time.
\<close>

theorem ticks_reach_adapter_once:
  assumes "exporting i fs" and "\<forall>env \<in> set envs. link_ok env \<and> copies_ok env"
    and "s = se_symbol (g_symbols fs ! i)" and "c = se_last_msc (g_symbols fs ! i)" and "behind s (sint c) h"
  shows "ticks_in s (snd (snd (relay inp i envs fs h))) =
      filter good_tick (map wire_of (concat (batches (InpBatchSize inp) s envs c))) \<and>
    sorted_wrt (\<lambda>a b. \<forall>t \<in> set b. msc (last a) < msc t) (batches (InpBatchSize inp) s envs c)"
proof -
  obtain fs' h' out where run: "relay inp i envs fs h = (fs', h', out)" using prod_cases3 by blast
  have "sint c < 2 ^ 63 - 1" using assms(1,4) by (simp add: exporting_def Let_def)
  then show ?thesis
    using relay_batches [OF assms(1,2) assms(5) [unfolded assms(3,4)] run] batches_forward [of envs c] assms(2)
    by (simp add: run assms(3,4))
qed

text \<open>
  C31: a tick that falls in the millisecond of the last tick exported, and was not exported with it, never reaches the
  adapter: it came after the query of that pass, or the batch was full. The service asks for ticks from the next
  millisecond on, so its comparison with the last tick sent never has anything to compare.
\<close>

theorem same_millisecond_lost:
  assumes "exporting i fs" and "\<forall>env \<in> set (envs @ later). link_ok env \<and> copies_ok env"
    and "s = se_symbol (g_symbols fs ! i)" and "behind s (sint (se_last_msc (g_symbols fs ! i))) h"
    and "relay inp i envs fs h = (fs1, h1, out)" and "msc t = sint (se_last_msc (g_symbols fs1 ! i))"
  shows "wire_of t \<notin> set (ticks_in s (snd (snd (relay inp i later fs1 h1))))"
proof -
  have one: "exporting i fs1" "se_symbol (g_symbols fs1 ! i) = s" "behind s (sint (se_last_msc (g_symbols fs1 ! i))) h1"
    using relay_batches [OF assms(1) _ assms(4) [unfolded assms(3)] assms(5)] assms(2,3) by simp_all
  let ?c = "se_last_msc (g_symbols fs1 ! i)"
  have "sint ?c < 2 ^ 63 - 1" using one(1) by (simp add: exporting_def Let_def)
  then have "\<forall>b \<in> set (batches (InpBatchSize inp) s later ?c). \<forall>u \<in> set b. sint ?c < msc u"
    using batches_forward [of later ?c] assms(2) by simp
  then have "sint ?c < time_msc w" if "w \<in> set (map wire_of (concat (batches (InpBatchSize inp) s later ?c)))" for w
    using that by (auto simp: wire_of_def)
  from this [of "wire_of t"] have "wire_of t \<notin> set (map wire_of (concat (batches (InpBatchSize inp) s later ?c)))"
    using assms(6) by (auto simp: wire_of_def)
  moreover obtain fs2 h2 out2 where run: "relay inp i later fs1 h1 = (fs2, h2, out2)" using prod_cases3 by blast
  ultimately show ?thesis
    using relay_batches [OF one(1) _ _ run] one(2,3) assms(2) by simp
qed

text \<open>
  C30: as long as no two ticks share a millisecond, every tick of the terminal with good prices that is newer than the
  cursor reaches the adapter, in its order and once, after as many passes as there are batches of them.
\<close>

theorem every_tick_arrives:
  assumes "exporting i fs" and "s = se_symbol (g_symbols fs ! i)" and "c = se_last_msc (g_symbols fs ! i)"
    and "behind s (sint c) h" and "sorted_wrt (<) (map msc H)"
    and "\<forall>t \<in> set H. msc t < 2 ^ 63 - 1 \<and> grid_tick t" and "0 < InpBatchSize inp"
    and "length (filter (\<lambda>t. sint c < msc t) H) \<le> k * nat (InpBatchSize inp)"
  shows "ticks_in s (snd (snd (relay inp i (replicate k (history_env H)) fs h))) =
    filter good_tick (map wire_of (filter (\<lambda>t. sint c < msc t) H))"
proof -
  have "sorted (map msc H)" using assms(5) by (rule strict_sorted_imp_sorted)
  then have ok: "\<forall>env \<in> set (replicate k (history_env H)). link_ok env \<and> copies_ok env"
    using history_env_ok [OF _ assms(6)] by auto
  obtain fs' h' out where run: "relay inp i (replicate k (history_env H)) fs h = (fs', h', out)" using prod_cases3 by blast
  have "sint c < 2 ^ 63 - 1" using assms(1,3) by (simp add: exporting_def Let_def)
  then have "concat (batches (InpBatchSize inp) s (replicate k (history_env H)) c) = filter (\<lambda>t. sint c < msc t) H"
    using batches_of_history [OF assms(5) _ assms(7)] assms(6,8) by simp
  then show ?thesis
    using relay_batches [OF assms(1) ok assms(4) [unfolded assms(2,3)] run] by (simp add: run assms(2,3))
qed

section \<open>A symbol being exported\<close>

definition exporting_service :: feed_service where
  "exporting_service =
     fresh_service\<lparr>g_symbols := [\<lparr>se_symbol = ''EURUSD'', se_last_msc = 5, se_active = True, se_last_sent = None\<rparr>]\<rparr>"

definition inputs_of_size :: "int \<Rightarrow> feed_inputs" where
  "inputs_of_size n =
     \<lparr>InpBatchSize = n, InpSymbols = ''EURUSD'', InpBarSpecs = [], InpBarPollMs = 300, InpHeartbeatSec = 30\<rparr>"

lemma exporting_example:
  "exporting 0 exporting_service" "''EURUSD'' = se_symbol (g_symbols exporting_service ! 0)"
  "5 = se_last_msc (g_symbols exporting_service ! 0)" "behind ''EURUSD'' (sint (5 :: 64 word)) feed_handler_init"
  by (simp_all add: exporting_def exporting_service_def fresh_service_def ws_connected_def Let_def behind_def cursor_of_def
      feed_state_def feed_handler_init_def symbol_feed_init_def)

lemma good_tick_example: "good_tick (wire_of (tick_example t))" "good_tick (wire_of (tick_example t\<lparr>mq_volume := v\<rparr>))"
proof -
  have "\<not> rnd64 q \<le> 0" if "1 \<le> q" "q \<le> 2" for q :: rat
  proof -
    have "pow2 (- 1000) \<le> \<bar>q\<bar>" "\<bar>q\<bar> \<le> pow2 1000"
      using that pow2_mono [of "- 1000" 0] pow2_mono [of 1 1000] by (auto simp: pow2_def)
    then show ?thesis using rnd64_error [of q] that by auto
  qed
  then show "good_tick (wire_of (tick_example t))" "good_tick (wire_of (tick_example t\<lparr>mq_volume := v\<rparr>))"
    by (simp_all add: good_tick_def wire_of_def tick_example_def)
qed

lemma ticks_reach_adapter_once_witness:
  "ticks_in ''EURUSD'' (snd (snd (relay (inputs_of_size 100) 0 [history_env [tick_example 6]] exporting_service feed_handler_init))) =
   [wire_of (tick_example 6)]"
proof -
  have "\<forall>env \<in> set [history_env [tick_example 6]]. link_ok env \<and> copies_ok env"
    using history_env_ok [of "[tick_example 6]"] grid_tick_example by (simp add: tick_example_def)
  then have "ticks_in ''EURUSD'' (snd (snd (relay (inputs_of_size 100) 0 [history_env [tick_example 6]] exporting_service feed_handler_init))) =
      filter good_tick (map wire_of (concat (batches 100 ''EURUSD'' [history_env [tick_example 6]] 5)))"
    using ticks_reach_adapter_once [OF exporting_example(1) _ exporting_example(2,3,4),
        of "[history_env [tick_example 6]]" "inputs_of_size 100"] by (simp add: inputs_of_size_def)
  also have "batches 100 ''EURUSD'' [history_env [tick_example 6]] 5 = [[tick_example 6]]"
    by (simp add: history_env_def tick_example_def)
  finally show ?thesis by (simp add: good_tick_example)
qed

text \<open>Three ticks in one millisecond and batches of two.\<close>

definition burst :: "mql_tick list" where
  "burst = [tick_example 6, (tick_example 6)\<lparr>mq_volume := 1\<rparr>, (tick_example 6)\<lparr>mq_volume := 2\<rparr>]"

lemma burst_ok: "\<forall>env \<in> set ([history_env burst] @ [history_env burst]). link_ok env \<and> copies_ok env"
proof -
  have "\<forall>t \<in> set burst. msc t < 2 ^ 63 - 1 \<and> grid_tick t"
    using grid_tick_example [of 6] by (simp add: burst_def tick_example_def grid_tick_def)
  moreover have "sorted (map msc burst)" by (simp add: burst_def tick_example_def)
  ultimately show ?thesis using history_env_ok by simp
qed

lemma same_millisecond_lost_witness:
  "(case relay (inputs_of_size 2) 0 [history_env burst] exporting_service feed_handler_init of
      (fs1, h1, out) \<Rightarrow>
        ticks_in ''EURUSD'' out = map wire_of (take 2 burst) \<and>
        wire_of (burst ! 2) \<notin> set (ticks_in ''EURUSD'' (snd (snd (relay (inputs_of_size 2) 0 [history_env burst] fs1 h1)))))"
proof -
  obtain fs1 h1 out where run: "relay (inputs_of_size 2) 0 [history_env burst] exporting_service feed_handler_init = (fs1, h1, out)"
    using prod_cases3 by blast
  have envs: "\<forall>env \<in> set [history_env burst]. link_ok env \<and> copies_ok env" using burst_ok by simp
  have ticks: "next_ticks (history_env burst) (inputs_of_size 2) (g_symbols exporting_service ! 0) = take 2 burst"
    by (simp add: next_ticks_def history_env_def inputs_of_size_def exporting_service_def burst_def tick_example_def)
  have "se_last_msc (g_symbols (NT5ExportSymbolTicks (history_env burst) (inputs_of_size 2) 0 exporting_service) ! 0) = 6"
    using export_pass [OF exporting_example(1), of "history_env burst" "inputs_of_size 2"] envs ticks
    by (simp add: exporting_service_def fresh_service_def burst_def tick_example_def)
  moreover have "fs1 = NT5ExportSymbolTicks (history_env burst) (inputs_of_size 2) 0 exporting_service"
    using run by (auto simp: Let_def split: prod.splits)
  ultimately have cursor: "msc (burst ! 2) = sint (se_last_msc (g_symbols fs1 ! 0))" by (simp add: burst_def tick_example_def)
  have "batches 2 ''EURUSD'' [history_env burst] 5 = [take 2 burst]"
    by (simp add: history_env_def burst_def tick_example_def)
  moreover have "ticks_in ''EURUSD'' out = filter good_tick (map wire_of (concat (batches 2 ''EURUSD'' [history_env burst] 5)))"
    using relay_batches [OF exporting_example(1) envs _ run] exporting_example(4)
    unfolding exporting_example(2,3) [symmetric] by (simp add: inputs_of_size_def)
  moreover have "filter good_tick (map wire_of (take 2 burst)) = map wire_of (take 2 burst)"
    using good_tick_example by (simp add: burst_def)
  ultimately have "ticks_in ''EURUSD'' out = map wire_of (take 2 burst)" by simp
  moreover have "wire_of (burst ! 2) \<notin> set (ticks_in ''EURUSD'' (snd (snd (relay (inputs_of_size 2) 0 [history_env burst] fs1 h1))))"
    by (rule same_millisecond_lost [OF exporting_example(1) burst_ok exporting_example(2) _ run cursor])
       (use exporting_example(3,4) in simp)
  ultimately show ?thesis using run by simp
qed

lemma every_tick_arrives_witness:
  "ticks_in ''EURUSD'' (snd (snd (relay (inputs_of_size 1) 0 (replicate 2 (history_env [tick_example 6, tick_example 7]))
      exporting_service feed_handler_init))) = [wire_of (tick_example 6), wire_of (tick_example 7)]"
proof -
  have "\<forall>t \<in> set [tick_example 6, tick_example 7]. msc t < 2 ^ 63 - 1 \<and> grid_tick t"
    using grid_tick_example by (simp add: tick_example_def)
  moreover have "sorted_wrt (<) (map msc [tick_example 6, tick_example 7])" by (simp add: tick_example_def)
  moreover have "filter (\<lambda>t. sint (5 :: 64 word) < msc t) [tick_example 6, tick_example 7] = [tick_example 6, tick_example 7]"
    by (simp add: tick_example_def)
  ultimately show ?thesis
    using every_tick_arrives [OF exporting_example, of "[tick_example 6, tick_example 7]" "inputs_of_size 1" 2] good_tick_example
    by (simp add: inputs_of_size_def)
qed

end
