(* ===== verification/Client_Sockets.thy ===== *)
theory Client_Sockets
  imports Py_Json
begin

text \<open>
  The clients of the two sockets of a server (\<^verbatim>\<open>client/sockets.py\<close>): one socket for requests and one for the
  stream, how they are connected, reconnected, closed and asked for their state, and the two subclasses for
  orders and for markets. The socket client of the platform is a parameter: what its connection gives, its four
  questions about its mode, and what reconnecting, closing and sending do to it. Logging is left out, except
  where it fails.
\<close>

section \<open>The sockets of the platform\<close>

record socket_config =
  sc_url :: string
  sc_ssl :: bool
  sc_suffix :: string

record 's sockets =
  so_connect :: "socket_config \<Rightarrow> 's result"
  so_active :: "'s \<Rightarrow> bool"
  so_reconnecting :: "'s \<Rightarrow> bool"
  so_disconnecting :: "'s \<Rightarrow> bool"
  so_closed :: "'s \<Rightarrow> bool"
  so_reconnect :: "'s \<Rightarrow> 's \<times> unit result"
  so_close :: "'s \<Rightarrow> 's \<times> unit result"
  so_send :: "'s \<Rightarrow> string \<Rightarrow> 's \<times> unit result"

section \<open>The client of both sockets\<close>

record 's socket_client =
  sk_host :: string
  sk_rest_port :: int
  sk_stream_port :: int
  sk_crlf :: string
  sk_rest :: "'s option"
  sk_stream :: "'s option"
  sk_id :: nat
  sk_running :: bool

text \<open>The identifier comes from a counter of the module, which is given and returned.\<close>

definition socket_client_init :: "string \<Rightarrow> int \<Rightarrow> int \<Rightarrow> string \<Rightarrow> nat \<Rightarrow> 's socket_client \<times> nat" where
  "socket_client_init host rest stream crlf next =
     (\<lparr>sk_host = host, sk_rest_port = rest, sk_stream_port = stream, sk_crlf = crlf, sk_rest = None,
       sk_stream = None, sk_id = next, sk_running = False\<rparr>, next + 1)"

definition rest_config :: "'s socket_client \<Rightarrow> socket_config" where
  "rest_config c = \<lparr>sc_url = sk_host c @ '':'' @ int_str (sk_rest_port c), sc_ssl = False, sc_suffix = sk_crlf c\<rparr>"

definition stream_config :: "'s socket_client \<Rightarrow> socket_config" where
  "stream_config c =
     \<lparr>sc_url = sk_host c @ '':'' @ int_str (sk_stream_port c), sc_ssl = False, sc_suffix = sk_crlf c\<rparr>"

fun usable_socket :: "'s sockets \<Rightarrow> 's option \<Rightarrow> bool" where
  "usable_socket P None = False"
| "usable_socket P (Some s) = so_active P s"

definition connect_rest_client :: "'s sockets \<Rightarrow> 's socket_client \<Rightarrow> 's socket_client \<times> unit result" where
  "connect_rest_client P c =
     (if usable_socket P (sk_rest c) then (c, Inr ())
      else (case so_connect P (rest_config c) of
              Inl e \<Rightarrow> (c, Inl e)
            | Inr s \<Rightarrow> (c\<lparr>sk_rest := Some s\<rparr>, Inr ())))"

definition connect_stream_client :: "'s sockets \<Rightarrow> 's socket_client \<Rightarrow> 's socket_client \<times> unit result" where
  "connect_stream_client P c =
     (if usable_socket P (sk_stream c) then (c, Inr ())
      else (case so_connect P (stream_config c) of
              Inl e \<Rightarrow> (c, Inl e)
            | Inr s \<Rightarrow> (c\<lparr>sk_stream := Some s\<rparr>, Inr ())))"

text \<open>\<^verbatim>\<open>connect\<close>, with what the class does after a connection: nothing in the base class.\<close>

definition socket_connect :: "'s sockets \<Rightarrow> unit result \<Rightarrow> 's socket_client \<Rightarrow> 's socket_client \<times> unit result" where
  "socket_connect P post c =
     (case connect_rest_client P c of
        (c1, Inl e) \<Rightarrow> (c1, Inl e)
      | (c1, Inr _) \<Rightarrow>
          (case connect_stream_client P c1 of
             (c2, Inl e) \<Rightarrow> (c2, Inl e)
           | (c2, Inr _) \<Rightarrow> (c2, post)))"

definition base_post_connection :: "unit result" where
  "base_post_connection = Inr ()"

text \<open>An operation on both sockets, the one for requests first; an error of the first leaves the second alone.\<close>

definition on_both ::
  "('s \<Rightarrow> 's \<times> unit result) \<Rightarrow> 's \<Rightarrow> 's \<Rightarrow> 's socket_client \<Rightarrow> 's socket_client \<times> unit result" where
  "on_both f rest stream c =
     (case f rest of
        (rest', Inl e) \<Rightarrow> (c\<lparr>sk_rest := Some rest'\<rparr>, Inl e)
      | (rest', Inr _) \<Rightarrow>
          (case f stream of
             (stream', r) \<Rightarrow> (c\<lparr>sk_rest := Some rest', sk_stream := Some stream'\<rparr>, r)))"

definition socket_reconnect :: "'s sockets \<Rightarrow> 's socket_client \<Rightarrow> 's socket_client \<times> unit result" where
  "socket_reconnect P c =
     (case (sk_rest c, sk_stream c) of
        (Some rest, Some stream) \<Rightarrow>
          if \<not> so_active P rest \<and> \<not> so_active P stream then (c, Inr ())
          else on_both (so_reconnect P) rest stream c
      | _ \<Rightarrow> (c, Inr ()))"

definition socket_disconnect :: "'s sockets \<Rightarrow> 's socket_client \<Rightarrow> 's socket_client \<times> unit result" where
  "socket_disconnect P c =
     (case (sk_rest c, sk_stream c) of
        (Some rest, Some stream) \<Rightarrow>
          (case on_both (so_close P) rest stream c of
             (c1, Inl e) \<Rightarrow> (c1, Inl e)
           | (c1, Inr _) \<Rightarrow> (c1\<lparr>sk_running := False\<rparr>, Inr ()))
      | _ \<Rightarrow> (c, Inr ()))"

text \<open>The questions: a socket that is missing counts as not active, and as closed.\<close>

definition ask_or :: "bool \<Rightarrow> ('s \<Rightarrow> bool) \<Rightarrow> 's option \<Rightarrow> bool" where
  "ask_or dflt f s = (case s of None \<Rightarrow> dflt | Some x \<Rightarrow> f x)"

definition socket_is_active :: "'s sockets \<Rightarrow> 's socket_client \<Rightarrow> bool" where
  "socket_is_active P c \<longleftrightarrow> ask_or False (so_active P) (sk_rest c) \<or> ask_or False (so_active P) (sk_stream c)"

definition socket_is_reconnecting :: "'s sockets \<Rightarrow> 's socket_client \<Rightarrow> bool" where
  "socket_is_reconnecting P c \<longleftrightarrow>
     ask_or False (so_reconnecting P) (sk_rest c) \<or> ask_or False (so_reconnecting P) (sk_stream c)"

definition socket_is_disconnecting :: "'s sockets \<Rightarrow> 's socket_client \<Rightarrow> bool" where
  "socket_is_disconnecting P c \<longleftrightarrow>
     ask_or False (so_disconnecting P) (sk_rest c) \<or> ask_or False (so_disconnecting P) (sk_stream c)"

definition socket_is_closed :: "'s sockets \<Rightarrow> 's socket_client \<Rightarrow> bool" where
  "socket_is_closed P c \<longleftrightarrow> ask_or True (so_closed P) (sk_rest c) \<and> ask_or True (so_closed P) (sk_stream c)"

text \<open>
  A message is a text or bytes; only a text has an encoding to take. Texts are their bytes in this development.
\<close>

datatype message = Text string | Bytes string

fun encoded :: "message \<Rightarrow> string result" where
  "encoded (Text s) = Inr s"
| "encoded (Bytes s) = Inl AttributeError"

definition socket_send :: "'s sockets \<Rightarrow> 's socket_client \<Rightarrow> message \<Rightarrow> 's socket_client \<times> unit result" where
  "socket_send P c m =
     (case (sk_rest c, sk_stream c) of
        (None, _) \<Rightarrow> (c, Inl RuntimeError)
      | (Some _, None) \<Rightarrow> (c, Inl RuntimeError)
      | (Some rest, Some _) \<Rightarrow>
          (case encoded m of
             Inl e \<Rightarrow> (c, Inl e)
           | Inr s \<Rightarrow> (case so_send P rest s of (rest', r) \<Rightarrow> (c\<lparr>sk_rest := Some rest'\<rparr>, r))))"

section \<open>The subclasses\<close>

text \<open>
  The attributes an instance has: those the constructors assign and the methods of the classes. Reading another
  one raises.
\<close>

definition base_attributes :: "string set" where
  "base_attributes =
     {''host'', ''rest_port'', ''stream_port'', ''crlf'', ''encoding'', ''rest_handler'', ''stream_handler'',
      ''rest_client'', ''stream_client'', ''log'', ''unique_id'', ''is_stream_running'', ''debug'',
      ''_connect_rest_client'', ''_connect_stream_client'', ''connect'', ''reconnect'', ''disconnect'',
      ''is_active'', ''is_reconnecting'', ''is_disconnecting'', ''is_closed'', ''send'', ''post_connection'',
      ''post_reconnection'', ''post_disconnection''}"

definition order_stream_attributes :: "string set" where
  "order_stream_attributes = base_attributes \<union> {''order_filter'', ''_post_connection''}"

definition market_stream_attributes :: "string set" where
  "market_stream_attributes = base_attributes \<union> {''send_subscription_message'', ''_post_connection''}"

definition read_attribute :: "string set \<Rightarrow> string \<Rightarrow> unit result" where
  "read_attribute attrs a = (if a \<in> attrs then Inr () else Inl AttributeError)"

text \<open>
  What \<^verbatim>\<open>post_connection\<close> of the subclasses does: the loop is read before the coroutine is made, then the task is
  created. \<open>Inr\<close> says that it was.
\<close>

definition stream_post_connection :: "string set \<Rightarrow> unit result" where
  "stream_post_connection attrs = read_attribute attrs ''_loop''"

definition order_connect :: "'s sockets \<Rightarrow> 's socket_client \<Rightarrow> 's socket_client \<times> unit result" where
  "order_connect P = socket_connect P (stream_post_connection order_stream_attributes)"

text \<open>
  The tries of \<^verbatim>\<open>_post_connection\<close>. \<open>auth\<close> is the message that \<^verbatim>\<open>auth_message\<close> would give, and the rest of what
  is sent follows it. The handler of the exception reads \<^verbatim>\<open>_log\<close>; a failed last try ends without an error.
\<close>

fun send_all :: "'s sockets \<Rightarrow> 's socket_client \<Rightarrow> message list \<Rightarrow> 's socket_client \<times> unit result" where
  "send_all P c [] = (c, Inr ())"
| "send_all P c (m # ms) =
     (case socket_send P c m of
        (c1, Inl e) \<Rightarrow> (c1, Inl e)
      | (c1, Inr _) \<Rightarrow> send_all P c1 ms)"

fun authenticate ::
  "'s sockets \<Rightarrow> string set \<Rightarrow> string \<Rightarrow> string list \<Rightarrow> nat \<Rightarrow> 's socket_client \<Rightarrow> 's socket_client \<times> unit result"
where
  "authenticate P attrs auth then_send 0 c = (c, Inr ())"
| "authenticate P attrs auth then_send (Suc retries) c =
     (case (case read_attribute attrs ''auth_message'' of
              Inl e \<Rightarrow> (c, Inl e)
            | Inr _ \<Rightarrow> send_all P c (map Bytes (auth # then_send))) of
        (c1, Inr _) \<Rightarrow> (c1, Inr ())
      | (c1, Inl _) \<Rightarrow>
          (case read_attribute attrs ''_log'' of
             Inl e \<Rightarrow> (c1, Inl e)
           | Inr _ \<Rightarrow> authenticate P attrs auth then_send retries c1))"

record order_filter =
  of_overall :: "string option"
  of_refs :: "string option"
  of_partition :: bool

definition optional_text :: "string option \<Rightarrow> json" where
  "optional_text s = (case s of None \<Rightarrow> JNull | Some t \<Rightarrow> JStr t)"

definition order_subscription :: "nat \<Rightarrow> order_filter \<Rightarrow> json" where
  "order_subscription uid f =
     JObj [(''op'', JStr ''orderSubscription''), (''id'', JInt (int uid)),
           (''orderFilter'', JObj [(''includeOverallPosition'', optional_text (of_overall f)),
                                   (''customerStrategyRefs'', optional_text (of_refs f)),
                                   (''partitionMatchedByStrategyRef'', JBool (of_partition f))]),
           (''initialClk'', JNull), (''clk'', JNull)]"

definition order_post_connection ::
  "'s sockets \<Rightarrow> (json \<Rightarrow> string) \<Rightarrow> string \<Rightarrow> order_filter \<Rightarrow> 's socket_client \<Rightarrow> 's socket_client \<times> unit result" where
  "order_post_connection P encode auth f c =
     authenticate P order_stream_attributes auth [encode (order_subscription (sk_id c) f)] 5 c"

definition market_post_connection ::
  "'s sockets \<Rightarrow> string \<Rightarrow> 's socket_client \<Rightarrow> 's socket_client \<times> unit result" where
  "market_post_connection P auth c = authenticate P market_stream_attributes auth [] 5 c"

text \<open>
  Making the market client: the names of the arguments its constructor hands to the constructor of the base
  class, which takes two handlers that have no default. A name that class does not take raises.
\<close>

definition base_required :: "string set" where
  "base_required = {''rest_message_handler'', ''stream_message_handler''}"

definition base_accepted :: "string set" where
  "base_accepted = base_required \<union> {''host'', ''rest_port'', ''stream_port'', ''crlf'', ''encoding''}"

definition base_call :: "string set \<Rightarrow> unit result" where
  "base_call names = (if names \<subseteq> base_accepted \<and> base_required \<subseteq> names then Inr () else Inl TypeError)"

definition market_stream_init :: "string set \<Rightarrow> unit result" where
  "market_stream_init kwargs = base_call (insert ''message_handler'' kwargs)"

text \<open>The subscription to markets; the nine filters are listed in the order of the parameters.\<close>

record market_request =
  mr_filters :: "json list"
  mr_initial_clk :: json
  mr_clk :: json
  mr_conflate :: json
  mr_heartbeat :: json
  mr_segmentation :: bool
  mr_book :: bool
  mr_trade :: bool
  mr_definitions :: bool
  mr_ticker :: bool
  mr_bsp :: bool
  mr_projected :: bool

definition market_filter_names :: "string list" where
  "market_filter_names =
     [''marketIds'', ''bettingTypes'', ''eventTypeIds'', ''eventIds'', ''turnInPlayEnabled'', ''marketTypes'',
      ''venues'', ''countryCodes'', ''raceTypes'']"

definition market_fields :: "market_request \<Rightarrow> string list" where
  "market_fields r =
     (if mr_book r then [''EX_ALL_OFFERS''] else []) @
     (if mr_trade r then [''EX_TRADED''] else []) @
     (if mr_ticker r then [''EX_TRADED_VOL'', ''EX_LTP''] else []) @
     (if mr_definitions r then [''EX_MARKET_DEF''] else []) @
     (if mr_bsp r then [''SP_TRADED''] else []) @
     (if mr_projected r then [''SP_PROJECTED''] else [])"

definition market_message :: "nat \<Rightarrow> market_request \<Rightarrow> json result" where
  "market_message uid r =
     (if \<not> list_ex jtruthy (mr_filters r) then Inl AssertionError
      else if \<not> (mr_book r \<or> mr_trade r) then Inl AssertionError
      else Inr (JObj [(''op'', JStr ''marketSubscription''), (''id'', JInt (int uid)),
                      (''marketFilter'', JObj (zip market_filter_names (mr_filters r))),
                      (''marketDataFilter'', JObj [(''fields'', JArr (map JStr (market_fields r)))]),
                      (''initialClk'', mr_initial_clk r), (''clk'', mr_clk r), (''conflateMs'', mr_conflate r),
                      (''heartbeatMs'', mr_heartbeat r), (''segmentationEnabled'', JBool (mr_segmentation r))]))"

definition send_subscription_message ::
  "'s sockets \<Rightarrow> (json \<Rightarrow> string) \<Rightarrow> market_request \<Rightarrow> 's socket_client \<Rightarrow> 's socket_client \<times> unit result" where
  "send_subscription_message P encode r c =
     (case market_message (sk_id c) r of
        Inl e \<Rightarrow> (c, Inl e)
      | Inr m \<Rightarrow> socket_send P c (Bytes (encode m)))"

section \<open>What the client promises\<close>

lemmas connect_client_defs = connect_rest_client_def connect_stream_client_def rest_config_def stream_config_def

lemma usable_socket_ask: "usable_socket P s = ask_or False (so_active P) s"
  by (cases s) (simp_all add: ask_or_def)

text \<open>A socket that is usable is kept; a connection that gives usable sockets leaves both so.\<close>

lemma connect_keeps_usable:
  assumes "usable_socket P (sk_rest c)" and "usable_socket P (sk_stream c)"
  shows "socket_connect P post c = (c, post)"
  using assms by (simp add: socket_connect_def connect_client_defs)

lemma connect_rest_usable:
  assumes "\<And>cfg. \<exists>s. so_connect P cfg = Inr s \<and> so_active P s"
  obtains c1 where "connect_rest_client P c = (c1, Inr ())" and "usable_socket P (sk_rest c1)"
    and "sk_stream c1 = sk_stream c"
proof (cases "usable_socket P (sk_rest c)")
  case True
  show ?thesis by (rule that[of c]) (use True in \<open>simp_all add: connect_rest_client_def\<close>)
next
  case False
  obtain s where s: "so_connect P (rest_config c) = Inr s" "so_active P s" using assms by blast
  show ?thesis by (rule that[of "c\<lparr>sk_rest := Some s\<rparr>"]) (use False s in \<open>simp_all add: connect_rest_client_def\<close>)
qed

lemma connect_stream_usable:
  assumes "\<And>cfg. \<exists>s. so_connect P cfg = Inr s \<and> so_active P s"
  obtains c1 where "connect_stream_client P c = (c1, Inr ())" and "usable_socket P (sk_stream c1)"
    and "sk_rest c1 = sk_rest c"
proof (cases "usable_socket P (sk_stream c)")
  case True
  show ?thesis by (rule that[of c]) (use True in \<open>simp_all add: connect_stream_client_def\<close>)
next
  case False
  obtain s where s: "so_connect P (stream_config c) = Inr s" "so_active P s" using assms by blast
  show ?thesis
    by (rule that[of "c\<lparr>sk_stream := Some s\<rparr>"]) (use False s in \<open>simp_all add: connect_stream_client_def\<close>)
qed

lemma connect_reaches_both:
  assumes "\<And>cfg. \<exists>s. so_connect P cfg = Inr s \<and> so_active P s"
  obtains c1 where "socket_connect P post c = (c1, post)" and "usable_socket P (sk_rest c1)"
    and "usable_socket P (sk_stream c1)"
proof -
  obtain c1 where c1: "connect_rest_client P c = (c1, Inr ())" "usable_socket P (sk_rest c1)"
    by (rule connect_rest_usable[OF assms])
  obtain c2 where c2: "connect_stream_client P c1 = (c2, Inr ())" "usable_socket P (sk_stream c2)"
    "sk_rest c2 = sk_rest c1"
    by (rule connect_stream_usable[OF assms])
  show ?thesis by (rule that[of c2]) (use c1 c2 in \<open>simp_all add: socket_connect_def\<close>)
qed

text \<open>Connecting twice is connecting once.\<close>

lemma connect_idempotent:
  assumes "\<And>cfg. \<exists>s. so_connect P cfg = Inr s \<and> so_active P s"
  shows "socket_connect P post (fst (socket_connect P post c)) = socket_connect P post c"
proof -
  obtain c1 where c1: "socket_connect P post c = (c1, post)" "usable_socket P (sk_rest c1)"
    "usable_socket P (sk_stream c1)"
    by (rule connect_reaches_both[OF assms])
  show ?thesis by (simp add: c1(1) connect_keeps_usable[OF c1(2,3)])
qed

text \<open>
  The order client raises from \<^verbatim>\<open>connect\<close> after both sockets are connected, since it has no loop; its
  authentication raises at its first try, since it has neither the message nor the logger it names.
\<close>

lemma order_connect_raises:
  assumes "\<And>cfg. \<exists>s. so_connect P cfg = Inr s \<and> so_active P s"
  shows "\<exists>c1. order_connect P c = (c1, Inl AttributeError) \<and> socket_is_active P c1"
proof -
  have post: "stream_post_connection order_stream_attributes = Inl AttributeError"
    by (simp add: stream_post_connection_def read_attribute_def order_stream_attributes_def base_attributes_def)
  obtain c1 where c1: "order_connect P c = (c1, Inl AttributeError)" "usable_socket P (sk_rest c1)"
    unfolding order_connect_def post by (rule connect_reaches_both[OF assms])
  then show ?thesis by (auto simp: socket_is_active_def usable_socket_ask)
qed

lemma authenticate_raises:
  assumes "''auth_message'' \<notin> attrs" and "''_log'' \<notin> attrs" and "0 < retries"
  shows "authenticate P attrs auth more_messages retries c = (c, Inl AttributeError)"
  using assms by (cases retries) (simp_all add: read_attribute_def)

lemma stream_clients_never_authenticate:
  "order_post_connection P encode auth f c = (c, Inl AttributeError)"
  "market_post_connection P auth c = (c, Inl AttributeError)"
  unfolding order_post_connection_def market_post_connection_def
  by (rule authenticate_raises;
      simp add: order_stream_attributes_def market_stream_attributes_def base_attributes_def)+

text \<open>The market client cannot be made, and its subscription, which is sent as bytes, never leaves.\<close>

lemma market_client_never_made: "market_stream_init kwargs = Inl TypeError"
  by (simp add: market_stream_init_def base_call_def base_accepted_def base_required_def)

lemma market_subscription_never_sent:
  "\<exists>e. send_subscription_message P encode r c = (c, Inl e) \<and> e \<in> {AssertionError, RuntimeError, AttributeError}"
  by (simp add: send_subscription_message_def market_message_def socket_send_def split: option.splits)

text \<open>
  Closing: sockets that close when they are asked to leave the client closed. A client with one socket only,
  which is what an error of the second connection leaves, is neither closed nor closable.
\<close>

lemma disconnect_closes:
  assumes "sk_rest c \<noteq> None" and "sk_stream c \<noteq> None"
    and "\<And>s. \<exists>s'. so_close P s = (s', Inr ()) \<and> so_closed P s'"
  obtains c1 where "socket_disconnect P c = (c1, Inr ())" and "socket_is_closed P c1" and "\<not> sk_running c1"
proof -
  obtain a b where ab: "sk_rest c = Some a" "sk_stream c = Some b" using assms(1,2) by auto
  obtain a' where a: "so_close P a = (a', Inr ())" "so_closed P a'" using assms(3) by blast
  obtain b' where b: "so_close P b = (b', Inr ())" "so_closed P b'" using assms(3) by blast
  show ?thesis
    by (rule that[of "c\<lparr>sk_rest := Some a', sk_stream := Some b', sk_running := False\<rparr>"])
       (use ab a b in \<open>simp_all add: socket_disconnect_def on_both_def socket_is_closed_def ask_or_def\<close>)
qed

lemma stream_config_rest [simp]: "stream_config (c\<lparr>sk_rest := s\<rparr>) = stream_config c"
  by (simp add: stream_config_def)

lemma failed_stream_leaves_rest_open:
  assumes "sk_rest c = None" and "sk_stream c = None" and "so_connect P (rest_config c) = Inr s"
    and "so_active P s" and "\<not> so_closed P s" and "so_connect P (stream_config c) = Inl e"
  shows "\<exists>c1. socket_connect P base_post_connection c = (c1, Inl e)
              \<and> socket_disconnect P c1 = (c1, Inr ()) \<and> socket_is_active P c1 \<and> \<not> socket_is_closed P c1"
proof (intro exI conjI)
  let ?c1 = "c\<lparr>sk_rest := Some s\<rparr>"
  show "socket_connect P base_post_connection c = (?c1, Inl e)"
    using assms by (simp add: socket_connect_def connect_rest_client_def connect_stream_client_def)
  show "socket_disconnect P ?c1 = (?c1, Inr ())" using assms by (simp add: socket_disconnect_def)
  show "socket_is_active P ?c1" using assms by (simp add: socket_is_active_def ask_or_def)
  show "\<not> socket_is_closed P ?c1" using assms by (simp add: socket_is_closed_def ask_or_def)
qed

text \<open>
  With sockets that are in one mode at a time, a client that is active is not closed. A client with one socket in
  each of two modes answers yes to both questions.
\<close>

lemma active_not_closed:
  assumes "\<And>s. so_active P s \<Longrightarrow> \<not> so_closed P s" and "socket_is_active P c"
  shows "\<not> socket_is_closed P c"
  using assms by (auto simp: socket_is_active_def socket_is_closed_def ask_or_def split: option.splits)

lemma reconnect_needs_one_active:
  assumes "socket_reconnect P c \<noteq> (c, Inr ())"
  shows "sk_rest c \<noteq> None \<and> sk_stream c \<noteq> None \<and> socket_is_active P c"
  using assms
  by (auto simp: socket_reconnect_def socket_is_active_def ask_or_def split: option.splits if_splits)

text \<open>A text goes out over the socket for requests, as it is; the other socket is not touched.\<close>

lemma text_sent_over_rest:
  assumes "sk_rest c = Some a" and "sk_stream c = Some b" and "so_send P a t = (a', r)"
  shows "socket_send P c (Text t) = (c\<lparr>sk_rest := Some a'\<rparr>, r)"
  using assms by (simp add: socket_send_def)

end
