(* ===== verification/Account_Summary.thy ===== *)
theory Account_Summary
  imports Client_Orders Terminal_Bridge
begin

text \<open>
  The remaining operations of the client's account and order parts (\<^verbatim>\<open>client/account.py\<close>, \<^verbatim>\<open>client/order.py\<close>
  and \<^verbatim>\<open>get_price\<close> of \<^verbatim>\<open>client/market_data.py\<close>): the subscription to account summaries, the account query, a
  list of orders, a price. The wrapper of the terminal is a parameter: which of the methods the code looks for it
  has, and what calling them ends in.
\<close>

section \<open>The subscription to account summaries\<close>

text \<open>
  The handle is \<^verbatim>\<open>req_account_summary\<close> where the wrapper has it, else \<^verbatim>\<open>account_info\<close>, else a function that does
  nothing. The request id is bound to it only if the text of the method shows its name; that flag stands with
  the method, and likewise for the cancellation.
\<close>

datatype summary_handle = RequestSummary "int option" | QueryInfo | NoHandle

datatype summary_cancel = CancelMethod "int option" | NoCancel

datatype summary_call = CallSummary summary_handle | CallCancelSummary int

record wrapper_methods =
  wm_req :: "bool option"
  wm_info :: bool
  wm_cancel :: "bool option"

record summary_state =
  su_seq :: int
  su_subs :: "(summary_handle, summary_cancel, unit) subscriptions"
  su_calls :: "summary_call list"

definition summary_name :: rname where
  "summary_name = NStr ''accountSummary''"

definition bound_id :: "int \<Rightarrow> bool \<Rightarrow> int option" where
  "bound_id rid shown = (if shown then Some rid else None)"

definition summary_handle_of :: "wrapper_methods \<Rightarrow> int \<Rightarrow> summary_handle" where
  "summary_handle_of w rid =
     (case wm_req w of
        Some shown \<Rightarrow> RequestSummary (bound_id rid shown)
      | None \<Rightarrow> if wm_info w then QueryInfo else NoHandle)"

definition summary_cancel_of :: "wrapper_methods \<Rightarrow> int \<Rightarrow> summary_cancel" where
  "summary_cancel_of w rid =
     (case wm_cancel w of Some shown \<Rightarrow> CancelMethod (bound_id rid shown) | None \<Rightarrow> NoCancel)"

text \<open>Calling a handle: the answer is dropped, an exception is not.\<close>

definition call_summary ::
    "(summary_call \<Rightarrow> pyobj result) \<Rightarrow> summary_handle \<Rightarrow> summary_state \<Rightarrow> summary_state \<times> unit result" where
  "call_summary call h s =
     (if h = NoHandle then (s, Inr ())
      else (s\<lparr>su_calls := su_calls s @ [CallSummary h]\<rparr>, bindR (call (CallSummary h)) (\<lambda>_. Inr ())))"

definition subscribe_account_summary ::
    "wrapper_methods \<Rightarrow> (summary_call \<Rightarrow> pyobj result) \<Rightarrow> summary_state \<Rightarrow> summary_state \<times> unit result" where
  "subscribe_account_summary w call s =
     (case subscriptions_get (su_subs s) None (Some summary_name) of
        Inl e \<Rightarrow> (s, Inl e)
      | Inr (Some sub) \<Rightarrow> call_summary call (sub_handle sub) s
      | Inr None \<Rightarrow>
          (let rid = su_seq s; s1 = s\<lparr>su_seq := rid + 1\<rparr>
           in case subscriptions_add rid summary_name (summary_handle_of w rid) (summary_cancel_of w rid) (su_subs s1) of
                Inl e \<Rightarrow> (s1, Inl e)
              | Inr (subs, None) \<Rightarrow> (s1\<lparr>su_subs := subs\<rparr>, Inr ())
              | Inr (subs, Some sub) \<Rightarrow> call_summary call (sub_handle sub) (s1\<lparr>su_subs := subs\<rparr>)))"

text \<open>The registry forgets the subscription before the wrapper is asked; its method is looked up again.\<close>

definition unsubscribe_account_summary ::
    "wrapper_methods \<Rightarrow> (summary_call \<Rightarrow> pyobj result) \<Rightarrow> summary_state \<Rightarrow> summary_state \<times> unit result" where
  "unsubscribe_account_summary w call s =
     (case subscriptions_get (su_subs s) None (Some summary_name) of
        Inl e \<Rightarrow> (s, Inl e)
      | Inr None \<Rightarrow> (s, Inr ())
      | Inr (Some sub) \<Rightarrow>
          (let s1 = s\<lparr>su_subs := subscriptions_remove (Some (sub_req_id sub)) None (su_subs s)\<rparr>
           in if wm_cancel w = None then (s1, Inr ())
              else (s1\<lparr>su_calls := su_calls s1 @ [CallCancelSummary (sub_req_id sub)]\<rparr>,
                    bindR (call (CallCancelSummary (sub_req_id sub))) (\<lambda>_. Inr ()))))"

definition summary_wf :: "summary_state \<Rightarrow> bool" where
  "summary_wf s \<longleftrightarrow> subscriptions_wf (su_subs s) \<and> 0 < su_seq s \<and>
     (\<forall>r \<in> set (dict_keys (req_id_to_name (su_subs s))). r < su_seq s)"

section \<open>The account query\<close>

definition accounts :: "client \<Rightarrow> string set" where
  "accounts c = account_ids c"

text \<open>
  \<^verbatim>\<open>get_account_info\<close>: \<open>None\<close> whenever something raises; a dictionary becomes an object with its entries as
  attributes, for which its keys must be texts.
\<close>

fun namespace :: "pyobj \<Rightarrow> pyobj result" where
  "namespace (PDict kvs) = bindR (traverse (\<lambda>(k, v). case k of PStr n \<Rightarrow> Inr (n, v) | _ \<Rightarrow> Inl TypeError) kvs)
                             (\<lambda>fs. Inr (PObject fs))"
| "namespace x = Inr x"

definition get_account_info :: "(pyobj \<Rightarrow> pyobj result) \<Rightarrow> pyobj result \<Rightarrow> pyobj" where
  "get_account_info obtain_copy answer =
     (case bindR answer (\<lambda>res. if res = PNone then Inr PNone else bindR (obtain_copy res) namespace) of
        Inl _ \<Rightarrow> PNone
      | Inr x \<Rightarrow> x)"

section \<open>A list of orders, and cancelling all\<close>

text \<open>
  \<^verbatim>\<open>place_order_list\<close> hands each order itself to the wrapper. The values are the orders as the call leaves them,
  those sent, and how it ends.
\<close>

definition tagged_in_list :: "mt5_order \<Rightarrow> mt5_order" where
  "tagged_in_list order = order\<lparr>orderRef := orderRef order @ '':'' @ int_str (order_id order)\<rparr>"

fun place_order_list ::
    "(mt5_order \<Rightarrow> unit result) \<Rightarrow> mt5_order list \<Rightarrow> mt5_order list \<times> mt5_order list \<times> unit result" where
  "place_order_list send [] = ([], [], Inr ())"
| "place_order_list send (order # orders) =
     (case send (tagged_in_list order) of
        Inl e \<Rightarrow> (tagged_in_list order # orders, [tagged_in_list order], Inl e)
      | Inr _ \<Rightarrow>
          (case place_order_list send orders of
             (left, sent, r) \<Rightarrow> (tagged_in_list order # left, tagged_in_list order # sent, r)))"

text \<open>\<^verbatim>\<open>cancel_all_orders\<close> only logs; the requests it sends are none.\<close>

definition cancel_all_orders :: "mt5_request list" where
  "cancel_all_orders = []"

section \<open>A price\<close>

text \<open>
  \<^verbatim>\<open>get_price\<close>: the methods are looked up while the arguments of the registration are built, after the request
  id is taken. \<open>late\<close> is that the answer does not come in time.
\<close>

definition get_price ::
    "bool \<Rightarrow> bool \<Rightarrow> (int \<Rightarrow> unit result) \<Rightarrow> row list option \<Rightarrow> string \<Rightarrow> string \<Rightarrow> client
       \<Rightarrow> client \<times> row list option result" where
  "get_price has_req has_cancel call answer symbol tick_type c =
     (case next_req_id c of (rid, c1) \<Rightarrow>
        if \<not> (has_req \<and> has_cancel) then (c1, Inl AttributeError)
        else
          (let fut = next_future c1;
               c2 = c1\<lparr>next_future := fut + 1, futures := (futures c1)(fut := FPending)\<rparr>
           in case requests_add fut rid (NStr (symbol @ ''-'' @ tick_type)) () () (c_requests c2) of
                Inl e \<Rightarrow> (c2, Inl e)
              | Inr (reqs, None) \<Rightarrow> (c2\<lparr>c_requests := reqs\<rparr>, Inl AttributeError)
              | Inr (reqs, Some q) \<Rightarrow>
                  (let c3 = c2\<lparr>c_requests := reqs\<rparr>
                   in case call rid of
                        Inl e \<Rightarrow> (c3, Inl e)
                      | Inr _ \<Rightarrow>
                          (let c4 = (case answer of None \<Rightarrow> c3 | Some rows \<Rightarrow> set_future (rq_future q) (FDone rows) c3)
                           in case await_request q c4 of
                                Inl e \<Rightarrow> (c4, Inl e)
                              | Inr (c5, r) \<Rightarrow> (c5, Inr r)))))"

section \<open>What they promise\<close>

lemma summary_handle_nothing [simp]: "summary_handle_of w rid = NoHandle \<longleftrightarrow> wm_req w = None \<and> \<not> wm_info w"
  by (simp add: summary_handle_of_def split: option.splits)

text \<open>What a first subscription adds, however its call ends.\<close>

lemma subscribe_summary_new:
  assumes wf: "summary_wf s" and none: "subscriptions_get (su_subs s) None (Some summary_name) = Inr None"
  obtains subs e where
    "subscriptions_add (su_seq s) summary_name (summary_handle_of w (su_seq s)) (summary_cancel_of w (su_seq s))
       (su_subs s) = Inr (subs, Some e)"
    and "e = \<lparr>sub_req_id = su_seq s, sub_name = summary_name, sub_handle = summary_handle_of w (su_seq s),
              sub_cancel = summary_cancel_of w (su_seq s), sub_last = None\<rparr>"
    and "subscribe_account_summary w call s =
           call_summary call (summary_handle_of w (su_seq s)) (s\<lparr>su_seq := su_seq s + 1, su_subs := subs\<rparr>)"
proof -
  have swf: "subscriptions_wf (su_subs s)" and pos: "su_seq s \<noteq> 0" using wf by (auto simp: summary_wf_def)
  have name: "name_truthy summary_name" by (simp add: summary_name_def)
  have "present_name (su_subs s) None (Some summary_name) = None"
    using none subscriptions_get_total [OF swf, of None "Some summary_name"] by auto
  then have "summary_name \<notin> set (dict_values (req_id_to_name (su_subs s)))"
    using present_name_name_None [OF subscriptions_base [OF swf], of summary_name] name by blast
  moreover have "su_seq s \<notin> set (dict_keys (req_id_to_name (su_subs s)))"
    using wf by (force simp: summary_wf_def)
  ultimately have new: "may_add (su_seq s) summary_name (su_subs s)" by (simp add: may_add_def)
  obtain subs e where add: "subscriptions_add (su_seq s) summary_name (summary_handle_of w (su_seq s))
        (summary_cancel_of w (su_seq s)) (su_subs s) = Inr (subs, Some e)"
    and e: "e = \<lparr>sub_req_id = su_seq s, sub_name = summary_name, sub_handle = summary_handle_of w (su_seq s),
              sub_cancel = summary_cancel_of w (su_seq s), sub_last = None\<rparr>"
    using subscriptions_add_new [OF swf new pos name] by blast
  have "subscribe_account_summary w call s =
      call_summary call (summary_handle_of w (su_seq s)) (s\<lparr>su_seq := su_seq s + 1, su_subs := subs\<rparr>)"
    using none add e by (simp add: subscribe_account_summary_def Let_def)
  with add e show ?thesis by (rule that)
qed

lemma call_summary_subs [simp]: "su_subs (fst (call_summary call h s)) = su_subs s"
  by (simp add: call_summary_def)

lemma call_summary_seq [simp]: "su_seq (fst (call_summary call h s)) = su_seq s"
  by (simp add: call_summary_def)

lemma subscribe_summary_state:
  assumes wf: "summary_wf s" and none: "subscriptions_get (su_subs s) None (Some summary_name) = Inr None"
  shows "summary_wf (fst (subscribe_account_summary w call s)) \<and>
    subscriptions_get (su_subs (fst (subscribe_account_summary w call s))) None (Some summary_name) =
      Inr (Some \<lparr>sub_req_id = su_seq s, sub_name = summary_name, sub_handle = summary_handle_of w (su_seq s),
                 sub_cancel = summary_cancel_of w (su_seq s), sub_last = None\<rparr>) \<and>
    subscriptions_remove (Some (su_seq s)) None (su_subs (fst (subscribe_account_summary w call s))) = su_subs s"
proof -
  obtain subs e where add: "subscriptions_add (su_seq s) summary_name (summary_handle_of w (su_seq s))
        (summary_cancel_of w (su_seq s)) (su_subs s) = Inr (subs, Some e)"
    and e: "e = \<lparr>sub_req_id = su_seq s, sub_name = summary_name, sub_handle = summary_handle_of w (su_seq s),
              sub_cancel = summary_cancel_of w (su_seq s), sub_last = None\<rparr>"
    and step: "subscribe_account_summary w call s =
           call_summary call (summary_handle_of w (su_seq s)) (s\<lparr>su_seq := su_seq s + 1, su_subs := subs\<rparr>)"
    by (rule subscribe_summary_new [OF assms])
  have swf: "subscriptions_wf (su_subs s)" and pos: "su_seq s \<noteq> 0" using wf by (auto simp: summary_wf_def)
  have name: "name_truthy summary_name" by (simp add: summary_name_def)
  have subs: "su_subs (fst (subscribe_account_summary w call s)) = subs"
    and seq: "su_seq (fst (subscribe_account_summary w call s)) = su_seq s + 1"
    by (simp_all add: step)
  have ins: "subscriptions_wf subs" "req_id_to_name subs = req_id_to_name (su_subs s) @ [(su_seq s, summary_name)]"
    using subs.ins_present [OF swf pos name add] by auto
  obtain x where x: "subscriptions_get subs None (Some summary_name) = Inr (Some x)" "sub_req_id x = su_seq s"
    using subs.get_after_ins(2) [OF swf pos name add] by auto
  have "x = e"
    using subscriptions_get_name_as_id [OF ins(1) x(1), of None] subscriptions_add_get [OF add] x(2) by simp
  moreover have "summary_wf (fst (subscribe_account_summary w call s))"
    using wf ins subs seq by (force simp: summary_wf_def)
  ultimately show ?thesis using x(1) e subscriptions_remove_add [OF swf pos add, of None] subs by simp
qed

text \<open>
  One subscription whatever the number of calls, each of which calls the handle again; unsubscribing restores the
  registry, and with wrappers that cannot cancel, which are both of them, it asks the terminal nothing.
\<close>

theorem summary_subscription_life:
  assumes "summary_wf s" and "subscriptions_get (su_subs s) None (Some summary_name) = Inr None"
    and "subscribe_account_summary w call s = (s1, r)"
  shows "summary_wf s1 \<and>
    subscribe_account_summary w' call' s1 = call_summary call' (summary_handle_of w (su_seq s)) s1 \<and>
    su_subs (fst (unsubscribe_account_summary w' call' s1)) = su_subs s \<and>
    su_calls (fst (unsubscribe_account_summary w' call' s1)) =
      su_calls s1 @ (if wm_cancel w' = None then [] else [CallCancelSummary (su_seq s)])"
  using subscribe_summary_state [OF assms(1,2), of w call] assms(3)
  by (simp add: subscribe_account_summary_def unsubscribe_account_summary_def Let_def)

text \<open>The answer of the terminal changes nothing: the subscription brings no summary.\<close>

lemma summary_answer_dropped:
  "subscribe_account_summary w (\<lambda>_. Inr a) s = subscribe_account_summary w (\<lambda>_. Inr b) s"
  by (simp add: subscribe_account_summary_def call_summary_def Let_def split: sum.splits option.splits prod.splits)

text \<open>The account query gives nothing when the terminal fails, and an answer that is a dictionary by its keys.\<close>

lemma namespace_fields:
  "traverse (\<lambda>(k, v). case k of PStr n \<Rightarrow> Inr (n, v) | _ \<Rightarrow> Inl TypeError) (map (\<lambda>(n, v). (PStr n, v)) fs) = Inr fs"
  by (induction fs) auto

lemma get_account_info_dict:
  assumes "obtain_copy (PDict (map (\<lambda>(n, v). (PStr n, v)) fs)) = Inr (PDict (map (\<lambda>(n, v). (PStr n, v)) fs))"
  shows "get_account_info obtain_copy (Inr (PDict (map (\<lambda>(n, v). (PStr n, v)) fs))) = PObject fs"
  using assms by (simp add: get_account_info_def namespace_fields)

lemma get_account_info_failed: "get_account_info obtain_copy (Inl e) = PNone"
  by (simp add: get_account_info_def)

text \<open>A list of orders is sent in order up to the first that raises; the orders after it are left as they were.\<close>

lemma place_order_list_sent:
  assumes "place_order_list send orders = (left, sent, r)"
  shows "\<exists>n \<le> length orders. sent = map tagged_in_list (take n orders)
           \<and> left = map tagged_in_list (take n orders) @ drop n orders
           \<and> (r = Inr () \<longrightarrow> n = length orders) \<and> (\<forall>x \<in> set (butlast sent). send x = Inr ())"
  using assms
proof (induction orders arbitrary: left sent r)
  case (Cons x xs)
  show ?case
  proof (cases "send (tagged_in_list x)")
    case (Inl e)
    then show ?thesis using Cons.prems by (intro exI [of _ 1]) auto
  next
    case (Inr u)
    obtain left' sent' where rest: "place_order_list send xs = (left', sent', r)"
      and eqs: "left = tagged_in_list x # left'" "sent = tagged_in_list x # sent'"
      using Cons.prems Inr by (auto split: prod.splits)
    obtain n where "n \<le> length xs" "sent' = map tagged_in_list (take n xs)"
      "left' = map tagged_in_list (take n xs) @ drop n xs" "r = Inr () \<longrightarrow> n = length xs"
      "\<forall>y \<in> set (butlast sent'). send y = Inr ()"
      using Cons.IH [OF rest] by blast
    then show ?thesis using eqs Inr by (intro exI [of _ "Suc n"]) auto
  qed
qed auto

text \<open>Without the methods, which no wrapper has, a price is never given, and a request id is used up.\<close>

lemma get_price_never:
  assumes "\<not> (has_req \<and> has_cancel)"
  shows "get_price has_req has_cancel call answer symbol tick_type c
           = (c\<lparr>request_id_seq := request_id_seq c + 1\<rparr>, Inl AttributeError)"
  using assms by (simp add: get_price_def next_req_id_def)

end
