(* ===== verification/Venue_Modes.thy ===== *)
theory Venue_Modes
  imports Bridge_Facts Instruments
begin

text \<open>
  The venue profile and the terminal together: \<^verbatim>\<open>venue_profile.py\<close> has its own constants for the modes in which a
  symbol is calculated, the terminal's are those of its wrapper (\<^verbatim>\<open>metatrader5/MetaTrader5.py\<close>). They agree for
  foreign exchange and contracts for difference and for nothing that is traded on an exchange.
\<close>

definition profile_modes :: "int list" where
  "profile_modes =
     [SYMBOL_CALC_MODE_FOREX, SYMBOL_CALC_MODE_FUTURES, SYMBOL_CALC_MODE_CFD, SYMBOL_CALC_MODE_CFDINDEX,
      SYMBOL_CALC_MODE_CFDLEVERAGE, SYMBOL_CALC_MODE_FOREX_NO_LEVERAGE, SYMBOL_CALC_MODE_EXCH_STOCKS,
      SYMBOL_CALC_MODE_EXCH_FUTURES, SYMBOL_CALC_MODE_EXCH_FUTURES_FORTS, SYMBOL_CALC_MODE_EXCH_BONDS,
      SYMBOL_CALC_MODE_EXCH_STOCKS_MOEX, SYMBOL_CALC_MODE_EXCH_BONDS_MOEX]"

definition exchange_mode_names :: "string list" where
  "exchange_mode_names =
     [''SYMBOL_CALC_MODE_EXCH_STOCKS'', ''SYMBOL_CALC_MODE_EXCH_FUTURES'', ''SYMBOL_CALC_MODE_EXCH_OPTIONS'',
      ''SYMBOL_CALC_MODE_EXCH_OPTIONS_MARGIN'', ''SYMBOL_CALC_MODE_EXCH_BONDS'',
      ''SYMBOL_CALC_MODE_EXCH_STOCKS_MOEX'', ''SYMBOL_CALC_MODE_EXCH_BONDS_MOEX'']"

lemmas venue_mode_defs = profile_modes_def exchange_mode_names_def calc_mode_defs exchange_mode_defs

lemma exchange_modes_apart:
  "list_all (\<lambda>n. case dict_get market_constants n of None \<Rightarrow> False | Some m \<Rightarrow> m \<notin> set profile_modes) exchange_mode_names"
  by code_simp

text \<open>
  C40: a profile whose modes are written with the constants of its module refuses every symbol that the terminal says
  is traded on an exchange: neither a capability nor an instrument is found for it.
\<close>

theorem exchange_symbols_refused:
  assumes "set (dict_keys (vp_capabilities vp)) \<subseteq> set profile_modes" and "name \<in> set exchange_mode_names"
    and "dict_get market_constants name = Some mode" and "dict_get attrs ''trade_calc_mode'' = Some (JInt mode)"
    and "mt5_symbol_to_instrument_id s = Inr iid"
  shows "check_capability vp mode op = Inl (unknown_mode vp mode) \<and>
         parse_instrument build acs (Some vp) s attrs = Inl (unknown_mode vp mode)"
proof -
  have "mode \<notin> set profile_modes"
    using exchange_modes_apart assms(2,3) by (auto simp: list_all_iff)
  then have "dict_get (vp_capabilities vp) mode = None"
    using assms(1) by (auto simp: map_of_eq_None_iff)
  then have get: "get_capability vp mode = Inl (unknown_mode vp mode)" by (simp add: get_capability_def)
  have "parse_instrument build acs (Some vp) s attrs = Inl (unknown_mode vp mode)"
    using assms(4,5) get by (simp add: parse_instrument_def capability_of_mode_def get_default_def)
  with get show ?thesis by (simp add: check_capability_def)
qed

definition exchange_profile :: venue_profile where
  "exchange_profile =
     \<lparr>vp_name = ''b3'',
      vp_capabilities =
        [(SYMBOL_CALC_MODE_EXCH_FUTURES,
          \<lparr>nautilus_instrument_type = CfdT, quote_ticks = TESTED, trade_ticks = TESTED, bars = TESTED, cap_notes = None\<rparr>)],
      vp_strict = False\<rparr>"

lemma exchange_symbols_refused_witness:
  "check_capability exchange_profile 33 TradeTicks = Inl (unknown_mode exchange_profile 33) \<and>
   parse_instrument (\<lambda>i. Inr (i :: unit instrument_args)) (\<lambda>_. Inr ()) (Some exchange_profile)
     (Some (mt5_symbol_of ''WINZ26'')) [(''trade_calc_mode'', JInt 33)] = Inl (unknown_mode exchange_profile 33)"
proof -
  let ?s = "Some (mt5_symbol_of ''WINZ26'')"
  have keys: "set (dict_keys (vp_capabilities exchange_profile)) \<subseteq> set profile_modes"
    by (simp add: exchange_profile_def profile_modes_def)
  have mode: "dict_get market_constants ''SYMBOL_CALC_MODE_EXCH_FUTURES'' = Some 33" by code_simp
  have name: "''SYMBOL_CALC_MODE_EXCH_FUTURES'' \<in> set exchange_mode_names" by (simp add: exchange_mode_names_def)
  have attrs: "dict_get [(''trade_calc_mode'', JInt 33)] ''trade_calc_mode'' = Some (JInt 33)" by simp
  have iid: "mt5_symbol_to_instrument_id ?s = Inr \<lparr>iid_symbol = ''WINZ26'', iid_venue = ''METATRADER_5''\<rparr>"
    by (simp add: mt5_symbol_to_instrument_id_def mt5_symbol_of_def
        mt5_symbol_to_instrument_id_simplified_symbology_def)
  show ?thesis by (rule exchange_symbols_refused [OF keys name mode attrs iid])
qed

end
