(* ===== verification/Homologation.thy ===== *)
theory Homologation
  imports Exec_Client
begin

text \<open>
  The harness of acceptance runs against a live terminal (\<^verbatim>\<open>homologation/\<close>): its report and exit code
  (\<^verbatim>\<open>report.py\<close>, \<^verbatim>\<open>run_homologation.py\<close>), its configuration (\<^verbatim>\<open>config.py\<close>), the probes of the bridge
  (\<^verbatim>\<open>support/bridge_probe.py\<close>), the check before a run, the probes of an order's events and the verdicts of the
  scenarios for cancelled limit orders and for streamed ticks. The connections to the bridge, the environment of
  the process and the node of the platform are parameters.
\<close>

section \<open>The report\<close>

datatype scenario_status = PASS | FAIL | SKIP

fun status_text :: "scenario_status \<Rightarrow> string" where
  "status_text PASS = ''PASS''"
| "status_text FAIL = ''FAIL''"
| "status_text SKIP = ''SKIP''"

record scenario_result =
  sr_case :: string
  sr_name :: string
  sr_status :: scenario_status
  sr_detail :: string
  sr_metadata :: "(string, json) dict"

record homolog_report =
  hr_started :: string
  hr_results :: "scenario_result list"

definition report_add :: "scenario_result \<Rightarrow> homolog_report \<Rightarrow> homolog_report" where
  "report_add r rep = rep\<lparr>hr_results := hr_results rep @ [r]\<rparr>"

definition all_passed :: "homolog_report \<Rightarrow> bool" where
  "all_passed rep \<longleftrightarrow> list_all (\<lambda>r. sr_status r = PASS \<or> sr_status r = SKIP) (hr_results rep)"

definition has_failures :: "homolog_report \<Rightarrow> bool" where
  "has_failures rep \<longleftrightarrow> list_ex (\<lambda>r. sr_status r = FAIL) (hr_results rep)"

definition count_status :: "scenario_status \<Rightarrow> homolog_report \<Rightarrow> nat" where
  "count_status st rep = length (filter (\<lambda>r. sr_status r = st) (hr_results rep))"

definition report_summary :: "homolog_report \<Rightarrow> json" where
  "report_summary rep =
     JObj [(''total'', JInt (int (length (hr_results rep)))), (''passed'', JInt (int (count_status PASS rep))),
           (''failed'', JInt (int (count_status FAIL rep))), (''skipped'', JInt (int (count_status SKIP rep))),
           (''ok'', JBool (all_passed rep))]"

definition result_dict :: "scenario_result \<Rightarrow> json" where
  "result_dict r =
     JObj [(''case_id'', JStr (sr_case r)), (''name'', JStr (sr_name r)), (''status'', JStr (status_text (sr_status r))),
           (''detail'', JStr (sr_detail r)), (''metadata'', JObj (sr_metadata r))]"

definition report_to_dict :: "homolog_report \<Rightarrow> json" where
  "report_to_dict rep =
     JObj [(''started_at'', JStr (hr_started rep)), (''summary'', report_summary rep),
           (''results'', JArr (map result_dict (hr_results rep)))]"

section \<open>The configuration\<close>

record homolog_config =
  hc_host :: string
  hc_port :: int
  hc_account :: string
  hc_broker :: string
  hc_symbol :: string
  hc_execution :: bool
  hc_min_ticks :: int
  hc_timeout :: pyfloat
  hc_stream_secs :: pyfloat
  hc_stream_gap :: pyfloat
  hc_stream_ticks :: int
  hc_skip_stream :: bool
  hc_feed :: bool
  hc_feed_host :: string
  hc_feed_port :: int
  hc_feed_path :: string
  hc_hello_timeout :: pyfloat

definition env_flag :: "(string, string) dict \<Rightarrow> string \<Rightarrow> bool" where
  "env_flag env k \<longleftrightarrow> strip (get_default env k []) = ''1''"

text \<open>An answer of the bridge: a dictionary, an object with attributes, or \<^verbatim>\<open>None\<close>.\<close>

datatype reply = ReplyDict "(string, json) dict" | ReplyObject "(string, json) dict" | ReplyNone

text \<open>\<^verbatim>\<open>d.get(k, default)\<close> or \<^verbatim>\<open>getattr(o, k, default)\<close>, and \<^verbatim>\<open>d[k]\<close> or \<^verbatim>\<open>o.k\<close>.\<close>

fun reply_get :: "reply \<Rightarrow> string \<Rightarrow> json \<Rightarrow> json" where
  "reply_get (ReplyDict d) k dflt = get_default d k dflt"
| "reply_get (ReplyObject d) k dflt = get_default d k dflt"
| "reply_get ReplyNone k dflt = dflt"

fun reply_item :: "reply \<Rightarrow> string \<Rightarrow> json result" where
  "reply_item (ReplyDict d) k = dict_index d k"
| "reply_item (ReplyObject d) k = attribute d k"
| "reply_item ReplyNone k = Inl AttributeError"

definition probe_account_login :: "reply result \<Rightarrow> int result" where
  "probe_account_login answer =
     bindR answer (\<lambda>info.
       if reply_get info ''login'' JNull = JNull then Inl RuntimeError
       else py_int (reply_get info ''login'' JNull))"

definition probe_symbol_tick :: "reply result \<Rightarrow> (pyfloat \<times> pyfloat) option result" where
  "probe_symbol_tick answer =
     bindR answer (\<lambda>tick.
       if tick = ReplyNone then Inr None
       else bindR (bindR (reply_item tick ''bid'') py_float) (\<lambda>bid.
            bindR (bindR (reply_item tick ''ask'') py_float) (\<lambda>ask. Inr (Some (bid, ask)))))"

text \<open>The account of the bridge is asked only when the environment names none.\<close>

definition config_from_env :: "(string, string) dict \<Rightarrow> reply result \<Rightarrow> homolog_config result" where
  "config_from_env env account_answer =
     bindR (int_of_str (get_default env ''MT5_PORT'' ''18812'')) (\<lambda>port.
     bindR (int_of_str (get_default env ''HOMOLOG_MIN_TICKS'' ''3'')) (\<lambda>min_ticks.
     bindR (float_of_str (get_default env ''HOMOLOG_TIMEOUT_SECS'' ''120'')) (\<lambda>timeout.
     bindR (float_of_str (get_default env ''HOMOLOG_STREAM_SECS'' ''120'')) (\<lambda>secs.
     bindR (float_of_str (get_default env ''HOMOLOG_STREAM_MAX_GAP_SECS'' ''30'')) (\<lambda>gap.
     bindR (int_of_str (get_default env ''HOMOLOG_STREAM_MIN_TICKS'' ''5'')) (\<lambda>stream_ticks.
     bindR (int_of_str (get_default env ''MT5_FEED_PORT'' ''8765'')) (\<lambda>feed_port.
     bindR (float_of_str (get_default env ''MT5_FEED_HELLO_TIMEOUT_SECS'' ''30'')) (\<lambda>hello.
     bindR (if strip (get_default env ''MT5_ACCOUNT_NUMBER'' []) \<noteq> []
            then Inr (strip (get_default env ''MT5_ACCOUNT_NUMBER'' []))
            else bindR (probe_account_login account_answer) (\<lambda>login. Inr (int_str login))) (\<lambda>account.
       Inr \<lparr>hc_host = get_default env ''MT5_HOST'' ''127.0.0.1'', hc_port = port, hc_account = account,
            hc_broker = get_default env ''MT5_BROKER'' ''Tickmill-Demo'',
            hc_symbol = get_default env ''MT5_SYMBOL'' ''BTCUSD'',
            hc_execution = env_flag env ''MT5_ENABLE_LIVE_EXECUTION'', hc_min_ticks = min_ticks,
            hc_timeout = timeout, hc_stream_secs = secs, hc_stream_gap = gap, hc_stream_ticks = stream_ticks,
            hc_skip_stream = env_flag env ''HOMOLOG_SKIP_STREAM'', hc_feed = env_flag env ''MT5_FEED_ENABLED'',
            hc_feed_host = get_default env ''MT5_FEED_HOST'' ''0.0.0.0'', hc_feed_port = feed_port,
            hc_feed_path = get_default env ''MT5_FEED_PATH'' ''/mt5-feed'', hc_hello_timeout = hello\<rparr>)))))))))"

definition multi_symbols :: "(string, string) dict \<Rightarrow> homolog_config \<Rightarrow> string list" where
  "multi_symbols env cfg =
     (let parts = filter (\<lambda>s. s \<noteq> [])
                    (map strip (split_on (CHR '','') (get_default env ''HOMOLOG_MULTI_SYMBOLS'' ''BTCUSD,USTEC'')))
      in if parts \<noteq> [] then parts else [hc_symbol cfg])"

section \<open>Probes of the bridge\<close>

definition or_else :: "json \<Rightarrow> json \<Rightarrow> json" where
  "or_else a b = (if jtruthy a then a else b)"

definition bridge_bar_stream_ready :: "(string \<Rightarrow> bool) \<Rightarrow> bool \<times> string" where
  "bridge_bar_stream_ready exposes =
     (let missing = filter (\<lambda>m. \<not> exposes m)
            [''exposed_req_real_time_bars'', ''exposed_cancel_real_time_bars'', ''exposed_cancel_historical_data'']
      in if missing \<noteq> [] then (False, ''bridge missing: '' @ join '', '' missing) else (True, ''ok''))"

definition feed_bar_stream_ready :: "bool \<Rightarrow> bool \<times> string" where
  "feed_bar_stream_ready enabled =
     (if enabled then (True, ''ws_feed subscribe_bars'')
      else (False, ''Set MT5_FEED_ENABLED=1 for WS bar streaming''))"

record open_position =
  pr_ticket :: int
  pr_volume :: pyfloat
  pr_type :: int

definition position_entry :: "reply \<Rightarrow> open_position option result" where
  "position_entry pos =
     bindR (py_float (or_else (reply_get pos ''volume'' (JFloat 0)) (JFloat 0))) (\<lambda>vol.
     bindR (py_int (or_else (reply_get pos ''type'' (JInt 0)) (JInt 0))) (\<lambda>ty.
       if reply_get pos ''ticket'' JNull = JNull \<or> vol \<le> 0 then Inr None
       else bindR (py_int (reply_get pos ''ticket'' JNull)) (\<lambda>ticket.
              Inr (Some \<lparr>pr_ticket = ticket, pr_volume = vol, pr_type = ty\<rparr>))))"

definition rpyc_positions_snapshot :: "bool \<Rightarrow> reply list option result \<Rightarrow> open_position list result" where
  "rpyc_positions_snapshot exposed answer =
     (if \<not> exposed then Inr []
      else bindR answer (\<lambda>rows.
        case rows of
          None \<Rightarrow> Inr []
        | Some ps \<Rightarrow> bindR (traverse position_entry ps) (\<lambda>es. Inr (List.map_filter id es))))"

definition rpyc_positions_count :: "bool \<Rightarrow> reply list option result \<Rightarrow> nat result" where
  "rpyc_positions_count exposed answer = bindR (rpyc_positions_snapshot exposed answer) (\<lambda>rows. Inr (length rows))"

text \<open>The sums are those of \<^verbatim>\<open>sum\<close>, whose rounding depends on the version of the interpreter.\<close>

definition rpyc_positions_volume_summary ::
    "(pyfloat list \<Rightarrow> pyfloat) \<Rightarrow> bool \<Rightarrow> reply list option result \<Rightarrow> (nat \<times> pyfloat \<times> pyfloat) result" where
  "rpyc_positions_volume_summary add_up exposed answer =
     bindR (rpyc_positions_snapshot exposed answer) (\<lambda>rows.
       Inr (length rows, add_up (map pr_volume (filter (\<lambda>p. pr_type p = 0) rows)),
            add_up (map pr_volume (filter (\<lambda>p. pr_type p = 1) rows))))"

record order_row =
  ow_ticket :: "int option"
  ow_volume :: pyfloat
  ow_price_open :: pyfloat
  ow_type :: int
  ow_type_time :: int
  ow_type_filling :: int

definition row_number :: "reply \<Rightarrow> string \<Rightarrow> string \<Rightarrow> pyfloat result" where
  "row_number r k k' = py_float (or_else (or_else (reply_get r k JNull) (reply_get r k' JNull)) (JFloat 0))"

definition row_code :: "reply \<Rightarrow> string \<Rightarrow> int result" where
  "row_code r k = py_int (or_else (reply_get r k (JInt (-1))) (JInt (-1)))"

definition ticket_of :: "reply \<Rightarrow> int option result" where
  "ticket_of r =
     (if reply_get r ''ticket'' JNull = JNull then Inr None
      else bindR (py_int (reply_get r ''ticket'' JNull)) (\<lambda>t. Inr (Some t)))"

definition normalize_order_row :: "reply \<Rightarrow> order_row result" where
  "normalize_order_row r =
     bindR (row_number r ''volume_current'' ''volume'') (\<lambda>vol.
     bindR (row_number r ''price_open'' ''price'') (\<lambda>price.
     bindR (row_code r ''type'') (\<lambda>ty.
     bindR (row_code r ''type_time'') (\<lambda>tt.
     bindR (row_code r ''type_filling'') (\<lambda>tf.
     bindR (ticket_of r) (\<lambda>ticket.
       Inr \<lparr>ow_ticket = ticket, ow_volume = vol, ow_price_open = price, ow_type = ty, ow_type_time = tt,
            ow_type_filling = tf\<rparr>))))))"

text \<open>
  The pending orders, from the bridge's own method where it is exposed, else through the wrapper, of which a
  \<^verbatim>\<open>RuntimeError\<close> is read as no interface for orders.
\<close>

definition order_rows :: "reply list option \<Rightarrow> order_row list option result" where
  "order_rows rows =
     (case rows of
        None \<Rightarrow> Inr (Some [])
      | Some rs \<Rightarrow> bindR (traverse normalize_order_row rs) (\<lambda>os. Inr (Some os)))"

definition rpyc_pending_orders ::
    "bool \<Rightarrow> reply list option result \<Rightarrow> reply list option result \<Rightarrow> order_row list option result" where
  "rpyc_pending_orders exposed from_bridge from_wrapper =
     (if exposed then bindR from_bridge order_rows
      else (case from_wrapper of
              Inl e \<Rightarrow> if e = RuntimeError then Inr None else Inl e
            | Inr rows \<Rightarrow> order_rows rows))"

definition cancel_probe :: "int \<Rightarrow> mt5_request" where
  "cancel_probe ticket = [(''action'', JInt 8), (''order'', JInt ticket)]"

text \<open>Cancelling them all: the requests sent, and the number cancelled; an exception ends it.\<close>

fun cancel_pending ::
    "(mt5_request \<Rightarrow> unit result) \<Rightarrow> order_row list \<Rightarrow> nat \<Rightarrow> mt5_request list \<times> nat result" where
  "cancel_pending send [] n = ([], Inr n)"
| "cancel_pending send (ord # os) n =
     (case ow_ticket ord of
        None \<Rightarrow> cancel_pending send os n
      | Some t \<Rightarrow>
          (case send (cancel_probe t) of
             Inl e \<Rightarrow> ([cancel_probe t], Inl e)
           | Inr _ \<Rightarrow>
               (case cancel_pending send os (n + 1) of
                  (reqs, r) \<Rightarrow> (cancel_probe t # reqs, r))))"

definition rpyc_cancel_all_pending ::
    "(mt5_request \<Rightarrow> unit result) \<Rightarrow> order_row list option result \<Rightarrow> mt5_request list \<times> nat result" where
  "rpyc_cancel_all_pending send pending =
     (case pending of
        Inl e \<Rightarrow> ([], Inl e)
      | Inr None \<Rightarrow> ([], Inr 0)
      | Inr (Some rows) \<Rightarrow> cancel_pending send rows 0)"

section \<open>Closing the positions of a symbol\<close>

text \<open>
  \<^verbatim>\<open>_close_symbol_positions\<close> asks for the positions up to five times and sends a closing deal for each. The terminal is
  a state with the answers of the two methods; the state after an exception is kept.
\<close>

definition closing_deal :: "string \<Rightarrow> int \<Rightarrow> pyfloat \<Rightarrow> int \<Rightarrow> mt5_request" where
  "closing_deal symbol ticket vol ty =
     [(''action'', JInt 1), (''symbol'', JStr symbol), (''volume'', JFloat vol),
      (''type'', JInt (if ty = 0 then 1 else 0)), (''position'', JInt ticket), (''deviation'', JInt 20),
      (''type_filling'', JInt 1)]"

definition position_to_close :: "reply \<Rightarrow> (int \<times> int \<times> pyfloat) result" where
  "position_to_close pos =
     bindR (py_int (or_else (reply_get pos ''ticket'' (JInt 0)) (JInt 0))) (\<lambda>ticket.
     bindR (if reply_get pos ''type'' JNull = JNull then Inr (-1) else py_int (reply_get pos ''type'' JNull)) (\<lambda>ty.
     bindR (py_float (or_else (reply_get pos ''volume'' (JFloat 0)) (JFloat 0))) (\<lambda>vol. Inr (ticket, ty, vol))))"

fun close_each ::
    "(mt5_request \<Rightarrow> 't \<Rightarrow> 't \<times> unit result) \<Rightarrow> string \<Rightarrow> reply list \<Rightarrow> bool \<Rightarrow> 't \<Rightarrow> 't \<times> bool result" where
  "close_each send symbol [] any_closed t = (t, Inr any_closed)"
| "close_each send symbol (p # ps) any_closed t =
     (case position_to_close p of
        Inl e \<Rightarrow> (t, Inl e)
      | Inr (ticket, ty, vol) \<Rightarrow>
          if ticket = 0 \<or> vol \<le> 0 then close_each send symbol ps any_closed t
          else (case send (closing_deal symbol ticket vol ty) t of
                  (t1, Inl e) \<Rightarrow> (t1, Inl e)
                | (t1, Inr _) \<Rightarrow> close_each send symbol ps True t1))"

fun close_rounds ::
    "(mt5_request \<Rightarrow> 't \<Rightarrow> 't \<times> unit result) \<Rightarrow> ('t \<Rightarrow> reply list option result) \<Rightarrow> string \<Rightarrow> nat \<Rightarrow> 't
       \<Rightarrow> 't \<times> unit result" where
  "close_rounds send positions symbol 0 t = (t, Inr ())"
| "close_rounds send positions symbol (Suc n) t =
     (case positions t of
        Inl e \<Rightarrow> (t, Inl e)
      | Inr None \<Rightarrow> (t, Inr ())
      | Inr (Some ps) \<Rightarrow>
          if ps = [] then (t, Inr ())
          else (case close_each send symbol ps False t of
                  (t1, Inl e) \<Rightarrow> (t1, Inl e)
                | (t1, Inr any_closed) \<Rightarrow>
                    if any_closed then close_rounds send positions symbol n t1 else (t1, Inr ())))"

definition close_symbol_positions ::
    "(mt5_request \<Rightarrow> 't \<Rightarrow> 't \<times> unit result) \<Rightarrow> ('t \<Rightarrow> reply list option result) \<Rightarrow> string \<Rightarrow> 't \<Rightarrow> 't \<times> unit result" where
  "close_symbol_positions send positions symbol t = close_rounds send positions symbol 5 t"

section \<open>The check before a run\<close>

text \<open>The text of an exception is a parameter. The dash and the arrow of the messages are in UTF-8.\<close>

definition em_dash :: string where
  "em_dash = [CHR 0xE2, CHR 0x80, CHR 0x94]"

definition arrow :: string where
  "arrow = [CHR 0xE2, CHR 0x86, CHR 0x92]"

definition preflight_result :: "scenario_status \<Rightarrow> string \<Rightarrow> (string, json) dict \<Rightarrow> scenario_result" where
  "preflight_result st detail meta =
     \<lparr>sr_case = ''TC-HOM-PF'', sr_name = ''Bridge pre-flight (account + symbol tick)'', sr_status = st,
      sr_detail = detail, sr_metadata = meta\<rparr>"

definition preflight_login :: "reply result \<Rightarrow> (int \<times> json) result" where
  "preflight_login account =
     bindR account (\<lambda>info.
     bindR (bindR (reply_item info ''login'') py_int) (\<lambda>login.
       Inr (login, reply_get info ''server'' (JStr []))))"

definition preflight ::
    "(py_exc \<Rightarrow> string) \<Rightarrow> homolog_config \<Rightarrow> reply result \<Rightarrow> reply result \<Rightarrow> scenario_result" where
  "preflight text_of cfg account tick =
     (case preflight_login account of
        Inl e \<Rightarrow> preflight_result FAIL (text_of e) []
      | Inr (login, server) \<Rightarrow>
          if int_str login \<noteq> hc_account cfg then
            preflight_result FAIL
              (''Account mismatch: env='' @ hc_account cfg @ '' bridge='' @ int_str login) []
          else
            (case probe_symbol_tick tick of
               Inl e \<Rightarrow> preflight_result FAIL (text_of e) []
             | Inr None \<Rightarrow>
                 preflight_result FAIL
                   (''No tick for '' @ hc_symbol cfg @ '' '' @ em_dash @ '' market closed or symbol unavailable'') []
             | Inr (Some (bid, ask)) \<Rightarrow>
                 preflight_result PASS
                   (''login='' @ int_str login @ '' server='' @ py_str server @ '' '' @ hc_symbol cfg @
                    '' bid='' @ float_repr bid @ '' ask='' @ float_repr ask)
                   [(''login'', JInt login), (''server'', server), (''bid'', JFloat bid), (''ask'', JFloat ask)]))"

section \<open>Probing an order\<close>

text \<open>
  The probes replace the functions that generate the accepted, rejected and filled events by recorders while an
  order is submitted, and read the recorded events. The value is the order number, or the text of what went
  wrong; an exception of the submission goes through.
\<close>

fun accepted_number :: "exec_event \<Rightarrow> string option" where
  "accepted_number (OrderAccepted coid oid) = Some oid"
| "accepted_number _ = None"

fun rejected_reason :: "exec_event \<Rightarrow> json option" where
  "rejected_reason (OrderRejected coid reason) = Some reason"
| "rejected_reason _ = None"

fun is_fill :: "exec_event \<Rightarrow> bool" where
  "is_fill (OrderFilled f) = True"
| "is_fill _ = False"

definition submit_limit_probe :: "exec_event list \<Rightarrow> unit result \<Rightarrow> (string option \<times> string option) result" where
  "submit_limit_probe evs ended =
     bindR ended (\<lambda>_.
       Inr (case List.map_filter rejected_reason evs of
              reason # _ \<Rightarrow> (None, Some (py_str reason))
            | [] \<Rightarrow>
                (case List.map_filter accepted_number evs of
                   [] \<Rightarrow> (None, Some ''no OrderAccepted event'')
                 | oid # _ \<Rightarrow> (Some oid, None))))"

definition submit_with_events_probe ::
    "exec_event list \<Rightarrow> unit result \<Rightarrow> (string option \<times> string option \<times> bool) result" where
  "submit_with_events_probe evs ended =
     bindR ended (\<lambda>_.
       Inr (case List.map_filter rejected_reason evs of
              reason # _ \<Rightarrow> (None, Some (py_str reason), False)
            | [] \<Rightarrow>
                if list_ex is_fill evs then (Some ''FILLED'', None, True)
                else (case List.map_filter accepted_number evs of
                        [] \<Rightarrow> (None, Some ''no OrderAccepted event'', False)
                      | oid # _ \<Rightarrow> (Some oid, None, False))))"

text \<open>The return code of an answer; \<^verbatim>\<open>None\<close> has none.\<close>

definition retcode_of :: "reply \<Rightarrow> int option result" where
  "retcode_of r =
     (if r = ReplyNone then Inr None
      else bindR (py_int (or_else (reply_get r ''retcode'' (JInt 0)) (JInt 0))) (\<lambda>c. Inr (Some c)))"

section \<open>Cancelled limit orders\<close>

text \<open>
  What a scenario meets once its clients are connected: the text of the limit price, how the submission is probed,
  how the cancellation ends, the pending orders read after it, and the answer to a second cancellation.
\<close>

record cancel_run =
  cr_price :: string
  cr_submitted :: "(string option \<times> string option) result"
  cr_cancelled :: "unit result"
  cr_pending :: "order_row list option result"
  cr_retry :: "reply result"

definition case_result :: "string \<Rightarrow> string \<Rightarrow> scenario_status \<Rightarrow> string \<Rightarrow> (string, json) dict \<Rightarrow> scenario_result" where
  "case_result cid name st detail meta =
     \<lparr>sr_case = cid, sr_name = name, sr_status = st, sr_detail = detail, sr_metadata = meta\<rparr>"

definition retcode_json :: "int option \<Rightarrow> json" where
  "retcode_json c = (case c of None \<Rightarrow> JNull | Some n \<Rightarrow> JInt n)"

text \<open>The retried cancellation: the number of the order is read as an integer before the terminal is asked.\<close>

definition retried_code :: "string \<Rightarrow> reply result \<Rightarrow> int option result" where
  "retried_code venue retry = bindR (int_of_str venue) (\<lambda>_. bindR retry retcode_of)"

definition gtc_cancel_verdict :: "(py_exc \<Rightarrow> string) \<Rightarrow> homolog_config \<Rightarrow> unit result \<Rightarrow> cancel_run \<Rightarrow> scenario_result" where
  "gtc_cancel_verdict text_of cfg ready run =
     (let add = case_result ''TC-HOM-E03'' ''Limit GTC + cancel'' in
      if \<not> hc_execution cfg then add SKIP ''Set MT5_ENABLE_LIVE_EXECUTION=1 to run execution scenarios'' []
      else (case bindR ready (\<lambda>_. cr_submitted run) of
              Inl e \<Rightarrow> add FAIL (text_of e) []
            | Inr (_, Some err) \<Rightarrow> add FAIL (''Submit failed: '' @ err) []
            | Inr (None, None) \<Rightarrow> add FAIL (text_of TypeError) []
            | Inr (Some venue, None) \<Rightarrow>
                (case bindR (cr_cancelled run) (\<lambda>_. retried_code venue (cr_retry run)) of
                   Inl e \<Rightarrow> add FAIL (text_of e) []
                 | Inr code \<Rightarrow>
                     add PASS
                       (if code \<in> {None, Some 0, Some 10009}
                        then ''BUY LIMIT GTC @'' @ cr_price run @ '' venue='' @ venue @ '' '' @ arrow @ '' cancelled''
                        else ''BUY LIMIT @'' @ cr_price run @ '' venue='' @ venue @ '' cancelled (retry retcode='' @
                             py_str (retcode_json code) @ '')'')
                       [(''venue_order_id'', JStr venue), (''retry_retcode'', retcode_json code)])))"

definition still_pending :: "string \<Rightarrow> order_row list option \<Rightarrow> bool result" where
  "still_pending venue pending =
     (case pending of
        None \<Rightarrow> Inl TypeError
      | Some rows \<Rightarrow>
          if rows = [] then Inr False
          else bindR (int_of_str venue) (\<lambda>n. Inr (list_ex (\<lambda>r. ow_ticket r = Some n) rows)))"

definition cancel_rejection_verdict ::
    "(py_exc \<Rightarrow> string) \<Rightarrow> homolog_config \<Rightarrow> unit result \<Rightarrow> cancel_run \<Rightarrow> scenario_result" where
  "cancel_rejection_verdict text_of cfg ready run =
     (let add = case_result ''TC-HOM-E43'' (''Cancel rejection (double-cancel '' @ arrow @ '' 10013)'') in
      if \<not> hc_execution cfg then add SKIP ''Set MT5_ENABLE_LIVE_EXECUTION=1 to run execution scenarios'' []
      else (case bindR ready (\<lambda>_. cr_submitted run) of
              Inl e \<Rightarrow> add FAIL (text_of e) []
            | Inr (_, Some err) \<Rightarrow> add FAIL (''Submit failed: '' @ err) []
            | Inr (None, None) \<Rightarrow> add FAIL (text_of TypeError) []
            | Inr (Some venue, None) \<Rightarrow>
                (case bindR (cr_cancelled run) (\<lambda>_.
                      bindR (bindR (cr_pending run) (still_pending venue)) (\<lambda>still.
                      bindR (retried_code venue (cr_retry run)) (\<lambda>code. Inr (still, code)))) of
                   Inl e \<Rightarrow> add FAIL (text_of e) []
                 | Inr (still, code) \<Rightarrow>
                     add (if code = Some 10013 \<and> \<not> still then PASS else FAIL)
                       (''venue='' @ venue @ '' first_cancel=OK retry_retcode='' @ py_str (retcode_json code) @
                        '' still_pending='' @ py_str (JBool still) @
                        (if code \<noteq> Some 10013 then '' (expected retcode 10013 Invalid request)'' else []))
                       [(''venue_order_id'', JStr venue), (''retry_retcode'', retcode_json code),
                        (''still_pending'', JBool still)])))"

section \<open>Streamed ticks\<close>

text \<open>
  The strategy of the stream scenario: it counts the ticks and the longest gap between two, a watching thread
  compares the time since the last tick with the limit, and a timer ends it. The times are readings of the
  monotonic clock.
\<close>

record stream_state =
  ss_count :: nat
  ss_max_gap :: pyfloat
  ss_last :: pyfloat
  ss_completed :: bool
  ss_reason :: string

definition tick_stream_init :: stream_state where
  "tick_stream_init = \<lparr>ss_count = 0, ss_max_gap = 0, ss_last = 0, ss_completed = False, ss_reason = []\<rparr>"

definition fmax :: "pyfloat \<Rightarrow> pyfloat \<Rightarrow> pyfloat" where
  "fmax a b = (if a < b then b else a)"

fun fixed_text :: "nat \<Rightarrow> pyfloat \<Rightarrow> string" where
  "fixed_text n (Fin q) = format_fixed n q"
| "fixed_text n x = float_repr x"

datatype stream_event = TickAt pyfloat | WatchAt pyfloat | TimerEnds | InstrumentMissing

definition stream_tick :: "pyfloat \<Rightarrow> stream_state \<Rightarrow> stream_state" where
  "stream_tick now st =
     st\<lparr>ss_max_gap := (if 0 < ss_last st then fmax (ss_max_gap st) (fsub now (ss_last st)) else ss_max_gap st),
        ss_last := now, ss_count := ss_count st + 1\<rparr>"

definition stream_fail :: "string \<Rightarrow> stream_state \<Rightarrow> stream_state" where
  "stream_fail reason st = st\<lparr>ss_completed := False, ss_reason := reason\<rparr>"

definition stream_watch :: "pyfloat \<Rightarrow> pyfloat \<Rightarrow> stream_state \<Rightarrow> stream_state" where
  "stream_watch limit now st =
     (if ss_last st \<le> 0 then st
      else if limit < fsub now (ss_last st) then
        stream_fail (''Stream stalled: no tick for '' @ fixed_text 1 (fsub now (ss_last st)) @ ''s (max '' @
                     float_repr limit @ ''s)'') st
      else st)"

fun stream_step :: "pyfloat \<Rightarrow> stream_event \<Rightarrow> stream_state \<Rightarrow> stream_state" where
  "stream_step limit (TickAt now) st = stream_tick now st"
| "stream_step limit (WatchAt now) st = stream_watch limit now st"
| "stream_step limit TimerEnds st = st\<lparr>ss_completed := True\<rparr>"
| "stream_step limit InstrumentMissing st = stream_fail ''Instrument not in cache'' st"

datatype node_end = NodeStopped | NodeTimedOut | NodeRaised py_exc

definition stream_metadata :: "stream_state \<Rightarrow> (string, json) dict" where
  "stream_metadata st = [(''ticks'', JInt (int (ss_count st))), (''max_gap_secs'', JFloat (ss_max_gap st))]"

definition fadd :: "pyfloat \<Rightarrow> pyfloat \<Rightarrow> pyfloat" where
  "fadd x y = fsub x (fneg y)"

definition run_tick_stream :: "(py_exc \<Rightarrow> string) \<Rightarrow> homolog_config \<Rightarrow> node_end \<Rightarrow> stream_state \<Rightarrow> scenario_result" where
  "run_tick_stream text_of cfg node_end st =
     (let add = case_result ''TC-HOM-D02'' ''Sustained quote tick stream'' in
      if hc_skip_stream cfg then add SKIP ''Set HOMOLOG_SKIP_STREAM=0 to run streaming scenario'' []
      else if \<not> hc_feed cfg then
        add SKIP ''Set MT5_FEED_ENABLED=1 and start NT5TickFeedService for WS stream validation'' []
      else (case node_end of
              NodeTimedOut \<Rightarrow>
                add FAIL (''Node timeout after '' @ fixed_text 0 (fadd (hc_stream_secs cfg) (Fin 60)) @ ''s '' @ em_dash @
                          '' ticks='' @ nat_str (ss_count st)) [(''ticks'', JInt (int (ss_count st)))]
            | NodeRaised e \<Rightarrow> add FAIL (text_of e) []
            | NodeStopped \<Rightarrow>
                if ss_reason st \<noteq> [] then add FAIL (ss_reason st) (stream_metadata st)
                else if int (ss_count st) < hc_stream_ticks cfg then
                  add FAIL (''Only '' @ nat_str (ss_count st) @ ''/'' @ int_str (hc_stream_ticks cfg) @ '' ticks in '' @
                            fixed_text 0 (hc_stream_secs cfg) @ ''s'') (stream_metadata st)
                else
                  add PASS (nat_str (ss_count st) @ '' ticks in '' @ fixed_text 0 (hc_stream_secs cfg) @
                            ''s (max inter-tick gap '' @ fixed_text 1 (ss_max_gap st) @ ''s, transport=ws_feed)'')
                    (stream_metadata st @
                     [(''duration_secs'', JFloat (hc_stream_secs cfg)), (''transport'', JStr ''ws_feed''),
                      (''feed_uri'', JStr (''ws://'' @ hc_feed_host cfg @ '':'' @ int_str (hc_feed_port cfg) @
                                           hc_feed_path cfg))])))"

section \<open>A run\<close>

text \<open>
  A run is the check and then the scenarios in order, each of which takes the report on or raises out of the
  harness. The exit code is 1 when the check has failed, which skips the scenarios.
\<close>

fun run_scenarios :: "(homolog_report \<Rightarrow> homolog_report result) list \<Rightarrow> homolog_report \<Rightarrow> homolog_report result" where
  "run_scenarios [] rep = Inr rep"
| "run_scenarios (s # ss) rep = bindR (s rep) (run_scenarios ss)"

definition run_homologation ::
    "string \<Rightarrow> scenario_result \<Rightarrow> (homolog_report \<Rightarrow> homolog_report result) list \<Rightarrow> (homolog_report \<times> int) result" where
  "run_homologation started checked scenarios =
     (let rep = report_add checked \<lparr>hr_started = started, hr_results = []\<rparr>
      in if has_failures rep then Inr (rep, 1)
         else bindR (run_scenarios scenarios rep) (\<lambda>rep'. Inr (rep', if all_passed rep' then 0 else 1)))"

section \<open>What the harness promises\<close>

text \<open>The counts of the summary add up, and the run is good exactly when nothing failed.\<close>

lemma counts_add_up: "count_status PASS rep + count_status FAIL rep + count_status SKIP rep = length (hr_results rep)"
proof -
  have "length (filter (\<lambda>r. sr_status r = PASS) rs) + length (filter (\<lambda>r. sr_status r = FAIL) rs)
          + length (filter (\<lambda>r. sr_status r = SKIP) rs) = length rs" for rs :: "scenario_result list"
  proof (induction rs)
    case (Cons r rs)
    then show ?case by (cases "sr_status r") simp_all
  qed simp
  then show ?thesis by (simp add: count_status_def)
qed

lemma not_failed_iff: "st = PASS \<or> st = SKIP \<longleftrightarrow> st \<noteq> FAIL"
  by (cases st) simp_all

lemma all_passed_iff: "all_passed rep \<longleftrightarrow> \<not> has_failures rep"
  by (simp add: all_passed_def has_failures_def not_failed_iff list_all_iff list_ex_iff)

lemma has_failures_count: "has_failures rep \<longleftrightarrow> 0 < count_status FAIL rep"
  by (auto simp: has_failures_def count_status_def list_ex_iff filter_empty_conv)

text \<open>The check never skips, and passes only for the configured account and a symbol with a tick.\<close>

lemma preflight_passes:
  "sr_status (preflight text_of cfg account tick) \<noteq> FAIL \<Longrightarrow>
   (\<exists>login server. preflight_login account = Inr (login, server) \<and> int_str login = hc_account cfg) \<and>
   (\<exists>bid ask. probe_symbol_tick tick = Inr (Some (bid, ask)))"
  by (auto simp: preflight_def preflight_result_def split: sum.splits option.splits if_splits prod.splits)

text \<open>
  The exit code is zero exactly when the report holds no failure, whether the scenarios were run or not, and then
  the terminal holds the configured account and quotes the symbol. Skipped scenarios count as passed.
\<close>

theorem exit_code_sound:
  assumes "run_homologation started (preflight text_of cfg account tick) scenarios = Inr (rep, code)"
  shows "(code = 0 \<longleftrightarrow> \<not> has_failures rep) \<and> code \<in> {0, 1} \<and>
    (code = 0 \<longrightarrow>
       (\<exists>login server. preflight_login account = Inr (login, server) \<and> int_str login = hc_account cfg) \<and>
       (\<exists>bid ask. probe_symbol_tick tick = Inr (Some (bid, ask))))"
proof (cases "sr_status (preflight text_of cfg account tick) = FAIL")
  case True
  then show ?thesis
    using assms by (auto simp: run_homologation_def Let_def has_failures_def report_add_def)
next
  case False
  then have "\<not> has_failures (report_add (preflight text_of cfg account tick) \<lparr>hr_started = started, hr_results = []\<rparr>)"
    by (simp add: has_failures_def report_add_def)
  then obtain rep' where "code = (if all_passed rep' then 0 else 1)" "rep = rep'"
    using assms by (auto simp: run_homologation_def Let_def bindR_eq_Inr)
  then show ?thesis using preflight_passes [OF False] by (simp add: all_passed_iff)
qed

text \<open>Scenarios that skip add nothing that fails: without execution and feed the exit code stays zero.\<close>

lemma execution_scenarios_skip:
  "\<not> hc_execution cfg \<Longrightarrow>
   sr_status (gtc_cancel_verdict text_of cfg ready run) = SKIP \<and>
   sr_status (cancel_rejection_verdict text_of cfg ready run) = SKIP"
  by (simp add: gtc_cancel_verdict_def cancel_rejection_verdict_def case_result_def)

section \<open>What the probes read\<close>

text \<open>
  A code 0 is lost: \<^verbatim>\<open>or\<close> takes the default instead, which says unknown. Any other integer is kept. The codes 0 of
  the terminal are the market buy, the lifetime until cancelled and the filling of all or nothing.
\<close>

lemma zero_code_lost:
  "reply_get r k (JInt (-1)) = JInt 0 \<Longrightarrow> row_code r k = Inr (-1)"
  by (simp add: row_code_def or_else_def)

lemma other_code_kept:
  "reply_get r k (JInt (-1)) = JInt n \<Longrightarrow> n \<noteq> 0 \<Longrightarrow> row_code r k = Inr n"
  by (simp add: row_code_def or_else_def)

lemma normalized_zero_codes:
  assumes "normalize_order_row r = Inr row"
  shows "(reply_get r ''type_time'' (JInt (-1)) = JInt 0 \<longrightarrow> ow_type_time row = -1) \<and>
         (reply_get r ''type_filling'' (JInt (-1)) = JInt 0 \<longrightarrow> ow_type_filling row = -1) \<and>
         (reply_get r ''type'' (JInt (-1)) = JInt 0 \<longrightarrow> ow_type row = -1)"
  using assms zero_code_lost [of r] by (auto simp: normalize_order_row_def bindR_eq_Inr)

text \<open>The snapshot holds only positions with a volume that is not zero or less.\<close>

lemma position_entry_volume: "position_entry pos = Inr (Some p) \<Longrightarrow> \<not> pr_volume p \<le> 0"
  by (auto simp: position_entry_def bindR_eq_Inr split: if_splits)

lemma snapshot_volumes:
  assumes "rpyc_positions_snapshot exposed answer = Inr rows" and "p \<in> set rows"
  shows "\<not> pr_volume p \<le> 0"
proof -
  obtain ps es where ps: "answer = Inr (Some ps)" "traverse position_entry ps = Inr es" "rows = List.map_filter id es"
    using assms by (auto simp: rpyc_positions_snapshot_def bindR_eq_Inr split: if_splits option.splits)
  then have "Some p \<in> set es" using assms(2) by (auto simp: List.map_filter_def)
  then obtain pos where "position_entry pos = Inr (Some p)" using traverse_InrE [OF ps(2)] by metis
  then show ?thesis by (rule position_entry_volume)
qed

text \<open>Cancelling all sends one request for each order that has a ticket, in order, when none raises.\<close>

lemma cancel_pending_all:
  assumes "\<forall>req. send req = Inr ()"
  shows "cancel_pending send rows n =
     (map cancel_probe (List.map_filter ow_ticket rows), Inr (n + length (List.map_filter ow_ticket rows)))"
  using assms
  by (induction rows arbitrary: n) (auto simp: List.map_filter_simps split: option.splits)

text \<open>The list of symbols of the scenario for several symbols is never empty.\<close>

lemma multi_symbols_some: "multi_symbols env cfg \<noteq> []"
  by (simp add: multi_symbols_def Let_def)

section \<open>What the scenarios establish\<close>

text \<open>
  The probe of a submitted limit order gives the number of the terminal exactly for the return codes done and
  placed, and no error for an order that waits.
\<close>

lemma submit_limit_probe_result:
  assumes "no_status order = INITIALIZED" and "dict_get d ''retcode'' = Some (JInt rc)"
    and "interpret_result ins order (JObj d) = (evs, Inr ())"
  shows "\<exists>err. submit_limit_probe (handle_order_event SUBMITTED order [] (JStr []) @ evs) (Inr ()) =
           Inr (if rc = 10009 \<or> rc = 10008 then (Some (py_str (get_default d ''order'' (JInt 0))), None)
                else (None, Some err))"
  using assms
  by (auto simp: submit_limit_probe_def interpret_result_def handle_order_event_def Let_def get_default_def
      jint_eq_def TRADE_RETCODE_DONE_def TRADE_RETCODE_PLACED_def List.map_filter_simps
      split: if_splits sum.splits)

text \<open>
  The scenario that cancels a waiting order passes whatever the terminal answers to either cancellation and
  whatever is pending after it; the one that cancels twice passes only when the order is gone and the second
  cancellation is refused.
\<close>

theorem gtc_cancel_blind:
  assumes "hc_execution cfg" and "cr_submitted run = Inr (Some venue, None)" and "int_of_str venue = Inr n"
    and "cr_cancelled run = Inr ()" and "bindR (cr_retry run) retcode_of = Inr code"
  shows "sr_status (gtc_cancel_verdict text_of cfg (Inr ()) run) = PASS"
  using assms by (simp add: gtc_cancel_verdict_def case_result_def retried_code_def Let_def)

theorem cancel_rejection_sound:
  assumes "sr_status (cancel_rejection_verdict text_of cfg ready run) = PASS"
  shows "\<exists>venue rows. cr_submitted run = Inr (Some venue, None) \<and> cr_pending run = Inr (Some rows) \<and>
    bindR (cr_retry run) retcode_of = Inr (Some 10013) \<and>
    (\<forall>n. int_of_str venue = Inr n \<longrightarrow> (\<forall>row \<in> set rows. ow_ticket row \<noteq> Some n))"
  using assms
  by (auto simp: cancel_rejection_verdict_def case_result_def Let_def retried_code_def still_pending_def
      bindR_eq_Inr list_ex_iff split: sum.splits option.splits prod.splits if_splits)

text \<open>The state of the stream scenario follows its events: the ticks are counted, and a stall that is seen is kept.\<close>

abbreviation stream_run :: "pyfloat \<Rightarrow> stream_event list \<Rightarrow> stream_state \<Rightarrow> stream_state" where
  "stream_run limit evs st \<equiv> fold (stream_step limit) evs st"

lemma stream_fail_count [simp]: "ss_count (stream_fail reason st) = ss_count st"
  by (simp add: stream_fail_def)

lemma stream_watch_count [simp]: "ss_count (stream_watch limit now st) = ss_count st"
  by (simp add: stream_watch_def)

lemma stream_count:
  "ss_count (stream_run limit evs st) = ss_count st + length (filter (\<lambda>e. \<exists>t. e = TickAt t) evs)"
proof (induction evs arbitrary: st)
  case (Cons e evs)
  then show ?case by (cases e) (simp_all add: stream_tick_def)
qed simp

lemma stream_reason_kept: "ss_reason st \<noteq> [] \<Longrightarrow> ss_reason (stream_run limit evs st) \<noteq> []"
proof (induction evs arbitrary: st)
  case (Cons e evs)
  have "ss_reason (stream_step limit e st) \<noteq> []"
    using Cons.prems by (cases e) (simp_all add: stream_tick_def stream_watch_def stream_fail_def)
  then show ?case using Cons.IH by simp
qed simp

theorem stream_pass_sound:
  assumes "sr_status (run_tick_stream text_of cfg node_end (stream_run (hc_stream_gap cfg) evs tick_stream_init)) = PASS"
  shows "hc_feed cfg \<and> \<not> hc_skip_stream cfg \<and> node_end = NodeStopped \<and>
    hc_stream_ticks cfg \<le> int (length (filter (\<lambda>e. \<exists>t. e = TickAt t) evs)) \<and>
    (\<forall>before now later. evs = before @ WatchAt now # later \<longrightarrow>
       (let st = stream_run (hc_stream_gap cfg) before tick_stream_init
        in ss_last st \<le> 0 \<or> \<not> hc_stream_gap cfg < fsub now (ss_last st)))"
proof -
  let ?st = "stream_run (hc_stream_gap cfg) evs tick_stream_init"
  have v: "hc_feed cfg" "\<not> hc_skip_stream cfg" "node_end = NodeStopped" "ss_reason ?st = []"
    "hc_stream_ticks cfg \<le> int (ss_count ?st)"
    using assms
    by (simp_all add: run_tick_stream_def case_result_def Let_def split: if_splits node_end.splits)
  have "ss_last st \<le> 0 \<or> \<not> hc_stream_gap cfg < fsub now (ss_last st)"
    if evs: "evs = before @ WatchAt now # later" and st: "st = stream_run (hc_stream_gap cfg) before tick_stream_init"
    for before now later st
  proof (rule ccontr)
    assume "\<not> ?thesis"
    then have "ss_reason (stream_watch (hc_stream_gap cfg) now st) \<noteq> []"
      by (simp add: stream_watch_def stream_fail_def)
    then have "ss_reason ?st \<noteq> []" using stream_reason_kept evs st by simp
    with v(4) show False by simp
  qed
  then show ?thesis using v stream_count [of "hc_stream_gap cfg" evs tick_stream_init] by (simp add: tick_stream_init_def Let_def)
qed

text \<open>
  Closing the positions of a symbol: on a terminal whose closing deals each remove the position they name, and
  whose positions can all be read, two of the five rounds are enough.
\<close>

definition ticket_to_close :: "reply \<Rightarrow> int result" where
  "ticket_to_close pos = bindR (position_to_close pos) (\<lambda>x. Inr (fst x))"

definition closable :: "reply \<Rightarrow> bool" where
  "closable pos \<longleftrightarrow> (\<exists>k ty v. position_to_close pos = Inr (k, ty, v) \<and> k \<noteq> 0 \<and> \<not> v \<le> 0)"

lemma close_each_removes:
  assumes "\<And>k v ty t. send (closing_deal symbol k v ty) t = (filter (\<lambda>q. ticket_to_close q \<noteq> Inr k) t, Inr ())"
    and "\<forall>p \<in> set ps. closable p"
  shows "close_each send symbol ps c t =
    (filter (\<lambda>q. \<forall>p \<in> set ps. ticket_to_close q \<noteq> ticket_to_close p) t, Inr (c \<or> ps \<noteq> []))"
  using assms(2)
proof (induction ps arbitrary: c t)
  case (Cons p ps)
  obtain k ty v where p: "position_to_close p = Inr (k, ty, v)" "k \<noteq> 0" "\<not> v \<le> 0"
    using Cons.prems by (auto simp: closable_def)
  then have "ticket_to_close p = Inr k" by (simp add: ticket_to_close_def)
  then show ?case using p Cons.IH Cons.prems assms(1) by (simp add: conj_commute)
qed simp

lemma close_symbol_positions_clears:
  assumes "\<And>k v ty t. send (closing_deal symbol k v ty) t = (filter (\<lambda>q. ticket_to_close q \<noteq> Inr k) t, Inr ())"
    and "\<And>t. positions t = Inr (Some t)" and "\<forall>p \<in> set t. closable p"
  shows "close_symbol_positions send positions symbol t = ([], Inr ())"
proof -
  have "close_each send symbol t False t = ([], Inr (t \<noteq> []))"
    using close_each_removes [OF assms(1,3)] by (auto simp: filter_empty_conv)
  then show ?thesis using assms(2) by (simp add: close_symbol_positions_def eval_nat_numeral)
qed

end
