(* ===== verification/Spec2Isabelle.thy ===== *)
theory Spec2Isabelle
  imports Registry Feed_Converter Feed_Gateway Venue_Profile Parse_Data Provider Exec_Account
    Exec_Reports Data_Facts EA_Adviser Bridge_System Factory_Facts Feed_Ticks Client_Sockets Account_Summary
    Venue_Modes Homologation
begin

text \<open>
  A model of nt\_mt5, the adapter that connects the NautilusTrader platform to a MetaTrader 5 terminal, and the
  theorems that make it correct, or show where it is not. Paths below are relative to \<^verbatim>\<open>src/\<close>; the adapter is
  the package \<^verbatim>\<open>nautilus_mt5\<close>.

  \<^bold>\<open>The program.\<close> The platform drives a data client (\<^verbatim>\<open>data.py\<close>) and an execution client (\<^verbatim>\<open>execution.py\<close>).
  Both share one client of the terminal (\<^verbatim>\<open>client/\<close>), which factories make and share (\<^verbatim>\<open>factories.py\<close>). The client
  reaches the terminal in one of three ways: through a wrapper of an RPyC connection
  (\<^verbatim>\<open>metatrader5/MetaTrader5.py\<close>) with a bridge service at its other end
  (\<^verbatim>\<open>MQL5/refactoring/bridge/mt5_bridge_v007.py\<close>), through a wrapper of the module of a local terminal
  (\<^verbatim>\<open>metatrader5/local_python.py\<close>), or through the text protocol of an expert adviser
  (\<^verbatim>\<open>metatrader5/ea_client.py\<close>, answered by \<^verbatim>\<open>MQL5/Include/MT5Ext\<close>). Live ticks and bars come another way: a
  service inside the terminal (\<^verbatim>\<open>MQL5/refactoring/Services/NT5TickFeedService.mq5\<close>) connects to a WebSocket server
  of the data client (\<^verbatim>\<open>feed/\<close>) and sends them as JSON.

  \<^bold>\<open>Foundations.\<close> \<open>Nt5_Prelude\<close>: exceptions as the datatype \<open>py_exc\<close>, results \<open>py_exc + 'a\<close> with \<open>bindR\<close> and
  \<open>traverse\<close>, dictionaries that keep the order of insertion. \<open>Py_Text\<close>, \<open>Py_Num\<close>, \<open>Py_Json\<close>: strings, binary64
  numbers with their rounding, and the JSON reader and writer of Python. The reader runs on fuel of one more than
  the length of its text. The locale \<open>float_writer\<close> states what a writer of floats owes to be read back;
  it is interpreted for Python's writer and for the \<^verbatim>\<open>%.8f\<close> of the feed service.

  \<^bold>\<open>The client of the terminal.\<close>
  \<open>Registry\<close> (\<^verbatim>\<open>common.py\<close>): the registries of requests and subscriptions; the locale \<open>registry\<close> is their
  contract, interpreted on both.
  \<open>Client_Core\<close>, \<open>Client_Life\<close>, \<open>Life_Facts\<close> (\<^verbatim>\<open>client/client.py\<close>, \<^verbatim>\<open>client/connection.py\<close>): request ids, futures,
  queues, the handshake, start, stop, reset and the watchdog. A coroutine is modelled from one suspension to the
  next, a task is an entry of the list \<open>l_jobs\<close>; the start loop is run on the list of what its handshakes meet,
  one entry per attempt, and the theorems say how many attempts are made and how each of them can end.
  \<open>Client_Orders\<close> (\<^verbatim>\<open>client/order.py\<close>, \<^verbatim>\<open>client/account.py\<close>): requests to the terminal, the routing of its order
  events and the conversion of rows. \<open>Account_Summary\<close>: the account query, the subscription to summaries, lists of
  orders and prices.
  \<open>Client_Sockets\<close> (\<^verbatim>\<open>client/sockets.py\<close>): a client of two sockets and its subclasses; nothing creates them, and the
  lemmas say which of their operations can work.
  \<open>Provider\<close> (\<^verbatim>\<open>client/symbol.py\<close>, \<^verbatim>\<open>providers.py\<close>), \<open>Instruments\<close> (\<^verbatim>\<open>parsing/instruments.py\<close>), \<open>Venue_Profile\<close>
  (\<^verbatim>\<open>venue_profile.py\<close>): symbols, contracts and what a broker is trusted with. \<open>Venue_Modes\<close>: the constants of the
  profile against those of the terminal.
  \<open>Market_Data\<close>, \<open>Market_Facts\<close> (\<^verbatim>\<open>client/market_data.py\<close>, \<^verbatim>\<open>client/tick_poll.py\<close>): subscriptions, the polling of
  quotes, bars and their revisions, history. \<open>Parse_Data\<close> (\<^verbatim>\<open>parsing/data.py\<close>, \<^verbatim>\<open>parsing/rates.py\<close>) and
  \<open>Parse_Execution\<close> (\<^verbatim>\<open>parsing/execution.py\<close>) hold the translations they use.
  \<open>Client_Factory\<close>, \<open>Factory_Facts\<close> (\<^verbatim>\<open>factories.py\<close>, \<^verbatim>\<open>config.py\<close>, \<^verbatim>\<open>terminal.py\<close>): which configurations share a
  client, what a printed configuration reveals, the terminal in a container.

  \<^bold>\<open>The clients of the platform.\<close>
  \<open>Data_Client\<close>, \<open>Data_Facts\<close> (\<^verbatim>\<open>data.py\<close>): a step relation over connections, feed frames, subscriptions and
  requests, with the invariant of its reachable states; the loop over the history of ticks runs on fuel, one unit
  per query, and the theorems say when some fuel suffices and when none does.
  \<open>Exec_Client\<close>, \<open>Exec_Reports\<close>, \<open>Exec_Account\<close> (\<^verbatim>\<open>execution.py\<close>): submission, modification and cancellation of
  orders with the events they generate, reports for reconciliation, and the account.

  \<^bold>\<open>The feed.\<close>
  \<open>Wire_Messages\<close>, \<open>Feed_Converter\<close>, \<open>Feed_Handler\<close>, \<open>Feed_Gateway\<close> (\<^verbatim>\<open>feed/\<close>): messages, conversions, pending
  subscriptions (the locale \<open>pending_marks\<close>, interpreted for symbols and for bars), the filters of ticks and bars,
  and the server as a step relation with its invariant.
  \<open>Feed_Service\<close> (\<^verbatim>\<open>NT5FeedWire.mqh\<close>, \<^verbatim>\<open>NT5TickFeedService.mq5\<close>): the other end, with integers of the width they
  have there. \<open>Feed_Texts\<close>: what each side writes the other reads. \<open>Feed_System\<close>: a subscription takes effect and
  is confirmed (the locale \<open>switching\<close>, interpreted for the four operations that turn a subscription on or off).
  \<open>Feed_Ticks\<close>: which ticks arrive; \<open>batches\<close> is the specification of the export that the service, its texts and
  the filter of the adapter together implement.

  \<^bold>\<open>The ways to the terminal.\<close>
  \<open>Terminal_Bridge\<close>, \<open>Bridge_Facts\<close> (\<^verbatim>\<open>metatrader5/MetaTrader5.py\<close>, \<^verbatim>\<open>utils.py\<close>, \<^verbatim>\<open>local_python.py\<close>): every call of
  the wrapper and the conversion of its answers to built-in data; an object of the other end that the connection
  does not copy stays remote, and the theorems say which ones these are. The conversion runs on a depth, the number of
  Python frames it may use; an answer nested less deeply is converted (theorem \<open>normalize_ends\<close>).
  \<open>Bridge_Service\<close>, \<open>Bridge_System\<close>: the service at the other end, and an order, a handshake and a request for bars
  through the whole chain.
  \<open>EA_Client\<close>, \<open>EA_Facts\<close>, \<open>EA_Adviser\<close> (\<^verbatim>\<open>metatrader5/ea_client.py\<close>, \<^verbatim>\<open>ea_sockets.py\<close>, \<^verbatim>\<open>errors.py\<close> and
  \<^verbatim>\<open>MT5Ext.mqh\<close>, \<^verbatim>\<open>rest-handlers.mqh\<close>): the text protocol and both its ends.

  \<^bold>\<open>Acceptance.\<close> \<open>Homologation\<close> (\<^verbatim>\<open>homologation/\<close>): the report of the acceptance runs and their exit code, their
  configuration, the probes of the bridge and of submitted orders, the closing of positions (five rounds, of which
  two are enough), and the verdicts of the scenarios for cancelled orders and streamed ticks.

  \<^bold>\<open>Parameters.\<close> The platform (constructors of instruments, prices, quantities, bars and money, its cache and
  engines), the event loop, the WebSocket and RPyC libraries, the module of the terminal, the terminal itself,
  Docker and the time zone database are arguments of the definitions that use them, or records of functions. What
  is relied on of them is a named hypothesis of the theorem, for instance \<open>copies_ok\<close> (\<^verbatim>\<open>CopyTicks\<close> returns ticks in
  the order of their times, none older than asked for), \<open>mass_status_documented\<close> (the mass status of the platform
  keeps reports under the order number of the venue, the last one under each) or \<open>answers_orders\<close>
  (\<^verbatim>\<open>order_send\<close> answers with the documented \<^verbatim>\<open>MqlTradeResult\<close>, which holds the request). The platform's constructors of money, balances and reports may refuse what they are given,
  those of quotes and bars are taken to accept it. Events given to the platform are lists, oldest first.

  \<^bold>\<open>Not modelled.\<close> Logging and printing everywhere. \<^verbatim>\<open>client/timeframe_agg.py\<close> is one call of the data frame
  library, \<^verbatim>\<open>metatrader5/data_stream.pyx\<close> a socket loop of the platform that nothing starts. The experts, indicators
  and libraries under \<^verbatim>\<open>MQL5/\<close> that the adapter does not talk to, the examples, the tests and the acceptance
  scenarios that are not named above, which only drive a live terminal, are left aside. Of the handlers of the
  adviser, those no request reaches are not modelled, apart from the row \<^verbatim>\<open>GetAllOpenPositions\<close> writes. Python's limit
  on nested containers is a parameter of the parser of frames and is left out of the other readers of JSON text;
  characters beyond ASCII in names are outside the theorems that say so.
\<close>

end
